(* ===== verification/Prelude.thy ===== *)
theory Prelude
  imports Main "HOL-Library.Word" "HOL-Library.Sublist"
begin

text \<open>
  Shared vocabulary of the development: Go results (a value, an error, or a panic), byte
  strings, Go slices and maps as association lists, and the generic lemmas every component
  uses.  A Go function with an \<open>error\<close> result returns a value of type \<open>'a res\<close>: \<open>Inr v\<close> on
  success, \<open>Inl (Err msg)\<close> for a returned error and \<open>Inl (Panic msg)\<close> where the code panics.
  The message is the constant text of the source's error; the values it interpolates are left
  out.
\<close>

section \<open>Results\<close>

datatype fault = Err string | Panic string

type_synonym 'a res = "fault + 'a"

type_synonym bytes = "8 word list"

named_theorems res_elims \<open>inversion rules for results\<close>

definition bind_res :: "'a res \<Rightarrow> ('a \<Rightarrow> 'b res) \<Rightarrow> 'b res" where
  "bind_res m f = (case m of Inl e \<Rightarrow> Inl e | Inr x \<Rightarrow> f x)"

text \<open>Go's \<open>errors.Wrap(err, msg)\<close>; a panic is not an error value and passes through.\<close>

definition wrap_err :: "string \<Rightarrow> 'a res \<Rightarrow> 'a res" where
  "wrap_err msg m = (case m of Inl (Err e) \<Rightarrow> Inl (Err (msg @ '': '' @ e)) | _ \<Rightarrow> m)"

text \<open>An error replaced by another one, its own text dropped.\<close>

definition replace_err :: "string \<Rightarrow> 'a res \<Rightarrow> 'a res" where
  "replace_err msg m = (case m of Inl (Err _) \<Rightarrow> Inl (Err msg) | _ \<Rightarrow> m)"

definition of_option :: "fault \<Rightarrow> 'a option \<Rightarrow> 'a res" where
  "of_option e m = (case m of None \<Rightarrow> Inl e | Some x \<Rightarrow> Inr x)"

definition is_ok :: "'a res \<Rightarrow> bool" where
  "is_ok m = (case m of Inl _ \<Rightarrow> False | Inr _ \<Rightarrow> True)"

definition panics :: "'a res \<Rightarrow> bool" where
  "panics m = (case m of Inl (Panic _) \<Rightarrow> True | _ \<Rightarrow> False)"

lemma bind_res_simps [simp]:
  "bind_res (Inl e) f = Inl e"
  "bind_res (Inr x) f = f x"
  by (simp_all add: bind_res_def)

lemma bind_res_cong [fundef_cong]:
  assumes "m = m'" and "\<And>x. m' = Inr x \<Longrightarrow> f x = f' x"
  shows "bind_res m f = bind_res m' f'"
  using assms by (auto simp: bind_res_def split: sum.splits)

lemma bind_res_Inr_iff:
  "bind_res m f = Inr y \<longleftrightarrow> (\<exists>x. m = Inr x \<and> f x = Inr y)"
  by (cases m) auto

lemma bind_res_Inl_iff:
  "bind_res m f = Inl e \<longleftrightarrow> m = Inl e \<or> (\<exists>x. m = Inr x \<and> f x = Inl e)"
  by (cases m) auto

lemma bind_res_InrE [res_elims, elim!]:
  assumes "bind_res m f = Inr y"
  obtains x where "m = Inr x" and "f x = Inr y"
  using assms by (auto simp: bind_res_Inr_iff)

lemma bind_res_assoc: "bind_res (bind_res m f) g = bind_res m (\<lambda>x. bind_res (f x) g)"
  by (cases m) auto

lemma wrap_err_simps [simp]:
  "wrap_err msg (Inr x) = Inr x"
  "wrap_err msg (Inl (Err e)) = Inl (Err (msg @ '': '' @ e))"
  "wrap_err msg (Inl (Panic e)) = Inl (Panic e)"
  by (simp_all add: wrap_err_def)

lemma wrap_err_Inr_iff [simp]: "wrap_err msg m = Inr x \<longleftrightarrow> m = Inr x"
  by (auto simp: wrap_err_def split: sum.splits fault.splits)

lemma replace_err_simps [simp]:
  "replace_err msg (Inr x) = Inr x"
  "replace_err msg (Inl (Err e)) = Inl (Err msg)"
  "replace_err msg (Inl (Panic e)) = Inl (Panic e)"
  by (simp_all add: replace_err_def)

lemma replace_err_Inr_iff [simp]: "replace_err msg m = Inr x \<longleftrightarrow> m = Inr x"
  by (auto simp: replace_err_def split: sum.splits fault.splits)

lemma panics_replace_err [simp]: "panics (replace_err msg m) \<longleftrightarrow> panics m"
  by (auto simp: panics_def replace_err_def split: sum.splits fault.splits)

lemma of_option_simps [simp]:
  "of_option e None = Inl e"
  "of_option e (Some x) = Inr x"
  by (simp_all add: of_option_def)

lemma of_option_Inr_iff [simp]: "of_option e m = Inr x \<longleftrightarrow> m = Some x"
  by (cases m) auto

lemma of_option_Inl_iff [simp]: "of_option e m = Inl e' \<longleftrightarrow> m = None \<and> e' = e"
  by (cases m) auto

lemma is_ok_simps [simp]: "is_ok (Inr x)" "\<not> is_ok (Inl e)"
  by (simp_all add: is_ok_def)

lemma is_ok_iff: "is_ok m \<longleftrightarrow> (\<exists>x. m = Inr x)"
  by (cases m) auto

lemma is_ok_bind [simp]: "is_ok (bind_res m f) \<longleftrightarrow> (\<exists>x. m = Inr x \<and> is_ok (f x))"
  by (cases m) auto

lemma is_ok_if [simp]: "is_ok (if c then x else y) \<longleftrightarrow> (if c then is_ok x else is_ok y)"
  by simp

lemma unit_res_ok_iff: "m = Inr () \<longleftrightarrow> is_ok m"
  by (cases m) auto

lemma panics_simps [simp]:
  "\<not> panics (Inr x)"
  "panics (Inl (Panic s))"
  "\<not> panics (Inl (Err s))"
  by (simp_all add: panics_def)

lemma panics_iff: "panics m \<longleftrightarrow> (\<exists>s. m = Inl (Panic s))"
  by (auto simp: panics_def split: sum.splits fault.splits)

lemma panics_bind [simp]: "panics (bind_res m f) \<longleftrightarrow> panics m \<or> (\<exists>x. m = Inr x \<and> panics (f x))"
  by (cases m) (auto simp: panics_def split: sum.splits fault.splits)

lemma panics_wrap_err [simp]: "panics (wrap_err msg m) \<longleftrightarrow> panics m"
  by (auto simp: panics_def wrap_err_def split: sum.splits fault.splits)

lemma panics_of_option [simp]: "panics (of_option (Err s) m) \<longleftrightarrow> False"
  by (cases m) auto

text \<open>A \<open>for\<close> loop over a slice that returns at the first error.\<close>

fun for_each :: "('a \<Rightarrow> unit res) \<Rightarrow> 'a list \<Rightarrow> unit res" where
  "for_each f [] = Inr ()"
| "for_each f (x # xs) = bind_res (f x) (\<lambda>_. for_each f xs)"

lemma for_each_ok_iff: "for_each f xs = Inr () \<longleftrightarrow> (\<forall>x \<in> set xs. f x = Inr ())"
  by (induction xs) (auto simp: bind_res_Inr_iff)

lemma is_ok_for_each [simp]: "is_ok (for_each f xs) \<longleftrightarrow> (\<forall>x \<in> set xs. is_ok (f x))"
  by (induction xs) (auto simp: is_ok_iff)

lemma panics_for_eachD: "panics (for_each f xs) \<Longrightarrow> \<exists>x \<in> set xs. panics (f x)"
  by (induction xs) auto

lemma for_each_cong [fundef_cong]:
  assumes "xs = ys" and "\<And>y. y \<in> set ys \<Longrightarrow> f y = g y"
  shows "for_each f xs = for_each g ys"
  using assms by (induction xs arbitrary: ys) auto

text \<open>A loop that maps each element to a result and collects the values.\<close>

fun map_res :: "('a \<Rightarrow> 'b res) \<Rightarrow> 'a list \<Rightarrow> 'b list res" where
  "map_res f [] = Inr []"
| "map_res f (x # xs) = bind_res (f x) (\<lambda>y. bind_res (map_res f xs) (\<lambda>ys. Inr (y # ys)))"

lemma map_res_Inr_iff:
  "map_res f xs = Inr ys \<longleftrightarrow> list_all2 (\<lambda>x y. f x = Inr y) xs ys"
  by (induction xs arbitrary: ys) (auto simp: bind_res_Inr_iff list_all2_Cons1)

lemma map_res_length: "map_res f xs = Inr ys \<Longrightarrow> length ys = length xs"
  by (simp add: map_res_Inr_iff list_all2_lengthD)

lemma map_res_nth: "map_res f xs = Inr ys \<Longrightarrow> k < length xs \<Longrightarrow> f (xs ! k) = Inr (ys ! k)"
  by (simp add: map_res_Inr_iff list_all2_conv_all_nth)

lemma map_res_pure [simp]: "map_res (\<lambda>x. Inr (f x)) xs = Inr (map f xs)"
  by (induction xs) auto

lemma map_res_all:
  "\<forall>x \<in> set xs. \<exists>y. f x = Inr y \<and> P y \<Longrightarrow> \<exists>ys. map_res f xs = Inr ys \<and> (\<forall>y \<in> set ys. P y)"
  by (induction xs) fastforce+

text \<open>
  A sequence of checks, each of which returns on failure: the first failure is the result.
  \<open>fail_if\<close> is one \<open>if\<close> with a returned error, \<open>checked\<close> a call whose value is not used.
\<close>

named_theorems check_simps \<open>evaluation of sequences of checks\<close>

definition first_error :: "unit res list \<Rightarrow> unit res" where
  "first_error cs = for_each (\<lambda>c. c) cs"

definition fail_if :: "bool \<Rightarrow> string \<Rightarrow> unit res" where
  "fail_if bad e = (if bad then Inl (Err e) else Inr ())"

definition checked :: "'a res \<Rightarrow> unit res" where
  "checked m = bind_res m (\<lambda>_. Inr ())"

lemma first_error_simps [check_simps]:
  "first_error [] = Inr ()"
  "first_error (c # cs) = bind_res c (\<lambda>_. first_error cs)"
  by (simp_all add: first_error_def)

lemma first_error_ok_iff: "first_error cs = Inr () \<longleftrightarrow> (\<forall>c \<in> set cs. c = Inr ())"
  by (simp add: first_error_def for_each_ok_iff)

lemma panics_first_errorD: "panics (first_error cs) \<Longrightarrow> \<exists>c \<in> set cs. panics c"
  by (auto simp: first_error_def dest: panics_for_eachD)

lemma fail_if_ok_iff [simp]: "fail_if bad e = Inr () \<longleftrightarrow> \<not> bad"
  by (simp add: fail_if_def)

lemma is_ok_fail_if [simp]: "is_ok (fail_if bad e) \<longleftrightarrow> \<not> bad"
  by (simp add: fail_if_def)

lemma panics_fail_if [simp]: "\<not> panics (fail_if bad e)"
  by (simp add: fail_if_def)

lemma checked_ok_iff [simp]: "checked m = Inr () \<longleftrightarrow> (\<exists>x. m = Inr x)"
  by (cases m) (simp_all add: checked_def)

lemma panics_checked [simp]: "panics (checked m) \<longleftrightarrow> panics m"
  by (cases m) (simp_all add: checked_def panics_def)

section \<open>Bytes and slices\<close>

text \<open>
  A Go \<open>string\<close> is a sequence of bytes: HOL's \<open>string\<close> is the same, and \<open>to_bytes\<close> is
  \<open>[]byte(s)\<close>.
\<close>

definition to_bytes :: "string \<Rightarrow> bytes" where
  "to_bytes s = map of_char s"

lemma length_to_bytes [simp]: "length (to_bytes s) = length s"
  by (simp add: to_bytes_def)

lemma to_bytes_append [simp]: "to_bytes (s @ t) = to_bytes s @ to_bytes t"
  by (simp add: to_bytes_def)

text \<open>\<open>copy(make([]byte, n), b)\<close>: \<open>b\<close> cut or padded with zeros on the right to \<open>n\<close> bytes.\<close>

definition pad_right :: "nat \<Rightarrow> bytes \<Rightarrow> bytes" where
  "pad_right n b = take n b @ replicate (n - length b) 0"

lemma length_pad_right [simp]: "length (pad_right n b) = n"
  by (simp add: pad_right_def)

text \<open>\<open>s[i]\<close>: out of range is a panic.\<close>

definition index_at :: "'a list \<Rightarrow> nat \<Rightarrow> 'a res" where
  "index_at xs i = (if i < length xs then Inr (xs ! i) else Inl (Panic ''index out of range''))"

lemma index_at_Inr_iff: "index_at xs i = Inr x \<longleftrightarrow> i < length xs \<and> xs ! i = x"
  by (auto simp: index_at_def)

lemma panics_index_at [simp]: "panics (index_at xs i) \<longleftrightarrow> length xs \<le> i"
  by (auto simp: index_at_def)

section \<open>Machine words\<close>

lemma unat_of_nat_small: "n < 2 ^ LENGTH('a) \<Longrightarrow> unat (of_nat n :: 'a::len word) = n"
  by (simp add: unsigned_of_nat take_bit_nat_eq_self)

lemma of_nat_le_word:
  "m \<le> n \<Longrightarrow> n < 2 ^ LENGTH('a) \<Longrightarrow> (of_nat m :: 'a::len word) \<le> of_nat n"
  by (simp add: word_le_nat_alt unat_of_nat_small)

lemma of_nat_inj_word:
  "m < 2 ^ LENGTH('a) \<Longrightarrow> n < 2 ^ LENGTH('a) \<Longrightarrow> (of_nat m :: 'a::len word) = of_nat n \<longleftrightarrow> m = n"
  by (metis unat_of_nat_small)

section \<open>Maps as association lists\<close>

text \<open>
  A Go map is an association list; the order is one order in which \<open>range\<close> may visit it, and
  the number of entries is the number of distinct keys.
\<close>

definition map_len :: "('k \<times> 'v) list \<Rightarrow> nat" where
  "map_len m = length (remdups (map fst m))"

lemma map_len_card: "map_len m = card (fst ` set m)"
  by (simp add: map_len_def length_remdups_card_conv)

lemma map_of_eq_None_fst: "map_of m k = None \<longleftrightarrow> k \<notin> fst ` set m"
  by (rule map_of_eq_None_iff)

lemma map_of_permutation:
  assumes "distinct (map fst m)" and "set m' = set m" and "distinct (map fst m')"
  shows "map_of m' = map_of m"
  using assms by (metis map_of_inject_set)

end
