(* ===== verification/Go_Strings.thy ===== *)
theory Go_Strings
  imports Prelude
begin

text \<open>
  The routines of Go's standard library (\<open>strings\<close>, \<open>strconv\<close>, \<open>encoding/hex\<close>,
  \<open>encoding/binary\<close>) that the program uses, over byte strings, with the laws the components
  rely on.  Character classes are the ASCII ones.
\<close>

section \<open>Characters\<close>

definition char_code :: "char \<Rightarrow> nat" where
  "char_code c = of_char c"

definition is_digit :: "char \<Rightarrow> bool" where
  "is_digit c \<longleftrightarrow> 48 \<le> char_code c \<and> char_code c \<le> 57"

definition is_upper :: "char \<Rightarrow> bool" where
  "is_upper c \<longleftrightarrow> 65 \<le> char_code c \<and> char_code c \<le> 90"

definition is_lower :: "char \<Rightarrow> bool" where
  "is_lower c \<longleftrightarrow> 97 \<le> char_code c \<and> char_code c \<le> 122"

definition is_ascii :: "char \<Rightarrow> bool" where
  "is_ascii c \<longleftrightarrow> char_code c < 128"

text \<open>The class \<open>\w\<close> of Go's regular expressions.\<close>

definition is_word :: "char \<Rightarrow> bool" where
  "is_word c \<longleftrightarrow> is_digit c \<or> is_upper c \<or> is_lower c \<or> c = CHR ''_''"

text \<open>The white space \<open>strings.TrimSpace\<close> removes.\<close>

definition is_space :: "char \<Rightarrow> bool" where
  "is_space c \<longleftrightarrow> char_code c \<in> {9, 10, 11, 12, 13, 32}"

definition upper_char :: "char \<Rightarrow> char" where
  "upper_char c = (if is_lower c then char_of (char_code c - 32) else c)"

lemma is_word_bracket [simp]: "\<not> is_word CHR ''[''" "\<not> is_word CHR '']''"
  by (simp_all add: is_word_def is_digit_def is_upper_def is_lower_def char_code_def)

section \<open>strings\<close>

definition has_prefix :: "string \<Rightarrow> string \<Rightarrow> bool" where
  "has_prefix s p \<longleftrightarrow> prefix p s"

definition has_suffix :: "string \<Rightarrow> string \<Rightarrow> bool" where
  "has_suffix s p \<longleftrightarrow> suffix p s"

definition trim_prefix :: "string \<Rightarrow> string \<Rightarrow> string" where
  "trim_prefix s p = (if has_prefix s p then drop (length p) s else s)"

definition trim_suffix :: "string \<Rightarrow> string \<Rightarrow> string" where
  "trim_suffix s p = (if has_suffix s p then take (length s - length p) s else s)"

lemma has_prefix_append [simp]: "has_prefix (p @ s) p"
  by (simp add: has_prefix_def)

lemma has_suffix_append [simp]: "has_suffix (s @ p) p"
  by (simp add: has_suffix_def suffix_def)

lemma trim_prefix_append [simp]: "trim_prefix (p @ s) p = s"
  by (simp add: trim_prefix_def)

lemma trim_suffix_append [simp]: "trim_suffix (s @ p) p = s"
  by (simp add: trim_suffix_def)

lemma trim_suffix_id [simp]: "\<not> has_suffix s p \<Longrightarrow> trim_suffix s p = s"
  by (simp add: trim_suffix_def)

fun contains_str :: "string \<Rightarrow> string \<Rightarrow> bool" where
  "contains_str [] p = (p = [])"
| "contains_str (c # s) p = (prefix p (c # s) \<or> contains_str s p)"

lemma contains_str_iff: "contains_str s p \<longleftrightarrow> sublist p s"
  by (induction s) (auto simp: sublist_Cons_right)

text \<open>\<open>strings.Split(s, sep)\<close> for a separator of one character.\<close>

fun split_char :: "char \<Rightarrow> string \<Rightarrow> string list" where
  "split_char sep [] = [[]]"
| "split_char sep (c # s) =
     (if c = sep then [] # split_char sep s
      else (case split_char sep s of [] \<Rightarrow> [[c]] | w # ws \<Rightarrow> (c # w) # ws))"

lemma split_char_nonempty [simp]: "split_char sep s \<noteq> []"
  by (cases s) (auto split: list.splits)

lemma split_char_no_sep: "sep \<notin> set s \<Longrightarrow> split_char sep s = [s]"
  by (induction s) auto

lemma split_char_append_sep:
  "sep \<notin> set s \<Longrightarrow> split_char sep (s @ sep # t) = s # split_char sep t"
  by (induction s) auto

lemma hd_split_char: "hd (split_char sep s) = takeWhile (\<lambda>c. c \<noteq> sep) s"
proof (induction s)
  case (Cons c s)
  obtain w ws where sp: "split_char sep s = w # ws"
    by (cases "split_char sep s") auto
  have "w = takeWhile (\<lambda>c. c \<noteq> sep) s"
    using Cons.IH sp by simp
  then show ?case by (simp add: sp)
qed simp

fun join_char :: "char \<Rightarrow> string list \<Rightarrow> string" where
  "join_char sep [] = []"
| "join_char sep [w] = w"
| "join_char sep (w # ws) = w @ sep # join_char sep ws"

lemma join_char_Cons: "ws \<noteq> [] \<Longrightarrow> join_char sep (w # ws) = w @ sep # join_char sep ws"
  by (cases ws) auto

lemma join_split_char: "join_char sep (split_char sep s) = s"
proof (induction s)
  case (Cons c s)
  obtain w ws where sp: "split_char sep s = w # ws"
    by (cases "split_char sep s") auto
  then show ?case
    using Cons.IH by (cases ws) auto
qed simp

text \<open>\<open>strings.SplitN(s, sep, 2)\<close>: at most one cut, at the first occurrence.\<close>

fun split2 :: "string \<Rightarrow> string \<Rightarrow> string list" where
  "split2 sep [] = [[]]"
| "split2 sep (c # s) =
     (if prefix sep (c # s) then [[], drop (length sep) (c # s)]
      else (case split2 sep s of [w] \<Rightarrow> [c # w] | [w, r] \<Rightarrow> [c # w, r] | ws \<Rightarrow> ws))"

lemma split2_cases: "(\<exists>w. split2 sep s = [w]) \<or> (\<exists>w r. split2 sep s = [w, r])"
  by (induction s) (auto split: list.splits)

text \<open>A separator splits a string at its first occurrence in one way only.\<close>

lemma split_first_unique:
  "c \<notin> set xs \<Longrightarrow> c \<notin> set ys \<Longrightarrow> xs @ c # zs = ys @ c # us \<longleftrightarrow> xs = ys \<and> zs = us"
proof (induction xs arbitrary: ys)
  case Nil
  then show ?case by (cases ys) auto
next
  case (Cons x xs)
  then show ?case by (cases ys) auto
qed

text \<open>\<open>strings.TrimSpace\<close>.\<close>

definition trim_space :: "string \<Rightarrow> string" where
  "trim_space s = rev (dropWhile is_space (rev (dropWhile is_space s)))"

lemma trim_space_id:
  assumes "s \<noteq> [] \<Longrightarrow> \<not> is_space (hd s)" and "s \<noteq> [] \<Longrightarrow> \<not> is_space (last s)"
  shows "trim_space s = s"
proof (cases "s = []")
  case False
  then have "dropWhile is_space s = s"
    using assms(1) by (simp add: dropWhile_eq_self_iff)
  moreover have "dropWhile is_space (rev s) = rev s"
    using assms(2) False by (simp add: dropWhile_eq_self_iff hd_rev)
  ultimately show ?thesis by (simp add: trim_space_def)
qed (simp add: trim_space_def)

text \<open>\<open>strings.Title\<close>: upper-case every letter that follows a separator (or starts the string).\<close>

definition title_sep :: "char \<Rightarrow> bool" where
  "title_sep c \<longleftrightarrow> is_ascii c \<and> \<not> is_word c"

fun title_from :: "char \<Rightarrow> string \<Rightarrow> string" where
  "title_from prev [] = []"
| "title_from prev (c # s) = (if title_sep prev then upper_char c else c) # title_from c s"

definition title :: "string \<Rightarrow> string" where
  "title s = title_from CHR '' '' s"

lemma length_title_from [simp]: "length (title_from p s) = length s"
  by (induction s arbitrary: p) auto

lemma length_title [simp]: "length (title s) = length s"
  by (simp add: title_def)

section \<open>strconv and encoding/hex\<close>

definition digit_val :: "char \<Rightarrow> nat" where
  "digit_val c = char_code c - 48"

text \<open>The value of a string of decimal digits, read from the left.\<close>

fun dec_acc :: "nat \<Rightarrow> string \<Rightarrow> nat option" where
  "dec_acc n [] = Some n"
| "dec_acc n (c # s) = (if is_digit c then dec_acc (10 * n + digit_val c) s else None)"

definition parse_dec :: "string \<Rightarrow> nat option" where
  "parse_dec s = (if s = [] then None else dec_acc 0 s)"

lemma dec_acc_Some_iff: "(\<exists>v. dec_acc n s = Some v) \<longleftrightarrow> list_all is_digit s"
  by (induction s arbitrary: n) auto

lemma dec_acc_append:
  "dec_acc n (s @ t) = (case dec_acc n s of None \<Rightarrow> None | Some m \<Rightarrow> dec_acc m t)"
  by (induction s arbitrary: n) auto

lemma parse_dec_Some_iff: "(\<exists>v. parse_dec s = Some v) \<longleftrightarrow> s \<noteq> [] \<and> list_all is_digit s"
  by (simp add: parse_dec_def dec_acc_Some_iff)

lemma parse_dec_None: "\<not> list_all is_digit s \<Longrightarrow> parse_dec s = None"
  by (metis parse_dec_Some_iff not_Some_eq)

text \<open>\<open>strconv.ParseUint(s, 10, 64)\<close>: digits only, no sign, within 64 bits.\<close>

definition parse_uint64 :: "string \<Rightarrow> nat res" where
  "parse_uint64 s =
     (case parse_dec s of
        None \<Rightarrow> Inl (Err ''strconv.ParseUint: invalid syntax'')
      | Some v \<Rightarrow> if v < 2 ^ 64 then Inr v else Inl (Err ''strconv.ParseUint: value out of range''))"

text \<open>\<open>strconv.Atoi\<close>: an optional sign, then digits, within the 64-bit \<open>int\<close>.\<close>

definition signed_dec :: "string \<Rightarrow> int option" where
  "signed_dec s =
     (case s of
        [] \<Rightarrow> None
      | c # t \<Rightarrow>
          if c = CHR ''-'' then map_option (\<lambda>v. - int v) (parse_dec t)
          else if c = CHR ''+'' then map_option int (parse_dec t)
          else map_option int (parse_dec s))"

definition atoi :: "string \<Rightarrow> int option" where
  "atoi s =
     (case signed_dec s of
        None \<Rightarrow> None
      | Some v \<Rightarrow> if - (2 ^ 63) \<le> v \<and> v < 2 ^ 63 then Some v else None)"

text \<open>The decimal digits of a number, as \<open>%d\<close> prints them.\<close>

fun dec_string :: "nat \<Rightarrow> string" where
  "dec_string n =
     (if n < 10 then [char_of (48 + n)] else dec_string (n div 10) @ [char_of (48 + n mod 10)])"

declare dec_string.simps [simp del]

lemma char_code_of_digit: "d < 10 \<Longrightarrow> char_code (char_of (48 + d)) = 48 + d"
  by (simp add: char_code_def)

lemma digit_char [simp]:
  "d < 10 \<Longrightarrow> is_digit (char_of (48 + d))"
  "d < 10 \<Longrightarrow> digit_val (char_of (48 + d)) = d"
  by (simp_all add: is_digit_def digit_val_def char_code_of_digit)

lemma dec_string_nonempty [simp]: "dec_string n \<noteq> []"
  by (subst dec_string.simps) simp

lemma dec_acc_dec_string: "dec_acc 0 (dec_string n) = Some n"
proof (induction n rule: dec_string.induct)
  case (1 n)
  show ?case
  proof (cases "n < 10")
    case True
    then show ?thesis by (simp add: dec_string.simps [of n])
  next
    case False
    with 1 have "dec_acc 0 (dec_string (n div 10)) = Some (n div 10)" by simp
    with False show ?thesis
      by (simp add: dec_string.simps [of n] dec_acc_append)
  qed
qed

lemma parse_dec_string [simp]: "parse_dec (dec_string n) = Some n"
  by (simp add: parse_dec_def dec_acc_dec_string)

lemma dec_string_digits: "list_all is_digit (dec_string n)"
  using parse_dec_Some_iff [of "dec_string n"] by auto

text \<open>\<open>hex.DecodeString\<close>: pairs of hexadecimal digits of either case.\<close>

definition hex_val :: "char \<Rightarrow> nat option" where
  "hex_val c =
     (if is_digit c then Some (char_code c - 48)
      else if 97 \<le> char_code c \<and> char_code c \<le> 102 then Some (char_code c - 87)
      else if 65 \<le> char_code c \<and> char_code c \<le> 70 then Some (char_code c - 55)
      else None)"

fun hex_decode :: "string \<Rightarrow> bytes option" where
  "hex_decode [] = Some []"
| "hex_decode [c] = None"
| "hex_decode (c # d # s) =
     (case (hex_val c, hex_val d, hex_decode s) of
        (Some h, Some l, Some b) \<Rightarrow> Some (word_of_nat (16 * h + l) # b)
      | _ \<Rightarrow> None)"

definition hex_digit :: "nat \<Rightarrow> char" where
  "hex_digit n = char_of (if n < 10 then 48 + n else 87 + n)"

fun hex_encode :: "bytes \<Rightarrow> string" where
  "hex_encode [] = []"
| "hex_encode (b # bs) = hex_digit (unat b div 16) # hex_digit (unat b mod 16) # hex_encode bs"

lemma hex_val_digit [simp]: "n < 16 \<Longrightarrow> hex_val (hex_digit n) = Some n"
  by (auto simp: hex_val_def hex_digit_def is_digit_def char_code_def)

lemma length_hex_encode [simp]: "length (hex_encode b) = 2 * length b"
  by (induction b) auto

lemma hex_decode_encode [simp]: "hex_decode (hex_encode b) = Some b"
proof (induction b)
  case (Cons x b)
  have "unat x < 256" using unsigned_less [of x] by simp
  then have "unat x div 16 < 16" "unat x mod 16 < 16" by simp_all
  moreover have "16 * (unat x div 16) + unat x mod 16 = unat x" by simp
  ultimately show ?case
    using Cons.IH by (simp del: hex_val_digit add: hex_val_digit [of "unat x div 16"] hex_val_digit [of "unat x mod 16"])
qed simp

lemma hex_decode_length: "hex_decode s = Some b \<Longrightarrow> length s = 2 * length b"
  by (induction s arbitrary: b rule: hex_decode.induct) (auto split: option.splits)

end
