(* ===== verification/Typed_Types.thy ===== *)
theory Typed_Types
  imports Go_Strings "HOL-Library.List_Lexorder" "HOL-Library.Char_ord"
begin

text \<open>
  The type side of EIP-712 (\<open>chain/app/ante/typeddata/typed_data.go\<close>): the table of struct
  types, its validation (\<open>Types.validate\<close>, \<open>isPrimitiveTypeValid\<close>), the dependency
  closure of a type (\<open>Dependencies\<close>) and its canonical encoding (\<open>EncodeType\<close>).  The
  lemmas show that validation does not depend on the order in which Go ranges over the map, that
  \<open>Dependencies\<close> is exactly the set of types reachable from the primary type, and what
  \<open>EncodeType\<close> prints.
\<close>

section \<open>The type table\<close>

record typ_field =
  fname :: string
  ftype :: string

text \<open>
  \<open>type Types map[string][]Type\<close>.  A slice value may be nil (\<open>None\<close>); \<open>T[k] == nil\<close> holds
  for a missing key and for a nil slice, \<open>_, exist := T[k]\<close> only asks for the key.
\<close>

type_synonym types = "(string \<times> typ_field list option) list"

definition slice_at :: "types \<Rightarrow> string \<Rightarrow> typ_field list option" where
  "slice_at T k = (case map_of T k of None \<Rightarrow> None | Some fs \<Rightarrow> fs)"

definition fields_at :: "types \<Rightarrow> string \<Rightarrow> typ_field list" where
  "fields_at T k = (case slice_at T k of None \<Rightarrow> [] | Some fs \<Rightarrow> fs)"

definition has_key :: "types \<Rightarrow> string \<Rightarrow> bool" where
  "has_key T k \<longleftrightarrow> map_of T k \<noteq> None"

text \<open>\<open>Type.isArray\<close>, \<open>Type.typeName\<close>, \<open>Type.isReferenceType\<close>.\<close>

definition is_array :: "typ_field \<Rightarrow> bool" where
  "is_array f \<longleftrightarrow> has_suffix (ftype f) ''[]''"

definition type_name :: "typ_field \<Rightarrow> string" where
  "type_name f = (if has_suffix (ftype f) ''[]'' then trim_suffix (ftype f) ''[]'' else ftype f)"

text \<open>
  \<open>unicode.IsUpper\<close> of the first rune.  For an ASCII first byte it is \<open>A-Z\<close>; \<open>U\<close> stands for
  the Unicode tables, asked only for a string that starts with another rune.
\<close>

definition is_reference_type :: "(string \<Rightarrow> bool) \<Rightarrow> typ_field \<Rightarrow> bool" where
  "is_reference_type U f =
     (case ftype f of
        [] \<Rightarrow> False
      | c # _ \<Rightarrow> if is_ascii c then is_upper c else U (ftype f))"

text \<open>\<open>^[A-Z](\w*)(\[\])?$\<close>\<close>

definition reference_regexp :: "string \<Rightarrow> bool" where
  "reference_regexp s =
     (case s of
        [] \<Rightarrow> False
      | c # cs \<Rightarrow> is_upper c \<and> list_all is_word (trim_suffix cs ''[]''))"

definition prim_base :: "string list" where
  "prim_base =
     [''address'', ''bool'', ''string'', ''bytes'',
      ''bytes1'', ''bytes2'', ''bytes3'', ''bytes4'', ''bytes5'', ''bytes6'', ''bytes7'', ''bytes8'',
      ''bytes9'', ''bytes10'', ''bytes11'', ''bytes12'', ''bytes13'', ''bytes14'', ''bytes15'',
      ''bytes16'', ''bytes17'', ''bytes18'', ''bytes19'', ''bytes20'', ''bytes21'', ''bytes22'',
      ''bytes23'', ''bytes24'', ''bytes25'', ''bytes26'', ''bytes27'', ''bytes28'', ''bytes29'',
      ''bytes30'', ''bytes31'', ''bytes32'',
      ''int'', ''int8'', ''int16'', ''int32'', ''int64'', ''int128'', ''int256'',
      ''uint'', ''uint8'', ''uint16'', ''uint32'', ''uint64'', ''uint128'', ''uint256'']"

definition is_primitive_type_valid :: "string \<Rightarrow> bool" where
  "is_primitive_type_valid s \<longleftrightarrow>
     s \<in> set prim_base \<or> s \<in> set (map (\<lambda>p. p @ ''[]'') prim_base)"

section \<open>Types.validate\<close>

definition validate_field :: "(string \<Rightarrow> bool) \<Rightarrow> types \<Rightarrow> string \<Rightarrow> typ_field \<Rightarrow> unit res" where
  "validate_field U T key f =
     (if ftype f = [] then Inl (Err ''empty Type'')
      else if fname f = [] then Inl (Err ''empty Name'')
      else if key = ftype f then Inl (Err ''type cannot reference itself'')
      else if is_reference_type U f then
        (if \<not> has_key T (type_name f) then Inl (Err ''reference type is undefined'')
         else if \<not> reference_regexp (ftype f) then Inl (Err ''unknown reference type'')
         else Inr ())
      else if \<not> is_primitive_type_valid (ftype f) then Inl (Err ''unknown type'')
      else Inr ())"

definition validate_entry :: "(string \<Rightarrow> bool) \<Rightarrow> types \<Rightarrow> string \<times> typ_field list option \<Rightarrow> unit res" where
  "validate_entry U T e =
     (if fst e = [] then Inl (Err ''empty type key'')
      else for_each (validate_field U T (fst e)) (case snd e of None \<Rightarrow> [] | Some fs \<Rightarrow> fs))"

definition validate_types :: "(string \<Rightarrow> bool) \<Rightarrow> types \<Rightarrow> unit res" where
  "validate_types U T = for_each (validate_entry U T) T"

text \<open>What a validated field looks like, whatever the Unicode tables say.\<close>

definition field_wf :: "types \<Rightarrow> string \<Rightarrow> typ_field \<Rightarrow> bool" where
  "field_wf T key f \<longleftrightarrow>
     ftype f \<noteq> [] \<and> fname f \<noteq> [] \<and> key \<noteq> ftype f \<and>
     (is_primitive_type_valid (ftype f) \<or>
      reference_regexp (ftype f) \<and> has_key T (type_name f))"

definition plain_head :: "string \<Rightarrow> bool" where
  "plain_head s \<longleftrightarrow> (case s of [] \<Rightarrow> False | c # _ \<Rightarrow> is_ascii c \<and> \<not> is_upper c)"

lemma prim_base_plain: "list_all plain_head prim_base"
  by code_simp

lemma prim_base_head: "s \<in> set prim_base \<Longrightarrow> \<exists>c cs. s = c # cs \<and> is_ascii c \<and> \<not> is_upper c"
  using prim_base_plain by (cases s) (auto simp: list_all_iff plain_head_def)

lemma primitive_head:
  "is_primitive_type_valid s \<Longrightarrow> \<exists>c cs. s = c # cs \<and> is_ascii c \<and> \<not> is_upper c"
  using prim_base_head by (fastforce simp: is_primitive_type_valid_def)

lemma upper_ascii: "is_upper c \<Longrightarrow> is_ascii c"
  by (simp add: is_upper_def is_ascii_def)

lemma primitive_not_reference: "is_primitive_type_valid (ftype f) \<Longrightarrow> \<not> is_reference_type U f"
  by (drule primitive_head) (auto simp: is_reference_type_def)

lemma regexp_reference: "reference_regexp (ftype f) \<Longrightarrow> is_reference_type U f"
  by (auto simp: reference_regexp_def is_reference_type_def upper_ascii split: list.splits)

lemma validate_field_ok: "validate_field U T key f = Inr () \<longleftrightarrow> field_wf T key f"
  using primitive_not_reference [of f U] regexp_reference [of f U]
  by (auto simp: validate_field_def field_wf_def)

lemma validate_field_no_panic [simp]: "\<not> panics (validate_field U T key f)"
  by (simp add: validate_field_def)

definition types_wf :: "types \<Rightarrow> bool" where
  "types_wf T \<longleftrightarrow>
     (\<forall>(k, fs) \<in> set T. k \<noteq> [] \<and> (\<forall>f \<in> set (case fs of None \<Rightarrow> [] | Some l \<Rightarrow> l). field_wf T k f))"

lemma validate_types_ok: "validate_types U T = Inr () \<longleftrightarrow> types_wf T"
proof -
  have "validate_entry U T e = Inr () \<longleftrightarrow>
      fst e \<noteq> [] \<and> (\<forall>f \<in> set (case snd e of None \<Rightarrow> [] | Some l \<Rightarrow> l). field_wf T (fst e) f)" for e
    by (simp add: validate_entry_def for_each_ok_iff validate_field_ok)
  then show ?thesis
    by (simp add: validate_types_def types_wf_def for_each_ok_iff split_beta)
qed

lemma validate_types_no_panic: "\<not> panics (validate_types U T)"
proof
  assume "panics (validate_types U T)"
  then obtain e where "e \<in> set T" "panics (validate_entry U T e)"
    unfolding validate_types_def using panics_for_eachD by blast
  then show False
    by (auto simp: validate_entry_def split: if_splits dest!: panics_for_eachD)
qed

lemma types_wf_fields:
  assumes "types_wf T" and "f \<in> set (fields_at T k)"
  shows "field_wf T k f"
proof -
  from assms(2) obtain fs where "map_of T k = Some (Some fs)" "f \<in> set fs"
    by (auto simp: fields_at_def slice_at_def split: option.splits)
  then have "(k, Some fs) \<in> set T" by (blast dest: map_of_SomeD)
  with assms(1) have "\<forall>f \<in> set fs. field_wf T k f"
    by (auto simp: types_wf_def)
  with \<open>f \<in> set fs\<close> show ?thesis by blast
qed

lemma has_key_permute: "set T' = set T \<Longrightarrow> has_key T' k = has_key T k"
  by (simp add: has_key_def map_of_eq_None_iff)

lemma types_wf_permute:
  assumes "set T' = set T"
  shows "types_wf T' \<longleftrightarrow> types_wf T"
  by (simp add: types_wf_def field_wf_def has_key_permute [OF assms] assms)

section \<open>Dependencies\<close>

text \<open>
  The inner loop of \<open>Dependencies\<close>: append what is not there yet.  The Go slices share backing
  arrays, but a callee only ever appends behind what its caller has, and the caller then appends
  those same elements in the same places, so the slices can be read as values.
\<close>

fun add_new :: "string list \<Rightarrow> string list \<Rightarrow> string list" where
  "add_new found [] = found"
| "add_new found (d # ds) = (if d \<in> set found then add_new found ds else add_new (found @ [d]) ds)"

lemma set_add_new [simp]: "set (add_new found ds) = set found \<union> set ds"
  by (induction ds arbitrary: found) auto

lemma distinct_add_new: "distinct found \<Longrightarrow> distinct (add_new found ds)"
  by (induction ds arbitrary: found) auto

lemma add_new_extends: "\<exists>xs. add_new found ds = found @ xs"
proof (induction ds arbitrary: found)
  case (Cons d ds)
  then show ?case
    by (metis add_new.simps(2) append_assoc)
qed simp

definition defined_keys :: "types \<Rightarrow> string set" where
  "defined_keys T = {k. slice_at T k \<noteq> None}"

lemma finite_defined_keys [simp]: "finite (defined_keys T)"
proof (rule finite_subset)
  show "defined_keys T \<subseteq> fst ` set T"
    by (auto simp: defined_keys_def slice_at_def split: option.splits dest!: map_of_SomeD)
      (metis fst_conv image_eqI)
qed simp

abbreviation unseen :: "types \<Rightarrow> string list \<Rightarrow> nat" where
  "unseen T found \<equiv> card (defined_keys T - set found)"

lemma unseen_mono: "set xs \<subseteq> set ys \<Longrightarrow> unseen T ys \<le> unseen T xs"
  by (rule card_mono) auto

lemma unseen_less:
  assumes "slice_at T p = Some fs" and "p \<notin> set found"
  shows "unseen T (found @ [p]) < unseen T found"
proof (rule psubset_card_mono)
  show "defined_keys T - set (found @ [p]) \<subset> defined_keys T - set found"
    using assms by (auto simp: defined_keys_def)
qed simp

function (sequential)
  dependencies :: "types \<Rightarrow> string \<Rightarrow> string list \<Rightarrow> string list" and
  dep_fields :: "types \<Rightarrow> typ_field list \<Rightarrow> string list \<Rightarrow> string list" where
  "dependencies T primary found =
     (let p = trim_suffix primary ''[]'' in
      if p \<in> set found then found
      else case slice_at T p of
             None \<Rightarrow> found
           | Some fs \<Rightarrow> dep_fields T fs (found @ [p]))"
| "dep_fields T [] found = found"
| "dep_fields T (f # fs) found = dep_fields T fs (add_new found (dependencies T (ftype f) found))"
  by pat_completeness auto
termination
proof (relation "measures
        [case_sum (\<lambda>(T, p, found). unseen T found) (\<lambda>(T, fs, found). unseen T found),
         case_sum (\<lambda>(T, p, found). 0) (\<lambda>(T, fs, found). Suc (length fs))]", goal_cases)
  case (2 T primary found p fs)
  then show ?case using unseen_less [of T p fs found] by simp
next
  case (4 T f fs found)
  have "unseen T (add_new found (dependencies T (ftype f) found)) \<le> unseen T found"
    by (rule unseen_mono) auto
  then show ?case by auto
qed auto

declare dependencies.simps [simp del]

text \<open>The specification: the types reachable from a type through the types of its fields.\<close>

inductive reaches :: "types \<Rightarrow> string \<Rightarrow> string \<Rightarrow> bool" for T :: types where
  reaches_start: "slice_at T p \<noteq> None \<Longrightarrow> reaches T p p"
| reaches_field: "reaches T p q \<Longrightarrow> f \<in> set (fields_at T q) \<Longrightarrow>
     slice_at T (trim_suffix (ftype f) ''[]'') \<noteq> None \<Longrightarrow>
     reaches T p (trim_suffix (ftype f) ''[]'')"

lemma reaches_defined: "reaches T p q \<Longrightarrow> slice_at T p \<noteq> None"
  by (induction rule: reaches.induct) auto

lemma reaches_first_field:
  assumes "reaches T r q" and "r = trim_suffix (ftype f) ''[]''"
    and "slice_at T p \<noteq> None" and "f \<in> set (fields_at T p)"
  shows "reaches T p q"
  using assms
proof (induction rule: reaches.induct)
  case (reaches_start r)
  then show ?case by (metis reaches.intros)
next
  case (reaches_field r q g)
  then show ?case by (blast intro: reaches.reaches_field)
qed

lemma deps_extend:
  "\<exists>xs. dependencies T p found = found @ xs"
  "\<exists>xs. dep_fields T fs found = found @ xs"
proof (induction T p found and T fs found rule: dependencies_dep_fields.induct)
  case (1 T p found)
  then show ?case
    by (subst dependencies.simps) (auto simp: Let_def split: option.splits)
next
  case (3 T f fs found)
  then show ?case
    using add_new_extends [of found "dependencies T (ftype f) found"] by fastforce
qed simp

lemma deps_mono:
  "set found \<subseteq> set (dependencies T p found)"
  "set found \<subseteq> set (dep_fields T fs found)"
  using deps_extend(1) [of T p found] deps_extend(2) [of T fs found] by auto

lemma deps_distinct:
  "distinct found \<Longrightarrow> distinct (dependencies T p found)"
  "distinct found \<Longrightarrow> distinct (dep_fields T fs found)"
proof (induction T p found and T fs found rule: dependencies_dep_fields.induct)
  case (1 T p found)
  then show ?case
    by (subst dependencies.simps) (auto simp: Let_def split: option.splits)
qed (auto simp: distinct_add_new)

lemma deps_sound:
  "q \<in> set (dependencies T p found) \<Longrightarrow> q \<notin> set found \<Longrightarrow> reaches T (trim_suffix p ''[]'') q"
  "q \<in> set (dep_fields T fs found) \<Longrightarrow> q \<notin> set found \<Longrightarrow>
     \<exists>f \<in> set fs. reaches T (trim_suffix (ftype f) ''[]'') q"
proof (induction T p found and T fs found rule: dependencies_dep_fields.induct)
  case (1 T primary found)
  let ?p = "trim_suffix primary ''[]''"
  from "1.prems" obtain fs where new: "?p \<notin> set found" and fs: "slice_at T ?p = Some fs"
    and q: "q \<in> set (dep_fields T fs (found @ [?p]))"
    by (subst (asm) dependencies.simps) (auto simp: Let_def split: if_splits option.splits)
  show ?case
  proof (cases "q = ?p")
    case True
    then show ?thesis using fs by (auto intro: reaches_start)
  next
    case False
    then obtain f where "f \<in> set fs" "reaches T (trim_suffix (ftype f) ''[]'') q"
      using "1.IH" [OF refl new fs q] "1.prems"(2) by auto
    then show ?thesis
      using fs by (auto intro: reaches_first_field simp: fields_at_def)
  qed
next
  case (3 T f fs found)
  then show ?case by fastforce
qed simp

text \<open>Every type that was added has all its successors in the result.\<close>

definition closed_over :: "types \<Rightarrow> string set \<Rightarrow> string set \<Rightarrow> bool" where
  "closed_over T A R \<longleftrightarrow>
     (\<forall>q \<in> A. \<forall>f \<in> set (fields_at T q).
        slice_at T (trim_suffix (ftype f) ''[]'') \<noteq> None \<longrightarrow> trim_suffix (ftype f) ''[]'' \<in> R)"

lemma closed_over_mono: "closed_over T A R \<Longrightarrow> A' \<subseteq> A \<Longrightarrow> R \<subseteq> R' \<Longrightarrow> closed_over T A' R'"
  unfolding closed_over_def by blast

lemma closed_over_Un: "closed_over T A R \<Longrightarrow> closed_over T B R \<Longrightarrow> closed_over T (A \<union> B) R"
  unfolding closed_over_def by blast

lemma deps_closed:
  "closed_over T (set (dependencies T p found) - set found) (set (dependencies T p found)) \<and>
   (slice_at T (trim_suffix p ''[]'') \<noteq> None \<longrightarrow>
      trim_suffix p ''[]'' \<in> set (dependencies T p found))"
  "closed_over T (set (dep_fields T fs found) - set found) (set (dep_fields T fs found)) \<and>
   (\<forall>f \<in> set fs. slice_at T (trim_suffix (ftype f) ''[]'') \<noteq> None \<longrightarrow>
      trim_suffix (ftype f) ''[]'' \<in> set (dep_fields T fs found))"
proof (induction T p found and T fs found rule: dependencies_dep_fields.induct)
  case (1 T primary found)
  let ?p = "trim_suffix primary ''[]''"
  show ?case
  proof (cases "?p \<in> set found \<or> slice_at T ?p = None")
    case True
    then show ?thesis
      by (subst (1 2 3) dependencies.simps)
        (auto simp: Let_def closed_over_def split: option.splits)
  next
    case False
    then obtain fs where new: "?p \<notin> set found" and fs: "slice_at T ?p = Some fs" by auto
    let ?R = "dep_fields T fs (found @ [?p])"
    have eq: "dependencies T primary found = ?R"
      using new fs by (subst dependencies.simps) (simp add: Let_def)
    have IH: "closed_over T (set ?R - set (found @ [?p])) (set ?R)"
      "\<forall>f \<in> set fs. slice_at T (trim_suffix (ftype f) ''[]'') \<noteq> None \<longrightarrow>
         trim_suffix (ftype f) ''[]'' \<in> set ?R"
      using "1.IH" [OF refl new fs] by auto
    have "closed_over T {?p} (set ?R)"
      using IH(2) fs by (simp add: closed_over_def fields_at_def)
    from closed_over_Un [OF IH(1) this]
    have "closed_over T (set ?R - set found) (set ?R)"
      by (rule closed_over_mono) auto
    moreover have "?p \<in> set ?R"
      using deps_mono(2) [of "found @ [?p]" T fs] by auto
    ultimately show ?thesis by (simp add: eq)
  qed
next
  case (2 T found)
  then show ?case by (simp add: closed_over_def)
next
  case (3 T f fs found)
  let ?D = "dependencies T (ftype f) found"
  let ?F = "add_new found ?D"
  let ?R = "dep_fields T fs ?F"
  have F: "set ?F = set ?D" using deps_mono(1) [of found T "ftype f"] by auto
  have sub: "set ?D \<subseteq> set ?R" using deps_mono(2) [of ?F T fs] F by simp
  have "closed_over T (set ?D - set found) (set ?R)"
    using "3.IH"(1) sub by (blast intro: closed_over_mono)
  moreover have "closed_over T (set ?R - set ?F) (set ?R)" using "3.IH"(2) by blast
  ultimately have "closed_over T (set ?R - set found) (set ?R)"
    using F by (blast intro: closed_over_mono dest: closed_over_Un)
  then show ?case using "3.IH" sub by auto
qed

lemma dependencies_reaches:
  "set (dependencies T p []) = {q. reaches T (trim_suffix p ''[]'') q}"
proof
  show "set (dependencies T p []) \<subseteq> {q. reaches T (trim_suffix p ''[]'') q}"
    using deps_sound(1) [of _ T p "[]"] by auto
next
  let ?D = "set (dependencies T p [])"
  have "q \<in> ?D" if "reaches T r q" "r = trim_suffix p ''[]''" for r q
    using that
  proof (induction rule: reaches.induct)
    case (reaches_start r)
    then show ?case using deps_closed(1) [of T p "[]"] by auto
  next
    case (reaches_field r q f)
    then show ?case
      using deps_closed(1) [of T p "[]"] by (auto simp: closed_over_def)
  qed
  then show "{q. reaches T (trim_suffix p ''[]'') q} \<subseteq> ?D" by blast
qed

lemma dependencies_hd:
  assumes "slice_at T (trim_suffix p ''[]'') = Some fs"
  shows "\<exists>ds. dependencies T p [] = trim_suffix p ''[]'' # ds"
  using assms deps_extend(2) [of T fs "[trim_suffix p ''[]'']"]
  by (subst dependencies.simps) (auto simp: Let_def)

section \<open>EncodeType\<close>

definition member_string :: "typ_field \<Rightarrow> string" where
  "member_string f = ftype f @ '' '' @ fname f @ '',''"

text \<open>The writing loop; \<open>buffer.Truncate(buffer.Len() - 1)\<close> drops the last byte written.\<close>

fun write_types :: "types \<Rightarrow> string \<Rightarrow> string list \<Rightarrow> string" where
  "write_types T buf [] = buf"
| "write_types T buf (d # ds) =
     write_types T
       (butlast (buf @ d @ ''('' @ concat (map member_string (fields_at T d))) @ '')'') ds"

definition type_order :: "types \<Rightarrow> string \<Rightarrow> string list" where
  "type_order T p =
     (case dependencies T p [] of [] \<Rightarrow> [] | _ # ds \<Rightarrow> p # sort ds)"

definition encode_type :: "types \<Rightarrow> string \<Rightarrow> string" where
  "encode_type T p = write_types T [] (type_order T p)"

text \<open>EIP-712's \<open>name(type1 name1,...,typeN nameN)\<close>.\<close>

definition struct_signature :: "types \<Rightarrow> string \<Rightarrow> string" where
  "struct_signature T d =
     d @ ''('' @ join_char CHR '','' (map (\<lambda>f. ftype f @ '' '' @ fname f) (fields_at T d)) @ '')''"

lemma concat_members:
  "fs \<noteq> [] \<Longrightarrow> concat (map member_string fs) =
     join_char CHR '','' (map (\<lambda>f. ftype f @ '' '' @ fname f) fs) @ '',''"
proof (induction fs)
  case (Cons f fs)
  then show ?case by (cases fs) (simp_all add: member_string_def)
qed simp

lemma write_one_signature:
  "fields_at T d \<noteq> [] \<Longrightarrow>
     butlast (buf @ d @ ''('' @ concat (map member_string (fields_at T d))) @ '')'' =
     buf @ struct_signature T d"
  by (simp add: concat_members struct_signature_def butlast_append)

lemma write_types_signatures:
  "\<forall>d \<in> set ds. fields_at T d \<noteq> [] \<Longrightarrow>
     write_types T buf ds = buf @ concat (map (struct_signature T) ds)"
proof (induction ds arbitrary: buf)
  case (Cons d ds)
  have ne: "fields_at T d \<noteq> []" using Cons.prems by simp
  have "write_types T buf (d # ds) = write_types T (buf @ struct_signature T d) ds"
    by (simp only: write_types.simps write_one_signature [OF ne])
  then show ?case using Cons by simp
qed simp

lemma type_order_set:
  assumes "\<not> has_suffix p ''[]''"
  shows "set (type_order T p) = {q. reaches T p q}"
proof (cases "slice_at T p")
  case None
  then have "dependencies T p [] = []"
    using assms by (simp add: dependencies.simps Let_def)
  moreover have "\<not> reaches T p q" for q
    using None reaches_defined by blast
  ultimately show ?thesis by (simp add: type_order_def)
next
  case (Some fs)
  then obtain ds where "dependencies T p [] = p # ds"
    using dependencies_hd [of T p fs] assms by auto
  then show ?thesis
    using dependencies_reaches [of T p] assms by (simp add: type_order_def)
qed

lemma type_order_distinct:
  assumes "\<not> has_suffix p ''[]''"
  shows "distinct (type_order T p)"
proof (cases "slice_at T p")
  case None
  then show ?thesis using assms by (simp add: type_order_def dependencies.simps Let_def)
next
  case (Some fs)
  then obtain ds where ds: "dependencies T p [] = p # ds"
    using dependencies_hd [of T p fs] assms by auto
  then show ?thesis
    using deps_distinct(1) [of "[]" T p] by (simp add: type_order_def)
qed

lemma type_order_sorted: "sorted (tl (type_order T p))"
  by (simp add: type_order_def split: list.splits)

section \<open>Properties\<close>

text \<open>
  The check of the type table gives the same verdict in whatever order Go's \<open>range\<close> visits
  the map, and whatever the Unicode tables say about names that are not ASCII.
\<close>

theorem validate_types_order_independent:
  assumes "set T' = set T"
  shows "validate_types U T' = Inr () \<longleftrightarrow> validate_types U' T = Inr ()"
  using types_wf_permute [OF assms] by (simp only: validate_types_ok)

lemma validate_types_order_independent_witness:
  "validate_types (\<lambda>_. False) [(''B'', Some [\<lparr>fname = ''a'', ftype = ''A[]''\<rparr>]), (''A'', None)] = Inr () \<longleftrightarrow>
   validate_types (\<lambda>_. True) [(''A'', None), (''B'', Some [\<lparr>fname = ''a'', ftype = ''A[]''\<rparr>])] = Inr ()"
  by (rule validate_types_order_independent) auto

text \<open>
  C2. \<open>Dependencies\<close> returns, each once, exactly the struct types reachable from the primary type
  through field types (array suffixes cut), also when the types refer to each other in a cycle.
\<close>

theorem dependencies_are_reachable_types:
  "set (dependencies T p []) = {q. reaches T (trim_suffix p ''[]'') q} \<and>
   distinct (dependencies T p [])"
  using dependencies_reaches deps_distinct(1) by simp

text \<open>
  C1. For a primary type that is declared and has no array suffix, and from which only structs with
  at least one member can be reached, \<open>EncodeType\<close> is EIP-712's encoding: the signature of the
  primary type followed by those of the types it references, directly or not, sorted by name and
  each once.  (A struct without members is encoded as \<open>Name)\<close>, lemma \<open>encode_type_of_empty_struct\<close>.)
\<close>

theorem encode_type_is_eip712:
  assumes "slice_at T p \<noteq> None" and "\<not> has_suffix p ''[]''"
    and "\<And>q. reaches T p q \<Longrightarrow> fields_at T q \<noteq> []"
  shows "\<exists>ds. encode_type T p = concat (map (struct_signature T) (p # ds)) \<and>
     sorted ds \<and> distinct (p # ds) \<and> set (p # ds) = {q. reaches T p q}"
proof -
  from assms(1,2) obtain fs where "slice_at T (trim_suffix p ''[]'') = Some fs" by auto
  from dependencies_hd [OF this] have "type_order T p = p # tl (type_order T p)"
    by (auto simp: type_order_def)
  then have ord: "set (p # tl (type_order T p)) = {q. reaches T p q}"
    "distinct (p # tl (type_order T p))"
    "encode_type T p = write_types T [] (p # tl (type_order T p))"
    using type_order_set [OF assms(2)] type_order_distinct [OF assms(2)]
    by (simp_all add: encode_type_def)
  moreover have "\<forall>d \<in> set (p # tl (type_order T p)). fields_at T d \<noteq> []"
    using assms(3) ord(1) by blast
  ultimately show ?thesis
    using write_types_signatures [of "p # tl (type_order T p)" T "[]"] type_order_sorted [of T p]
    by auto
qed

definition mail_types :: types where
  "mail_types =
     [(''Mail'', Some [\<lparr>fname = ''to'', ftype = ''Person[]''\<rparr>, \<lparr>fname = ''text'', ftype = ''string''\<rparr>]),
      (''Person'', Some [\<lparr>fname = ''name'', ftype = ''string''\<rparr>])]"

lemma mail_reaches: "{q. reaches mail_types ''Mail'' q} = {''Mail'', ''Person''}"
proof -
  have "dependencies mail_types ''Mail'' [] = [''Mail'', ''Person'']" by code_simp
  moreover have "trim_suffix ''Mail'' ''[]'' = ''Mail''" by code_simp
  ultimately show ?thesis using dependencies_reaches [of mail_types "''Mail''"] by simp
qed

lemma encode_type_is_eip712_witness:
  "\<exists>ds. encode_type mail_types ''Mail'' = concat (map (struct_signature mail_types) (''Mail'' # ds)) \<and>
     sorted ds \<and> distinct (''Mail'' # ds) \<and>
     set (''Mail'' # ds) = {q. reaches mail_types ''Mail'' q}"
proof (rule encode_type_is_eip712)
  fix q
  assume "reaches mail_types ''Mail'' q"
  then have "q \<in> {''Mail'', ''Person''}" using mail_reaches by blast
  then show "fields_at mail_types q \<noteq> []" by (auto simp: mail_types_def fields_at_def slice_at_def)
next
  show "slice_at mail_types ''Mail'' \<noteq> None" by (simp add: mail_types_def slice_at_def)
next
  show "\<not> has_suffix ''Mail'' ''[]''" by code_simp
qed

text \<open>
  A struct without members is not encoded as \<open>Name()\<close>: the final \<open>Truncate\<close>, meant for the
  comma after the last member, removes the opening parenthesis.
\<close>

theorem encode_type_of_empty_struct:
  assumes "slice_at T p = Some []" and "\<not> has_suffix p ''[]''"
  shows "encode_type T p = p @ '')'' \<and> encode_type T p \<noteq> struct_signature T p"
  using assms
  by (simp add: encode_type_def type_order_def dependencies.simps Let_def fields_at_def
      struct_signature_def butlast_append)

lemma encode_type_of_empty_struct_witness:
  "encode_type [(''MsgValue'', Some [])] ''MsgValue'' = ''MsgValue'' @ '')'' \<and>
   encode_type [(''MsgValue'', Some [])] ''MsgValue'' \<noteq> struct_signature [(''MsgValue'', Some [])] ''MsgValue''"
proof -
  have "slice_at [(''MsgValue'', Some [])] ''MsgValue'' = Some []"
    "\<not> has_suffix ''MsgValue'' ''[]''"
    by code_simp+
  then show ?thesis by (rule encode_type_of_empty_struct)
qed

end
