(* ===== verification/Typed_Data.thy ===== *)
theory Typed_Data
  imports Typed_Types
begin

text \<open>
  The value side of EIP-712 (\<open>chain/app/ante/typeddata/typed_data.go\<close>): the JSON-like values a
  typed message carries, \<open>EncodePrimitiveValue\<close> and \<open>parseInteger\<close>, the mutually recursive
  \<open>EncodeData\<close>, \<open>HashStruct\<close> and \<open>ComputeTypedDataHash\<close>.  go-ethereum's functions are the
  fields of an \<open>eth_lib\<close>, an argument of the definitions that call them.
\<close>

section \<open>The go-ethereum functions the code calls\<close>

record eth_lib =
  keccak256 :: "bytes \<Rightarrow> bytes"
  hexutil_decode :: "string \<Rightarrow> bytes option"
  is_hex_address :: "string \<Rightarrow> bool"
  hex_to_address :: "string \<Rightarrow> bytes"
  bytes_to_address :: "bytes \<Rightarrow> bytes"
  parse_big256 :: "string \<Rightarrow> int option"
  u256_bytes :: "int \<Rightarrow> bytes"
  padded_big_bytes :: "int \<Rightarrow> nat \<Rightarrow> bytes"
  upper_rune :: "string \<Rightarrow> bool"

text \<open>
  The documented sizes: a Keccak-256 digest has 32 bytes, an address 20, \<open>U256Bytes\<close> gives 32
  bytes and \<open>PaddedBigBytes(n, 32)\<close> at least 32, exactly 32 for the two numbers used.
\<close>

definition eth_lib_sizes :: "eth_lib \<Rightarrow> bool" where
  "eth_lib_sizes L \<longleftrightarrow>
     (\<forall>b. length (keccak256 L b) = 32) \<and>
     (\<forall>s. length (hex_to_address L s) = 20) \<and>
     (\<forall>n. length (u256_bytes L n) = 32) \<and>
     length (padded_big_bytes L 0 32) = 32 \<and> length (padded_big_bytes L 1 32) = 32"

section \<open>Values\<close>

text \<open>
  A \<open>float64\<close> as mantissa and binary exponent.  \<open>float_int64\<close> is the test
  \<open>float64(int64(v)) == v\<close> with the conversion of amd64, where a value out of range converts
  to the least \<open>int64\<close>.
\<close>

datatype float64 = F64 int int | F64_inf bool | F64_nan

definition float_int64 :: "float64 \<Rightarrow> int option" where
  "float_int64 v =
     (case v of
        F64 m e \<Rightarrow>
          (let n = (if 0 \<le> e then m * 2 ^ nat e else m div 2 ^ nat (- e)) in
           if (0 \<le> e \<or> 2 ^ nat (- e) dvd m) \<and> - (2 ^ 63) \<le> n \<and> n < 2 ^ 63 then Some n else None)
      | _ \<Rightarrow> None)"

text \<open>The dynamic types the code tells apart; \<open>GBig p\<close> is a \<open>*math.HexOrDecimal256\<close>, nil for None.\<close>

datatype gval =
    GNil
  | GBool bool
  | GStr string
  | GBytes bytes
  | GHexBytes bytes
  | GFloat float64
  | GBig "int option"
  | GList "gval list"
  | GMap "(string \<times> gval) list"
  | GOther

definition data_at :: "(string \<times> gval) list \<Rightarrow> string \<Rightarrow> gval" where
  "data_at m k = (case map_of m k of None \<Rightarrow> GNil | Some v \<Rightarrow> v)"

fun gsize :: "gval \<Rightarrow> nat" where
  "gsize (GList xs) = Suc (sum_list (map gsize xs))"
| "gsize (GMap m) = Suc (sum_list (map (\<lambda>e. gsize (snd e)) m))"
| "gsize v = 1"

abbreviation data_size :: "(string \<times> gval) list \<Rightarrow> nat" where
  "data_size m \<equiv> sum_list (map (\<lambda>e. gsize (snd e)) m)"

lemma gsize_pos: "0 < gsize v"
  by (cases v) auto

lemma data_at_size: "data_at m k \<noteq> GNil \<Longrightarrow> gsize (data_at m k) \<le> data_size m"
proof (induction m)
  case Nil
  then show ?case by (simp add: data_at_def)
next
  case (Cons e m)
  then show ?case by (cases "fst e = k") (auto simp: data_at_def)
qed

lemma data_at_list_size: "data_at m k = GList xs \<Longrightarrow> sum_list (map gsize xs) < data_size m"
  using data_at_size [of m k] by simp

lemma data_at_map_size: "data_at m k = GMap xs \<Longrightarrow> data_size xs < data_size m"
  using data_at_size [of m k] by simp

lemma data_at_key: "data_at m k \<noteq> GNil \<Longrightarrow> k \<in> fst ` set m"
  by (auto simp: data_at_def split: option.splits dest!: map_of_SomeD) (metis fst_conv image_eqI)

section \<open>The typed data\<close>

record typed_domain =
  dom_name :: string
  dom_version :: string
  dom_chain_id :: "int option"
  dom_verifying_contract :: string
  dom_salt :: string

record typed_data =
  td_types :: types
  td_primary_type :: string
  td_domain :: typed_domain
  td_message :: "(string \<times> gval) list"

definition validate_domain :: "typed_domain \<Rightarrow> unit res" where
  "validate_domain d =
     (if dom_chain_id d = None \<and> dom_name d = [] \<and> dom_version d = [] \<and>
         dom_verifying_contract d = [] \<and> dom_salt d = []
      then Inl (Err ''domain is undefined'') else Inr ())"

definition domain_map :: "typed_domain \<Rightarrow> (string \<times> gval) list" where
  "domain_map d =
     (case dom_chain_id d of None \<Rightarrow> [] | Some n \<Rightarrow> [(''chainId'', GBig (Some n))]) @
     (if dom_name d \<noteq> [] then [(''name'', GStr (dom_name d))] else []) @
     (if dom_version d \<noteq> [] then [(''version'', GStr (dom_version d))] else []) @
     (if dom_verifying_contract d \<noteq> []
      then [(''verifyingContract'', GStr (dom_verifying_contract d))] else []) @
     (if dom_salt d \<noteq> [] then [(''salt'', GStr (dom_salt d))] else [])"

definition validate_typed_data :: "eth_lib \<Rightarrow> typed_data \<Rightarrow> unit res" where
  "validate_typed_data L td =
     bind_res (validate_types (upper_rune L) (td_types td)) (\<lambda>_. validate_domain (td_domain td))"

lemma validate_typed_data_ok:
  "validate_typed_data L td = Inr () \<longleftrightarrow>
     types_wf (td_types td) \<and> validate_domain (td_domain td) = Inr ()"
  by (auto simp: validate_typed_data_def bind_res_Inr_iff validate_types_ok)

lemma validate_typed_data_no_panic: "\<not> panics (validate_typed_data L td)"
  using validate_types_no_panic by (auto simp: validate_typed_data_def validate_domain_def)

section \<open>Primitive values\<close>

abbreviation mismatch :: "'a res" where
  "mismatch \<equiv> Inl (Err ''provided data doesn't match type'')"

text \<open>\<open>big.Int.BitLen\<close>: the bits of the absolute value.\<close>

fun bit_len_nat :: "nat \<Rightarrow> nat" where
  "bit_len_nat n = (if n = 0 then 0 else Suc (bit_len_nat (n div 2)))"

declare bit_len_nat.simps [simp del]

definition bit_len :: "int \<Rightarrow> nat" where
  "bit_len n = bit_len_nat (nat \<bar>n\<bar>)"

lemma bit_len_nat_le_iff: "bit_len_nat n \<le> k \<longleftrightarrow> n < 2 ^ k"
proof (induction n arbitrary: k rule: bit_len_nat.induct)
  case (1 n)
  show ?case
  proof (cases "n = 0")
    case True
    then show ?thesis by (simp add: bit_len_nat.simps [of 0])
  next
    case False
    then have unf: "bit_len_nat n = Suc (bit_len_nat (n div 2))"
      by (subst bit_len_nat.simps) simp
    show ?thesis
    proof (cases k)
      case 0
      then show ?thesis using False unf by simp
    next
      case (Suc j)
      have "n div 2 < 2 ^ j \<longleftrightarrow> n < 2 ^ Suc j"
        by (simp add: div_less_iff_less_mult mult.commute)
      then show ?thesis using "1.IH" [OF False, of j] unf Suc by simp
    qed
  qed
qed

lemma bit_len_le_iff: "bit_len n \<le> k \<longleftrightarrow> \<bar>n\<bar> < 2 ^ k"
proof -
  have "bit_len n \<le> k \<longleftrightarrow> nat \<bar>n\<bar> < 2 ^ k"
    by (simp add: bit_len_def bit_len_nat_le_iff)
  also have "\<dots> \<longleftrightarrow> \<bar>n\<bar> < 2 ^ k"
    by (simp add: nat_less_iff)
  finally show ?thesis .
qed

definition parse_bytes :: "eth_lib \<Rightarrow> gval \<Rightarrow> bytes option" where
  "parse_bytes L v =
     (case v of
        GBytes b \<Rightarrow> Some b
      | GHexBytes b \<Rightarrow> Some b
      | GStr s \<Rightarrow> hexutil_decode L s
      | _ \<Rightarrow> None)"

definition int_width :: "string \<Rightarrow> int option" where
  "int_width t =
     (if t = ''int'' \<or> t = ''uint'' then Some 256
      else atoi (if has_prefix t ''uint'' then trim_prefix t ''uint'' else trim_prefix t ''int''))"

definition int_value :: "eth_lib \<Rightarrow> gval \<Rightarrow> int option res" where
  "int_value L v =
     (case v of
        GBig p \<Rightarrow> Inr p
      | GStr s \<Rightarrow>
          (case parse_big256 L s of
             None \<Rightarrow> Inl (Err ''invalid hex or decimal integer'')
           | Some n \<Rightarrow> Inr (Some n))
      | GFloat x \<Rightarrow>
          (case float_int64 x of
             None \<Rightarrow> Inl (Err ''invalid float value'')
           | Some n \<Rightarrow> Inr (Some n))
      | _ \<Rightarrow> Inr None)"

definition parse_integer :: "eth_lib \<Rightarrow> string \<Rightarrow> gval \<Rightarrow> int res" where
  "parse_integer L t v =
     (case int_width t of
        None \<Rightarrow> Inl (Err ''invalid size on integer'')
      | Some len \<Rightarrow>
          bind_res (int_value L v) (\<lambda>p.
            case p of
              None \<Rightarrow> Inl (Err ''invalid integer value'')
            | Some b \<Rightarrow>
                if int (bit_len b) > len then Inl (Err ''integer larger than type'')
                else if \<not> has_prefix t ''int'' \<and> b < 0
                  then Inl (Err ''invalid negative value for unsigned type'')
                else Inr b))"

text \<open>
  The values of the members.  go-ethereum's \<open>U256Bytes\<close> reduces a negative big integer in place;
  the model's values do not change, which makes a difference only to a caller that reads a
  negative \<open>*math.HexOrDecimal256\<close> of the message again after hashing it.
\<close>

definition encode_primitive :: "eth_lib \<Rightarrow> string \<Rightarrow> gval \<Rightarrow> bytes res" where
  "encode_primitive L t v =
     (if t = ''address'' then
        (case v of
           GStr s \<Rightarrow>
             if is_hex_address L s
             then Inr (replicate 12 0 @ pad_right 20 (hex_to_address L s)) else mismatch
         | _ \<Rightarrow> mismatch)
      else if t = ''bool'' then
        (case v of
           GBool b \<Rightarrow> Inr (padded_big_bytes L (if b then 1 else 0) 32)
         | _ \<Rightarrow> mismatch)
      else if t = ''string'' then
        (case v of GStr s \<Rightarrow> Inr (keccak256 L (to_bytes s)) | _ \<Rightarrow> mismatch)
      else if t = ''bytes'' then
        (case parse_bytes L v of Some b \<Rightarrow> Inr (keccak256 L b) | None \<Rightarrow> mismatch)
      else if has_prefix t ''bytes'' then
        (case atoi (trim_prefix t ''bytes'') of
           None \<Rightarrow> Inl (Err ''invalid size on bytes'')
         | Some n \<Rightarrow>
             if n < 0 \<or> n > 32 then Inl (Err ''invalid size on bytes'')
             else
               (case parse_bytes L v of
                  Some b \<Rightarrow> if int (length b) \<noteq> n then mismatch else Inr (pad_right 32 b)
                | None \<Rightarrow> mismatch))
      else if has_prefix t ''int'' \<or> has_prefix t ''uint'' then
        bind_res (parse_integer L t v) (\<lambda>b. Inr (u256_bytes L b))
      else Inl (Err ''unrecognized type''))"

lemma int_value_no_panic: "\<not> panics (int_value L v)"
  by (simp add: int_value_def split: gval.splits option.splits)

lemma parse_integer_no_panic: "\<not> panics (parse_integer L t v)"
  using int_value_no_panic [of L v] by (auto simp: parse_integer_def split: option.splits)

lemma encode_primitive_no_panic: "\<not> panics (encode_primitive L t v)"
  using parse_integer_no_panic [of L t v]
  by (cases v) (simp_all add: encode_primitive_def split: option.split)

lemma parse_integer_range:
  assumes "parse_integer L t v = Inr b" and "int_width t = Some (int n)"
  shows "\<bar>b\<bar> < 2 ^ n \<and> (\<not> has_prefix t ''int'' \<longrightarrow> 0 \<le> b)"
  using assms
  by (auto simp: parse_integer_def bit_len_le_iff [symmetric] split: option.splits if_splits)

lemma encode_primitive_nil: "encode_primitive L t GNil \<noteq> Inr b"
  by (simp add: encode_primitive_def parse_integer_def int_value_def parse_bytes_def
        split: option.split)

lemma encode_primitive_length:
  assumes "eth_lib_sizes L" and "encode_primitive L t v = Inr b"
  shows "length b = 32"
  using assms
  by (cases v) (auto simp: encode_primitive_def eth_lib_sizes_def
        split: if_splits option.splits)

section \<open>EncodeData, HashStruct and ComputeTypedDataHash\<close>

definition type_hash :: "eth_lib \<Rightarrow> types \<Rightarrow> string \<Rightarrow> bytes" where
  "type_hash L T p = keccak256 L (to_bytes (encode_type T p))"

text \<open>
  \<open>EncodeData\<close> (\<open>encode_data\<close>), the body of its loop over the fields of the struct
  (\<open>encode_field\<close>) and the body of the loop over the items of an array field (\<open>encode_item\<close>).
  The \<open>depth\<close> argument of the source is passed on and never read.
  \<open>encType[len(encType)-1:]\<close> panics on an empty type name.
\<close>

function (sequential)
  encode_data :: "eth_lib \<Rightarrow> typed_data \<Rightarrow> string \<Rightarrow> (string \<times> gval) list \<Rightarrow> bytes res" and
  encode_fields :: "eth_lib \<Rightarrow> typed_data \<Rightarrow> typ_field list \<Rightarrow> (string \<times> gval) list \<Rightarrow> bytes res" and
  encode_field :: "eth_lib \<Rightarrow> typed_data \<Rightarrow> typ_field \<Rightarrow> (string \<times> gval) list \<Rightarrow> bytes res" and
  encode_items :: "eth_lib \<Rightarrow> typed_data \<Rightarrow> string \<Rightarrow> gval list \<Rightarrow> bytes res" and
  encode_item :: "eth_lib \<Rightarrow> typed_data \<Rightarrow> string \<Rightarrow> gval \<Rightarrow> bytes res" where
  "encode_data L td primary data =
     bind_res (validate_typed_data L td) (\<lambda>_.
       let fs = fields_at (td_types td) primary in
       if length fs < map_len data
       then Inl (Err ''there is extra data provided in the message'')
       else bind_res (encode_fields L td fs data) (\<lambda>b.
              Inr (type_hash L (td_types td) primary @ b)))"
| "encode_fields L td [] data = Inr []"
| "encode_fields L td (f # fs) data =
     bind_res (encode_field L td f data)
       (\<lambda>b. bind_res (encode_fields L td fs data) (\<lambda>bs. Inr (b @ bs)))"
| "encode_field L td f data =
     (let enc_type = ftype f; enc_value = data_at data (fname f) in
      if enc_type = [] then Inl (Panic ''slice bounds out of range'')
      else if last enc_type = CHR '']'' then
        (case enc_value of
           GList items \<Rightarrow>
             bind_res (encode_items L td (hd (split_char CHR ''['' enc_type)) items)
               (\<lambda>ab. Inr (keccak256 L ab))
         | _ \<Rightarrow> mismatch)
      else if slice_at (td_types td) enc_type \<noteq> None then
        (case enc_value of
           GMap m \<Rightarrow> bind_res (encode_data L td enc_type m) (\<lambda>e. Inr (keccak256 L e))
         | _ \<Rightarrow> mismatch)
      else encode_primitive L enc_type enc_value)"
| "encode_items L td parsed [] = Inr []"
| "encode_items L td parsed (item # items) =
     bind_res (encode_item L td parsed item)
       (\<lambda>b. bind_res (encode_items L td parsed items) (\<lambda>bs. Inr (b @ bs)))"
| "encode_item L td parsed item =
     (if slice_at (td_types td) parsed \<noteq> None then
        (case item of
           GMap m \<Rightarrow> bind_res (encode_data L td parsed m) (\<lambda>e. Inr (keccak256 L e))
         | _ \<Rightarrow> mismatch)
      else encode_primitive L parsed item)"
  by pat_completeness auto
termination
proof (relation "measures
    [case_sum
       (case_sum (\<lambda>(L, td, p, data). data_size data) (\<lambda>(L, td, fs, data). data_size data))
       (case_sum (\<lambda>(L, td, f, data). data_size data)
          (case_sum (\<lambda>(L, td, p, items). sum_list (map gsize items))
             (\<lambda>(L, td, p, item). gsize item))),
     case_sum (case_sum (\<lambda>_. 1) (\<lambda>_. 0)) (\<lambda>_. 0),
     case_sum
       (case_sum (\<lambda>_. 0) (\<lambda>(L, td, fs, data). length fs))
       (case_sum (\<lambda>_. 0)
          (case_sum (\<lambda>(L, td, p, items). length items) (\<lambda>_. 0)))]", goal_cases)
  case (5 L td f data enc_type enc_value items)
  then have "data_at data (fname f) = GList items" by simp
  then show ?case by (simp add: data_at_list_size)
next
  case (6 L td f data enc_type enc_value m)
  then have "data_at data (fname f) = GMap m" by simp
  then show ?case by (simp add: data_at_map_size)
qed (auto simp: gsize_pos)

declare encode_data.simps [simp del] encode_field.simps [simp del] encode_item.simps [simp del]

lemmas encode_induct = encode_data_encode_fields_encode_field_encode_items_encode_item.induct

definition hash_struct :: "eth_lib \<Rightarrow> typed_data \<Rightarrow> string \<Rightarrow> (string \<times> gval) list \<Rightarrow> bytes res" where
  "hash_struct L td primary data =
     bind_res (encode_data L td primary data) (\<lambda>e. Inr (keccak256 L e))"

definition compute_typed_data_hash :: "eth_lib \<Rightarrow> typed_data \<Rightarrow> bytes res" where
  "compute_typed_data_hash L td =
     bind_res
       (wrap_err ''failed to pack and hash typedData EIP712Domain''
          (hash_struct L td ''EIP712Domain'' (domain_map (td_domain td))))
       (\<lambda>dom. bind_res
          (wrap_err ''failed to pack and hash typedData primary type''
             (hash_struct L td (td_primary_type td) (td_message td)))
          (\<lambda>msg. Inr (keccak256 L ([0x19, 0x01] @ dom @ msg))))"

subsection \<open>No input makes the encoder panic\<close>

lemma encode_no_panic:
  "\<not> panics (encode_data L td primary data)"
  "(\<forall>f \<in> set fs. ftype f \<noteq> []) \<Longrightarrow> \<not> panics (encode_fields L td fs data)"
  "ftype f \<noteq> [] \<Longrightarrow> \<not> panics (encode_field L td f data)"
  "\<not> panics (encode_items L td parsed items)"
  "\<not> panics (encode_item L td parsed item)"
proof (induction L td primary data and L td fs data and L td f data and L td parsed items
    and L td parsed item rule: encode_induct)
  case (1 L td primary data)
  show ?case
  proof (cases "validate_typed_data L td = Inr ()")
    case True
    then have wf: "types_wf (td_types td)" by (simp add: validate_typed_data_ok)
    then have "\<forall>f \<in> set (fields_at (td_types td) primary). ftype f \<noteq> []"
      using types_wf_fields by (auto simp: field_wf_def)
    then show ?thesis
      using "1.IH" [OF True refl] True
      by (subst encode_data.simps) (auto simp: Let_def)
  next
    case False
    then show ?thesis
      using validate_typed_data_no_panic [of L td]
      by (subst encode_data.simps) auto
  qed
next
  case (4 L td f data)
  then show ?case
    using encode_primitive_no_panic [of L "ftype f" "data_at data (fname f)"]
    by (subst encode_field.simps) (auto simp: Let_def split: gval.split)
next
  case (7 L td parsed item)
  then show ?case
    using encode_primitive_no_panic [of L parsed item]
    by (subst encode_item.simps) (auto split: gval.split)
qed auto

subsection \<open>Every member is encoded in 32 bytes\<close>

lemma encode_field_length:
  assumes "eth_lib_sizes L" and "encode_field L td f data = Inr b"
  shows "length b = 32"
  using assms(2) encode_primitive_length [OF assms(1), of "ftype f" "data_at data (fname f)"] assms(1)
  by (subst (asm) encode_field.simps)
    (auto simp: Let_def eth_lib_sizes_def split: if_splits gval.splits)

lemma encode_fields_length:
  assumes "eth_lib_sizes L"
  shows "encode_fields L td fs data = Inr b \<Longrightarrow> length b = 32 * length fs"
proof (induction fs arbitrary: b)
  case (Cons f fs)
  then show ?case using encode_field_length [OF assms] by fastforce
qed simp

lemma encode_data_Inr:
  assumes "encode_data L td primary data = Inr b"
  obtains m where "validate_typed_data L td = Inr ()"
    and "map_len data \<le> length (fields_at (td_types td) primary)"
    and "encode_fields L td (fields_at (td_types td) primary) data = Inr m"
    and "b = type_hash L (td_types td) primary @ m"
  using assms by (subst (asm) encode_data.simps) (auto simp: Let_def split: if_splits)

lemma encode_data_length:
  assumes "eth_lib_sizes L" and "encode_data L td primary data = Inr b"
  shows "length b = 32 + 32 * length (fields_at (td_types td) primary)"
proof -
  from assms(2) obtain m where "encode_fields L td (fields_at (td_types td) primary) data = Inr m"
    and b: "b = type_hash L (td_types td) primary @ m"
    by (rule encode_data_Inr)
  then have "length m = 32 * length (fields_at (td_types td) primary)"
    using encode_fields_length [OF assms(1)] by blast
  then show ?thesis
    using assms(1) b by (simp add: type_hash_def eth_lib_sizes_def)
qed

subsection \<open>A missing field is an error\<close>

lemma encode_field_present:
  assumes "encode_field L td f data = Inr b"
  shows "data_at data (fname f) \<noteq> GNil"
proof
  assume "data_at data (fname f) = GNil"
  then show False
    using assms encode_primitive_nil [of L "ftype f" b]
    by (subst (asm) encode_field.simps) (auto simp: Let_def split: if_splits)
qed

lemma encode_fields_present:
  "encode_fields L td fs data = Inr b \<Longrightarrow> f \<in> set fs \<Longrightarrow> fname f \<in> fst ` set data"
proof (induction fs arbitrary: b)
  case (Cons g fs)
  then show ?case
    using encode_field_present data_at_key by auto
qed simp

lemma encode_fields_each:
  "encode_fields L td fs data = Inr b \<Longrightarrow> f \<in> set fs \<Longrightarrow> \<exists>c. encode_field L td f data = Inr c"
  by (induction fs arbitrary: b) auto

lemma encode_data_field:
  assumes "encode_data L td primary data = Inr b"
    and "f \<in> set (fields_at (td_types td) primary)"
  shows "\<exists>c. encode_field L td f data = Inr c"
  using assms by (meson encode_data_Inr encode_fields_each)

lemma encode_primitive_list: "encode_primitive L t (GList xs) \<noteq> Inr b"
  by (simp add: encode_primitive_def parse_integer_def int_value_def parse_bytes_def
        split: option.split)

lemma encode_field_list:
  assumes "data_at data (fname f) = GList xs" and "ftype f \<noteq> []" and "last (ftype f) \<noteq> CHR '']''"
  shows "encode_field L td f data \<noteq> Inr c"
  using assms encode_primitive_list [of L "ftype f" xs c]
  by (subst encode_field.simps) (simp add: Let_def)

lemma encode_field_struct:
  assumes "encode_field L td f data = Inr c" and "data_at data (fname f) = GMap m"
    and "ftype f = t" and "t \<noteq> []" and "last t \<noteq> CHR '']''" and "slice_at (td_types td) t \<noteq> None"
  shows "\<exists>e. encode_data L td t m = Inr e"
  using assms by (subst (asm) encode_field.simps) (auto simp: Let_def)

lemma encode_field_struct_array:
  assumes "encode_field L td f data = Inr c" and "data_at data (fname f) = GList (GMap m # ms)"
    and "ftype f = t @ ''[]''" and "CHR ''['' \<notin> set t" and "slice_at (td_types td) t \<noteq> None"
  shows "\<exists>e. encode_data L td t m = Inr e"
proof -
  have hd: "hd (split_char CHR ''['' (t @ ''[]'')) = t"
    using assms(4) by (simp add: split_char_append_sep)
  show ?thesis
    using assms hd by (subst (asm) encode_field.simps) (auto simp: Let_def encode_item.simps)
qed

lemma encode_data_keys:
  assumes "encode_data L td primary data = Inr b"
    and "distinct (map fname (fields_at (td_types td) primary))"
  shows "fst ` set data = fname ` set (fields_at (td_types td) primary)"
proof -
  let ?fs = "fields_at (td_types td) primary"
  from assms(1) obtain m where len: "map_len data \<le> length ?fs"
    and enc: "encode_fields L td ?fs data = Inr m"
    by (rule encode_data_Inr)
  have sub: "fname ` set ?fs \<subseteq> fst ` set data"
    using encode_fields_present [OF enc] by auto
  have "card (fname ` set ?fs) = length ?fs"
    using assms(2) by (metis distinct_card length_map set_map)
  then have "card (fst ` set data) \<le> card (fname ` set ?fs)"
    using len by (simp add: map_len_card)
  with sub show ?thesis by (metis card_seteq finite_imageI finite_set)
qed

subsection \<open>The hash\<close>

lemma compute_typed_data_hash_Inr:
  "compute_typed_data_hash L td = Inr h \<longleftrightarrow>
     (\<exists>d m. encode_data L td ''EIP712Domain'' (domain_map (td_domain td)) = Inr d \<and>
            encode_data L td (td_primary_type td) (td_message td) = Inr m \<and>
            h = keccak256 L ([0x19, 0x01] @ keccak256 L d @ keccak256 L m))"
  by (auto simp: compute_typed_data_hash_def hash_struct_def bind_res_Inr_iff)

lemma compute_typed_data_hash_no_panic: "\<not> panics (compute_typed_data_hash L td)"
  using encode_no_panic(1) by (simp add: compute_typed_data_hash_def hash_struct_def)

section \<open>Where each member lies\<close>

lemma encode_fields_layout:
  assumes "eth_lib_sizes L"
  shows "encode_fields L td fs data = Inr b \<Longrightarrow> i < length fs \<Longrightarrow>
    encode_field L td (fs ! i) data = Inr (take 32 (drop (32 * i) b))"
proof (induction fs arbitrary: b i)
  case (Cons f fs)
  from Cons.prems(1) obtain c bs where c: "encode_field L td f data = Inr c"
    and bs: "encode_fields L td fs data = Inr bs" and b: "b = c @ bs"
    by auto
  have len: "length c = 32" by (rule encode_field_length [OF assms c])
  show ?case
  proof (cases i)
    case 0
    then show ?thesis using b c len by simp
  next
    case (Suc j)
    then show ?thesis using Cons.IH [OF bs, of j] Cons.prems(2) b len by simp
  qed
qed simp

section \<open>Properties\<close>

text \<open>A library for concrete runs: constant digests, decimal integers, and zero addresses.\<close>

definition toy_lib :: eth_lib where
  "toy_lib =
     \<lparr>keccak256 = (\<lambda>b. pad_right 32 b), hexutil_decode = (\<lambda>s. Some (to_bytes s)),
      is_hex_address = (\<lambda>s. s \<noteq> []), hex_to_address = (\<lambda>s. replicate 20 0),
      bytes_to_address = (\<lambda>b. pad_right 20 b),
      parse_big256 = (\<lambda>s. map_option int (parse_dec s)), u256_bytes = (\<lambda>n. pad_right 32 [of_int n]),
      padded_big_bytes = (\<lambda>n k. pad_right k [of_int n]), upper_rune = (\<lambda>_. False)\<rparr>"

lemma toy_lib_sizes: "eth_lib_sizes toy_lib"
  by (simp add: eth_lib_sizes_def toy_lib_def)

definition mail_data :: typed_data where
  "mail_data =
     \<lparr>td_types = (''EIP712Domain'', Some [\<lparr>fname = ''name'', ftype = ''string''\<rparr>]) # mail_types,
      td_primary_type = ''Mail'',
      td_domain = \<lparr>dom_name = ''Flux'', dom_version = [], dom_chain_id = None,
                   dom_verifying_contract = [], dom_salt = []\<rparr>,
      td_message = [(''text'', GStr ''hi''), (''to'', GList [GMap [(''name'', GStr ''Bob'')]])]\<rparr>"

lemma mail_data_encodes: "is_ok (encode_data toy_lib mail_data ''Mail'' (td_message mail_data))"
  by code_simp

text \<open>
  C4. No typed data makes the hashing panic: every malformed type table, missing, superfluous or
  ill-typed value is a returned error, to whatever depth structs and arrays nest.
\<close>

theorem typed_data_hash_never_panics: "\<not> panics (compute_typed_data_hash L td)"
  by (rule compute_typed_data_hash_no_panic)

text \<open>
  C3. The encoding of a struct is its type hash followed by one 32-byte word per member, in the
  declared order, and the word of a member is the encoding of that member's value.
\<close>

theorem encode_data_layout:
  assumes "eth_lib_sizes L" and "encode_data L td primary data = Inr b"
  shows "take 32 b = type_hash L (td_types td) primary \<and>
    length b = 32 + 32 * length (fields_at (td_types td) primary) \<and>
    (\<forall>i < length (fields_at (td_types td) primary).
       encode_field L td (fields_at (td_types td) primary ! i) data =
         Inr (take 32 (drop (32 + 32 * i) b)))"
proof -
  from assms(2) obtain m where m: "encode_fields L td (fields_at (td_types td) primary) data = Inr m"
    and b: "b = type_hash L (td_types td) primary @ m"
    by (rule encode_data_Inr)
  have len: "length (type_hash L (td_types td) primary) = 32"
    using assms(1) by (simp add: type_hash_def eth_lib_sizes_def)
  have "\<forall>i < length (fields_at (td_types td) primary).
      encode_field L td (fields_at (td_types td) primary ! i) data =
        Inr (take 32 (drop (32 + 32 * i) b))"
    using encode_fields_layout [OF assms(1) m] b len by simp
  then show ?thesis using b len encode_data_length [OF assms] by simp
qed

lemma encode_data_layout_witness:
  "\<exists>b. encode_data toy_lib mail_data ''Mail'' (td_message mail_data) = Inr b \<and> length b = 96"
proof -
  obtain b where b: "encode_data toy_lib mail_data ''Mail'' (td_message mail_data) = Inr b"
    using mail_data_encodes by (auto simp: is_ok_iff)
  have "length (fields_at (td_types mail_data) ''Mail'') = 2" by code_simp
  then show ?thesis using encode_data_layout [OF toy_lib_sizes b] b by simp
qed

text \<open>
  C5. For a type whose declared members have distinct names, a message that is encoded has exactly
  the members its type declares: none is missing and none is added.  The condition is needed:
  \<open>Types.validate\<close> does not refuse a type that declares a name twice, and \<open>EncodeData\<close> compares the numbers of
  members only, so for such a type it encodes data with a member that is not declared (lemma
  \<open>repeated_member_hides_an_extra_one\<close>).
\<close>

theorem encoded_data_has_exactly_the_declared_fields:
  assumes "encode_data L td primary data = Inr b"
    and "distinct (map fname (fields_at (td_types td) primary))"
  shows "fst ` set data = fname ` set (fields_at (td_types td) primary)"
  by (rule encode_data_keys [OF assms])

lemma encoded_data_has_exactly_the_declared_fields_witness:
  "fst ` set (td_message mail_data) = fname ` set (fields_at (td_types mail_data) ''Mail'')"
proof -
  obtain b where b: "encode_data toy_lib mail_data ''Mail'' (td_message mail_data) = Inr b"
    using mail_data_encodes by (auto simp: is_ok_iff)
  have "distinct (map fname (fields_at (td_types mail_data) ''Mail''))" by code_simp
  with b show ?thesis by (rule encoded_data_has_exactly_the_declared_fields)
qed

text \<open>A type that declares the member \<open>a\<close> twice, and data with \<open>a\<close> and an undeclared \<open>b\<close>.\<close>

definition twice_data :: typed_data where
  "twice_data =
     mail_data\<lparr>td_types :=
         [(''EIP712Domain'', Some [\<lparr>fname = ''name'', ftype = ''string''\<rparr>]),
          (''Twice'', Some [\<lparr>fname = ''a'', ftype = ''bool''\<rparr>, \<lparr>fname = ''a'', ftype = ''bool''\<rparr>])],
       td_primary_type := ''Twice'', td_message := [(''a'', GBool True), (''b'', GBool True)]\<rparr>"

lemma repeated_member_hides_an_extra_one:
  "is_ok (encode_data toy_lib twice_data ''Twice'' (td_message twice_data)) \<and>
   ''b'' \<notin> fname ` set (fields_at (td_types twice_data) ''Twice'')"
  by code_simp

text \<open>
  C6. What \<open>parseInteger\<close> accepts, for every type name and every dynamic value.  It returns the number
  \<open>b\<close> exactly when the type names a width, the value denotes \<open>b\<close> (a non-nil big integer, a string
  go-ethereum parses as hex or decimal, or a float that is a whole \<open>int64\<close>), the absolute value of
  \<open>b\<close> has at most that many bits, and \<open>b\<close> is not negative unless the type is a signed one; a
  negative width accepts nothing.  So \<open>int8\<close> takes 255 and -255 (the sign bit is not counted),
  and \<open>uint8\<close> takes 255 and refuses -1.
\<close>

theorem parse_integer_accepts:
  "parse_integer L t v = Inr b \<longleftrightarrow>
     (\<exists>w. int_width t = Some w \<and> 0 \<le> w \<and> \<bar>b\<bar> < 2 ^ nat w) \<and>
     (v = GBig (Some b) \<or> (\<exists>s. v = GStr s \<and> parse_big256 L s = Some b) \<or>
      (\<exists>x. v = GFloat x \<and> float_int64 x = Some b)) \<and>
     (has_prefix t ''int'' \<or> 0 \<le> b)"
proof -
  have fits: "int (bit_len b) > w \<longleftrightarrow> \<not> (0 \<le> w \<and> \<bar>b\<bar> < 2 ^ nat w)" for w
  proof (cases "0 \<le> w")
    case True
    then show ?thesis by (simp add: bit_len_le_iff [symmetric] not_le nat_less_iff)
  qed simp
  have "int_value L v = Inr (Some b) \<longleftrightarrow>
      v = GBig (Some b) \<or> (\<exists>s. v = GStr s \<and> parse_big256 L s = Some b) \<or>
      (\<exists>x. v = GFloat x \<and> float_int64 x = Some b)"
    by (auto simp: int_value_def split: gval.splits option.splits)
  moreover have "parse_integer L t v = Inr b \<longleftrightarrow>
      (\<exists>w. int_width t = Some w \<and> \<not> int (bit_len b) > w) \<and> int_value L v = Inr (Some b) \<and>
      (has_prefix t ''int'' \<or> 0 \<le> b)"
    by (auto simp: parse_integer_def split: option.splits if_splits)
  ultimately show ?thesis by (simp add: fits)
qed

lemma parse_integer_accepts_witness:
  "parse_integer toy_lib ''int8'' (GBig (Some 255)) = Inr 255 \<and>
   parse_integer toy_lib ''int8'' (GFloat (F64 (- 255) 0)) = Inr (- 255) \<and>
   parse_integer toy_lib ''uint8'' (GBig (Some (- 1))) \<noteq> Inr (- 1)"
proof -
  have "int_width ''int8'' = Some 8" "int_width ''uint8'' = Some 8"
    "has_prefix ''int8'' ''int''" "\<not> has_prefix ''uint8'' ''int''"
    "float_int64 (F64 (- 255) 0) = Some (- 255)"
    by code_simp+
  then show ?thesis by (simp add: parse_integer_accepts)
qed

end
