(* ===== verification/Typed_Format.thy ===== *)
theory Typed_Format
  imports Typed_Data
begin

text \<open>
  The display side of EIP-712 (\<open>chain/app/ante/typeddata/typed_data.go\<close>): \<open>Format\<close> turns typed
  data into a tree of names, types and values, \<open>Pprint\<close> prints the tree; \<open>SignTextValidator\<close> and
  \<open>UnmarshalValidatorData\<close> are the other signing format of the file.  The properties compare
  what is displayed with what is signed.
\<close>

section \<open>SignTextValidator and UnmarshalValidatorData\<close>

record validator_data =
  vd_address :: bytes
  vd_message :: bytes

definition sign_text_validator :: "eth_lib \<Rightarrow> validator_data \<Rightarrow> bytes \<times> bytes" where
  "sign_text_validator L vd =
     (let msg = [0x19, 0x00] @ vd_address vd @ vd_message vd in (keccak256 L msg, msg))"

definition unmarshal_validator_data :: "eth_lib \<Rightarrow> gval \<Rightarrow> validator_data res" where
  "unmarshal_validator_data L v =
     (case v of
        GMap raw \<Rightarrow>
          (case data_at raw ''address'' of
             GStr addr \<Rightarrow>
               bind_res (of_option (Err ''invalid hex'') (hexutil_decode L addr)) (\<lambda>addr_bytes.
               if addr_bytes = [] then Inl (Err ''validator address is undefined'')
               else
                 (case data_at raw ''message'' of
                    GStr message \<Rightarrow>
                      bind_res (of_option (Err ''invalid hex'') (hexutil_decode L message))
                        (\<lambda>message_bytes.
                           if message_bytes = [] then Inl (Err ''message is undefined'')
                           else Inr \<lparr>vd_address = bytes_to_address L addr_bytes,
                                     vd_message = message_bytes\<rparr>)
                  | _ \<Rightarrow> Inl (Err ''message is not sent as a string'')))
           | _ \<Rightarrow> Inl (Err ''validator address is not sent as a string''))
      | _ \<Rightarrow> Inl (Err ''validator input is not a map[string]interface{}''))"

section \<open>The display tree\<close>

text \<open>
  \<open>NameValueType\<close>; its \<open>Value\<close> is nil, a string or a slice of nodes.  The formatting of
  values by the verb \<open>%s\<close> is written out for the values that can be strings; \<open>fmt_other\<close> stands for
  what \<open>fmt\<close> prints for floats, maps and slices, \<open>checksum_address\<close> for go-ethereum's
  \<open>Address.String\<close> and \<open>quote_rune\<close> for the Unicode part of \<open>strconv.Quote\<close>.
\<close>

datatype nvt = NVT (nv_name: string) (nv_value: nv_val) (nv_typ: string)
and nv_val = V_nil | V_str string | V_nodes "nvt list"

record fmt_lib =
  fmt_other :: "gval \<Rightarrow> string"
  checksum_address :: "bytes \<Rightarrow> string"
  quote_rune :: "string \<Rightarrow> string"

definition bytes_string :: "bytes \<Rightarrow> string" where
  "bytes_string b = map (\<lambda>w. char_of (unat w)) b"

definition fmt_s :: "fmt_lib \<Rightarrow> gval \<Rightarrow> string" where
  "fmt_s F v =
     (case v of
        GStr s \<Rightarrow> s
      | GBytes b \<Rightarrow> bytes_string b
      | GHexBytes b \<Rightarrow> ''0x'' @ hex_encode b
      | GNil \<Rightarrow> ''%!s(<nil>)''
      | GBool b \<Rightarrow> (if b then ''%!s(bool=true)'' else ''%!s(bool=false)'')
      | _ \<Rightarrow> fmt_other F v)"

fun hex_string :: "nat \<Rightarrow> string" where
  "hex_string n =
     (if n < 16 then [hex_digit n] else hex_string (n div 16) @ [hex_digit (n mod 16)])"

declare hex_string.simps [simp del]

definition fmt_integer :: "int \<Rightarrow> string" where
  "fmt_integer b =
     (let sgn = (if b < 0 then ''-'' else []); n = nat \<bar>b\<bar> in
      sgn @ dec_string n @ '' (0x'' @ sgn @ hex_string n @ '')'')"

definition format_primitive :: "eth_lib \<Rightarrow> fmt_lib \<Rightarrow> string \<Rightarrow> gval \<Rightarrow> string res" where
  "format_primitive L F t v =
     (if t = ''address'' then
        (case v of
           GStr s \<Rightarrow> Inr (checksum_address F (hex_to_address L s))
         | _ \<Rightarrow> Inl (Err ''could not format value as address''))
      else if t = ''bool'' then
        (case v of
           GBool b \<Rightarrow> Inr (if b then ''true'' else ''false'')
         | _ \<Rightarrow> Inl (Err ''could not format value as bool''))
      else if t = ''bytes'' \<or> t = ''string'' then Inr (fmt_s F v)
      else if has_prefix t ''bytes'' then Inr (fmt_s F v)
      else if has_prefix t ''uint'' \<or> has_prefix t ''int'' then
        bind_res (parse_integer L t v) (\<lambda>b. Inr (fmt_integer b))
      else Inl (Err ''unhandled type''))"

text \<open>
  \<open>formatData\<close>, the body of its loop over the fields, and the loop over the items of an array,
  where \<open>item.Value\<close> (\<open>cur\<close>) is assigned again for every item.  A failed type assertion with
  \<open>_\<close> leaves a nil map.
\<close>

definition as_map :: "gval \<Rightarrow> (string \<times> gval) list" where
  "as_map v = (case v of GMap m \<Rightarrow> m | _ \<Rightarrow> [])"

definition as_list :: "gval \<Rightarrow> gval list" where
  "as_list v = (case v of GList xs \<Rightarrow> xs | _ \<Rightarrow> [])"

lemma as_map_size: "data_size (as_map v) < gsize v"
  using gsize_pos [of v] by (cases v) (auto simp: as_map_def)

lemma as_list_size: "sum_list (map gsize (as_list (data_at m k))) \<le> data_size m"
  using data_at_list_size [of m k]
  by (cases "data_at m k") (force simp: as_list_def)+

function (sequential)
  format_data :: "eth_lib \<Rightarrow> fmt_lib \<Rightarrow> types \<Rightarrow> string \<Rightarrow> (string \<times> gval) list \<Rightarrow> nvt list res" and
  format_fields :: "eth_lib \<Rightarrow> fmt_lib \<Rightarrow> types \<Rightarrow> typ_field list \<Rightarrow> (string \<times> gval) list \<Rightarrow> nvt list res" and
  format_field :: "eth_lib \<Rightarrow> fmt_lib \<Rightarrow> types \<Rightarrow> typ_field \<Rightarrow> (string \<times> gval) list \<Rightarrow> nvt res" and
  format_items :: "eth_lib \<Rightarrow> fmt_lib \<Rightarrow> types \<Rightarrow> typ_field \<Rightarrow> gval \<Rightarrow> gval list \<Rightarrow> nv_val \<Rightarrow> nv_val res"
  where
  "format_data L F T primary data = format_fields L F T (fields_at T primary) data"
| "format_fields L F T [] data = Inr []"
| "format_fields L F T (f # fs) data =
     bind_res (format_field L F T f data)
       (\<lambda>x. bind_res (format_fields L F T fs data) (\<lambda>xs. Inr (x # xs)))"
| "format_field L F T f data =
     (let v = data_at data (fname f) in
      bind_res
        (if is_array f then format_items L F T f v (as_list v) V_nil
         else if slice_at T (ftype f) \<noteq> None then
           (case v of
              GMap m \<Rightarrow> bind_res (format_data L F T (ftype f) m) (\<lambda>out. Inr (V_nodes out))
            | _ \<Rightarrow> Inr (V_str ''<nil>''))
         else bind_res (format_primitive L F (ftype f) v) (\<lambda>out. Inr (V_str out)))
        (\<lambda>val. Inr (NVT (fname f) val (ftype f))))"
| "format_items L F T f v [] cur = Inr cur"
| "format_items L F T f v (item # items) cur =
     bind_res
       (if slice_at T (type_name f) \<noteq> None then
          bind_res (format_data L F T (type_name f) (as_map item)) (\<lambda>out. Inr (V_nodes out))
        else bind_res (format_primitive L F (ftype f) v) (\<lambda>out. Inr (V_str out)))
       (\<lambda>val. format_items L F T f v items val)"
  by pat_completeness auto
termination
proof (relation "measures
    [case_sum
       (case_sum (\<lambda>(L, F, T, p, data). data_size data) (\<lambda>(L, F, T, fs, data). data_size data))
       (case_sum (\<lambda>(L, F, T, f, data). data_size data)
          (\<lambda>(L, F, T, f, v, items, cur). sum_list (map gsize items))),
     case_sum (case_sum (\<lambda>_. 2) (\<lambda>_. 1)) (case_sum (\<lambda>_. 1) (\<lambda>_. 0)),
     case_sum
       (case_sum (\<lambda>_. 0) (\<lambda>(L, F, T, fs, data). Suc (length fs)))
       (case_sum (\<lambda>_. 0) (\<lambda>(L, F, T, f, v, items, cur). length items))]", goal_cases)
  case (5 L F T f data v)
  then show ?case using as_list_size [of data "fname f"] by auto
next
  case (6 L F T f data v m)
  then show ?case using data_at_map_size [of data "fname f" m] by simp
next
  case (7 L F T f v item items cur)
  then show ?case using as_map_size [of item] by simp
next
  case (8 L F T f v item items cur x)
  then show ?case using gsize_pos [of item] by simp
qed auto

declare format_field.simps [simp del]

definition format_typed_data :: "eth_lib \<Rightarrow> fmt_lib \<Rightarrow> typed_data \<Rightarrow> nvt list res" where
  "format_typed_data L F td =
     bind_res (format_data L F (td_types td) ''EIP712Domain'' (domain_map (td_domain td))) (\<lambda>domain.
     bind_res (format_data L F (td_types td) (td_primary_type td) (td_message td)) (\<lambda>ptype.
       Inr [NVT ''EIP712Domain'' (V_nodes domain) ''domain'',
            NVT (td_primary_type td) (V_nodes ptype) ''primary type'']))"

text \<open>\<open>Pprint\<close>: two no-break spaces (\<open>U+00A0\<close>, the bytes C2 A0) per level; \<open>%q\<close> of the value.\<close>

definition quote_char :: "char \<Rightarrow> string" where
  "quote_char c =
     (let n = (of_char c :: nat) in
      if c = CHR 0x22 then [CHR 0x5C, CHR 0x22]
      else if c = CHR 0x5C then [CHR 0x5C, CHR 0x5C]
      else if n = 7 then [CHR 0x5C, CHR ''a'']
      else if n = 8 then [CHR 0x5C, CHR ''b'']
      else if n = 12 then [CHR 0x5C, CHR ''f'']
      else if n = 10 then [CHR 0x5C, CHR ''n'']
      else if n = 13 then [CHR 0x5C, CHR ''r'']
      else if n = 9 then [CHR 0x5C, CHR ''t'']
      else if n = 11 then [CHR 0x5C, CHR ''v'']
      else if n < 32 \<or> n = 127 then [CHR 0x5C, CHR ''x'', hex_digit (n div 16), hex_digit (n mod 16)]
      else [c])"

definition go_quote :: "fmt_lib \<Rightarrow> string \<Rightarrow> string" where
  "go_quote F s =
     (if list_all is_ascii s then [CHR 0x22] @ concat (map quote_char s) @ [CHR 0x22]
      else quote_rune F s)"

fun pprint :: "fmt_lib \<Rightarrow> nat \<Rightarrow> nvt \<Rightarrow> string" and
    pprint_val :: "fmt_lib \<Rightarrow> nat \<Rightarrow> nv_val \<Rightarrow> string" and
    pprint_list :: "fmt_lib \<Rightarrow> nat \<Rightarrow> nvt list \<Rightarrow> string" where
  "pprint F depth (NVT n v t) =
     concat (replicate (depth * 2) [CHR 0xC2, CHR 0xA0]) @ n @ '' ['' @ t @ '']: '' @
     pprint_val F depth v"
| "pprint_val F depth (V_nodes ns) = [CHR 0x0A] @ pprint_list F depth ns"
| "pprint_val F depth (V_str s) = go_quote F s @ [CHR 0x0A]"
| "pprint_val F depth V_nil = [CHR 0x0A]"
| "pprint_list F depth [] = []"
| "pprint_list F depth (n # ns) = pprint F (Suc depth) n @ pprint_list F depth ns"

section \<open>What is displayed\<close>

lemma format_field_Inr:
  "format_field L F T f data = Inr x \<Longrightarrow> nv_name x = fname f \<and> nv_typ x = ftype f"
  by (subst (asm) format_field.simps) (auto simp: Let_def)

lemma format_fields_members:
  "format_fields L F T fs data = Inr xs \<Longrightarrow>
     map nv_name xs = map fname fs \<and> map nv_typ xs = map ftype fs"
proof (induction fs arbitrary: xs)
  case (Cons f fs)
  then obtain x ys where "format_field L F T f data = Inr x" "xs = x # ys"
    "format_fields L F T fs data = Inr ys"
    by auto
  then show ?case using format_field_Inr Cons.IH by simp
qed simp

lemma format_fields_nth:
  "format_fields L F T fs data = Inr xs \<Longrightarrow> i < length fs \<Longrightarrow>
     format_field L F T (fs ! i) data = Inr (xs ! i)"
proof (induction fs arbitrary: xs i)
  case (Cons f fs)
  then show ?case by (cases i) auto
qed simp

lemma format_items_structs:
  assumes "slice_at T (type_name f) \<noteq> None"
  shows "format_items L F T f v (items @ [item]) cur = Inr w \<Longrightarrow>
     \<exists>out. format_data L F T (type_name f) (as_map item) = Inr out \<and> w = V_nodes out"
  using assms by (induction items arbitrary: cur) auto

text \<open>No type of the form \<open>p[]\<close>, for a primitive \<open>p\<close> other than the \<open>bytes\<close> types, is formatted.\<close>

definition unformattable :: "string \<Rightarrow> bool" where
  "unformattable t \<longleftrightarrow>
     t \<notin> {''address'', ''bool'', ''bytes'', ''string''} \<and> \<not> has_prefix t ''bytes'' \<and>
     int_width t = None"

lemma prim_arrays_unformattable:
  "list_all (\<lambda>p. has_prefix p ''bytes'' \<or> unformattable (p @ ''[]'')) prim_base"
  by code_simp

lemma format_unformattable: "unformattable t \<Longrightarrow> \<exists>e. format_primitive L F t v = Inl (Err e)"
  by (simp add: unformattable_def format_primitive_def parse_integer_def)

section \<open>Properties\<close>

text \<open>
  When \<open>Format\<close> succeeds, its two nodes list exactly the declared members of the domain and
  of the primary type, in order, each with its declared type.
\<close>

theorem format_lists_the_declared_members:
  assumes "format_typed_data L F td = Inr nodes"
  shows "\<exists>dom msg. nodes = [NVT ''EIP712Domain'' (V_nodes dom) ''domain'',
                            NVT (td_primary_type td) (V_nodes msg) ''primary type''] \<and>
     map nv_name dom = map fname (fields_at (td_types td) ''EIP712Domain'') \<and>
     map nv_typ dom = map ftype (fields_at (td_types td) ''EIP712Domain'') \<and>
     map nv_name msg = map fname (fields_at (td_types td) (td_primary_type td)) \<and>
     map nv_typ msg = map ftype (fields_at (td_types td) (td_primary_type td))"
  using assms format_fields_members by (fastforce simp: format_typed_data_def)

definition toy_fmt :: fmt_lib where
  "toy_fmt = \<lparr>fmt_other = (\<lambda>_. []), checksum_address = hex_encode, quote_rune = id\<rparr>"

lemma format_lists_the_declared_members_witness:
  "\<exists>nodes dom msg. format_typed_data toy_lib toy_fmt mail_data = Inr nodes \<and>
     nodes = [NVT ''EIP712Domain'' (V_nodes dom) ''domain'', NVT ''Mail'' (V_nodes msg) ''primary type''] \<and>
     map nv_name msg = [''to'', ''text'']"
proof -
  have "is_ok (format_typed_data toy_lib toy_fmt mail_data)" by code_simp
  then obtain nodes where "format_typed_data toy_lib toy_fmt mail_data = Inr nodes"
    by (auto simp: is_ok_iff)
  moreover have "td_primary_type mail_data = ''Mail''"
    "map fname (fields_at (td_types mail_data) ''Mail'') = [''to'', ''text'']"
    by code_simp+
  ultimately show ?thesis using format_lists_the_declared_members [of toy_lib toy_fmt mail_data nodes]
    by auto
qed

text \<open>
  Of an array of structs \<open>Format\<close> shows only the last item: the loop assigns \<open>item.Value\<close>
  again on each round, while \<open>EncodeData\<close> signs all items.
\<close>

theorem format_shows_only_the_last_item:
  assumes "data_at data (fname f) = GList (items @ [item])" and "is_array f"
    and "slice_at T (type_name f) \<noteq> None"
    and "format_field L F T f data = Inr node"
  shows "\<exists>out. format_data L F T (type_name f) (as_map item) = Inr out \<and>
     node = NVT (fname f) (V_nodes out) (ftype f)"
  using assms(1,2,4) format_items_structs [OF assms(3)]
  by (subst (asm) format_field.simps) (fastforce simp: Let_def as_list_def)

definition people_field :: typ_field where
  "people_field = \<lparr>fname = ''to'', ftype = ''Person[]''\<rparr>"

definition two_people :: "(string \<times> gval) list" where
  "two_people = [(''to'', GList ([GMap [(''name'', GStr ''Ann'')]] @ [GMap [(''name'', GStr ''Bob'')]]))]"

lemma format_shows_only_the_last_item_witness:
  "format_field toy_lib toy_fmt mail_types people_field two_people =
     Inr (NVT ''to'' (V_nodes [NVT ''name'' (V_str ''Bob'') ''string'']) ''Person[]'')"
proof -
  have "is_ok (format_field toy_lib toy_fmt mail_types people_field two_people)" by code_simp
  then obtain node where node: "format_field toy_lib toy_fmt mail_types people_field two_people = Inr node"
    by (auto simp: is_ok_iff)
  have "data_at two_people (fname people_field) =
      GList ([GMap [(''name'', GStr ''Ann'')]] @ [GMap [(''name'', GStr ''Bob'')]])"
    by (simp add: two_people_def people_field_def data_at_def)
  moreover have "is_array people_field" "slice_at mail_types (type_name people_field) \<noteq> None"
    by code_simp+
  moreover have "format_data toy_lib toy_fmt mail_types (type_name people_field)
      (as_map (GMap [(''name'', GStr ''Bob'')])) = Inr [NVT ''name'' (V_str ''Bob'') ''string'']"
    by code_simp
  ultimately show ?thesis
    using format_shows_only_the_last_item [OF _ _ _ node, of "[GMap [(''name'', GStr ''Ann'')]]"
        "GMap [(''name'', GStr ''Bob'')]"] node
    by (simp add: people_field_def)
qed

text \<open>
  A non-empty array of primitives other than the \<open>bytes\<close> types, which the validation
  accepts and \<open>EncodeData\<close> signs, cannot be displayed: \<open>formatPrimitiveValue\<close> is called with the
  array type and the whole array.
\<close>

theorem format_fails_on_primitive_arrays:
  assumes "p \<in> set prim_base" and "\<not> has_prefix p ''bytes''"
    and "ftype f = p @ ''[]''" and "slice_at T p = None"
    and "data_at data (fname f) = GList (x # xs)"
  shows "is_primitive_type_valid (ftype f) \<and> (\<exists>e. format_field L F T f data = Inl (Err e))"
proof
  show "is_primitive_type_valid (ftype f)"
    using assms(1,3) by (auto simp: is_primitive_type_valid_def)
  have "unformattable (ftype f)"
    using prim_arrays_unformattable assms(1-3) by (auto simp: list_all_iff)
  then obtain e where "format_primitive L F (ftype f) (GList (x # xs)) = Inl (Err e)"
    using format_unformattable by blast
  moreover have "is_array f" "type_name f = p"
    using assms(3) by (simp_all add: is_array_def type_name_def)
  ultimately have "format_field L F T f data = Inl (Err e)"
    using assms(4,5) by (subst format_field.simps) (simp add: Let_def as_list_def)
  then show "\<exists>e. format_field L F T f data = Inl (Err e)" by blast
qed

lemma format_fails_on_primitive_arrays_witness:
  "\<exists>e. format_field toy_lib toy_fmt [] \<lparr>fname = ''ids'', ftype = ''uint64[]''\<rparr>
     [(''ids'', GList [GStr ''7''])] = Inl (Err e)"
proof -
  have "''uint64'' \<in> set prim_base" "\<not> has_prefix ''uint64'' ''bytes''" by code_simp+
  then show ?thesis
    using format_fails_on_primitive_arrays [of "''uint64''" "\<lparr>fname = ''ids'', ftype = ''uint64[]''\<rparr>" "[]"
        "[(''ids'', GList [GStr ''7''])]" "GStr ''7''" "[]" toy_lib toy_fmt]
    by (simp add: slice_at_def data_at_def)
qed

end
