(* ===== verification/Eip712_Wrap.thy ===== *)
theory Eip712_Wrap
  imports Typed_Data "HOL-Library.AList"
begin

text \<open>
  From a Cosmos message to EIP-712 typed data (\<open>chain/app/ante/eip712_cosmos.go\<close>): the walk over
  the message's Go type and value (\<open>traverseFields\<close>) that builds the type table, the names it
  makes (\<open>sanitizeTypedef\<close>, \<open>jsonNameFromTag\<close>, \<open>typToEth\<close>) and \<open>WrapTxToEIP712\<close>.  Go's
  reflection is modelled by a datatype of types and one of values.
\<close>

section \<open>Names\<close>

definition sanitize_part :: "string \<Rightarrow> string" where
  "sanitize_part part =
     (if part = ''_'' then ''Type'' else concat (map title (split_char CHR ''_'' part)))"

definition sanitize_typedef :: "string \<Rightarrow> string" where
  "sanitize_typedef s = concat (map sanitize_part (split_char CHR ''.'' s))"

definition json_name_from_tag :: "string \<Rightarrow> string" where
  "json_name_from_tag tag = hd (split_char CHR '','' tag)"

section \<open>Reflection\<close>

text \<open>
  A struct type carries what \<open>ConvertibleTo\<close> and the comparison with \<open>*codectypes.Any\<close> can find
  out about it.  \<open>common.Hash\<close> and \<open>common.Address\<close> are arrays, so no struct is convertible to
  them.  The tag of a field is its \<open>json\<close> tag.
\<close>

datatype sclass = Cls_plain | Cls_big_int | Cls_time | Cls_cosm_int | Cls_any

datatype gty =
    T_string | T_bool
  | T_int | T_int8 | T_int16 | T_int32 | T_int64
  | T_uint | T_uint8 | T_uint16 | T_uint32 | T_uint64
  | T_other
  | T_slice gty
  | T_array gty
  | T_ptr gty
  | T_iface
  | T_struct sclass "(string \<times> gty) list"

text \<open>
  A \<open>reflect.Value\<close>: \<open>R_invalid\<close> is the zero Value; a pointer may be nil; an interface holds a
  dynamic type and value or nil.  The value of a \<open>codectypes.Any\<close> carries its type URL and what
  the codec's \<open>UnpackAny\<close> answers for it, beside its own fields.
\<close>

datatype rval =
    R_invalid
  | R_scalar
  | R_ptr "rval option"
  | R_struct "rval list"
  | R_seq "rval list"
  | R_iface "(gty \<times> rval) option"
  | R_any string "fault + (gty \<times> rval) option" "rval list"

fun ty_size :: "gty \<Rightarrow> nat" where
  "ty_size (T_slice t) = Suc (ty_size t)"
| "ty_size (T_array t) = Suc (ty_size t)"
| "ty_size (T_ptr t) = Suc (ty_size t)"
| "ty_size (T_struct c fs) = Suc (sum_list (map (\<lambda>f. ty_size (snd f)) fs))"
| "ty_size _ = 1"

fun rsize :: "rval \<Rightarrow> nat" where
  "rsize R_invalid = 0"
| "rsize R_scalar = 1"
| "rsize (R_ptr None) = 1"
| "rsize (R_ptr (Some w)) = Suc (rsize w)"
| "rsize (R_struct vs) = Suc (sum_list (map rsize vs))"
| "rsize (R_seq vs) = Suc (sum_list (map rsize vs))"
| "rsize (R_iface None) = 1"
| "rsize (R_iface (Some (t, w))) = Suc (rsize w)"
| "rsize (R_any url (Inr (Some (t, w))) vs) = 5 + rsize w + sum_list (map rsize vs)"
| "rsize (R_any url _ vs) = 5 + sum_list (map rsize vs)"

definition convertible :: "gty \<Rightarrow> bool" where
  "convertible t =
     (case t of T_struct c _ \<Rightarrow> c \<in> {Cls_big_int, Cls_time, Cls_cosm_int} | _ \<Rightarrow> False)"

fun typ_to_eth :: "gty \<Rightarrow> string" where
  "typ_to_eth T_string = ''string''"
| "typ_to_eth T_bool = ''bool''"
| "typ_to_eth T_int = ''int64''"
| "typ_to_eth T_int8 = ''int8''"
| "typ_to_eth T_int16 = ''int16''"
| "typ_to_eth T_int32 = ''int32''"
| "typ_to_eth T_int64 = ''int64''"
| "typ_to_eth T_uint = ''uint64''"
| "typ_to_eth T_uint8 = ''uint8''"
| "typ_to_eth T_uint16 = ''uint16''"
| "typ_to_eth T_uint32 = ''uint32''"
| "typ_to_eth T_uint64 = ''uint64''"
| "typ_to_eth (T_slice t) = (let n = typ_to_eth t in if n \<noteq> [] then n @ ''[]'' else [])"
| "typ_to_eth (T_array t) = (let n = typ_to_eth t in if n \<noteq> [] then n @ ''[]'' else [])"
| "typ_to_eth (T_ptr t) = (if convertible t then ''string'' else [])"
| "typ_to_eth (T_struct c fs) = (if convertible (T_struct c fs) then ''string'' else [])"
| "typ_to_eth T_iface = []"
| "typ_to_eth T_other = []"

text \<open>\<open>Value.Elem\<close>, \<open>Value.Field(i)\<close> (guarded by \<open>v.IsValid()\<close>).\<close>

definition elem_value :: "rval \<Rightarrow> rval res" where
  "elem_value v =
     (case v of
        R_ptr (Some w) \<Rightarrow> Inr w
      | R_ptr None \<Rightarrow> Inr R_invalid
      | R_iface (Some (_, w)) \<Rightarrow> Inr w
      | R_iface None \<Rightarrow> Inr R_invalid
      | _ \<Rightarrow> Inl (Panic ''reflect: call of reflect.Value.Elem''))"

definition field_value :: "rval \<Rightarrow> nat \<Rightarrow> rval res" where
  "field_value v i =
     (case v of
        R_invalid \<Rightarrow> Inr R_invalid
      | R_struct vs \<Rightarrow> index_at vs i
      | R_any _ _ vs \<Rightarrow> index_at vs i
      | _ \<Rightarrow> Inl (Panic ''reflect: call of reflect.Value.Field''))"

lemma elem_value_size: "elem_value v = Inr w \<Longrightarrow> rsize w < rsize v"
  by (auto simp: elem_value_def split: rval.splits option.splits)

text \<open>
  The loop that strips pointers and interfaces off the type and the value of a field.  An
  interface of static type \<open>T_iface\<close> is opened to its dynamic type; when that is a pointer, the
  next round takes \<open>Elem\<close> of both, otherwise the loop stops with the interface as the value.  A
  dynamic type is never itself an interface.
\<close>

definition ptr_elem :: "gty \<Rightarrow> gty option" where
  "ptr_elem t = (case t of T_ptr t' \<Rightarrow> Some t' | _ \<Rightarrow> None)"

definition ptr_target :: "rval \<Rightarrow> rval option" where
  "ptr_target v =
     (case v of R_ptr (Some w) \<Rightarrow> Some w | R_ptr None \<Rightarrow> Some R_invalid | _ \<Rightarrow> None)"

definition dynamic :: "rval \<Rightarrow> (gty \<times> rval) res" where
  "dynamic v =
     (case v of
        R_iface (Some (t, w)) \<Rightarrow>
          if t = T_iface then Inl (Panic ''unreachable: dynamic type is an interface'')
          else Inr (t, w)
      | R_iface None \<Rightarrow> Inl (Panic ''invalid memory address or nil pointer dereference'')
      | _ \<Rightarrow> Inl (Panic ''reflect: call of reflect.Value.Interface on zero Value''))"

lemma ptr_elem_Some [simp]: "ptr_elem t = Some t' \<longleftrightarrow> t = T_ptr t'"
  by (auto simp: ptr_elem_def split: gty.splits)

lemma ptr_elem_ptr [simp]: "ptr_elem (T_ptr t) = Some t"
  by simp

lemma ptr_target_size: "ptr_target v = Some w \<Longrightarrow> rsize w < rsize v"
  by (auto simp: ptr_target_def split: rval.splits option.splits)

lemma dynamic_Inr: "dynamic v = Inr (t, w) \<longleftrightarrow> v = R_iface (Some (t, w)) \<and> t \<noteq> T_iface"
  by (auto simp: dynamic_def split: rval.splits option.splits)

function deref :: "gty \<Rightarrow> rval \<Rightarrow> (gty \<times> rval) res" where
  "deref t v =
     (case ptr_elem t of
        Some t' \<Rightarrow>
          if v = R_invalid then deref t' R_invalid else bind_res (elem_value v) (\<lambda>w. deref t' w)
      | None \<Rightarrow>
          if t = T_iface then
            bind_res (dynamic v) (\<lambda>(t', w).
              case ptr_elem t' of
                Some t'' \<Rightarrow> deref t'' w
              | None \<Rightarrow> Inr (t', v))
          else
            (case ptr_target v of
               Some w \<Rightarrow> deref t w
             | None \<Rightarrow> Inr (t, v)))"
  by pat_completeness auto
termination
  by (relation "measures [\<lambda>(t, v). rsize v, \<lambda>(t, v). ty_size t]")
    (auto dest: elem_value_size ptr_target_size simp: dynamic_Inr)

declare deref.simps [simp del]

definition ty_rank :: "gty \<Rightarrow> rval \<Rightarrow> nat" where
  "ty_rank t v =
     (if t = T_iface then (case v of R_iface (Some (t', _)) \<Rightarrow> Suc (ty_size t') | _ \<Rightarrow> 1)
      else ty_size t)"

definition not_bigger :: "gty \<Rightarrow> rval \<Rightarrow> gty \<Rightarrow> rval \<Rightarrow> bool" where
  "not_bigger t' v' t v \<longleftrightarrow>
     rsize v' < rsize v \<or> rsize v' = rsize v \<and> ty_rank t' v' \<le> ty_rank t v"

lemma not_bigger_trans:
  "not_bigger t3 v3 t2 v2 \<Longrightarrow> not_bigger t2 v2 t1 v1 \<Longrightarrow> not_bigger t3 v3 t1 v1"
  by (auto simp: not_bigger_def)


lemma deref_size: "deref t v = Inr (t', v') \<Longrightarrow> not_bigger t' v' t v"
proof (induction t v rule: deref.induct)
  case (1 t v)
  note unf = deref.simps [of t v]
  show ?case
  proof (cases "ptr_elem t")
    case (Some s)
    show ?thesis
    proof (cases "v = R_invalid")
      case True
      then have "deref s R_invalid = Inr (t', v')" using "1.prems" Some by (simp add: deref.simps [of "T_ptr s"])
      with "1.IH"(3) [OF Some True] have "not_bigger t' v' s R_invalid" .
      then show ?thesis
        using Some True by (auto simp: not_bigger_def ty_rank_def split: if_splits)
    next
      case False
      then obtain w where w: "elem_value v = Inr w" "deref s w = Inr (t', v')"
        using "1.prems" Some by (auto simp: unf)
      then have "not_bigger t' v' s w" using "1.IH"(4) [OF Some False w(1)] by blast
      then show ?thesis using elem_value_size [OF w(1)] by (auto simp: not_bigger_def)
    qed
  next
    case None
    show ?thesis
    proof (cases "t = T_iface")
      case True
      then obtain s w where dyn: "dynamic v = Inr (s, w)"
        using "1.prems" None by (auto simp: deref.simps [of T_iface v])
      then have v: "v = R_iface (Some (s, w))" "s \<noteq> T_iface" by (auto simp: dynamic_Inr)
      show ?thesis
      proof (cases "ptr_elem s")
        case (Some u)
        then have "deref u w = Inr (t', v')"
          using "1.prems" None True dyn by (simp add: deref.simps [of T_iface v])
        then have "not_bigger t' v' u w"
          using "1.IH"(1) [OF None True dyn refl Some] by blast
        then show ?thesis by (auto simp: v not_bigger_def)
      next
        case None' : None
        then have "t' = s" "v' = v" using "1.prems" None True dyn by (auto simp: deref.simps [of T_iface v])
        then show ?thesis using True v by (simp add: not_bigger_def ty_rank_def)
      qed
    next
      case False
      show ?thesis
      proof (cases "ptr_target v")
        case None' : None
        then show ?thesis using "1.prems" None False by (simp add: unf not_bigger_def)
      next
        case (Some w)
        then have "deref t w = Inr (t', v')" using "1.prems" None False by (simp add: unf)
        then have "not_bigger t' v' t w" using "1.IH"(2) [OF None False Some] by blast
        then show ?thesis using ptr_target_size [OF Some] by (auto simp: not_bigger_def)
      qed
    qed
  qed
qed

lemma ty_size_pos: "0 < ty_size t"
  by (cases t) auto

lemma rsize_any: "5 + sum_list (map rsize vs) \<le> rsize (R_any url x vs)"
proof (cases x)
  case (Inr y)
  then show ?thesis by (cases y) auto
qed simp

lemma field_value_rank:
  assumes "field_value v i = Inr field"
  shows "rsize field < rsize v \<or> rsize field = rsize v \<and> ty_rank t field \<le> ty_size t"
proof (cases "v = R_invalid")
  case True
  then show ?thesis
    using assms ty_size_pos [of t] by (auto simp: field_value_def ty_rank_def)
next
  case False
  then obtain vs where "i < length vs" "field = vs ! i"
    and vs: "v = R_struct vs \<or> (\<exists>url x. v = R_any url x vs)"
    using assms by (auto simp: field_value_def index_at_Inr_iff split: rval.splits)
  then have "field \<in> set vs" by simp
  then have "rsize field \<le> sum_list (map rsize vs)"
    by (intro member_le_sum_list) auto
  moreover have "sum_list (map rsize vs) < rsize v"
    using vs by (auto intro: less_le_trans [OF _ rsize_any])
  ultimately show ?thesis by simp
qed

section \<open>One field\<close>

text \<open>
  What the body of the loop of \<open>traverseFields\<close> does to the type and value of one field before it
  looks at the type: an \<open>*Any\<close> is replaced by a wrapper with its type URL and its unpacked
  content, pointers and interfaces are stripped, a collection is replaced by its first element
  (an empty one is skipped: None), and pointers and interfaces are stripped again.  The flag is
  \<open>isCollection\<close>.
\<close>

definition any_wrapper_type :: gty where
  "any_wrapper_type = T_ptr (T_struct Cls_plain [(''type'', T_string), (''value'', T_iface)])"

definition is_any_ptr :: "gty \<Rightarrow> bool" where
  "is_any_ptr t = (case t of T_ptr (T_struct c _) \<Rightarrow> c = Cls_any | _ \<Rightarrow> False)"

definition unwrap_any :: "gty \<Rightarrow> rval \<Rightarrow> (gty \<times> rval) res" where
  "unwrap_any ft field =
     (if is_any_ptr ft then
        (case field of
           R_ptr (Some (R_any url unpacked vs)) \<Rightarrow>
             bind_res (wrap_err ''failed to unpack Any in msg struct'' unpacked) (\<lambda>x.
               Inr (any_wrapper_type, R_ptr (Some (R_struct [R_scalar, R_iface x]))))
         | _ \<Rightarrow> Inl (Panic ''invalid memory address or nil pointer dereference''))
      else Inr (ft, field))"

definition first_element :: "gty \<Rightarrow> rval \<Rightarrow> (gty \<times> rval \<times> bool) option res" where
  "first_element ft field =
     (case ft of
        T_slice t \<Rightarrow>
          (case field of
             R_seq [] \<Rightarrow> Inr None
           | R_seq (x # _) \<Rightarrow> Inr (Some (t, x, True))
           | _ \<Rightarrow> Inl (Panic ''reflect: call of reflect.Value.Len''))
      | T_array t \<Rightarrow>
          (case field of
             R_seq [] \<Rightarrow> Inr None
           | R_seq (x # _) \<Rightarrow> Inr (Some (t, x, True))
           | _ \<Rightarrow> Inl (Panic ''reflect: call of reflect.Value.Len''))
      | _ \<Rightarrow> Inr (Some (ft, field, False)))"

definition resolve_field :: "gty \<Rightarrow> rval \<Rightarrow> (gty \<times> rval \<times> bool) option res" where
  "resolve_field ft field =
     bind_res (unwrap_any ft field) (\<lambda>(ft1, field1).
     bind_res (deref ft1 field1) (\<lambda>(ft2, field2).
     bind_res (first_element ft2 field2) (\<lambda>c.
       case c of
         None \<Rightarrow> Inr None
       | Some (ft3, field3, coll) \<Rightarrow>
           bind_res (deref ft3 field3) (\<lambda>(ft4, field4). Inr (Some (ft4, field4, coll))))))"

lemma unwrap_any_size:
  assumes "unwrap_any ft v = Inr (ft', v')"
  shows "not_bigger ft' v' ft v"
proof (cases "is_any_ptr ft")
  case True
  with assms obtain url vs x where "v = R_ptr (Some (R_any url (Inr x) vs))"
    and "v' = R_ptr (Some (R_struct [R_scalar, R_iface x]))"
    by (auto simp: unwrap_any_def split: rval.splits option.splits)
  then show ?thesis by (cases x) (auto simp: not_bigger_def)
next
  case False
  with assms show ?thesis by (simp add: unwrap_any_def not_bigger_def)
qed

lemma first_element_size:
  "first_element ft v = Inr (Some (ft', v', coll)) \<Longrightarrow> not_bigger ft' v' ft v"
  by (cases ft) (auto simp: first_element_def not_bigger_def split: rval.splits list.splits)

lemma resolve_field_size:
  assumes "resolve_field ft v = Inr (Some (ft', v', coll))"
  shows "not_bigger ft' v' ft v"
proof -
  from assms obtain t1 v1 t2 v2 t3 v3 where
    "unwrap_any ft v = Inr (t1, v1)" "deref t1 v1 = Inr (t2, v2)"
    "first_element t2 v2 = Inr (Some (t3, v3, coll))" "deref t3 v3 = Inr (ft', v')"
    by (auto simp: resolve_field_def split: option.splits)
  then show ?thesis
    by (meson unwrap_any_size deref_size first_element_size not_bigger_trans)
qed

section \<open>traverseFields\<close>

definition add_field :: "types \<Rightarrow> string \<Rightarrow> string \<Rightarrow> string \<Rightarrow> types" where
  "add_field tm def name ty =
     AList.update def (Some (fields_at tm def @ [\<lparr>fname = name, ftype = ty\<rparr>])) tm"

text \<open>\<open>typeMap[rootType]\<close> at the root, \<open>typeMap[sanitizeTypedef(prefix)]\<close> below it.\<close>

definition type_def :: "string \<Rightarrow> string \<Rightarrow> string" where
  "type_def root pfx = (if pfx = ''_'' then root else sanitize_typedef pfx)"

definition struct_fields :: "gty \<Rightarrow> (string \<times> gty) list option" where
  "struct_fields t = (case t of T_struct _ fs \<Rightarrow> Some fs | _ \<Rightarrow> None)"

lemma struct_fields_size:
  "struct_fields t = Some fs \<Longrightarrow> ty_size t = Suc (sum_list (map (\<lambda>f. ty_size (snd f)) fs))"
  by (auto simp: struct_fields_def split: gty.splits)

function
  traverse :: "types \<Rightarrow> string \<Rightarrow> string \<Rightarrow> gty \<Rightarrow> rval \<Rightarrow> types res" and
  traverse_from :: "types \<Rightarrow> string \<Rightarrow> string \<Rightarrow> (string \<times> gty) list \<Rightarrow> nat \<Rightarrow> rval \<Rightarrow> types res" and
  traverse_field :: "types \<Rightarrow> string \<Rightarrow> string \<Rightarrow> string \<Rightarrow> gty \<Rightarrow> rval \<Rightarrow> types res" where
  "traverse tm root pfx t v =
     (case struct_fields t of
        None \<Rightarrow> Inl (Panic ''reflect: NumField of non-struct type'')
      | Some fs \<Rightarrow>
          if length (fields_at tm (type_def root pfx)) = length fs then Inr tm
          else traverse_from tm root pfx fs 0 v)"
| "traverse_from tm root pfx [] i v = Inr tm"
| "traverse_from tm root pfx (f # fs) i v =
     bind_res (field_value v i) (\<lambda>field.
     bind_res (traverse_field tm root pfx (json_name_from_tag (fst f)) (snd f) field) (\<lambda>tm'.
       traverse_from tm' root pfx fs (Suc i) v))"
| "traverse_field tm root pfx name ft field =
     bind_res (resolve_field ft field) (\<lambda>r.
       case r of
         None \<Rightarrow> Inr tm
       | Some (ft', field', coll) \<Rightarrow>
           let field_pfx = pfx @ ''.'' @ name;
               eth = typ_to_eth ft';
               def = type_def root pfx in
           if eth \<noteq> [] then Inr (add_field tm def name eth)
           else if struct_fields ft' \<noteq> None then
             traverse
               (add_field tm def name
                  (sanitize_typedef field_pfx @ (if coll then ''[]'' else [])))
               root field_pfx ft' field'
           else Inr tm)"
  by pat_completeness auto

termination
proof (relation "measures
    [case_sum (\<lambda>(tm, root, pfx, t, v). rsize v)
       (case_sum (\<lambda>(tm, root, pfx, fs, i, v). rsize v)
          (\<lambda>(tm, root, pfx, name, ft, field). rsize field)),
     case_sum (\<lambda>(tm, root, pfx, t, v). ty_rank t v)
       (case_sum (\<lambda>(tm, root, pfx, fs, i, v). sum_list (map (\<lambda>f. ty_size (snd f)) fs))
          (\<lambda>(tm, root, pfx, name, ft, field). ty_rank ft field)),
     case_sum (\<lambda>_. 0) (case_sum (\<lambda>_. 2) (\<lambda>_. 1))]", goal_cases)
  case (2 tm root pfx t v fs)
  then have "t \<noteq> T_iface" by (auto simp: struct_fields_def)
  then show ?case using 2 struct_fields_size [of t fs] by (simp add: ty_rank_def)
next
  case (3 tm root pfx f fs i v field)
  then show ?case using field_value_rank [of v i field "snd f"] by auto
next
  case (4 tm root pfx f fs i v field tm')
  then show ?case using ty_size_pos [of "snd f"] by simp
next
  case (5 tm root pfx name ft field r q ft' q' field' coll field_pfx eth def)
  then have "resolve_field ft field = Inr (Some (ft', field', coll))" by auto
  then have "not_bigger ft' field' ft field" by (rule resolve_field_size)
  then show ?case by (auto simp: not_bigger_def)
qed simp

declare traverse.simps [simp del] traverse_field.simps [simp del]

lemmas traverse_induct = traverse_traverse_from_traverse_field.induct

section \<open>walkFields, extractMsgTypes and WrapTxToEIP712\<close>

text \<open>
  \<open>doRecover\<close> turns a panic into an error value (the message text aside).  A nil message has no
  type to ask for its kind.
\<close>

definition do_recover :: "'a res \<Rightarrow> 'a res" where
  "do_recover m = (case m of Inl (Panic s) \<Rightarrow> Inl (Err s) | _ \<Rightarrow> m)"

fun strip_pointers :: "gty \<Rightarrow> rval \<Rightarrow> (gty \<times> rval) res" where
  "strip_pointers (T_ptr t) v = bind_res (elem_value v) (\<lambda>w. strip_pointers t w)"
| "strip_pointers T_iface v = Inl (Panic ''reflect: Elem of invalid type'')"
| "strip_pointers t v = Inr (t, v)"

definition walk_fields :: "types \<Rightarrow> string \<Rightarrow> (gty \<times> rval) option \<Rightarrow> types res" where
  "walk_fields tm root input =
     do_recover
       (case input of
          None \<Rightarrow> Inl (Panic ''invalid memory address or nil pointer dereference'')
        | Some (t, v) \<Rightarrow>
            bind_res (strip_pointers t v) (\<lambda>(t', v'). traverse tm root ''_'' t' v'))"

definition root_types :: "string \<Rightarrow> types" where
  "root_types msg_type_name =
     AList.update msg_type_name (Some [])
      [(''EIP712Domain'', Some
         [\<lparr>fname = ''name'', ftype = ''string''\<rparr>,
          \<lparr>fname = ''version'', ftype = ''string''\<rparr>,
          \<lparr>fname = ''chainId'', ftype = ''uint256''\<rparr>,
          \<lparr>fname = ''verifyingContract'', ftype = ''string''\<rparr>,
          \<lparr>fname = ''salt'', ftype = ''string''\<rparr>]),
       (''Tx'', Some
         [\<lparr>fname = ''account_number'', ftype = ''string''\<rparr>,
          \<lparr>fname = ''chain_id'', ftype = ''string''\<rparr>,
          \<lparr>fname = ''fee'', ftype = ''Fee''\<rparr>,
          \<lparr>fname = ''memo'', ftype = ''string''\<rparr>,
          \<lparr>fname = ''msgs'', ftype = ''Msg[]''\<rparr>,
          \<lparr>fname = ''sequence'', ftype = ''string''\<rparr>,
          \<lparr>fname = ''timeout_height'', ftype = ''string''\<rparr>]),
       (''Fee'', Some
         [\<lparr>fname = ''amount'', ftype = ''Coin[]''\<rparr>,
          \<lparr>fname = ''gas'', ftype = ''string''\<rparr>]),
       (''Coin'', Some
         [\<lparr>fname = ''denom'', ftype = ''string''\<rparr>,
          \<lparr>fname = ''amount'', ftype = ''string''\<rparr>]),
       (''Msg'', Some
         [\<lparr>fname = ''type'', ftype = ''string''\<rparr>,
          \<lparr>fname = ''value'', ftype = msg_type_name\<rparr>])]"

definition extract_msg_types :: "string \<Rightarrow> (gty \<times> rval) option \<Rightarrow> types res" where
  "extract_msg_types msg_type_name msg = walk_fields (root_types msg_type_name) msg_type_name msg"

text \<open>
  \<open>WrapTxToEIP712\<close>.  \<open>unmarshal\<close> is \<open>json.Unmarshal\<close> into a \<open>map[string]interface{}\<close> and
  \<open>acc_string\<close> the SDK's \<open>AccAddress.String\<close>; the chain id, a \<open>uint64\<close>, is read as an
  \<open>int64\<close>.  The type assertion on \<open>txData["fee"]\<close> panics when it fails.
\<close>

definition flux_domain :: "64 word \<Rightarrow> typed_domain" where
  "flux_domain chain_id =
     \<lparr>dom_name = ''Flux Web3'', dom_version = ''1.0.0'', dom_chain_id = Some (sint chain_id),
      dom_verifying_contract = ''cosmos'', dom_salt = ''0''\<rparr>"

definition delegated_fee_fields :: "typ_field list" where
  "delegated_fee_fields =
     [\<lparr>fname = ''feePayer'', ftype = ''string''\<rparr>,
      \<lparr>fname = ''amount'', ftype = ''Coin[]''\<rparr>,
      \<lparr>fname = ''gas'', ftype = ''string''\<rparr>]"

definition wrap_tx_to_eip712 ::
  "(bytes \<Rightarrow> (string \<times> gval) list res) \<Rightarrow> (bytes \<Rightarrow> string) \<Rightarrow> 64 word \<Rightarrow> (gty \<times> rval) option \<Rightarrow>
   bytes \<Rightarrow> bytes option \<Rightarrow> typed_data res" where
  "wrap_tx_to_eip712 unmarshal acc_string chain_id msg data fee_delegation =
     bind_res (wrap_err ''failed to unmarshal data provided into WrapTxToEIP712'' (unmarshal data))
      (\<lambda>tx_data.
     bind_res (extract_msg_types ''MsgValue'' msg) (\<lambda>msg_types.
     bind_res
       (case fee_delegation of
          None \<Rightarrow> Inr (msg_types, tx_data)
        | Some fee_payer \<Rightarrow>
            (case data_at tx_data ''fee'' of
               GMap fee_info \<Rightarrow>
                 Inr (AList.update ''Fee'' (Some delegated_fee_fields) msg_types,
                      AList.update ''fee''
                        (GMap (AList.update ''feePayer'' (GStr (acc_string fee_payer)) fee_info)) tx_data)
             | _ \<Rightarrow> Inl (Panic ''interface conversion'')))
       (\<lambda>(types, message).
          Inr \<lparr>td_types = types, td_primary_type = ''Tx'', td_domain = flux_domain chain_id,
               td_message = message\<rparr>)))"

section \<open>What the walk does to the type table\<close>

lemma fields_at_add_field [simp]:
  "fields_at (add_field tm def n ty) k =
     (if k = def then fields_at tm k @ [\<lparr>fname = n, ftype = ty\<rparr>] else fields_at tm k)"
  by (simp add: add_field_def fields_at_def slice_at_def update_conv')

lemma slice_at_add_field:
  "k \<noteq> def \<Longrightarrow> slice_at (add_field tm def n ty) k = slice_at tm k"
  by (simp add: add_field_def slice_at_def update_conv')

text \<open>
  A relation between the table before and after holds for the whole walk when it is a preorder
  and holds for each \<open>append(typeMap[def], ...)\<close> made below an admissible prefix.
\<close>

locale walk_relation =
  fixes rel :: "string \<Rightarrow> types \<Rightarrow> types \<Rightarrow> bool"
    and admissible :: "string \<Rightarrow> bool"
  assumes rel_refl: "rel root tm tm"
    and rel_trans: "rel root a b \<Longrightarrow> rel root b c \<Longrightarrow> rel root a c"
    and rel_add: "admissible pfx \<Longrightarrow> rel root tm (add_field tm (type_def root pfx) n ty)"
    and admissible_step: "admissible pfx \<Longrightarrow> admissible (pfx @ ''.'' @ name)"
begin

lemma walk_rel:
  "admissible pfx \<Longrightarrow> traverse tm root pfx t v = Inr tm' \<Longrightarrow> rel root tm tm'"
  "admissible pfx \<Longrightarrow> traverse_from tm root pfx fs i v = Inr tm' \<Longrightarrow> rel root tm tm'"
  "admissible pfx \<Longrightarrow> traverse_field tm root pfx name ft field = Inr tm' \<Longrightarrow> rel root tm tm'"
proof (induction tm root pfx t v and tm root pfx fs i v and tm root pfx name ft field
    arbitrary: tm' and tm' and tm' rule: traverse_induct)
  case (1 tm root pfx t v)
  then show ?case
    by (auto simp: traverse.simps [of tm] intro: rel_refl split: option.splits if_splits)
next
  case (2 tm root pfx i v)
  then show ?case by (auto intro: rel_refl)
next
  case (3 tm root pfx f fs i v)
  from "3.prems"(2) obtain field tm1 where field: "field_value v i = Inr field"
    and tm1: "traverse_field tm root pfx (json_name_from_tag (fst f)) (snd f) field = Inr tm1"
    and rest: "traverse_from tm1 root pfx fs (Suc i) v = Inr tm'"
    by auto
  from "3.IH"(1) [OF field "3.prems"(1) tm1] "3.IH"(2) [OF field tm1 "3.prems"(1) rest]
  show ?case by (rule rel_trans)
next
  case (4 tm root pfx name ft field)
  from "4.prems" obtain r where r: "resolve_field ft field = Inr r"
    by (auto simp: traverse_field.simps [of tm])
  show ?case
  proof (cases r)
    case None
    with "4.prems" r show ?thesis by (auto simp: traverse_field.simps [of tm] intro: rel_refl)
  next
    case (Some q)
    obtain ft' field' coll where q: "q = (ft', field', coll)" by (cases q) auto
    show ?thesis
    proof (cases "typ_to_eth ft' = [] \<and> struct_fields ft' \<noteq> None")
      case True
      with "4.prems" r Some q obtain tm1 where
        "traverse tm1 root (pfx @ ''.'' @ name) ft' field' = Inr tm'"
        and tm1: "tm1 = add_field tm (type_def root pfx) name
            (sanitize_typedef (pfx @ ''.'' @ name) @ (if coll then ''[]'' else []))"
        by (auto simp: traverse_field.simps [of tm] Let_def)
      then have "rel root tm1 tm'"
        using "4.IH" [OF r Some q [symmetric] refl refl refl refl] True
          admissible_step [OF "4.prems"(1)] by auto
      then show ?thesis using rel_add [OF "4.prems"(1)] tm1 by (blast intro: rel_trans)
    next
      case False
      with "4.prems" r Some q show ?thesis
        by (auto simp: traverse_field.simps [of tm] Let_def intro: rel_add rel_refl split: if_splits)
    qed
  qed
qed

lemma extract_rel:
  assumes "admissible ''_''" and "extract_msg_types mn msg = Inr tm"
  shows "rel mn (root_types mn) tm"
proof -
  from assms(2) obtain t v t' v' where "msg = Some (t, v)" "strip_pointers t v = Inr (t', v')"
    and "traverse (root_types mn) mn ''_'' t' v' = Inr tm"
    by (auto simp: extract_msg_types_def walk_fields_def do_recover_def
        split: option.splits sum.splits fault.splits)
  with assms(1) show ?thesis by (auto dest: walk_rel(1))
qed

end

text \<open>The walk only appends fields.\<close>

definition extends :: "types \<Rightarrow> types \<Rightarrow> bool" where
  "extends tm tm' \<longleftrightarrow> (\<forall>k. \<exists>xs. fields_at tm' k = fields_at tm k @ xs)"

lemma extends_fields: "extends tm tm' \<Longrightarrow> set (fields_at tm k) \<subseteq> set (fields_at tm' k)"
  by (metis extends_def set_append sup_ge1)

interpretation ext: walk_relation "\<lambda>root. extends" "\<lambda>pfx. True"
proof
  show "extends a c" if "extends a b" "extends b c" for a b c
    using that unfolding extends_def by (metis append_assoc)
qed (auto simp: extends_def)

text \<open>
  Below the root every name starts with \<open>Type\<close>, so the tables of the transaction itself stay as
  they are.
\<close>

definition below_root :: "string \<Rightarrow> bool" where
  "below_root pfx \<longleftrightarrow> pfx = ''_'' \<or> (\<exists>rest. pfx = ''_.'' @ rest)"

definition same_outside :: "string \<Rightarrow> types \<Rightarrow> types \<Rightarrow> bool" where
  "same_outside root tm tm' \<longleftrightarrow>
     (\<forall>k. k \<noteq> root \<and> \<not> has_prefix k ''Type'' \<longrightarrow> slice_at tm' k = slice_at tm k)"

lemma sanitize_below_root: "has_prefix (sanitize_typedef (''_.'' @ rest)) ''Type''"
proof -
  have "split_char CHR ''.'' (''_.'' @ rest) = ''_'' # split_char CHR ''.'' rest"
    by simp
  then show ?thesis by (simp add: sanitize_typedef_def sanitize_part_def has_prefix_def)
qed

interpretation frame: walk_relation same_outside below_root
proof
  show "same_outside root tm (add_field tm (type_def root pfx) n ty)"
    if "below_root pfx" for root tm pfx n ty
  proof -
    have "type_def root pfx = root \<or> has_prefix (type_def root pfx) ''Type''"
      using that sanitize_below_root by (auto simp: type_def_def below_root_def)
    then show ?thesis
      unfolding same_outside_def by (metis slice_at_add_field)
  qed
qed (auto simp: same_outside_def below_root_def)

lemma extract_frame:
  assumes "extract_msg_types ''MsgValue'' msg = Inr tm"
    and "k \<in> {''EIP712Domain'', ''Tx'', ''Fee'', ''Coin'', ''Msg''}"
  shows "slice_at tm k = slice_at (root_types ''MsgValue'') k"
proof -
  have "same_outside ''MsgValue'' (root_types ''MsgValue'') tm"
    by (rule frame.extract_rel [OF _ assms(1)]) (simp add: below_root_def)
  moreover have "k \<noteq> ''MsgValue'' \<and> \<not> has_prefix k ''Type''"
    using assms(2) by (auto simp: has_prefix_def)
  ultimately show ?thesis by (simp add: same_outside_def)
qed

lemma do_recover_no_panic [simp]: "\<not> panics (do_recover m)"
  by (auto simp: do_recover_def panics_iff split: sum.splits fault.splits)

lemma extract_no_panic: "\<not> panics (extract_msg_types mn msg)"
  by (simp add: extract_msg_types_def walk_fields_def)

section \<open>Messages whose fields are all basic\<close>

text \<open>
  A field type the walk takes as it is: not a pointer, interface or collection, and with an EIP-712
  name.
\<close>

definition basic :: "gty \<Rightarrow> bool" where
  "basic t \<longleftrightarrow> typ_to_eth t \<noteq> [] \<and>
     (case t of T_ptr _ \<Rightarrow> False | T_iface \<Rightarrow> False | T_slice _ \<Rightarrow> False | T_array _ \<Rightarrow> False | _ \<Rightarrow> True)"

definition direct :: "rval \<Rightarrow> bool" where
  "direct v \<longleftrightarrow> (case v of R_ptr _ \<Rightarrow> False | _ \<Rightarrow> True)"

lemma deref_basic: "basic t \<Longrightarrow> direct v \<Longrightarrow> deref t v = Inr (t, v)"
  by (subst deref.simps)
    (auto simp: basic_def direct_def ptr_elem_def ptr_target_def split: gty.splits rval.splits)

lemma resolve_basic:
  assumes "basic t" and "direct v"
  shows "resolve_field t v = Inr (Some (t, v, False))"
  using assms deref_basic [OF assms]
  by (auto simp: resolve_field_def unwrap_any_def is_any_ptr_def first_element_def basic_def
      split: gty.splits)

lemma resolve_repeated:
  assumes "basic e" and "direct x"
  shows "resolve_field (T_slice e) (R_seq (x # xs)) = Inr (Some (e, x, True))"
proof -
  have "deref (T_slice e) (R_seq (x # xs)) = Inr (T_slice e, R_seq (x # xs))"
    by (subst deref.simps) (simp add: ptr_elem_def ptr_target_def)
  then show ?thesis
    using deref_basic [OF assms]
    by (simp add: resolve_field_def unwrap_any_def is_any_ptr_def first_element_def)
qed

lemma traverse_field_basic:
  assumes "basic t" and "direct v"
  shows "traverse_field tm root pfx name t v =
     Inr (add_field tm (type_def root pfx) name (typ_to_eth t))"
  using assms by (subst traverse_field.simps) (simp add: resolve_basic basic_def)

lemma traverse_field_repeated:
  assumes "basic e" and "direct x"
  shows "traverse_field tm root pfx name (T_slice e) (R_seq (x # xs)) =
     Inr (add_field tm (type_def root pfx) name (typ_to_eth e))"
  using assms by (subst traverse_field.simps) (simp add: resolve_repeated basic_def)

lemma traverse_from_basic:
  assumes "\<forall>x \<in> set vs. direct x"
  shows "\<forall>f \<in> set fs. basic (snd f) \<Longrightarrow> i + length fs \<le> length vs \<Longrightarrow>
     \<exists>tm'. traverse_from tm root ''_'' fs i (R_struct vs) = Inr tm' \<and>
       fields_at tm' root = fields_at tm root @
         map (\<lambda>f. \<lparr>fname = json_name_from_tag (fst f), ftype = typ_to_eth (snd f)\<rparr>) fs"
proof (induction fs arbitrary: tm i)
  case (Cons f fs)
  let ?tm = "add_field tm root (json_name_from_tag (fst f)) (typ_to_eth (snd f))"
  have "field_value (R_struct vs) i = Inr (vs ! i)" "direct (vs ! i)"
    using Cons.prems assms by (auto simp: field_value_def index_at_def)
  moreover obtain tm' where "traverse_from ?tm root ''_'' fs (Suc i) (R_struct vs) = Inr tm'"
    "fields_at tm' root = fields_at ?tm root @
       map (\<lambda>f. \<lparr>fname = json_name_from_tag (fst f), ftype = typ_to_eth (snd f)\<rparr>) fs"
    using Cons.IH [of "Suc i" ?tm] Cons.prems by auto
  ultimately show ?case
    using Cons.prems by (simp add: traverse_field_basic type_def_def)
qed simp

lemma extract_basic:
  assumes "\<forall>f \<in> set fs. basic (snd f)" and "\<forall>x \<in> set vs. direct x" and "length vs = length fs"
  shows "\<exists>tm. extract_msg_types ''MsgValue''
       (Some (T_ptr (T_struct c fs), R_ptr (Some (R_struct vs)))) = Inr tm \<and>
     fields_at tm ''MsgValue'' =
       map (\<lambda>f. \<lparr>fname = json_name_from_tag (fst f), ftype = typ_to_eth (snd f)\<rparr>) fs"
proof -
  have root: "fields_at (root_types ''MsgValue'') ''MsgValue'' = []"
    by (simp add: root_types_def fields_at_def slice_at_def update_conv')
  obtain tm where
    "traverse_from (root_types ''MsgValue'') ''MsgValue'' ''_'' fs 0 (R_struct vs) = Inr tm"
    "fields_at tm ''MsgValue'' =
       map (\<lambda>f. \<lparr>fname = json_name_from_tag (fst f), ftype = typ_to_eth (snd f)\<rparr>) fs"
    using traverse_from_basic [OF assms(2,1), of 0 "root_types ''MsgValue''" "''MsgValue''"]
      assms(3) root by auto
  then show ?thesis
    using root
    by (cases fs) (auto simp: extract_msg_types_def walk_fields_def do_recover_def elem_value_def
        traverse.simps struct_fields_def type_def_def)
qed

section \<open>Repeated fields of basic type\<close>

lemma traverse_from_repeated:
  assumes "basic e" and "direct x"
  shows "traverse_from tm root ''_'' fs i v = Inr tm' \<Longrightarrow> j < length fs \<Longrightarrow>
     fs ! j = (tag, T_slice e) \<Longrightarrow> field_value v (i + j) = Inr (R_seq (x # xs)) \<Longrightarrow>
     \<lparr>fname = json_name_from_tag tag, ftype = typ_to_eth e\<rparr> \<in> set (fields_at tm' root)"
proof (induction fs arbitrary: tm i j)
  case (Cons f fs)
  from Cons.prems(1) obtain field tm1 where field: "field_value v i = Inr field"
    and tm1: "traverse_field tm root ''_'' (json_name_from_tag (fst f)) (snd f) field = Inr tm1"
    and rest: "traverse_from tm1 root ''_'' fs (Suc i) v = Inr tm'"
    by auto
  show ?case
  proof (cases j)
    case 0
    then have "field = R_seq (x # xs)" "f = (tag, T_slice e)"
      using Cons.prems field by auto
    then have "tm1 = add_field tm root (json_name_from_tag tag) (typ_to_eth e)"
      using tm1 traverse_field_repeated [OF assms] by (simp add: type_def_def)
    then have "\<lparr>fname = json_name_from_tag tag, ftype = typ_to_eth e\<rparr> \<in> set (fields_at tm1 root)"
      by simp
    then show ?thesis
      using extends_fields [OF ext.walk_rel(2) [OF _ rest]] by auto
  next
    case (Suc k)
    then show ?thesis
      using Cons.IH [OF rest, of k] Cons.prems by simp
  qed
qed simp

lemma extract_repeated:
  assumes "basic e" and "direct x"
    and "extract_msg_types ''MsgValue''
           (Some (T_ptr (T_struct c fs), R_ptr (Some (R_struct vs)))) = Inr tm"
    and "j < length fs" and "fs ! j = (tag, T_slice e)"
    and "j < length vs" and "vs ! j = R_seq (x # xs)"
  shows "\<lparr>fname = json_name_from_tag tag, ftype = typ_to_eth e\<rparr> \<in> set (fields_at tm ''MsgValue'')"
proof -
  have "fields_at (root_types ''MsgValue'') ''MsgValue'' = []"
    by (simp add: root_types_def fields_at_def slice_at_def update_conv')
  then have "traverse_from (root_types ''MsgValue'') ''MsgValue'' ''_'' fs 0 (R_struct vs) = Inr tm"
    using assms(3,4)
    by (auto simp: extract_msg_types_def walk_fields_def do_recover_def elem_value_def
        traverse.simps struct_fields_def type_def_def split: sum.splits fault.splits if_splits)
  from traverse_from_repeated [OF assms(1,2) this assms(4,5)]
  show ?thesis using assms(6,7) by (simp add: field_value_def index_at_def)
qed

lemma basic_name: "basic t \<Longrightarrow> typ_to_eth t \<noteq> [] \<and> last (typ_to_eth t) \<noteq> CHR '']''"
  by (cases t) (auto simp: basic_def)

lemma wrap_tx_Inr:
  assumes "wrap_tx_to_eip712 unmarshal acc chain_id msg data fd = Inr td"
  obtains tm where "extract_msg_types ''MsgValue'' msg = Inr tm"
    and "td_primary_type td = ''Tx''" and "td_domain td = flux_domain chain_id"
    and "\<And>k. k \<noteq> ''Fee'' \<Longrightarrow> slice_at (td_types td) k = slice_at tm k"
    and "fd = None \<Longrightarrow> unmarshal data = Inr (td_message td) \<and> td_types td = tm"
  using assms
  by (auto simp: wrap_tx_to_eip712_def slice_at_def update_conv'
      split: option.splits gval.splits)

lemma wrap_tx_message:
  "wrap_tx_to_eip712 unmarshal acc chain_id msg data None = Inr td \<Longrightarrow>
     unmarshal data = Inr (td_message td)"
  by (erule wrap_tx_Inr) blast

section \<open>Properties\<close>

text \<open>
  For a message whose fields are all strings, booleans, integers or convertible structs, the
  walk declares under \<open>MsgValue\<close> exactly one member per struct field, in the order of the Go
  struct, with the JSON name and the EIP-712 type of the field.
\<close>

theorem flat_message_types:
  assumes "\<forall>f \<in> set fs. basic (snd f)" and "\<forall>x \<in> set vs. direct x" and "length vs = length fs"
  shows "\<exists>tm. extract_msg_types ''MsgValue''
       (Some (T_ptr (T_struct c fs), R_ptr (Some (R_struct vs)))) = Inr tm \<and>
     fields_at tm ''MsgValue'' =
       map (\<lambda>f. \<lparr>fname = json_name_from_tag (fst f), ftype = typ_to_eth (snd f)\<rparr>) fs"
  by (rule extract_basic [OF assms])

lemma flat_message_types_witness:
  "\<exists>tm. extract_msg_types ''MsgValue''
       (Some (T_ptr (T_struct Cls_plain [(''sender,omitempty'', T_string), (''amount'', T_uint64)]),
              R_ptr (Some (R_struct [R_scalar, R_scalar])))) = Inr tm \<and>
     fields_at tm ''MsgValue'' =
       [\<lparr>fname = ''sender'', ftype = ''string''\<rparr>, \<lparr>fname = ''amount'', ftype = ''uint64''\<rparr>]"
proof -
  have "json_name_from_tag ''sender,omitempty'' = ''sender''" "json_name_from_tag ''amount'' = ''amount''"
    by code_simp+
  then show ?thesis
    using flat_message_types [of "[(''sender,omitempty'', T_string), (''amount'', T_uint64)]"
        "[R_scalar, R_scalar]" Cls_plain]
    by (simp add: basic_def direct_def)
qed

text \<open>
  C7. Whatever message a client signs, and however its fields are named, the walk leaves the types
  of the transaction itself (\<open>EIP712Domain\<close>, \<open>Tx\<close>, \<open>Fee\<close>, \<open>Coin\<close> and \<open>Msg\<close>) as they are,
  so a message cannot change what the signer sees of the fee or the sequence.
\<close>

theorem message_cannot_redefine_tx_types:
  assumes "extract_msg_types ''MsgValue'' msg = Inr tm"
  shows "\<forall>k \<in> {''EIP712Domain'', ''Tx'', ''Fee'', ''Coin'', ''Msg''}.
     slice_at tm k = slice_at (root_types ''MsgValue'') k"
  using extract_frame [OF assms] by blast

definition nested_message :: "(gty \<times> rval) option" where
  "nested_message =
     Some (T_ptr (T_struct Cls_plain
             [(''fee'', T_ptr (T_struct Cls_plain [(''amount'', T_string)]))]),
           R_ptr (Some (R_struct [R_ptr (Some (R_struct [R_scalar]))])))"

lemma message_cannot_redefine_tx_types_witness:
  "\<exists>tm. extract_msg_types ''MsgValue'' nested_message = Inr tm \<and>
     fields_at tm ''TypeFee'' = [\<lparr>fname = ''amount'', ftype = ''string''\<rparr>] \<and>
     slice_at tm ''Fee'' = slice_at (root_types ''MsgValue'') ''Fee''"
proof -
  have ok: "(case extract_msg_types ''MsgValue'' nested_message of Inl _ \<Rightarrow> False
     | Inr tm \<Rightarrow> fields_at tm ''TypeFee'' = [\<lparr>fname = ''amount'', ftype = ''string''\<rparr>])"
    by code_simp
  then obtain tm where tm: "extract_msg_types ''MsgValue'' nested_message = Inr tm"
    "fields_at tm ''TypeFee'' = [\<lparr>fname = ''amount'', ftype = ''string''\<rparr>]"
    by (auto split: sum.splits)
  from message_cannot_redefine_tx_types [OF tm(1)] tm show ?thesis by blast
qed

text \<open>
  C8. A message with a non-empty repeated field of basic type cannot be signed: the walk declares
  the element type without \<open>[]\<close>, and the hash of the typed data fails on the list.
\<close>

theorem repeated_basic_field_cannot_be_signed:
  assumes "wrap_tx_to_eip712 unmarshal acc chain_id
      (Some (T_ptr (T_struct c fs), R_ptr (Some (R_struct vs)))) data None = Inr td"
    and "j < length fs" and "fs ! j = (tag, T_slice e)" and "basic e"
    and "j < length vs" and "vs ! j = R_seq (x # xs)" and "direct x"
    and "data_at (td_message td) ''msgs'' = GList (GMap m # ms)"
    and "data_at m ''value'' = GMap val"
    and "data_at val (json_name_from_tag tag) = GList ys"
  shows "\<exists>err. compute_typed_data_hash L td = Inl (Err err)"
proof -
  from wrap_tx_Inr [OF assms(1)] obtain tm
    where tm: "extract_msg_types ''MsgValue''
        (Some (T_ptr (T_struct c fs), R_ptr (Some (R_struct vs)))) = Inr tm"
      and td: "td_types td = tm" "td_primary_type td = ''Tx''"
    by metis
  have tx: "\<lparr>fname = ''msgs'', ftype = ''Msg[]''\<rparr> \<in> set (fields_at (td_types td) ''Tx'')"
    and msg: "slice_at (td_types td) ''Msg'' \<noteq> None"
      "\<lparr>fname = ''value'', ftype = ''MsgValue''\<rparr> \<in> set (fields_at (td_types td) ''Msg'')"
    using extract_frame [OF tm, of "''Tx''"] extract_frame [OF tm, of "''Msg''"]
    by (simp_all add: td fields_at_def) (simp_all add: root_types_def slice_at_def)
  have rep: "\<lparr>fname = json_name_from_tag tag, ftype = typ_to_eth e\<rparr>
      \<in> set (fields_at (td_types td) ''MsgValue'')"
    using extract_repeated [OF assms(4,7) tm assms(2,3,5,6)] by (simp add: td)
  then have val: "slice_at (td_types td) ''MsgValue'' \<noteq> None"
    by (cases "slice_at (td_types td) ''MsgValue''") (auto simp: fields_at_def)
  have no: "compute_typed_data_hash L td \<noteq> Inr h" for h
  proof
    assume "compute_typed_data_hash L td = Inr h"
    then obtain b where "encode_data L td ''Tx'' (td_message td) = Inr b"
      by (auto simp: compute_typed_data_hash_Inr td(2))
    from encode_data_field [OF this tx] obtain b1
      where "encode_field L td \<lparr>fname = ''msgs'', ftype = ''Msg[]''\<rparr> (td_message td) = Inr b1"
      by blast
    from encode_field_struct_array [OF this, of m ms "''Msg''"] assms(8) msg(1)
    obtain b2 where "encode_data L td ''Msg'' m = Inr b2" by auto
    from encode_data_field [OF this msg(2)] obtain b3
      where "encode_field L td \<lparr>fname = ''value'', ftype = ''MsgValue''\<rparr> m = Inr b3" by blast
    from encode_field_struct [OF this, of val "''MsgValue''"] assms(9) val
    obtain b4 where "encode_data L td ''MsgValue'' val = Inr b4" by auto
    from encode_data_field [OF this rep] show False
      using encode_field_list [of val "\<lparr>fname = json_name_from_tag tag, ftype = typ_to_eth e\<rparr>" ys]
        basic_name [OF assms(4)] assms(10)
      by auto
  qed
  have "\<not> panics (compute_typed_data_hash L td)" by (rule compute_typed_data_hash_no_panic)
  with no show ?thesis by (cases "compute_typed_data_hash L td") (auto simp: panics_def split: fault.splits)
qed

definition repeated_value :: "(string \<times> gval) list" where
  "repeated_value = [(''ids'', GList [GStr ''a'', GStr ''b''])]"

definition repeated_tx :: "(string \<times> gval) list" where
  "repeated_tx =
     [(''msgs'', GList (GMap [(''type'', GStr ''m''), (''value'', GMap repeated_value)] # []))]"

lemma repeated_basic_field_cannot_be_signed_witness:
  "\<exists>td err. wrap_tx_to_eip712 (\<lambda>_. Inr repeated_tx) (\<lambda>_. []) 1
      (Some (T_ptr (T_struct Cls_plain [(''ids'', T_slice T_string)]),
             R_ptr (Some (R_struct [R_seq (R_scalar # [])])))) [] None = Inr td \<and>
     compute_typed_data_hash toy_lib td = Inl (Err err)"
proof -
  let ?w = "wrap_tx_to_eip712 (\<lambda>_. Inr repeated_tx) (\<lambda>_. []) 1
      (Some (T_ptr (T_struct Cls_plain [(''ids'', T_slice T_string)]),
             R_ptr (Some (R_struct [R_seq (R_scalar # [])])))) [] None"
  have "is_ok ?w" by code_simp
  then obtain td where td: "?w = Inr td" by (auto simp: is_ok_iff)
  from wrap_tx_message [OF td] have msg: "td_message td = repeated_tx" by simp
  have m: "data_at repeated_tx ''msgs'' =
      GList (GMap [(''type'', GStr ''m''), (''value'', GMap repeated_value)] # [])"
    "data_at [(''type'', GStr ''m''), (''value'', GMap repeated_value)] ''value'' = GMap repeated_value"
    "data_at repeated_value (json_name_from_tag ''ids'') = GList [GStr ''a'', GStr ''b'']"
    by code_simp+
  have "basic T_string" "direct R_scalar" by (simp_all add: basic_def direct_def)
  then have "\<exists>err. compute_typed_data_hash toy_lib td = Inl (Err err)"
    using m by (intro repeated_basic_field_cannot_be_signed [OF td, of 0 "''ids''" T_string R_scalar "[]"])
      (simp_all only: msg, simp_all)
  with td show ?thesis by blast
qed

text \<open>
  The names of nested types are not unique: a field \<open>foo_bar\<close> of a struct and the field \<open>bar\<close>
  of its member \<open>foo\<close> give the same type name, for which one table entry is shared.
\<close>

theorem nested_type_names_collide:
  assumes "p \<noteq> ''_''" and "q \<noteq> ''_''" and "q \<noteq> []"
    and "CHR ''_'' \<notin> set p" and "CHR ''.'' \<notin> set p \<union> set q"
  shows "sanitize_typedef (''_.'' @ p @ ''_'' @ q) = sanitize_typedef (''_.'' @ p @ ''.'' @ q)"
proof -
  have dot: "split_char CHR ''.'' r = [r]" if "CHR ''.'' \<notin> set r" for r
    using that by (induction r) auto
  have "split_char CHR ''.'' (p @ ''_'' @ q) = [p @ ''_'' @ q]"
    using assms(5) by (intro dot) auto
  moreover have "split_char CHR ''.'' (p @ ''.'' @ q) = [p, q]"
    using assms(5) dot [of q] split_char_append_sep [of "CHR ''.''" p q] by simp
  moreover have "split_char CHR ''_'' (p @ ''_'' @ q) = p # split_char CHR ''_'' q"
    using assms(4) split_char_append_sep [of "CHR ''_''" p q] by simp
  moreover have "split_char CHR ''_'' p = [p]"
    using assms(4) by (induction p) auto
  moreover have "p @ ''_'' @ q \<noteq> ''_''"
    using assms(1,3) by (cases p) auto
  ultimately show ?thesis
    using assms(1,2) by (simp add: sanitize_typedef_def sanitize_part_def)
qed

lemma nested_type_names_collide_witness:
  "sanitize_typedef (''_.'' @ ''foo'' @ ''_'' @ ''bar'') = sanitize_typedef (''_.'' @ ''foo'' @ ''.'' @ ''bar'')"
  by (rule nested_type_names_collide) auto

end
