(* ===== verification/Cosmos_Base.thy ===== *)
theory Cosmos_Base
  imports Go_Strings
begin

text \<open>
  What the Cosmos SDK gives the repository's code: bech32 addresses, public keys, signatures,
  accounts, transactions and the ante-handler context.  The SDK's functions are arguments, the
  data it hands over is modelled by records with the parts the code reads.
\<close>

section \<open>Addresses\<close>

text \<open>\<open>sdk.AccAddressFromBech32\<close> and \<open>AccAddress.String\<close>.\<close>

record bech32_lib =
  acc_from_bech32 :: "string \<Rightarrow> bytes option"
  acc_to_string :: "bytes \<Rightarrow> string"

definition parse_acc :: "bech32_lib \<Rightarrow> string \<Rightarrow> bytes res" where
  "parse_acc B s = of_option (Err ''decoding bech32 failed'') (acc_from_bech32 B s)"

text \<open>\<open>sdk.MustAccAddressFromBech32\<close> panics where the parser returns an error.\<close>

definition must_acc :: "bech32_lib \<Rightarrow> string \<Rightarrow> bytes res" where
  "must_acc B s = of_option (Panic ''decoding bech32 failed'') (acc_from_bech32 B s)"

text \<open>Parsing an address into which its text was made gives the address back.\<close>

definition bech32_round_trip :: "bech32_lib \<Rightarrow> bool" where
  "bech32_round_trip B \<longleftrightarrow> (\<forall>a s. acc_from_bech32 B s = Some a \<longrightarrow> acc_to_string B a = s)"

lemma parse_acc_Inr [simp]: "parse_acc B s = Inr a \<longleftrightarrow> acc_from_bech32 B s = Some a"
  by (simp add: parse_acc_def)

lemma must_acc_Inr [simp]: "must_acc B s = Inr a \<longleftrightarrow> acc_from_bech32 B s = Some a"
  by (simp add: must_acc_def)

lemma parse_acc_no_panic [simp]: "\<not> panics (parse_acc B s)"
  by (simp add: parse_acc_def)

lemma panics_must_acc: "panics (must_acc B s) \<longleftrightarrow> acc_from_bech32 B s = None"
  by (cases "acc_from_bech32 B s") (simp_all add: must_acc_def)

lemma is_ok_parse_acc: "is_ok (parse_acc B s) \<longleftrightarrow> acc_from_bech32 B s \<noteq> None"
  by (cases "acc_from_bech32 B s") (simp_all add: parse_acc_def)

lemma is_ok_must_acc: "is_ok (must_acc B s) \<longleftrightarrow> acc_from_bech32 B s \<noteq> None"
  by (cases "acc_from_bech32 B s") (simp_all add: must_acc_def)

text \<open>A library for concrete runs: an address is its bytes behind \<open>lux1\<close>.\<close>

definition toy_bech32 :: bech32_lib where
  "toy_bech32 =
     \<lparr>acc_from_bech32 = (\<lambda>s. if has_prefix s ''lux1'' then Some (to_bytes (trim_prefix s ''lux1'')) else None),
      acc_to_string = (\<lambda>a. ''lux1'' @ map (\<lambda>w. char_of (unat w)) a)\<rparr>"

section \<open>Public keys, signatures and accounts\<close>

text \<open>
  \<open>crypto/types.PubKey\<close>: the kinds the gas consumer tells apart; the keys of a multisig key are
  public keys themselves.
\<close>

datatype pubkey =
    Pk_ed25519 bytes
  | Pk_eth_secp256k1 bytes
  | Pk_multisig nat "pubkey list"
  | Pk_other bytes

datatype sign_mode = SM_unspecified | SM_direct | SM_textual | SM_direct_aux | SM_legacy_amino_json | SM_other int

text \<open>
  \<open>signing.SignatureData\<close>: nil, a single signature, or a multi-signature with a bit array (one
  flag per key) and the signatures of the keys whose flag is set.
\<close>

datatype sig_data =
    Sig_nil
  | Sig_single sign_mode bytes
  | Sig_multi "bool list" "sig_data list"

record tx_signature =
  sig_pubkey :: "pubkey option"
  sig_payload :: sig_data
  sig_sequence :: "64 word"

record account =
  acc_addr :: bytes
  acc_pubkey :: "pubkey option"
  acc_number :: "64 word"
  acc_seq :: "64 word"

section \<open>Transactions and contexts\<close>

text \<open>
  A transaction: its messages, what \<open>GetSignaturesV2\<close> and \<open>GetSigners\<close> answer, the fee, and
  its extension options (type URL and bytes).  The flags say which of the SDK's interfaces
  the concrete type implements.
\<close>

record extension_option =
  opt_url :: string
  opt_value :: bytes

type_synonym coins = "(string \<times> int) list"

record 'm tx =
  tx_msgs :: "'m list"
  tx_signatures :: "tx_signature list res"
  tx_signers :: "bytes list res"
  tx_extensions :: "extension_option list"
  tx_fee :: coins
  tx_gas :: "64 word"
  tx_fee_payer :: bytes
  tx_fee_granter :: "bytes option"
  tx_is_sig_verifiable :: bool
  tx_is_signing_tx :: bool
  tx_is_v2_adaptable :: bool
  tx_has_extensions :: bool
  tx_is_fee_tx :: bool

record 's ctx =
  is_recheck :: bool
  is_check_tx :: bool
  block_height :: int
  ctx_chain_id :: string
  world :: 's

text \<open>An ante handler, and a decorator, which calls the next handler or not.\<close>

type_synonym ('m, 's) handler = "'s ctx \<Rightarrow> 'm tx \<Rightarrow> bool \<Rightarrow> 's ctx res"
type_synonym ('m, 's) decorator = "'s ctx \<Rightarrow> 'm tx \<Rightarrow> bool \<Rightarrow> ('m, 's) handler \<Rightarrow> 's ctx res"

text \<open>
  \<open>sdk.ChainAnteDecorators\<close> is an argument of the handlers that call it; its documentation:
  the first decorator runs with the rest of the chain as its \<open>next\<close>, and the last one with a
  handler that returns the context.  \<open>chain_decorators\<close> is such a function, for concrete runs.
\<close>

definition chains :: "(('m, 's) decorator list \<Rightarrow> ('m, 's) handler) \<Rightarrow> bool" where
  "chains chain \<longleftrightarrow>
     (\<forall>ctx tx sim. chain [] ctx tx sim = Inr ctx) \<and>
     (\<forall>d ds ctx tx sim. chain (d # ds) ctx tx sim = d ctx tx sim (chain ds))"

fun chain_decorators :: "('m, 's) decorator list \<Rightarrow> ('m, 's) handler" where
  "chain_decorators [] ctx tx sim = Inr ctx"
| "chain_decorators (d # ds) ctx tx sim = d ctx tx sim (chain_decorators ds)"

lemma chains_chain_decorators: "chains chain_decorators"
  by (simp add: chains_def)

text \<open>A decorator that succeeds only through \<open>next\<close>, and keeps \<open>Q\<close> of the context.\<close>

definition passes :: "('s ctx \<Rightarrow> bool) \<Rightarrow> 'm tx \<Rightarrow> bool \<Rightarrow> ('m, 's) decorator \<Rightarrow> bool" where
  "passes Q tx sim d \<longleftrightarrow>
     (\<forall>ctx next c. Q ctx \<longrightarrow> d ctx tx sim next = Inr c \<longrightarrow> (\<exists>c'. Q c' \<and> next c' tx sim = Inr c))"

text \<open>
  The contract every decorator of the repository keeps: it looks at the context and the
  transaction, and hands a context to \<open>next\<close> at most once, as its last act.  \<open>check\<close> is what it
  does before.
\<close>

locale ante_decorator =
  fixes deco :: "('m, 's) decorator"
    and check :: "'s ctx \<Rightarrow> 'm tx \<Rightarrow> bool \<Rightarrow> 's ctx res"
  assumes tail_call: "deco ctx tx sim next = bind_res (check ctx tx sim) (\<lambda>c. next c tx sim)"
begin

lemma next_reached:
  "deco ctx tx sim next = Inr c \<Longrightarrow> \<exists>c'. check ctx tx sim = Inr c' \<and> next c' tx sim = Inr c"
  by (simp add: tail_call bind_res_Inr_iff)

lemma stops: "check ctx tx sim = Inl e \<Longrightarrow> deco ctx tx sim next = Inl e"
  by (simp add: tail_call)

lemma chain_Cons:
  "chains chain \<Longrightarrow> chain (deco # ds) ctx tx sim = bind_res (check ctx tx sim) (\<lambda>c. chain ds c tx sim)"
  by (simp add: chains_def tail_call)

lemma in_chain:
  assumes "chains chain" and "\<forall>d \<in> set pre. passes Q tx sim d"
    and "Q ctx" and "chain (pre @ deco # ds) ctx tx sim = Inr c"
  shows "\<exists>c1 c2. Q c1 \<and> check c1 tx sim = Inr c2"
  using assms(2-4)
proof (induction pre arbitrary: ctx)
  case Nil
  from Nil(3) obtain c2 where "check ctx tx sim = Inr c2"
    by (auto simp: chain_Cons [OF assms(1)])
  with Nil(2) show ?case by blast
next
  case (Cons d pre)
  have "d ctx tx sim (chain (pre @ deco # ds)) = Inr c"
    using Cons.prems(3) assms(1) by (simp add: chains_def)
  moreover have "passes Q tx sim d" using Cons.prems(1) by simp
  ultimately obtain c' where "Q c'" "chain (pre @ deco # ds) c' tx sim = Inr c"
    using Cons.prems(2) unfolding passes_def by blast
  with Cons.IH Cons.prems(1) show ?case by simp
qed

end

end
