(* ===== verification/Eip712_Verify.thy ===== *)
theory Eip712_Verify
  imports Eip712_Wrap Cosmos_Base
begin

text \<open>
  Signature verification of web3 transactions (\<open>chain/app/ante/eip712.go\<close>):
  \<open>VerifySignatureEIP712\<close> and the decorator that runs it for every signer.  The functions of the
  SDK and of go-ethereum the code calls are the fields of \<open>verify_env\<close>.
\<close>

section \<open>The environment\<close>

text \<open>\<open>ExtensionOptionsWeb3Tx\<close> and \<open>txsigning.SignerData\<close>.\<close>

record web3_ext =
  typed_data_chain_id :: "64 word"
  ext_fee_payer :: string
  ext_fee_payer_sig :: bytes

record signer_data =
  sd_chain_id :: string
  sd_address :: string
  sd_account_number :: "64 word"
  sd_sequence :: "64 word"

text \<open>
  \<open>amino_sign_bytes\<close> is \<open>handler.GetSignBytes\<close> in amino-JSON mode on the transaction without its
  extension options; \<open>unpack_ext\<close> is \<open>UnpackAny\<close> into a \<open>TxExtensionOptionI\<close> (\<open>Inr None\<close> for
  an option of another type); \<open>reflect_msg\<close> is what reflection sees of a message, None for nil;
  \<open>json_unmarshal\<close> reads JSON into a map; \<open>recover_pubkey\<close>, \<open>unmarshal_pubkey\<close>,
  \<open>compress_pubkey\<close> and \<open>verify_secp\<close> are go-ethereum's, \<open>eth_pubkey_address\<close> the address of a
  compressed \<open>ethsecp256k1\<close> key.
\<close>

record 'm verify_env =
  amino_sign_bytes :: "signer_data \<Rightarrow> 'm tx \<Rightarrow> bytes res"
  unpack_ext :: "extension_option \<Rightarrow> web3_ext option res"
  reflect_msg :: "'m \<Rightarrow> (gty \<times> rval) option"
  json_unmarshal :: "bytes \<Rightarrow> (string \<times> gval) list res"
  recover_pubkey :: "bytes \<Rightarrow> bytes \<Rightarrow> bytes option"
  unmarshal_pubkey :: "bytes \<Rightarrow> bytes option"
  compress_pubkey :: "bytes \<Rightarrow> bytes"
  eth_pubkey_address :: "bytes \<Rightarrow> bytes"
  verify_secp :: "bytes \<Rightarrow> bytes \<Rightarrow> bytes \<Rightarrow> bool"
  pubkey_bytes :: "pubkey \<Rightarrow> bytes"
  env_eth :: eth_lib
  env_bech32 :: bech32_lib

section \<open>VerifySignatureEIP712\<close>

text \<open>
  What the first extension option says: the chain id of the typed data (0 when not given or not
  allowed) and, with a fee payer, its address and signature.
\<close>

definition web3_options :: "'m verify_env \<Rightarrow> 'm tx \<Rightarrow> (64 word \<times> (bytes \<times> bytes) option) res" where
  "web3_options E tx =
     (if \<not> tx_has_extensions tx then Inr (0, None)
      else case tx_extensions tx of
        [] \<Rightarrow> Inr (0, None)
      | opt # _ \<Rightarrow>
          bind_res (wrap_err ''failed to proto-unpack ExtensionOptionsWeb3Tx'' (unpack_ext E opt))
            (\<lambda>ext. case ext of
               None \<Rightarrow> Inr (0, None)
             | Some e \<Rightarrow>
                 let chain_id = (if typed_data_chain_id e = 1 \<or> typed_data_chain_id e = 5
                                 then typed_data_chain_id e else 0) in
                 if ext_fee_payer e = [] then Inr (chain_id, None)
                 else
                   bind_res (wrap_err ''failed to parse feePayer from ExtensionOptionsWeb3Tx''
                       (parse_acc (env_bech32 E) (ext_fee_payer e))) (\<lambda>fee_payer.
                     if ext_fee_payer_sig e = []
                     then Inl (Err ''no feePayerSig provided in ExtensionOptionsWeb3Tx'')
                     else Inr (chain_id, Some (fee_payer, ext_fee_payer_sig e)))))"

definition typed_chain_id :: "64 word \<Rightarrow> signer_data \<Rightarrow> 64 word res" where
  "typed_chain_id chain_id sd =
     (if chain_id \<noteq> 0 then Inr chain_id
      else wrap_err ''failed to parse chainID''
             (bind_res (parse_uint64 (sd_chain_id sd)) (\<lambda>n. Inr (of_nat n))))"

definition typed_data_of ::
  "'m verify_env \<Rightarrow> 64 word \<Rightarrow> 'm tx \<Rightarrow> bytes \<Rightarrow> bytes option \<Rightarrow> typed_data res" where
  "typed_data_of E chain_id tx tx_bytes fee_payer =
     bind_res (index_at (tx_msgs tx) 0) (\<lambda>msg.
       wrap_err ''failed to pack tx data in EIP712 object''
         (wrap_tx_to_eip712 (json_unmarshal E) (acc_to_string (env_bech32 E)) chain_id
            (reflect_msg E msg) tx_bytes fee_payer))"

text \<open>The check of the delegated fee payer's signature over the same hash.\<close>

definition check_fee_payer :: "'m verify_env \<Rightarrow> bytes \<Rightarrow> bytes \<Rightarrow> bytes \<Rightarrow> unit res" where
  "check_fee_payer E fee_payer fee_payer_sig sig_hash =
     bind_res (of_option (Err ''failed to recover delegated fee payer from sig'')
         (recover_pubkey E sig_hash fee_payer_sig)) (\<lambda>pk.
     bind_res (of_option (Err ''failed to unmarshal recovered fee payer pubkey'')
         (unmarshal_pubkey E pk)) (\<lambda>ec.
       if eth_pubkey_address E (compress_pubkey E ec) \<noteq> fee_payer
       then Inl (Err ''failed to verify delegated fee payer sig'') else Inr ()))"

definition verify_single ::
  "'m verify_env \<Rightarrow> pubkey option \<Rightarrow> signer_data \<Rightarrow> bytes \<Rightarrow> 'm tx \<Rightarrow> unit res" where
  "verify_single E pk sd sig tx =
     (if \<not> tx_is_v2_adaptable tx then Inl (Panic ''interface conversion'')
      else
        bind_res (amino_sign_bytes E sd tx) (\<lambda>tx_bytes.
        bind_res (web3_options E tx) (\<lambda>(ext_chain_id, delegation).
        bind_res (typed_chain_id ext_chain_id sd) (\<lambda>chain_id.
        bind_res (typed_data_of E chain_id tx tx_bytes (map_option fst delegation)) (\<lambda>td.
        bind_res (compute_typed_data_hash (env_eth E) td) (\<lambda>sig_hash.
        bind_res (case delegation of
                    None \<Rightarrow> Inr ()
                  | Some (fee_payer, fee_payer_sig) \<Rightarrow> check_fee_payer E fee_payer fee_payer_sig sig_hash)
          (\<lambda>_.
        if length sig \<noteq> 65
        then Inl (Err ''signature length doesnt match typical [R||S||V] signature 65 bytes'')
        else
          bind_res (of_option (Panic ''invalid memory address or nil pointer dereference'') pk) (\<lambda>key.
            if \<not> verify_secp E (pubkey_bytes E key) sig_hash (take (length sig - 1) sig)
            then Inl (Err ''unable to verify signer signature of EIP712 typed data'')
            else Inr ()))))))))"

definition verify_signature_eip712 ::
  "'m verify_env \<Rightarrow> pubkey option \<Rightarrow> signer_data \<Rightarrow> sig_data \<Rightarrow> 'm tx \<Rightarrow> unit res" where
  "verify_signature_eip712 E pk sd data tx =
     (case data of
        Sig_single mode sig \<Rightarrow>
          if mode \<noteq> SM_legacy_amino_json
          then Inl (Err ''unexpected SignatureData: wrong SignMode'')
          else verify_single E pk sd sig tx
      | _ \<Rightarrow> Inl (Err ''unexpected SignatureData''))"

section \<open>Eip712SigVerificationDecorator\<close>

text \<open>
  \<open>get_signer_acc\<close> is \<open>authante.GetSignerAcc\<close>.  The body of the loop over the signatures
  (\<open>check_signer\<close>) and the loop, where \<open>signerAddrs[i]\<close> goes with \<open>sigs[i]\<close>.
\<close>

definition signer_data_of :: "bech32_lib \<Rightarrow> 's ctx \<Rightarrow> account \<Rightarrow> signer_data" where
  "signer_data_of B ctx acc =
     \<lparr>sd_chain_id = ctx_chain_id ctx, sd_address = acc_to_string B (acc_addr acc),
      sd_account_number = (if block_height ctx = 0 then 0 else acc_number acc),
      sd_sequence = acc_seq acc\<rparr>"

definition check_signer ::
  "'m verify_env \<Rightarrow> ('s ctx \<Rightarrow> bytes \<Rightarrow> account res) \<Rightarrow> 's ctx \<Rightarrow> 'm tx \<Rightarrow> bool \<Rightarrow>
   tx_signature \<times> bytes \<Rightarrow> unit res" where
  "check_signer E get_signer_acc ctx tx sim =
     (\<lambda>(sig, addr).
        bind_res (get_signer_acc ctx addr) (\<lambda>acc.
          if \<not> sim \<and> acc_pubkey acc = None then Inl (Err ''pubkey on account is not set'')
          else if sig_sequence sig \<noteq> acc_seq acc then Inl (Err ''account sequence mismatch'')
          else if sim then Inr ()
          else if \<not> tx_is_signing_tx tx then Inl (Panic ''interface conversion'')
          else
            replace_err ''signature verification failed''
              (verify_signature_eip712 E (acc_pubkey acc) (signer_data_of (env_bech32 E) ctx acc)
                 (sig_payload sig) tx)))"

definition sig_verification_check ::
  "'m verify_env \<Rightarrow> ('s ctx \<Rightarrow> bytes \<Rightarrow> account res) \<Rightarrow> 's ctx \<Rightarrow> 'm tx \<Rightarrow> bool \<Rightarrow> 's ctx res" where
  "sig_verification_check E get_signer_acc ctx tx sim =
     (if is_recheck ctx then Inr ctx
      else if \<not> tx_is_sig_verifiable tx then Inl (Err ''invalid transaction type'')
      else
        bind_res (tx_signatures tx) (\<lambda>sigs.
        bind_res (tx_signers tx) (\<lambda>addrs.
          if length sigs \<noteq> length addrs then Inl (Err ''invalid number of signer'')
          else bind_res (for_each (check_signer E get_signer_acc ctx tx sim) (zip sigs addrs))
                 (\<lambda>_. Inr ctx))))"

definition eip712_sig_verification ::
  "'m verify_env \<Rightarrow> ('s ctx \<Rightarrow> bytes \<Rightarrow> account res) \<Rightarrow> ('m, 's) decorator" where
  "eip712_sig_verification E get_signer_acc ctx tx sim next =
     (if is_recheck ctx then next ctx tx sim
      else if \<not> tx_is_sig_verifiable tx then Inl (Err ''invalid transaction type'')
      else
        bind_res (tx_signatures tx) (\<lambda>sigs.
        bind_res (tx_signers tx) (\<lambda>addrs.
          if length sigs \<noteq> length addrs then Inl (Err ''invalid number of signer'')
          else bind_res (for_each (check_signer E get_signer_acc ctx tx sim) (zip sigs addrs))
                 (\<lambda>_. next ctx tx sim))))"

interpretation sigv: ante_decorator "eip712_sig_verification E ak" "sig_verification_check E ak"
  for E :: "'m verify_env" and ak :: "'s ctx \<Rightarrow> bytes \<Rightarrow> account res"
  by unfold_locales
    (simp add: eip712_sig_verification_def sig_verification_check_def bind_res_assoc
      bind_res_def split: sum.split)

section \<open>What a verified signature means\<close>

lemma verify_Inr:
  assumes "verify_signature_eip712 E pk sd data tx = Inr ()"
  obtains sig key tx_bytes ext_id del cid td h where
    "data = Sig_single SM_legacy_amino_json sig" and "length sig = 65" and "pk = Some key"
    and "amino_sign_bytes E sd tx = Inr tx_bytes" and "web3_options E tx = Inr (ext_id, del)"
    and "typed_chain_id ext_id sd = Inr cid"
    and "typed_data_of E cid tx tx_bytes (map_option fst del) = Inr td"
    and "compute_typed_data_hash (env_eth E) td = Inr h"
    and "\<And>p s. del = Some (p, s) \<Longrightarrow> check_fee_payer E p s h = Inr ()"
    and "verify_secp E (pubkey_bytes E key) h (take 64 sig)"
proof -
  from assms obtain sig where data: "data = Sig_single SM_legacy_amino_json sig"
    and single: "verify_single E pk sd sig tx = Inr ()"
    by (auto simp: verify_signature_eip712_def split: sig_data.splits if_splits)
  from single obtain tx_bytes ext_id del cid td h where steps:
    "amino_sign_bytes E sd tx = Inr tx_bytes" "web3_options E tx = Inr (ext_id, del)"
    "typed_chain_id ext_id sd = Inr cid"
    "typed_data_of E cid tx tx_bytes (map_option fst del) = Inr td"
    "compute_typed_data_hash (env_eth E) td = Inr h"
    "(case del of None \<Rightarrow> Inr () | Some (p, s) \<Rightarrow> check_fee_payer E p s h) = Inr ()"
    "(if length sig \<noteq> 65
        then Inl (Err ''signature length doesnt match typical [R||S||V] signature 65 bytes'')
        else
          bind_res (of_option (Panic ''invalid memory address or nil pointer dereference'') pk) (\<lambda>key.
            if \<not> verify_secp E (pubkey_bytes E key) h (take (length sig - 1) sig)
            then Inl (Err ''unable to verify signer signature of EIP712 typed data'')
            else Inr ())) = Inr ()"
    unfolding verify_single_def
    by (simp only: if_split_eq1 prod.case split: prod.split) (auto split: if_splits)
  then obtain key where "length sig = 65" "pk = Some key"
    "verify_secp E (pubkey_bytes E key) h (take 64 sig)"
    by (auto split: if_splits)
  with data steps show ?thesis by (intro that) auto
qed

lemma check_signer_Inr:
  "check_signer E ak ctx tx False (sig, addr) = Inr () \<longleftrightarrow>
     (\<exists>acc. ak ctx addr = Inr acc \<and> acc_pubkey acc \<noteq> None \<and> sig_sequence sig = acc_seq acc \<and>
        tx_is_signing_tx tx \<and>
        verify_signature_eip712 E (acc_pubkey acc) (signer_data_of (env_bech32 E) ctx acc)
          (sig_payload sig) tx = Inr ())"
  by (auto simp: check_signer_def bind_res_Inr_iff split: if_splits)

lemma sig_verification_Inr:
  assumes "eip712_sig_verification E ak ctx tx False next = Inr c" and "\<not> is_recheck ctx"
  obtains sigs addrs where "tx_signatures tx = Inr sigs" and "tx_signers tx = Inr addrs"
    and "length sigs = length addrs"
    and "\<And>i. i < length addrs \<Longrightarrow> check_signer E ak ctx tx False (sigs ! i, addrs ! i) = Inr ()"
    and "next ctx tx False = Inr c"
proof -
  from assms obtain sigs addrs where sigs: "tx_signatures tx = Inr sigs" "tx_signers tx = Inr addrs"
    and len: "length sigs = length addrs"
    and each: "\<forall>p \<in> set (zip sigs addrs). check_signer E ak ctx tx False p = Inr ()"
    and nxt: "next ctx tx False = Inr c"
    by (auto simp: eip712_sig_verification_def for_each_ok_iff split: if_splits)
  have "check_signer E ak ctx tx False (sigs ! i, addrs ! i) = Inr ()" if "i < length addrs" for i
    using each len that by (metis in_set_zip fst_conv snd_conv)
  with that sigs len nxt show ?thesis by blast
qed

section \<open>A concrete environment\<close>

text \<open>One message with one string field; addresses, keys and digests as in the toy libraries.\<close>

definition sample_json :: "(string \<times> gval) list" where
  "sample_json =
     [(''account_number'', GStr ''3''), (''chain_id'', GStr ''1''),
      (''fee'', GMap [(''amount'', GList [GMap [(''denom'', GStr ''lux''), (''amount'', GStr ''9'')]]),
                      (''gas'', GStr ''100'')]),
      (''memo'', GStr []),
      (''msgs'', GList [GMap [(''type'', GStr ''m''), (''value'', GMap [(''sender'', GStr ''a'')])]]),
      (''sequence'', GStr ''0''), (''timeout_height'', GStr ''0'')]"

definition sample_env :: "unit verify_env" where
  "sample_env =
     \<lparr>amino_sign_bytes = (\<lambda>_ _. Inr []),
      unpack_ext = (\<lambda>opt. Inr (Some \<lparr>typed_data_chain_id = of_nat (length (opt_value opt)),
                     ext_fee_payer = (if hd (opt_value opt) = 0 then [] else ''lux1p''),
                     ext_fee_payer_sig = [1]\<rparr>)),
      reflect_msg = (\<lambda>_. Some (T_ptr (T_struct Cls_plain [(''sender'', T_string)]),
                                R_ptr (Some (R_struct [R_scalar])))),
      json_unmarshal = (\<lambda>_. Inr sample_json),
      recover_pubkey = (\<lambda>h s. Some (to_bytes ''p'')), unmarshal_pubkey = (\<lambda>b. Some b),
      compress_pubkey = (\<lambda>b. b), eth_pubkey_address = (\<lambda>b. b),
      verify_secp = (\<lambda>k h s. length s = 64), pubkey_bytes = (\<lambda>k. []),
      env_eth = toy_lib, env_bech32 = toy_bech32\<rparr>"

definition sample_account :: account where
  "sample_account =
     \<lparr>acc_addr = to_bytes ''a'', acc_pubkey = Some (Pk_eth_secp256k1 []), acc_number = 3, acc_seq = 0\<rparr>"

definition sample_tx :: "bytes \<Rightarrow> unit tx" where
  "sample_tx opt =
     \<lparr>tx_msgs = [()],
      tx_signatures = Inr [\<lparr>sig_pubkey = None,
        sig_payload = Sig_single SM_legacy_amino_json (replicate 65 0), sig_sequence = 0\<rparr>],
      tx_signers = Inr [to_bytes ''a''],
      tx_extensions = [\<lparr>opt_url = ''/flux.types.v1beta1.ExtensionOptionsWeb3Tx'', opt_value = opt\<rparr>],
      tx_fee = [], tx_gas = 0, tx_fee_payer = [], tx_fee_granter = None,
      tx_is_sig_verifiable = True, tx_is_signing_tx = True, tx_is_v2_adaptable = True,
      tx_has_extensions = True, tx_is_fee_tx = True\<rparr>"

definition sample_ctx :: "unit ctx" where
  "sample_ctx = \<lparr>is_recheck = False, is_check_tx = False, block_height = 7, ctx_chain_id = ''flux-1'', world = ()\<rparr>"

definition sample_typed_data :: typed_data where
  "sample_typed_data =
     \<lparr>td_types = AList.update ''Fee'' (Some delegated_fee_fields)
        (AList.update ''MsgValue'' (Some [\<lparr>fname = ''sender'', ftype = ''string''\<rparr>])
           (root_types ''MsgValue'')),
      td_primary_type = ''Tx'', td_domain = flux_domain 1,
      td_message = AList.update ''fee''
        (GMap [(''amount'', GList [GMap [(''denom'', GStr ''lux''), (''amount'', GStr ''9'')]]),
               (''gas'', GStr ''100''), (''feePayer'', GStr ''lux1p'')]) sample_json\<rparr>"

lemma sample_typed_data_of:
  "typed_data_of sample_env 1 (sample_tx [1]) [] (Some (to_bytes ''p'')) = Inr sample_typed_data"
  by code_simp

lemma sample_web3_options:
  "web3_options sample_env (sample_tx [1]) = Inr (1, Some (to_bytes ''p'', [1]))"
  by code_simp

lemma sample_hashes: "is_ok (compute_typed_data_hash toy_lib sample_typed_data)"
  by code_simp

lemma sample_verifies:
  "verify_signature_eip712 sample_env (acc_pubkey sample_account)
     (signer_data_of toy_bech32 sample_ctx sample_account)
     (Sig_single SM_legacy_amino_json (replicate 65 0)) (sample_tx [1]) = Inr ()"
proof -
  obtain h where h: "compute_typed_data_hash (env_eth sample_env) sample_typed_data = Inr h"
    using sample_hashes by (auto simp: is_ok_iff sample_env_def)
  have "tx_is_v2_adaptable (sample_tx [1])" "acc_pubkey sample_account = Some (Pk_eth_secp256k1 [])"
    by (simp_all add: sample_tx_def sample_account_def)
  moreover have "amino_sign_bytes sample_env sd tx = Inr []" "verify_secp sample_env k h s = (length s = 64)"
    "check_fee_payer sample_env (to_bytes ''p'') s h = Inr ()" for sd tx k s h
    by (simp_all add: sample_env_def check_fee_payer_def)
  moreover have "typed_chain_id 1 sd = Inr 1" for sd by (simp add: typed_chain_id_def)
  ultimately show ?thesis
    using sample_web3_options sample_typed_data_of h
    by (simp add: verify_signature_eip712_def verify_single_def)
qed

section \<open>Properties\<close>

text \<open>
  C10. A signature passes \<open>VerifySignatureEIP712\<close> only when it is a single 65-byte amino-JSON
  signature whose first 64 bytes the account's own key signed over the EIP-712 hash of the sign
  bytes of this very transaction and signer data.
\<close>

theorem accepted_signature_signs_the_transaction:
  assumes "verify_signature_eip712 E pk sd data tx = Inr ()"
  shows "\<exists>sig key tx_bytes cid fee_payer td h.
     data = Sig_single SM_legacy_amino_json sig \<and> length sig = 65 \<and> pk = Some key \<and>
     amino_sign_bytes E sd tx = Inr tx_bytes \<and>
     typed_data_of E cid tx tx_bytes fee_payer = Inr td \<and>
     compute_typed_data_hash (env_eth E) td = Inr h \<and>
     verify_secp E (pubkey_bytes E key) h (take 64 sig)"
  using assms by (rule verify_Inr) blast

lemma accepted_signature_signs_the_transaction_witness:
  "\<exists>td h. compute_typed_data_hash toy_lib td = Inr h \<and>
     verify_secp sample_env (pubkey_bytes sample_env (Pk_eth_secp256k1 [])) h (replicate 64 0)"
proof -
  have "env_eth sample_env = toy_lib" by (simp add: sample_env_def)
  then show ?thesis
    using accepted_signature_signs_the_transaction [OF sample_verifies] by (auto simp: sample_account_def)
qed

text \<open>
  C33. On a chain whose id is not a decimal number, such as \<open>flux-1\<close>, a signature is accepted only
  when the transaction's first extension option carries chain id 1 or 5: the code falls back
  to parsing the Cosmos chain id as an integer.
\<close>

theorem non_numeric_chain_needs_chain_id_one_or_five:
  assumes "verify_signature_eip712 E pk sd data tx = Inr ()"
    and "\<not> list_all is_digit (sd_chain_id sd)"
  shows "\<exists>opt opts e. tx_extensions tx = opt # opts \<and> unpack_ext E opt = Inr (Some e) \<and>
     typed_data_chain_id e \<in> {1, 5}"
proof -
  from assms(1) obtain ext_id del cid where opts: "web3_options E tx = Inr (ext_id, del)"
    and cid: "typed_chain_id ext_id sd = Inr cid"
    by (rule verify_Inr)
  have "ext_id \<noteq> 0"
    using cid parse_dec_None [OF assms(2)]
    by (auto simp: typed_chain_id_def parse_uint64_def bind_res_Inr_iff split: if_splits)
  with opts show ?thesis
    by (auto simp: web3_options_def Let_def split: if_splits list.splits option.splits)
qed

lemma non_numeric_chain_needs_chain_id_one_or_five_witness:
  "\<exists>opt opts e. tx_extensions (sample_tx [1]) = opt # opts \<and> unpack_ext sample_env opt = Inr (Some e) \<and>
     typed_data_chain_id e \<in> {1, 5}"
proof (rule non_numeric_chain_needs_chain_id_one_or_five [OF sample_verifies])
  show "\<not> list_all is_digit (sd_chain_id (signer_data_of toy_bech32 sample_ctx sample_account))"
    by code_simp
qed

text \<open>
  C11. When the first extension option names a fee payer, the transaction is accepted only with two
  signatures over one hash: the account's own key signed it (a 65-byte amino-JSON signature), and
  the key recovered from it with the option's fee-payer signature has the fee payer's address.  The
  hash is that of the typed data made of the amino sign bytes of this transaction and signer
  data, of the chain id of the option (if it is 1 or 5, otherwise of the Cosmos chain id), and of the
  fee payer, which it names.
\<close>

theorem delegated_fee_payer_has_signed:
  assumes "verify_signature_eip712 E pk sd data tx = Inr ()"
    and "tx_has_extensions tx" and "tx_extensions tx = opt # opts"
    and "unpack_ext E opt = Inr (Some e)" and "ext_fee_payer e \<noteq> []"
  shows "\<exists>sig key payer tx_bytes cid td h rk ec.
     data = Sig_single SM_legacy_amino_json sig \<and> length sig = 65 \<and> pk = Some key \<and>
     acc_from_bech32 (env_bech32 E) (ext_fee_payer e) = Some payer \<and>
     amino_sign_bytes E sd tx = Inr tx_bytes \<and>
     typed_chain_id (if typed_data_chain_id e \<in> {1, 5} then typed_data_chain_id e else 0) sd = Inr cid \<and>
     typed_data_of E cid tx tx_bytes (Some payer) = Inr td \<and>
     compute_typed_data_hash (env_eth E) td = Inr h \<and>
     verify_secp E (pubkey_bytes E key) h (take 64 sig) \<and>
     recover_pubkey E h (ext_fee_payer_sig e) = Some rk \<and> unmarshal_pubkey E rk = Some ec \<and>
     eth_pubkey_address E (compress_pubkey E ec) = payer"
  using assms(1)
proof (rule verify_Inr)
  fix sig key tx_bytes ext_id del cid td h
  assume signer: "data = Sig_single SM_legacy_amino_json sig" "length sig = 65" "pk = Some key"
      "amino_sign_bytes E sd tx = Inr tx_bytes" "verify_secp E (pubkey_bytes E key) h (take 64 sig)"
    and opts: "web3_options E tx = Inr (ext_id, del)" and cid: "typed_chain_id ext_id sd = Inr cid"
    and td: "typed_data_of E cid tx tx_bytes (map_option fst del) = Inr td"
      "compute_typed_data_hash (env_eth E) td = Inr h"
    and payer: "\<And>p s. del = Some (p, s) \<Longrightarrow> check_fee_payer E p s h = Inr ()"
  from opts assms(2-5) obtain p where p: "acc_from_bech32 (env_bech32 E) (ext_fee_payer e) = Some p"
    and del: "del = Some (p, ext_fee_payer_sig e)"
    and ext: "ext_id = (if typed_data_chain_id e \<in> {1, 5} then typed_data_chain_id e else 0)"
    by (auto simp: web3_options_def Let_def split: if_splits)
  have "\<exists>rk ec. recover_pubkey E h (ext_fee_payer_sig e) = Some rk \<and> unmarshal_pubkey E rk = Some ec \<and>
      eth_pubkey_address E (compress_pubkey E ec) = p"
    using payer [OF del] by (auto simp: check_fee_payer_def split: if_splits)
  moreover have "typed_data_of E cid tx tx_bytes (Some p) = Inr td" using td(1) del by simp
  ultimately show ?thesis using signer p td(2) cid unfolding ext by blast
qed

lemma delegated_fee_payer_has_signed_witness:
  "\<exists>payer h. acc_from_bech32 toy_bech32 ''lux1p'' = Some payer \<and>
     verify_secp sample_env (pubkey_bytes sample_env (Pk_eth_secp256k1 [])) h (replicate 64 0) \<and>
     (\<exists>rk. recover_pubkey sample_env h [1] = Some rk) \<and>
     eth_pubkey_address sample_env (compress_pubkey sample_env payer) = payer"
proof -
  have "\<exists>e. unpack_ext sample_env \<lparr>opt_url = ''/flux.types.v1beta1.ExtensionOptionsWeb3Tx'', opt_value = [1]\<rparr> =
      Inr (Some e) \<and> ext_fee_payer e = ''lux1p'' \<and> ext_fee_payer_sig e = [1]"
    by (simp add: sample_env_def)
  then obtain e where e: "unpack_ext sample_env
      \<lparr>opt_url = ''/flux.types.v1beta1.ExtensionOptionsWeb3Tx'', opt_value = [1]\<rparr> = Inr (Some e)"
    "ext_fee_payer e = ''lux1p''" "ext_fee_payer_sig e = [1]"
    by blast
  have env: "env_bech32 sample_env = toy_bech32" "eth_pubkey_address sample_env = (\<lambda>b. b)"
    "compress_pubkey sample_env = (\<lambda>b. b)"
    by (simp_all add: sample_env_def)
  have ext: "tx_has_extensions (sample_tx [1])" "tx_extensions (sample_tx [1]) =
      [\<lparr>opt_url = ''/flux.types.v1beta1.ExtensionOptionsWeb3Tx'', opt_value = [1]\<rparr>]"
    by (simp_all add: sample_tx_def)
  have "ext_fee_payer e \<noteq> []" using e(2) by simp
  from delegated_fee_payer_has_signed [OF sample_verifies ext e(1) this] env e(2,3)
  show ?thesis by (auto simp: sample_account_def)
qed

text \<open>
  C9. When the decorator passes a transaction on outside simulation and recheck, there are as
  many signatures as signers and, for each signer in order, the account exists and has a key,
  the signature carries the account's sequence, and it verifies against that key, the chain id
  and the account number.
\<close>

theorem every_signer_is_verified:
  assumes "eip712_sig_verification E ak ctx tx False next = Inr c" and "\<not> is_recheck ctx"
  shows "\<exists>sigs addrs. tx_signatures tx = Inr sigs \<and> tx_signers tx = Inr addrs \<and>
     length sigs = length addrs \<and> next ctx tx False = Inr c \<and>
     (\<forall>i < length addrs. \<exists>acc. ak ctx (addrs ! i) = Inr acc \<and> acc_pubkey acc \<noteq> None \<and>
        sig_sequence (sigs ! i) = acc_seq acc \<and>
        verify_signature_eip712 E (acc_pubkey acc) (signer_data_of (env_bech32 E) ctx acc)
          (sig_payload (sigs ! i)) tx = Inr ())"
  using assms by (rule sig_verification_Inr) (unfold check_signer_Inr, blast)

lemma every_signer_is_verified_witness:
  "\<exists>sigs addrs. tx_signatures (sample_tx [1]) = Inr sigs \<and> tx_signers (sample_tx [1]) = Inr addrs \<and>
     length sigs = length addrs \<and> 0 < length addrs"
proof -
  have "env_bech32 sample_env = toy_bech32" "tx_is_signing_tx (sample_tx [1])"
    "acc_pubkey sample_account \<noteq> None" "acc_seq sample_account = 0"
    by (simp_all add: sample_env_def sample_tx_def sample_account_def)
  then have "check_signer sample_env (\<lambda>_ _. Inr sample_account) sample_ctx (sample_tx [1]) False
      (\<lparr>sig_pubkey = None, sig_payload = Sig_single SM_legacy_amino_json (replicate 65 0),
        sig_sequence = 0\<rparr>, to_bytes ''a'') = Inr ()"
    using sample_verifies by (simp add: check_signer_Inr)
  then have c: "eip712_sig_verification sample_env (\<lambda>_ _. Inr sample_account) sample_ctx
      (sample_tx [1]) False (\<lambda>c _ _. Inr c) = Inr sample_ctx"
    by (simp add: eip712_sig_verification_def sample_ctx_def sample_tx_def)
  have "\<not> is_recheck sample_ctx" by (simp add: sample_ctx_def)
  from every_signer_is_verified [OF c this] show ?thesis by (auto simp: sample_tx_def)
qed

end
