(* ===== verification/Ante_Fee.thy ===== *)
theory Ante_Fee
  imports Eip712_Verify
begin

text \<open>
  Fee deduction for web3 transactions (\<open>chain/app/ante/fee.go\<close>) and the gas of signature
  verification (\<open>DefaultSigVerificationGasConsumer\<close> in \<open>chain/app/ante/ante.go\<close>).
\<close>

section \<open>DeductFeeDecorator\<close>

text \<open>
  The keepers' functions: \<open>GetModuleAddress\<close>, \<open>GetAccount\<close>,
  \<open>SendCoinsFromAccountToModule\<close> (which changes the store behind the context) and
  \<open>Coins.IsValid\<close>, \<open>Coins.IsZero\<close>.
\<close>

record 's fee_env =
  module_address :: "string \<Rightarrow> bytes option"
  account_of :: "'s ctx \<Rightarrow> bytes \<Rightarrow> account option"
  send_to_module :: "'s ctx \<Rightarrow> bytes \<Rightarrow> string \<Rightarrow> coins \<Rightarrow> 's ctx res"
  coins_valid :: "coins \<Rightarrow> bool"
  coins_zero :: "coins \<Rightarrow> bool"

definition deduct_fees :: "'s fee_env \<Rightarrow> 's ctx \<Rightarrow> account \<Rightarrow> coins \<Rightarrow> 's ctx res" where
  "deduct_fees K ctx acc fees =
     (if \<not> coins_valid K fees then Inl (Err ''invalid fee amount'')
      else replace_err ''insufficient funds''
             (send_to_module K ctx (acc_addr acc) ''fee_collector'' fees))"

text \<open>The fee payer named by the extension option, None when there is none.\<close>

definition delegated_payer :: "'m verify_env \<Rightarrow> 'm tx \<Rightarrow> bytes option res" where
  "delegated_payer E tx =
     (if \<not> tx_has_extensions tx then Inr None
      else case tx_extensions tx of
        [] \<Rightarrow> Inr None
      | opt # _ \<Rightarrow>
          bind_res (replace_err ''failed to proto-unpack ExtensionOptionsWeb3Tx'' (unpack_ext E opt))
            (\<lambda>ext. case ext of
               None \<Rightarrow> Inr None
             | Some e \<Rightarrow>
                 if ext_fee_payer e = [] then Inr None
                 else bind_res (replace_err ''failed to parse feePayer from ExtensionOptionsWeb3Tx''
                        (parse_acc (env_bech32 E) (ext_fee_payer e))) (\<lambda>a. Inr (Some a))))"

definition deduct_fee_check ::
  "'m verify_env \<Rightarrow> 's fee_env \<Rightarrow> 's ctx \<Rightarrow> 'm tx \<Rightarrow> 's ctx res" where
  "deduct_fee_check E K ctx tx =
     (if \<not> tx_is_fee_tx tx then Inl (Err ''Tx must be a FeeTx'')
      else if module_address K ''fee_collector'' = None
        then Inl (Panic ''fee_collector module account has not been set'')
      else
        bind_res (delegated_payer E tx) (\<lambda>delegated.
          let fee_payer = (case delegated of Some p \<Rightarrow> p | None \<Rightarrow> tx_fee_payer tx) in
          (case account_of K ctx fee_payer of
             None \<Rightarrow> Inl (Err ''fee payer address does not exist'')
           | Some acc \<Rightarrow>
               if coins_zero K (tx_fee tx) then Inr ctx else deduct_fees K ctx acc (tx_fee tx))))"

definition deduct_fee_decorator :: "'m verify_env \<Rightarrow> 's fee_env \<Rightarrow> ('m, 's) decorator" where
  "deduct_fee_decorator E K ctx tx sim next =
     bind_res (deduct_fee_check E K ctx tx) (\<lambda>ctx'. next ctx' tx sim)"

interpretation feed: ante_decorator "deduct_fee_decorator E K" "\<lambda>ctx tx sim. deduct_fee_check E K ctx tx"
  for E :: "'m verify_env" and K :: "'s fee_env"
  by unfold_locales (simp add: deduct_fee_decorator_def)

text \<open>Who pays: the fee payer of the extension option when it names one, the transaction's otherwise.\<close>

definition pays :: "'m verify_env \<Rightarrow> 'm tx \<Rightarrow> bytes \<Rightarrow> bool" where
  "pays E tx p \<longleftrightarrow>
     (if \<exists>opt opts e. tx_has_extensions tx \<and> tx_extensions tx = opt # opts \<and>
           unpack_ext E opt = Inr (Some e) \<and> ext_fee_payer e \<noteq> []
      then \<exists>opt opts e. tx_extensions tx = opt # opts \<and> unpack_ext E opt = Inr (Some e) \<and>
           acc_from_bech32 (env_bech32 E) (ext_fee_payer e) = Some p
      else p = tx_fee_payer tx)"

lemma delegated_payer_pays:
  assumes "delegated_payer E tx = Inr d"
  shows "pays E tx (case d of Some p \<Rightarrow> p | None \<Rightarrow> tx_fee_payer tx)"
proof (cases "tx_has_extensions tx \<and> tx_extensions tx \<noteq> []")
  case True
  then obtain opt opts where "tx_has_extensions tx" "tx_extensions tx = opt # opts"
    by (cases "tx_extensions tx") auto
  with assms show ?thesis
    by (auto simp: delegated_payer_def pays_def split: option.splits if_splits)
next
  case False
  with assms show ?thesis
    by (auto simp: delegated_payer_def pays_def split: if_splits list.splits)
qed

section \<open>Gas of signature verification\<close>

text \<open>
  The gas meter counts; \<open>params\<close> holds the two costs that are read.  Running out of gas is the
  meter's panic: \<open>consume\<close> is \<open>meter.ConsumeGas\<close>.
\<close>

record gas_params =
  cost_ed25519 :: "64 word"
  cost_secp256k1 :: "64 word"

fun sig_weight :: "sig_data \<Rightarrow> nat" where
  "sig_weight (Sig_multi bits sigs) = Suc (length bits + sum_list (map sig_weight sigs))"
| "sig_weight _ = 0"

text \<open>
  \<open>DefaultSigVerificationGasConsumer\<close> and \<open>ConsumeMultisignatureVerificationGas\<close>; the loop over the bit array
  keeps the position \<open>i\<close> in it and \<open>sigIndex\<close>, here the signatures not used yet.
\<close>

function (sequential)
  sig_gas :: "('g \<Rightarrow> 64 word \<Rightarrow> 'g res) \<Rightarrow> gas_params \<Rightarrow> 'g \<Rightarrow> pubkey option \<Rightarrow> sig_data \<Rightarrow> 'g res" and
  multisig_gas :: "('g \<Rightarrow> 64 word \<Rightarrow> 'g res) \<Rightarrow> gas_params \<Rightarrow> 'g \<Rightarrow> pubkey list \<Rightarrow> bool list \<Rightarrow> sig_data list \<Rightarrow> 'g res"
  where
  "sig_gas consume params meter pk data =
     (case pk of
        Some (Pk_ed25519 _) \<Rightarrow> consume meter (cost_ed25519 params)
      | Some (Pk_eth_secp256k1 _) \<Rightarrow> consume meter (cost_secp256k1 params)
      | Some (Pk_multisig _ keys) \<Rightarrow>
          (case data of
             Sig_multi bits sigs \<Rightarrow> multisig_gas consume params meter keys bits sigs
           | _ \<Rightarrow> Inl (Err ''expected MultiSignatureData''))
      | _ \<Rightarrow> Inl (Err ''unrecognized public key type''))"
| "multisig_gas consume params meter keys [] sigs = Inr meter"
| "multisig_gas consume params meter keys (False # bits) sigs =
     multisig_gas consume params meter (tl keys) bits sigs"
| "multisig_gas consume params meter keys (True # bits) sigs =
     (case keys of
        [] \<Rightarrow> Inl (Panic ''index out of range'')
      | key # keys' \<Rightarrow>
          (case sigs of
             [] \<Rightarrow> Inl (Panic ''index out of range'')
           | sig # sigs' \<Rightarrow>
               bind_res (sig_gas consume params meter (Some key) sig)
                 (\<lambda>meter'. multisig_gas consume params meter' keys' bits sigs')))"
  by pat_completeness auto
termination
  by (relation "measures
    [case_sum (\<lambda>(c, p, m, pk, data). sig_weight data)
       (\<lambda>(c, p, m, keys, bits, sigs). sum_list (map sig_weight sigs) + length bits)]") auto

declare sig_gas.simps [simp del]

text \<open>A multi-signature that fits its key: a key for every flag, a signature for every set flag.\<close>

function (sequential)
  fits :: "pubkey option \<Rightarrow> sig_data \<Rightarrow> bool" and
  fits_all :: "pubkey list \<Rightarrow> bool list \<Rightarrow> sig_data list \<Rightarrow> bool" where
  "fits pk data =
     (case pk of
        Some (Pk_multisig _ keys) \<Rightarrow> (case data of Sig_multi bits sigs \<Rightarrow> fits_all keys bits sigs | _ \<Rightarrow> True)
      | _ \<Rightarrow> True)"
| "fits_all keys [] sigs = True"
| "fits_all keys (False # bits) sigs = fits_all (tl keys) bits sigs"
| "fits_all keys (True # bits) sigs =
     (keys \<noteq> [] \<and>
      (case sigs of [] \<Rightarrow> False | sig # sigs' \<Rightarrow> fits (Some (hd keys)) sig \<and> fits_all (tl keys) bits sigs'))"
  by pat_completeness auto
termination
  by (relation "measures
    [case_sum (\<lambda>(pk, data). sig_weight data)
       (\<lambda>(keys, bits, sigs). sum_list (map sig_weight sigs) + length bits)]") auto

declare fits.simps [simp del]

lemma sig_gas_no_panic:
  assumes "\<And>m c. \<not> panics (consume m c)"
  shows "fits pk data \<Longrightarrow> \<not> panics (sig_gas consume params meter pk data)"
    and "fits_all keys bits sigs \<Longrightarrow> \<not> panics (multisig_gas consume params meter keys bits sigs)"
  using assms
proof (induction consume params meter pk data and consume params meter keys bits sigs
    rule: sig_gas_multisig_gas.induct)
  case (1 consume params meter pk data)
  then show ?case
    by (subst sig_gas.simps) (auto simp: fits.simps split: option.splits pubkey.splits sig_data.splits)
next
  case (4 consume params meter keys bits sigs)
  then show ?case
    by (auto split: list.splits)
qed auto

section \<open>Properties\<close>

text \<open>
  The gas consumer panics on no signature whose multi-signatures fit their keys, however deep
  they nest, as long as the gas meter itself does not.
\<close>

theorem signature_gas_never_panics:
  assumes "\<And>m c. \<not> panics (consume m c)" and "fits pk data"
  shows "\<not> panics (sig_gas consume params meter pk data)"
  by (rule sig_gas_no_panic(1) [OF assms])

lemma signature_gas_never_panics_witness:
  "\<not> panics (sig_gas (\<lambda>g c. Inr (g + c)) \<lparr>cost_ed25519 = 590, cost_secp256k1 = 1000\<rparr> 0
     (Some (Pk_multisig 1 [Pk_ed25519 [], Pk_eth_secp256k1 []]))
     (Sig_multi [False, True] [Sig_single SM_direct []]))"
  by (rule signature_gas_never_panics) (simp_all add: fits.simps)

text \<open>
  C12. When the fee decorator passes a transaction on, the payer (the one the extension option
  names, otherwise the transaction's own) has an account, and either the fee is zero and the
  state is unchanged, or the fee is valid and was moved from that account to the fee collector
  before the next decorator ran.  (The comment on \<open>DeductFeeDecorator\<close> says that the first signer of
  the transaction pays; the code takes the delegated payer, then the fee payer of the
  transaction, neither of which need be the first signer.)
\<close>

theorem fee_is_paid_by_the_declared_payer:
  assumes "deduct_fee_decorator E K ctx tx sim next = Inr c"
  shows "\<exists>p acc ctx'. pays E tx p \<and> account_of K ctx p = Some acc \<and> next ctx' tx sim = Inr c \<and>
     (if coins_zero K (tx_fee tx) then ctx' = ctx
      else coins_valid K (tx_fee tx) \<and>
           send_to_module K ctx (acc_addr acc) ''fee_collector'' (tx_fee tx) = Inr ctx')"
proof -
  from feed.next_reached [OF assms] obtain ctx' where ok: "deduct_fee_check E K ctx tx = Inr ctx'"
    and nxt: "next ctx' tx sim = Inr c"
    by blast
  from ok obtain d where d: "delegated_payer E tx = Inr d"
    by (auto simp: deduct_fee_check_def split: if_splits)
  let ?p = "case d of Some p \<Rightarrow> p | None \<Rightarrow> tx_fee_payer tx"
  from ok d obtain acc where acc: "account_of K ctx ?p = Some acc"
    and fee: "(if coins_zero K (tx_fee tx) then Inr ctx else deduct_fees K ctx acc (tx_fee tx)) = Inr ctx'"
    by (cases "account_of K ctx ?p") (auto simp: deduct_fee_check_def Let_def split: if_splits)
  from fee have "if coins_zero K (tx_fee tx) then ctx' = ctx
      else coins_valid K (tx_fee tx) \<and>
           send_to_module K ctx (acc_addr acc) ''fee_collector'' (tx_fee tx) = Inr ctx'"
    by (auto simp: deduct_fees_def split: if_splits)
  with delegated_payer_pays [OF d] acc nxt show ?thesis by blast
qed

definition sample_fee_env :: "unit fee_env" where
  "sample_fee_env =
     \<lparr>module_address = (\<lambda>_. Some [1]), account_of = (\<lambda>_ _. Some sample_account),
      send_to_module = (\<lambda>c _ _ _. Inr (c\<lparr>block_height := 99\<rparr>)),
      coins_valid = (\<lambda>_. True), coins_zero = (\<lambda>_. False)\<rparr>"

lemma fee_is_paid_by_the_declared_payer_witness:
  "pays sample_env (sample_tx [1]) (to_bytes ''p'')"
proof -
  have ok: "is_ok (deduct_fee_decorator sample_env sample_fee_env sample_ctx (sample_tx [1]) False (\<lambda>c _ _. Inr c))"
    by code_simp
  then obtain c where
    "deduct_fee_decorator sample_env sample_fee_env sample_ctx (sample_tx [1]) False (\<lambda>c _ _. Inr c) = Inr c"
    by (auto simp: is_ok_iff)
  from fee_is_paid_by_the_declared_payer [OF this] obtain p where p: "pays sample_env (sample_tx [1]) p"
    by blast
  have "acc_from_bech32 toy_bech32 ''lux1p'' = Some (to_bytes ''p'')" by code_simp
  with p show ?thesis
    by (auto simp: pays_def sample_tx_def sample_env_def split: if_splits)
qed

end
