(* ===== verification/Svm_Types.thy ===== *)
theory Svm_Types
  imports Cosmos_Base
begin

text \<open>
  The messages of the SVM module (\<open>chain/modules/svm/types/msgs.go\<close>), the conversion of a Solana
  transaction to a \<open>MsgTransaction\<close> (\<open>convert.go\<close>) and the rent formula (\<open>types.go\<close>).  The
  lemmas say what a validated message satisfies and that converted transactions validate.
\<close>

section \<open>Messages\<close>

record instruction_account =
  id_index :: "32 word"
  caller_index :: "32 word"
  callee_index :: "32 word"
  is_signer :: bool
  is_writable :: bool

record instruction =
  program_index :: "32 word list"
  ix_accounts :: "instruction_account list"
  ix_data :: bytes

record msg_transaction =
  mt_signers :: "string list"
  mt_accounts :: "string list"
  mt_instructions :: "instruction list"
  mt_compute_budget :: "64 word"

record msg_link_svm_account =
  ls_sender :: string
  ls_svm_pubkey :: bytes
  ls_svm_signature :: bytes

definition link_validate_basic :: "bech32_lib \<Rightarrow> msg_link_svm_account \<Rightarrow> unit res" where
  "link_validate_basic B m =
     (if acc_from_bech32 B (ls_sender m) = None then Inl (Err ''signer is not valid bech32 format'')
      else if length (ls_svm_pubkey m) \<noteq> 32 then Inl (Err ''invalid length for svm pubkey'')
      else if length (ls_svm_signature m) \<noteq> 64 then Inl (Err ''invalid length for svm signature'')
      else Inr ())"

text \<open>A failed parse leaves a nil address.\<close>

definition link_get_signers :: "bech32_lib \<Rightarrow> msg_link_svm_account \<Rightarrow> bytes list" where
  "link_get_signers B m =
     [case acc_from_bech32 B (ls_sender m) of None \<Rightarrow> [] | Some a \<Rightarrow> a]"

section \<open>MsgTransaction.ValidateBasic\<close>

fun no_duplicates :: "string set \<Rightarrow> string list \<Rightarrow> unit res" where
  "no_duplicates seen [] = Inr ()"
| "no_duplicates seen (a # as) =
     (if a \<in> seen then Inl (Err ''duplicate account in tx account list'')
      else no_duplicates (insert a seen) as)"

text \<open>
  The loop over the accounts of one instruction; \<open>first\<close> is \<open>calleeIndexMap\<close> and \<open>idx\<close> the loop
  index.  The comparisons with the numbers of accounts are those of the source: \<open>>\<close>.
\<close>

definition check_account ::
  "nat \<Rightarrow> nat \<Rightarrow> (32 word \<rightharpoonup> 32 word) \<Rightarrow> nat \<Rightarrow> instruction_account \<Rightarrow> (32 word \<rightharpoonup> 32 word) res" where
  "check_account n_tx n_ix first idx a =
     (if id_index a > of_nat n_tx then Inl (Err ''ix account index out of range'')
      else if caller_index a > of_nat n_tx then Inl (Err ''ix account caller index out of range'')
      else if callee_index a > of_nat n_ix then Inl (Err ''ix account callee index of range'')
      else
        let first' = (if first (id_index a) = None then first(id_index a \<mapsto> of_nat idx) else first) in
        if first' (id_index a) \<noteq> Some (callee_index a)
        then Inl (Err ''callee index must be the first position of the account in this instruction'')
        else Inr first')"

fun check_accounts ::
  "nat \<Rightarrow> nat \<Rightarrow> (32 word \<rightharpoonup> 32 word) \<Rightarrow> nat \<Rightarrow> instruction_account list \<Rightarrow> unit res" where
  "check_accounts n_tx n_ix first idx [] = Inr ()"
| "check_accounts n_tx n_ix first idx (a # as) =
     bind_res (check_account n_tx n_ix first idx a)
       (\<lambda>first'. check_accounts n_tx n_ix first' (Suc idx) as)"

definition check_instruction :: "nat \<Rightarrow> instruction \<Rightarrow> unit res" where
  "check_instruction n_tx ix =
     check_accounts n_tx (length (ix_accounts ix)) (\<lambda>_. None) 0 (ix_accounts ix)"

definition tx_validate_basic :: "bech32_lib \<Rightarrow> msg_transaction \<Rightarrow> unit res" where
  "tx_validate_basic B m =
     bind_res
       (for_each (\<lambda>s. if acc_from_bech32 B s = None
          then Inl (Err ''signer is not valid bech32 format'') else Inr ()) (mt_signers m)) (\<lambda>_.
     if mt_compute_budget m = 0 then Inl (Err ''compute budget cannot be zero'')
     else if mt_accounts m = [] then Inl (Err ''tx accounts array cannot be empty'')
     else if mt_instructions m = [] then Inl (Err ''tx instructions array cannot be empty'')
     else bind_res (no_duplicates {} (mt_accounts m)) (\<lambda>_.
       for_each (check_instruction (length (mt_accounts m))) (mt_instructions m)))"

definition tx_get_signers :: "bech32_lib \<Rightarrow> msg_transaction \<Rightarrow> bytes list res" where
  "tx_get_signers B m = map_res (must_acc B) (mt_signers m)"

subsection \<open>What a validated message satisfies\<close>

lemma no_duplicates_ok: "no_duplicates seen as = Inr () \<longleftrightarrow> distinct as \<and> set as \<inter> seen = {}"
  by (induction as arbitrary: seen) auto

lemma for_each_parse_ok:
  "for_each (\<lambda>s. if acc_from_bech32 B s = None then Inl e else Inr ()) ss = Inr () \<longleftrightarrow>
     (\<forall>s \<in> set ss. acc_from_bech32 B s \<noteq> None)"
  by (auto simp: for_each_ok_iff)

text \<open>The position of the first account with the identity of the one at \<open>j\<close>.\<close>

definition first_pos :: "('a \<Rightarrow> bool) \<Rightarrow> 'a list \<Rightarrow> nat" where
  "first_pos P xs = length (takeWhile (\<lambda>x. \<not> P x) xs)"

lemma first_pos_le: "first_pos P xs \<le> length xs"
  by (simp add: first_pos_def length_takeWhile_le)

lemma first_pos_less: "x \<in> set xs \<Longrightarrow> P x \<Longrightarrow> first_pos P xs < length xs"
  by (induction xs) (auto simp: first_pos_def)

lemma first_pos_holds: "x \<in> set xs \<Longrightarrow> P x \<Longrightarrow> P (xs ! first_pos P xs)"
  by (induction xs) (auto simp: first_pos_def)

lemma first_pos_least: "i < first_pos P xs \<Longrightarrow> \<not> P (xs ! i)"
  by (metis first_pos_def nth_mem set_takeWhileD takeWhile_nth)

lemma first_pos_append:
  "first_pos P (xs @ ys) = (if \<exists>x \<in> set xs. P x then first_pos P xs else length xs + first_pos P ys)"
  by (induction xs) (auto simp: first_pos_def)

definition account_ok :: "nat \<Rightarrow> instruction_account list \<Rightarrow> instruction_account \<Rightarrow> bool" where
  "account_ok n_tx as a \<longleftrightarrow>
     id_index a \<le> of_nat n_tx \<and> caller_index a \<le> of_nat n_tx \<and>
     callee_index a \<le> of_nat (length as) \<and>
     callee_index a = of_nat (first_pos (\<lambda>b. id_index b = id_index a) as)"

text \<open>The map the loop has built after the accounts \<open>done\<close>.\<close>

definition first_map :: "instruction_account list \<Rightarrow> 32 word \<Rightarrow> 32 word option" where
  "first_map done w =
     (if \<exists>b \<in> set done. id_index b = w then Some (of_nat (first_pos (\<lambda>b. id_index b = w) done))
      else None)"

lemma first_map_last:
  "first_map (done @ [a]) (id_index a) =
     Some (of_nat (first_pos (\<lambda>b. id_index b = id_index a) (done @ [a])))"
  by (simp add: first_map_def)

lemma first_map_extend:
  "(if first_map done (id_index a) = None then (first_map done)(id_index a \<mapsto> of_nat (length done))
    else first_map done) = first_map (done @ [a])"
proof
  fix w
  have "first_pos P [x] = (if P x then 0 else 1)" for P and x :: instruction_account
    by (simp add: first_pos_def)
  then show "(if first_map done (id_index a) = None
      then (first_map done)(id_index a \<mapsto> of_nat (length done)) else first_map done) w =
      first_map (done @ [a]) w"
    by (auto simp: first_map_def first_pos_append)
qed

lemma check_account_first:
  "check_account n_tx n_ix (first_map done) (length done) a = Inr m \<longleftrightarrow>
     m = first_map (done @ [a]) \<and>
     id_index a \<le> of_nat n_tx \<and> caller_index a \<le> of_nat n_tx \<and> callee_index a \<le> of_nat n_ix \<and>
     callee_index a = of_nat (first_pos (\<lambda>b. id_index b = id_index a) (done @ [a]))"
  unfolding check_account_def Let_def first_map_extend first_map_last
  by (auto simp: not_less)

lemma check_accounts_ok:
  "check_accounts n_tx n_ix (first_map done) (length done) as = Inr () \<longleftrightarrow>
     (\<forall>a \<in> set as. id_index a \<le> of_nat n_tx \<and> caller_index a \<le> of_nat n_tx \<and>
        callee_index a \<le> of_nat n_ix \<and>
        callee_index a = of_nat (first_pos (\<lambda>b. id_index b = id_index a) (done @ as)))"
proof (induction as arbitrary: "done")
  case (Cons a as)
  have rest: "check_accounts n_tx n_ix (first_map (done @ [a])) (Suc (length done)) as = Inr () \<longleftrightarrow>
     (\<forall>c \<in> set as. id_index c \<le> of_nat n_tx \<and> caller_index c \<le> of_nat n_tx \<and>
        callee_index c \<le> of_nat n_ix \<and>
        callee_index c = of_nat (first_pos (\<lambda>b. id_index b = id_index c) (done @ a # as)))"
    using Cons.IH [of "done @ [a]"] by simp
  have head: "first_pos (\<lambda>b. id_index b = id_index a) (done @ a # as) =
      first_pos (\<lambda>b. id_index b = id_index a) (done @ [a])"
    by (simp add: first_pos_append) (simp add: first_pos_def)
  have "check_accounts n_tx n_ix (first_map done) (length done) (a # as) = Inr () \<longleftrightarrow>
      (\<exists>m. check_account n_tx n_ix (first_map done) (length done) a = Inr m \<and>
        check_accounts n_tx n_ix m (Suc (length done)) as = Inr ())"
    by (simp add: bind_res_Inr_iff)
  also have "\<dots> \<longleftrightarrow> (\<forall>c \<in> set (a # as). id_index c \<le> of_nat n_tx \<and> caller_index c \<le> of_nat n_tx \<and>
        callee_index c \<le> of_nat n_ix \<and>
        callee_index c = of_nat (first_pos (\<lambda>b. id_index b = id_index c) (done @ a # as)))"
    unfolding check_account_first using rest head by auto
  finally show ?case .
qed simp

lemma check_instruction_ok:
  "check_instruction n_tx ix = Inr () \<longleftrightarrow> (\<forall>a \<in> set (ix_accounts ix). account_ok n_tx (ix_accounts ix) a)"
proof -
  have "first_map [] = (\<lambda>_. None)" by (simp add: fun_eq_iff first_map_def)
  then show ?thesis
    using check_accounts_ok [of n_tx "length (ix_accounts ix)" "[]" "ix_accounts ix"]
    by (simp add: check_instruction_def account_ok_def)
qed

lemma tx_validate_basic_ok:
  "tx_validate_basic B m = Inr () \<longleftrightarrow>
     (\<forall>s \<in> set (mt_signers m). acc_from_bech32 B s \<noteq> None) \<and> mt_compute_budget m \<noteq> 0 \<and>
     mt_accounts m \<noteq> [] \<and> mt_instructions m \<noteq> [] \<and> distinct (mt_accounts m) \<and>
     (\<forall>ix \<in> set (mt_instructions m). \<forall>a \<in> set (ix_accounts ix).
        account_ok (length (mt_accounts m)) (ix_accounts ix) a)"
  by (simp add: tx_validate_basic_def bind_res_Inr_iff for_each_parse_ok no_duplicates_ok)
    (auto simp: for_each_ok_iff check_instruction_ok)

lemma tx_get_signers_ok:
  "is_ok (tx_get_signers B m) \<longleftrightarrow> (\<forall>s \<in> set (mt_signers m). acc_from_bech32 B s \<noteq> None)"
proof -
  have "is_ok (map_res (must_acc B) ss) \<longleftrightarrow> (\<forall>s \<in> set ss. acc_from_bech32 B s \<noteq> None)" for ss
    by (induction ss) (auto simp: is_ok_iff bind_res_Inr_iff)
  then show ?thesis by (simp add: tx_get_signers_def)
qed

section \<open>ToCosmosMsg\<close>

text \<open>
  The parts of a \<open>solana.Transaction\<close> the conversion reads.  \<open>key_string\<close> is \<open>PublicKey.String\<close>
  and \<open>resolve\<close> is \<open>ResolveInstructionAccounts\<close> (None for its error, on which the code panics).
\<close>

record account_meta =
  meta_key :: bytes
  meta_signer :: bool
  meta_writable :: bool

record sol_instruction =
  program_id_index :: "16 word"
  account_indices :: "16 word list"
  sol_data :: bytes

record sol_message =
  account_keys :: "bytes list"
  sol_instructions :: "sol_instruction list"

fun position_of :: "bytes \<Rightarrow> bytes list \<Rightarrow> int" where
  "position_of a [] = - 1"
| "position_of a (k # ks) =
     (if k = a then 0 else let p = position_of a ks in if p = - 1 then - 1 else p + 1)"

definition position_in_metas :: "bytes \<Rightarrow> account_meta list \<Rightarrow> int" where
  "position_in_metas a metas = position_of a (map meta_key metas)"

definition convert_account :: "bytes list \<Rightarrow> account_meta list \<Rightarrow> account_meta \<Rightarrow> instruction_account" where
  "convert_account keys metas a =
     \<lparr>id_index = of_int (position_of (meta_key a) keys),
      caller_index = of_int (position_of (meta_key a) keys),
      callee_index = of_int (position_in_metas (meta_key a) metas),
      is_signer = meta_signer a, is_writable = meta_writable a\<rparr>"

definition convert_instruction ::
  "(sol_instruction \<Rightarrow> sol_message \<Rightarrow> account_meta list option) \<Rightarrow> sol_message \<Rightarrow>
   sol_instruction \<Rightarrow> instruction res" where
  "convert_instruction resolve msg ix =
     bind_res (of_option (Panic ''resolve instruction accounts'') (resolve ix msg)) (\<lambda>metas.
       Inr \<lparr>program_index = [ucast (program_id_index ix)],
            ix_accounts = map (convert_account (account_keys msg) metas) metas,
            ix_data = sol_data ix\<rparr>)"

definition to_cosmos_msg ::
  "(bytes \<Rightarrow> string) \<Rightarrow> (sol_instruction \<Rightarrow> sol_message \<Rightarrow> account_meta list option) \<Rightarrow>
   string list \<Rightarrow> 64 word \<Rightarrow> sol_message \<Rightarrow> msg_transaction res" where
  "to_cosmos_msg key_string resolve signers budget msg =
     bind_res (map_res (convert_instruction resolve msg) (sol_instructions msg)) (\<lambda>ixs.
       Inr \<lparr>mt_signers = signers, mt_accounts = map key_string (account_keys msg),
            mt_instructions = ixs, mt_compute_budget = budget\<rparr>)"

text \<open>The documented behaviour of \<open>resolve\<close>: what it returns are accounts of the message.\<close>

definition resolves_message_keys ::
  "(sol_instruction \<Rightarrow> sol_message \<Rightarrow> account_meta list option) \<Rightarrow> sol_message \<Rightarrow> bool" where
  "resolves_message_keys resolve msg \<longleftrightarrow>
     (\<forall>ix metas. resolve ix msg = Some metas \<longrightarrow> meta_key ` set metas \<subseteq> set (account_keys msg))"

lemma position_of_first:
  "position_of a ks = (if a \<in> set ks then int (first_pos (\<lambda>k. k = a) ks) else - 1)"
  by (induction ks) (auto simp: first_pos_def Let_def)

lemma first_pos_map: "first_pos P (map f xs) = first_pos (P \<circ> f) xs"
  by (induction xs) (auto simp: first_pos_def)

lemma first_pos_cong: "(\<And>x. x \<in> set xs \<Longrightarrow> P x = Q x) \<Longrightarrow> first_pos P xs = first_pos Q xs"
  by (induction xs) (auto simp: first_pos_def)

lemma position_of_nth:
  "a \<in> set ks \<Longrightarrow> nat (position_of a ks) < length ks \<and> ks ! nat (position_of a ks) = a"
  using first_pos_less [of a ks "\<lambda>k. k = a"] first_pos_holds [of a ks "\<lambda>k. k = a"]
  by (simp add: position_of_first)

lemma converted_account_ok:
  assumes "length keys < 2 ^ 32" and "length metas < 2 ^ 32"
    and "meta_key ` set metas \<subseteq> set keys" and "a \<in> set metas"
  shows "account_ok (length keys) (map (convert_account keys metas) metas) (convert_account keys metas a)"
proof -
  let ?pos = "\<lambda>b. first_pos (\<lambda>k. k = meta_key b) keys"
  have mem: "meta_key b \<in> set keys" if "b \<in> set metas" for b
    using assms(3) that by auto
  have less: "?pos b < 2 ^ 32" if "b \<in> set metas" for b
    using first_pos_less [of "meta_key b" keys "\<lambda>k. k = meta_key b"] mem [OF that] assms(1) by simp
  have inj: "id_index (convert_account keys metas b) = id_index (convert_account keys metas a) \<longleftrightarrow>
      meta_key b = meta_key a" if "b \<in> set metas" for b
  proof -
    have "?pos b = ?pos a \<longleftrightarrow> meta_key b = meta_key a"
      using first_pos_holds [of "meta_key b" keys "\<lambda>k. k = meta_key b"]
        first_pos_holds [of "meta_key a" keys "\<lambda>k. k = meta_key a"]
        mem [OF that] mem [OF assms(4)] by (metis (mono_tags))
    then show ?thesis
      using of_nat_inj_word [where 'a = 32, of "?pos b" "?pos a"] less that assms(4) mem
      by (simp add: convert_account_def position_of_first)
  qed
  have in_metas: "meta_key a \<in> set (map meta_key metas)" using assms(4) by simp
  have "first_pos (\<lambda>b. id_index b = id_index (convert_account keys metas a))
        (map (convert_account keys metas) metas) =
      first_pos (\<lambda>k. k = meta_key a) (map meta_key metas)"
    unfolding first_pos_map using inj by (intro first_pos_cong) auto
  moreover have "callee_index (convert_account keys metas a) =
      of_nat (first_pos (\<lambda>k. k = meta_key a) (map meta_key metas))"
    using in_metas by (simp add: convert_account_def position_in_metas_def position_of_first)
  moreover have "first_pos (\<lambda>k. k = meta_key a) (map meta_key metas) \<le> length metas"
    using first_pos_le [of _ "map meta_key metas"] by simp
  moreover have "?pos a \<le> length keys" by (rule first_pos_le)
  ultimately show ?thesis
    using of_nat_le_word [where 'a = 32] assms(1,2,4) mem
    by (simp add: account_ok_def convert_account_def position_of_first)
qed

section \<open>Rent\<close>

definition default_account_storage_overhead :: "64 word" where
  "default_account_storage_overhead = 128"

definition rent_exempt_lamports :: "64 word \<Rightarrow> 64 word" where
  "rent_exempt_lamports sz = 3480 * (default_account_storage_overhead + sz) * 2"

section \<open>Properties\<close>


definition sample_transaction :: msg_transaction where
  "sample_transaction =
     \<lparr>mt_signers = [''lux1alice''], mt_accounts = [''A'', ''B''],
      mt_instructions = [\<lparr>program_index = [1],
        ix_accounts = [\<lparr>id_index = 0, caller_index = 0, callee_index = 0, is_signer = True,
                        is_writable = True\<rparr>], ix_data = []\<rparr>],
      mt_compute_budget = 5\<rparr>"


text \<open>The index a converted account carries is the place of its key in the message's accounts.\<close>

lemma converted_account_index:
  assumes "length keys < 2 ^ 32" and "meta_key a \<in> set keys"
  shows "unat (id_index (convert_account keys metas a)) < length keys \<and>
    keys ! unat (id_index (convert_account keys metas a)) = meta_key a"
proof -
  let ?n = "first_pos (\<lambda>k. k = meta_key a) keys"
  have "?n < length keys \<and> keys ! ?n = meta_key a"
    using position_of_nth [OF assms(2)] assms(2) by (simp add: position_of_first)
  moreover from this have "unat (id_index (convert_account keys metas a)) = ?n"
    using assms by (simp add: convert_account_def position_of_first unat_of_nat take_bit_nat_eq_self)
  ultimately show ?thesis by simp
qed

text \<open>
  C15. A Solana transaction converts without a panic to a message that passes \<open>ValidateBasic\<close>, when it
  has instructions and at least one account key, the keys print differently, every instruction can
  be resolved against the transaction's own keys, the counts fit \<open>uint32\<close>, the budget is not zero
  and the signers are bech32 addresses.  The message has one instruction for each of the
  transaction, in order, with one account for each resolved one, whose index is that of the
  account's own key among the accounts of the message.
\<close>

theorem converted_solana_transaction_validates:
  assumes "resolves_message_keys resolve msg"
    and "\<forall>ix \<in> set (sol_instructions msg). \<exists>metas. resolve ix msg = Some metas \<and> length metas < 2 ^ 32"
    and "account_keys msg \<noteq> []" and "length (account_keys msg) < 2 ^ 32"
    and "distinct (map key_string (account_keys msg))"
    and "sol_instructions msg \<noteq> []" and "budget \<noteq> 0"
    and "\<forall>s \<in> set signers. acc_from_bech32 B s \<noteq> None"
  shows "\<exists>m. to_cosmos_msg key_string resolve signers budget msg = Inr m \<and>
     tx_validate_basic B m = Inr () \<and>
     length (mt_instructions m) = length (sol_instructions msg) \<and>
     (\<forall>k < length (sol_instructions msg). \<exists>metas. resolve (sol_instructions msg ! k) msg = Some metas \<and>
        length (ix_accounts (mt_instructions m ! k)) = length metas \<and>
        (\<forall>j < length metas.
           unat (id_index (ix_accounts (mt_instructions m ! k) ! j)) < length (mt_accounts m) \<and>
           mt_accounts m ! unat (id_index (ix_accounts (mt_instructions m ! k) ! j)) =
             key_string (meta_key (metas ! j))))"
proof -
  let ?keys = "account_keys msg"
  have sub: "meta_key ` set metas \<subseteq> set ?keys" if "resolve ix msg = Some metas" for ix metas
    using assms(1) that by (simp add: resolves_message_keys_def)
  have "\<forall>ix \<in> set (sol_instructions msg). \<exists>i. convert_instruction resolve msg ix = Inr i \<and>
     (\<forall>a \<in> set (ix_accounts i). account_ok (length ?keys) (ix_accounts i) a)"
  proof
    fix ix
    assume "ix \<in> set (sol_instructions msg)"
    then obtain metas where metas: "resolve ix msg = Some metas" "length metas < 2 ^ 32"
      using assms(2) by blast
    with sub show "\<exists>i. convert_instruction resolve msg ix = Inr i \<and>
       (\<forall>a \<in> set (ix_accounts i). account_ok (length ?keys) (ix_accounts i) a)"
      using converted_account_ok [OF assms(4)] by (auto simp: convert_instruction_def)
  qed
  from map_res_all [OF this]
  obtain "is" where conv: "map_res (convert_instruction resolve msg) (sol_instructions msg) = Inr is"
    and ok: "\<forall>i \<in> set is. \<forall>a \<in> set (ix_accounts i). account_ok (length ?keys) (ix_accounts i) a"
    by blast
  define m where "m = \<lparr>mt_signers = signers, mt_accounts = map key_string ?keys,
    mt_instructions = is, mt_compute_budget = budget\<rparr>"
  have "is \<noteq> []" using map_res_length [OF conv] assms(6) by auto
  with ok assms(3,5,7,8) have "tx_validate_basic B m = Inr ()" by (simp add: m_def tx_validate_basic_ok)
  moreover have "\<exists>metas. resolve (sol_instructions msg ! k) msg = Some metas \<and>
      ix_accounts (is ! k) = map (convert_account ?keys metas) metas"
    if "k < length (sol_instructions msg)" for k
    using map_res_nth [OF conv that]
    by (auto simp: convert_instruction_def) (metis instruction.select_convs(2))
  moreover have "unat (id_index (convert_account ?keys metas a)) < length ?keys \<and>
      ?keys ! unat (id_index (convert_account ?keys metas a)) = meta_key a"
    if "resolve ix msg = Some metas" "a \<in> set metas" for ix metas a
    using converted_account_index [OF assms(4)] sub [OF that(1)] that(2) by blast
  ultimately show ?thesis
    using conv map_res_length [OF conv]
    by (intro exI [of _ m]) (fastforce simp: m_def to_cosmos_msg_def)
qed

definition sample_message :: sol_message where
  "sample_message =
     \<lparr>account_keys = [[1], [2], [3]],
      sol_instructions = [\<lparr>program_id_index = 2, account_indices = [1, 0, 1], sol_data = [7]\<rparr>]\<rparr>"

definition sample_resolve :: "sol_instruction \<Rightarrow> sol_message \<Rightarrow> account_meta list option" where
  "sample_resolve ix msg =
     (if list_all (\<lambda>i. unat i < length (account_keys msg)) (account_indices ix)
      then Some (map (\<lambda>i. \<lparr>meta_key = account_keys msg ! unat i, meta_signer = False, meta_writable = True\<rparr>)
             (account_indices ix))
      else None)"

lemma sample_resolve_keys: "resolves_message_keys sample_resolve msg"
  by (auto simp: resolves_message_keys_def sample_resolve_def list_all_iff split: if_splits)

lemma converted_solana_transaction_validates_witness:
  "\<exists>m. to_cosmos_msg (\<lambda>k. hex_encode k) sample_resolve [''lux1alice''] 10 sample_message = Inr m \<and>
     tx_validate_basic toy_bech32 m = Inr () \<and> length (mt_instructions m) = 1 \<and>
     mt_accounts m ! unat (id_index (ix_accounts (mt_instructions m ! 0) ! 0)) = hex_encode [2]"
proof -
  have msg: "length (account_keys sample_message) = 3"
    "sol_instructions sample_message = [\<lparr>program_id_index = 2, account_indices = [1, 0, 1], sol_data = [7]\<rparr>]"
    by (simp_all add: sample_message_def)
  have resolved: "sample_resolve (sol_instructions sample_message ! 0) sample_message =
      Some (map (\<lambda>k. \<lparr>meta_key = k, meta_signer = False, meta_writable = True\<rparr>) [[2], [1], [2]])"
    by (simp add: sample_message_def sample_resolve_def)
  then have all: "\<forall>ix \<in> set (sol_instructions sample_message).
      \<exists>metas. sample_resolve ix sample_message = Some metas \<and> length metas < 2 ^ 32"
    using msg(2) by simp
  have keys: "distinct (map (\<lambda>k. hex_encode k) (account_keys sample_message))" by code_simp
  have signers: "\<forall>s \<in> set [''lux1alice'']. acc_from_bech32 toy_bech32 s \<noteq> None" by code_simp
  have sizes: "account_keys sample_message \<noteq> []" "length (account_keys sample_message) < 2 ^ 32"
    "sol_instructions sample_message \<noteq> []" "(10 :: 64 word) \<noteq> 0"
    using msg by auto
  from converted_solana_transaction_validates [OF sample_resolve_keys all sizes(1,2) keys sizes(3,4) signers]
  show ?thesis using msg(2) resolved by fastforce
qed

end
