(* ===== verification/Svm_Ante.thy ===== *)
theory Svm_Ante
  imports Svm_Types
begin

text \<open>
  The SVM ante decorator (\<open>chain/modules/svm/ante/svm.go\<close>): a transaction with a
  \<open>MsgTransaction\<close> goes on only when its Cosmos signers are linked to SVM keys and every account
  an instruction uses as a signer belongs to a signer of the transaction.
\<close>

section \<open>The keeper and the decorator\<close>

record account_link =
  link_cosmos_addr :: bytes
  link_svm_addr :: bytes

text \<open>
  \<open>SvmKeeper.GetAccountLink\<close> and \<open>GetAccountLinkBySvmAddr\<close>, \<open>base58.Decode\<close>,
  \<open>proto.MessageName\<close> and the type assertion to \<open>*MsgTransaction\<close>.
\<close>

record ('m, 's) svm_env =
  account_link_of :: "'s ctx \<Rightarrow> bytes \<Rightarrow> account_link option"
  account_link_by_svm :: "'s ctx \<Rightarrow> bytes \<Rightarrow> account_link option"
  base58_decode :: "string \<Rightarrow> bytes"
  message_name :: "'m \<Rightarrow> string"
  as_msg_transaction :: "'m \<Rightarrow> msg_transaction option"
  svm_bech32 :: bech32_lib

definition msg_transaction_name :: string where
  "msg_transaction_name = ''flux.svm.v1beta1.MsgTransaction''"

definition signer_linked :: "('m, 's) svm_env \<Rightarrow> 's ctx \<Rightarrow> string \<Rightarrow> unit res" where
  "signer_linked K ctx signer =
     bind_res (must_acc (svm_bech32 K) signer) (\<lambda>acc.
       if account_link_of K ctx acc = None
       then Inl (Err ''signer cosmos addr is not linked to any svm pubkey'') else Inr ())"

definition check_ix_account ::
  "('m, 's) svm_env \<Rightarrow> 's ctx \<Rightarrow> bytes list \<Rightarrow> string list \<Rightarrow> instruction_account \<Rightarrow> unit res" where
  "check_ix_account K ctx signers accounts a =
     (if \<not> is_signer a then Inr ()
      else
        bind_res (index_at accounts (unat (caller_index a))) (\<lambda>s.
          case account_link_by_svm K ctx (base58_decode K s) of
            None \<Rightarrow> Inl (Err ''ix account is not linked to any cosmos addr'')
          | Some link \<Rightarrow>
              if link_cosmos_addr link \<notin> set signers
              then Inl (Err ''ix account linked cosmos addr doesn't appear in signer map'')
              else Inr ()))"

definition svm_check ::
  "('m, 's) svm_env \<Rightarrow> bool \<Rightarrow> 's ctx \<Rightarrow> 'm tx \<Rightarrow> unit res" where
  "svm_check K enabled ctx tx =
     (if \<not> enabled then Inr ()
      else if \<not> (\<exists>m \<in> set (tx_msgs tx). message_name K m = msg_transaction_name) then Inr ()
      else if length (tx_msgs tx) > 1
        then Inl (Err ''svm transaction must have only one MsgTransaction'')
      else if \<not> tx_is_signing_tx tx then Inl (Err ''invalid transaction type'')
      else
        bind_res (tx_signers tx) (\<lambda>signers.
        bind_res (index_at (tx_msgs tx) 0) (\<lambda>msg.
          case as_msg_transaction K msg of
            None \<Rightarrow> Inl (Err ''failed to cast tx msg into *svmtypes.MsgTransaction'')
          | Some m \<Rightarrow>
              bind_res (for_each (signer_linked K ctx) (mt_signers m)) (\<lambda>_.
                for_each (\<lambda>ix. for_each (check_ix_account K ctx signers (mt_accounts m)) (ix_accounts ix))
                  (mt_instructions m)))))"

definition svm_decorator :: "('m, 's) svm_env \<Rightarrow> bool \<Rightarrow> ('m, 's) decorator" where
  "svm_decorator K enabled ctx tx sim next =
     bind_res (svm_check K enabled ctx tx) (\<lambda>_. next ctx tx sim)"

interpretation svmd: ante_decorator "svm_decorator K enabled"
    "\<lambda>ctx tx sim. bind_res (svm_check K enabled ctx tx) (\<lambda>_. Inr ctx)"
  for K :: "('m, 's) svm_env" and enabled :: bool
  by unfold_locales (simp add: svm_decorator_def bind_res_assoc)

section \<open>What an accepted transaction satisfies\<close>

lemma signer_linked_ok:
  "signer_linked K ctx s = Inr () \<longleftrightarrow>
     (\<exists>a link. acc_from_bech32 (svm_bech32 K) s = Some a \<and> account_link_of K ctx a = Some link)"
  by (auto simp: signer_linked_def bind_res_Inr_iff)

lemma check_ix_account_ok:
  "check_ix_account K ctx signers accounts a = Inr () \<longleftrightarrow>
     (is_signer a \<longrightarrow> unat (caller_index a) < length accounts \<and>
       (\<exists>link. account_link_by_svm K ctx (base58_decode K (accounts ! unat (caller_index a))) = Some link \<and>
          link_cosmos_addr link \<in> set signers))"
  by (auto simp: check_ix_account_def bind_res_Inr_iff index_at_Inr_iff split: option.splits)

lemma svm_check_ok:
  assumes "svm_check K True ctx tx = Inr ()"
    and "\<exists>m \<in> set (tx_msgs tx). message_name K m = msg_transaction_name"
  obtains msg m signers where "tx_msgs tx = [msg]" and "as_msg_transaction K msg = Some m"
    and "tx_signers tx = Inr signers"
    and "\<forall>s \<in> set (mt_signers m). signer_linked K ctx s = Inr ()"
    and "\<forall>ix \<in> set (mt_instructions m). \<forall>a \<in> set (ix_accounts ix).
           check_ix_account K ctx signers (mt_accounts m) a = Inr ()"
proof -
  from assms obtain signers msg m where step: "tx_signers tx = Inr signers"
    "index_at (tx_msgs tx) 0 = Inr msg" "\<not> length (tx_msgs tx) > 1"
    "as_msg_transaction K msg = Some m"
    "for_each (signer_linked K ctx) (mt_signers m) = Inr ()"
    "for_each (\<lambda>ix. for_each (check_ix_account K ctx signers (mt_accounts m)) (ix_accounts ix))
       (mt_instructions m) = Inr ()"
    by (auto simp: svm_check_def split: if_splits option.splits)
  from step(2,3) have "tx_msgs tx = [msg]"
    by (cases "tx_msgs tx") (auto simp: index_at_Inr_iff)
  with step that show ?thesis by (simp add: for_each_ok_iff)
qed

section \<open>Properties\<close>

text \<open>
  C17. When the decorator lets an SVM transaction through, the transaction has exactly one
  message, each of the message's signers is linked to an SVM key, and each account an
  instruction marks as a signer is linked to an address that signed the transaction.
\<close>

theorem accepted_svm_transaction_is_authorised:
  assumes "svm_decorator K True ctx tx sim next = Inr c"
    and "\<exists>m \<in> set (tx_msgs tx). message_name K m = msg_transaction_name"
  shows "\<exists>msg m signers. tx_msgs tx = [msg] \<and> as_msg_transaction K msg = Some m \<and>
     tx_signers tx = Inr signers \<and> next ctx tx sim = Inr c \<and>
     (\<forall>s \<in> set (mt_signers m). \<exists>a link. acc_from_bech32 (svm_bech32 K) s = Some a \<and>
        account_link_of K ctx a = Some link) \<and>
     (\<forall>ix \<in> set (mt_instructions m). \<forall>a \<in> set (ix_accounts ix). is_signer a \<longrightarrow>
        unat (caller_index a) < length (mt_accounts m) \<and>
        (\<exists>link. account_link_by_svm K ctx
             (base58_decode K (mt_accounts m ! unat (caller_index a))) = Some link \<and>
           link_cosmos_addr link \<in> set signers))"
proof -
  from assms(1) have nxt: "next ctx tx sim = Inr c" and ok: "svm_check K True ctx tx = Inr ()"
    using svmd.next_reached [OF assms(1)] by auto
  from svm_check_ok [OF ok assms(2)] obtain msg m signers where
    one: "tx_msgs tx = [msg]" "as_msg_transaction K msg = Some m" "tx_signers tx = Inr signers"
    and linked: "\<forall>s \<in> set (mt_signers m). signer_linked K ctx s = Inr ()"
    and accounts: "\<forall>ix \<in> set (mt_instructions m). \<forall>a \<in> set (ix_accounts ix).
       check_ix_account K ctx signers (mt_accounts m) a = Inr ()"
    by blast
  show ?thesis
    using one nxt linked [unfolded signer_linked_ok] accounts [unfolded check_ix_account_ok]
    by (intro exI conjI) assumption+
qed

definition sample_svm_env :: "(msg_transaction, unit) svm_env" where
  "sample_svm_env =
     \<lparr>account_link_of = (\<lambda>_ a. Some \<lparr>link_cosmos_addr = a, link_svm_addr = [1]\<rparr>),
      account_link_by_svm = (\<lambda>_ a. Some \<lparr>link_cosmos_addr = [9], link_svm_addr = a\<rparr>),
      base58_decode = to_bytes, message_name = (\<lambda>_. msg_transaction_name),
      as_msg_transaction = (\<lambda>m. Some m), svm_bech32 = toy_bech32\<rparr>"

definition svm_tx :: "msg_transaction \<Rightarrow> msg_transaction tx" where
  "svm_tx m =
     \<lparr>tx_msgs = [m], tx_signatures = Inr [], tx_signers = Inr [[9]], tx_extensions = [],
      tx_fee = [], tx_gas = 0, tx_fee_payer = [], tx_fee_granter = None,
      tx_is_sig_verifiable = True, tx_is_signing_tx = True, tx_is_v2_adaptable = True,
      tx_has_extensions = True, tx_is_fee_tx = True\<rparr>"

definition empty_ctx :: "unit ctx" where
  "empty_ctx = \<lparr>is_recheck = False, is_check_tx = False, block_height = 1, ctx_chain_id = [], world = ()\<rparr>"

lemma accepted_svm_transaction_is_authorised_witness:
  "\<exists>signers. tx_signers (svm_tx sample_transaction) = Inr signers \<and> [9] \<in> set signers"
proof -
  have "is_ok (svm_decorator sample_svm_env True empty_ctx (svm_tx sample_transaction) False (\<lambda>c _ _. Inr c))"
    by code_simp
  then obtain c where c: "svm_decorator sample_svm_env True empty_ctx (svm_tx sample_transaction) False
      (\<lambda>c _ _. Inr c) = Inr c"
    by (auto simp: is_ok_iff)
  have "\<exists>m \<in> set (tx_msgs (svm_tx sample_transaction)). message_name sample_svm_env m = msg_transaction_name"
    by (simp add: svm_tx_def sample_svm_env_def)
  from accepted_svm_transaction_is_authorised [OF c this] show ?thesis
    by (auto simp: svm_tx_def sample_svm_env_def sample_transaction_def)
qed

text \<open>
  \<open>ValidateBasic\<close> compares the indices with \<open>>\<close>, so it lets a signer account through whose
  caller index is the number of accounts; on such a message the decorator panics with an index
  out of range.
\<close>

theorem validated_svm_message_can_panic_the_decorator:
  assumes "tx_msgs tx = [msg]" and "message_name K msg = msg_transaction_name"
    and "as_msg_transaction K msg = Some m" and "tx_is_signing_tx tx" and "tx_signers tx = Inr signers"
    and "\<forall>s \<in> set (mt_signers m). signer_linked K ctx s = Inr ()"
    and "mt_instructions m = ix # ixs" and "ix_accounts ix = a # as" and "is_signer a"
    and "caller_index a = of_nat (length (mt_accounts m))" and "length (mt_accounts m) < 2 ^ 32"
  shows "panics (svm_decorator K True ctx tx sim next)"
proof -
  have "unat (caller_index a) = length (mt_accounts m)"
    using assms(10,11) by (simp add: unat_of_nat_small)
  then have "check_ix_account K ctx signers (mt_accounts m) a = Inl (Panic ''index out of range'')"
    using assms(9) by (simp add: check_ix_account_def index_at_def)
  moreover have "for_each (signer_linked K ctx) (mt_signers m) = Inr ()"
    using assms(6) by (simp add: for_each_ok_iff)
  ultimately show ?thesis
    using assms by (simp add: svm_decorator_def svm_check_def index_at_def)
qed

definition off_by_one_transaction :: msg_transaction where
  "off_by_one_transaction =
     sample_transaction\<lparr>mt_instructions := [\<lparr>program_index = [1],
        ix_accounts = [\<lparr>id_index = 0, caller_index = 2, callee_index = 0, is_signer = True,
                        is_writable = True\<rparr>], ix_data = []\<rparr>]\<rparr>"

lemma validated_svm_message_can_panic_the_decorator_witness:
  "tx_validate_basic toy_bech32 off_by_one_transaction = Inr () \<and>
   panics (svm_decorator sample_svm_env True empty_ctx (svm_tx off_by_one_transaction) False (\<lambda>c _ _. Inr c))"
proof
  show "tx_validate_basic toy_bech32 off_by_one_transaction = Inr ()"
    unfolding unit_res_ok_iff by code_simp
  have linked: "\<forall>s \<in> set (mt_signers off_by_one_transaction). signer_linked sample_svm_env empty_ctx s = Inr ()"
    unfolding unit_res_ok_iff by code_simp
  have tx: "tx_msgs (svm_tx off_by_one_transaction) = [off_by_one_transaction]"
    "tx_is_signing_tx (svm_tx off_by_one_transaction)" "tx_signers (svm_tx off_by_one_transaction) = Inr [[9]]"
    "message_name sample_svm_env off_by_one_transaction = msg_transaction_name"
    "as_msg_transaction sample_svm_env off_by_one_transaction = Some off_by_one_transaction"
    by (simp_all add: svm_tx_def sample_svm_env_def)
  show "panics (svm_decorator sample_svm_env True empty_ctx (svm_tx off_by_one_transaction) False
      (\<lambda>c _ _. Inr c))"
    by (rule validated_svm_message_can_panic_the_decorator [OF tx(1,4,5,2,3) linked, of
          "hd (mt_instructions off_by_one_transaction)" "[]"
          "hd (ix_accounts (hd (mt_instructions off_by_one_transaction)))" "[]"])
      (simp_all add: off_by_one_transaction_def sample_transaction_def)
qed

end
