(* ===== verification/Ante_Handler.thy ===== *)
theory Ante_Handler
  imports Ante_Fee Svm_Ante
begin

text \<open>
  The ante handler of the chain (\<open>NewAnteHandler\<close> in \<open>chain/app/ante/ante.go\<close>): it picks the chain
  of decorators for a transaction by its first extension option.  The decorators of the SDK, of
  wasmd, ibc-go and the circuit breaker are an argument, as is \<open>ChainAnteDecorators\<close>.
\<close>

section \<open>Options and decorators\<close>

text \<open>Which of the options are not nil, and whether the account keeper has the full interface.\<close>

record handler_options =
  has_account_keeper :: bool
  has_bank_keeper :: bool
  has_sign_mode_handler :: bool
  has_wasm_config :: bool
  has_tx_counter_store :: bool
  has_circuit_keeper :: bool
  has_svm_keeper :: bool
  full_account_keeper :: bool

datatype ext_decorator =
    D_set_up_context | D_limit_simulation_gas | D_count_tx | D_gas_register | D_circuit_breaker
  | D_extension_options | D_validate_basic | D_tx_timeout_height | D_validate_memo
  | D_consume_gas_for_tx_size | D_deduct_fee | D_set_pub_key | D_validate_sig_count
  | D_sig_gas_consume_default | D_sig_gas_consume | D_sig_verification | D_increment_sequence
  | D_redundant_relay

record ('m, 's) ante_env =
  run_ext :: "ext_decorator \<Rightarrow> ('m, 's) decorator"
  chain_of :: "('m, 's) decorator list \<Rightarrow> ('m, 's) handler"
  signer_acc_of :: "'s ctx \<Rightarrow> bytes \<Rightarrow> account res"
  ante_verify :: "'m verify_env"
  ante_fees :: "'s fee_env"
  ante_svm :: "('m, 's) svm_env"
  svm_enabled :: bool

definition web3_decorators :: "('m, 's) ante_env \<Rightarrow> ('m, 's) decorator list" where
  "web3_decorators A =
     map (run_ext A)
       [D_set_up_context, D_limit_simulation_gas, D_count_tx, D_gas_register, D_circuit_breaker,
        D_validate_basic, D_tx_timeout_height, D_validate_memo, D_consume_gas_for_tx_size,
        D_set_pub_key, D_validate_sig_count] @
     [deduct_fee_decorator (ante_verify A) (ante_fees A),
      run_ext A D_sig_gas_consume_default,
      eip712_sig_verification (ante_verify A) (signer_acc_of A),
      svm_decorator (ante_svm A) (svm_enabled A),
      run_ext A D_increment_sequence, run_ext A D_redundant_relay]"

definition cosmos_decorators :: "('m, 's) ante_env \<Rightarrow> ('m, 's) decorator list" where
  "cosmos_decorators A =
     map (run_ext A)
       [D_set_up_context, D_limit_simulation_gas, D_count_tx, D_gas_register, D_circuit_breaker,
        D_extension_options, D_validate_basic, D_tx_timeout_height, D_validate_memo,
        D_consume_gas_for_tx_size, D_deduct_fee, D_set_pub_key, D_validate_sig_count,
        D_sig_gas_consume, D_sig_verification] @
     [svm_decorator (ante_svm A) (svm_enabled A),
      run_ext A D_increment_sequence, run_ext A D_redundant_relay]"

definition web3_type_url :: string where
  "web3_type_url = ''/flux.types.v1beta1.ExtensionOptionsWeb3Tx''"

definition check_options :: "handler_options \<Rightarrow> unit res" where
  "check_options opts =
     (if \<not> has_account_keeper opts then Inl (Panic ''account keeper is required for ante builder'')
      else if \<not> has_bank_keeper opts then Inl (Panic ''bank keeper is required for ante builder'')
      else if \<not> has_sign_mode_handler opts then Inl (Panic ''sign mode handler is required for ante builder'')
      else if \<not> has_wasm_config opts then Inl (Panic ''wasm config is required for ante builder'')
      else if \<not> has_tx_counter_store opts then Inl (Panic ''wasm store service is required for ante builder'')
      else if \<not> has_circuit_keeper opts then Inl (Panic ''circuit keeper is required for ante builder'')
      else if \<not> has_svm_keeper opts then Inl (Panic ''svm keeper is required for ante builder'')
      else Inr ())"

definition new_ante_handler :: "handler_options \<Rightarrow> ('m, 's) ante_env \<Rightarrow> ('m, 's) handler" where
  "new_ante_handler opts A ctx tx sim =
     bind_res (check_options opts) (\<lambda>_.
       case (if tx_has_extensions tx then tx_extensions tx else []) of
         [] \<Rightarrow> chain_of A (cosmos_decorators A) ctx tx sim
       | opt # _ \<Rightarrow>
           if opt_url opt = web3_type_url then
             (if \<not> full_account_keeper opts then Inl (Panic ''interface conversion'')
              else chain_of A (web3_decorators A) ctx tx sim)
           else Inl (Err ''unknown extension options''))"

section \<open>Decorators in a chain\<close>

text \<open>
  What is documented of the decorators: they succeed only by calling \<open>next\<close>, with a context of
  the same mode, and the bank keeper keeps the mode of the context.
\<close>

definition passes_on :: "('m, 's) decorator \<Rightarrow> bool" where
  "passes_on d \<longleftrightarrow>
     (\<forall>ctx tx sim next c. d ctx tx sim next = Inr c \<longrightarrow>
        (\<exists>c'. is_recheck c' = is_recheck ctx \<and> next c' tx sim = Inr c))"

lemma passes_on_mode:
  assumes "passes_on d"
  shows "passes (\<lambda>_. True) tx sim d" and "passes (\<lambda>c. \<not> is_recheck c) tx sim d"
  using assms unfolding passes_on_def passes_def by (blast, metis)

definition bank_keeps_mode :: "'s fee_env \<Rightarrow> bool" where
  "bank_keeps_mode K \<longleftrightarrow>
     (\<forall>ctx a m fee c. send_to_module K ctx a m fee = Inr c \<longrightarrow> is_recheck c = is_recheck ctx)"

lemma passes_on_fee: "bank_keeps_mode K \<Longrightarrow> passes_on (deduct_fee_decorator E K)"
proof -
  assume bank: "bank_keeps_mode K"
  have "is_recheck ctx' = is_recheck ctx" if "deduct_fee_check E K ctx tx = Inr ctx'" for ctx ctx' tx
    using that bank
    by (auto simp: deduct_fee_check_def Let_def deduct_fees_def bank_keeps_mode_def
        split: if_splits option.splits)
  then show ?thesis
    unfolding passes_on_def using feed.next_reached by blast
qed

lemma passes_on_sigv: "passes_on (eip712_sig_verification E ak)"
proof -
  have "c' = ctx" if "sig_verification_check E ak ctx tx sim = Inr c'" for ctx c' tx sim
    using that by (auto simp: sig_verification_check_def split: if_splits)
  then show ?thesis
    unfolding passes_on_def using sigv.next_reached by blast
qed

lemma new_ante_handler_Inr:
  assumes "new_ante_handler opts A ctx tx sim = Inr c"
  shows "chain_of A (cosmos_decorators A) ctx tx sim = Inr c \<or>
     chain_of A (web3_decorators A) ctx tx sim = Inr c"
  using assms by (auto simp: new_ante_handler_def split: list.splits if_splits)

lemma svm_check_in_chain:
  assumes "chains chain" and "\<forall>d \<in> set pre. passes_on d"
    and "chain (pre @ svm_decorator K enabled # ds) ctx tx sim = Inr c"
  shows "\<exists>c1. svm_check K enabled c1 tx = Inr ()"
proof -
  have "\<forall>d \<in> set pre. passes (\<lambda>_. True) tx sim d"
    using assms(2) passes_on_mode by blast
  from svmd.in_chain [OF assms(1) this TrueI assms(3)]
  have "\<exists>c1 c2. True \<and> bind_res (svm_check K enabled c1 tx) (\<lambda>_. Inr c1) = Inr c2" .
  then show ?thesis by (auto simp: unit_res_ok_iff)
qed

lemma sigv_in_chain:
  assumes "chains chain" and "\<forall>d \<in> set pre. passes_on d" and "\<not> is_recheck ctx"
    and "chain (pre @ eip712_sig_verification E ak # ds) ctx tx sim = Inr c"
  shows "\<exists>c1. \<not> is_recheck c1 \<and> is_ok (eip712_sig_verification E ak c1 tx sim (\<lambda>c _ _. Inr c))"
proof -
  have "\<forall>d \<in> set pre. passes (\<lambda>c. \<not> is_recheck c) tx sim d"
    using assms(2) passes_on_mode by blast
  from sigv.in_chain [where Q = "\<lambda>c. \<not> is_recheck c", OF assms(1) this assms(3,4)]
  show ?thesis by (auto simp: sigv.tail_call)
qed

section \<open>Properties\<close>

text \<open>
  A transaction whose first extension option is of another type than the web3 option is
  rejected before any decorator runs, and so is every transaction when a required option of the
  handler is missing.
\<close>

theorem unknown_extension_is_rejected:
  assumes "tx_has_extensions tx" and "tx_extensions tx = opt # opts'" and "opt_url opt \<noteq> web3_type_url"
  shows "\<exists>e. new_ante_handler opts A ctx tx sim = Inl e \<and>
     new_ante_handler opts (A\<lparr>run_ext := r, chain_of := ch\<rparr>) ctx tx sim = Inl e"
  using assms by (cases "check_options opts") (auto simp: new_ante_handler_def)

definition full_options :: handler_options where
  "full_options = \<lparr>has_account_keeper = True, has_bank_keeper = True, has_sign_mode_handler = True,
     has_wasm_config = True, has_tx_counter_store = True, has_circuit_keeper = True,
     has_svm_keeper = True, full_account_keeper = True\<rparr>"

definition sample_ante :: "(unit, unit) ante_env" where
  "sample_ante =
     \<lparr>run_ext = (\<lambda>_ ctx tx sim next. next ctx tx sim), chain_of = chain_decorators,
      signer_acc_of = (\<lambda>_ _. Inr sample_account), ante_verify = sample_env,
      ante_fees = sample_fee_env\<lparr>send_to_module := (\<lambda>c _ _ _. Inr c)\<rparr>,
      ante_svm = \<lparr>account_link_of = (\<lambda>_ _. None), account_link_by_svm = (\<lambda>_ _. None),
        base58_decode = to_bytes, message_name = (\<lambda>_. []), as_msg_transaction = (\<lambda>_. None),
        svm_bech32 = toy_bech32\<rparr>,
      svm_enabled = True\<rparr>"

lemma unknown_extension_is_rejected_witness:
  "\<exists>e. new_ante_handler full_options sample_ante sample_ctx
     ((sample_tx [1])\<lparr>tx_extensions := [\<lparr>opt_url = ''/other'', opt_value = []\<rparr>]\<rparr>) False = Inl e"
proof -
  let ?tx = "(sample_tx [1])\<lparr>tx_extensions := [\<lparr>opt_url = ''/other'', opt_value = []\<rparr>]\<rparr>"
  have "tx_has_extensions ?tx" "tx_extensions ?tx = [\<lparr>opt_url = ''/other'', opt_value = []\<rparr>]"
    "opt_url \<lparr>opt_url = ''/other'', opt_value = []\<rparr> \<noteq> web3_type_url"
    by (simp_all add: sample_tx_def web3_type_url_def)
  from unknown_extension_is_rejected [OF this] show ?thesis by blast
qed

text \<open>
  C13. Every transaction with the web3 extension that the handler accepts (outside recheck and
  simulation) has had each of its signers' EIP-712 signatures verified in some context the
  chain reached, whatever the other decorators do as long as they succeed only through \<open>next\<close>.
\<close>

theorem accepted_web3_transaction_is_signed:
  assumes "new_ante_handler opts A ctx tx False = Inr c" and "\<not> is_recheck ctx"
    and "tx_has_extensions tx" and "tx_extensions tx = opt # opts'"
    and "chains (chain_of A)" and "\<And>d. passes_on (run_ext A d)" and "bank_keeps_mode (ante_fees A)"
  shows "\<exists>c1 sigs addrs. tx_signatures tx = Inr sigs \<and> tx_signers tx = Inr addrs \<and>
     length sigs = length addrs \<and>
     (\<forall>i < length addrs. check_signer (ante_verify A) (signer_acc_of A) c1 tx False (sigs ! i, addrs ! i) = Inr ())"
proof -
  let ?pre = "map (run_ext A)
       [D_set_up_context, D_limit_simulation_gas, D_count_tx, D_gas_register, D_circuit_breaker,
        D_validate_basic, D_tx_timeout_height, D_validate_memo, D_consume_gas_for_tx_size,
        D_set_pub_key, D_validate_sig_count] @
     [deduct_fee_decorator (ante_verify A) (ante_fees A), run_ext A D_sig_gas_consume_default]"
  have web3: "chain_of A (web3_decorators A) ctx tx False = Inr c"
    using assms(1,3,4) by (auto simp: new_ante_handler_def split: if_splits)
  have "\<forall>d \<in> set ?pre. passes_on d"
    using assms(6) passes_on_fee [OF assms(7)] by auto
  then obtain pre ds where
    run: "chain_of A (pre @ eip712_sig_verification (ante_verify A) (signer_acc_of A) # ds) ctx tx False = Inr c"
    and pass: "\<forall>d \<in> set pre. passes_on d"
    using web3 that [of ?pre] by (simp add: web3_decorators_def)
  obtain c1 c2 where c1: "\<not> is_recheck c1"
    and ok: "eip712_sig_verification (ante_verify A) (signer_acc_of A) c1 tx False (\<lambda>c _ _. Inr c) = Inr c2"
    using sigv_in_chain [OF assms(5) pass assms(2) run] unfolding is_ok_iff by blast
  from ok c1 show ?thesis by (rule sig_verification_Inr) blast
qed

lemma sample_ante_accepts:
  "new_ante_handler full_options sample_ante sample_ctx (sample_tx [1]) False = Inr sample_ctx"
proof -
  have signer: "eip712_sig_verification sample_env (\<lambda>_ _. Inr sample_account) ctx (sample_tx [1]) False nxt
      = nxt ctx (sample_tx [1]) False" if "ctx = sample_ctx" for ctx nxt
  proof -
    have "env_bech32 sample_env = toy_bech32" "tx_is_signing_tx (sample_tx [1])"
      "acc_pubkey sample_account \<noteq> None" "acc_seq sample_account = 0"
      by (simp_all add: sample_env_def sample_tx_def sample_account_def)
    then have "check_signer sample_env (\<lambda>_ _. Inr sample_account) sample_ctx (sample_tx [1]) False
        (\<lparr>sig_pubkey = None, sig_payload = Sig_single SM_legacy_amino_json (replicate 65 0),
          sig_sequence = 0\<rparr>, to_bytes ''a'') = Inr ()"
      using sample_verifies by (simp add: check_signer_Inr)
    then show ?thesis
      using that by (simp add: eip712_sig_verification_def sample_ctx_def sample_tx_def)
  qed
  have fee: "deduct_fee_decorator sample_env (sample_fee_env\<lparr>send_to_module := (\<lambda>c _ _ _. Inr c)\<rparr>) sample_ctx
      (sample_tx [1]) False nxt = nxt sample_ctx (sample_tx [1]) False" for nxt
  proof -
    have "is_ok (delegated_payer sample_env (sample_tx [1]))" by code_simp
    then obtain d where "delegated_payer sample_env (sample_tx [1]) = Inr d" by (auto simp: is_ok_iff)
    then have "deduct_fee_check sample_env (sample_fee_env\<lparr>send_to_module := (\<lambda>c _ _ _. Inr c)\<rparr>) sample_ctx
        (sample_tx [1]) = Inr sample_ctx"
      by (simp add: deduct_fee_check_def sample_fee_env_def deduct_fees_def) (simp add: sample_tx_def)
    then show ?thesis by (simp add: deduct_fee_decorator_def)
  qed
  have svm: "svm_decorator (ante_svm sample_ante) True sample_ctx (sample_tx [1]) False nxt =
      nxt sample_ctx (sample_tx [1]) False" for nxt
    by (simp add: svm_decorator_def svm_check_def sample_ante_def msg_transaction_name_def)
  have "(if tx_has_extensions (sample_tx [1]) then tx_extensions (sample_tx [1]) else []) =
      [\<lparr>opt_url = web3_type_url, opt_value = [1]\<rparr>]"
    by (simp add: sample_tx_def web3_type_url_def)
  moreover have "check_options full_options = Inr ()" "full_account_keeper full_options"
    by (simp_all add: check_options_def full_options_def)
  moreover have "chain_of sample_ante = chain_decorators" "ante_verify sample_ante = sample_env"
    "run_ext sample_ante = (\<lambda>_ ctx tx sim next. next ctx tx sim)" "svm_enabled sample_ante"
    "signer_acc_of sample_ante = (\<lambda>_ _. Inr sample_account)"
    "ante_fees sample_ante = sample_fee_env\<lparr>send_to_module := (\<lambda>c _ _ _. Inr c)\<rparr>"
    by (simp_all add: sample_ante_def)
  ultimately show ?thesis
    by (simp add: new_ante_handler_def web3_decorators_def fee signer svm)
qed

lemma sample_ante_contract:
  "chains (chain_of sample_ante)" "passes_on (run_ext sample_ante d)" "bank_keeps_mode (ante_fees sample_ante)"
  by (simp_all add: sample_ante_def chains_chain_decorators passes_on_def bank_keeps_mode_def)
    (metis)

lemma accepted_web3_transaction_is_signed_witness:
  "\<exists>(c1 :: unit ctx) sigs addrs. tx_signatures (sample_tx [1]) = Inr sigs \<and> tx_signers (sample_tx [1]) = Inr addrs \<and>
     check_signer sample_env (\<lambda>_ _. Inr sample_account) c1 (sample_tx [1]) False (hd sigs, hd addrs) = Inr ()"
proof -
  have "\<not> is_recheck sample_ctx" "tx_has_extensions (sample_tx [1])"
    "tx_extensions (sample_tx [1]) = [\<lparr>opt_url = web3_type_url, opt_value = [1]\<rparr>]"
    by (simp_all add: sample_ctx_def sample_tx_def web3_type_url_def)
  from accepted_web3_transaction_is_signed [OF sample_ante_accepts this sample_ante_contract]
  show ?thesis by (auto simp: sample_tx_def sample_ante_def)
qed

text \<open>
  C14. No route avoids the SVM check: with the SVM decorator enabled, an accepted transaction with
  an SVM message, with or without the web3 extension, has exactly that message, its signers are
  linked, and the signer accounts of its instructions belong to signers of the transaction.
\<close>

theorem every_route_checks_svm_messages:
  assumes "new_ante_handler opts A ctx tx sim = Inr c" and "svm_enabled A"
    and "\<exists>m \<in> set (tx_msgs tx). message_name (ante_svm A) m = msg_transaction_name"
    and "chains (chain_of A)" and "\<And>d. passes_on (run_ext A d)" and "bank_keeps_mode (ante_fees A)"
  shows "\<exists>c1 msg m signers. tx_msgs tx = [msg] \<and> as_msg_transaction (ante_svm A) msg = Some m \<and>
     tx_signers tx = Inr signers \<and>
     (\<forall>s \<in> set (mt_signers m). signer_linked (ante_svm A) c1 s = Inr ()) \<and>
     (\<forall>ix \<in> set (mt_instructions m). \<forall>a \<in> set (ix_accounts ix).
        check_ix_account (ante_svm A) c1 signers (mt_accounts m) a = Inr ())"
proof -
  have pass: "passes_on (deduct_fee_decorator (ante_verify A) (ante_fees A))"
    "passes_on (eip712_sig_verification (ante_verify A) (signer_acc_of A))"
    using passes_on_fee [OF assms(6)] passes_on_sigv by auto
  obtain pre ds where "chain_of A (pre @ svm_decorator (ante_svm A) True # ds) ctx tx sim = Inr c"
    and "\<forall>d \<in> set pre. passes_on d"
  proof (cases "chain_of A (cosmos_decorators A) ctx tx sim = Inr c")
    case True
    let ?pre = "map (run_ext A)
       [D_set_up_context, D_limit_simulation_gas, D_count_tx, D_gas_register, D_circuit_breaker,
        D_extension_options, D_validate_basic, D_tx_timeout_height, D_validate_memo,
        D_consume_gas_for_tx_size, D_deduct_fee, D_set_pub_key, D_validate_sig_count,
        D_sig_gas_consume, D_sig_verification]"
    have "\<forall>d \<in> set ?pre. passes_on d" using assms(5) by auto
    with True assms(2) that [of ?pre] show ?thesis by (simp add: cosmos_decorators_def)
  next
    case False
    then have web3: "chain_of A (web3_decorators A) ctx tx sim = Inr c"
      using new_ante_handler_Inr [OF assms(1)] by blast
    let ?pre = "map (run_ext A)
       [D_set_up_context, D_limit_simulation_gas, D_count_tx, D_gas_register, D_circuit_breaker,
        D_validate_basic, D_tx_timeout_height, D_validate_memo, D_consume_gas_for_tx_size,
        D_set_pub_key, D_validate_sig_count] @
     [deduct_fee_decorator (ante_verify A) (ante_fees A), run_ext A D_sig_gas_consume_default,
      eip712_sig_verification (ante_verify A) (signer_acc_of A)]"
    have "\<forall>d \<in> set ?pre. passes_on d" using assms(5) pass by auto
    with web3 assms(2) that [of ?pre] show ?thesis by (simp add: web3_decorators_def)
  qed
  from svm_check_in_chain [OF assms(4) this(2,1)] obtain c1 where "svm_check (ante_svm A) True c1 tx = Inr ()"
    by blast
  then show ?thesis using assms(3) by (rule svm_check_ok) blast
qed

definition sample_svm_ante :: "(msg_transaction, unit) ante_env" where
  "sample_svm_ante =
     \<lparr>run_ext = (\<lambda>_ ctx tx sim next. next ctx tx sim), chain_of = chain_decorators,
      signer_acc_of = (\<lambda>_ _. Inr sample_account), ante_verify = undefined,
      ante_fees = sample_fee_env\<lparr>send_to_module := (\<lambda>c _ _ _. Inr c)\<rparr>, ante_svm = sample_svm_env,
      svm_enabled = True\<rparr>"

lemma every_route_checks_svm_messages_witness:
  "\<exists>c1 :: unit ctx. signer_linked sample_svm_env c1 ''lux1alice'' = Inr ()"
proof -
  have "is_ok (svm_check sample_svm_env True empty_ctx (svm_tx sample_transaction))" by code_simp
  then have "svm_decorator sample_svm_env True empty_ctx (svm_tx sample_transaction) False nxt =
      nxt empty_ctx (svm_tx sample_transaction) False" for nxt
    by (auto simp: svm_decorator_def is_ok_iff)
  then have accepted: "new_ante_handler full_options sample_svm_ante empty_ctx (svm_tx sample_transaction) False = Inr empty_ctx"
  proof -
    have "(if tx_has_extensions (svm_tx sample_transaction)
        then tx_extensions (svm_tx sample_transaction) else []) = []"
      by (simp add: svm_tx_def)
    moreover have "check_options full_options = Inr ()"
      by (simp add: check_options_def full_options_def)
    moreover have "chain_of sample_svm_ante = chain_decorators" "ante_svm sample_svm_ante = sample_svm_env"
      "run_ext sample_svm_ante = (\<lambda>_ ctx tx sim next. next ctx tx sim)" "svm_enabled sample_svm_ante"
      by (simp_all add: sample_svm_ante_def)
    ultimately show ?thesis
      using \<open>\<And>nxt. svm_decorator sample_svm_env True empty_ctx (svm_tx sample_transaction) False nxt =
        nxt empty_ctx (svm_tx sample_transaction) False\<close>
      by (simp add: new_ante_handler_def cosmos_decorators_def)
  qed
  have env: "svm_enabled sample_svm_ante" "ante_svm sample_svm_ante = sample_svm_env"
    "chains (chain_of sample_svm_ante)" "passes_on (run_ext sample_svm_ante d)"
    "bank_keeps_mode (ante_fees sample_svm_ante)" for d
    by (simp_all add: sample_svm_ante_def chains_chain_decorators passes_on_def bank_keeps_mode_def) metis
  have "\<exists>m \<in> set (tx_msgs (svm_tx sample_transaction)).
      message_name (ante_svm sample_svm_ante) m = msg_transaction_name"
    unfolding env(2) by (simp add: svm_tx_def sample_svm_env_def)
  from every_route_checks_svm_messages [OF accepted env(1) this env(3-5)] env(2)
  show ?thesis by (auto simp: svm_tx_def sample_svm_env_def sample_transaction_def)
qed

end
