(* ===== verification/Byte_Codec.thy ===== *)
theory Byte_Codec
  imports Prelude
begin

text \<open>
  Byte codecs: the interface a binary format has for its readers (\<open>byte_codec\<close>), the little-endian
  words of Go's \<open>encoding/binary\<close>, and the functions of the \<open>gagliardetto/binary\<close> encoder
  and decoder the SVM client calls (\<open>bin_lib\<close>, an argument of the definitions that use it).
\<close>

section \<open>The interface\<close>

text \<open>
  \<open>dec\<close> reads one value off the front of the input and leaves the rest.  The law is the round
  trip in front of any continuation; unique readability follows.
\<close>

locale byte_codec =
  fixes enc :: "'a \<Rightarrow> bytes" and dec :: "bytes \<Rightarrow> ('a \<times> bytes) res" and wf :: "'a \<Rightarrow> bool"
  assumes round_trip: "wf x \<Longrightarrow> dec (enc x @ rest) = Inr (x, rest)"
begin

lemma decode_encode: "wf x \<Longrightarrow> dec (enc x) = Inr (x, [])"
  using round_trip [of x "[]"] by simp

lemma unique_reading:
  assumes "wf x" and "wf y" and "enc x @ r = enc y @ s"
  shows "x = y \<and> r = s"
proof -
  have "(Inr (x, r) :: ('a \<times> bytes) res) = Inr (y, s)"
    using round_trip [OF assms(1), of r] round_trip [OF assms(2), of s] assms(3) by metis
  then show ?thesis by simp
qed

lemma enc_inject: "wf x \<Longrightarrow> wf y \<Longrightarrow> enc x = enc y \<Longrightarrow> x = y"
  using unique_reading [of x y "[]" "[]"] by simp

end

section \<open>Little-endian words\<close>

fun le_bytes :: "nat \<Rightarrow> nat \<Rightarrow> bytes" where
  "le_bytes 0 x = []"
| "le_bytes (Suc n) x = of_nat (x mod 256) # le_bytes n (x div 256)"

fun nat_of_le :: "bytes \<Rightarrow> nat" where
  "nat_of_le [] = 0"
| "nat_of_le (b # bs) = unat b + 256 * nat_of_le bs"

lemma length_le_bytes [simp]: "length (le_bytes n x) = n"
  by (induction n arbitrary: x) auto

lemma nat_of_le_bytes: "nat_of_le (le_bytes n x) = x mod 256 ^ n"
proof (induction n arbitrary: x)
  case (Suc n)
  have "unat (of_nat (x mod 256) :: 8 word) = x mod 256"
    by (rule unat_of_nat_small) simp
  then show ?case
    using Suc by (simp add: mod_mult2_eq)
qed simp

definition put_le :: "'a::len word \<Rightarrow> bytes" where
  "put_le x = le_bytes (LENGTH('a) div 8) (unat x)"

definition get_le :: "bytes \<Rightarrow> ('a::len word \<times> bytes) res" where
  "get_le bs =
     (let n = LENGTH('a) div 8 in
      if length bs < n then Inl (Err ''EOF'')
      else Inr (of_nat (nat_of_le (take n bs)), drop n bs))"

lemma get_put_le:
  assumes "8 dvd LENGTH('a)"
  shows "get_le (put_le (x :: 'a::len word) @ rest) = Inr (x, rest)"
proof -
  from assms obtain k where k: "LENGTH('a) = 8 * k" ..
  have "unat x < 2 ^ LENGTH('a)" by (rule unsigned_less)
  also have "\<dots> = 256 ^ k" by (simp add: k power_mult)
  finally have "nat_of_le (le_bytes k (unat x)) = unat x"
    by (simp add: nat_of_le_bytes)
  then show ?thesis by (simp add: get_le_def put_le_def k)
qed

interpretation u8: byte_codec "put_le :: 8 word \<Rightarrow> bytes" get_le "\<lambda>_. True"
  by unfold_locales (rule get_put_le, simp)

interpretation u16: byte_codec "put_le :: 16 word \<Rightarrow> bytes" get_le "\<lambda>_. True"
  by unfold_locales (rule get_put_le, simp)

interpretation u32: byte_codec "put_le :: 32 word \<Rightarrow> bytes" get_le "\<lambda>_. True"
  by unfold_locales (rule get_put_le, simp)

interpretation u64: byte_codec "put_le :: 64 word \<Rightarrow> bytes" get_le "\<lambda>_. True"
  by unfold_locales (rule get_put_le, simp)

interpretation u128: byte_codec "put_le :: 128 word \<Rightarrow> bytes" get_le "\<lambda>_. True"
  by unfold_locales (rule get_put_le, simp)

section \<open>The encoder and decoder library\<close>

text \<open>
  The encoder's writes and the decoder's reads for each type the client uses (a public key is 32
  bytes); signed integers are words read with \<open>sint\<close>.  \<open>bin_ok\<close> is the documented behaviour: what was written is
  read back, in front of anything that follows.
\<close>

record bin_lib =
  put_bool :: "bool \<Rightarrow> bytes"
  get_bool :: "bytes \<Rightarrow> (bool \<times> bytes) res"
  put_u8 :: "8 word \<Rightarrow> bytes"
  get_u8 :: "bytes \<Rightarrow> (8 word \<times> bytes) res"
  put_u16 :: "16 word \<Rightarrow> bytes"
  get_u16 :: "bytes \<Rightarrow> (16 word \<times> bytes) res"
  put_u32 :: "32 word \<Rightarrow> bytes"
  get_u32 :: "bytes \<Rightarrow> (32 word \<times> bytes) res"
  put_u64 :: "64 word \<Rightarrow> bytes"
  get_u64 :: "bytes \<Rightarrow> (64 word \<times> bytes) res"
  put_u128 :: "128 word \<Rightarrow> bytes"
  get_u128 :: "bytes \<Rightarrow> (128 word \<times> bytes) res"
  put_key :: "bytes \<Rightarrow> bytes"
  get_key :: "bytes \<Rightarrow> (bytes \<times> bytes) res"

definition bin_ok :: "bin_lib \<Rightarrow> bool" where
  "bin_ok L \<longleftrightarrow>
     (\<forall>x r. get_bool L (put_bool L x @ r) = Inr (x, r)) \<and>
     (\<forall>x r. get_u8 L (put_u8 L x @ r) = Inr (x, r)) \<and>
     (\<forall>x r. get_u16 L (put_u16 L x @ r) = Inr (x, r)) \<and>
     (\<forall>x r. get_u32 L (put_u32 L x @ r) = Inr (x, r)) \<and>
     (\<forall>x r. get_u64 L (put_u64 L x @ r) = Inr (x, r)) \<and>
     (\<forall>x r. get_u128 L (put_u128 L x @ r) = Inr (x, r)) \<and>
     (\<forall>x r. length x = 32 \<longrightarrow> get_key L (put_key L x @ r) = Inr (x, r))"

text \<open>Raw bytes of a known length (\<open>WriteBytes(b, false)\<close>, \<open>ReadNBytes\<close>).\<close>

definition get_raw :: "nat \<Rightarrow> bytes \<Rightarrow> (bytes \<times> bytes) res" where
  "get_raw n bs = (if length bs < n then Inl (Err ''EOF'') else Inr (take n bs, drop n bs))"

lemma get_raw_append [simp]: "length b = n \<Longrightarrow> get_raw n (b @ r) = Inr (b, r)"
  by (simp add: get_raw_def)

text \<open>The little-endian library, for concrete runs.\<close>

definition le_lib :: bin_lib where
  "le_lib =
     \<lparr>put_bool = (\<lambda>b. [if b then 1 else 0]),
      get_bool = (\<lambda>bs. case bs of [] \<Rightarrow> Inl (Err ''EOF'') | b # r \<Rightarrow> Inr (b \<noteq> 0, r)),
      put_u8 = put_le, get_u8 = get_le, put_u16 = put_le, get_u16 = get_le,
      put_u32 = put_le, get_u32 = get_le, put_u64 = put_le, get_u64 = get_le,
      put_u128 = put_le, get_u128 = get_le, put_key = (\<lambda>k. k), get_key = get_raw 32\<rparr>"

lemma bin_ok_le_lib: "bin_ok le_lib"
  by (simp add: bin_ok_def le_lib_def u8.round_trip u16.round_trip u32.round_trip u64.round_trip
      u128.round_trip)

text \<open>An optional value: a boolean, then the value when it is there.\<close>

definition put_opt :: "bin_lib \<Rightarrow> ('a \<Rightarrow> bytes) \<Rightarrow> 'a option \<Rightarrow> bytes" where
  "put_opt L put x = (case x of None \<Rightarrow> put_bool L False | Some y \<Rightarrow> put_bool L True @ put y)"

definition get_opt ::
  "bin_lib \<Rightarrow> (bytes \<Rightarrow> ('a \<times> bytes) res) \<Rightarrow> bytes \<Rightarrow> ('a option \<times> bytes) res" where
  "get_opt L get bs =
     bind_res (get_bool L bs) (\<lambda>(ok, bs').
       if ok then bind_res (get bs') (\<lambda>(y, bs''). Inr (Some y, bs'')) else Inr (None, bs'))"

locale bin_library =
  fixes L :: bin_lib
  assumes ok: "bin_ok L"
begin

lemma bool_rt [simp]: "get_bool L (put_bool L x @ r) = Inr (x, r)"
  and u8_rt [simp]: "get_u8 L (put_u8 L y8 @ r) = Inr (y8, r)"
  and u16_rt [simp]: "get_u16 L (put_u16 L y16 @ r) = Inr (y16, r)"
  and u32_rt [simp]: "get_u32 L (put_u32 L y32 @ r) = Inr (y32, r)"
  and u64_rt [simp]: "get_u64 L (put_u64 L y64 @ r) = Inr (y64, r)"
  and u128_rt [simp]: "get_u128 L (put_u128 L y128 @ r) = Inr (y128, r)"
  and key_rt [simp]: "length k = 32 \<Longrightarrow> get_key L (put_key L k @ r) = Inr (k, r)"
  using ok by (simp_all add: bin_ok_def)

lemma opt_rt:
  assumes "\<And>y s. x = Some y \<Longrightarrow> get (put y @ s) = Inr (y, s)"
  shows "get_opt L get (put_opt L put x @ r) = Inr (x, r)"
  using assms by (cases x) (simp_all add: put_opt_def get_opt_def)

end

interpretation le: bin_library le_lib
  by unfold_locales (rule bin_ok_le_lib)

end
