(* ===== verification/Svm_Upload.thy ===== *)
theory Svm_Upload
  imports Svm_Types Byte_Codec
begin

text \<open>
  Deploying SVM programs (\<open>client/svm/helper.go\<close>, \<open>client/svm/token22.go\<close>): the loader instructions
  \<open>WriteBuffer\<close> and \<open>DeployWithMaxDataLen\<close>, the message that creates the accounts, and
  \<open>CreateProgramUploadMsgs\<close>, which cuts a program into 1200-byte writes and 750-instruction
  transactions.  The lemmas show that the transactions carry exactly the writes and the deploy
  instruction, in order, and that replaying the writes rebuilds the program.
\<close>

section \<open>Loader instructions\<close>

record write_buffer =
  wb_offset :: "32 word"
  wb_data :: bytes

definition marshal_write_buffer :: "bin_lib \<Rightarrow> write_buffer \<Rightarrow> bytes" where
  "marshal_write_buffer L w =
     put_u32 L 1 @ put_u32 L (wb_offset w) @ put_u64 L (of_nat (length (wb_data w))) @ wb_data w"

definition marshal_deploy :: "bin_lib \<Rightarrow> 64 word \<Rightarrow> bytes" where
  "marshal_deploy L data_len = put_u32 L 2 @ put_u64 L data_len"

definition uint16_to_le_bytes :: "16 word \<Rightarrow> bytes" where
  "uint16_to_le_bytes x = put_le x"

text \<open>What the loader reads: the inverse of \<open>MarshalWithEncoder\<close>.\<close>

definition read_write_buffer :: "bin_lib \<Rightarrow> bytes \<Rightarrow> (write_buffer \<times> bytes) res" where
  "read_write_buffer L bs =
     bind_res (get_u32 L bs) (\<lambda>(tag, bs1).
     if tag \<noteq> 1 then Inl (Err ''not a write'')
     else
       bind_res (get_u32 L bs1) (\<lambda>(off, bs2).
       bind_res (get_u64 L bs2) (\<lambda>(n, bs3).
       bind_res (get_raw (unat n) bs3) (\<lambda>(d, bs4).
         Inr (\<lparr>wb_offset = off, wb_data = d\<rparr>, bs4)))))"

context bin_library
begin

lemma write_buffer_round_trip:
  "length (wb_data w) < 2 ^ 64 \<Longrightarrow>
     read_write_buffer L (marshal_write_buffer L w @ r) = Inr (w, r)"
  by (simp add: read_write_buffer_def marshal_write_buffer_def unat_of_nat_small)

end

interpretation wb: byte_codec "marshal_write_buffer le_lib" "read_write_buffer le_lib"
    "\<lambda>w. length (wb_data w) < 2 ^ 64"
  by unfold_locales (rule le.write_buffer_round_trip)

section \<open>Transactions\<close>

text \<open>
  The Solana SDK: the builder's \<open>Build\<close>, \<open>FindProgramAddress\<close> (without the bump seed),
  \<open>system.NewCreateAccountInstruction\<close> (lamports, space, owner, funding and new account) and the
  well-known keys.
\<close>

record sol_ix =
  six_program :: bytes
  six_metas :: "account_meta list"
  six_data :: bytes

record sol_env =
  build_tx :: "sol_ix list \<Rightarrow> sol_message res"
  find_program_address :: "bytes list \<Rightarrow> bytes \<Rightarrow> bytes option"
  create_account_ix :: "64 word \<Rightarrow> 64 word \<Rightarrow> bytes \<Rightarrow> bytes \<Rightarrow> bytes \<Rightarrow> sol_ix"
  sol_key_string :: "bytes \<Rightarrow> string"
  sol_resolve :: "sol_instruction \<Rightarrow> sol_message \<Rightarrow> account_meta list option"
  bpf_loader_id :: bytes
  sysvar_rent_id :: bytes
  sysvar_clock_id :: bytes
  system_program_id :: bytes
  sol_bin :: bin_lib

definition max_compute_budget :: "64 word" where
  "max_compute_budget = 10000000"

definition meta :: "bytes \<Rightarrow> bool \<Rightarrow> bool \<Rightarrow> account_meta" where
  "meta k writable signer = \<lparr>meta_key = k, meta_signer = signer, meta_writable = writable\<rparr>"

definition must_find_ata :: "sol_env \<Rightarrow> bytes \<Rightarrow> bytes \<Rightarrow> bytes \<Rightarrow> bytes \<Rightarrow> bytes res" where
  "must_find_ata S wallet token_program mint ata_program =
     of_option (Panic ''unable to find a valid program address'')
       (find_program_address S [wallet, token_program, mint] ata_program)"

definition cosmos_msg :: "sol_env \<Rightarrow> string list \<Rightarrow> sol_message \<Rightarrow> msg_transaction res" where
  "cosmos_msg S signers tx = to_cosmos_msg (sol_key_string S) (sol_resolve S) signers max_compute_budget tx"

definition create_init_accounts_msg ::
  "sol_env \<Rightarrow> string list \<Rightarrow> nat \<Rightarrow> bytes \<Rightarrow> bytes \<Rightarrow> bytes \<Rightarrow> msg_transaction res" where
  "create_init_accounts_msg S signers program_size owner program buffer =
     (let sz = of_nat program_size + 48;
          create_buffer = create_account_ix S (rent_exempt_lamports sz) sz (bpf_loader_id S) owner buffer;
          create_program = create_account_ix S (rent_exempt_lamports 36) 36 (bpf_loader_id S) owner program;
          init_buffer = \<lparr>six_program = bpf_loader_id S,
            six_metas = [meta buffer True True, meta owner True True], six_data = [0, 0, 0, 0]\<rparr> in
      (case build_tx S [create_buffer, create_program, init_buffer] of
         Inl _ \<Rightarrow> Inl (Panic ''build'')
       | Inr tx \<Rightarrow> cosmos_msg S signers tx))"

definition create_native_mint_ix :: "bytes \<Rightarrow> bytes \<Rightarrow> bytes \<Rightarrow> bytes \<Rightarrow> sol_ix" where
  "create_native_mint_ix token_2022 funding mint system =
     \<lparr>six_program = token_2022,
      six_metas = [meta funding True True, meta mint True False, meta system False False],
      six_data = [31]\<rparr>"

section \<open>CreateProgramUploadMsgs\<close>

definition write_ix :: "sol_env \<Rightarrow> bytes \<Rightarrow> bytes \<Rightarrow> nat \<Rightarrow> bytes \<Rightarrow> sol_ix" where
  "write_ix S owner buffer idx chunk =
     \<lparr>six_program = bpf_loader_id S, six_metas = [meta buffer True False, meta owner True True],
      six_data = marshal_write_buffer (sol_bin S) \<lparr>wb_offset = of_nat idx, wb_data = chunk\<rparr>\<rparr>"

definition deploy_ix :: "sol_env \<Rightarrow> bytes \<Rightarrow> bytes \<Rightarrow> bytes \<Rightarrow> bytes \<Rightarrow> nat \<Rightarrow> sol_ix" where
  "deploy_ix S owner executable program buffer program_size =
     \<lparr>six_program = bpf_loader_id S,
      six_metas = [meta owner True True, meta executable True False, meta program True False,
        meta buffer True False, meta (sysvar_rent_id S) False False,
        meta (sysvar_clock_id S) False False, meta (system_program_id S) False False,
        meta owner True True],
      six_data = marshal_deploy (sol_bin S) (of_nat program_size + 48)\<rparr>"

definition instruction_size :: nat where "instruction_size = 1200"
definition instructions_per_tx :: nat where "instructions_per_tx = 750"

definition build_msg :: "sol_env \<Rightarrow> string list \<Rightarrow> sol_ix list \<Rightarrow> msg_transaction res" where
  "build_msg S signers ixs =
     bind_res (wrap_err ''solana tx build err'' (build_tx S ixs)) (cosmos_msg S signers)"

text \<open>
  The loop: \<open>pending\<close> are the instructions in the builder, \<open>count\<close> is \<open>instructionCount\<close> and
  \<open>acc\<close> the messages so far; it returns the last two.
\<close>

function write_loop ::
  "sol_env \<Rightarrow> string list \<Rightarrow> bytes \<Rightarrow> bytes \<Rightarrow> bytes \<Rightarrow> nat \<Rightarrow> sol_ix list \<Rightarrow> nat \<Rightarrow>
   msg_transaction list \<Rightarrow> (sol_ix list \<times> msg_transaction list) res" where
  "write_loop S signers owner buffer program idx pending count acc =
     (if idx \<ge> length program then Inr (pending, acc)
      else
        let stop = (if idx + instruction_size > length program then length program
                   else idx + instruction_size);
            ix = write_ix S owner buffer idx (take (stop - idx) (drop idx program));
            pending' = pending @ [ix] in
        if count + 1 = instructions_per_tx then
          bind_res (build_msg S signers pending') (\<lambda>m.
            write_loop S signers owner buffer program stop [] 0 (acc @ [m]))
        else write_loop S signers owner buffer program stop pending' (count + 1) acc)"
  by pat_completeness auto
termination
  by (relation "measure (\<lambda>(S, signers, owner, buffer, program, idx, _). length program - idx)")
    (auto simp: instruction_size_def)

declare write_loop.simps [simp del]

definition create_program_upload_msgs ::
  "sol_env \<Rightarrow> string list \<Rightarrow> bytes \<Rightarrow> bytes \<Rightarrow> bytes \<Rightarrow> bytes \<Rightarrow> msg_transaction list res" where
  "create_program_upload_msgs S signers owner program_key buffer program =
     bind_res (write_loop S signers owner buffer program 0 [] 0 []) (\<lambda>(pending, acc).
     bind_res (of_option (Err ''unable to find a valid program address'')
       (find_program_address S [program_key] (bpf_loader_id S))) (\<lambda>executable.
     bind_res (build_tx S (pending @ [deploy_ix S owner executable program_key buffer (length program)])) (\<lambda>tx.
     bind_res (cosmos_msg S signers tx) (\<lambda>m. Inr (acc @ [m])))))"

section \<open>The writes of a program\<close>

text \<open>The specification: offsets and slices, one after the other.\<close>

function writes_from :: "bytes \<Rightarrow> nat \<Rightarrow> (nat \<times> bytes) list" where
  "writes_from program idx =
     (if idx \<ge> length program then []
      else (idx, take instruction_size (drop idx program)) # writes_from program (idx + instruction_size))"
  by pat_completeness auto
termination
  by (relation "measure (\<lambda>(program, idx). length program - idx)") (auto simp: instruction_size_def)

declare writes_from.simps [simp del]

abbreviation writes :: "bytes \<Rightarrow> (nat \<times> bytes) list" where
  "writes program \<equiv> writes_from program 0"

definition write_ixs :: "sol_env \<Rightarrow> bytes \<Rightarrow> bytes \<Rightarrow> (nat \<times> bytes) list \<Rightarrow> sol_ix list" where
  "write_ixs S owner buffer ws = map (\<lambda>(off, d). write_ix S owner buffer off d) ws"

definition apply_write :: "bytes \<Rightarrow> nat \<times> bytes \<Rightarrow> bytes" where
  "apply_write buf w = take (fst w) buf @ snd w @ drop (fst w + length (snd w)) buf"

lemma slice_end:
  "take ((if idx + n > length p then length p else idx + n) - idx) (drop idx p) = take n (drop idx p)"
  by simp

lemma writes_from_end:
  "writes_from p (if idx + instruction_size > length p then length p else idx + instruction_size) =
     writes_from p (idx + instruction_size)"
  by (simp add: writes_from.simps [of p "length p"] writes_from.simps [of p "idx + instruction_size"])

text \<open>
  The loop produces full groups of 750 instructions, turned into messages one by one, and a
  rest of less than 750.
\<close>

lemma write_loop_groups:
  assumes "write_loop S signers owner buffer p idx pending count acc = Inr (pending', acc')"
    and "count = length pending" and "count < instructions_per_tx"
  shows "\<exists>groups ms. acc' = acc @ ms \<and>
     list_all2 (\<lambda>g m. build_msg S signers g = Inr m) groups ms \<and>
     (\<forall>g \<in> set groups. length g = instructions_per_tx) \<and> length pending' < instructions_per_tx \<and>
     concat groups @ pending' = pending @ write_ixs S owner buffer (writes_from p idx)"
  using assms
proof (induction S signers owner buffer p idx pending count acc rule: write_loop.induct)
  case (1 S signers owner buffer p idx pending count acc)
  show ?case
  proof (cases "idx \<ge> length p")
    case True
    then show ?thesis
      using "1.prems" by (auto simp: write_loop.simps [of S] writes_from.simps [of p idx] write_ixs_def)
  next
    case False
    let ?stop = "if idx + instruction_size > length p then length p else idx + instruction_size"
    let ?ix = "write_ix S owner buffer idx (take (?stop - idx) (drop idx p))"
    have ws: "pending @ write_ixs S owner buffer (writes_from p idx) =
        (pending @ [?ix]) @ write_ixs S owner buffer (writes_from p ?stop)"
      using False by (simp add: writes_from.simps [of p idx] writes_from_end slice_end write_ixs_def)
    show ?thesis
    proof (cases "count + 1 = instructions_per_tx")
      case True
      with "1.prems" False obtain m where m: "build_msg S signers (pending @ [?ix]) = Inr m"
        and run: "write_loop S signers owner buffer p ?stop [] 0 (acc @ [m]) = Inr (pending', acc')"
        by (subst (asm) write_loop.simps) (auto simp: Let_def)
      have "0 < instructions_per_tx" by (simp add: instructions_per_tx_def)
      with "1.IH"(1) [OF False refl refl refl True m run] obtain groups ms where
        "acc' = (acc @ [m]) @ ms" "list_all2 (\<lambda>g m. build_msg S signers g = Inr m) groups ms"
        "\<forall>g \<in> set groups. length g = instructions_per_tx" "length pending' < instructions_per_tx"
        "concat groups @ pending' = write_ixs S owner buffer (writes_from p ?stop)"
        by auto
      moreover have "length (pending @ [?ix]) = instructions_per_tx"
        using True "1.prems"(2) by simp
      ultimately show ?thesis
        using m ws by (intro exI [of _ "(pending @ [?ix]) # groups"] exI [of _ "m # ms"]) simp
    next
      case count: False
      with "1.prems" False
      have run: "write_loop S signers owner buffer p ?stop (pending @ [?ix]) (count + 1) acc = Inr (pending', acc')"
        by (subst (asm) write_loop.simps) (auto simp: Let_def)
      have "count + 1 = length (pending @ [?ix])" "count + 1 < instructions_per_tx"
        using "1.prems"(2,3) count by auto
      from "1.IH"(2) [OF False refl refl refl count run this] show ?thesis
        unfolding ws .
    qed
  qed
qed

lemma length_writes_from: "length (writes_from p idx) = (length p - idx + 1199) div 1200"
proof (induction p idx rule: writes_from.induct)
  case (1 p idx)
  show ?case
  proof (cases "idx \<ge> length p")
    case False
    then have "length (writes_from p idx) = Suc ((length p - (idx + 1200) + 1199) div 1200)"
      using "1.IH" by (simp add: writes_from.simps [of p idx] instruction_size_def)
    also have "\<dots> = (length p - idx + 1199) div 1200"
      using False by (cases "idx + 1200 \<le> length p") (auto simp: div_nat_eqI le_div_geq)
    finally show ?thesis .
  qed (simp add: writes_from.simps [of p idx])
qed

text \<open>Replaying the writes on a buffer that is long enough puts the program at its front.\<close>

lemma apply_writes_from:
  "idx \<le> length p \<Longrightarrow> length p \<le> length buf \<Longrightarrow> take idx buf = take idx p \<Longrightarrow>
     foldl apply_write buf (writes_from p idx) = p @ drop (length p) buf"
proof (induction p idx arbitrary: buf rule: writes_from.induct)
  case (1 p idx)
  show ?case
  proof (cases "idx \<ge> length p")
    case True
    then show ?thesis
      using "1.prems" by (simp add: writes_from.simps [of p idx]) (metis append_take_drop_id le_antisym take_all_iff)
  next
    case False
    let ?d = "take instruction_size (drop idx p)"
    let ?buf = "apply_write buf (idx, ?d)"
    let ?stop = "idx + length ?d"
    have bound: "?stop \<le> length p" using False by simp
    have len: "length ?buf = length buf"
      using "1.prems" bound by (simp add: apply_write_def)
    have front_eq: "take ?stop ?buf = take ?stop p"
      using "1.prems" False by (simp add: apply_write_def take_add)
    have back_eq: "drop (length p) ?buf = drop (length p) buf"
      using "1.prems" bound by (simp add: apply_write_def)
    have step: "foldl apply_write buf (writes_from p idx) =
        foldl apply_write ?buf (writes_from p (idx + instruction_size))"
      using False by (simp add: writes_from.simps [of p idx])
    show ?thesis
    proof (cases "idx + instruction_size \<le> length p")
      case True
      then have "?stop = idx + instruction_size" by simp
      then show ?thesis
        using "1.IH" [OF False, of ?buf] True "1.prems" len front_eq back_eq step by simp
    next
      case last: False
      then have "writes_from p (idx + instruction_size) = []" "?stop = length p"
        using False by (simp_all add: writes_from.simps [of p "idx + instruction_size"])
      then show ?thesis
        using step front_eq back_eq by (metis append_take_drop_id foldl_Nil take_all_iff le_refl)
    qed
  qed
qed

lemma write_offset_bound: "w \<in> set (writes_from p idx) \<Longrightarrow> fst w < length p \<and> length (snd w) \<le> instruction_size"
  by (induction p idx rule: writes_from.induct)
    (subst (asm) (2) writes_from.simps, auto split: if_splits)

section \<open>From instructions to messages\<close>

text \<open>The documented behaviour of \<open>Build\<close>: the instructions of the message are those given, in order.\<close>

definition build_keeps_data :: "sol_env \<Rightarrow> bool" where
  "build_keeps_data S \<longleftrightarrow>
     (\<forall>ixs tx. build_tx S ixs = Inr tx \<longrightarrow> map sol_data (sol_instructions tx) = map six_data ixs)"

definition msg_data :: "msg_transaction \<Rightarrow> bytes list" where
  "msg_data m = map ix_data (mt_instructions m)"

lemma cosmos_msg_data:
  "cosmos_msg S signers tx = Inr m \<Longrightarrow> msg_data m = map sol_data (sol_instructions tx)"
proof -
  assume "cosmos_msg S signers tx = Inr m"
  then obtain ixs where "map_res (convert_instruction (sol_resolve S) tx) (sol_instructions tx) = Inr ixs"
    and m: "mt_instructions m = ixs"
    by (auto simp: cosmos_msg_def to_cosmos_msg_def)
  then have "list_all2 (\<lambda>x y. convert_instruction (sol_resolve S) tx x = Inr y) (sol_instructions tx) ixs"
    by (simp add: map_res_Inr_iff)
  then have "map ix_data ixs = map sol_data (sol_instructions tx)"
    by (induction rule: list_all2_induct) (auto simp: convert_instruction_def)
  with m show ?thesis by (simp add: msg_data_def)
qed

lemma cosmos_msg_signers: "cosmos_msg S signers tx = Inr m \<Longrightarrow> mt_signers m = signers"
  by (auto simp: cosmos_msg_def to_cosmos_msg_def)

lemma build_msg_data:
  "build_keeps_data S \<Longrightarrow> build_msg S signers g = Inr m \<Longrightarrow> msg_data m = map six_data g"
  by (auto simp: build_msg_def build_keeps_data_def dest: cosmos_msg_data)

lemma built_groups_data:
  assumes "build_keeps_data S" and "list_all2 (\<lambda>g m. build_msg S signers g = Inr m) groups ms"
  shows "concat (map msg_data ms) = map six_data (concat groups) \<and>
    map (\<lambda>m. length (mt_instructions m)) ms = map length groups"
  using assms(2)
proof (induction rule: list_all2_induct)
  case (Cons g groups m ms)
  then have "msg_data m = map six_data g" using build_msg_data [OF assms(1)] by blast
  then have "msg_data m = map six_data g" "length (mt_instructions m) = length g"
    by (simp_all add: msg_data_def) (metis length_map)
  with Cons show ?case by simp
qed simp

lemma upload_Inr:
  assumes "create_program_upload_msgs S signers owner program_key buffer p = Inr msgs"
    and "build_keeps_data S"
  shows "concat (map msg_data msgs) =
      map six_data (write_ixs S owner buffer (writes p)) @ [marshal_deploy (sol_bin S) (of_nat (length p) + 48)] \<and>
    length msgs = length (writes p) div instructions_per_tx + 1 \<and>
    (\<forall>m \<in> set msgs. length (mt_instructions m) \<le> instructions_per_tx \<and> mt_signers m = signers)"
proof -
  from assms(1) obtain pending acc executable tx m where
    loop: "write_loop S signers owner buffer p 0 [] 0 [] = Inr (pending, acc)"
    and tx: "build_tx S (pending @ [deploy_ix S owner executable program_key buffer (length p)]) = Inr tx"
    and m: "cosmos_msg S signers tx = Inr m" and msgs: "msgs = acc @ [m]"
    by (auto simp: create_program_upload_msgs_def)
  have "0 < instructions_per_tx" by (simp add: instructions_per_tx_def)
  with write_loop_groups [OF loop] obtain groups where
    built: "list_all2 (\<lambda>g m. build_msg S signers g = Inr m) groups acc"
    and full: "\<forall>g \<in> set groups. length g = instructions_per_tx"
    and rest: "length pending < instructions_per_tx"
    and all: "concat groups @ pending = write_ixs S owner buffer (writes p)"
    by auto
  have data_m: "msg_data m = map six_data pending @ [marshal_deploy (sol_bin S) (of_nat (length p) + 48)]"
    using cosmos_msg_data [OF m] tx assms(2) by (simp add: build_keeps_data_def deploy_ix_def)
  have "length (mt_instructions m) = Suc (length pending)"
    using data_m by (metis length_append_singleton length_map msg_data_def)
  moreover note acc_data = built_groups_data [OF assms(2) built]
  moreover have "length (mt_instructions a) = instructions_per_tx" if "a \<in> set acc" for a
  proof -
    from that have "length (mt_instructions a) \<in> set (map (\<lambda>m. length (mt_instructions m)) acc)" by simp
    also have "\<dots> = set (map length groups)" using acc_data by simp
    finally show ?thesis using full by auto
  qed
  moreover have "mt_signers a = signers" if "a \<in> set acc" for a
    using built that by (auto simp: list_all2_conv_all_nth in_set_conv_nth build_msg_def
        dest!: cosmos_msg_signers)
  moreover have "length (writes p) = instructions_per_tx * length groups + length pending"
  proof -
    have "length (concat groups) = instructions_per_tx * length groups"
      using full by (induction groups) auto
    moreover have "length (writes p) = length (concat groups @ pending)"
      by (simp only: all) (simp add: write_ixs_def)
    ultimately show ?thesis by simp
  qed
  then have "length (writes p) div instructions_per_tx = length acc"
    using rest list_all2_lengthD [OF built] by simp
  ultimately show ?thesis
    using msgs data_m rest all [symmetric] cosmos_msg_signers [OF m]
    by auto
qed

lemma read_writes:
  assumes "bin_ok (sol_bin S)" and "\<forall>w \<in> set ws. fst w < 2 ^ 32 \<and> length (snd w) < 2 ^ 64"
  shows "map_res (\<lambda>d. bind_res (read_write_buffer (sol_bin S) d) (\<lambda>(w, _). Inr w))
      (map six_data (write_ixs S owner buffer ws)) =
    Inr (map (\<lambda>(off, d). \<lparr>wb_offset = of_nat off, wb_data = d\<rparr>) ws)"
  using assms(2)
proof (induction ws)
  case (Cons w ws)
  have "bin_library (sol_bin S)" using assms(1) by unfold_locales
  from bin_library.write_buffer_round_trip [OF this,
      of "\<lparr>wb_offset = of_nat (fst w), wb_data = snd w\<rparr>" "[]"] Cons
  show ?case by (simp add: write_ixs_def write_ix_def split_beta)
qed (simp add: write_ixs_def)

section \<open>Properties\<close>

text \<open>
  C18. The messages of \<open>CreateProgramUploadMsgs\<close> carry exactly the writes of the program, in
  order, followed by the deploy instruction for the program's size plus 48; there is one
  message per 750 writes and a last one, none with more than 750 instructions, all with the
  given signers.
\<close>

theorem upload_messages_carry_the_writes:
  assumes "create_program_upload_msgs S signers owner program_key buffer p = Inr msgs"
    and "build_keeps_data S"
  shows "concat (map msg_data msgs) =
      map six_data (write_ixs S owner buffer (writes p)) @ [marshal_deploy (sol_bin S) (of_nat (length p) + 48)] \<and>
    length msgs = (length p + 1199) div 1200 div 750 + 1 \<and>
    (\<forall>m \<in> set msgs. length (mt_instructions m) \<le> 750 \<and> mt_signers m = signers)"
  using upload_Inr [OF assms] by (simp add: length_writes_from instructions_per_tx_def)

definition sample_sol_env :: sol_env where
  "sample_sol_env =
     \<lparr>build_tx = (\<lambda>ixs. Inr \<lparr>account_keys = [[1]], sol_instructions =
          map (\<lambda>ix. \<lparr>program_id_index = 0, account_indices = [], sol_data = six_data ix\<rparr>) ixs\<rparr>),
      find_program_address = (\<lambda>seeds prog. Some (concat seeds)),
      create_account_ix = (\<lambda>lamports space owner funding new.
          \<lparr>six_program = [], six_metas = [], six_data = put_le lamports @ put_le space\<rparr>),
      sol_key_string = hex_encode, sol_resolve = (\<lambda>_ _. Some []), bpf_loader_id = [2],
      sysvar_rent_id = [3], sysvar_clock_id = [4], system_program_id = [5], sol_bin = le_lib\<rparr>"

lemma sample_keeps_data: "build_keeps_data sample_sol_env"
  by (auto simp: build_keeps_data_def sample_sol_env_def)

lemma sample_upload:
  "is_ok (create_program_upload_msgs sample_sol_env [''lux1a''] [7] [8] [9] [10, 11, 12])"
proof -
  let ?ix = "write_ix sample_sol_env [7] [9] 0 [10, 11, 12]"
  have "write_loop sample_sol_env [''lux1a''] [7] [9] [10, 11, 12] 3 [?ix] 1 [] = Inr ([?ix], [])"
    by (subst write_loop.simps) simp
  then have "write_loop sample_sol_env [''lux1a''] [7] [9] [10, 11, 12] 0 [] 0 [] = Inr ([?ix], [])"
    by (subst write_loop.simps) (simp add: Let_def instruction_size_def instructions_per_tx_def numeral_3_eq_3)
  then show ?thesis
    by (simp add: create_program_upload_msgs_def)
      (simp add: sample_sol_env_def cosmos_msg_def to_cosmos_msg_def convert_instruction_def)
qed

lemma upload_messages_carry_the_writes_witness:
  "\<exists>msgs. create_program_upload_msgs sample_sol_env [''lux1a''] [7] [8] [9] [10, 11, 12] = Inr msgs \<and>
     length msgs = 1"
proof -
  obtain msgs where msgs: "create_program_upload_msgs sample_sol_env [''lux1a''] [7] [8] [9] [10, 11, 12] = Inr msgs"
    using sample_upload by (auto simp: is_ok_iff)
  from upload_messages_carry_the_writes [OF this sample_keeps_data] msgs show ?thesis by simp
qed

text \<open>
  C19. Uploading is correct: reading the write instructions of the messages and applying them in
  order to any buffer at least as long as the program leaves the program at its front and the
  rest as it was.  The program must be shorter than 4 GiB, as the offset is written as a
  \<open>uint32\<close>.
\<close>

theorem replaying_the_upload_rebuilds_the_program:
  assumes "create_program_upload_msgs S signers owner program_key buffer p = Inr msgs"
    and "build_keeps_data S" and "bin_ok (sol_bin S)"
    and "length p < 2 ^ 32" and "length p \<le> length buf"
  shows "\<exists>ws. map_res (\<lambda>d. bind_res (read_write_buffer (sol_bin S) d) (\<lambda>(w, _). Inr w))
        (butlast (concat (map msg_data msgs))) = Inr ws \<and>
     foldl (\<lambda>buf w. apply_write buf (unat (wb_offset w), wb_data w)) buf ws = p @ drop (length p) buf"
proof -
  let ?ws = "map (\<lambda>(off, d). \<lparr>wb_offset = (of_nat off :: 32 word), wb_data = d\<rparr>) (writes p)"
  have bound: "fst w < 2 ^ 32 \<and> length (snd w) < 2 ^ 64" if "w \<in> set (writes p)" for w
    using write_offset_bound [OF that] assms(4) by (simp add: instruction_size_def)
  then have read: "map_res (\<lambda>d. bind_res (read_write_buffer (sol_bin S) d) (\<lambda>(w, _). Inr w))
      (butlast (concat (map msg_data msgs))) = Inr ?ws"
    using read_writes [OF assms(3)] upload_Inr [OF assms(1,2)] by simp
  have "map (\<lambda>w. (unat (wb_offset w), wb_data w)) ?ws = writes p"
    using bound by (auto simp: unat_of_nat_small intro!: map_idI)
  then have "foldl apply_write buf (writes p) =
      foldl apply_write buf (map (\<lambda>w. (unat (wb_offset w), wb_data w)) ?ws)"
    by (rule arg_cong [OF sym])
  then have "foldl (\<lambda>buf w. apply_write buf (unat (wb_offset w), wb_data w)) buf ?ws =
      foldl apply_write buf (writes p)"
    unfolding foldl_map by (rule sym)
  also have "\<dots> = p @ drop (length p) buf"
    using apply_writes_from [of 0 p buf] assms(5) by simp
  finally show ?thesis using read by blast
qed

lemma replaying_the_upload_rebuilds_the_program_witness:
  "\<exists>ws :: write_buffer list.
     foldl (\<lambda>buf w. apply_write buf (unat (wb_offset w), wb_data w)) [0, 0, 0, 5] ws = [10, 11, 12, 5]"
proof -
  obtain msgs where "create_program_upload_msgs sample_sol_env [''lux1a''] [7] [8] [9] [10, 11, 12] = Inr msgs"
    using sample_upload by (auto simp: is_ok_iff)
  from replaying_the_upload_rebuilds_the_program [OF this sample_keeps_data, of "[0, 0, 0, 5]"]
  show ?thesis by (auto simp: sample_sol_env_def bin_ok_le_lib)
qed

end
