(* ===== verification/Chain_Client.thy ===== *)
theory Chain_Client
  imports Cosmos_Base Byte_Codec
begin

text \<open>
  The chain client's broadcasting (\<open>client/chain/chain.go\<close>): the nonce it keeps, the transaction
  factory, simulation, signing, broadcasting with one retry on a sequence mismatch, and the wait
  for inclusion.  The node and the SDK's transaction functions are the fields of \<open>node_env\<close>;
  what the client changes of itself is a \<open>client\<close> record, the state of the chain a value of any
  type.
\<close>

section \<open>The client, the factory and the node\<close>

record factory =
  f_account_number :: "64 word"
  f_sequence :: "64 word"
  f_gas :: "64 word"
  f_timeout_height :: "64 word"

record client =
  c_acc_num :: "64 word"
  c_acc_seq :: "64 word"
  c_gas_wanted :: "64 word"
  c_factory :: factory
  c_can_sign :: bool
  c_from_address :: bytes
  c_gas_prices :: string

record tx_response =
  r_code :: "32 word"
  r_hash :: string
  r_height :: int
  r_gas_used :: "64 word"

text \<open>
  \<open>ensure_exists\<close> and \<open>number_sequence\<close> are the account retriever; \<open>build_sim_tx\<close>,
  \<open>build_unsigned_tx\<close>, \<open>sign_tx\<close> and \<open>encode_tx\<close> the SDK's; \<open>simulate_tx\<close> the node's gas estimate and
  message responses; \<open>adjust_gas\<close> is \<open>uint64(GasAdjustment * float64(gas))\<close>; \<open>broadcast\<close> is
  \<open>BroadcastTx\<close> in sync mode, which changes the chain; \<open>polls\<close> are the answers of \<open>GetTx\<close> before the
  deadline, one for each tick of the timer, and the chain after them.
\<close>

record ('m, 's) node_env =
  ensure_exists :: "'s \<Rightarrow> unit res"
  number_sequence :: "'s \<Rightarrow> (64 word \<times> 64 word) res"
  build_sim_tx :: "factory \<Rightarrow> 'm list \<Rightarrow> bytes res"
  simulate_tx :: "'s \<Rightarrow> bytes \<Rightarrow> (64 word \<times> bytes list) res"
  adjust_gas :: "64 word \<Rightarrow> 64 word"
  build_unsigned_tx :: "factory \<Rightarrow> 'm list \<Rightarrow> bytes res"
  sign_tx :: "factory \<Rightarrow> bytes \<Rightarrow> bytes res"
  encode_tx :: "bytes \<Rightarrow> bytes res"
  broadcast :: "'s \<Rightarrow> bytes \<Rightarrow> tx_response res \<times> 's"
  polls :: "'s \<Rightarrow> string \<Rightarrow> tx_response res list \<times> 's"
  ctx_simulate :: bool

section \<open>Factory and nonce\<close>

definition prepare_factory :: "('m, 's) node_env \<Rightarrow> 's \<Rightarrow> factory \<Rightarrow> factory res" where
  "prepare_factory E w f =
     bind_res (ensure_exists E w) (\<lambda>_.
     if f_account_number f = 0 \<or> f_sequence f = 0 then
       bind_res (number_sequence E w) (\<lambda>(num, seq).
         let f1 = (if f_account_number f = 0 then f\<lparr>f_account_number := num\<rparr> else f) in
         Inr (if f_sequence f = 0 then f1\<lparr>f_sequence := seq\<rparr> else f1))
     else Inr f)"

text \<open>\<open>syncNonce\<close>: an error is only logged; a changed account number panics.\<close>

definition sync_nonce :: "('m, 's) node_env \<Rightarrow> 's \<Rightarrow> client \<Rightarrow> client res" where
  "sync_nonce E w c =
     (case number_sequence E w of
        Inl (Panic s) \<Rightarrow> Inl (Panic s)
      | Inl (Err _) \<Rightarrow> Inr c
      | Inr (num, seq) \<Rightarrow>
          if num \<noteq> c_acc_num c then Inl (Panic ''account number changed during nonce sync'')
          else Inr (c\<lparr>c_acc_seq := seq\<rparr>))"

definition load_nonce :: "client \<Rightarrow> client" where
  "load_nonce c =
     c\<lparr>c_factory := (c_factory c)\<lparr>f_sequence := c_acc_seq c, f_account_number := c_acc_num c\<rparr>\<rparr>"

definition get_acc_nonce :: "client \<Rightarrow> 64 word \<times> 64 word" where
  "get_acc_nonce c = (c_acc_num c, c_acc_seq c)"

text \<open>\<open>getAccSeq\<close> returns the sequence and increments it afterwards.\<close>

definition get_acc_seq :: "client \<Rightarrow> 64 word \<times> client" where
  "get_acc_seq c = (c_acc_seq c, c\<lparr>c_acc_seq := c_acc_seq c + 1\<rparr>)"

definition from_address :: "client \<Rightarrow> bytes" where
  "from_address c = (if c_can_sign c then c_from_address c else [])"

text \<open>
  One round of \<open>syncTimeoutHeight\<close>.  \<open>WithTimeoutHeight\<close> returns a new factory, which the source
  drops.
\<close>

definition with_timeout_height :: "factory \<Rightarrow> 64 word \<Rightarrow> factory" where
  "with_timeout_height f h = f\<lparr>f_timeout_height := h\<rparr>"

definition sync_timeout_height :: "client \<Rightarrow> 64 word \<Rightarrow> client" where
  "sync_timeout_height c status_height =
     (let _ = with_timeout_height (c_factory c) (status_height + 20) in c)"

section \<open>Broadcasting\<close>

text \<open>The wait for inclusion: the first poll that finds the transaction in a block, or a timeout.\<close>

fun await_tx :: "tx_response res list \<Rightarrow> tx_response res" where
  "await_tx [] = Inl (Err ''tx timed out'')"
| "await_tx (p # ps) =
     (case p of
        Inl (Panic s) \<Rightarrow> Inl (Panic s)
      | Inl (Err _) \<Rightarrow> await_tx ps
      | Inr r \<Rightarrow> if r_height r > 0 then Inr r else await_tx ps)"

definition send_and_await ::
  "('m, 's) node_env \<Rightarrow> bool \<Rightarrow> 's \<Rightarrow> bytes \<Rightarrow> tx_response res \<times> 's" where
  "send_and_await E await w tx_bytes =
     (case broadcast E w tx_bytes of
        (Inl e, w') \<Rightarrow> (Inl e, w')
      | (Inr r, w') \<Rightarrow>
          if r_code r \<noteq> 0 \<or> \<not> await then (Inr r, w')
          else (case polls E w' (r_hash r) of (ps, w'') \<Rightarrow> (await_tx ps, w'')))"

definition sync_broadcast_signed_tx :: "('m, 's) node_env \<Rightarrow> 's \<Rightarrow> bytes \<Rightarrow> tx_response res \<times> 's" where
  "sync_broadcast_signed_tx E w tx_bytes = send_and_await E True w tx_bytes"

definition async_broadcast_signed_tx :: "('m, 's) node_env \<Rightarrow> 's \<Rightarrow> bytes \<Rightarrow> tx_response res \<times> 's" where
  "async_broadcast_signed_tx E w tx_bytes = broadcast E w tx_bytes"

definition simulate_signed_tx :: "('m, 's) node_env \<Rightarrow> 's \<Rightarrow> bytes \<Rightarrow> (64 word \<times> bytes list) res" where
  "simulate_signed_tx E w tx_bytes = simulate_tx E w tx_bytes"

text \<open>Build, sign and encode; the first component of \<open>simulated_factory\<close> is the gas estimate, if any.\<close>

definition simulated_factory ::
  "('m, 's) node_env \<Rightarrow> 's \<Rightarrow> factory \<Rightarrow> 'm list \<Rightarrow> (64 word option \<times> factory) res" where
  "simulated_factory E w f msgs =
     (if \<not> ctx_simulate E then Inr (None, f)
      else
        bind_res (wrap_err ''failed to build sim tx bytes'' (build_sim_tx E f msgs)) (\<lambda>sim.
        bind_res (wrap_err ''failed to CalculateGas'' (simulate_tx E w sim)) (\<lambda>(gas_used, _).
          Inr (Some (adjust_gas E gas_used), f\<lparr>f_gas := adjust_gas E gas_used\<rparr>))))"

definition sign_and_encode :: "('m, 's) node_env \<Rightarrow> factory \<Rightarrow> 'm list \<Rightarrow> bytes res" where
  "sign_and_encode E f msgs =
     bind_res (wrap_err ''failed to BuildUnsignedTx'' (build_unsigned_tx E f msgs)) (\<lambda>txn.
     bind_res (wrap_err ''failed to Sign Tx'' (sign_tx E f txn)) (\<lambda>signed.
       wrap_err ''failed TxEncoder to encode Tx'' (encode_tx E signed)))"

definition record_gas :: "64 word option \<Rightarrow> client \<Rightarrow> client" where
  "record_gas g c = (case g of None \<Rightarrow> c | Some x \<Rightarrow> c\<lparr>c_gas_wanted := x\<rparr>)"

text \<open>\<open>broadcastTx\<close>: the result, the client (whose \<open>gasWanted\<close> it sets) and the chain.\<close>

definition broadcast_tx ::
  "('m, 's) node_env \<Rightarrow> bool \<Rightarrow> client \<Rightarrow> 's \<Rightarrow> 'm list \<Rightarrow> tx_response res \<times> client \<times> 's" where
  "broadcast_tx E await c w msgs =
     (case wrap_err ''failed to prepareFactory'' (prepare_factory E w (c_factory c)) of
        Inl e \<Rightarrow> (Inl e, c, w)
      | Inr f \<Rightarrow>
          (case simulated_factory E w f msgs of
             Inl e \<Rightarrow> (Inl e, c, w)
           | Inr (gas, f') \<Rightarrow>
               let c' = record_gas gas c in
               (case sign_and_encode E f' msgs of
                  Inl e \<Rightarrow> (Inl e, c', w)
                | Inr tx_bytes \<Rightarrow>
                    (case send_and_await E await w tx_bytes of (r, w') \<Rightarrow> (r, c', w')))))"

definition is_mismatch :: "fault \<Rightarrow> bool" where
  "is_mismatch e = (case e of Err s \<Rightarrow> contains_str s ''account sequence mismatch'' | Panic _ \<Rightarrow> False)"

text \<open>
  The common body of \<open>SyncBroadcastMsg\<close>, \<open>AsyncBroadcastMsg\<close> and \<open>submitBatch\<close>: load the nonce,
  broadcast, and once more after a sync of the nonce when the error is a sequence mismatch.
\<close>

definition broadcast_retry ::
  "('m, 's) node_env \<Rightarrow> bool \<Rightarrow> client \<Rightarrow> 's \<Rightarrow> 'm list \<Rightarrow> tx_response res \<times> client \<times> 's" where
  "broadcast_retry E await c w msgs =
     (case broadcast_tx E await (load_nonce c) w msgs of
        (Inr r, c', w') \<Rightarrow> (Inr r, c'\<lparr>c_acc_seq := c_acc_seq c' + 1\<rparr>, w')
      | (Inl e, c', w') \<Rightarrow>
          if \<not> is_mismatch e then (Inl e, c', w')
          else
            (case sync_nonce E w' c' of
               Inl e' \<Rightarrow> (Inl e', c', w')
             | Inr c'' \<Rightarrow>
                 (case broadcast_tx E await (load_nonce c'') w' msgs of
                    (Inr r, c3, w3) \<Rightarrow> (Inr r, c3\<lparr>c_acc_seq := c_acc_seq c3 + 1\<rparr>, w3)
                  | (Inl e2, c3, w3) \<Rightarrow> (Inl e2, c3, w3))))"

definition sync_broadcast_msg ::
  "('m, 's) node_env \<Rightarrow> client \<Rightarrow> 's \<Rightarrow> 'm list \<Rightarrow> tx_response res \<times> client \<times> 's" where
  "sync_broadcast_msg E c w msgs = broadcast_retry E True c w msgs"

definition async_broadcast_msg ::
  "('m, 's) node_env \<Rightarrow> client \<Rightarrow> 's \<Rightarrow> 'm list \<Rightarrow> tx_response res \<times> client \<times> 's" where
  "async_broadcast_msg E c w msgs = broadcast_retry E False c w msgs"

text \<open>\<open>submitBatch\<close> of \<open>runBatchBroadcast\<close>; the flag says whether \<open>Broadcasted\<close> was signalled.\<close>

definition submit_batch ::
  "('m, 's) node_env \<Rightarrow> client \<Rightarrow> 's \<Rightarrow> 'm list \<Rightarrow> bool \<times> client \<times> 's" where
  "submit_batch E c w msgs =
     (case broadcast_retry E True c w msgs of (r, c', w') \<Rightarrow> (is_ok r, c', w'))"

definition simulate_msg ::
  "('m, 's) node_env \<Rightarrow> client \<Rightarrow> 's \<Rightarrow> 'm list \<Rightarrow> (64 word \<times> bytes list) res \<times> client" where
  "simulate_msg E c w msgs =
     (let c' = load_nonce c in
      (bind_res (wrap_err ''failed to prepareFactory'' (prepare_factory E w (c_factory c'))) (\<lambda>f.
       bind_res (wrap_err ''failed to build sim tx bytes'' (build_sim_tx E f msgs)) (\<lambda>sim.
         wrap_err ''failed to CalculateGas'' (simulate_tx E w sim))), c'))"

text \<open>\<open>BuildSignedTx\<close>, on a fresh factory, returns the signed transaction (not encoded).\<close>

definition build_signed_tx ::
  "('m, 's) node_env \<Rightarrow> client \<Rightarrow> 's \<Rightarrow> 64 word \<Rightarrow> 64 word \<Rightarrow> 64 word \<Rightarrow> 'm list \<Rightarrow> bytes res \<times> client" where
  "build_signed_tx E c w num seq initial_gas msgs =
     (let f = \<lparr>f_account_number = num, f_sequence = seq, f_gas = initial_gas, f_timeout_height = 0\<rparr> in
      case simulated_factory E w f msgs of
        Inl e \<Rightarrow> (Inl e, c)
      | Inr (gas, f') \<Rightarrow>
          (bind_res (wrap_err ''failed to prepareFactory'' (prepare_factory E w f')) (\<lambda>f''.
           bind_res (wrap_err ''failed to BuildUnsignedTx'' (build_unsigned_tx E f'' msgs)) (\<lambda>txn.
             wrap_err ''failed to Sign Tx'' (sign_tx E f'' txn))), record_gas gas c))"

section \<open>SVM messages\<close>

text \<open>
  \<open>SyncBroadcastSvmMsg\<close>: \<open>set_budget\<close> writes the compute budget into the message, \<open>units\<close> reads
  \<open>UnitConsumed\<close> from the first message response (a panic when it cannot be read, or when there
  is none).
\<close>

definition sync_broadcast_svm_msg ::
  "('m, 's) node_env \<Rightarrow> ('m \<Rightarrow> 64 word \<Rightarrow> 'm) \<Rightarrow> (bytes \<Rightarrow> 64 word option) \<Rightarrow> client \<Rightarrow> 's \<Rightarrow> 'm \<Rightarrow>
   tx_response res \<times> client \<times> 's" where
  "sync_broadcast_svm_msg E set_budget units c w msg =
     (let c1 = load_nonce c in
      case bind_res (wrap_err ''failed to prepareFactory'' (prepare_factory E w (c_factory c1))) (\<lambda>f.
           bind_res (wrap_err ''failed to build sim tx bytes'' (build_sim_tx E f [msg])) (\<lambda>sim.
           bind_res (wrap_err ''failed to CalculateGas'' (simulate_tx E w sim)) (\<lambda>(gas_used, resps).
           bind_res (index_at resps 0) (\<lambda>resp.
           bind_res (of_option (Panic ''proto unmarshal'') (units resp)) (\<lambda>u.
             Inr (f\<lparr>f_gas := adjust_gas E gas_used\<rparr>, u))))))
      of Inl e \<Rightarrow> (Inl e, c1, w)
       | Inr (f', u) \<Rightarrow>
           let c2 = c1\<lparr>c_gas_wanted := f_gas f'\<rparr> in
           (case sign_and_encode E f' [set_budget msg (u * 2)] of
              Inl e \<Rightarrow> (Inl e, c2, w)
            | Inr tx_bytes \<Rightarrow> (case broadcast E w tx_bytes of (r, w') \<Rightarrow> (r, c2, w'))))"

text \<open>
  \<open>GetSVMAccountLink\<close> over the answer of the \<open>AccountLink\<close> query: an error with the text
  \<open>account link not found\<close> means not linked; \<open>public_key\<close> is solana's \<open>PublicKeyFromBytes\<close>.
\<close>

definition get_svm_account_link :: "(bytes \<Rightarrow> bytes) \<Rightarrow> bytes res \<Rightarrow> (bool \<times> bytes) res" where
  "get_svm_account_link public_key resp =
     (case resp of
        Inl (Err s) \<Rightarrow>
          if contains_str s ''account link not found'' then Inr (False, replicate 32 0) else Inl (Err s)
      | Inl (Panic s) \<Rightarrow> Inl (Panic s)
      | Inr svm_addr \<Rightarrow> Inr (True, public_key svm_addr))"

section \<open>Helper lemmas\<close>

lemma load_nonce_simps [simp]:
  "c_acc_seq (load_nonce c) = c_acc_seq c" "c_acc_num (load_nonce c) = c_acc_num c"
  "f_sequence (c_factory (load_nonce c)) = c_acc_seq c"
  "f_account_number (c_factory (load_nonce c)) = c_acc_num c"
  by (simp_all add: load_nonce_def)

lemma record_gas_simps [simp]:
  "c_acc_seq (record_gas g c) = c_acc_seq c" "c_acc_num (record_gas g c) = c_acc_num c"
  by (simp_all add: record_gas_def split: option.splits)

lemma broadcast_tx_nonce:
  "broadcast_tx E await c w msgs = (r, c', w') \<Longrightarrow>
     c_acc_seq c' = c_acc_seq c \<and> c_acc_num c' = c_acc_num c"
  by (auto simp: broadcast_tx_def Let_def split: sum.splits prod.splits)

lemma sync_nonce_Inr:
  assumes "sync_nonce E w c = Inr c'"
  shows "c_acc_num c' = c_acc_num c \<and>
    (c_acc_seq c' = c_acc_seq c \<or> number_sequence E w = Inr (c_acc_num c, c_acc_seq c'))"
  using assms by (auto simp: sync_nonce_def split: sum.splits fault.splits if_splits)

text \<open>A prepared factory with a non-zero nonce is the factory itself.\<close>

lemma prepare_factory_nonzero:
  "prepare_factory E w f = Inr f' \<Longrightarrow> f_account_number f \<noteq> 0 \<Longrightarrow> f_sequence f \<noteq> 0 \<Longrightarrow> f' = f"
  by (auto simp: prepare_factory_def)

lemma simulated_factory_nonce:
  "simulated_factory E w f msgs = Inr (g, f') \<Longrightarrow>
     f_sequence f' = f_sequence f \<and> f_account_number f' = f_account_number f"
  by (auto simp: simulated_factory_def split: if_splits)

lemma await_tx_Inr: "await_tx ps = Inr r \<Longrightarrow> Inr r \<in> set ps \<and> 0 < r_height r"
  by (induction ps rule: await_tx.induct) (auto split: sum.splits fault.splits if_splits)

lemma await_tx_first:
  assumes "await_tx ps = Inr r"
  shows "\<exists>before after. ps = before @ Inr r # after \<and> 0 < r_height r \<and>
    (\<forall>p \<in> set before. case p of Inr q \<Rightarrow> r_height q \<le> 0 | Inl _ \<Rightarrow> True)"
  using assms
proof (induction ps rule: await_tx.induct)
  case (2 p ps)
  show ?case
  proof (cases "p = Inr r \<and> 0 < r_height r")
    case True
    then show ?thesis by (intro exI [of _ "[]"] exI [of _ ps]) simp
  next
    case False
    then have skip: "case p of Inr q \<Rightarrow> r_height q \<le> 0 | Inl _ \<Rightarrow> True" and "await_tx ps = Inr r"
      using "2.prems" by (auto split: sum.splits fault.splits if_splits)
    then have "\<exists>before after. ps = before @ Inr r # after \<and> 0 < r_height r \<and>
        (\<forall>p \<in> set before. case p of Inr q \<Rightarrow> r_height q \<le> 0 | Inl _ \<Rightarrow> True)"
      using "2.IH" "2.prems" by (cases p) (auto split: fault.splits if_splits)
    then obtain before after where "ps = before @ Inr r # after" "0 < r_height r"
      "\<forall>p \<in> set before. case p of Inr q \<Rightarrow> r_height q \<le> 0 | Inl _ \<Rightarrow> True"
      by blast
    with skip show ?thesis by (intro exI [of _ "p # before"] exI [of _ after]) simp
  qed
qed simp

text \<open>An SVM broadcast never advances the sequence, so the next broadcast reuses it.\<close>

lemma svm_broadcast_keeps_sequence:
  "sync_broadcast_svm_msg E set_budget units c w msg = (r, c', w') \<Longrightarrow> c_acc_seq c' = c_acc_seq c"
  by (auto simp: sync_broadcast_svm_msg_def Let_def split: sum.splits prod.splits)

text \<open>The height of a status never reaches the factory.\<close>

lemma timeout_height_is_dropped:
  "f_timeout_height (c_factory (sync_timeout_height c h)) = f_timeout_height (c_factory c)"
  by (simp add: sync_timeout_height_def)

section \<open>The nonce of a broadcast\<close>

text \<open>
  What \<open>prepareFactory\<close> makes of a value of the nonce: a value of zero counts as not set and is
  replaced by what the account retriever answers.
\<close>

definition filled_from_chain ::
  "(64 word \<times> 64 word) res \<Rightarrow> 64 word \<Rightarrow> 64 word \<Rightarrow> 64 word \<Rightarrow> 64 word \<Rightarrow> bool" where
  "filled_from_chain answer num seq used_num used_seq \<longleftrightarrow>
     (if num = 0 \<or> seq = 0
      then (\<exists>n q. answer = Inr (n, q) \<and> used_num = (if num = 0 then n else num) \<and>
              used_seq = (if seq = 0 then q else seq))
      else used_num = num \<and> used_seq = seq)"

text \<open>
  An answered broadcast on a chain in the state \<open>w\<close> signed the messages with the sequence \<open>used\<close>:
  the one it was given, or the chain's where that is zero.
\<close>

definition sent_with ::
  "('m, 's) node_env \<Rightarrow> bool \<Rightarrow> 'm list \<Rightarrow> 64 word \<Rightarrow> 64 word \<Rightarrow> 64 word \<Rightarrow> tx_response \<Rightarrow> bool" where
  "sent_with E await msgs num seq used x \<longleftrightarrow>
     (\<exists>f b w w'. sign_and_encode E f msgs = Inr b \<and> send_and_await E await w b = (Inr x, w') \<and>
        f_sequence f = used \<and>
        filled_from_chain (number_sequence E w) num seq (f_account_number f) used)"

lemma sent_with_nonzero: "sent_with E await msgs num seq used x \<Longrightarrow> seq \<noteq> 0 \<Longrightarrow> used = seq"
  by (auto simp: sent_with_def filled_from_chain_def split: if_splits)

lemma prepare_factory_fills:
  "prepare_factory E w f = Inr f' \<Longrightarrow>
     filled_from_chain (number_sequence E w) (f_account_number f) (f_sequence f)
       (f_account_number f') (f_sequence f')"
  by (auto simp: prepare_factory_def filled_from_chain_def Let_def split: if_splits)

lemma broadcast_tx_Inr:
  assumes "broadcast_tx E await (load_nonce c) w msgs = (Inr x, c', w')"
  shows "\<exists>used. sent_with E await msgs (c_acc_num c) (c_acc_seq c) used x \<and>
    (c_acc_seq c \<noteq> 0 \<longrightarrow> c_acc_seq c = used)"
proof -
  from assms obtain f g f' b where
    "prepare_factory E w (c_factory (load_nonce c)) = Inr f"
    "simulated_factory E w f msgs = Inr (g, f')"
    "sign_and_encode E f' msgs = Inr b" "send_and_await E await w b = (Inr x, w')"
    by (auto simp: broadcast_tx_def Let_def split: sum.splits prod.splits)
  moreover from this prepare_factory_fills [OF this(1)] simulated_factory_nonce [OF this(2)]
  have "filled_from_chain (number_sequence E w) (c_acc_num c) (c_acc_seq c)
      (f_account_number f') (f_sequence f')"
    by simp
  ultimately have "sent_with E await msgs (c_acc_num c) (c_acc_seq c) (f_sequence f') x"
    unfolding sent_with_def by blast
  then show ?thesis using sent_with_nonzero by metis
qed

definition chain_nonce :: "('m, 's) node_env \<Rightarrow> client \<Rightarrow> 64 word \<Rightarrow> bool" where
  "chain_nonce E c s \<longleftrightarrow> s = c_acc_seq c \<or> (\<exists>w. number_sequence E w = Inr (c_acc_num c, s))"


section \<open>Against a chain that checks sequences\<close>

lemma await_tx_no_mismatch: "await_tx ps = Inl e \<Longrightarrow> \<not> is_mismatch e"
proof (induction ps rule: await_tx.induct)
  case 1
  have "\<not> contains_str ''tx timed out'' ''account sequence mismatch''" by code_simp
  then show ?case using 1 by (auto simp: is_mismatch_def)
qed (auto simp: is_mismatch_def split: sum.splits fault.splits if_splits)

text \<open>
  What a Cosmos chain documents of \<open>BroadcastTx\<close> in sync mode, for the client's own account:
  \<open>chain_seq\<close> is the account's sequence on the chain, \<open>tx_seq\<close> the one a signed transaction
  carries.  A transaction with another sequence is answered with a non-zero code, not with an
  error; only an accepted one increments the sequence.  The client signs with the sequence of the factory, and
  no error of the transport mentions a mismatch.
\<close>

definition checks_sequence ::
  "('m, 's) node_env \<Rightarrow> ('s \<Rightarrow> 64 word) \<Rightarrow> (bytes \<Rightarrow> 64 word) \<Rightarrow> bool" where
  "checks_sequence E chain_seq tx_seq \<longleftrightarrow>
     (\<forall>w b r w'. broadcast E w b = (Inr r, w') \<longrightarrow>
        chain_seq w' = (if r_code r = 0 then chain_seq w + 1 else chain_seq w) \<and>
        (tx_seq b \<noteq> chain_seq w \<longrightarrow> r_code r \<noteq> 0)) \<and>
     (\<forall>w b e w'. broadcast E w b = (Inl e, w') \<longrightarrow> chain_seq w' = chain_seq w \<and> \<not> is_mismatch e) \<and>
     (\<forall>w h ps w'. polls E w h = (ps, w') \<longrightarrow> chain_seq w' = chain_seq w) \<and>
     (\<forall>f msgs. \<exists>b. sign_and_encode E f msgs = Inr b \<and> tx_seq b = f_sequence f) \<and>
     (\<forall>w. ensure_exists E w = Inr ())"

text \<open>One broadcast with a set nonce: the transaction that went out and the answer.\<close>

lemma broadcast_tx_sent:
  assumes "checks_sequence E chain_seq tx_seq" and "\<not> ctx_simulate E"
    and "c_acc_num c \<noteq> 0" and "c_acc_seq c \<noteq> 0"
    and "broadcast_tx E await (load_nonce c) w msgs = (r, c', w')"
  shows "\<exists>b. tx_seq b = c_acc_seq c \<and> send_and_await E await w b = (r, w') \<and> c' = load_nonce c"
proof -
  have "prepare_factory E w (c_factory (load_nonce c)) = Inr (c_factory (load_nonce c))"
    using assms(1,3,4) by (simp add: prepare_factory_def checks_sequence_def)
  moreover obtain b where "sign_and_encode E (c_factory (load_nonce c)) msgs = Inr b"
    "tx_seq b = c_acc_seq c"
    using assms(1) by (metis checks_sequence_def load_nonce_simps(3))
  ultimately show ?thesis
    using assms(2,5)
    by (auto simp: broadcast_tx_def simulated_factory_def record_gas_def split: prod.splits)
qed

lemma sent_ahead:
  assumes "checks_sequence E chain_seq tx_seq" and "tx_seq b \<noteq> chain_seq w"
    and "send_and_await E await w b = (r, w')"
  shows "chain_seq w' = chain_seq w \<and> (case r of Inl e \<Rightarrow> \<not> is_mismatch e | Inr x \<Rightarrow> r_code x \<noteq> 0)"
  using assms
  by (auto simp: send_and_await_def checks_sequence_def split: prod.splits sum.splits if_splits)

definition client_ahead :: "('s \<Rightarrow> 64 word) \<Rightarrow> client \<Rightarrow> 's \<Rightarrow> bool" where
  "client_ahead chain_seq c w \<longleftrightarrow> unat (chain_seq w) < unat (c_acc_seq c)"

lemma ahead_stays_ahead:
  assumes chk: "checks_sequence E chain_seq tx_seq" and sim: "\<not> ctx_simulate E"
    and num: "c_acc_num c \<noteq> 0" and ahead: "client_ahead chain_seq c w"
    and room: "unat (c_acc_seq c) + 1 < 2 ^ 64"
    and run: "broadcast_retry E await c w msgs = (r, c', w')"
  shows "client_ahead chain_seq c' w' \<and> c_acc_num c' = c_acc_num c \<and> chain_seq w' = chain_seq w \<and>
    unat (c_acc_seq c') \<le> unat (c_acc_seq c) + 1 \<and> (\<forall>x. r = Inr x \<longrightarrow> r_code x \<noteq> 0)"
proof -
  have seq: "c_acc_seq c \<noteq> 0" using ahead by (auto simp: client_ahead_def)
  obtain r1 c1 w1 where first: "broadcast_tx E await (load_nonce c) w msgs = (r1, c1, w1)"
    by (cases "broadcast_tx E await (load_nonce c) w msgs") auto
  from broadcast_tx_sent [OF chk sim num seq first] obtain b where b: "tx_seq b = c_acc_seq c"
    "send_and_await E await w b = (r1, w1)" and c1: "c1 = load_nonce c"
    by blast
  have "tx_seq b \<noteq> chain_seq w" using b(1) ahead by (auto simp: client_ahead_def)
  from sent_ahead [OF chk this b(2)] have w1: "chain_seq w1 = chain_seq w"
    and res: "case r1 of Inl e \<Rightarrow> \<not> is_mismatch e | Inr x \<Rightarrow> r_code x \<noteq> 0"
    by auto
  have plus: "unat (c_acc_seq c + 1) = unat (c_acc_seq c) + 1"
    using room by (simp add: unat_add_lem [THEN iffD1])
  show ?thesis
  proof (cases r1)
    case (Inl e)
    then have "r = Inl e" "c' = c1" "w' = w1"
      using run first res by (auto simp: broadcast_retry_def)
    then show ?thesis using c1 w1 ahead by (simp add: client_ahead_def)
  next
    case (Inr x)
    then have "r = Inr x" "c' = c1\<lparr>c_acc_seq := c_acc_seq c1 + 1\<rparr>" "w' = w1"
      using run first by (auto simp: broadcast_retry_def)
    then show ?thesis using c1 w1 ahead res plus Inr by (simp add: client_ahead_def)
  qed
qed

text \<open>A sequence of calls to \<open>SyncBroadcastMsg\<close> and \<open>AsyncBroadcastMsg\<close>, and their results.\<close>

fun broadcast_all ::
  "('m, 's) node_env \<Rightarrow> client \<Rightarrow> 's \<Rightarrow> (bool \<times> 'm list) list \<Rightarrow> tx_response res list \<times> client \<times> 's" where
  "broadcast_all E c w [] = ([], c, w)"
| "broadcast_all E c w ((sync, msgs) # calls) =
     (case (if sync then sync_broadcast_msg E c w msgs else async_broadcast_msg E c w msgs) of
        (r, c', w') \<Rightarrow>
          (case broadcast_all E c' w' calls of (rs, c'', w'') \<Rightarrow> (r # rs, c'', w'')))"

lemma ahead_never_accepted:
  assumes "checks_sequence E chain_seq tx_seq" and "\<not> ctx_simulate E"
  shows "c_acc_num c \<noteq> 0 \<Longrightarrow> client_ahead chain_seq c w \<Longrightarrow>
    unat (c_acc_seq c) + length calls < 2 ^ 64 \<Longrightarrow> broadcast_all E c w calls = (rs, c', w') \<Longrightarrow>
    chain_seq w' = chain_seq w \<and> (\<forall>x. Inr x \<in> set rs \<longrightarrow> r_code x \<noteq> 0)"
proof (induction calls arbitrary: c w rs c' w')
  case (Cons call calls)
  obtain sync msgs where call: "call = (sync, msgs)" by (cases call)
  obtain r1 c1 w1 where first: "broadcast_retry E sync c w msgs = (r1, c1, w1)"
    by (cases "broadcast_retry E sync c w msgs") auto
  obtain rs1 c2 w2 where rest: "broadcast_all E c1 w1 calls = (rs1, c2, w2)"
    by (cases "broadcast_all E c1 w1 calls") auto
  have eq: "rs = r1 # rs1" "w' = w2" "c' = c2"
    using Cons.prems(4) call first rest
    by (cases sync; auto simp: sync_broadcast_msg_def async_broadcast_msg_def)+
  from ahead_stays_ahead [OF assms Cons.prems(1,2) _ first] Cons.prems(3)
  have step: "client_ahead chain_seq c1 w1" "c_acc_num c1 = c_acc_num c" "chain_seq w1 = chain_seq w"
    "unat (c_acc_seq c1) \<le> unat (c_acc_seq c) + 1" "\<forall>x. r1 = Inr x \<longrightarrow> r_code x \<noteq> 0"
    by auto
  have "chain_seq w2 = chain_seq w1 \<and> (\<forall>x. Inr x \<in> set rs1 \<longrightarrow> r_code x \<noteq> 0)"
    using Cons.IH [OF _ step(1) _ rest] step Cons.prems(1,3) by auto
  then show ?case using eq step by auto
qed simp

text \<open>
  C21. One rejection leaves the client stuck.  Without simulation, take a client whose sequence is
  the chain's and a broadcast that is answered but that the chain did not take (\<open>CheckTx\<close>
  returned a non-zero code, for instance for a lack of funds).  The client increments its
  sequence all the same, is one ahead of the chain, and from then on no call of any sequence of
  \<open>SyncBroadcastMsg\<close> and \<open>AsyncBroadcastMsg\<close> is accepted: a mismatch answered by \<open>CheckTx\<close> is a code
  and not an error, so the resync is never reached.
\<close>

theorem one_rejection_leaves_the_client_stuck:
  assumes "checks_sequence E chain_seq tx_seq" and "\<not> ctx_simulate E"
    and "c_acc_num c \<noteq> 0" and "c_acc_seq c \<noteq> 0" and "c_acc_seq c = chain_seq w"
    and "broadcast_retry E await c w msgs = (Inr x, c1, w1)" and "chain_seq w1 = chain_seq w"
    and "unat (c_acc_seq c) + 1 + length calls < 2 ^ 64"
    and "broadcast_all E c1 w1 calls = (rs, c2, w2)"
  shows "chain_seq w2 = chain_seq w \<and> (\<forall>y. Inr y \<in> set rs \<longrightarrow> r_code y \<noteq> 0)"
proof -
  obtain r d v where first: "broadcast_tx E await (load_nonce c) w msgs = (r, d, v)"
    by (cases "broadcast_tx E await (load_nonce c) w msgs") auto
  from broadcast_tx_sent [OF assms(1-4) first] obtain b where
    sent: "send_and_await E await w b = (r, v)" and d: "d = load_nonce c" by blast
  have "\<not> is_mismatch e" if "r = Inl e" for e
    using assms(1) sent that await_tx_no_mismatch
    by (auto simp: send_and_await_def checks_sequence_def split: prod.splits sum.splits if_splits)
  then have c1: "c1 = d\<lparr>c_acc_seq := c_acc_seq d + 1\<rparr>" 
    using assms(6) first by (auto simp: broadcast_retry_def split: sum.splits if_splits)
  have plus: "unat (c_acc_seq c + 1) = unat (c_acc_seq c) + 1"
    using assms(8) by (simp add: unat_add_lem [THEN iffD1])
  have "client_ahead chain_seq c1 w1" "c_acc_num c1 \<noteq> 0"
    using c1 d plus assms(3,5,7) by (simp_all add: client_ahead_def)
  moreover have "unat (c_acc_seq c1) + length calls < 2 ^ 64"
    using c1 d plus assms(8) by simp
  ultimately have "chain_seq w2 = chain_seq w1 \<and> (\<forall>y. Inr y \<in> set rs \<longrightarrow> r_code y \<noteq> 0)"
    using ahead_never_accepted [OF assms(1,2) _ _ _ assms(9)] by blast
  with assms(7) show ?thesis by simp
qed

section \<open>A concrete node\<close>

text \<open>
  The chain's state is the account's sequence, a transaction the sequence and the messages, and
  the message 255 is one that \<open>CheckTx\<close> refuses.
\<close>

definition demo_seq :: "bytes \<Rightarrow> 64 word" where
  "demo_seq b = of_nat (nat_of_le (take 8 b))"

definition demo_node :: "(8 word, 64 word) node_env" where
  "demo_node =
     \<lparr>ensure_exists = (\<lambda>_. Inr ()), number_sequence = (\<lambda>w. Inr (7, w)),
      build_sim_tx = (\<lambda>_ m. Inr m), simulate_tx = (\<lambda>_ _. Inr (100, [])), adjust_gas = (\<lambda>g. g),
      build_unsigned_tx = (\<lambda>f m. Inr (put_le (f_sequence f) @ m)), sign_tx = (\<lambda>_ b. Inr b),
      encode_tx = (\<lambda>b. Inr b),
      broadcast = (\<lambda>w b.
        let code = (if demo_seq b \<noteq> w then 32 else if 255 \<in> set (drop 8 b) then 5 else 0) in
        (Inr \<lparr>r_code = code, r_hash = [], r_height = 0, r_gas_used = 0\<rparr>, if code = 0 then w + 1 else w)),
      polls = (\<lambda>w _. ([Inr \<lparr>r_code = 0, r_hash = [], r_height = 5, r_gas_used = 0\<rparr>], w)),
      ctx_simulate = False\<rparr>"

definition demo_client :: client where
  "demo_client =
     \<lparr>c_acc_num = 7, c_acc_seq = 3, c_gas_wanted = 0,
      c_factory = \<lparr>f_account_number = 0, f_sequence = 0, f_gas = 0, f_timeout_height = 0\<rparr>,
      c_can_sign = True, c_from_address = [], c_gas_prices = []\<rparr>"

lemma demo_seq_put [simp]: "demo_seq (put_le (x :: 64 word) @ m) = x"
  using u64.round_trip [of x m] by (simp add: demo_seq_def get_le_def split: if_splits)

lemma length_put [simp]: "length (put_le (x :: 64 word)) = 8"
  by (simp add: put_le_def)

lemma demo_node_checks_sequence: "checks_sequence demo_node (\<lambda>w. w) demo_seq"
  by (auto simp: checks_sequence_def demo_node_def sign_and_encode_def Let_def split: if_splits)

lemma demo_rejects: "broadcast_retry demo_node False demo_client 3 [255] =
    (Inr \<lparr>r_code = 5, r_hash = [], r_height = 0, r_gas_used = 0\<rparr>,
     (load_nonce demo_client)\<lparr>c_acc_seq := 4\<rparr>, 3)"
  by (simp add: broadcast_retry_def broadcast_tx_def prepare_factory_def simulated_factory_def
      sign_and_encode_def send_and_await_def record_gas_def load_nonce_def demo_node_def
      demo_client_def Let_def)

lemma demo_accepts: "broadcast_retry demo_node True demo_client 3 [1, 2] =
    (Inr \<lparr>r_code = 0, r_hash = [], r_height = 5, r_gas_used = 0\<rparr>,
     (load_nonce demo_client)\<lparr>c_acc_seq := 4\<rparr>, 4)"
  by (simp add: broadcast_retry_def broadcast_tx_def prepare_factory_def simulated_factory_def
      sign_and_encode_def send_and_await_def record_gas_def load_nonce_def demo_node_def
      demo_client_def Let_def)

text \<open>
  A client whose sequence is still zero, on a chain where its account is at 3 (another client used
  the key): the transaction goes out with 3 and is accepted, and the client then holds 1, not 4.
\<close>

lemma zero_sequence_loses_the_chains:
  "broadcast_retry demo_node True (demo_client\<lparr>c_acc_seq := 0\<rparr>) 3 [1] =
    (Inr \<lparr>r_code = 0, r_hash = [], r_height = 5, r_gas_used = 0\<rparr>,
     (load_nonce (demo_client\<lparr>c_acc_seq := 0\<rparr>))\<lparr>c_acc_seq := 1\<rparr>, 4)"
  by (simp add: broadcast_retry_def broadcast_tx_def prepare_factory_def simulated_factory_def
      sign_and_encode_def send_and_await_def record_gas_def load_nonce_def demo_node_def
      demo_client_def Let_def)


theorem one_rejection_leaves_the_client_stuck_witness:
  "case broadcast_all demo_node ((load_nonce demo_client)\<lparr>c_acc_seq := 4\<rparr>) 3 [(True, [1]), (False, [2])]
   of (rs, c2, w2) \<Rightarrow> w2 = 3 \<and> (\<forall>y. Inr y \<in> set rs \<longrightarrow> r_code y \<noteq> 0)"
proof -
  obtain rs c2 w2 where rest: "broadcast_all demo_node ((load_nonce demo_client)\<lparr>c_acc_seq := 4\<rparr>) 3
      [(True, [1]), (False, [2])] = (rs, c2, w2)"
    by (metis prod_cases3)
  show ?thesis
    using one_rejection_leaves_the_client_stuck [OF demo_node_checks_sequence _ _ _ _ demo_rejects _ _ rest]
    unfolding rest by (simp add: demo_node_def demo_client_def)
qed

end
