(* ===== verification/Anchor_Codec.thy ===== *)
theory Anchor_Codec
  imports Svm_Types Byte_Codec
begin

text \<open>
  What the client bindings of the Solana programs share (\<open>client/svm/drift\<close>, \<open>drift_pyth\<close>,
  \<open>raydium_cp_swap\<close>): a struct written as its fields in order and read back into an object field by
  field, optional pointers, accounts behind a discriminator, the account slots of an instruction, and
  instruction data behind a type id.  The encoder writes to memory, where a write does not fail.
\<close>

section \<open>Structs as sequences of fields\<close>

text \<open>\<open>MarshalWithEncoder\<close>: the fields one after the other.\<close>

definition enc_all :: "('o \<Rightarrow> bytes) list \<Rightarrow> 'o \<Rightarrow> bytes" where
  "enc_all es x = concat (map (\<lambda>e. e x) es)"

text \<open>The same where a field can fail (a nil pointer).\<close>

fun enc_seq :: "bytes res list \<Rightarrow> bytes res" where
  "enc_seq [] = Inr []"
| "enc_seq (e # es) = bind_res e (\<lambda>b. bind_res (enc_seq es) (\<lambda>bs. Inr (b @ bs)))"

text \<open>
  \<open>UnmarshalWithDecoder\<close> updates an object: a reader takes the object as it is and the input, and
  gives the updated object and the rest.  The first error ends it.
\<close>

type_synonym 'o reader = "'o \<times> bytes \<Rightarrow> ('o \<times> bytes) res"

fun dec_all :: "'o reader list \<Rightarrow> 'o reader" where
  "dec_all [] s = Inr s"
| "dec_all (d # ds) s = bind_res (d s) (dec_all ds)"

text \<open>\<open>decoder.Decode(&obj.F)\<close> for a value, and for a field whose type reads into what is there.\<close>

fun get_field :: "(bytes \<Rightarrow> ('a \<times> bytes) res) \<Rightarrow> (('a \<Rightarrow> 'a) \<Rightarrow> 'o \<Rightarrow> 'o) \<Rightarrow> 'o reader" where
  "get_field get upd (x, bs) = bind_res (get bs) (\<lambda>(v, r). Inr (upd (\<lambda>_. v) x, r))"

fun sub_field :: "'a reader \<Rightarrow> ('o \<Rightarrow> 'a) \<Rightarrow> (('a \<Rightarrow> 'a) \<Rightarrow> 'o \<Rightarrow> 'o) \<Rightarrow> 'o reader" where
  "sub_field rd sel upd (x, bs) = bind_res (rd (sel x, bs)) (\<lambda>(v, r). Inr (upd (\<lambda>_. v) x, r))"

text \<open>A value read where nothing of the old one matters; a fixed array, element by element.\<close>

fun prim :: "(bytes \<Rightarrow> ('a \<times> bytes) res) \<Rightarrow> 'a reader" where
  "prim get (_, bs) = get bs"

fun read_each :: "'a reader \<Rightarrow> 'a list reader" where
  "read_each rd ([], bs) = Inr ([], bs)"
| "read_each rd (y # ys, bs) =
     bind_res (rd (y, bs)) (\<lambda>(x, r). bind_res (read_each rd (ys, r)) (\<lambda>(xs, r'). Inr (x # xs, r')))"

definition put_array :: "('a \<Rightarrow> bytes) \<Rightarrow> 'a list \<Rightarrow> bytes" where
  "put_array put xs = concat (map put xs)"

text \<open>
  A pointer: a nil one is given a zero value to read into.  An optional one is read only when the boolean
  in front of it is true, and is otherwise left as it is.
\<close>

fun read_ptr :: "'a \<Rightarrow> 'a reader \<Rightarrow> 'a option reader" where
  "read_ptr zero rd (p, bs) =
     bind_res (rd (case p of None \<Rightarrow> zero | Some v \<Rightarrow> v, bs)) (\<lambda>(v, r). Inr (Some v, r))"

definition read_opt :: "bin_lib \<Rightarrow> 'a option reader \<Rightarrow> 'a option reader" where
  "read_opt L rd = (\<lambda>(p, bs).
     bind_res (get_bool L bs) (\<lambda>(ok, r). if ok then rd (p, r) else Inr (p, r)))"

text \<open>A parameter is a pointer: \<open>nil\<close> is what the library does with a nil one.\<close>

definition put_param :: "bytes res \<Rightarrow> ('a \<Rightarrow> bytes) \<Rightarrow> 'a option \<Rightarrow> bytes res" where
  "put_param nil put x = (case x of None \<Rightarrow> nil | Some y \<Rightarrow> Inr (put y))"

lemma put_param_Some [simp]: "put_param nil put (Some y) = Inr (put y)"
  by (simp add: put_param_def)

lemma enc_all_simps [simp]:
  "enc_all [] x = []"
  "enc_all (e # es) x = e x @ enc_all es x"
  by (simp_all add: enc_all_def)

lemma read_each_put [simp]:
  assumes "length ys = length xs"
    and "\<And>x y r. x \<in> set xs \<Longrightarrow> y \<in> set ys \<Longrightarrow> rd (y, put x @ r) = Inr (x, r)"
  shows "read_each rd (ys, put_array put xs @ r) = Inr (xs, r)"
  using assms
proof (induction xs arbitrary: ys)
  case (Cons x xs)
  then obtain y ys' where "ys = y # ys'" by (cases ys) auto
  with Cons show ?case by (simp add: put_array_def)
qed (simp add: put_array_def)

lemma put_opt_simps [simp]:
  "put_opt L put None = put_bool L False"
  "put_opt L put (Some v) = put_bool L True @ put v"
  by (simp_all add: put_opt_def)

text \<open>
  An optional pointer that was written as nil is left as the object has it, so it is read back when the
  object had none, or when there is one to read.
\<close>

context bin_library
begin

lemma read_opt_keeps:
  assumes "\<And>v r. p = Some v \<Longrightarrow> rd (old, put v @ r) = Inr (Some v, r)"
  shows "read_opt L rd (old, put_opt L put p @ r) = Inr (case p of None \<Rightarrow> old | Some v \<Rightarrow> Some v, r)"
  using assms by (cases p) (simp_all add: read_opt_def)

lemma read_opt_rt [simp]:
  assumes "p = None \<Longrightarrow> old = None"
    and "\<And>v r. p = Some v \<Longrightarrow> rd (old, put v @ r) = Inr (Some v, r)"
  shows "read_opt L rd (old, put_opt L put p @ r) = Inr (p, r)"
  using assms by (cases p) (simp_all add: read_opt_def)

end

section \<open>Enumerations\<close>

text \<open>The names of a \<open>BorshEnum\<close>, a byte, in the order of its constants; an unknown value has none.\<close>

definition enum_name :: "string list \<Rightarrow> nat \<Rightarrow> string" where
  "enum_name names v = (if v < length names then names ! v else [])"

lemma enum_name_inject:
  assumes "distinct names" and "[] \<notin> set names" and "enum_name names v = enum_name names w"
    and "v < length names"
  shows "v = w"
  using assms by (auto simp: enum_name_def nth_eq_iff_index_eq in_set_conv_nth split: if_splits)

section \<open>Accounts behind a discriminator\<close>

definition check_discriminator :: "bytes \<Rightarrow> 'o reader" where
  "check_discriminator d = (\<lambda>(x, bs). bind_res (get_raw 8 bs) (\<lambda>(t, r).
     if t = d then Inr (x, r) else Inl (Err ''wrong discriminator'')))"

lemma check_discriminator_append:
  "length t = 8 \<Longrightarrow> check_discriminator d (x, t @ bs) =
     (if t = d then Inr (x, bs) else Inl (Err ''wrong discriminator''))"
  by (simp add: check_discriminator_def)

lemma read_needs_discriminator:
  "dec_all (check_discriminator d # ds) (y, bs) = Inr z \<Longrightarrow> take 8 bs = d"
  by (auto simp: check_discriminator_def get_raw_def bind_res_Inr_iff split: if_splits)

lemma check_discriminator_short: "length bs < 8 \<Longrightarrow> check_discriminator d (x, bs) = Inl (Err ''EOF'')"
  by (simp add: check_discriminator_def get_raw_def)

locale account_codec =
  fixes disc :: bytes and enc :: "'a \<Rightarrow> bytes" and rd :: "'a reader" and wf :: "'a \<Rightarrow> bool"
  assumes disc_length: "length disc = 8"
    and rejects: "length t = 8 \<Longrightarrow> t \<noteq> disc \<Longrightarrow> rd (y, t @ bs) = Inl (Err ''wrong discriminator'')"
    and starts: "\<exists>b. enc x = disc @ b"
    and reads: "wf x \<Longrightarrow> wf y \<Longrightarrow> rd (y, enc x @ r) = Inr (x, r)"
begin

lemma unique_account:
  assumes "wf x" and "wf y" and "enc x @ r = enc y @ s"
  shows "x = y \<and> r = s"
proof -
  have "(Inr (x, r) :: ('a \<times> bytes) res) = Inr (y, s)"
    using reads [OF assms(1,2), of r] reads [OF assms(2,2), of s] assms(3) by metis
  then show ?thesis by simp
qed

text \<open>Bytes that are read are those of an account of this kind only if they carry its discriminator.\<close>

lemma read_has_disc:
  assumes "rd (y, bs) = Inr (x, r)" and "8 \<le> length bs"
  shows "take 8 bs = disc"
proof (rule ccontr)
  assume "take 8 bs \<noteq> disc"
  with rejects [of "take 8 bs" y "drop 8 bs"] assms show False by simp
qed

end

section \<open>Account slots of an instruction\<close>

lemma first_error_append [simp]:
  "first_error (cs @ ds) = Inr () \<longleftrightarrow> first_error cs = Inr () \<and> first_error ds = Inr ()"
  by (auto simp: first_error_ok_iff)

text \<open>
  An instruction keeps its accounts in a slice of a fixed length.  A slot has the name its setter,
  its getter and its check use and the flags its setter gives; \<open>Meta(key)\<close> has none.
\<close>

record slot =
  slot_name :: string
  slot_writable :: bool
  slot_signer :: bool

definition slot_ro :: "string \<Rightarrow> slot" where
  "slot_ro n = \<lparr>slot_name = n, slot_writable = False, slot_signer = False\<rparr>"
definition slot_rw :: "string \<Rightarrow> slot" where
  "slot_rw n = \<lparr>slot_name = n, slot_writable = True, slot_signer = False\<rparr>"
definition slot_ro_sign :: "string \<Rightarrow> slot" where
  "slot_ro_sign n = \<lparr>slot_name = n, slot_writable = False, slot_signer = True\<rparr>"
definition slot_rw_sign :: "string \<Rightarrow> slot" where
  "slot_rw_sign n = \<lparr>slot_name = n, slot_writable = True, slot_signer = True\<rparr>"

definition slot_meta :: "slot \<Rightarrow> bytes \<Rightarrow> account_meta" where
  "slot_meta s k = \<lparr>meta_key = k, meta_signer = slot_signer s, meta_writable = slot_writable s\<rparr>"

text \<open>\<open>slice[i] = x\<close>, and \<open>AccountMetaSlice.Get\<close>, which is nil out of range.\<close>

definition set_slot :: "nat \<Rightarrow> 'a \<Rightarrow> 'a list \<Rightarrow> 'a list res" where
  "set_slot i x xs = (if i < length xs then Inr (xs[i := x]) else Inl (Panic ''index out of range''))"

type_synonym metas = "account_meta option list"

definition set_account :: "slot list \<Rightarrow> nat \<Rightarrow> bytes \<Rightarrow> metas \<Rightarrow> metas res" where
  "set_account sl i k as = set_slot i (Some (slot_meta (sl ! i) k)) as"

definition get_account :: "nat \<Rightarrow> metas \<Rightarrow> account_meta option" where
  "get_account i as = (if i < length as then as ! i else None)"

text \<open>The setters in the order of the slots, and the check of each slot by \<open>Validate\<close>.\<close>

fun set_accounts_from :: "slot list \<Rightarrow> nat \<Rightarrow> bytes list \<Rightarrow> metas \<Rightarrow> metas res" where
  "set_accounts_from sl i [] as = Inr as"
| "set_accounts_from sl i (k # ks) as = bind_res (set_account sl i k as) (set_accounts_from sl (Suc i) ks)"

fun slot_checks :: "slot list \<Rightarrow> nat \<Rightarrow> metas \<Rightarrow> unit res list" where
  "slot_checks [] i as = []"
| "slot_checks (s # sl) i as =
     bind_res (index_at as i) (\<lambda>a. fail_if (a = None) (''accounts.'' @ slot_name s @ '' is not set'')) #
     slot_checks sl (Suc i) as"

lemma set_then_get:
  assumes "set_account sl i k as = Inr as'"
  shows "get_account i as' = Some (slot_meta (sl ! i) k)" and "j \<noteq> i \<Longrightarrow> get_account j as' = get_account j as"
  using assms by (auto simp: set_account_def set_slot_def get_account_def split: if_splits)

lemma set_accounts_from_Inr:
  assumes "i + length ks \<le> length as"
  shows "set_accounts_from sl i ks as =
    Inr (take i as @ map2 (\<lambda>j k. Some (slot_meta (sl ! j) k)) [i..<i + length ks] ks @ drop (i + length ks) as)"
  using assms
proof (induction ks arbitrary: i as)
  case (Cons k ks)
  have "set_account sl i k as = Inr (as[i := Some (slot_meta (sl ! i) k)])"
    using Cons.prems by (simp add: set_account_def set_slot_def)
  moreover have "[i..<i + length (k # ks)] = i # [Suc i..<Suc i + length ks]"
    by (simp add: upt_conv_Cons del: upt_Suc)
  ultimately show ?case
    using Cons by (simp add: take_Suc_conv_app_nth drop_update_cancel take_update_cancel del: upt_Suc)
qed simp

text \<open>The constructor of an instruction fills every slot, with the flags of the slot.\<close>

lemma filled_slots:
  assumes "length ks = length sl"
  shows "set_accounts_from sl 0 ks (replicate (length sl) None) =
    Inr (map2 (\<lambda>s k. Some (slot_meta s k)) sl ks)"
proof -
  have "map2 (\<lambda>j k. Some (slot_meta (sl ! j) k)) [0..<length ks] ks = map2 (\<lambda>s k. Some (slot_meta s k)) sl ks"
    using assms by (intro nth_equalityI) simp_all
  then show ?thesis using assms by (simp add: set_accounts_from_Inr)
qed

lemma slot_checks_ok:
  "first_error (slot_checks sl i as) = Inr () \<longleftrightarrow>
     (\<forall>j < length sl. i + j < length as \<and> as ! (i + j) \<noteq> None)"
proof (induction sl arbitrary: i)
  case (Cons s sl)
  have "(\<forall>j < length (s # sl). i + j < length as \<and> as ! (i + j) \<noteq> None) \<longleftrightarrow>
      (i < length as \<and> as ! i \<noteq> None) \<and> (\<forall>j < length sl. Suc i + j < length as \<and> as ! (Suc i + j) \<noteq> None)"
    by (simp add: All_less_Suc2)
  moreover have "first_error (slot_checks (s # sl) i as) = Inr () \<longleftrightarrow>
      (i < length as \<and> as ! i \<noteq> None) \<and> first_error (slot_checks sl (Suc i) as) = Inr ()"
    by (auto simp: first_error_simps bind_res_Inr_iff index_at_def split: if_splits)
  ultimately show ?case using Cons by simp
qed (simp add: first_error_ok_iff)

lemma filled_slots_pass [simp]:
  "length ks = length sl \<Longrightarrow> first_error (slot_checks sl 0 (map2 (\<lambda>s k. Some (slot_meta s k)) sl ks)) = Inr ()"
  by (simp add: slot_checks_ok)

lemma filled_slots_replicate [simp]:
  "length ks = length sl \<Longrightarrow> length sl = n \<Longrightarrow>
     set_accounts_from sl 0 ks (replicate n None) = Inr (map2 (\<lambda>s k. Some (slot_meta s k)) sl ks)"
  using filled_slots by blast

declare set_accounts_from.simps [simp del] slot_checks.simps [simp del]

text \<open>The keys an instruction needs a signature of.\<close>

definition required_signers :: "metas \<Rightarrow> bytes list" where
  "required_signers as = [meta_key m. Some m \<leftarrow> as, meta_signer m]"

lemma required_signers_simps [simp]:
  "required_signers [] = []"
  "required_signers (Some m # as) = (if meta_signer m then [meta_key m] else []) @ required_signers as"
  "required_signers (None # as) = required_signers as"
  by (simp_all add: required_signers_def)

lemma slot_meta_sels [simp]:
  "meta_key (slot_meta s k) = k" "meta_signer (slot_meta s k) = slot_signer s"
  "meta_writable (slot_meta s k) = slot_writable s"
  by (simp_all add: slot_meta_def)

lemma slot_signer_simps [simp]:
  "\<not> slot_signer (slot_ro n)" "\<not> slot_signer (slot_rw n)"
  "slot_signer (slot_ro_sign n)" "slot_signer (slot_rw_sign n)"
  by (simp_all add: slot_ro_def slot_rw_def slot_ro_sign_def slot_rw_sign_def)

section \<open>Instruction data\<close>

text \<open>
  The library's \<open>UnmarshalBinaryVariant\<close> with Anchor type ids: eight bytes, and the first variant of the
  table whose name has this discriminator; \<open>sighash\<close> is the library's discriminator of a name.
\<close>

definition read_variant :: "(string \<Rightarrow> bytes) \<Rightarrow> (string \<times> (bytes \<Rightarrow> 'i res)) list \<Rightarrow> bytes \<Rightarrow> 'i res" where
  "read_variant sighash table bs =
     bind_res (get_raw 8 bs) (\<lambda>(tid, r).
       case find (\<lambda>(name, _). sighash name = tid) table of
         None \<Rightarrow> Inl (Err ''no known type'')
       | Some (_, un) \<Rightarrow> un r)"

lemma read_variant_append:
  "length t = 8 \<Longrightarrow> read_variant sighash table (t @ bs) =
     (case find (\<lambda>(name, _). sighash name = t) table of
        None \<Rightarrow> Inl (Err ''no known type'') | Some (_, un) \<Rightarrow> un bs)"
  by (simp add: read_variant_def)

text \<open>A variant keeps what was read and drops the rest of the input.\<close>

definition map_fst_res :: "('a \<Rightarrow> 'b) \<Rightarrow> ('a \<times> bytes) res \<Rightarrow> 'b res" where
  "map_fst_res f m = bind_res m (\<lambda>(x, _). Inr (f x))"

lemma map_fst_res_Inr [simp]: "map_fst_res f (Inr (x, r)) = Inr (f x)"
  by (simp add: map_fst_res_def)

text \<open>
  What a program's bindings promise: the type id of an instruction has eight bytes and is the
  discriminator of a variant of the table, and what the variant reads is what the instruction wrote.  The
  accounts of an instruction are not part of its data (\<open>strip\<close>).
\<close>

locale anchor_program =
  fixes sighash :: "string \<Rightarrow> bytes" and table :: "(string \<times> (bytes \<Rightarrow> 'i res)) list"
    and type_id :: "'i \<Rightarrow> bytes" and impl :: "'i \<Rightarrow> bytes res" and strip :: "'i \<Rightarrow> 'i"
    and valid :: "'i \<Rightarrow> bool"
  assumes id_length: "length (type_id i) = 8"
    and variant: "valid i \<Longrightarrow> \<exists>n un b. find (\<lambda>(n, _). sighash n = type_id i) table = Some (n, un) \<and>
      impl i = Inr b \<and> un b = Inr (strip i)"
begin

lemma data_reads: "valid i \<Longrightarrow> \<exists>b. impl i = Inr b \<and> read_variant sighash table (type_id i @ b) = Inr (strip i)"
  using variant [of i] id_length [of i] by (auto simp: read_variant_append)

lemma unknown_type:
  assumes "length t = 8" and "\<And>n un. (n, un) \<in> set table \<Longrightarrow> sighash n \<noteq> t"
  shows "read_variant sighash table (t @ bs) = Inl (Err ''no known type'')"
proof -
  have "find (\<lambda>(n, _). sighash n = t) table = None"
    using assms(2) by (auto simp: find_None_iff)
  then show ?thesis using assms(1) by (simp add: read_variant_append)
qed

end

end
