(* ===== verification/Pyth_Instructions.thy ===== *)
theory Pyth_Instructions
  imports Anchor_Codec
begin

text \<open>
  The client of the price oracle program (\<open>client/svm/drift_pyth\<close>): the four instructions with their
  builders, validation and byte codecs, the eight-byte discriminators, and decoding of
  instruction data.  The binary library is an argument (\<open>bin_lib\<close>), and so are the bytes it
  writes for a nil pointer; the display of instructions as trees is left out.
\<close>

section \<open>Instructions\<close>

text \<open>\<open>Meta(key).WRITE()\<close>.\<close>

definition written :: "bytes \<Rightarrow> account_meta option" where
  "written k = Some \<lparr>meta_key = k, meta_signer = False, meta_writable = True\<rparr>"

subsection \<open>\<open>Initialize\<close>\<close>

record pyth_initialize =
  in_price :: "64 word option"
  in_expo :: "32 word option"
  in_conf :: "64 word option"
  in_accounts :: "account_meta option list"

definition new_initialize_builder :: pyth_initialize where
  "new_initialize_builder = \<lparr>in_price = None, in_expo = None, in_conf = None, in_accounts = [None]\<rparr>"

definition initialize_put_price :: "64 word \<Rightarrow> pyth_initialize \<Rightarrow> pyth_initialize" where
  "initialize_put_price x i = i\<lparr>in_price := Some x\<rparr>"

definition initialize_put_expo :: "32 word \<Rightarrow> pyth_initialize \<Rightarrow> pyth_initialize" where
  "initialize_put_expo x i = i\<lparr>in_expo := Some x\<rparr>"

definition initialize_put_conf :: "64 word \<Rightarrow> pyth_initialize \<Rightarrow> pyth_initialize" where
  "initialize_put_conf x i = i\<lparr>in_conf := Some x\<rparr>"

definition initialize_put_account :: "bytes \<Rightarrow> pyth_initialize \<Rightarrow> pyth_initialize res" where
  "initialize_put_account k i =
     bind_res (set_slot 0 (written k) (in_accounts i)) (\<lambda>as. Inr (i\<lparr>in_accounts := as\<rparr>))"

definition initialize_validate :: "pyth_initialize \<Rightarrow> unit res" where
  "initialize_validate i = first_error
     [fail_if (in_price i = None) ''Price parameter is not set'',
      fail_if (in_expo i = None) ''Expo parameter is not set'',
      fail_if (in_conf i = None) ''Conf parameter is not set'',
      bind_res (index_at (in_accounts i) 0) (\<lambda>a. fail_if (a = None) ''accounts.Price is not set'')]"

definition marshal_initialize :: "bytes res \<Rightarrow> bin_lib \<Rightarrow> pyth_initialize \<Rightarrow> bytes res" where
  "marshal_initialize nil L i =
     bind_res (put_param nil (put_u64 L) (in_price i)) (\<lambda>b0.
     bind_res (put_param nil (put_u32 L) (in_expo i)) (\<lambda>b1.
     bind_res (put_param nil (put_u64 L) (in_conf i)) (\<lambda>b2.
     Inr (b0 @ b1 @ b2))))"

definition unmarshal_initialize :: "bin_lib \<Rightarrow> bytes \<Rightarrow> (pyth_initialize \<times> bytes) res" where
  "unmarshal_initialize L bs =
     bind_res (get_u64 L bs) (\<lambda>(x0, r0).
     bind_res (get_u32 L r0) (\<lambda>(x1, r1).
     bind_res (get_u64 L r1) (\<lambda>(x2, r2).
     Inr (\<lparr>in_price = Some x0, in_expo = Some x1, in_conf = Some x2, in_accounts = []\<rparr>, r2))))"

definition new_initialize_instruction :: "64 word \<Rightarrow> 32 word \<Rightarrow> 64 word \<Rightarrow> bytes \<Rightarrow> pyth_initialize res" where
  "new_initialize_instruction price expo conf account =
     initialize_put_account account (initialize_put_conf conf (initialize_put_expo expo (initialize_put_price price new_initialize_builder)))"

subsection \<open>\<open>SetPriceInfo\<close>\<close>

record pyth_set_price_info =
  si_price :: "64 word option"
  si_conf :: "64 word option"
  si_slot :: "64 word option"
  si_accounts :: "account_meta option list"

definition new_set_price_info_builder :: pyth_set_price_info where
  "new_set_price_info_builder = \<lparr>si_price = None, si_conf = None, si_slot = None, si_accounts = [None]\<rparr>"

definition set_price_info_put_price :: "64 word \<Rightarrow> pyth_set_price_info \<Rightarrow> pyth_set_price_info" where
  "set_price_info_put_price x i = i\<lparr>si_price := Some x\<rparr>"

definition set_price_info_put_conf :: "64 word \<Rightarrow> pyth_set_price_info \<Rightarrow> pyth_set_price_info" where
  "set_price_info_put_conf x i = i\<lparr>si_conf := Some x\<rparr>"

definition set_price_info_put_slot :: "64 word \<Rightarrow> pyth_set_price_info \<Rightarrow> pyth_set_price_info" where
  "set_price_info_put_slot x i = i\<lparr>si_slot := Some x\<rparr>"

definition set_price_info_put_account :: "bytes \<Rightarrow> pyth_set_price_info \<Rightarrow> pyth_set_price_info res" where
  "set_price_info_put_account k i =
     bind_res (set_slot 0 (written k) (si_accounts i)) (\<lambda>as. Inr (i\<lparr>si_accounts := as\<rparr>))"

definition set_price_info_validate :: "pyth_set_price_info \<Rightarrow> unit res" where
  "set_price_info_validate i = first_error
     [fail_if (si_price i = None) ''Price parameter is not set'',
      fail_if (si_conf i = None) ''Conf parameter is not set'',
      fail_if (si_slot i = None) ''Slot parameter is not set'',
      bind_res (index_at (si_accounts i) 0) (\<lambda>a. fail_if (a = None) ''accounts.Price is not set'')]"

definition marshal_set_price_info :: "bytes res \<Rightarrow> bin_lib \<Rightarrow> pyth_set_price_info \<Rightarrow> bytes res" where
  "marshal_set_price_info nil L i =
     bind_res (put_param nil (put_u64 L) (si_price i)) (\<lambda>b0.
     bind_res (put_param nil (put_u64 L) (si_conf i)) (\<lambda>b1.
     bind_res (put_param nil (put_u64 L) (si_slot i)) (\<lambda>b2.
     Inr (b0 @ b1 @ b2))))"

definition unmarshal_set_price_info :: "bin_lib \<Rightarrow> bytes \<Rightarrow> (pyth_set_price_info \<times> bytes) res" where
  "unmarshal_set_price_info L bs =
     bind_res (get_u64 L bs) (\<lambda>(x0, r0).
     bind_res (get_u64 L r0) (\<lambda>(x1, r1).
     bind_res (get_u64 L r1) (\<lambda>(x2, r2).
     Inr (\<lparr>si_price = Some x0, si_conf = Some x1, si_slot = Some x2, si_accounts = []\<rparr>, r2))))"

definition new_set_price_info_instruction :: "64 word \<Rightarrow> 64 word \<Rightarrow> 64 word \<Rightarrow> bytes \<Rightarrow> pyth_set_price_info res" where
  "new_set_price_info_instruction price conf slot account =
     set_price_info_put_account account (set_price_info_put_slot slot (set_price_info_put_conf conf (set_price_info_put_price price new_set_price_info_builder)))"

subsection \<open>\<open>SetPrice\<close>\<close>

record pyth_set_price =
  st_price :: "64 word option"
  st_accounts :: "account_meta option list"

definition new_set_price_builder :: pyth_set_price where
  "new_set_price_builder = \<lparr>st_price = None, st_accounts = [None]\<rparr>"

definition set_price_put_price :: "64 word \<Rightarrow> pyth_set_price \<Rightarrow> pyth_set_price" where
  "set_price_put_price x i = i\<lparr>st_price := Some x\<rparr>"

definition set_price_put_account :: "bytes \<Rightarrow> pyth_set_price \<Rightarrow> pyth_set_price res" where
  "set_price_put_account k i =
     bind_res (set_slot 0 (written k) (st_accounts i)) (\<lambda>as. Inr (i\<lparr>st_accounts := as\<rparr>))"

definition set_price_validate :: "pyth_set_price \<Rightarrow> unit res" where
  "set_price_validate i = first_error
     [fail_if (st_price i = None) ''Price parameter is not set'',
      bind_res (index_at (st_accounts i) 0) (\<lambda>a. fail_if (a = None) ''accounts.Price is not set'')]"

definition marshal_set_price :: "bytes res \<Rightarrow> bin_lib \<Rightarrow> pyth_set_price \<Rightarrow> bytes res" where
  "marshal_set_price nil L i =
     bind_res (put_param nil (put_u64 L) (st_price i)) (\<lambda>b0.
     Inr (b0))"

definition unmarshal_set_price :: "bin_lib \<Rightarrow> bytes \<Rightarrow> (pyth_set_price \<times> bytes) res" where
  "unmarshal_set_price L bs =
     bind_res (get_u64 L bs) (\<lambda>(x0, r0).
     Inr (\<lparr>st_price = Some x0, st_accounts = []\<rparr>, r0))"

definition new_set_price_instruction :: "64 word \<Rightarrow> bytes \<Rightarrow> pyth_set_price res" where
  "new_set_price_instruction price account =
     set_price_put_account account (set_price_put_price price new_set_price_builder)"

subsection \<open>\<open>SetTwap\<close>\<close>

record pyth_set_twap =
  tw_twap :: "64 word option"
  tw_accounts :: "account_meta option list"

definition new_set_twap_builder :: pyth_set_twap where
  "new_set_twap_builder = \<lparr>tw_twap = None, tw_accounts = [None]\<rparr>"

definition set_twap_put_twap :: "64 word \<Rightarrow> pyth_set_twap \<Rightarrow> pyth_set_twap" where
  "set_twap_put_twap x i = i\<lparr>tw_twap := Some x\<rparr>"

definition set_twap_put_account :: "bytes \<Rightarrow> pyth_set_twap \<Rightarrow> pyth_set_twap res" where
  "set_twap_put_account k i =
     bind_res (set_slot 0 (written k) (tw_accounts i)) (\<lambda>as. Inr (i\<lparr>tw_accounts := as\<rparr>))"

definition set_twap_validate :: "pyth_set_twap \<Rightarrow> unit res" where
  "set_twap_validate i = first_error
     [fail_if (tw_twap i = None) ''Twap parameter is not set'',
      bind_res (index_at (tw_accounts i) 0) (\<lambda>a. fail_if (a = None) ''accounts.Price is not set'')]"

definition marshal_set_twap :: "bytes res \<Rightarrow> bin_lib \<Rightarrow> pyth_set_twap \<Rightarrow> bytes res" where
  "marshal_set_twap nil L i =
     bind_res (put_param nil (put_u64 L) (tw_twap i)) (\<lambda>b0.
     Inr (b0))"

definition unmarshal_set_twap :: "bin_lib \<Rightarrow> bytes \<Rightarrow> (pyth_set_twap \<times> bytes) res" where
  "unmarshal_set_twap L bs =
     bind_res (get_u64 L bs) (\<lambda>(x0, r0).
     Inr (\<lparr>tw_twap = Some x0, tw_accounts = []\<rparr>, r0))"

definition new_set_twap_instruction :: "64 word \<Rightarrow> bytes \<Rightarrow> pyth_set_twap res" where
  "new_set_twap_instruction twap account =
     set_twap_put_account account (set_twap_put_twap twap new_set_twap_builder)"

section \<open>Instruction data\<close>

definition id_initialize :: bytes where "id_initialize = [175, 175, 109, 31, 13, 152, 155, 237]"
definition id_set_price :: bytes where "id_set_price = [16, 19, 182, 8, 149, 83, 72, 181]"
definition id_set_price_info :: bytes where "id_set_price_info = [52, 225, 243, 132, 19, 89, 254, 181]"
definition id_set_twap :: bytes where "id_set_twap = [10, 194, 43, 204, 120, 214, 177, 206]"

definition instruction_id_to_name :: "bytes \<Rightarrow> string" where
  "instruction_id_to_name i =
     (if i = id_initialize then ''Initialize''
      else if i = id_set_price then ''SetPrice''
      else if i = id_set_price_info then ''SetPriceInfo''
      else if i = id_set_twap then ''SetTwap''
      else [])"

datatype pyth_instruction =
    Ix_initialize pyth_initialize
  | Ix_set_price pyth_set_price
  | Ix_set_price_info pyth_set_price_info
  | Ix_set_twap pyth_set_twap

fun type_id :: "pyth_instruction \<Rightarrow> bytes" where
  "type_id (Ix_initialize i) = id_initialize"
| "type_id (Ix_set_price i) = id_set_price"
| "type_id (Ix_set_price_info i) = id_set_price_info"
| "type_id (Ix_set_twap i) = id_set_twap"

fun pyth_validate :: "pyth_instruction \<Rightarrow> unit res" where
  "pyth_validate (Ix_initialize i) = initialize_validate i"
| "pyth_validate (Ix_set_price i) = set_price_validate i"
| "pyth_validate (Ix_set_price_info i) = set_price_info_validate i"
| "pyth_validate (Ix_set_twap i) = set_twap_validate i"

definition validate_and_build :: "pyth_instruction \<Rightarrow> pyth_instruction res" where
  "validate_and_build i = bind_res (pyth_validate i) (\<lambda>_. Inr i)"

fun marshal_impl :: "bytes res \<Rightarrow> bin_lib \<Rightarrow> pyth_instruction \<Rightarrow> bytes res" where
  "marshal_impl nil L (Ix_initialize i) = marshal_initialize nil L i"
| "marshal_impl nil L (Ix_set_price i) = marshal_set_price nil L i"
| "marshal_impl nil L (Ix_set_price_info i) = marshal_set_price_info nil L i"
| "marshal_impl nil L (Ix_set_twap i) = marshal_set_twap nil L i"

definition marshal_instruction :: "bytes res \<Rightarrow> bin_lib \<Rightarrow> pyth_instruction \<Rightarrow> bytes res" where
  "marshal_instruction nil L i = bind_res (marshal_impl nil L i) (\<lambda>b. Inr (type_id i @ b))"

definition instruction_data :: "bytes res \<Rightarrow> bin_lib \<Rightarrow> pyth_instruction \<Rightarrow> bytes res" where
  "instruction_data nil L i = wrap_err ''unable to encode instruction'' (marshal_instruction nil L i)"

fun accounts_of :: "pyth_instruction \<Rightarrow> account_meta option list" where
  "accounts_of (Ix_initialize i) = in_accounts i"
| "accounts_of (Ix_set_price i) = st_accounts i"
| "accounts_of (Ix_set_price_info i) = si_accounts i"
| "accounts_of (Ix_set_twap i) = tw_accounts i"

fun with_accounts :: "account_meta option list \<Rightarrow> pyth_instruction \<Rightarrow> pyth_instruction" where
  "with_accounts as (Ix_initialize i) = Ix_initialize (i\<lparr>in_accounts := as\<rparr>)"
| "with_accounts as (Ix_set_price i) = Ix_set_price (i\<lparr>st_accounts := as\<rparr>)"
| "with_accounts as (Ix_set_price_info i) = Ix_set_price_info (i\<lparr>si_accounts := as\<rparr>)"
| "with_accounts as (Ix_set_twap i) = Ix_set_twap (i\<lparr>tw_accounts := as\<rparr>)"

text \<open>
  \<open>InstructionImplDef\<close>: the variants by name; \<open>sighash\<close> is the library's Anchor discriminator of a name.
  The first variant with the read discriminator is decoded.
\<close>

definition variant_table :: "(string \<times> (bin_lib \<Rightarrow> bytes \<Rightarrow> pyth_instruction res)) list" where
  "variant_table =
     [(''initialize'', \<lambda>L bs. bind_res (unmarshal_initialize L bs) (\<lambda>(i, _). Inr (Ix_initialize i))),
      (''set_price'', \<lambda>L bs. bind_res (unmarshal_set_price L bs) (\<lambda>(i, _). Inr (Ix_set_price i))),
      (''set_price_info'', \<lambda>L bs. bind_res (unmarshal_set_price_info L bs) (\<lambda>(i, _). Inr (Ix_set_price_info i))),
      (''set_twap'', \<lambda>L bs. bind_res (unmarshal_set_twap L bs) (\<lambda>(i, _). Inr (Ix_set_twap i)))]"

definition unmarshal_variant :: "(string \<Rightarrow> bytes) \<Rightarrow> bin_lib \<Rightarrow> bytes \<Rightarrow> pyth_instruction res" where
  "unmarshal_variant sighash L =
     read_variant sighash (map (\<lambda>(name, un). (name, un L)) variant_table)"

text \<open>\<open>set_accounts\<close> is the library's \<open>SetAccounts\<close> of a slice of accounts.\<close>

definition decode_instruction ::
  "(string \<Rightarrow> bytes) \<Rightarrow> ('acc \<Rightarrow> account_meta option list res) \<Rightarrow> bin_lib \<Rightarrow> 'acc \<Rightarrow> bytes \<Rightarrow> pyth_instruction res" where
  "decode_instruction sighash set_accounts L accounts data =
     bind_res (wrap_err ''unable to decode instruction'' (unmarshal_variant sighash L data)) (\<lambda>i.
     bind_res (wrap_err ''unable to set accounts for instruction'' (set_accounts accounts)) (\<lambda>as.
       Inr (with_accounts as i)))"

section \<open>Round trips\<close>

lemma param_checks: "bind_res (index_at as 0) (\<lambda>a. fail_if (a = None) e) = Inr () \<longleftrightarrow> as \<noteq> [] \<and> as ! 0 \<noteq> None"
  by (auto simp: bind_res_Inr_iff index_at_def)

lemmas validate_defs = initialize_validate_def set_price_validate_def set_price_info_validate_def
  set_twap_validate_def first_error_ok_iff param_checks

text \<open>What each codec writes of a valid instruction is read back, in front of anything that follows.\<close>

context bin_library
begin

lemma initialize_rt:
  "initialize_validate i = Inr () \<Longrightarrow>
     \<exists>b. marshal_initialize nil L i = Inr b \<and> unmarshal_initialize L (b @ r) = Inr (i\<lparr>in_accounts := []\<rparr>, r)"
  by (cases i) (auto simp: validate_defs marshal_initialize_def unmarshal_initialize_def)

lemma set_price_rt:
  "set_price_validate i = Inr () \<Longrightarrow>
     \<exists>b. marshal_set_price nil L i = Inr b \<and> unmarshal_set_price L (b @ r) = Inr (i\<lparr>st_accounts := []\<rparr>, r)"
  by (cases i) (auto simp: validate_defs marshal_set_price_def unmarshal_set_price_def)

lemma set_price_info_rt:
  "set_price_info_validate i = Inr () \<Longrightarrow>
     \<exists>b. marshal_set_price_info nil L i = Inr b \<and>
       unmarshal_set_price_info L (b @ r) = Inr (i\<lparr>si_accounts := []\<rparr>, r)"
  by (cases i) (auto simp: validate_defs marshal_set_price_info_def unmarshal_set_price_info_def)

lemma set_twap_rt:
  "set_twap_validate i = Inr () \<Longrightarrow>
     \<exists>b. marshal_set_twap nil L i = Inr b \<and> unmarshal_set_twap L (b @ r) = Inr (i\<lparr>tw_accounts := []\<rparr>, r)"
  by (cases i) (auto simp: validate_defs marshal_set_twap_def unmarshal_set_twap_def)

end

definition anchor_ids :: "(string \<Rightarrow> bytes) \<Rightarrow> bool" where
  "anchor_ids sighash \<longleftrightarrow>
     sighash ''initialize'' = id_initialize \<and> sighash ''set_price'' = id_set_price \<and>
     sighash ''set_price_info'' = id_set_price_info \<and> sighash ''set_twap'' = id_set_twap"

lemma ids_distinct:
  "distinct [id_initialize, id_set_price, id_set_price_info, id_set_twap]"
  by (simp add: id_initialize_def id_set_price_def id_set_price_info_def id_set_twap_def)

lemma length_type_id [simp]: "length (type_id i) = 8"
  by (cases i) (simp_all add: id_initialize_def id_set_price_def id_set_price_info_def id_set_twap_def)

lemma unmarshal_variant_ids:
  assumes "anchor_ids sighash"
  shows "unmarshal_variant sighash L (id_initialize @ bs) =
      bind_res (unmarshal_initialize L bs) (\<lambda>(i, _). Inr (Ix_initialize i))"
    and "unmarshal_variant sighash L (id_set_price @ bs) =
      bind_res (unmarshal_set_price L bs) (\<lambda>(i, _). Inr (Ix_set_price i))"
    and "unmarshal_variant sighash L (id_set_price_info @ bs) =
      bind_res (unmarshal_set_price_info L bs) (\<lambda>(i, _). Inr (Ix_set_price_info i))"
    and "unmarshal_variant sighash L (id_set_twap @ bs) =
      bind_res (unmarshal_set_twap L bs) (\<lambda>(i, _). Inr (Ix_set_twap i))"
  using assms ids_distinct length_type_id [of "Ix_initialize undefined"]
    length_type_id [of "Ix_set_price undefined"] length_type_id [of "Ix_set_price_info undefined"]
    length_type_id [of "Ix_set_twap undefined"]
  by (auto simp: unmarshal_variant_def read_variant_def variant_table_def anchor_ids_def)

text \<open>
  Oracle instructions round-trip.  An instruction whose parameters and account are set (one that
  \<open>ValidateAndBuild\<close> returns) has data, and decoding that data with a list of accounts gives the
  same instruction with those accounts; the hypotheses are that the library reads what it wrote and that
  Anchor's discriminators of the four names are the constants of the client.
\<close>

theorem pyth_instruction_round_trip:
  assumes "bin_ok L" and "anchor_ids sighash" and "validate_and_build i = Inr j"
    and "set_accounts accounts = Inr as"
  shows "\<exists>b. instruction_data nil L j = Inr b \<and>
    decode_instruction sighash set_accounts L accounts b = Inr (with_accounts as i)"
proof -
  have lib: "bin_library L" using assms(1) by (rule bin_library.intro)
  have valid: "pyth_validate i = Inr ()" and j: "j = i"
    using assms(3) by (auto simp: validate_and_build_def)
  note rt = bin_library.initialize_rt [OF lib, where r = "[]"] bin_library.set_price_rt [OF lib, where r = "[]"]
    bin_library.set_price_info_rt [OF lib, where r = "[]"] bin_library.set_twap_rt [OF lib, where r = "[]"]
  have "\<exists>b j'. marshal_impl nil L i = Inr b \<and> unmarshal_variant sighash L (type_id i @ b) = Inr j' \<and>
      with_accounts as j' = with_accounts as i"
    using valid rt(1) rt(2) rt(3) rt(4)
    by (cases i) (fastforce simp: unmarshal_variant_ids [OF assms(2)])+
  then show ?thesis
    using assms(4) by (auto simp: j instruction_data_def marshal_instruction_def decode_instruction_def)
qed

definition demo_sighash :: "string \<Rightarrow> bytes" where
  "demo_sighash name =
     (if name = ''initialize'' then id_initialize else if name = ''set_price'' then id_set_price
      else if name = ''set_price_info'' then id_set_price_info else id_set_twap)"

theorem pyth_instruction_round_trip_witness:
  "\<exists>b. instruction_data (Inl (Panic [])) le_lib (Ix_set_twap \<lparr>tw_twap = Some 5, tw_accounts = [written [1]]\<rparr>) = Inr b \<and>
     decode_instruction demo_sighash Inr le_lib [None] b = Inr (Ix_set_twap \<lparr>tw_twap = Some 5, tw_accounts = [None]\<rparr>)"
proof -
  let ?i = "Ix_set_twap \<lparr>tw_twap = Some 5, tw_accounts = [written [1]]\<rparr>"
  have ids: "anchor_ids demo_sighash" by (simp add: anchor_ids_def demo_sighash_def)
  have "validate_and_build ?i = Inr ?i"
    by (simp add: validate_and_build_def set_twap_validate_def first_error_simps fail_if_def
        index_at_def written_def)
  from pyth_instruction_round_trip [OF bin_ok_le_lib ids this, of Inr "[None]"] show ?thesis by simp
qed

lemmas new_instruction_defs = new_initialize_instruction_def new_set_price_instruction_def
  new_set_price_info_instruction_def new_set_twap_instruction_def initialize_put_account_def
  set_price_put_account_def set_price_info_put_account_def set_twap_put_account_def
  initialize_put_price_def initialize_put_expo_def initialize_put_conf_def set_price_put_price_def
  set_price_info_put_price_def set_price_info_put_conf_def set_price_info_put_slot_def
  set_twap_put_twap_def new_initialize_builder_def new_set_price_builder_def
  new_set_price_info_builder_def new_set_twap_builder_def set_slot_def written_def

text \<open>The constructors give valid instructions.\<close>

lemma new_instructions_valid:
  "\<exists>i. new_initialize_instruction p e c k = Inr i \<and> initialize_validate i = Inr ()"
  "\<exists>i. new_set_price_instruction p k = Inr i \<and> set_price_validate i = Inr ()"
  "\<exists>i. new_set_price_info_instruction p c s k = Inr i \<and> set_price_info_validate i = Inr ()"
  "\<exists>i. new_set_twap_instruction p k = Inr i \<and> set_twap_validate i = Inr ()"
  by (simp_all add: validate_defs new_instruction_defs)

section \<open>Enumerations\<close>

text \<open>The names of the price account's enumerations; an unknown value has none.\<close>

definition price_status_string :: "nat \<Rightarrow> string" where
  "price_status_string v = enum_name [''Unknown'', ''Trading'', ''Halted'', ''Auction''] v"

definition corp_action_string :: "nat \<Rightarrow> string" where
  "corp_action_string v = enum_name [''NoCorpAct''] v"

definition price_type_string :: "nat \<Rightarrow> string" where
  "price_type_string v = enum_name [''Unknown'', ''Price'', ''TWAP'', ''Volatility''] v"

end
