(* ===== verification/Svm_Signing.thy ===== *)
theory Svm_Signing
  imports Svm_Upload Chain_Client Pyth_Instructions
begin

text \<open>
  Multi-signer transactions and the flows built on them (\<open>BuildSignedTx\<close>, \<open>GetOrLinkSvmAccount\<close> and
  \<open>InitializePythOracle\<close> of \<open>client/svm/helper.go\<close>, \<open>LinkSVMAccount\<close> of \<open>client/chain/chain.go\<close>).  Keys,
  signing and encoding are the SDK's, fields of \<open>sign_env\<close>; the chain is the state of the client's
  \<open>node_env\<close>.
\<close>

section \<open>BuildSignedTx\<close>

text \<open>A signer's entry: public key, signature (empty before signing) and sequence.\<close>

record sig_entry =
  se_pubkey :: bytes
  se_signature :: "bytes option"
  se_sequence :: "64 word"

record 'm multi_tx =
  mx_msgs :: "'m list"
  mx_timeout_height :: "64 word"
  mx_signatures :: "sig_entry list"
  mx_gas_limit :: "64 word"
  mx_fee :: int

record ('m, 's) sign_env =
  sg_pubkey :: "bytes \<Rightarrow> bytes"
  sg_address :: "bytes \<Rightarrow> bytes"
  sg_nonce :: "'s \<Rightarrow> bytes \<Rightarrow> (64 word \<times> 64 word) res"
  sg_encode :: "'m multi_tx \<Rightarrow> bytes res"
  sg_simulate :: "'s \<Rightarrow> bytes \<Rightarrow> 64 word res"
  sg_sign :: "bytes \<Rightarrow> 64 word \<Rightarrow> 64 word \<Rightarrow> 'm multi_tx \<Rightarrow> sig_entry res"

text \<open>\<open>sg_address\<close> is the account address of a public key.\<close>

definition signer_address :: "('m, 's) sign_env \<Rightarrow> bytes \<Rightarrow> bytes" where
  "signer_address S k = sg_address S (sg_pubkey S k)"

definition signer_nonces ::
  "('m, 's) sign_env \<Rightarrow> 's \<Rightarrow> bytes list \<Rightarrow> (64 word \<times> 64 word) list res" where
  "signer_nonces S w keys =
     map_res (\<lambda>k. wrap_err ''get acc number err'' (sg_nonce S w (signer_address S k))) keys"

definition unsigned_tx ::
  "('m, 's) sign_env \<Rightarrow> 'm list \<Rightarrow> bytes list \<Rightarrow> (64 word \<times> 64 word) list \<Rightarrow> 'm multi_tx" where
  "unsigned_tx S msgs keys nonces =
     \<lparr>mx_msgs = msgs, mx_timeout_height = 19000000,
      mx_signatures =
        map2 (\<lambda>k n. \<lparr>se_pubkey = sg_pubkey S k, se_signature = None, se_sequence = snd n\<rparr>) keys nonces,
      mx_gas_limit = 0, mx_fee = 0\<rparr>"

definition priced_tx :: "64 word \<Rightarrow> 'm multi_tx \<Rightarrow> 'm multi_tx" where
  "priced_tx gas_used t =
     (let estimate = gas_used * 2 in t\<lparr>mx_gas_limit := estimate, mx_fee := uint estimate * 500000000\<rparr>)"

text \<open>An error of a signature is a panic.\<close>

definition sign_all ::
  "('m, 's) sign_env \<Rightarrow> 'm multi_tx \<Rightarrow> bytes list \<Rightarrow> (64 word \<times> 64 word) list \<Rightarrow> sig_entry list res" where
  "sign_all S t keys nonces =
     map_res (\<lambda>(k, num, seq).
       case sg_sign S k num seq t of
         Inl (Err e) \<Rightarrow> Inl (Panic e)
       | r \<Rightarrow> r) (zip keys nonces)"

definition build_multi_signed_tx ::
  "('m, 's) sign_env \<Rightarrow> 's \<Rightarrow> 'm list \<Rightarrow> bytes list \<Rightarrow> 'm multi_tx res" where
  "build_multi_signed_tx S w msgs keys =
     bind_res (signer_nonces S w keys) (\<lambda>nonces.
     let t0 = unsigned_tx S msgs keys nonces in
     bind_res (wrap_err ''encode tx err'' (sg_encode S t0)) (\<lambda>bz.
     bind_res (wrap_err ''encode tx err'' (sg_simulate S w bz)) (\<lambda>gas_used.
     let t1 = priced_tx gas_used t0 in
     bind_res (sign_all S t1 keys nonces) (\<lambda>sigs. Inr (t1\<lparr>mx_signatures := sigs\<rparr>)))))"

text \<open>
  C30. A transaction \<open>BuildSignedTx\<close> returns carries the messages, and one signature for each given key, in the order
  of the keys: the one made with that key and with the account number and sequence the chain
  has for that key's own address, all over one and the same transaction.  Its gas limit is twice
  (modulo \<open>2 ^ 64\<close>) what the chain's simulation of this very transaction, without gas and fee, used, and
  it pays 500000000 for each unit of the limit.
\<close>

theorem multi_signed_tx_is_signed_by_every_key:
  assumes "build_multi_signed_tx S w msgs keys = Inr t"
  shows "mx_msgs t = msgs \<and> mx_timeout_height t = 19000000 \<and> mx_fee t = uint (mx_gas_limit t) * 500000000 \<and>
    (\<exists>body bz gas. length (mx_signatures body) = length keys \<and> t = body\<lparr>mx_signatures := mx_signatures t\<rparr> \<and>
       sg_encode S (body\<lparr>mx_gas_limit := 0, mx_fee := 0\<rparr>) = Inr bz \<and> sg_simulate S w bz = Inr gas \<and>
       mx_gas_limit t = gas * 2 \<and>
       list_all2 (\<lambda>k s. \<exists>num seq. sg_nonce S w (signer_address S k) = Inr (num, seq) \<and>
         sg_sign S k num seq body = Inr s) keys (mx_signatures t))"
proof -
  from assms obtain nonces gas bz sigs where
    n: "signer_nonces S w keys = Inr nonces"
    and enc: "sg_encode S (unsigned_tx S msgs keys nonces) = Inr bz" and sim: "sg_simulate S w bz = Inr gas"
    and s: "sign_all S (priced_tx gas (unsigned_tx S msgs keys nonces)) keys nonces = Inr sigs"
    and t: "t = (priced_tx gas (unsigned_tx S msgs keys nonces))\<lparr>mx_signatures := sigs\<rparr>"
    by (auto simp: build_multi_signed_tx_def Let_def)
  let ?body = "priced_tx gas (unsigned_tx S msgs keys nonces)"
  have n2: "list_all2 (\<lambda>k x. sg_nonce S w (signer_address S k) = Inr x) keys nonces"
    using n by (simp add: signer_nonces_def map_res_Inr_iff)
  then have len: "length nonces = length keys" by (simp add: list_all2_lengthD)
  have "list_all2 (\<lambda>x s. sg_sign S (fst x) (fst (snd x)) (snd (snd x)) ?body = Inr s) (zip keys nonces) sigs"
    using s by (auto simp: sign_all_def map_res_Inr_iff split_beta elim!: list_all2_mono
        split: sum.splits fault.splits)
  then have "list_all2 (\<lambda>k s. \<exists>num seq. sg_nonce S w (signer_address S k) = Inr (num, seq) \<and>
      sg_sign S k num seq ?body = Inr s) keys sigs"
    using n2 len by (auto simp: list_all2_conv_all_nth) (metis prod.collapse)
  moreover have "length (mx_signatures ?body) = length keys"
    by (simp add: priced_tx_def unsigned_tx_def Let_def len)
  moreover have "?body\<lparr>mx_gas_limit := 0, mx_fee := 0\<rparr> = unsigned_tx S msgs keys nonces"
    by (simp add: priced_tx_def unsigned_tx_def Let_def)
  ultimately show ?thesis using enc sim
    by (intro conjI exI [of _ ?body] exI [of _ bz] exI [of _ gas])
      (simp_all add: t priced_tx_def unsigned_tx_def Let_def)
qed

definition demo_sign_env :: "(string, nat) sign_env" where
  "demo_sign_env =
     \<lparr>sg_pubkey = (\<lambda>k. 2 # k), sg_address = tl, sg_nonce = (\<lambda>w a. Inr (of_nat (length a), of_nat w)),
      sg_encode = (\<lambda>t. Inr (concat (map to_bytes (mx_msgs t)))), sg_simulate = (\<lambda>w b. Inr (of_nat (length b))),
      sg_sign = (\<lambda>k num seq t. Inr \<lparr>se_pubkey = 2 # k, se_signature = Some k, se_sequence = seq\<rparr>)\<rparr>"

theorem multi_signed_tx_is_signed_by_every_key_witness:
  "\<exists>t. build_multi_signed_tx demo_sign_env 7 [''abc''] [[1], [3]] = Inr t \<and>
     mx_fee t = uint (mx_gas_limit t) * 500000000 \<and> length (mx_signatures t) = 2 \<and> mx_gas_limit t = 6"
proof -
  have "\<exists>t. build_multi_signed_tx demo_sign_env 7 [''abc''] [[1], [3]] = Inr t"
    by (simp add: build_multi_signed_tx_def signer_nonces_def sign_all_def demo_sign_env_def Let_def)
  then obtain t where t: "build_multi_signed_tx demo_sign_env 7 [''abc''] [[1], [3]] = Inr t" ..
  from multi_signed_tx_is_signed_by_every_key [OF t] have "mx_fee t = uint (mx_gas_limit t) * 500000000"
    "length (mx_signatures t) = 2"
    by (auto dest: list_all2_lengthD)
  moreover from multi_signed_tx_is_signed_by_every_key [OF t] obtain body bz gas where
    body: "mx_msgs t = [''abc'']" "t = body\<lparr>mx_signatures := mx_signatures t\<rparr>"
    and gas: "sg_encode demo_sign_env (body\<lparr>mx_gas_limit := 0, mx_fee := 0\<rparr>) = Inr bz"
      "sg_simulate demo_sign_env 7 bz = Inr gas" "mx_gas_limit t = gas * 2"
    by blast
  have "mx_msgs body = [''abc'']" using arg_cong [OF body(2), of mx_msgs] body(1) by simp
  then have "mx_gas_limit t = 6" using gas by (auto simp: demo_sign_env_def to_bytes_def)
  ultimately show ?thesis using t by blast
qed

section \<open>Linking accounts\<close>

text \<open>The messages of these flows: a link of an SVM account with its amount, or an SVM transaction.\<close>

record link_msg = msg_link_svm_account +
  ls_amount :: int

datatype flow_msg = Flow_link link_msg | Flow_svm msg_transaction

text \<open>
  \<open>lk_query\<close> is the \<open>AccountLink\<close> query on the chain, \<open>lk_public_key\<close> solana's \<open>PublicKeyFromBytes\<close>; \<open>lk_svm_pubkey\<close> and \<open>lk_svm_sign\<close> the ed25519 key's
  public key and signature; \<open>lk_text\<close> the text of an address.
\<close>

record 's link_env =
  lk_node :: "(flow_msg, 's) node_env"
  lk_sign :: "(flow_msg, 's) sign_env"
  lk_query :: "'s \<Rightarrow> bytes \<Rightarrow> bytes res"
  lk_public_key :: "bytes \<Rightarrow> bytes"
  lk_svm_pubkey :: "bytes \<Rightarrow> bytes"
  lk_svm_sign :: "bytes \<Rightarrow> string \<Rightarrow> bytes res"
  lk_text :: "bytes \<Rightarrow> string"
  lk_sol :: sol_env
  lk_nil :: "bytes res"
  lk_bin :: bin_lib
  lk_pyth_id :: bytes

definition make_link_msg :: "'s link_env \<Rightarrow> bytes \<Rightarrow> bytes \<Rightarrow> bytes \<Rightarrow> int \<Rightarrow> link_msg" where
  "make_link_msg K addr svm_key sig lux =
     \<lparr>ls_sender = lk_text K addr, ls_svm_pubkey = lk_svm_pubkey K svm_key, ls_svm_signature = sig,
      ls_amount = lux\<rparr>"

text \<open>\<open>LinkSVMAccount\<close> of the chain client, with its own address.\<close>

definition link_svm_account ::
  "'s link_env \<Rightarrow> client \<Rightarrow> 's \<Rightarrow> bytes \<Rightarrow> int \<Rightarrow> tx_response res \<times> client \<times> 's" where
  "link_svm_account K c w svm_key lux =
     (case wrap_err ''svm privkey sign err'' (lk_svm_sign K svm_key (lk_text K (from_address c))) of
        Inl e \<Rightarrow> (Inl e, c, w)
      | Inr sig \<Rightarrow>
          sync_broadcast_msg (lk_node K) c w [Flow_link (make_link_msg K (from_address c) svm_key sig lux)])"

text \<open>Build with the keys, encode, broadcast and wait.\<close>

definition sign_and_send ::
  "'s link_env \<Rightarrow> 's \<Rightarrow> flow_msg list \<Rightarrow> bytes list \<Rightarrow> tx_response res \<times> 's" where
  "sign_and_send K w msgs keys =
     (case bind_res (build_multi_signed_tx (lk_sign K) w msgs keys) (sg_encode (lk_sign K)) of
        Inl e \<Rightarrow> (Inl e, w)
      | Inr bz \<Rightarrow> sync_broadcast_signed_tx (lk_node K) w bz)"

text \<open>
  \<open>GetOrLinkSvmAccount\<close>: the linked account, the response if a link was broadcast, and the chain.  The new link's
  key is returned together with the result of the broadcast.
\<close>

definition get_or_link_svm_account ::
  "'s link_env \<Rightarrow> 's \<Rightarrow> bytes \<Rightarrow> bytes \<Rightarrow> int \<Rightarrow> (bytes \<times> tx_response option) res \<times> 's" where
  "get_or_link_svm_account K w cosmos_key svm_key lux =
     (let addr = signer_address (lk_sign K) cosmos_key in
      case get_svm_account_link (lk_public_key K) (lk_query K w addr) of
        Inl e \<Rightarrow> (Inl e, w)
      | Inr (True, pubkey) \<Rightarrow> (Inr (pubkey, None), w)
      | Inr (False, _) \<Rightarrow>
          (case wrap_err ''svm private key sign err'' (lk_svm_sign K svm_key (lk_text K addr)) of
             Inl e \<Rightarrow> (Inl e, w)
           | Inr sig \<Rightarrow>
               (case sign_and_send K w [Flow_link (make_link_msg K addr svm_key sig lux)] [cosmos_key] of
                  (Inl e, w') \<Rightarrow> (Inl e, w')
                | (Inr r, w') \<Rightarrow> (Inr (lk_public_key K (lk_svm_pubkey K svm_key), Some r), w'))))"

section \<open>Initialising an oracle\<close>

definition oracle_size :: "64 word" where
  "oracle_size = 3312"

text \<open>
  The two instructions; \<open>AddInstruction\<close> takes an instruction's program, accounts and data, whose
  error is one of \<open>Build\<close>.
\<close>

definition pyth_sol_ix :: "'s link_env \<Rightarrow> pyth_initialize \<Rightarrow> sol_ix res" where
  "pyth_sol_ix K i =
     bind_res (instruction_data (lk_nil K) (lk_bin K) (Ix_initialize i)) (\<lambda>d.
       Inr \<lparr>six_program = lk_pyth_id K, six_metas = map the (in_accounts i), six_data = d\<rparr>)"

definition oracle_msg ::
  "'s link_env \<Rightarrow> client \<Rightarrow> bytes \<Rightarrow> bytes \<Rightarrow> bytes \<Rightarrow> 64 word \<Rightarrow> 32 word \<Rightarrow> 64 word \<Rightarrow> msg_transaction res" where
  "oracle_msg K c oracle_addr fee_payer_svm oracle_svm price expo conf =
     bind_res (new_initialize_instruction price expo conf oracle_svm) (\<lambda>i.
     case bind_res (pyth_sol_ix K i) (\<lambda>init.
            build_tx (lk_sol K)
              [create_account_ix (lk_sol K) (rent_exempt_lamports oracle_size) oracle_size (lk_pyth_id K)
                 fee_payer_svm oracle_svm, init]) of
       Inl (Err e) \<Rightarrow> Inl (Panic e)
     | Inl (Panic e) \<Rightarrow> Inl (Panic e)
     | Inr tx \<Rightarrow>
         to_cosmos_msg (sol_key_string (lk_sol K)) (sol_resolve (lk_sol K))
           [lk_text K (from_address c), lk_text K oracle_addr] 1000000 tx)"

definition initialize_pyth_oracle ::
  "'s link_env \<Rightarrow> client \<Rightarrow> 's \<Rightarrow> bytes \<Rightarrow> bytes \<Rightarrow> bytes \<Rightarrow> 64 word \<Rightarrow> 32 word \<Rightarrow> 64 word \<Rightarrow> bytes res \<times> 's" where
  "initialize_pyth_oracle K c w fee_payer_key oracle_key oracle_svm_key price expo conf =
     (let fee_payer_addr = signer_address (lk_sign K) fee_payer_key;
          oracle_addr = signer_address (lk_sign K) oracle_key in
      case get_svm_account_link (lk_public_key K) (lk_query K w fee_payer_addr) of
        Inl e \<Rightarrow> (Inl e, w)
      | Inr (False, _) \<Rightarrow> (Inl (Err ''feePayer is not linked to any svm account''), w)
      | Inr (True, fee_payer_svm) \<Rightarrow>
          (case get_or_link_svm_account K w oracle_key oracle_svm_key 0 of
             (Inl (Err e), w1) \<Rightarrow> (Inl (Panic e), w1)
           | (Inl (Panic e), w1) \<Rightarrow> (Inl (Panic e), w1)
           | (Inr (oracle_svm, _), w1) \<Rightarrow>
               (case oracle_msg K c oracle_addr fee_payer_svm oracle_svm price expo conf of
                  Inl e \<Rightarrow> (Inl e, w1)
                | Inr m \<Rightarrow>
                    (case sign_and_send K w1 [Flow_svm m] [fee_payer_key, oracle_key] of
                       (Inl e, w2) \<Rightarrow> (Inl e, w2)
                     | (Inr _, w2) \<Rightarrow> (Inr oracle_svm, w2)))))"

text \<open>An account that is linked already is returned without any transaction.\<close>

lemma linked_account_is_returned:
  assumes "get_svm_account_link (lk_public_key K) (lk_query K w (signer_address (lk_sign K) k)) = Inr (True, p)"
  shows "get_or_link_svm_account K w k svm_key lux = (Inr (p, None), w)"
  using assms by (simp add: get_or_link_svm_account_def Let_def)

text \<open>The oracle message names the client's own address as its first signer.\<close>

lemma oracle_msg_signers:
  "oracle_msg K c oracle_addr fs os p e cf = Inr m \<Longrightarrow>
     mt_signers m = [lk_text K (from_address c), lk_text K oracle_addr]"
  by (auto simp: oracle_msg_def to_cosmos_msg_def split: sum.splits fault.splits)

text \<open>
  The signers of the oracle transaction can be the wrong ones.  Whenever \<open>InitializePythOracle\<close> sends its
  transaction, the message asks for the signatures of the client's own address and of the
  oracle's, while the signatures of the transaction are those of the fee payer's key and of the
  oracle's key.  With a fee payer other than the client's own account, no signature of the required first
  signer is there.
\<close>

theorem oracle_transaction_signers:
  assumes "initialize_pyth_oracle K c w fee_payer_key oracle_key oracle_svm_key price expo conf = (Inr k, w')"
  shows "\<exists>m w1 t bz x. mt_signers m =
       [lk_text K (from_address c), lk_text K (signer_address (lk_sign K) oracle_key)] \<and>
     build_multi_signed_tx (lk_sign K) w1 [Flow_svm m] [fee_payer_key, oracle_key] = Inr t \<and>
     sg_encode (lk_sign K) t = Inr bz \<and> sync_broadcast_signed_tx (lk_node K) w1 bz = (Inr x, w')"
  using assms
  by (auto simp: initialize_pyth_oracle_def sign_and_send_def Let_def dest!: oracle_msg_signers
      split: sum.splits prod.splits fault.splits bool.splits) blast

definition demo_flow_node :: "(flow_msg, nat) node_env" where
  "demo_flow_node =
     \<lparr>ensure_exists = (\<lambda>_. Inr ()), number_sequence = (\<lambda>w. Inr (7, of_nat w)), build_sim_tx = (\<lambda>_ _. Inr []),
      simulate_tx = (\<lambda>_ _. Inr (100, [])), adjust_gas = (\<lambda>g. g), build_unsigned_tx = (\<lambda>_ _. Inr []),
      sign_tx = (\<lambda>_ b. Inr b), encode_tx = (\<lambda>b. Inr b),
      broadcast = (\<lambda>w b. (Inr \<lparr>r_code = 0, r_hash = [], r_height = 0, r_gas_used = 0\<rparr>, w + 1)),
      polls = (\<lambda>w _. ([Inr \<lparr>r_code = 0, r_hash = [], r_height = 5, r_gas_used = 0\<rparr>], w)),
      ctx_simulate = False\<rparr>"

definition demo_flow_sign :: "(flow_msg, nat) sign_env" where
  "demo_flow_sign =
     \<lparr>sg_pubkey = (\<lambda>k. 2 # k), sg_address = tl, sg_nonce = (\<lambda>w a. Inr (1, of_nat w)),
      sg_encode = (\<lambda>t. Inr [of_nat (length (mx_signatures t))]), sg_simulate = (\<lambda>w b. Inr 100),
      sg_sign = (\<lambda>k num seq t. Inr \<lparr>se_pubkey = 2 # k, se_signature = Some k, se_sequence = seq\<rparr>)\<rparr>"

definition demo_link_env :: "nat link_env" where
  "demo_link_env =
     \<lparr>lk_node = demo_flow_node, lk_sign = demo_flow_sign, lk_query = (\<lambda>w a. Inr a), lk_public_key = pad_right 32,
      lk_svm_pubkey = (\<lambda>k. k), lk_svm_sign = (\<lambda>k s. Inr k), lk_text = map (\<lambda>b. char_of (unat b)),
      lk_sol = sample_sol_env\<lparr>build_tx := (\<lambda>ixs. Inr \<lparr>account_keys = [], sol_instructions = []\<rparr>)\<rparr>,
      lk_nil = Inl (Panic []), lk_bin = le_lib, lk_pyth_id = replicate 32 9\<rparr>"

theorem oracle_transaction_signers_witness:
  "\<exists>m. mt_signers m = [[], [char_of (65 :: nat)]] \<and>
     (\<exists>w1 t. build_multi_signed_tx demo_flow_sign w1 [Flow_svm m] [[70], [65]] = Inr t)"
proof -
  have run: "initialize_pyth_oracle demo_link_env demo_client 3 [70] [65] [1] 5 6 7 = (Inr (pad_right 32 [65]), 4)"
    by (simp add: initialize_pyth_oracle_def get_or_link_svm_account_def oracle_msg_def sign_and_send_def
        pyth_sol_ix_def demo_link_env_def demo_flow_sign_def demo_flow_node_def signer_address_def
        get_svm_account_link_def new_instruction_defs build_multi_signed_tx_def signer_nonces_def
        sign_all_def unsigned_tx_def sync_broadcast_signed_tx_def send_and_await_def to_cosmos_msg_def
        instruction_data_def marshal_instruction_def marshal_initialize_def Let_def)
  have "from_address demo_client = []" "lk_text demo_link_env [] = []"
    "lk_text demo_link_env (signer_address (lk_sign demo_link_env) [65]) = [char_of (65 :: nat)]"
    by (simp_all add: from_address_def demo_client_def demo_link_env_def demo_flow_sign_def signer_address_def)
  then show ?thesis
    using oracle_transaction_signers [OF run] by (auto simp: demo_link_env_def)
qed

end
