(* ===== verification/Batch_Queue.thy ===== *)
theory Batch_Queue
  imports Chain_Client
begin

text \<open>
  The message queue of the chain client (\<open>QueueBroadcastMsg\<close>, \<open>runBatchBroadcast\<close>, \<open>Close\<close> and
  \<open>BroadcastDone\<close> of \<open>client/chain/chain.go\<close>) as a step relation: callers that put messages into
  the bounded channel, the batching goroutine that takes them out, the two steps of \<open>Close\<close>,
  and the other broadcasts of the same client, in every interleaving.  The invariant accounts
  for every message that entered the channel; the traces of the queue are traces of an abstract
  pipe.
\<close>

section \<open>State\<close>

definition msg_commit_batch_size_limit :: nat where
  "msg_commit_batch_size_limit = 1024"

definition broadcasted_limit :: nat where
  "broadcasted_limit = 100000000"

text \<open>
  \<open>q_calls\<close> holds the messages each running call of \<open>QueueBroadcastMsg\<close> has still to send;
  \<open>q_msgs\<close> is the content of the channel \<open>msgC\<close>; \<open>q_flag\<close> the atomic \<open>closed\<close>, \<open>q_chan_closed\<close> whether
  \<open>close(msgC)\<close> ran; \<open>q_signals\<close> the content of \<open>Broadcasted\<close>.  \<open>q_log\<close> and \<open>q_submitted\<close> record
  what entered the channel and what was handed to \<open>submitBatch\<close>; they are not state of the
  program.  \<open>q_crashed\<close> is a panic, which ends the process.
\<close>

record ('m, 's) queue =
  q_client :: client
  q_world :: 's
  q_flag :: bool
  q_chan_closed :: bool
  q_calls :: "'m list list"
  q_msgs :: "'m list"
  q_batch :: "'m list"
  q_done :: bool
  q_signals :: nat
  q_crashed :: bool
  q_log :: "'m list"
  q_submitted :: "'m list list"

definition new_queue :: "client \<Rightarrow> 's \<Rightarrow> ('m, 's) queue" where
  "new_queue c w =
     \<lparr>q_client = c, q_world = w, q_flag = False, q_chan_closed = False, q_calls = [], q_msgs = [],
      q_batch = [], q_done = False, q_signals = 0, q_crashed = False, q_log = [], q_submitted = []\<rparr>"

section \<open>Operations\<close>

text \<open>The checks of \<open>QueueBroadcastMsg\<close> before it sends.\<close>

definition queue_broadcast_guard :: "('m, 's) queue \<Rightarrow> unit res" where
  "queue_broadcast_guard s =
     (if \<not> c_can_sign (q_client s) then Inl (Err ''client is in read-only mode'')
      else if q_flag s then Inl (Err ''queue is closed'')
      else Inr ())"

text \<open>
  One round of its loop for the call \<open>i\<close>: a send on a closed channel panics, a send on a full one
  blocks (\<open>None\<close>).
\<close>

definition send_msg :: "('m, 's) queue \<Rightarrow> nat \<Rightarrow> 'm \<Rightarrow> 'm list \<Rightarrow> ('m, 's) queue option" where
  "send_msg s i m ms =
     (if q_chan_closed s then Some (s\<lparr>q_crashed := True\<rparr>)
      else if length (q_msgs s) < msg_commit_batch_size_limit
      then Some (s\<lparr>q_msgs := q_msgs s @ [m], q_calls := (q_calls s)[i := ms], q_log := q_log s @ [m]\<rparr>)
      else None)"

text \<open>\<open>submitBatch\<close>: the broadcast under the mutex, then the signal.\<close>

definition submit :: "('m, 's) node_env \<Rightarrow> ('m, 's) queue \<Rightarrow> 'm list \<Rightarrow> ('m, 's) queue" where
  "submit E s ms =
     (case broadcast_retry E True (q_client s) (q_world s) ms of
        (r, c, w) \<Rightarrow>
          s\<lparr>q_client := c, q_world := w, q_submitted := q_submitted s @ [ms],
            q_signals := (if is_ok r then q_signals s + 1 else q_signals s),
            q_crashed := q_crashed s \<or> panics r\<rparr>)"

text \<open>The three cases of the goroutine's \<open>select\<close>.\<close>

definition on_message :: "('m, 's) node_env \<Rightarrow> ('m, 's) queue \<Rightarrow> 'm \<Rightarrow> 'm list \<Rightarrow> ('m, 's) queue" where
  "on_message E s m ms =
     (let b = q_batch s @ [m] in
      if length b \<ge> msg_commit_batch_size_limit
      then submit E (s\<lparr>q_msgs := ms, q_batch := []\<rparr>) b
      else s\<lparr>q_msgs := ms, q_batch := b\<rparr>)"

definition on_closed :: "('m, 's) node_env \<Rightarrow> ('m, 's) queue \<Rightarrow> ('m, 's) queue" where
  "on_closed E s =
     (let s' = (if q_batch s \<noteq> [] then submit E (s\<lparr>q_batch := []\<rparr>) (q_batch s) else s) in
      if q_crashed s' then s' else s'\<lparr>q_done := True\<rparr>)"

definition on_timer :: "('m, 's) node_env \<Rightarrow> ('m, 's) queue \<Rightarrow> ('m, 's) queue" where
  "on_timer E s =
     (if q_batch s \<noteq> [] then submit E (s\<lparr>q_batch := []\<rparr>) (q_batch s) else s)"

text \<open>
  The goroutine exists for a client that can sign, until it has returned.  A signal beyond the
  capacity of \<open>Broadcasted\<close> is one \<open>submitBatch\<close> is still blocked on, with the mutex held.
\<close>

definition mutex_free :: "('m, 's) queue \<Rightarrow> bool" where
  "mutex_free s \<longleftrightarrow> q_signals s \<le> broadcasted_limit"

definition goroutine_runs :: "('m, 's) queue \<Rightarrow> bool" where
  "goroutine_runs s \<longleftrightarrow>
     c_can_sign (q_client s) \<and> \<not> q_done s \<and> \<not> q_crashed s \<and> mutex_free s"

section \<open>Steps\<close>

inductive queue_step :: "('m, 's) node_env \<Rightarrow> ('m, 's) queue \<Rightarrow> ('m, 's) queue \<Rightarrow> bool" for E where
  enqueue: "\<not> q_crashed s \<Longrightarrow> queue_broadcast_guard s = Inr () \<Longrightarrow>
    queue_step E s (s\<lparr>q_calls := q_calls s @ [msgs]\<rparr>)"
| send: "\<not> q_crashed s \<Longrightarrow> i < length (q_calls s) \<Longrightarrow> q_calls s ! i = m # ms \<Longrightarrow>
    send_msg s i m ms = Some s' \<Longrightarrow> queue_step E s s'"
| enqueue_timeout: "\<not> q_crashed s \<Longrightarrow> i < length (q_calls s) \<Longrightarrow>
    queue_step E s (s\<lparr>q_calls := (q_calls s)[i := []]\<rparr>)"
| mark_closed: "\<not> q_crashed s \<Longrightarrow> c_can_sign (q_client s) \<Longrightarrow> \<not> q_flag s \<Longrightarrow>
    queue_step E s (s\<lparr>q_flag := True\<rparr>)"
| close_channel: "\<not> q_crashed s \<Longrightarrow> q_flag s \<Longrightarrow> \<not> q_chan_closed s \<Longrightarrow>
    queue_step E s (s\<lparr>q_chan_closed := True\<rparr>)"
| message: "goroutine_runs s \<Longrightarrow> q_msgs s = m # ms \<Longrightarrow> queue_step E s (on_message E s m ms)"
| closed: "goroutine_runs s \<Longrightarrow> q_msgs s = [] \<Longrightarrow> q_chan_closed s \<Longrightarrow> queue_step E s (on_closed E s)"
| timer: "goroutine_runs s \<Longrightarrow> queue_step E s (on_timer E s)"
| broadcast_done: "\<not> q_crashed s \<Longrightarrow> 0 < q_signals s \<Longrightarrow>
    queue_step E s (s\<lparr>q_signals := q_signals s - 1\<rparr>)"
| other_broadcast: "\<not> q_crashed s \<Longrightarrow> mutex_free s \<Longrightarrow> broadcast_retry E await (q_client s) (q_world s) ms = (r, c, w) \<Longrightarrow>
    queue_step E s (s\<lparr>q_client := c, q_world := w, q_crashed := panics r\<rparr>)"
| chain: "\<not> q_crashed s \<Longrightarrow> queue_step E s (s\<lparr>q_world := w\<rparr>)"

inductive_cases queue_stepE: "queue_step E s s'"

inductive queue_run :: "('m, 's) node_env \<Rightarrow> ('m, 's) queue \<Rightarrow> ('m, 's) queue \<Rightarrow> bool" for E where
  start: "queue_run E s s"
| more_steps: "queue_run E s s' \<Longrightarrow> queue_step E s' s'' \<Longrightarrow> queue_run E s s''"

lemma queue_run_step: "queue_step E s s' \<Longrightarrow> queue_run E s s'"
  by (blast intro: queue_run.intros)

lemma queue_run_trans: "queue_run E s' s'' \<Longrightarrow> queue_run E s s' \<Longrightarrow> queue_run E s s''"
  by (induction rule: queue_run.induct) (blast intro: queue_run.intros)+

section \<open>Invariant\<close>

text \<open>No broadcast changes whether the client can sign.\<close>

lemma broadcast_tx_can_sign:
  "broadcast_tx E await c w msgs = (r, c', w') \<Longrightarrow> c_can_sign c' = c_can_sign c"
  by (auto simp: broadcast_tx_def Let_def record_gas_def split: sum.splits prod.splits option.splits)

lemma load_nonce_can_sign [simp]: "c_can_sign (load_nonce c) = c_can_sign c"
  by (simp add: load_nonce_def)

lemma sync_nonce_can_sign: "sync_nonce E w c = Inr c' \<Longrightarrow> c_can_sign c' = c_can_sign c"
  by (auto simp: sync_nonce_def split: sum.splits fault.splits if_splits)

lemma broadcast_retry_can_sign:
  "broadcast_retry E await c w msgs = (r, c', w') \<Longrightarrow> c_can_sign c' = c_can_sign c"
  by (fastforce simp: broadcast_retry_def dest: broadcast_tx_can_sign sync_nonce_can_sign
      split: sum.splits prod.splits if_splits)

lemma submit_simps [simp]:
  "q_flag (submit E s ms) = q_flag s" "q_chan_closed (submit E s ms) = q_chan_closed s"
  "q_calls (submit E s ms) = q_calls s" "q_msgs (submit E s ms) = q_msgs s"
  "q_batch (submit E s ms) = q_batch s" "q_done (submit E s ms) = q_done s"
  "q_log (submit E s ms) = q_log s" "q_submitted (submit E s ms) = q_submitted s @ [ms]"
  "c_can_sign (q_client (submit E s ms)) = c_can_sign (q_client s)"
  by (auto simp: submit_def dest: broadcast_retry_can_sign split: prod.splits)

text \<open>
  Every message that entered the channel is, in order, in a submitted batch, in the batch being
  filled, or still in the channel; batches are non-empty and bounded; the goroutine returns only
  after a close with nothing left.
\<close>

definition queue_inv :: "('m, 's) queue \<Rightarrow> bool" where
  "queue_inv s \<longleftrightarrow>
     q_log s = concat (q_submitted s) @ q_batch s @ q_msgs s \<and>
     (\<forall>b \<in> set (q_submitted s). b \<noteq> [] \<and> length b \<le> msg_commit_batch_size_limit) \<and>
     length (q_batch s) < msg_commit_batch_size_limit \<and>
     length (q_msgs s) \<le> msg_commit_batch_size_limit \<and>
     (q_chan_closed s \<longrightarrow> q_flag s) \<and> (q_flag s \<longrightarrow> c_can_sign (q_client s)) \<and>
     (q_done s \<longrightarrow> q_chan_closed s \<and> q_batch s = [] \<and> q_msgs s = [])"

named_theorems queue_defs \<open>the operations of the queue\<close>

lemmas [queue_defs] = send_msg_def on_message_def on_closed_def on_timer_def goroutine_runs_def

lemma new_queue_inv: "queue_inv (new_queue c w)"
  by (simp add: queue_inv_def new_queue_def msg_commit_batch_size_limit_def)

lemma send_msg_inv:
  assumes "queue_inv s" and "send_msg s i m ms = Some s'"
  shows "queue_inv s'"
proof (cases "q_chan_closed s")
  case True
  then have "s' = s\<lparr>q_crashed := True\<rparr>" using assms(2) by (simp add: send_msg_def)
  then show ?thesis using assms(1) by (simp add: queue_inv_def)
next
  case False
  then have "length (q_msgs s) < msg_commit_batch_size_limit \<and>
      s' = s\<lparr>q_msgs := q_msgs s @ [m], q_calls := (q_calls s)[i := ms], q_log := q_log s @ [m]\<rparr>"
    using assms(2) by (simp add: send_msg_def split: if_splits)
  then show ?thesis using assms(1) False by (simp add: queue_inv_def)
qed

lemma submit_batch_inv: "queue_inv s \<Longrightarrow> q_batch s \<noteq> [] \<Longrightarrow> \<not> q_done s \<Longrightarrow>
    queue_inv (submit E (s\<lparr>q_batch := []\<rparr>) (q_batch s))"
  by (auto simp: queue_inv_def)

lemma on_message_inv:
  assumes "queue_inv s" and "q_msgs s = m # ms" and "\<not> q_done s"
  shows "queue_inv (on_message E s m ms)"
  using assms by (auto simp: queue_inv_def on_message_def Let_def)

lemma queue_inv_step:
  assumes "queue_step E s s'" and "queue_inv s"
  shows "queue_inv s'"
  using assms(1)
proof (cases rule: queue_step.cases)
  case (send i m ms)
  from send_msg_inv [OF assms(2) send(4)] show ?thesis .
next
  case (message m ms)
  then show ?thesis using assms(2) by (simp add: goroutine_runs_def on_message_inv)
next
  case closed
  then show ?thesis using assms(2) submit_batch_inv [of s E]
    by (auto simp: on_closed_def goroutine_runs_def Let_def queue_inv_def)
next
  case timer
  then show ?thesis using assms(2) submit_batch_inv [of s E]
    by (simp add: on_timer_def goroutine_runs_def)
next
  case (other_broadcast await ms r c w)
  then show ?thesis using assms(2) broadcast_retry_can_sign [OF other_broadcast(4)]
    by (simp add: queue_inv_def)
qed (use assms(2) in \<open>auto simp: queue_inv_def\<close>)

lemma queue_run_inv: "queue_run E s s' \<Longrightarrow> queue_inv s \<Longrightarrow> queue_inv s'"
  by (induction rule: queue_run.induct) (auto intro: queue_inv_step)

section \<open>Properties\<close>

text \<open>
  C22. No message is lost, reordered or repeated on its way to a batch.  In every state a run of the
  queue reaches from a new client, whatever the interleaving of callers, timers, closes and
  other broadcasts, the messages that entered the channel are, in the order in which they
  entered, those of the submitted batches, then the batch being filled, then the channel.  Each
  submitted batch has between 1 and 1024 messages, and when the goroutine has signalled \<open>doneC\<close>
  the channel was closed and every message that entered it was submitted.
\<close>

theorem queue_accounts_for_every_message:
  assumes "queue_run E (new_queue c w) s"
  shows "q_log s = concat (q_submitted s) @ q_batch s @ q_msgs s \<and>
    (\<forall>b \<in> set (q_submitted s). 0 < length b \<and> length b \<le> 1024) \<and>
    length (q_batch s) < 1024 \<and> length (q_msgs s) \<le> 1024 \<and>
    (q_done s \<longrightarrow> q_chan_closed s \<and> concat (q_submitted s) = q_log s)"
  using queue_run_inv [OF assms new_queue_inv]
  by (auto simp: queue_inv_def msg_commit_batch_size_limit_def)

text \<open>The signals of \<open>Broadcasted\<close> are consumed by \<open>BroadcastDone\<close>.\<close>

lemma drain_signals: "\<not> q_crashed s \<Longrightarrow> queue_run E s (s\<lparr>q_signals := 0\<rparr>)"
proof (induction "q_signals s" arbitrary: s)
  case 0
  then have "s\<lparr>q_signals := 0\<rparr> = s" by simp
  then show ?case by (metis queue_run.start)
next
  case (Suc n)
  have "queue_step E s (s\<lparr>q_signals := q_signals s - 1\<rparr>)"
    using Suc.prems Suc.hyps(2) by (intro queue_step.broadcast_done) auto
  moreover have "queue_run E (s\<lparr>q_signals := q_signals s - 1\<rparr>) (s\<lparr>q_signals := 0\<rparr>)"
    using Suc.hyps(1) [of "s\<lparr>q_signals := q_signals s - 1\<rparr>"] Suc.hyps(2) [symmetric] Suc.prems by simp
  ultimately show ?case by (metis queue_run_step queue_run_trans)
qed

text \<open>
  When a broadcast does not panic.  The SDK and the generated gRPC clients return their failures
  (\<open>calls_return\<close>); what panics is \<open>syncNonce\<close>, when the chain answers another account number than
  the client's.  A Cosmos chain never changes the number of an account, so the number it answers
  is \<open>n\<close> in every state, and \<open>NewChainClient\<close> reads the client's own from there; how often the
  client has to resync its sequence does not matter.
\<close>

definition calls_return :: "('m, 's) node_env \<Rightarrow> bool" where
  "calls_return E \<longleftrightarrow>
     (\<forall>w. \<not> panics (ensure_exists E w)) \<and> (\<forall>w. \<not> panics (number_sequence E w)) \<and>
     (\<forall>f ms. \<not> panics (build_sim_tx E f ms)) \<and> (\<forall>w b. \<not> panics (simulate_tx E w b)) \<and>
     (\<forall>f ms. \<not> panics (build_unsigned_tx E f ms)) \<and> (\<forall>f b. \<not> panics (sign_tx E f b)) \<and>
     (\<forall>b. \<not> panics (encode_tx E b)) \<and> (\<forall>w b. \<not> panics (fst (broadcast E w b))) \<and>
     (\<forall>w h. \<forall>p \<in> set (fst (polls E w h)). \<not> panics p)"

definition keeps_account :: "('m, 's) node_env \<Rightarrow> 64 word \<Rightarrow> bool" where
  "keeps_account E n \<longleftrightarrow> calls_return E \<and> (\<forall>w m q. number_sequence E w = Inr (m, q) \<longrightarrow> m = n)"

lemma panics_Inl: "panics (Inl e) \<longleftrightarrow> (\<exists>s. e = Panic s)"
  by (auto simp: panics_iff)

lemma await_tx_returns: "\<forall>p \<in> set ps. \<not> panics p \<Longrightarrow> \<not> panics (await_tx ps)"
  by (induction ps rule: await_tx.induct) (auto split: sum.splits fault.splits)

lemma send_and_await_returns:
  assumes "calls_return E" and "send_and_await E await w b = (r, w')"
  shows "\<not> panics r"
proof -
  obtain r1 w1 where bc: "broadcast E w b = (r1, w1)" by fastforce
  have "\<not> panics r1" using assms(1) bc unfolding calls_return_def by (metis fst_conv)
  moreover have "\<not> panics (await_tx (fst (polls E w1 h)))" for h
    using assms(1) by (intro await_tx_returns) (simp add: calls_return_def)
  ultimately show ?thesis
    using assms(2) bc by (auto simp: send_and_await_def split: sum.splits prod.splits if_splits) (metis fst_conv)
qed

lemma preparing_returns:
  assumes "calls_return E"
  shows "\<not> panics (prepare_factory E w f)" "\<not> panics (simulated_factory E w f msgs)"
    "\<not> panics (sign_and_encode E f msgs)"
  using assms
  by (auto simp: prepare_factory_def simulated_factory_def sign_and_encode_def calls_return_def Let_def)

lemma broadcast_tx_returns:
  assumes "calls_return E" and "broadcast_tx E await c w msgs = (r, c', w')"
  shows "\<not> panics r"
proof (cases "wrap_err ''failed to prepareFactory'' (prepare_factory E w (c_factory c))")
  case (Inl e)
  then have "\<not> panics (Inl e :: factory res)"
    using preparing_returns(1) [OF assms(1), of w "c_factory c"] by (metis panics_wrap_err)
  then show ?thesis using assms(2) Inl by (auto simp: broadcast_tx_def panics_Inl)
next
  case (Inr f)
  show ?thesis
  proof (cases "simulated_factory E w f msgs")
    case Inl': (Inl e)
    with preparing_returns(2) [OF assms(1), of w f msgs] assms(2) Inr show ?thesis
      by (auto simp: broadcast_tx_def panics_Inl)
  next
    case Inr': (Inr gf)
    obtain g f' where gf: "gf = (g, f')" by (cases gf)
    show ?thesis
    proof (cases "sign_and_encode E f' msgs")
      case Inl'': (Inl e)
      with preparing_returns(3) [OF assms(1), of f' msgs] assms(2) Inr Inr' gf show ?thesis
        by (auto simp: broadcast_tx_def panics_Inl)
    next
      case Inr'': (Inr b)
      obtain r1 w1 where "send_and_await E await w b = (r1, w1)" by fastforce
      with send_and_await_returns [OF assms(1) this] assms(2) Inr Inr' gf Inr'' show ?thesis
        by (simp add: broadcast_tx_def)
    qed
  qed
qed

lemma sync_nonce_returns:
  assumes "keeps_account E n" and "c_acc_num c = n"
  shows "\<not> panics (sync_nonce E w c)"
proof (cases "number_sequence E w")
  case (Inl e)
  have "\<not> panics (number_sequence E w)" using assms(1) by (simp add: keeps_account_def calls_return_def)
  with Inl show ?thesis by (cases e) (simp_all add: sync_nonce_def)
next
  case (Inr nq)
  then have "fst nq = n" using assms(1) by (cases nq) (auto simp: keeps_account_def)
  with Inr assms(2) show ?thesis by (cases nq) (simp add: sync_nonce_def)
qed

lemma broadcast_retry_returns:
  assumes "keeps_account E n" and "c_acc_num c = n" and "broadcast_retry E await c w msgs = (r, c', w')"
  shows "\<not> panics r \<and> c_acc_num c' = n"
proof -
  have ret: "calls_return E" using assms(1) by (simp add: keeps_account_def)
  obtain r1 c1 w1 where first: "broadcast_tx E await (load_nonce c) w msgs = (r1, c1, w1)"
    by (cases "broadcast_tx E await (load_nonce c) w msgs") auto
  have r1: "\<not> panics r1" and n1: "c_acc_num c1 = n"
    using broadcast_tx_returns [OF ret first] broadcast_tx_nonce [OF first] assms(2) by simp_all
  show ?thesis
  proof (cases "\<exists>e c2. r1 = Inl e \<and> is_mismatch e \<and> sync_nonce E w1 c1 = Inr c2")
    case False
    then show ?thesis
      using assms(3) first r1 n1 sync_nonce_returns [OF assms(1) n1, of w1]
      by (auto simp: broadcast_retry_def panics_Inl split: sum.splits if_splits)
  next
    case True
    then obtain e c2 where c2: "r1 = Inl e" "is_mismatch e" "sync_nonce E w1 c1 = Inr c2" by blast
    obtain r3 c3 w3 where second: "broadcast_tx E await (load_nonce c2) w1 msgs = (r3, c3, w3)"
      by (cases "broadcast_tx E await (load_nonce c2) w1 msgs") auto
    from broadcast_tx_returns [OF ret second] broadcast_tx_nonce [OF second] sync_nonce_Inr [OF c2(3)]
    show ?thesis using assms(3) first second c2 n1
      by (auto simp: broadcast_retry_def split: sum.splits)
  qed
qed

lemma submit_returns:
  assumes "keeps_account E n" and "c_acc_num (q_client s) = n"
  shows "q_crashed (submit E s ms) = q_crashed s" "c_acc_num (q_client (submit E s ms)) = n"
  using broadcast_retry_returns [OF assms(1)] assms(2) by (auto simp: submit_def split: prod.splits)

lemma queue_step_account:
  assumes "queue_step E s s'" and "keeps_account E n" and "c_acc_num (q_client s) = n"
  shows "c_acc_num (q_client s') = n"
  using assms(1)
proof (cases rule: queue_step.cases)
  case (other_broadcast await ms r c w)
  with broadcast_retry_returns [OF assms(2,3)] show ?thesis by simp
qed (use assms(2,3) in \<open>auto simp: send_msg_def on_message_def on_closed_def on_timer_def Let_def
       submit_returns split: if_splits\<close>)

lemma queue_run_account:
  "queue_run E s s' \<Longrightarrow> keeps_account E n \<Longrightarrow> c_acc_num (q_client s) = n \<Longrightarrow> c_acc_num (q_client s') = n"
  by (induction rule: queue_run.induct) (auto intro: queue_step_account)

lemma goroutine_drains:
  assumes "keeps_account E n"
  shows "c_acc_num (q_client s) = n \<Longrightarrow> c_can_sign (q_client s) \<Longrightarrow> \<not> q_done s \<Longrightarrow> \<not> q_crashed s \<Longrightarrow> q_chan_closed s \<Longrightarrow>
    \<exists>s'. queue_run E s s' \<and> q_done s' \<and> \<not> q_crashed s' \<and> q_log s' = q_log s"
proof (induction "q_msgs s" arbitrary: s)
  case Nil
  let ?t = "s\<lparr>q_signals := 0\<rparr>"
  have "goroutine_runs ?t" using Nil.prems by (simp add: goroutine_runs_def mutex_free_def)
  then have "queue_step E ?t (on_closed E ?t)"
    using Nil.hyps Nil.prems by (intro queue_step.closed) simp_all
  moreover have "q_done (on_closed E ?t)" "\<not> q_crashed (on_closed E ?t)"
    "q_log (on_closed E ?t) = q_log s"
    using submit_returns(1) [OF assms] Nil.prems by (simp_all add: on_closed_def Let_def)
  ultimately show ?case using drain_signals [OF Nil.prems(4)] by (metis queue_run_step queue_run_trans)
next
  case (Cons m ms)
  let ?t = "s\<lparr>q_signals := 0\<rparr>"
  let ?u = "on_message E ?t m ms"
  have "goroutine_runs ?t" using Cons.prems by (simp add: goroutine_runs_def mutex_free_def)
  then have step: "queue_step E ?t ?u"
    using Cons.hyps(2) [symmetric] by (intro queue_step.message) simp_all
  have "ms = q_msgs ?u" "c_acc_num (q_client ?u) = n" "c_can_sign (q_client ?u)" "\<not> q_done ?u" "\<not> q_crashed ?u" "q_chan_closed ?u"
    and log: "q_log ?u = q_log s"
    using submit_returns [OF assms] Cons.prems by (simp_all add: on_message_def Let_def)
  from Cons.hyps(1) [OF this(1-6)] obtain s' where
    "queue_run E ?u s'" "q_done s'" "\<not> q_crashed s'" "q_log s' = q_log ?u" by blast
  then show ?case
    using log drain_signals [OF Cons.prems(4), of E] queue_run_step [OF step] by (metis queue_run_trans)
qed

text \<open>A closed channel stays closed and takes no more messages.\<close>

lemma closed_channel_step:
  assumes "queue_step E s s'" and "q_chan_closed s"
  shows "q_chan_closed s' \<and> q_log s' = q_log s"
  using assms(1)
  by (cases rule: queue_step.cases)
    (use assms(2) in \<open>auto simp: send_msg_def on_message_def on_closed_def on_timer_def Let_def\<close>)

lemma closed_channel_run: "queue_run E s s' \<Longrightarrow> q_chan_closed s \<Longrightarrow> q_chan_closed s' \<and> q_log s' = q_log s"
  by (induction rule: queue_run.induct) (auto dest: closed_channel_step)

text \<open>
  C24. Closing flushes.  From every state the queue can reach in which the channel has been closed
  and the process has not crashed, the run can be completed: the goroutine takes out what is in
  the channel, submits its last batch and signals \<open>doneC\<close>.  And however a run from such a state goes,
  once the goroutine has signalled \<open>doneC\<close> every message that ever entered the channel has been
  submitted, in order, with nothing added after the close.
  The hypotheses on the node (\<open>keeps_account\<close>) are that its calls and the SDK's return their
  failures and that whenever it answers an account number, that is the client's: without the
  second, the resync after a sequence mismatch panics.  Mismatches and resyncs themselves are
  allowed, and so is every other failure.
\<close>

theorem close_submits_everything:
  assumes "keeps_account E (c_acc_num c)" and "queue_run E (new_queue c w) s"
    and "q_chan_closed s" and "\<not> q_crashed s"
  shows "(\<exists>s'. queue_run E s s' \<and> q_done s' \<and> \<not> q_crashed s') \<and>
    (\<forall>s'. queue_run E s s' \<and> q_done s' \<longrightarrow> concat (q_submitted s') = q_log s)"
proof -
  have inv: "queue_inv s" using queue_run_inv [OF assms(2) new_queue_inv] .
  have account: "c_acc_num (q_client s) = c_acc_num c"
    using queue_run_account [OF assms(2,1)] by (simp add: new_queue_def)
  have "\<exists>s'. queue_run E s s' \<and> q_done s' \<and> \<not> q_crashed s'"
  proof (cases "q_done s")
    case True
    then show ?thesis using assms(4) queue_run.start by blast
  next
    case False
    have "c_can_sign (q_client s)" using inv assms(3) by (simp add: queue_inv_def)
    from goroutine_drains [OF assms(1) account this False assms(4,3)] show ?thesis by blast
  qed
  moreover have "concat (q_submitted s') = q_log s" if "queue_run E s s'" "q_done s'" for s'
    using queue_run_inv [OF that(1) inv] that(2) closed_channel_run [OF that(1) assms(3)]
    by (simp add: queue_inv_def)
  ultimately show ?thesis by blast
qed

text \<open>
  C25. Closing can crash a caller.  For every client that can sign, every node and every message there is a run
  in which a call of \<open>QueueBroadcastMsg\<close> passes its check, \<open>Close\<close> then closes the channel, and
  the call's send on the closed channel panics; nothing was submitted.
\<close>

theorem close_can_crash_a_caller:
  "c_can_sign c \<longrightarrow> (\<exists>s. queue_run E (new_queue c w) s \<and> q_crashed s \<and> q_calls s = [[m]] \<and> q_submitted s = [])"
proof
  assume sign: "c_can_sign c"
  define s1 where "s1 = (new_queue c w :: ('a, 'b) queue)\<lparr>q_calls := [[m]]\<rparr>"
  define s2 where "s2 = s1\<lparr>q_flag := True\<rparr>"
  define s3 where "s3 = s2\<lparr>q_chan_closed := True\<rparr>"
  define s4 where "s4 = s3\<lparr>q_crashed := True\<rparr>"
  note defs = s4_def s3_def s2_def s1_def new_queue_def
  have "queue_step E (new_queue c w) s1"
    using queue_step.enqueue [of "new_queue c w" E "[m]"] sign
    by (simp add: defs queue_broadcast_guard_def)
  then have 1: "queue_run E (new_queue c w) s1" by (rule queue_run_step)
  have "queue_step E s1 s2"
    using queue_step.mark_closed [of s1 E] sign by (simp add: defs)
  with 1 have 2: "queue_run E (new_queue c w) s2" by (rule queue_run.more_steps)
  have "queue_step E s2 s3"
    using queue_step.close_channel [of s2 E] by (simp add: defs)
  with 2 have 3: "queue_run E (new_queue c w) s3" by (rule queue_run.more_steps)
  have "queue_step E s3 s4"
    using queue_step.send [of s3 0 m "[]" s4 E] by (simp add: defs send_msg_def)
  with 3 have "queue_run E (new_queue c w) s4" by (rule queue_run.more_steps)
  then show "\<exists>s. queue_run E (new_queue c w) s \<and> q_crashed s \<and> q_calls s = [[m]] \<and> q_submitted s = []"
    by (intro exI [of _ s4]) (simp add: defs)
qed

section \<open>The queue as a pipe\<close>

text \<open>
  What the queue promises its callers, without channel, batch, timers and goroutine: a pipe that
  accepts messages until it is closed, submits non-empty batches of at most 1024 from its
  front, and finishes when it is closed and empty.  It never holds 2048 messages.  Its steps are
  labelled with what a caller or the node can see of them, so a run has a trace.
\<close>

datatype 'm event = Accept 'm | Submit "'m list" | Close | Finish

record 'm pipe =
  p_buffer :: "'m list"
  p_closed :: bool
  p_finished :: bool

definition empty_pipe :: "'m pipe" where
  "empty_pipe = \<lparr>p_buffer = [], p_closed = False, p_finished = False\<rparr>"

inductive pipe_step :: "'m pipe \<Rightarrow> 'm event \<Rightarrow> 'm pipe \<Rightarrow> bool" where
  accept: "\<not> p_closed p \<Longrightarrow> length (p_buffer p) + 1 < 2048 \<Longrightarrow>
    pipe_step p (Accept m) (p\<lparr>p_buffer := p_buffer p @ [m]\<rparr>)"
| submits: "p_buffer p = b @ rest \<Longrightarrow> b \<noteq> [] \<Longrightarrow> length b \<le> 1024 \<Longrightarrow> \<not> p_finished p \<Longrightarrow>
    pipe_step p (Submit b) (p\<lparr>p_buffer := rest\<rparr>)"
| close: "\<not> p_closed p \<Longrightarrow> pipe_step p Close (p\<lparr>p_closed := True\<rparr>)"
| finish: "p_closed p \<Longrightarrow> p_buffer p = [] \<Longrightarrow> \<not> p_finished p \<Longrightarrow>
    pipe_step p Finish (p\<lparr>p_finished := True\<rparr>)"

inductive pipe_trace :: "'m pipe \<Rightarrow> 'm event list \<Rightarrow> 'm pipe \<Rightarrow> bool" where
  no_events: "pipe_trace p [] p"
| one_more: "pipe_trace p es p' \<Longrightarrow> pipe_step p' e p'' \<Longrightarrow> pipe_trace p (es @ [e]) p''"

lemma pipe_trace_append: "pipe_trace p' es' p'' \<Longrightarrow> pipe_trace p es p' \<Longrightarrow> pipe_trace p (es @ es') p''"
proof (induction rule: pipe_trace.induct)
  case (one_more p' es' q e p'')
  then show ?case using pipe_trace.one_more [of p "es @ es'" q e p''] by simp
qed simp

lemma pipe_trace_step: "pipe_step p e p' \<Longrightarrow> pipe_trace p [e] p'"
  using pipe_trace.one_more [OF pipe_trace.no_events] by fastforce

text \<open>
  The events of one step of the queue, read off the states around it: the messages that entered
  the channel, the batches handed to \<open>submitBatch\<close>, the close of the channel and the end of the
  goroutine.
\<close>

definition step_events :: "('m, 's) queue \<Rightarrow> ('m, 's) queue \<Rightarrow> 'm event list" where
  "step_events s s' =
     map Accept (drop (length (q_log s)) (q_log s')) @
     map Submit (drop (length (q_submitted s)) (q_submitted s')) @
     (if q_chan_closed s' \<and> \<not> q_chan_closed s then [Close] else []) @
     (if q_done s' \<and> \<not> q_done s then [Finish] else [])"

inductive queue_trace ::
  "('m, 's) node_env \<Rightarrow> ('m, 's) queue \<Rightarrow> 'm event list \<Rightarrow> ('m, 's) queue \<Rightarrow> bool" for E where
  no_steps: "queue_trace E s [] s"
| step_more: "queue_trace E s es s' \<Longrightarrow> queue_step E s' s'' \<Longrightarrow>
    queue_trace E s (es @ step_events s' s'') s''"

lemma queue_trace_run: "queue_trace E s es s' \<Longrightarrow> queue_run E s s'"
  by (induction rule: queue_trace.induct) (auto intro: queue_run.intros)

lemma queue_run_trace: "queue_run E s s' \<Longrightarrow> \<exists>es. queue_trace E s es s'"
  by (induction rule: queue_run.induct) (auto intro: queue_trace.intros)

text \<open>What the callers put in and what the node was handed, in a trace.\<close>

fun accepted :: "'m event list \<Rightarrow> 'm list" where
  "accepted [] = []"
| "accepted (Accept m # es) = m # accepted es"
| "accepted (_ # es) = accepted es"

fun submitted :: "'m event list \<Rightarrow> 'm list list" where
  "submitted [] = []"
| "submitted (Submit b # es) = b # submitted es"
| "submitted (_ # es) = submitted es"

lemma accepted_append [simp]: "accepted (es @ es') = accepted es @ accepted es'"
  by (induction es rule: accepted.induct) simp_all

lemma submitted_append [simp]: "submitted (es @ es') = submitted es @ submitted es'"
  by (induction es rule: submitted.induct) simp_all

lemma accepted_maps [simp]: "accepted (map Accept ms) = ms" "accepted (map Submit bs) = []"
  by (induction ms, simp_all) (induction bs, simp_all)

lemma submitted_maps [simp]: "submitted (map Accept ms) = []" "submitted (map Submit bs) = bs"
  by (induction ms, simp_all) (induction bs, simp_all)

lemma queue_step_grows:
  assumes "queue_step E s s'"
  shows "\<exists>ms. q_log s' = q_log s @ ms" "\<exists>bs. q_submitted s' = q_submitted s @ bs"
  using assms
  by (cases rule: queue_step.cases,
      auto simp: send_msg_def on_message_def on_closed_def on_timer_def Let_def split: if_splits)+

lemma step_events_log:
  assumes "queue_step E s s'"
  shows "q_log s' = q_log s @ accepted (step_events s s')"
    "q_submitted s' = q_submitted s @ submitted (step_events s s')"
  using queue_step_grows [OF assms] by (auto simp: step_events_def)

definition pipe_of :: "('m, 's) queue \<Rightarrow> 'm pipe" where
  "pipe_of s = \<lparr>p_buffer = q_batch s @ q_msgs s, p_closed = q_chan_closed s, p_finished = q_done s\<rparr>"

text \<open>Handing over a batch is one step of the pipe, whatever the node answers.\<close>

lemma submit_delivers:
  assumes "p_buffer (pipe_of s) = b @ q_msgs t" and "b \<noteq> []" and "length b \<le> 1024" and "\<not> q_done s"
    and "q_batch t = []" "q_chan_closed t = q_chan_closed s" "q_done t = q_done s"
  shows "pipe_step (pipe_of s) (Submit b) (pipe_of (submit E t b))"
  using pipe_step.submits [of "pipe_of s" b "q_msgs t"] assms by (simp add: pipe_of_def)

lemma on_message_refines:
  assumes "queue_inv s" and "goroutine_runs s" and "q_msgs s = m # ms"
  shows "pipe_trace (pipe_of s) (step_events s (on_message E s m ms)) (pipe_of (on_message E s m ms))"
proof (cases "length (q_batch s @ [m]) \<ge> msg_commit_batch_size_limit")
  case True
  have "pipe_step (pipe_of s) (Submit (q_batch s @ [m]))
      (pipe_of (submit E (s\<lparr>q_msgs := ms, q_batch := []\<rparr>) (q_batch s @ [m])))"
    using assms by (intro submit_delivers)
      (auto simp: pipe_of_def queue_inv_def goroutine_runs_def msg_commit_batch_size_limit_def)
  then show ?thesis using True by (simp add: on_message_def step_events_def pipe_trace_step)
next
  case False
  then show ?thesis using assms(3)
    by (simp add: on_message_def pipe_of_def step_events_def pipe_trace.no_events)
qed

lemma on_timer_refines:
  assumes "queue_inv s" and "goroutine_runs s"
  shows "pipe_trace (pipe_of s) (step_events s (on_timer E s)) (pipe_of (on_timer E s))"
proof (cases "q_batch s = []")
  case False
  have "pipe_step (pipe_of s) (Submit (q_batch s)) (pipe_of (submit E (s\<lparr>q_batch := []\<rparr>) (q_batch s)))"
    using assms False by (intro submit_delivers)
      (auto simp: pipe_of_def queue_inv_def goroutine_runs_def msg_commit_batch_size_limit_def)
  then show ?thesis using False by (simp add: on_timer_def step_events_def pipe_trace_step)
qed (simp add: on_timer_def step_events_def pipe_trace.no_events)

text \<open>The last batch at the close is the one the timer would submit.\<close>

lemma on_closed_is_timer_then_done:
  "on_closed E s = (let t = on_timer E s in if q_crashed t then t else t\<lparr>q_done := True\<rparr>)"
  by (simp add: on_closed_def on_timer_def Let_def)

lemma on_closed_refines:
  assumes "queue_inv s" and "goroutine_runs s" and "q_msgs s = []" and "q_chan_closed s"
  shows "pipe_trace (pipe_of s) (step_events s (on_closed E s)) (pipe_of (on_closed E s))"
proof -
  let ?t = "on_timer E s"
  have t: "p_closed (pipe_of ?t)" "p_buffer (pipe_of ?t) = []" "\<not> p_finished (pipe_of ?t)"
    using assms(2-4) by (simp_all add: pipe_of_def on_timer_def goroutine_runs_def)
  have "pipe_of (?t\<lparr>q_done := True\<rparr>) = (pipe_of ?t)\<lparr>p_finished := True\<rparr>" by (simp add: pipe_of_def)
  with pipe_step.finish [OF t]
  have fin: "pipe_trace (pipe_of ?t) [Finish] (pipe_of (?t\<lparr>q_done := True\<rparr>))"
    by (simp add: pipe_trace_step)
  have "step_events s (?t\<lparr>q_done := True\<rparr>) = step_events s ?t @ [Finish]"
    using assms(2) by (simp add: step_events_def on_timer_def goroutine_runs_def)
  with pipe_trace_append [OF fin on_timer_refines [OF assms(1,2)]] on_timer_refines [OF assms(1,2)]
  show ?thesis by (simp add: on_closed_is_timer_then_done Let_def)
qed

lemma send_msg_refines:
  assumes "queue_inv s" and "send_msg s i m ms = Some s'"
  shows "pipe_trace (pipe_of s) (step_events s s') (pipe_of s')"
proof (cases "q_chan_closed s")
  case True
  then have "s' = s\<lparr>q_crashed := True\<rparr>" using assms(2) by (simp add: send_msg_def)
  then show ?thesis by (simp add: pipe_of_def step_events_def pipe_trace.no_events)
next
  case False
  then have s': "s' = s\<lparr>q_msgs := q_msgs s @ [m], q_calls := (q_calls s)[i := ms], q_log := q_log s @ [m]\<rparr>"
    and "\<not> p_closed (pipe_of s)" and "length (p_buffer (pipe_of s)) + 1 < 2048"
    using assms by (auto simp: send_msg_def pipe_of_def queue_inv_def msg_commit_batch_size_limit_def split: if_splits)
  moreover have "step_events s s' = [Accept m]" using s' by (simp add: step_events_def)
  moreover have "pipe_of s' = (pipe_of s)\<lparr>p_buffer := p_buffer (pipe_of s) @ [m]\<rparr>"
    using s' by (simp add: pipe_of_def)
  ultimately show ?thesis by (simp add: pipe_trace_step pipe_step.accept)
qed

text \<open>A step that leaves channel, batch and flags alone is silent.\<close>

lemma silent_step:
  assumes "q_log s' = q_log s" "q_submitted s' = q_submitted s" "q_batch s' = q_batch s"
    "q_msgs s' = q_msgs s" "q_chan_closed s' = q_chan_closed s" "q_done s' = q_done s"
  shows "pipe_trace (pipe_of s) (step_events s s') (pipe_of s')"
  using assms by (simp add: pipe_of_def step_events_def pipe_trace.no_events)

lemma queue_step_refines:
  assumes "queue_step E s s'" and "queue_inv s"
  shows "pipe_trace (pipe_of s) (step_events s s') (pipe_of s')"
  using assms(1)
proof (cases rule: queue_step.cases)
  case (send i m ms)
  from send_msg_refines [OF assms(2) send(4)] show ?thesis .
next
  case (message m ms)
  then show ?thesis using on_message_refines [OF assms(2)] by simp
next
  case closed
  then show ?thesis using on_closed_refines [OF assms(2)] by simp
next
  case timer
  then show ?thesis using on_timer_refines [OF assms(2)] by simp
next
  case close_channel
  have "pipe_step (pipe_of s) Close (pipe_of s')"
    using pipe_step.close [of "pipe_of s"] close_channel by (simp add: pipe_of_def)
  then show ?thesis using close_channel by (simp add: step_events_def pipe_trace_step)
qed (auto intro!: silent_step)

text \<open>
  C23. The queue implements the pipe.  Take any run of callers, goroutine, timers, closes, other
  broadcasts and the chain from a new client, and its trace \<open>es\<close> of visible events: each message
  as it enters the channel, each batch as it is handed to \<open>submitBatch\<close>, the close of the channel
  and the end of the goroutine, in the order in which they happen.  The same trace is a trace of the
  abstract pipe, in which a batch can only be the next 1 to 1024 messages of those accepted before
  and not yet submitted, nothing is accepted after the close, there is one close and one finish, and the
  finish comes after the close with nothing left.  The accepted messages of the trace are the log
  of the channel and its batches the submitted ones.
\<close>

theorem queue_refines_pipe:
  assumes "queue_trace E (new_queue c w) es s"
  shows "pipe_trace empty_pipe es (pipe_of s) \<and> accepted es = q_log s \<and> submitted es = q_submitted s"
proof -
  have "queue_trace E t es u \<Longrightarrow> queue_inv t \<Longrightarrow>
      pipe_trace (pipe_of t) es (pipe_of u) \<and> q_log u = q_log t @ accepted es \<and>
      q_submitted u = q_submitted t @ submitted es" for t u
  proof (induction rule: queue_trace.induct)
    case (step_more s es s' s'')
    then show ?case
      using queue_step_refines [of E s' s''] queue_run_inv [OF queue_trace_run [OF step_more.hyps(1)]]
        step_events_log [OF step_more.hyps(2)] pipe_trace_append
      by fastforce
  qed (simp add: pipe_trace.no_events)
  from this [OF assms new_queue_inv] show ?thesis
    by (simp add: pipe_of_def new_queue_def empty_pipe_def)
qed

text \<open>What the pipe excludes: a message after the close, and a batch out of order.\<close>

lemma pipe_trace_accounts:
  "pipe_trace p es p' \<Longrightarrow> p_buffer p @ accepted es = concat (submitted es) @ p_buffer p'"
proof (induction rule: pipe_trace.induct)
  case (one_more p es p' e p'')
  from one_more.hyps(2) one_more.IH show ?case by (cases rule: pipe_step.cases) simp_all
qed simp

lemma pipe_closed_stays: "pipe_trace p es p' \<Longrightarrow> p_closed p \<Longrightarrow> p_closed p' \<and> accepted es = []"
proof (induction rule: pipe_trace.induct)
  case (one_more p es p' e p'')
  from one_more.hyps(2) one_more.IH one_more.prems show ?case by (cases rule: pipe_step.cases) simp_all
qed simp

section \<open>A concrete run\<close>

lemma demo_node_keeps_account: "keeps_account demo_node (c_acc_num demo_client)"
  by (auto simp: keeps_account_def calls_return_def demo_node_def demo_client_def Let_def)

text \<open>
  A node that simulates and answers a wrong sequence with an error keeps the account too: the
  client at 3 on a chain at 5 is answered with a mismatch, resyncs and gets through.
\<close>

definition resync_node :: "(8 word, 64 word) node_env" where
  "resync_node =
     demo_node\<lparr>ctx_simulate := True, build_sim_tx := (\<lambda>f m. Inr (put_le (f_sequence f) @ m)),
       simulate_tx := (\<lambda>w b. if demo_seq b = w then Inr (100, [])
                            else Inl (Err ''account sequence mismatch''))\<rparr>"

lemma resync_node_keeps_account: "keeps_account resync_node (c_acc_num demo_client)"
  using demo_node_keeps_account
  by (simp add: keeps_account_def calls_return_def resync_node_def)

lemma resync_node_resyncs:
  "\<exists>c'. broadcast_retry resync_node True demo_client 5 [1] =
     (Inr \<lparr>r_code = 0, r_hash = [], r_height = 5, r_gas_used = 0\<rparr>, c', 6) \<and> c_acc_seq c' = 6"
proof -
  have mismatch: "is_mismatch (Err ''failed to CalculateGas: account sequence mismatch'')"
    by code_simp
  have "broadcast_tx resync_node True (load_nonce demo_client) 5 [1] =
      (Inl (Err ''failed to CalculateGas: account sequence mismatch''), load_nonce demo_client, 5)"
    by (simp add: broadcast_tx_def prepare_factory_def simulated_factory_def resync_node_def
        demo_node_def demo_client_def load_nonce_def)
  moreover have "sync_nonce resync_node 5 (load_nonce demo_client) =
      Inr ((load_nonce demo_client)\<lparr>c_acc_seq := 5\<rparr>)"
    by (simp add: sync_nonce_def resync_node_def demo_node_def demo_client_def load_nonce_def)
  moreover have "broadcast_tx resync_node True
        (load_nonce ((load_nonce demo_client)\<lparr>c_acc_seq := 5\<rparr>)) 5 [1] =
      (Inr \<lparr>r_code = 0, r_hash = [], r_height = 5, r_gas_used = 0\<rparr>,
       record_gas (Some 100) (load_nonce ((load_nonce demo_client)\<lparr>c_acc_seq := 5\<rparr>)), 6)"
    by (simp add: broadcast_tx_def prepare_factory_def simulated_factory_def sign_and_encode_def
        send_and_await_def resync_node_def demo_node_def demo_client_def load_nonce_def Let_def)
  ultimately show ?thesis using mismatch by (simp add: broadcast_retry_def)
qed

text \<open>Two messages are sent, the first is batched and submitted by the timer, then the channel is closed.\<close>

lemma demo_queue_run:
  "\<exists>s. queue_run demo_node (new_queue demo_client 3) s \<and> q_submitted s = [[1]] \<and> q_chan_closed s \<and>
     \<not> q_crashed s \<and> q_log s = [1, 2] \<and> q_msgs s = [2]"
proof -
  let ?E = demo_node
  define s0 where "s0 = (new_queue demo_client 3 :: (8 word, 64 word) queue)"
  define s1 where "s1 = s0\<lparr>q_calls := [[1, 2]]\<rparr>"
  define s2 where "s2 = s1\<lparr>q_msgs := [1], q_calls := [[2]], q_log := [1]\<rparr>"
  define s3 where "s3 = s2\<lparr>q_msgs := [1, 2], q_calls := [[]], q_log := [1, 2]\<rparr>"
  define s4 where "s4 = s3\<lparr>q_msgs := [2], q_batch := [1]\<rparr>"
  define s5 where "s5 = submit ?E (s4\<lparr>q_batch := []\<rparr>) [1]"
  define s6 where "s6 = s5\<lparr>q_flag := True\<rparr>"
  define s7 where "s7 = s6\<lparr>q_chan_closed := True\<rparr>"
  note early = s4_def s3_def s2_def s1_def s0_def new_queue_def
  have sign: "c_can_sign demo_client" by (simp add: demo_client_def)
  have "c_acc_num (q_client (s4\<lparr>q_batch := []\<rparr>)) = c_acc_num demo_client" by (simp add: early)
  then have returns: "\<not> q_crashed s5"
    using submit_returns(1) [OF demo_node_keeps_account] by (simp add: s5_def early)
  have "queue_run ?E s0 s0" by (rule queue_run.start)
  moreover have "queue_step ?E s0 s1"
    using queue_step.enqueue [of s0 ?E "[1, 2]"] sign by (simp add: early queue_broadcast_guard_def)
  moreover have "queue_step ?E s1 s2"
    using queue_step.send [of s1 0 1 "[2]" s2 ?E]
    by (simp add: early send_msg_def msg_commit_batch_size_limit_def)
  moreover have "queue_step ?E s2 s3"
    using queue_step.send [of s2 0 2 "[]" s3 ?E]
    by (simp add: early send_msg_def msg_commit_batch_size_limit_def)
  moreover have "queue_step ?E s3 s4"
    using queue_step.message [of s3 1 "[2]" ?E] sign
    by (simp add: early goroutine_runs_def on_message_def msg_commit_batch_size_limit_def
        mutex_free_def)
  moreover have "queue_step ?E s4 s5"
    using queue_step.timer [of s4 ?E] sign
    by (simp add: s5_def early goroutine_runs_def on_timer_def mutex_free_def)
  moreover have "queue_step ?E s5 s6" "queue_step ?E s6 s7"
    using queue_step.mark_closed [of s5 ?E] queue_step.close_channel [of s6 ?E] sign
      returns
    by (simp_all add: s7_def s6_def s5_def early)
  ultimately have "queue_run ?E s0 s7" by (meson queue_run.more_steps)
  then show ?thesis
    using returns by (intro exI [of _ s7]) (simp add: s7_def s6_def s5_def early)
qed

theorem queue_accounts_for_every_message_witness:
  "\<exists>s. queue_run demo_node (new_queue demo_client 3) s \<and> q_submitted s = [[1]] \<and>
     q_log s = [1] @ q_batch s @ q_msgs s"
  using demo_queue_run queue_accounts_for_every_message by force

theorem close_submits_everything_witness:
  "\<exists>s s'. queue_run demo_node (new_queue demo_client 3) s \<and> queue_run demo_node s s' \<and> q_done s' \<and>
     concat (q_submitted s') = [1, 2]"
  using demo_queue_run close_submits_everything [OF demo_node_keeps_account] by metis

theorem queue_refines_pipe_witness:
  "\<exists>es s. queue_trace demo_node (new_queue demo_client 3) es s \<and> accepted es = [1, 2] \<and>
     submitted es = [[1]] \<and> p_closed (pipe_of s) \<and> pipe_trace empty_pipe es (pipe_of s)"
proof -
  obtain s where s: "queue_run demo_node (new_queue demo_client 3) s" "q_submitted s = [[1]]"
    "q_chan_closed s" "q_log s = [1, 2]"
    using demo_queue_run by blast
  from queue_run_trace [OF s(1)] obtain es where es: "queue_trace demo_node (new_queue demo_client 3) es s"
    by blast
  have "p_closed (pipe_of s)" using s(3) by (simp add: pipe_of_def)
  with queue_refines_pipe [OF es] es s(2,4) show ?thesis by (intro exI [of _ es] exI [of _ s]) simp
qed

theorem close_can_crash_a_caller_witness:
  "\<exists>s. queue_run demo_node (new_queue demo_client 3) s \<and> q_crashed s \<and> q_calls s = [[9]]"
proof -
  have "c_can_sign demo_client" by (simp add: demo_client_def)
  with close_can_crash_a_caller [of demo_client demo_node 3 9] show ?thesis by blast
qed

end
