(* ===== verification/Client_Setup.thy ===== *)
theory Client_Setup
  imports Batch_Queue
begin

text \<open>
  Setting up a client (\<open>client/common\<close>, \<open>NewChainClient\<close> of \<open>client/chain/chain.go\<close>), the block
  queries of \<open>client/tm/tmclient.go\<close>, and the write-ahead log of \<open>chain/eventstream/types/wal.go\<close>
  with the contract its two implementations share.
\<close>

section \<open>Networks and addresses\<close>

record network =
  nw_lcd :: string
  nw_tm :: string
  nw_grpc :: string
  nw_chain_id :: string
  nw_name :: string

definition load_network :: "string \<Rightarrow> network" where
  "load_network name =
     (if name = ''local'' then
        \<lparr>nw_lcd = ''http://localhost:10337'', nw_tm = ''http://localhost:26657'', nw_grpc = ''localhost:9900'',
         nw_chain_id = ''flux-1'', nw_name = ''local''\<rparr>
      else if name = ''devnet'' then
        \<lparr>nw_lcd = ''https://devnet.lcd.fluxnft.space/'', nw_tm = ''https://devnet.tm.fluxnft.space/'',
         nw_grpc = ''52.22.4.129:9900'', nw_chain_id = ''flux-1'', nw_name = ''devnet''\<rparr>
      else \<lparr>nw_lcd = [], nw_tm = [], nw_grpc = [], nw_chain_id = [], nw_name = []\<rparr>)"

fun contains_elem :: "string list \<Rightarrow> string \<Rightarrow> bool" where
  "contains_elem [] e = False"
| "contains_elem (a # s) e = (if a = e then True else contains_elem s e)"

definition protocol_and_address :: "string \<Rightarrow> string \<times> string" where
  "protocol_and_address listen =
     (case split2 ''://'' listen of [p, a] \<Rightarrow> (p, a) | _ \<Rightarrow> (''tcp'', listen))"

text \<open>The domain \<open>LoadTlsCert\<close> takes from \<open>tcp://domain:port\<close>: \<open>strings.Split(serverName, ":")[1][2:]\<close>.\<close>

definition tls_domain :: "string \<Rightarrow> string res" where
  "tls_domain server =
     bind_res (index_at (split_char CHR '':'' server) 1) (\<lambda>part.
       if length part < 2 then Inl (Panic ''slice bounds out of range'') else Inr (drop 2 part))"

lemma contains_elem_iff: "contains_elem s e \<longleftrightarrow> e \<in> set s"
  by (induction s) auto

lemma tls_domain_of_url: "CHR '':'' \<notin> set p \<Longrightarrow> CHR '':'' \<notin> set d \<Longrightarrow> tls_domain (p @ ''://'' @ d @ CHR '':'' # port) = Inr d"
  by (simp add: tls_domain_def split_char_append_sep index_at_def)

lemma tls_domain_without_colon: "CHR '':'' \<notin> set s \<Longrightarrow> panics (tls_domain s)"
  by (simp add: tls_domain_def split_char_no_sep index_at_def)

section \<open>Options and construction\<close>

record client_options =
  op_gas_prices :: string
  op_tls :: bool

type_synonym client_option = "client_options \<Rightarrow> client_options res"

definition default_client_options :: client_options where
  "default_client_options = \<lparr>op_gas_prices = [], op_tls = False\<rparr>"

text \<open>\<open>parse\<close> is \<open>sdk.ParseDecCoins\<close>.\<close>

definition option_gas_prices :: "(string \<Rightarrow> unit res) \<Rightarrow> string \<Rightarrow> client_option" where
  "option_gas_prices parse prices opts =
     bind_res (wrap_err ''failed to ParseDecCoins'' (parse prices)) (\<lambda>_. Inr (opts\<lparr>op_gas_prices := prices\<rparr>))"

definition option_tls_cert :: "bool \<Rightarrow> client_option" where
  "option_tls_cert cert opts = Inr (opts\<lparr>op_tls := cert\<rparr>)"

fun apply_options :: "client_option list \<Rightarrow> client_options \<Rightarrow> client_options res" where
  "apply_options [] opts = Inr opts"
| "apply_options (f # fs) opts = bind_res (wrap_err ''error in client option'' (f opts)) (apply_options fs)"

text \<open>
  \<open>NewChainClient\<close>, up to the session cookie: \<open>keyring\<close> says whether the context has a keyring,
  \<open>from\<close> is its address.  The queue starts empty; the factory of \<open>NewTxFactory\<close> has no nonce.
\<close>

definition new_chain_client ::
  "('m, 's) node_env \<Rightarrow> client_option list \<Rightarrow> bool \<Rightarrow> bytes \<Rightarrow> 's \<Rightarrow> ('m, 's) queue res" where
  "new_chain_client E options keyring from_addr w =
     bind_res (apply_options options default_client_options) (\<lambda>opts.
     let c = \<lparr>c_acc_num = 0, c_acc_seq = 0, c_gas_wanted = 0,
              c_factory = \<lparr>f_account_number = 0, f_sequence = 0, f_gas = 0, f_timeout_height = 0\<rparr>,
              c_can_sign = keyring, c_from_address = from_addr, c_gas_prices = op_gas_prices opts\<rparr> in
     if keyring then
       bind_res (wrap_err ''failed to get initial account num and seq'' (number_sequence E w)) (\<lambda>(num, seq).
         Inr (new_queue (c\<lparr>c_acc_num := num, c_acc_seq := seq\<rparr>) w))
     else Inr (new_queue c w))"

text \<open>A read-only client refuses to queue messages and can never get a goroutine that runs.\<close>

lemma read_only_client:
  assumes "new_chain_client E options False a w = Inr s" and "queue_run E s s'"
  shows "queue_broadcast_guard s' = Inl (Err ''client is in read-only mode'') \<and> \<not> goroutine_runs s' \<and> q_submitted s' = []"
proof -
  have "\<not> c_can_sign (q_client s) \<and> q_submitted s = []" 
    using assms(1) by (auto simp: new_chain_client_def new_queue_def Let_def)
  with assms(2) have "\<not> c_can_sign (q_client s') \<and> q_submitted s' = []"
  proof (induction rule: queue_run.induct)
    case (more_steps s s' s'')
    from more_steps(2) more_steps.IH [OF more_steps.prems] show ?case
    proof (cases rule: queue_step.cases)
      case (send i m ms)
      with more_steps.IH [OF more_steps.prems] show ?thesis by (auto simp: send_msg_def split: if_splits)
    next
      case (other_broadcast await ms r c w)
      with more_steps.IH [OF more_steps.prems] broadcast_retry_can_sign [OF other_broadcast(4)]
      show ?thesis by simp
    qed (auto simp: goroutine_runs_def)
  qed
  then show ?thesis by (simp add: queue_broadcast_guard_def goroutine_runs_def)
qed

section \<open>Transactions of a block\<close>

text \<open>\<open>GetTxs\<close>: a hash the node does not find is skipped, any other error is returned.\<close>

fun get_txs :: "(bytes \<Rightarrow> 'tx res) \<Rightarrow> bytes list \<Rightarrow> 'tx list res" where
  "get_txs query [] = Inr []"
| "get_txs query (h # hs) =
     (case query h of
        Inl (Err e) \<Rightarrow> if has_suffix e ''not found'' then get_txs query hs else Inl (Err e)
      | Inl (Panic e) \<Rightarrow> Inl (Panic e)
      | Inr tx \<Rightarrow> bind_res (get_txs query hs) (\<lambda>txs. Inr (tx # txs)))"

lemma get_txs_found:
  "get_txs query hs = Inr txs \<Longrightarrow>
     txs = concat (map (\<lambda>h. case query h of Inr tx \<Rightarrow> [tx] | Inl _ \<Rightarrow> []) hs)"
  by (induction hs arbitrary: txs) (auto split: sum.splits fault.splits if_splits)

definition get_latest_block_height :: "int res \<Rightarrow> int \<times> fault option" where
  "get_latest_block_height status = (case status of Inl e \<Rightarrow> (- 1, Some e) | Inr h \<Rightarrow> (h, None))"

section \<open>The write-ahead log\<close>

text \<open>
  \<open>WAL\<close>: what a successful write stored is what every later successful read returns, whatever heights
  are named and whatever is pruned in between.
\<close>

locale wal =
  fixes put :: "'w \<Rightarrow> 64 word \<Rightarrow> bytes \<Rightarrow> unit res \<times> 'w"
    and fetch :: "'w \<Rightarrow> 64 word \<Rightarrow> bytes res \<times> 'w"
    and shut :: "'w \<Rightarrow> 'w"
    and prune :: "'w \<Rightarrow> 64 word \<Rightarrow> unit res \<times> 'w"
    and stored :: "'w \<Rightarrow> bytes"
  assumes put_stored: "put w h b = (Inr (), w') \<Longrightarrow> stored w' = b"
    and fetch_stored: "fetch w h = (Inr b, w') \<Longrightarrow> b = stored w \<and> stored w' = stored w"
    and shut_stored: "stored (shut w) = stored w"
    and prune_stored: "prune w h = (r, w') \<Longrightarrow> stored w' = stored w"
begin

lemma read_back:
  assumes "put w h b = (Inr (), w1)" and "prune w1 k = (r, w2)" and "fetch w2 j = (Inr x, w3)"
  shows "x = b"
  using put_stored [OF assms(1)] prune_stored [OF assms(2)] fetch_stored [OF assms(3)] by simp

end

text \<open>
  A file opened for appending: its content, whether it is open (every operation on a closed \<open>os.File\<close> fails),
  and the operation of the next call that fails, counted from 0 (\<open>None\<close> when all succeed).  \<open>wf_short\<close> bounds the
  bytes a failing or short write stores; a write is operation 2, a short one without an error operation 3.
\<close>

record wal_file =
  wf_content :: bytes
  wf_open :: bool
  wf_fails :: "nat option"
  wf_short :: nat

text \<open>
  \<open>os.OpenFile\<close> with \<open>O_APPEND|O_RDWR|O_CREATE\<close>: a file that exists keeps its content, another is created
  empty.  \<open>opened\<close> is what the operating system answers.
\<close>

definition new_simple_file_wal :: "(string \<rightharpoonup> bytes) \<Rightarrow> unit res \<Rightarrow> string \<Rightarrow> wal_file res" where
  "new_simple_file_wal fs opened name =
     bind_res opened (\<lambda>_.
     Inr \<lparr>wf_content = (case fs name of None \<Rightarrow> [] | Some c \<Rightarrow> c), wf_open = True, wf_fails = None, wf_short = 0\<rparr>)"

definition wal_op_fails :: "wal_file \<Rightarrow> nat \<Rightarrow> bool" where
  "wal_op_fails f i \<longleftrightarrow> \<not> wf_open f \<or> wf_fails f = Some i"

definition simple_wal_write :: "wal_file \<Rightarrow> 64 word \<Rightarrow> bytes \<Rightarrow> unit res \<times> wal_file" where
  "simple_wal_write f h b =
     (if wal_op_fails f 0 then (Inl (Err ''failed to seek in WAL''), f)
      else if wal_op_fails f 1 then (Inl (Err ''failed to truncate WAL''), f)
      else if wal_op_fails f 2
      then (Inl (Err ''failed to write WAL''), f\<lparr>wf_content := take (wf_short f) b\<rparr>)
      else (let n = (if wal_op_fails f 3 then min (wf_short f) (length b) else length b);
                f' = f\<lparr>wf_content := take n b\<rparr> in
            if n \<noteq> length b then (Inl (Err ''write len mismatch''), f')
            else if wal_op_fails f 4 then (Inl (Err ''sync''), f')
            else (Inr (), f')))"

definition simple_wal_read :: "wal_file \<Rightarrow> 64 word \<Rightarrow> bytes res \<times> wal_file" where
  "simple_wal_read f h =
     (if wal_op_fails f 0 then (Inl (Err ''seek err''), f)
      else if wal_op_fails f 1 then (Inl (Err ''read''), f)
      else (Inr (wf_content f), f))"

definition simple_wal_close :: "wal_file \<Rightarrow> wal_file" where
  "simple_wal_close f = f\<lparr>wf_open := False\<rparr>"

definition simple_wal_prune :: "wal_file \<Rightarrow> 64 word \<Rightarrow> unit res \<times> wal_file" where
  "simple_wal_prune f h = (Inr (), f)"

definition new_mock_wal :: bytes where
  "new_mock_wal = []"

definition mock_wal_write :: "bytes \<Rightarrow> 64 word \<Rightarrow> bytes \<Rightarrow> unit res \<times> bytes" where
  "mock_wal_write m h b = (Inr (), b)"

definition mock_wal_read :: "bytes \<Rightarrow> 64 word \<Rightarrow> bytes res \<times> bytes" where
  "mock_wal_read m h = (Inr m, m)"

definition mock_wal_close :: "bytes \<Rightarrow> bytes" where
  "mock_wal_close m = m"

definition mock_wal_prune :: "bytes \<Rightarrow> 64 word \<Rightarrow> unit res \<times> bytes" where
  "mock_wal_prune m h = (Inr (), m)"

interpretation simple_wal: wal simple_wal_write simple_wal_read simple_wal_close simple_wal_prune wf_content
  by unfold_locales (auto simp: simple_wal_write_def simple_wal_read_def simple_wal_close_def simple_wal_prune_def Let_def split: if_splits)

interpretation mock_wal: wal mock_wal_write mock_wal_read mock_wal_close mock_wal_prune "\<lambda>m. m"
  by unfold_locales (simp_all add: mock_wal_write_def mock_wal_read_def mock_wal_close_def mock_wal_prune_def)

text \<open>A write that fails after the truncation has destroyed the entry it was to replace.\<close>

lemma failed_write_loses_the_entry:
  assumes "wf_open f" and "wf_fails f = Some 2" and "wf_short f = 0"
  shows "simple_wal_write f h b = (Inl (Err ''failed to write WAL''), f\<lparr>wf_content := []\<rparr>)"
  using assms by (simp add: simple_wal_write_def wal_op_fails_def)

text \<open>A closed log refuses every operation that touches the file, and keeps what it holds.\<close>

lemma closed_wal_refuses:
  "simple_wal_write (simple_wal_close f) h b = (Inl (Err ''failed to seek in WAL''), simple_wal_close f)"
  "simple_wal_read (simple_wal_close f) h = (Inl (Err ''seek err''), simple_wal_close f)"
  by (simp_all add: simple_wal_write_def simple_wal_read_def simple_wal_close_def wal_op_fails_def)

text \<open>What was written before a restart is what the log opened on the same file reads first.\<close>

lemma wal_survives_restart:
  assumes "simple_wal_write f h b = (Inr (), g)"
    and "new_simple_file_wal (fs(name \<mapsto> wf_content (simple_wal_close g))) (Inr ()) name = Inr w"
  shows "fst (simple_wal_read w k) = Inr b"
  using simple_wal.put_stored [OF assms(1)] simple_wal.shut_stored [of g] assms(2)
  by (auto simp: new_simple_file_wal_def simple_wal_read_def wal_op_fails_def)

end
