(* ===== verification/Client_Session.thy ===== *)
theory Client_Session
  imports Client_Setup
begin

text \<open>
  What else the chain client does (\<open>client/chain/chain.go\<close>): the session cookie with its expiry, the
  queries that forward a request, the gas fee; the signing context of \<open>chain/types/client.go\<close>; the block
  queries of \<open>client/tm/tmclient.go\<close>; the encoding of instruction data of \<open>client/svm/helper.go\<close>.
\<close>

section \<open>The session cookie\<close>

text \<open>
  \<open>s_disk\<close> is the content of the cookie file, \<open>None\<close> when it cannot be read, and \<open>s_disk_ok\<close>
  whether it can be written.
\<close>

record session =
  s_enabled :: bool
  s_cookie :: string
  s_disk :: "string option"
  s_disk_ok :: bool

text \<open>The end of \<open>NewChainClient\<close>: the cookie is loaded from disk; nothing enables the session.\<close>

definition new_session :: "string option \<Rightarrow> bool \<Rightarrow> session" where
  "new_session disk ok =
     \<lparr>s_enabled = False, s_cookie = (case disk of None \<Rightarrow> [] | Some c \<Rightarrow> c), s_disk = disk, s_disk_ok = ok\<rparr>"

text \<open>\<open>md\<close> are the values of \<open>set-cookie\<close> in the response's metadata.\<close>

definition set_cookie :: "string list \<Rightarrow> session \<Rightarrow> session" where
  "set_cookie md s =
     (if \<not> s_enabled s then s
      else case md of
        [] \<Rightarrow> s
      | c # _ \<Rightarrow> s\<lparr>s_cookie := c, s_disk := (if s_disk_ok s then Some c else s_disk s)\<rparr>)"

text \<open>
  \<open>fetchCookie\<close> asks the node (\<open>md\<close> are the cookies of its answer) and returns the cookie that goes
  into the outgoing context.
\<close>

definition fetch_cookie :: "string list \<Rightarrow> session \<Rightarrow> string \<times> session" where
  "fetch_cookie md s = (let s' = set_cookie md s in (s_cookie s', s'))"

fun cookie_by_name :: "(string \<times> string) list \<Rightarrow> string \<Rightarrow> (string \<times> string) option" where
  "cookie_by_name [] key = None"
| "cookie_by_name (c # cs) key = (if fst c = key then Some c else cookie_by_name cs key)"

definition dashes_to_spaces :: "string \<Rightarrow> string" where
  "dashes_to_spaces v = map (\<lambda>c. if c = CHR ''-'' then CHR '' '' else c) v"

text \<open>
  \<open>parse_time\<close> is \<open>time.Parse(time.RFC1123, _)\<close>, in seconds.  The value of a cookie that is not there
  is a nil pointer; a short value is sliced out of range; a two-digit year gets its century.
\<close>

definition expand_year :: "string \<Rightarrow> string res" where
  "expand_year e =
     (if length e < 14 then Inl (Panic ''slice bounds out of range'')
      else Inr (take 12 e @ (''20'' @ take 2 (drop 12 e)) @ drop 14 e))"

definition get_cookie_expiration_time ::
  "(string \<Rightarrow> int res) \<Rightarrow> (string \<times> string) list \<Rightarrow> int res" where
  "get_cookie_expiration_time parse_time cookies =
     (if cookie_by_name cookies ''GCLB'' \<noteq> None then
        bind_res (of_option (Panic ''nil pointer dereference'') (cookie_by_name cookies ''expires'')) (\<lambda>c.
          parse_time (dashes_to_spaces (snd c)))
      else
        bind_res (of_option (Panic ''nil pointer dereference'') (cookie_by_name cookies ''Expires'')) (\<lambda>c.
        bind_res (expand_year (dashes_to_spaces (snd c))) parse_time))"

text \<open>
  \<open>getCookie\<close>: \<open>parse_cookies\<close> is \<open>http.Request.Cookies\<close>, \<open>now\<close> the time; an expiry that
  does not parse panics.
\<close>

definition session_renewal_offset :: int where
  "session_renewal_offset = 120"

definition get_cookie ::
  "(string \<Rightarrow> (string \<times> string) list) \<Rightarrow> (string \<Rightarrow> int res) \<Rightarrow> int \<Rightarrow> string list \<Rightarrow> session \<Rightarrow>
   (string \<times> session) res" where
  "get_cookie parse_cookies parse_time now md s =
     (if \<not> s_enabled s then Inr (s_cookie s, s)
      else
        let cookies = parse_cookies (s_cookie s) in
        if cookies = [] then Inr (fetch_cookie md s)
        else case get_cookie_expiration_time parse_time cookies of
          Inl (Err e) \<Rightarrow> Inl (Panic e)
        | Inl (Panic e) \<Rightarrow> Inl (Panic e)
        | Inr t \<Rightarrow>
            if t - now < session_renewal_offset then Inr (fetch_cookie md s)
            else Inr (s_cookie s, s))"

subsection \<open>What the session does\<close>

lemma cookie_by_name_Some: "cookie_by_name cs key = Some c \<Longrightarrow> c \<in> set cs \<and> fst c = key"
  by (induction cs) (auto split: if_splits)

lemma cookie_by_name_None: "cookie_by_name cs key = None \<longleftrightarrow> key \<notin> fst ` set cs"
  by (induction cs) auto

text \<open>
  A sequence of broadcasts, each of which gets the cookie at its own time and with its own answer of the
  node.
\<close>

fun use_session ::
  "(string \<Rightarrow> (string \<times> string) list) \<Rightarrow> (string \<Rightarrow> int res) \<Rightarrow> (int \<times> string list) list \<Rightarrow> session \<Rightarrow>
   (string list \<times> session) res" where
  "use_session pc pt [] s = Inr ([], s)"
| "use_session pc pt ((now, md) # us) s =
     bind_res (get_cookie pc pt now md s) (\<lambda>(c, s').
     bind_res (use_session pc pt us s') (\<lambda>(cs, s''). Inr (c # cs, s'')))"

text \<open>
  A session that is enabled keeps its expiry in view: the cookie that is used is the one the client had, with more
  than two minutes to live, or the one the node has just sent.
\<close>

lemma used_cookie_is_alive:
  assumes "get_cookie pc pt now md s = Inr (c, s')" and "s_enabled s"
  shows "(c = s_cookie s \<and> s' = s \<and> (\<exists>t. get_cookie_expiration_time pt (pc c) = Inr t \<and> now + 120 \<le> t)) \<or>
    (c = s_cookie s' \<and> s' = set_cookie md s)"
  using assms by (auto simp: get_cookie_def fetch_cookie_def Let_def session_renewal_offset_def
      split: if_splits sum.splits fault.splits)

text \<open>When getting the cookie panics.\<close>

lemma get_cookie_panics_iff:
  "panics (get_cookie pc pt now md s) \<longleftrightarrow>
     s_enabled s \<and> pc (s_cookie s) \<noteq> [] \<and> \<not> is_ok (get_cookie_expiration_time pt (pc (s_cookie s)))"
  by (auto simp: get_cookie_def Let_def is_ok_iff split: sum.splits fault.splits)

lemma cookie_without_expiry_panics:
  assumes "s_enabled s" and "pc (s_cookie s) \<noteq> []" and "''Expires'' \<notin> fst ` set (pc (s_cookie s))"
    and "''expires'' \<notin> fst ` set (pc (s_cookie s))"
  shows "panics (get_cookie pc pt now md s)"
  using assms by (auto simp: get_cookie_panics_iff get_cookie_expiration_time_def
      cookie_by_name_None [THEN iffD2])

text \<open>
  The session of a client is never used.  \<open>NewChainClient\<close> leaves the session disabled and nothing
  enables it, so whatever the broadcasts, the times and the answers of the node are, every broadcast sends
  the cookie that was on disk when the client was made, the cookie is never renewed or stored, and
  looking it up never panics, however it is written.
\<close>

theorem session_is_never_renewed:
  "use_session pc pt us (new_session disk ok) =
     Inr (replicate (length us) (case disk of None \<Rightarrow> [] | Some c \<Rightarrow> c), new_session disk ok)"
  by (induction us) (auto simp: get_cookie_def new_session_def)

section \<open>Queries\<close>

text \<open>The requests the client builds; the second argument of each is the generated client's call.\<close>

record balance_request =
  br_address :: string
  br_denom :: string

record denom_link_request =
  dl_src_plane :: int
  dl_dst_plane :: int
  dl_src_addr :: string

definition get_bank_balances :: "string \<Rightarrow> (string \<Rightarrow> 'r res) \<Rightarrow> 'r res" where
  "get_bank_balances address call = call address"

definition get_account_query :: "string \<Rightarrow> (string \<Rightarrow> 'r res) \<Rightarrow> 'r res" where
  "get_account_query address call = call address"

definition get_svm_account :: "string \<Rightarrow> (string \<Rightarrow> 'r res) \<Rightarrow> 'r res" where
  "get_svm_account address call = call address"

definition get_denom_link :: "int \<Rightarrow> string \<Rightarrow> int \<Rightarrow> (denom_link_request \<Rightarrow> 'r res) \<Rightarrow> 'r res" where
  "get_denom_link src denom dst call = call \<lparr>dl_src_plane = src, dl_dst_plane = dst, dl_src_addr = denom\<rparr>"

definition get_bank_balance :: "string \<Rightarrow> string \<Rightarrow> (balance_request \<Rightarrow> 'r res) \<Rightarrow> 'r res" where
  "get_bank_balance address denom call = call \<lparr>br_address = address, br_denom = denom\<rparr>"

definition get_authz_grants :: "'q \<Rightarrow> ('q \<Rightarrow> 'r res) \<Rightarrow> 'r res" where
  "get_authz_grants req call = call req"

text \<open>\<open>pack\<close> packs a generic authorization of a message type.\<close>

record 'a authz_grant =
  ag_granter :: string
  ag_grantee :: string
  ag_authorization :: 'a
  ag_expiration :: "int option"

definition build_generic_authz :: "(string \<Rightarrow> 'a) \<Rightarrow> string \<Rightarrow> string \<Rightarrow> string \<Rightarrow> int \<Rightarrow> 'a authz_grant" where
  "build_generic_authz pack granter grantee msgtype expire_in =
     \<lparr>ag_granter = granter, ag_grantee = grantee, ag_authorization = pack msgtype,
      ag_expiration = Some expire_in\<rparr>"

section \<open>The gas fee\<close>

text \<open>
  \<open>strings.Trim(prices, "lux")\<close> removes the letters at both ends, so a price in another denomination
  is no number afterwards; \<open>parse_float\<close> and \<open>fee\<close> (the product, scaled and formatted) stand
  for floating-point arithmetic.
\<close>

definition trim_chars :: "string \<Rightarrow> string \<Rightarrow> string" where
  "trim_chars chars s = rev (dropWhile (\<lambda>c. c \<in> set chars) (rev (dropWhile (\<lambda>c. c \<in> set chars) s)))"

definition get_gas_fee ::
  "(string \<Rightarrow> 'f res) \<Rightarrow> ('f \<Rightarrow> 64 word \<Rightarrow> string) \<Rightarrow> client \<Rightarrow> string res" where
  "get_gas_fee parse_float fee c =
     bind_res (parse_float (trim_chars ''lux'' (c_gas_prices c))) (\<lambda>gas. Inr (fee gas (c_gas_wanted c)))"

lemma dropWhile_none: "(\<And>x. x \<in> set s \<Longrightarrow> \<not> P x) \<Longrightarrow> dropWhile P s = s"
  by (cases s) auto

lemma trim_lux_price:
  assumes "set digits \<subseteq> set ''0123456789.''" 
  shows "trim_chars ''lux'' (digits @ ''lux'') = digits"
proof -
  have none: "c \<notin> set ''lux''" if "c \<in> set digits" for c
    using that assms by auto
  show ?thesis
  proof (cases digits)
    case Nil then show ?thesis by (simp add: trim_chars_def)
  next
    case (Cons d ds)
    with none [of d] have front: "dropWhile (\<lambda>c. c \<in> set ''lux'') (digits @ ''lux'') = digits @ ''lux''"
      by simp
    have "dropWhile (\<lambda>c. c \<in> set ''lux'') (rev digits) = rev digits"
      by (rule dropWhile_none) (use none in auto)
    then show ?thesis by (simp only: trim_chars_def front) simp
  qed
qed

section \<open>The signing context\<close>

text \<open>
  A keyring record: its name, whether it has a public key, and what \<open>GetAddress\<close> gives.  \<open>keyring\<close> is
  \<open>None\<close> for a nil keyring, else its \<open>Key\<close>.
\<close>

record key_record =
  kr_name :: string
  kr_has_key :: bool
  kr_address :: "bytes res"

record context_info =
  ci_chain_id :: string
  ci_keyring :: bool
  ci_from :: string
  ci_from_name :: string
  ci_from_address :: bytes

definition empty_key_record :: key_record where
  "empty_key_record = \<lparr>kr_name = [], kr_has_key = False, kr_address = Inl (Err ''no public key'')\<rparr>"

definition new_context :: "string \<Rightarrow> bool \<Rightarrow> key_record \<Rightarrow> context_info res" where
  "new_context chain_id kb key =
     (let ctx = \<lparr>ci_chain_id = chain_id, ci_keyring = False, ci_from = [], ci_from_name = [], ci_from_address = []\<rparr> in
      if kr_has_key key then
        (case kr_address key of
           Inl (Err e) \<Rightarrow> Inl (Panic e)
         | Inl (Panic e) \<Rightarrow> Inl (Panic e)
         | Inr a \<Rightarrow> Inr (ctx\<lparr>ci_keyring := kb, ci_from_address := a, ci_from_name := kr_name key, ci_from := kr_name key\<rparr>))
      else Inr ctx)"

definition new_client_context ::
  "string \<Rightarrow> string \<Rightarrow> (string \<Rightarrow> key_record res) option \<Rightarrow> (context_info \<times> bytes) res" where
  "new_client_context chain_id account keyring =
     (case keyring of
        None \<Rightarrow> bind_res (new_context chain_id False empty_key_record) (\<lambda>ctx. Inr (ctx, []))
      | Some key \<Rightarrow>
          bind_res (wrap_err (''no key in keyring for name: '' @ account) (key account)) (\<lambda>rec.
          bind_res (kr_address rec) (\<lambda>addr.
          bind_res (new_context chain_id True rec) (\<lambda>ctx. Inr (ctx, addr)))))"

text \<open>
  A client made from the context signs as the address that is returned; without a keyring the client is read-only.
\<close>

lemma client_context_signs_as_the_key:
  assumes "new_client_context chain_id account (Some key) = Inr (ctx, addr)" and "key account = Inr rec"
    and "kr_has_key rec"
  shows "ci_keyring ctx" and "ci_from_address ctx = addr" and "ci_from_name ctx = kr_name rec"
  using assms by (auto simp: new_client_context_def new_context_def Let_def)

lemma client_context_without_keyring:
  "new_client_context chain_id account None =
     Inr (\<lparr>ci_chain_id = chain_id, ci_keyring = False, ci_from = [], ci_from_name = [], ci_from_address = []\<rparr>, [])"
  by (simp add: new_client_context_def new_context_def empty_key_record_def Let_def)

lemma client_context_no_panic:
  assumes "\<And>key rec. keyring = Some key \<Longrightarrow> \<not> panics (key account)"
    and "\<And>key rec. keyring = Some key \<Longrightarrow> key account = Inr rec \<Longrightarrow> \<not> panics (kr_address rec)"
  shows "\<not> panics (new_client_context chain_id account keyring)"
proof (cases keyring)
  case None then show ?thesis by (simp add: client_context_without_keyring)
next
  case (Some key)
  with assms show ?thesis
    by (cases "key account")
      (auto simp: new_client_context_def new_context_def Let_def panics_bind split: sum.splits fault.splits)
qed

section \<open>Block queries\<close>

definition get_block :: "(int option \<Rightarrow> 'b res) \<Rightarrow> int \<Rightarrow> 'b res" where
  "get_block query height = query (Some height)"

definition get_block_results :: "(int option \<Rightarrow> 'b res) \<Rightarrow> int \<Rightarrow> 'b res" where
  "get_block_results query height = query (Some height)"

text \<open>The page and the page size are nil: the node answers with its first page.\<close>

definition get_validator_set :: "(int option \<Rightarrow> int option \<Rightarrow> int option \<Rightarrow> 'v res) \<Rightarrow> int \<Rightarrow> 'v res" where
  "get_validator_set query height = query (Some height) None None"

section \<open>Instruction data\<close>

text \<open>\<open>encode\<close> is the library's encoder on a new buffer.\<close>

definition marshal_ix_data :: "('a \<Rightarrow> bytes res) \<Rightarrow> 'a \<Rightarrow> bytes res" where
  "marshal_ix_data encode s = encode s"

definition must_marshal_ix_data :: "('a \<Rightarrow> bytes res) \<Rightarrow> 'a \<Rightarrow> bytes res" where
  "must_marshal_ix_data encode s =
     (case marshal_ix_data encode s of
        Inl (Err e) \<Rightarrow> Inl (Panic e) | Inl (Panic e) \<Rightarrow> Inl (Panic e) | Inr b \<Rightarrow> Inr b)"

lemma must_marshal_ok: "must_marshal_ix_data encode s = Inr b \<longleftrightarrow> encode s = Inr b"
  by (auto simp: must_marshal_ix_data_def marshal_ix_data_def split: sum.splits fault.splits)

end
