(* ===== verification/Chain_Types.thy ===== *)
theory Chain_Types
  imports Cosmos_Base
begin

text \<open>
  The chain's own types under \<open>chain/types\<close>: chain identifiers (\<open>chain_id.go\<close>), the JSON form of an
  \<open>EthAccount\<close> and the conversion of addresses (\<open>account.go\<close>), base58 bytes (\<open>base58.go\<close>), error
  tests (\<open>errors.go\<close>) and the bech32 prefixes (\<open>config.go\<close>).  A JSON object is represented by the
  value of the Go struct it is marshalled from and unmarshalled into.
\<close>

section \<open>Chain identifiers\<close>

text \<open>
  The white space of \<open>strings.TrimSpace\<close>, with the UTF-8 encodings of the Unicode spaces outside ASCII
  (U+0085, U+00A0, U+1680, U+2000 to U+200A, U+2028, U+2029, U+202F, U+205F, U+3000).
\<close>

definition utf8 :: "nat list \<Rightarrow> string" where
  "utf8 ns = map char_of ns"

definition unicode_spaces :: "string list" where
  "unicode_spaces =
     map (\<lambda>n. utf8 [n]) [9, 10, 11, 12, 13, 32] @
     [utf8 [194, 133], utf8 [194, 160], utf8 [225, 154, 128]] @
     map (\<lambda>n. utf8 [226, 128, n]) ([128..<139] @ [168, 169, 175]) @
     [utf8 [226, 129, 159], utf8 [227, 128, 128]]"

fun drop_spaces :: "string list \<Rightarrow> nat \<Rightarrow> string \<Rightarrow> string" where
  "drop_spaces ws 0 s = s"
| "drop_spaces ws (Suc n) s =
     (case find (\<lambda>p. prefix p s) ws of
        None \<Rightarrow> s
      | Some p \<Rightarrow> drop_spaces ws n (drop (length p) s))"

definition trim_unicode_space :: "string \<Rightarrow> string" where
  "trim_unicode_space s =
     (let t = drop_spaces unicode_spaces (length s) s in
      rev (drop_spaces (map rev unicode_spaces) (length t) (rev t)))"

text \<open>
  \<open>fluxChainID\<close>, the expression \<open>^([a-z]*)-{1}([1-9][0-9]*)$\<close>: the two groups of a match.  A hyphen is
  not in \<open>[a-z]\<close>, so the first group is the longest run of lower-case letters.
\<close>

definition flux_chain_id :: "string \<Rightarrow> (string \<times> string) option" where
  "flux_chain_id s =
     (case dropWhile is_lower s of
        c # ds \<Rightarrow>
          if c = CHR ''-'' \<and> ds \<noteq> [] \<and> list_all is_digit ds \<and> hd ds \<noteq> CHR ''0''
          then Some (takeWhile is_lower s, ds) else None
      | [] \<Rightarrow> None)"

definition is_valid_chain_id :: "string \<Rightarrow> bool" where
  "is_valid_chain_id s \<longleftrightarrow> \<not> 48 < length s \<and> flux_chain_id s \<noteq> None"

definition parse_chain_id :: "string \<Rightarrow> nat res" where
  "parse_chain_id chain_id =
     (let s = trim_unicode_space chain_id in
      if 48 < length s then Inl (Err ''chain-id cannot exceed 48 chars: invalid chain ID'')
      else
        (case flux_chain_id s of
           None \<Rightarrow> Inl (Err ''invalid chain ID'')
         | Some (name, epoch) \<Rightarrow>
             if name = [] then Inl (Err ''invalid chain ID'')
             else of_option (Err ''epoch must be base-10 integer format'') (parse_dec epoch)))"

text \<open>\<open>r\<close> is the number \<open>tmrand.Intn(10000)\<close> returned.\<close>

definition generate_random_chain_id :: "nat \<Rightarrow> string" where
  "generate_random_chain_id r = ''flux-'' @ dec_string (10 + r)"

lemma flux_chain_id_append:
  assumes "list_all is_lower name" and "ds \<noteq> []" and "list_all is_digit ds" and "hd ds \<noteq> CHR ''0''"
  shows "flux_chain_id (name @ CHR ''-'' # ds) = Some (name, ds)"
proof -
  have h: "\<not> is_lower CHR ''-''" by code_simp
  have "dropWhile is_lower (name @ CHR ''-'' # ds) = CHR ''-'' # ds"
    "takeWhile is_lower (name @ CHR ''-'' # ds) = name"
    using assms(1) h by (induction name) auto
  then show ?thesis using assms(2-4) by (simp add: flux_chain_id_def)
qed

lemma flux_chain_id_Some:
  "flux_chain_id s = Some (name, ds) \<longleftrightarrow>
     s = name @ CHR ''-'' # ds \<and> list_all is_lower name \<and> ds \<noteq> [] \<and> list_all is_digit ds \<and> hd ds \<noteq> CHR ''0''"
  (is "_ \<longleftrightarrow> ?R")
proof
  assume l: "flux_chain_id s = Some (name, ds)"
  then have "dropWhile is_lower s = CHR ''-'' # ds" "takeWhile is_lower s = name"
    by (auto simp: flux_chain_id_def split: list.splits if_splits)
  moreover from this(2) have "list_all is_lower name"
    by (auto simp: list_all_iff dest: set_takeWhileD)
  ultimately show ?R
    using l takeWhile_dropWhile_id [of is_lower s]
    by (auto simp: flux_chain_id_def split: list.splits if_splits)
next
  assume ?R
  then show "flux_chain_id s = Some (name, ds)"
    by (metis flux_chain_id_append)
qed

lemma parse_dec_digits: "ds \<noteq> [] \<Longrightarrow> list_all is_digit ds \<Longrightarrow> \<exists>n. parse_dec ds = Some n"
  by (simp add: parse_dec_Some_iff)

text \<open>
  The two readers of a chain identifier agree up to two differences.  \<open>ParseChainID\<close> succeeds on exactly the
  identifiers whose trimmed form \<open>IsValidChainID\<close> accepts and whose name before the hyphen is not
  empty, and then returns the number after the hyphen, without bound; \<open>IsValidChainID\<close> itself does not trim and
  accepts an empty name.
\<close>

theorem parse_chain_id_iff_valid:
  "parse_chain_id s = Inr n \<longleftrightarrow>
     is_valid_chain_id (trim_unicode_space s) \<and>
     (\<exists>name ds. trim_unicode_space s = name @ CHR ''-'' # ds \<and> name \<noteq> [] \<and> list_all is_lower name \<and>
        parse_dec ds = Some n)"
proof (cases "flux_chain_id (trim_unicode_space s)")
  case None
  then show ?thesis
    by (auto simp: parse_chain_id_def is_valid_chain_id_def Let_def)
next
  case (Some g)
  obtain name ds where g: "g = (name, ds)" by (cases g)
  from Some g have s: "trim_unicode_space s = name @ CHR ''-'' # ds" and low: "list_all is_lower name"
    by (simp_all add: flux_chain_id_Some)
  have uniq: "name' = name \<and> ds' = ds"
    if "trim_unicode_space s = name' @ CHR ''-'' # ds'" "list_all is_lower name'" for name' ds'
  proof -
    have "\<not> is_lower CHR ''-''" by code_simp
    then have "CHR ''-'' \<notin> set name'" "CHR ''-'' \<notin> set name"
      using that(2) low by (auto simp: list_all_iff)
    with that(1) s show ?thesis by (simp add: split_first_unique)
  qed
  show ?thesis
    unfolding parse_chain_id_def is_valid_chain_id_def Let_def Some g
    using uniq s low by auto
qed

lemma drop_spaces_id: "\<forall>p \<in> set ws. \<not> set p \<subseteq> set s \<Longrightarrow> drop_spaces ws n s = s"
proof (cases n)
  case (Suc m)
  assume none: "\<forall>p \<in> set ws. \<not> set p \<subseteq> set s"
  have "find (\<lambda>p. prefix p s) ws = None"
    using none set_mono_prefix by (fastforce simp: find_None_iff)
  then show ?thesis by (simp add: Suc)
qed simp

definition id_char :: "char \<Rightarrow> bool" where
  "id_char c \<longleftrightarrow> is_lower c \<or> is_digit c \<or> c = CHR ''-''"

lemma trim_unicode_space_id:
  assumes "list_all id_char s"
  shows "trim_unicode_space s = s"
proof -
  have "list_all (\<lambda>p. \<not> list_all id_char p) unicode_spaces" by code_simp
  then have "\<forall>p \<in> set unicode_spaces. \<not> set p \<subseteq> set s"
    using assms by (auto simp: list_all_iff)
  then show ?thesis
    by (simp add: trim_unicode_space_def Let_def drop_spaces_id)
qed

lemma length_dec_string: "0 < k \<Longrightarrow> n < 10 ^ k \<Longrightarrow> length (dec_string n) \<le> k"
proof (induction n arbitrary: k rule: dec_string.induct)
  case (1 n)
  show ?case
  proof (cases "n < 10")
    case False
    then obtain j where j: "k = Suc j" "0 < j"
      using 1(2,3) by (cases k; cases "k - 1") auto
    moreover have "n div 10 < 10 ^ j" using 1(3) j by simp
    ultimately show ?thesis using 1(1) [OF False, of j] False by (simp add: dec_string.simps [of n])
  qed (use 1(2) in \<open>simp add: dec_string.simps [of n]\<close>)
qed

lemma hd_dec_string: "0 < n \<Longrightarrow> hd (dec_string n) \<noteq> CHR ''0''"
proof (induction n rule: dec_string.induct)
  case (1 n)
  show ?case
  proof (cases "n < 10")
    case True
    then have code: "char_code (char_of (48 + n)) = 48 + n" by (rule char_code_of_digit)
    have zero: "char_code CHR ''0'' = 48" by code_simp
    have "char_of (48 + n) \<noteq> CHR ''0''"
    proof
      assume "char_of (48 + n) = CHR ''0''"
      then have "48 + n = 48" using code zero by (simp only:)
      then show False using 1(2) by simp
    qed
    then show ?thesis using True by (simp add: dec_string.simps [of n])
  next
    case False
    then show ?thesis using 1(1) by (simp add: dec_string.simps [of n] div_greater_zero_iff)
  qed
qed

text \<open>
  A generated identifier round-trips: it is valid, and parsing it gives the number it was
  printed from.
\<close>

theorem generated_chain_id_parses:
  assumes "r < 10000"
  shows "is_valid_chain_id (generate_random_chain_id r) \<and>
    parse_chain_id (generate_random_chain_id r) = Inr (10 + r)"
proof -
  let ?ds = "dec_string (10 + r)"
  have flux: "list_all is_lower ''flux''" "list_all id_char ''flux-''" by code_simp+
  have ds: "list_all is_digit ?ds" "?ds \<noteq> []" "hd ?ds \<noteq> CHR ''0''" "length ?ds \<le> 5"
    using hd_dec_string [of "10 + r"] length_dec_string [of 5 "10 + r"] assms
    by (simp_all add: dec_string_digits)
  then have "list_all id_char ?ds" by (auto simp: list_all_iff id_char_def)
  with flux(2) have trim: "trim_unicode_space (generate_random_chain_id r) = generate_random_chain_id r"
    unfolding generate_random_chain_id_def by (intro trim_unicode_space_id) simp
  have "flux_chain_id (generate_random_chain_id r) = Some (''flux'', ?ds)"
    using flux_chain_id_append [OF flux(1) ds(2,1,3)] by (simp add: generate_random_chain_id_def)
  moreover have "length (generate_random_chain_id r) \<le> 48"
    using ds(4) by (simp add: generate_random_chain_id_def)
  ultimately show ?thesis by (simp add: is_valid_chain_id_def parse_chain_id_def trim)
qed

theorem generated_chain_id_parses_witness: "parse_chain_id (generate_random_chain_id 7) = Inr 17"
  using generated_chain_id_parses [of 7] by simp

section \<open>Base58 bytes\<close>

text \<open>\<open>Base58Bytes.Bytes\<close> calls itself: \<open>None\<close> is a call that does not return.\<close>

partial_function (option) base58_bytes :: "bytes \<Rightarrow> bytes option" where
  "base58_bytes b = base58_bytes b"

record base58_lib =
  b58_encode :: "bytes \<Rightarrow> string"
  b58_decode :: "string \<Rightarrow> bytes"

text \<open>The JSON form is a JSON string; \<open>None\<close> is a value that is not one.\<close>

definition base58_marshal :: "base58_lib \<Rightarrow> bytes \<Rightarrow> string" where
  "base58_marshal L b = b58_encode L b"

definition base58_unmarshal :: "base58_lib \<Rightarrow> string option \<Rightarrow> bytes res" where
  "base58_unmarshal L j =
     bind_res (of_option (Err ''json: cannot unmarshal into string'') j) (\<lambda>s. Inr (b58_decode L s))"

definition base58_string :: "base58_lib \<Rightarrow> bytes \<Rightarrow> string" where
  "base58_string L b = b58_encode L b"

text \<open>
  C37. \<open>Base58Bytes.Bytes\<close> returns for no value: it calls itself with the same receiver, so every
  call recurses without end.
\<close>

theorem base58_bytes_never_returns: "base58_bytes b = None"
proof -
  have "base58_bytes b = Some r \<Longrightarrow> False" for r
    using base58_bytes.raw_induct [of "\<lambda>_ _. False" b r] by blast
  then show ?thesis by (cases "base58_bytes b") auto
qed

section \<open>Accounts\<close>

text \<open>
  The go-ethereum and SDK functions of \<open>account.go\<close>: \<open>Address.String\<close>, \<open>HexToAddress\<close>,
  \<open>BytesToAddress\<close>, \<open>IsHexAddress\<close>, \<open>Bytes2Hex\<close>, \<open>HexToHash(..).Bytes()\<close>, and the configured address
  prefix.
\<close>

record address_lib =
  al_bech32 :: bech32_lib
  al_address_string :: "bytes \<Rightarrow> string"
  al_hex_to_address :: "string \<Rightarrow> bytes"
  al_bytes_to_address :: "bytes \<Rightarrow> bytes"
  al_is_hex_address :: "string \<Rightarrow> bool"
  al_bytes_to_hex :: "bytes \<Rightarrow> string"
  al_hex_to_hash :: "string \<Rightarrow> bytes"
  al_prefix :: string
  al_empty_code_hash :: bytes

record base_account =
  ba_address :: string
  ba_pub_key :: "pubkey option"
  ba_account_number :: "64 word"
  ba_sequence :: "64 word"

record eth_account =
  ea_base :: "base_account option"
  ea_code_hash :: bytes

record eth_account_pretty =
  ep_address :: string
  ep_eth_address :: string
  ep_pub_key :: string
  ep_account_number :: "64 word"
  ep_sequence :: "64 word"
  ep_code_hash :: string

definition proto_account :: "address_lib \<Rightarrow> eth_account" where
  "proto_account L =
     \<lparr>ea_base = Some \<lparr>ba_address = [], ba_pub_key = None, ba_account_number = 0, ba_sequence = 0\<rparr>,
      ea_code_hash = al_empty_code_hash L\<rparr>"

text \<open>\<open>GetAddress\<close> drops the parser's error; a nil \<open>BaseAccount\<close> is dereferenced.\<close>

definition eth_address :: "address_lib \<Rightarrow> eth_account \<Rightarrow> bytes res" where
  "eth_address L acc =
     bind_res (of_option (Panic ''nil pointer dereference'') (ea_base acc)) (\<lambda>b.
       Inr (al_bytes_to_address L
         (case acc_from_bech32 (al_bech32 L) (ba_address b) of None \<Rightarrow> [] | Some a \<Rightarrow> a)))"

definition pretty_of :: "address_lib \<Rightarrow> base_account \<Rightarrow> bytes \<Rightarrow> string \<Rightarrow> eth_account_pretty" where
  "pretty_of L b code eth =
     \<lparr>ep_address = ba_address b, ep_eth_address = eth, ep_pub_key = [],
      ep_account_number = ba_account_number b, ep_sequence = ba_sequence b,
      ep_code_hash = al_bytes_to_hex L code\<rparr>"

definition marshal_yaml :: "address_lib \<Rightarrow> eth_account \<Rightarrow> eth_account_pretty res" where
  "marshal_yaml L acc =
     bind_res (of_option (Panic ''nil pointer dereference'') (ea_base acc)) (\<lambda>b.
     bind_res (eth_address L acc) (\<lambda>e.
       Inr (pretty_of L b (ea_code_hash acc) (al_address_string L e))))"

definition marshal_json :: "address_lib \<Rightarrow> eth_account \<Rightarrow> eth_account_pretty res" where
  "marshal_json L acc =
     (case ea_base acc of
        None \<Rightarrow> Inl (Panic ''nil pointer dereference'')
      | Some b \<Rightarrow>
          if ba_address b = [] then
            bind_res (eth_address L acc) (\<lambda>e. Inr (pretty_of L b (ea_code_hash acc) (al_address_string L e)))
          else Inr (pretty_of L b (ea_code_hash acc) []))"

definition resolved_address :: "address_lib \<Rightarrow> eth_account_pretty \<Rightarrow> string res" where
  "resolved_address L p =
     (if ep_address p \<noteq> [] \<and> ep_eth_address p \<noteq> [] then
        bind_res (parse_acc (al_bech32 L) (ep_address p)) (\<lambda>a.
          if al_hex_to_address L (ep_eth_address p) \<noteq> a
          then Inl (Err ''invalid address'') else Inr (ep_address p))
      else if ep_address p \<noteq> [] then Inr (ep_address p)
      else if ep_eth_address p \<noteq> []
      then Inr (acc_to_string (al_bech32 L) (al_hex_to_address L (ep_eth_address p)))
      else Inl (Err ''account must contain address in Ethereum Hex or Cosmos Bech32 format: invalid address''))"

definition unmarshal_json :: "address_lib \<Rightarrow> eth_account_pretty \<Rightarrow> eth_account res" where
  "unmarshal_json L p =
     bind_res (resolved_address L p) (\<lambda>a.
       Inr \<lparr>ea_base = Some \<lparr>ba_address = a, ba_pub_key = None, ba_account_number = ep_account_number p,
                           ba_sequence = ep_sequence p\<rparr>,
            ea_code_hash = al_hex_to_hash L (ep_code_hash p)\<rparr>)"

definition cosmos_address_to_eth_address :: "address_lib \<Rightarrow> string \<Rightarrow> bytes res" where
  "cosmos_address_to_eth_address L addr =
     (if has_prefix addr (al_prefix L) then
        bind_res (wrap_err ''must provide a valid Bech32 address'' (parse_acc (al_bech32 L) addr))
          (\<lambda>a. Inr (al_bytes_to_address L a))
      else
        (let addr' = (if has_prefix addr ''0x'' then addr else ''0x'' @ addr) in
         if \<not> al_is_hex_address L addr' then Inl (Err ''not a valid Ethereum or Cosmos address'')
         else Inr (al_hex_to_address L addr')))"

text \<open>
  Documented behaviour: \<open>HexToHash\<close> reads what \<open>Bytes2Hex\<close> wrote of 32 bytes and always gives 32; \<open>HexToAddress\<close>
  reads what \<open>Address.String\<close> wrote of 20 bytes; \<open>BytesToAddress\<close> gives 20 bytes and keeps 20 bytes;
  the text of an address is not empty, and neither is the bech32 text of 20 bytes.
\<close>

definition address_laws :: "address_lib \<Rightarrow> bool" where
  "address_laws L \<longleftrightarrow>
     (\<forall>b. length b = 32 \<longrightarrow> al_hex_to_hash L (al_bytes_to_hex L b) = b) \<and>
     (\<forall>s. length (al_hex_to_hash L s) = 32) \<and>
     (\<forall>b. length b = 20 \<longrightarrow> al_hex_to_address L (al_address_string L b) = b) \<and>
     (\<forall>b. length (al_bytes_to_address L b) = 20) \<and>
     (\<forall>b. length b = 20 \<longrightarrow> al_bytes_to_address L b = b) \<and>
     (\<forall>b. al_address_string L b \<noteq> []) \<and> (\<forall>b. acc_to_string (al_bech32 L) b \<noteq> [])"

text \<open>
  C26. Accounts round-trip through JSON, apart from the public key.  An account that marshals, with a
  code hash of 32 bytes, unmarshals to the same number, sequence and code hash, with the
  public key always lost; its address is kept when it is not empty, and an account without one
  comes back with the bech32 text of the address all of whose derivation failed, that of
  \<open>BytesToAddress(nil)\<close>.
\<close>

theorem account_json_round_trip:
  assumes "address_laws L" and "ea_base acc = Some b" and "length (ea_code_hash acc) = 32"
    and "marshal_json L acc = Inr p" and "acc_from_bech32 (al_bech32 L) [] = None"
  shows "unmarshal_json L p =
    Inr (acc\<lparr>ea_base := Some (b\<lparr>ba_pub_key := None,
      ba_address := (if ba_address b = []
        then acc_to_string (al_bech32 L) (al_bytes_to_address L []) else ba_address b)\<rparr>)\<rparr>)"
  using assms
  by (auto simp: address_laws_def marshal_json_def unmarshal_json_def resolved_address_def
      pretty_of_def eth_address_def split: if_splits)

definition demo_address_lib :: address_lib where
  "demo_address_lib =
     \<lparr>al_bech32 = toy_bech32, al_address_string = (\<lambda>b. ''0x'' @ hex_encode b),
      al_hex_to_address = (\<lambda>s. pad_right 20 (case hex_decode (drop 2 s) of None \<Rightarrow> [] | Some b \<Rightarrow> b)),
      al_bytes_to_address = pad_right 20, al_is_hex_address = (\<lambda>s. length s = 42),
      al_bytes_to_hex = hex_encode,
      al_hex_to_hash = (\<lambda>s. pad_right 32 (case hex_decode s of None \<Rightarrow> [] | Some b \<Rightarrow> b)),
      al_prefix = ''lux'', al_empty_code_hash = replicate 32 7\<rparr>"

lemma demo_address_laws: "address_laws demo_address_lib"
  by (simp add: address_laws_def demo_address_lib_def toy_bech32_def) (simp add: pad_right_def)

theorem account_json_round_trip_witness:
  "let acc = \<lparr>ea_base = Some \<lparr>ba_address = ''lux1ab'', ba_pub_key = Some (Pk_other [1]),
        ba_account_number = 5, ba_sequence = 9\<rparr>, ea_code_hash = replicate 32 7\<rparr> in
   bind_res (marshal_json demo_address_lib acc) (unmarshal_json demo_address_lib) =
     Inr (acc\<lparr>ea_base := Some \<lparr>ba_address = ''lux1ab'', ba_pub_key = None,
        ba_account_number = 5, ba_sequence = 9\<rparr>\<rparr>)"
proof -
  let ?b = "\<lparr>ba_address = ''lux1ab'', ba_pub_key = Some (Pk_other [1]),
        ba_account_number = 5, ba_sequence = 9\<rparr>"
  let ?acc = "\<lparr>ea_base = Some ?b, ea_code_hash = replicate 32 7\<rparr>"
  let ?p = "pretty_of demo_address_lib ?b (replicate 32 7) []"
  have m: "marshal_json demo_address_lib ?acc = Inr ?p" by (simp add: marshal_json_def)
  have "acc_from_bech32 (al_bech32 demo_address_lib) [] = None" by code_simp
  from account_json_round_trip [OF demo_address_laws _ _ m this, of ?b] m
  show ?thesis by (simp add: Let_def)
qed

section \<open>Errors and configuration\<close>

text \<open>\<open>IsKVNotFoundError\<close>: any other error panics.\<close>

definition is_kv_not_found_error :: "string option \<Rightarrow> bool res" where
  "is_kv_not_found_error e =
     (case e of
        None \<Rightarrow> Inr False
      | Some s \<Rightarrow> if contains_str s ''collections: not found'' then Inr True else Inl (Panic s))"

text \<open>
  The six prefixes of \<open>SetBech32Prefixes\<close>; \<open>pub\<close>, \<open>val\<close>, \<open>oper\<close> and \<open>cons\<close> are the SDK's.
\<close>

record sdk_config =
  cfg_account :: "string \<times> string"
  cfg_validator :: "string \<times> string"
  cfg_consensus :: "string \<times> string"
  cfg_coin_type :: "32 word"
  cfg_path :: string

record sdk_words =
  sw_public :: string
  sw_validator :: string
  sw_operator :: string
  sw_consensus :: string
  sw_eth_path :: string

definition bech32_main_prefix :: string where
  "bech32_main_prefix = ''lux''"

definition set_bech32_prefixes :: "sdk_words \<Rightarrow> sdk_config \<Rightarrow> sdk_config" where
  "set_bech32_prefixes W cfg =
     (let val = bech32_main_prefix @ sw_validator W; cons = bech32_main_prefix @ sw_validator W in
      cfg\<lparr>cfg_account := (bech32_main_prefix, bech32_main_prefix @ sw_public W),
          cfg_validator := (val @ sw_operator W, val @ sw_operator W @ sw_public W),
          cfg_consensus := (cons @ sw_consensus W, cons @ sw_consensus W @ sw_public W)\<rparr>)"

definition set_bip44_coin_type :: "sdk_words \<Rightarrow> sdk_config \<Rightarrow> sdk_config" where
  "set_bip44_coin_type W cfg = cfg\<lparr>cfg_coin_type := 60, cfg_path := sw_eth_path W\<rparr>"

end
