(* ===== verification/Module_Msgs.thy ===== *)
theory Module_Msgs
  imports Cosmos_Base
begin

text \<open>
  The stateless validation of the modules' messages (\<open>msgs.go\<close> of \<open>fnft\<close>, \<open>bazaar\<close>, \<open>astromesh\<close>,
  \<open>interpool\<close>, \<open>evm\<close> and \<open>oracle\<close> under \<open>chain/modules\<close>), of their genesis states, parameters and
  proposals, and the signers each message asks for.
\<close>

section \<open>What the SDK gives\<close>

text \<open>
  A \<open>math.Int\<close> holds a pointer to a big integer.  A message read off the wire without the field
  leaves it nil (\<open>None\<close>), and the comparisons \<open>GT\<close>, \<open>LT\<close>, \<open>LTE\<close> and \<open>IsPositive\<close> dereference it.
\<close>

type_synonym sdk_int = "int option"

definition int_check :: "(int \<Rightarrow> bool) \<Rightarrow> sdk_int \<Rightarrow> string \<Rightarrow> unit res" where
  "int_check bad i e =
     bind_res (of_option (Panic ''invalid memory address or nil pointer dereference'') i)
       (\<lambda>n. fail_if (bad n) e)"

lemma int_check_ok [simp]: "int_check bad i e = Inr () \<longleftrightarrow> (\<exists>n. i = Some n \<and> \<not> bad n)"
  by (cases i) (simp_all add: int_check_def of_option_def)

lemma panics_int_check [simp]: "panics (int_check bad i e) \<longleftrightarrow> i = None"
  by (cases i) (simp_all add: int_check_def of_option_def)

record coin =
  coin_denom :: string
  coin_amount :: sdk_int

text \<open>
  \<open>ml_coin_ok\<close> is \<open>Coin.Validate\<close> without an error, \<open>ml_coins_validate\<close> is \<open>Coins.Validate\<close>, and \<open>ml_metadata_ok\<close> and
  \<open>ml_abstract_ok\<close> are the checks of the bank and the governance module.
\<close>

record 'd msg_lib =
  ml_bech32 :: bech32_lib
  ml_valid_denom :: "string \<Rightarrow> bool"
  ml_coin_ok :: "coin \<Rightarrow> bool"
  ml_coins_validate :: "coin list \<Rightarrow> unit res"
  ml_metadata_base :: "'d \<Rightarrow> string"
  ml_metadata_ok :: "'d \<Rightarrow> bool"
  ml_abstract_ok :: "string \<Rightarrow> string \<Rightarrow> bool"

definition sender_check :: "'d msg_lib \<Rightarrow> string \<Rightarrow> unit res" where
  "sender_check L s =
     checked (replace_err ''Invalid sender address: invalid address'' (parse_acc (ml_bech32 L) s))"

text \<open>\<open>GetSigners\<close> drops the error of the parser; the nil address is empty.\<close>

definition signer_of :: "bech32_lib \<Rightarrow> string \<Rightarrow> bytes list" where
  "signer_of B s = [case acc_from_bech32 B s of None \<Rightarrow> [] | Some a \<Rightarrow> a]"

lemma sender_check_ok [simp]:
  "sender_check L s = Inr () \<longleftrightarrow> (\<exists>a. acc_from_bech32 (ml_bech32 L) s = Some a)"
  by (simp add: sender_check_def)

lemma sender_check_no_panic [simp]: "\<not> panics (sender_check L s)"
  by (simp add: sender_check_def)

section \<open>fnft\<close>

record msg_create =
  mc_sender :: string
  mc_class_id :: string
  mc_supply :: sdk_int
  mc_owner_equity_percent :: sdk_int
  mc_initial_price :: coin
  mc_iso_timestamp :: "64 word"
  mc_iso_success_percent :: "64 word"
  mc_accepted_payment_denom :: string
  mc_dividend_interval :: "64 word"

record msg_shares =
  ms_sender :: string
  ms_class_id :: string
  ms_id :: string
  ms_shares :: sdk_int

record msg_transfer_shares =
  mt_class_id :: string
  mt_id :: string
  mt_sender :: string
  mt_receiver :: string
  mt_shares :: sdk_int

record msg_sponsor =
  sp_sender :: string
  sp_class_id :: string
  sp_id :: string
  sp_coin :: coin
  sp_description :: string

definition create_validate_basic :: "'d msg_lib \<Rightarrow> msg_create \<Rightarrow> unit res" where
  "create_validate_basic L m = first_error
     [fail_if (mc_class_id m = []) ''empty class id'',
      sender_check L (mc_sender m),
      int_check (\<lambda>n. \<not> n > 0) (mc_supply m) ''Invalid nft supply: invalid coins'',
      int_check (\<lambda>n. n < 33) (mc_owner_equity_percent m)
        ''Minimum owner equity percent: invalid owner equity percent'',
      int_check (\<lambda>n. \<not> n > 0) (coin_amount (mc_initial_price m)) ''Invalid nft initial price: invalid coins'',
      fail_if (mc_iso_timestamp m = 0) ''Invalid ISO timestamp: feature not supported'',
      fail_if (mc_iso_success_percent m < 66) ''ISO success threshold cannot be smaller than minimum percent'',
      fail_if (\<not> ml_valid_denom L (mc_accepted_payment_denom m)) ''Invalid denom format: invalid coins'',
      fail_if (mc_dividend_interval m < 10) ''Invalid dividend interval: feature not supported'']"

definition create_get_signers :: "'d msg_lib \<Rightarrow> msg_create \<Rightarrow> bytes list" where
  "create_get_signers L m = signer_of (ml_bech32 L) (mc_sender m)"

text \<open>\<open>MsgPurchaseShares\<close>, \<open>MsgDepositShares\<close> and \<open>MsgWithdrawShares\<close> have the same fields.\<close>

definition shares_checks :: "'d msg_lib \<Rightarrow> msg_shares \<Rightarrow> unit res" where
  "shares_checks L m = first_error
     [fail_if (ms_class_id m = []) ''empty class id'',
      fail_if (ms_id m = []) ''empty nft id'',
      sender_check L (ms_sender m),
      int_check (\<lambda>n. \<not> n > 0) (ms_shares m) ''Invalid share amount: invalid coins'']"

definition purchase_validate_basic :: "'d msg_lib \<Rightarrow> msg_shares \<Rightarrow> unit res" where
  "purchase_validate_basic L m = shares_checks L m"

definition purchase_get_signers :: "'d msg_lib \<Rightarrow> msg_shares \<Rightarrow> bytes list" where
  "purchase_get_signers L m = signer_of (ml_bech32 L) (ms_sender m)"

definition deposit_shares_validate_basic :: "'d msg_lib \<Rightarrow> msg_shares \<Rightarrow> unit res" where
  "deposit_shares_validate_basic L m = shares_checks L m"

definition deposit_shares_get_signers :: "'d msg_lib \<Rightarrow> msg_shares \<Rightarrow> bytes list" where
  "deposit_shares_get_signers L m = signer_of (ml_bech32 L) (ms_sender m)"

definition withdraw_shares_validate_basic :: "'d msg_lib \<Rightarrow> msg_shares \<Rightarrow> unit res" where
  "withdraw_shares_validate_basic L m = shares_checks L m"

definition withdraw_shares_get_signers :: "'d msg_lib \<Rightarrow> msg_shares \<Rightarrow> bytes list" where
  "withdraw_shares_get_signers L m = signer_of (ml_bech32 L) (ms_sender m)"

definition transfer_shares_validate_basic :: "'d msg_lib \<Rightarrow> msg_transfer_shares \<Rightarrow> unit res" where
  "transfer_shares_validate_basic L m = first_error
     [fail_if (mt_class_id m = []) ''empty class id'',
      fail_if (mt_id m = []) ''empty nft id'',
      sender_check L (mt_sender m),
      checked (replace_err ''Invalid receiver address: invalid address''
        (parse_acc (ml_bech32 L) (mt_receiver m))),
      int_check (\<lambda>n. \<not> n > 0) (mt_shares m) ''Invalid share amount: invalid coins'']"

definition transfer_shares_get_signers :: "'d msg_lib \<Rightarrow> msg_transfer_shares \<Rightarrow> bytes list" where
  "transfer_shares_get_signers L m = signer_of (ml_bech32 L) (mt_sender m)"

definition sponsor_validate_basic :: "'d msg_lib \<Rightarrow> msg_sponsor \<Rightarrow> unit res" where
  "sponsor_validate_basic L m = first_error
     [fail_if (sp_class_id m = []) ''empty class id'',
      fail_if (sp_id m = []) ''empty nft id'',
      sender_check L (sp_sender m),
      int_check (\<lambda>n. \<not> n > 0) (coin_amount (sp_coin m)) ''Invalid sponsorship coin: invalid coins'',
      fail_if (\<not> ml_valid_denom L (coin_denom (sp_coin m))) ''Invalid denom format: invalid coins'']"

definition sponsor_get_signers :: "'d msg_lib \<Rightarrow> msg_sponsor \<Rightarrow> bytes list" where
  "sponsor_get_signers L m = signer_of (ml_bech32 L) (sp_sender m)"

text \<open>Genesis: the parts of a class, an NFT and a holder that are read.\<close>

record fnft_class =
  fc_id :: string
  fc_name :: string
  fc_description :: string
  fc_url :: string

record fnft_nft =
  fn_class_id :: string
  fn_id :: string
  fn_owner :: string

record fnft_holder =
  fh_class_id :: string
  fh_id :: string
  fh_address :: string

record fnft_genesis =
  fg_classes :: "fnft_class list"
  fg_nfts :: "fnft_nft list"
  fg_holders :: "fnft_holder list"

definition fnft_validate_genesis :: "bech32_lib \<Rightarrow> fnft_genesis \<Rightarrow> unit res" where
  "fnft_validate_genesis B g = first_error
     [for_each (\<lambda>c. fail_if (fc_id c = []) ''empty class id'') (fg_classes g),
      for_each (\<lambda>n. first_error
        [fail_if (fn_class_id n = []) ''empty class id'', fail_if (fn_id n = []) ''empty nft id'',
         checked (parse_acc B (fn_owner n))]) (fg_nfts g),
      for_each (\<lambda>h. first_error
        [fail_if (fh_class_id h = []) ''empty class id'', fail_if (fh_id h = []) ''empty nft id'',
         checked (parse_acc B (fh_address h))]) (fg_holders g)]"

definition fnft_default_genesis :: fnft_genesis where
  "fnft_default_genesis =
     \<lparr>fg_classes =
        [\<lparr>fc_id = ''series'', fc_name = ''series'', fc_description = ''Series NFT'',
          fc_url = ''https://flux.network''\<rparr>,
         \<lparr>fc_id = ''livestream'', fc_name = ''livestream'', fc_description = ''Livestream NFT'',
          fc_url = ''https://flux.network''\<rparr>,
         \<lparr>fc_id = ''music'', fc_name = ''music'', fc_description = ''Music NFT'',
          fc_url = ''https://flux.network''\<rparr>,
         \<lparr>fc_id = ''consuming'', fc_name = ''consuming'',
          fc_description = ''Consuming NFT (ticket, book, game...)'', fc_url = ''https://flux.network''\<rparr>],
      fg_nfts = [], fg_holders = []\<rparr>"

section \<open>bazaar\<close>

record offering =
  of_url :: string
  of_price :: coin
  of_purchase_count :: "64 word"

record msg_create_product =
  cp_sender :: string
  cp_class_id :: string
  cp_id :: string
  cp_offerings :: "offering list"
  cp_tags :: "string list"

record msg_purchase_offering =
  po_sender :: string
  po_class_id :: string
  po_id :: string
  po_product_id :: string
  po_offering_idx :: "64 word list"
  po_offering_quantity :: "64 word list"

record msg_verify_product =
  vp_sender :: string
  vp_class_id :: string
  vp_id :: string
  vp_product_id :: string

definition offering_checks :: "offering \<Rightarrow> unit res" where
  "offering_checks x = first_error
     [fail_if (of_url x \<noteq> []) ''offering URL will be generated on chain'',
      fail_if (coin_denom (of_price x) = []) ''invalid offering denom'',
      int_check (\<lambda>n. n \<le> 0) (coin_amount (of_price x)) ''invalid offering amount'',
      fail_if (of_purchase_count x \<noteq> 0) ''cannot set purchase count from product creation tx'']"

definition create_product_validate_basic :: "'d msg_lib \<Rightarrow> msg_create_product \<Rightarrow> unit res" where
  "create_product_validate_basic L m = first_error
     [sender_check L (cp_sender m),
      fail_if (cp_class_id m = []) ''empty class id'',
      fail_if (cp_id m = []) ''empty nft id'',
      fail_if (cp_offerings m = []) ''empty offerings'',
      for_each offering_checks (cp_offerings m)]"

definition create_product_get_signers :: "'d msg_lib \<Rightarrow> msg_create_product \<Rightarrow> bytes list" where
  "create_product_get_signers L m = signer_of (ml_bech32 L) (cp_sender m)"

definition purchase_offering_validate_basic :: "'d msg_lib \<Rightarrow> msg_purchase_offering \<Rightarrow> unit res" where
  "purchase_offering_validate_basic L m = first_error
     [sender_check L (po_sender m),
      fail_if (po_class_id m = []) ''empty class id'',
      fail_if (po_id m = []) ''empty nft id'',
      fail_if (po_product_id m = []) ''empty product id'',
      fail_if (po_offering_idx m = []) ''empty offerings'',
      fail_if (po_offering_quantity m = []) ''empty offerings'',
      fail_if (length (po_offering_idx m) \<noteq> length (po_offering_quantity m))
        ''mismatch offering idx and quantity lengths'']"

definition purchase_offering_get_signers :: "'d msg_lib \<Rightarrow> msg_purchase_offering \<Rightarrow> bytes list" where
  "purchase_offering_get_signers L m = signer_of (ml_bech32 L) (po_sender m)"

definition verify_product_validate_basic :: "'d msg_lib \<Rightarrow> msg_verify_product \<Rightarrow> unit res" where
  "verify_product_validate_basic L m = first_error
     [sender_check L (vp_sender m),
      fail_if (vp_class_id m = []) ''empty class id'',
      fail_if (vp_id m = []) ''empty nft id'',
      fail_if (vp_product_id m = []) ''empty product id'']"

definition verify_product_get_signers :: "'d msg_lib \<Rightarrow> msg_verify_product \<Rightarrow> bytes list" where
  "verify_product_get_signers L m = signer_of (ml_bech32 L) (vp_sender m)"

record product =
  pr_class_id :: string
  pr_id :: string
  pr_product_id :: string
  pr_offerings :: "offering list"

record class_commission =
  cc_class_id :: string
  cc_mul :: "64 word"
  cc_div :: "64 word"

record bazaar_genesis =
  bg_products :: "product list"
  bg_commissions :: "class_commission list"
  bg_verifiers :: "string list"

definition commission_checks :: "string \<Rightarrow> class_commission \<Rightarrow> unit res" where
  "commission_checks e c = first_error
     [fail_if (cc_class_id c = []) ''empty class id'', fail_if (cc_mul c = 0 \<or> cc_div c = 0) e]"

definition bazaar_validate_genesis :: "bech32_lib \<Rightarrow> bazaar_genesis \<Rightarrow> unit res" where
  "bazaar_validate_genesis B g = first_error
     [for_each (\<lambda>p. first_error
        [fail_if (pr_class_id p = []) ''empty class id'', fail_if (pr_id p = []) ''empty nft id'',
         fail_if (pr_product_id p = []) ''empty product id'',
         fail_if (pr_offerings p = []) ''empty offerings'']) (bg_products g),
      for_each (commission_checks ''invalid class commission part'') (bg_commissions g),
      for_each (\<lambda>v. checked (parse_acc B v)) (bg_verifiers g)]"

definition bazaar_default_genesis :: bazaar_genesis where
  "bazaar_default_genesis =
     \<lparr>bg_products = [],
      bg_commissions =
        [\<lparr>cc_class_id = ''series'', cc_mul = 15, cc_div = 100\<rparr>,
         \<lparr>cc_class_id = ''livestream'', cc_mul = 50, cc_div = 100\<rparr>,
         \<lparr>cc_class_id = ''music'', cc_mul = 15, cc_div = 100\<rparr>,
         \<lparr>cc_class_id = ''consuming'', cc_mul = 15, cc_div = 100\<rparr>],
      bg_verifiers =
        [''lux10tq6q4p67prfmhmzmdwg7zwx66v0gpfdygrr8z'',
         ''lux1kmmz47pr8h46wcyxw8h3k8s85x0ncykqp0xmgj'']\<rparr>"

record class_commissions_proposal =
  cm_title :: string
  cm_description :: string
  cm_class_commissions :: "class_commission list"

record verifiers_proposal =
  vr_title :: string
  vr_description :: string
  vr_verifiers :: "string list"

text \<open>\<open>govtypes.ValidateAbstract\<close> reads the title and the description.\<close>

definition class_commissions_validate_basic ::
  "'d msg_lib \<Rightarrow> class_commissions_proposal \<Rightarrow> unit res" where
  "class_commissions_validate_basic L p = first_error
     [fail_if (cm_class_commissions p = []) ''commissions array cannot be empty'',
      for_each (commission_checks ''commission parts cannot be 0'') (cm_class_commissions p),
      fail_if (\<not> ml_abstract_ok L (cm_title p) (cm_description p)) ''invalid proposal content'']"

definition verifiers_validate_basic :: "'d msg_lib \<Rightarrow> verifiers_proposal \<Rightarrow> unit res" where
  "verifiers_validate_basic L p = first_error
     [fail_if (vr_verifiers p = []) ''verifier list cannot be empty'',
      for_each (\<lambda>v. checked (parse_acc (ml_bech32 L) v)) (vr_verifiers p),
      fail_if (\<not> ml_abstract_ok L (vr_title p) (vr_description p)) ''invalid proposal content'']"

section \<open>evm and oracle\<close>

record msg_deploy_contract =
  dc_sender :: string
  dc_bytecode :: bytes
  dc_calldata :: bytes
  dc_input_amount :: bytes

record msg_execute_contract =
  xc_sender :: string
  xc_contract_address :: bytes
  xc_calldata :: bytes
  xc_input_amount :: bytes

definition deploy_contract_validate_basic :: "'d msg_lib \<Rightarrow> msg_deploy_contract \<Rightarrow> unit res" where
  "deploy_contract_validate_basic L m = first_error
     [fail_if (dc_bytecode m = []) ''byte code cannot be empty'',
      fail_if (length (dc_input_amount m) > 32) ''input value must not be more than hash len'',
      checked (wrap_err ''malformed sender'' (parse_acc (ml_bech32 L) (dc_sender m)))]"

definition deploy_contract_get_signers :: "'d msg_lib \<Rightarrow> msg_deploy_contract \<Rightarrow> bytes list" where
  "deploy_contract_get_signers L m = signer_of (ml_bech32 L) (dc_sender m)"

definition execute_contract_validate_basic :: "'d msg_lib \<Rightarrow> msg_execute_contract \<Rightarrow> unit res" where
  "execute_contract_validate_basic L m = first_error
     [fail_if (length (xc_contract_address m) \<noteq> 20) ''wrong length of the contract address'',
      checked (wrap_err ''malformed sender'' (parse_acc (ml_bech32 L) (xc_sender m)))]"

definition execute_contract_get_signers :: "'d msg_lib \<Rightarrow> msg_execute_contract \<Rightarrow> bytes list" where
  "execute_contract_get_signers L m = signer_of (ml_bech32 L) (xc_sender m)"

text \<open>The block gas limit is an \<open>int64\<close>, read with \<open>sint\<close>.\<close>

record evm_params =
  ev_block_gas_limit :: "64 word"
  ev_gas_price :: "64 word"
  ev_base_fee :: "64 word"

definition evm_new_params :: "64 word \<Rightarrow> 64 word \<Rightarrow> 64 word \<Rightarrow> evm_params" where
  "evm_new_params limit price fee =
     \<lparr>ev_block_gas_limit = limit, ev_gas_price = price, ev_base_fee = fee\<rparr>"

definition evm_default_params :: evm_params where
  "evm_default_params = \<lparr>ev_block_gas_limit = 7000000, ev_gas_price = 1, ev_base_fee = 1\<rparr>"

definition evm_params_validate :: "evm_params \<Rightarrow> unit res" where
  "evm_params_validate p = first_error
     [fail_if (sint (ev_block_gas_limit p) \<le> 0) ''invalid evm block gas limit'',
      fail_if (ev_gas_price p \<le> 0) ''invalid evm gas price'',
      fail_if (ev_base_fee p \<le> 0) ''invalid evm base fee'']"

definition evm_validate_genesis :: "evm_params option \<Rightarrow> unit res" where
  "evm_validate_genesis g =
     bind_res (of_option (Panic ''nil pointer dereference'') g) evm_params_validate"

definition evm_default_genesis :: "evm_params option" where
  "evm_default_genesis = Some evm_default_params"

record 'e msg_push_simple_entry =
  ps_sender :: string
  ps_entries :: "'e list"

definition push_entry_validate_basic :: "'d msg_lib \<Rightarrow> 'e msg_push_simple_entry \<Rightarrow> unit res" where
  "push_entry_validate_basic L m = first_error
     [checked (parse_acc (ml_bech32 L) (ps_sender m)),
      fail_if (ps_entries m = []) ''empty entries array'']"

definition push_entry_get_signers :: "'d msg_lib \<Rightarrow> 'e msg_push_simple_entry \<Rightarrow> bytes list" where
  "push_entry_get_signers L m = signer_of (ml_bech32 L) (ps_sender m)"

section \<open>interpool\<close>

definition percentage_precision :: int where
  "percentage_precision = 10000"

record 'c msg_create_pool =
  pc_sender :: string
  pc_commission :: "'c option"

record msg_update_pool =
  pu_sender :: string
  pu_pool_id :: string
  pu_cron_id :: string

record msg_deposit =
  pd_sender :: string
  pd_pool_id :: string
  pd_snapshot :: "coin list"

record msg_withdraw =
  pw_sender :: string
  pw_pool_id :: string
  pw_percentage :: sdk_int

definition hex_check :: "string \<Rightarrow> string \<Rightarrow> unit res" where
  "hex_check e s = checked (of_option (Err e) (hex_decode s))"

definition create_pool_validate_basic :: "'c msg_create_pool \<Rightarrow> unit res" where
  "create_pool_validate_basic m = fail_if (pc_commission m = None) ''require commission config''"

definition create_pool_get_signers :: "bech32_lib \<Rightarrow> 'c msg_create_pool \<Rightarrow> bytes list" where
  "create_pool_get_signers B m = signer_of B (pc_sender m)"

definition update_pool_validate_basic :: "msg_update_pool \<Rightarrow> unit res" where
  "update_pool_validate_basic m = first_error
     [hex_check ''pool id is not valid hex'' (pu_pool_id m),
      hex_check ''cron id is not valid hex'' (pu_cron_id m)]"

definition update_pool_get_signers :: "bech32_lib \<Rightarrow> msg_update_pool \<Rightarrow> bytes list" where
  "update_pool_get_signers B m = signer_of B (pu_sender m)"

definition deposit_validate_basic :: "'d msg_lib \<Rightarrow> msg_deposit \<Rightarrow> unit res" where
  "deposit_validate_basic L m = first_error
     [hex_check ''pool id is not valid hex'' (pd_pool_id m),
      wrap_err ''deposit snapshot validate err'' (ml_coins_validate L (pd_snapshot m))]"

definition deposit_get_signers :: "'d msg_lib \<Rightarrow> msg_deposit \<Rightarrow> bytes list" where
  "deposit_get_signers L m = signer_of (ml_bech32 L) (pd_sender m)"

definition withdraw_validate_basic :: "msg_withdraw \<Rightarrow> unit res" where
  "withdraw_validate_basic m = first_error
     [hex_check ''pool id is not valid hex'' (pw_pool_id m),
      int_check (\<lambda>n. \<not> n > 0 \<or> n > percentage_precision) (pw_percentage m)
        ''percentage must be in range'']"

definition withdraw_get_signers :: "bech32_lib \<Rightarrow> msg_withdraw \<Rightarrow> bytes list" where
  "withdraw_get_signers B m = signer_of B (pw_sender m)"

section \<open>astromesh\<close>

text \<open>
  Enumerations are \<open>int32\<close> values; \<open>Plane_name\<close> and \<open>TxAction_name\<close> are the names of the known
  ones, and \<open>String\<close> prints an unknown value as a number (signed).
\<close>

definition plane_name :: "32 word \<Rightarrow> string option" where
  "plane_name x = map_of [(0, ''COSMOS''), (1, ''WASM''), (2, ''EVM''), (3, ''SVM'')] x"

definition tx_action_name :: "32 word \<Rightarrow> string option" where
  "tx_action_name x =
     map_of [(0, ''VM_INVOKE''), (1, ''COSMOS_BANK_SEND''), (2, ''COSMOS_ASTROMESH_TRANSFER''),
             (3, ''COSMOS_INVOKE'')] x"

definition enum_string :: "(32 word \<Rightarrow> string option) \<Rightarrow> 32 word \<Rightarrow> string" where
  "enum_string name x =
     (case name x of
        Some s \<Rightarrow> s
      | None \<Rightarrow>
          if sint x < 0 then CHR ''-'' # dec_string (nat (- sint x)) else dec_string (nat (sint x)))"

record msg_charge_vm_account =
  cv_sender :: string
  cv_plane :: "32 word"
  cv_amount :: coin

record msg_drain_vm_account =
  dv_sender :: string
  dv_plane :: "32 word"

record msg_astro_transfer =
  at_sender :: string
  at_receiver :: string
  at_src_plane :: "32 word"
  at_dst_plane :: "32 word"
  at_coin :: coin

record fis_instruction =
  fi_plane :: "32 word"
  fi_action :: "32 word"
  fi_address :: bytes
  fi_msg :: bytes

record msg_fis_transaction =
  ft_sender :: string
  ft_instructions :: "fis_instruction list"

record 'd msg_create_bank_denom =
  bd_sender :: string
  bd_metadata :: "'d option"

definition plane_check :: "string \<Rightarrow> 32 word \<Rightarrow> unit res" where
  "plane_check e x = fail_if (plane_name x = None) e"

definition charge_validate_basic :: "'d msg_lib \<Rightarrow> msg_charge_vm_account \<Rightarrow> unit res" where
  "charge_validate_basic L m = first_error
     [fail_if (cv_sender m = []) ''empty sender'',
      plane_check ''unsupported vm plane'' (cv_plane m),
      fail_if (\<not> ml_coin_ok L (cv_amount m)) ''coin format err'']"

definition charge_get_signers :: "bech32_lib \<Rightarrow> msg_charge_vm_account \<Rightarrow> bytes list" where
  "charge_get_signers B m = signer_of B (cv_sender m)"

definition drain_validate_basic :: "msg_drain_vm_account \<Rightarrow> unit res" where
  "drain_validate_basic m = first_error
     [fail_if (dv_sender m = []) ''empty sender'',
      plane_check ''unsupported vm plane'' (dv_plane m)]"

definition drain_get_signers :: "bech32_lib \<Rightarrow> msg_drain_vm_account \<Rightarrow> bytes list" where
  "drain_get_signers B m = signer_of B (dv_sender m)"

definition astro_transfer_validate_basic :: "'d msg_lib \<Rightarrow> msg_astro_transfer \<Rightarrow> unit res" where
  "astro_transfer_validate_basic L m = first_error
     [fail_if (at_sender m = []) ''empty sender'',
      fail_if (at_receiver m = []) ''empty receiver'',
      plane_check ''unsupported source plane'' (at_src_plane m),
      plane_check ''unsupported dest plane'' (at_dst_plane m),
      fail_if (\<not> ml_coin_ok L (at_coin m)) ''coin format err'']"

definition astro_transfer_get_signers :: "bech32_lib \<Rightarrow> msg_astro_transfer \<Rightarrow> bytes list" where
  "astro_transfer_get_signers B m = signer_of B (at_sender m)"

definition fis_validate_basic :: "msg_fis_transaction \<Rightarrow> unit res" where
  "fis_validate_basic m = first_error
     [fail_if (ft_sender m = []) ''empty sender'',
      for_each (\<lambda>ix. first_error
        [plane_check ''unsupported vm plane'' (fi_plane ix),
         fail_if (tx_action_name (fi_action ix) = None) ''unsupported instruction type'']) (ft_instructions m)]"

definition fis_get_signers :: "bech32_lib \<Rightarrow> msg_fis_transaction \<Rightarrow> bytes list" where
  "fis_get_signers B m = signer_of B (ft_sender m)"

definition create_denom_validate_basic :: "'d msg_lib \<Rightarrow> 'd msg_create_bank_denom \<Rightarrow> unit res" where
  "create_denom_validate_basic L m =
     bind_res (fail_if (bd_sender m = []) ''empty sender'') (\<lambda>_.
     bind_res (of_option (Err ''expected non-nil metadata'') (bd_metadata m)) (\<lambda>d.
     bind_res (fail_if (\<not> has_prefix (ml_metadata_base L d) (''astromesh/'' @ bd_sender m @ ''/''))
       ''coin name must start with the sender'') (\<lambda>_.
       fail_if (\<not> ml_metadata_ok L d) ''validate coin err'')))"

definition create_denom_get_signers :: "bech32_lib \<Rightarrow> 'd msg_create_bank_denom \<Rightarrow> bytes list" where
  "create_denom_get_signers B m = signer_of B (bd_sender m)"

section \<open>Signers\<close>

text \<open>
  The contract of a message type whose sender is checked: what validates has a sender that
  parses, and the signers are those of the sender.
\<close>

locale signed_message =
  fixes B :: bech32_lib and validate :: "'m \<Rightarrow> unit res" and sender :: "'m \<Rightarrow> string"
    and signers :: "'m \<Rightarrow> bytes list"
  assumes validate_sender: "validate m = Inr () \<Longrightarrow> \<exists>a. acc_from_bech32 B (sender m) = Some a"
    and signers_sender: "signers m = signer_of B (sender m)"
begin

lemma signed: "validate m = Inr () \<Longrightarrow> \<exists>a. acc_from_bech32 B (sender m) = Some a \<and> signers m = [a]"
  using validate_sender [of m] signers_sender [of m] by (auto simp: signer_of_def)

lemma wrong_sender: "acc_from_bech32 B (sender m) = None \<Longrightarrow> validate m \<noteq> Inr ()"
  using validate_sender [of m] by auto

end

named_theorems msg_defs \<open>validation and signers of the messages\<close>

lemmas [msg_defs] = create_validate_basic_def create_get_signers_def shares_checks_def
  purchase_validate_basic_def purchase_get_signers_def deposit_shares_validate_basic_def
  deposit_shares_get_signers_def withdraw_shares_validate_basic_def withdraw_shares_get_signers_def
  transfer_shares_validate_basic_def transfer_shares_get_signers_def sponsor_validate_basic_def
  sponsor_get_signers_def create_product_validate_basic_def create_product_get_signers_def
  purchase_offering_validate_basic_def purchase_offering_get_signers_def
  verify_product_validate_basic_def verify_product_get_signers_def deploy_contract_validate_basic_def
  deploy_contract_get_signers_def execute_contract_validate_basic_def
  execute_contract_get_signers_def push_entry_validate_basic_def push_entry_get_signers_def

interpretation fnft_create: signed_message "ml_bech32 L" "create_validate_basic L" mc_sender "create_get_signers L" for L
  by unfold_locales (auto simp: msg_defs first_error_ok_iff)

interpretation fnft_purchase: signed_message "ml_bech32 L" "purchase_validate_basic L" ms_sender "purchase_get_signers L" for L
  by unfold_locales (auto simp: msg_defs first_error_ok_iff)

interpretation fnft_deposit: signed_message "ml_bech32 L" "deposit_shares_validate_basic L" ms_sender "deposit_shares_get_signers L" for L
  by unfold_locales (auto simp: msg_defs first_error_ok_iff)

interpretation fnft_withdraw: signed_message "ml_bech32 L" "withdraw_shares_validate_basic L" ms_sender "withdraw_shares_get_signers L" for L
  by unfold_locales (auto simp: msg_defs first_error_ok_iff)

interpretation fnft_transfer: signed_message "ml_bech32 L" "transfer_shares_validate_basic L" mt_sender "transfer_shares_get_signers L" for L
  by unfold_locales (auto simp: msg_defs first_error_ok_iff)

interpretation fnft_sponsor: signed_message "ml_bech32 L" "sponsor_validate_basic L" sp_sender "sponsor_get_signers L" for L
  by unfold_locales (auto simp: msg_defs first_error_ok_iff)

interpretation bazaar_create: signed_message "ml_bech32 L" "create_product_validate_basic L" cp_sender "create_product_get_signers L" for L
  by unfold_locales (auto simp: msg_defs first_error_ok_iff)

interpretation bazaar_purchase: signed_message "ml_bech32 L" "purchase_offering_validate_basic L" po_sender "purchase_offering_get_signers L" for L
  by unfold_locales (auto simp: msg_defs first_error_ok_iff)

interpretation bazaar_verify: signed_message "ml_bech32 L" "verify_product_validate_basic L" vp_sender "verify_product_get_signers L" for L
  by unfold_locales (auto simp: msg_defs first_error_ok_iff)

interpretation evm_deploy: signed_message "ml_bech32 L" "deploy_contract_validate_basic L" dc_sender "deploy_contract_get_signers L" for L
  by unfold_locales (auto simp: msg_defs first_error_ok_iff)

interpretation evm_execute: signed_message "ml_bech32 L" "execute_contract_validate_basic L" xc_sender "execute_contract_get_signers L" for L
  by unfold_locales (auto simp: msg_defs first_error_ok_iff)

interpretation oracle_push: signed_message "ml_bech32 L" "push_entry_validate_basic L" ps_sender "push_entry_get_signers L" for L
  by unfold_locales (auto simp: msg_defs first_error_ok_iff)

text \<open>The messages of the four modules as values of the interface \<open>sdk.Msg\<close>.\<close>

datatype 'e module_msg =
    Msg_create msg_create
  | Msg_purchase_shares msg_shares
  | Msg_deposit_shares msg_shares
  | Msg_withdraw_shares msg_shares
  | Msg_transfer_shares msg_transfer_shares
  | Msg_sponsor msg_sponsor
  | Msg_create_product msg_create_product
  | Msg_purchase_offering msg_purchase_offering
  | Msg_verify_product msg_verify_product
  | Msg_deploy_contract msg_deploy_contract
  | Msg_execute_contract msg_execute_contract
  | Msg_push_simple_entry "'e msg_push_simple_entry"

fun validate_basic :: "'d msg_lib \<Rightarrow> 'e module_msg \<Rightarrow> unit res" where
  "validate_basic L (Msg_create m) = create_validate_basic L m"
| "validate_basic L (Msg_purchase_shares m) = purchase_validate_basic L m"
| "validate_basic L (Msg_deposit_shares m) = deposit_shares_validate_basic L m"
| "validate_basic L (Msg_withdraw_shares m) = withdraw_shares_validate_basic L m"
| "validate_basic L (Msg_transfer_shares m) = transfer_shares_validate_basic L m"
| "validate_basic L (Msg_sponsor m) = sponsor_validate_basic L m"
| "validate_basic L (Msg_create_product m) = create_product_validate_basic L m"
| "validate_basic L (Msg_purchase_offering m) = purchase_offering_validate_basic L m"
| "validate_basic L (Msg_verify_product m) = verify_product_validate_basic L m"
| "validate_basic L (Msg_deploy_contract m) = deploy_contract_validate_basic L m"
| "validate_basic L (Msg_execute_contract m) = execute_contract_validate_basic L m"
| "validate_basic L (Msg_push_simple_entry m) = push_entry_validate_basic L m"

fun get_signers :: "'d msg_lib \<Rightarrow> 'e module_msg \<Rightarrow> bytes list" where
  "get_signers L (Msg_create m) = create_get_signers L m"
| "get_signers L (Msg_purchase_shares m) = purchase_get_signers L m"
| "get_signers L (Msg_deposit_shares m) = deposit_shares_get_signers L m"
| "get_signers L (Msg_withdraw_shares m) = withdraw_shares_get_signers L m"
| "get_signers L (Msg_transfer_shares m) = transfer_shares_get_signers L m"
| "get_signers L (Msg_sponsor m) = sponsor_get_signers L m"
| "get_signers L (Msg_create_product m) = create_product_get_signers L m"
| "get_signers L (Msg_purchase_offering m) = purchase_offering_get_signers L m"
| "get_signers L (Msg_verify_product m) = verify_product_get_signers L m"
| "get_signers L (Msg_deploy_contract m) = deploy_contract_get_signers L m"
| "get_signers L (Msg_execute_contract m) = execute_contract_get_signers L m"
| "get_signers L (Msg_push_simple_entry m) = push_entry_get_signers L m"

fun msg_sender :: "'e module_msg \<Rightarrow> string" where
  "msg_sender (Msg_create m) = mc_sender m"
| "msg_sender (Msg_purchase_shares m) = ms_sender m"
| "msg_sender (Msg_deposit_shares m) = ms_sender m"
| "msg_sender (Msg_withdraw_shares m) = ms_sender m"
| "msg_sender (Msg_transfer_shares m) = mt_sender m"
| "msg_sender (Msg_sponsor m) = sp_sender m"
| "msg_sender (Msg_create_product m) = cp_sender m"
| "msg_sender (Msg_purchase_offering m) = po_sender m"
| "msg_sender (Msg_verify_product m) = vp_sender m"
| "msg_sender (Msg_deploy_contract m) = dc_sender m"
| "msg_sender (Msg_execute_contract m) = xc_sender m"
| "msg_sender (Msg_push_simple_entry m) = ps_sender m"

text \<open>The share and coin amounts a message moves or sets.\<close>

fun msg_amounts :: "'e module_msg \<Rightarrow> sdk_int list" where
  "msg_amounts (Msg_create m) = [mc_supply m, coin_amount (mc_initial_price m)]"
| "msg_amounts (Msg_purchase_shares m) = [ms_shares m]"
| "msg_amounts (Msg_deposit_shares m) = [ms_shares m]"
| "msg_amounts (Msg_withdraw_shares m) = [ms_shares m]"
| "msg_amounts (Msg_transfer_shares m) = [mt_shares m]"
| "msg_amounts (Msg_sponsor m) = [coin_amount (sp_coin m)]"
| "msg_amounts (Msg_create_product m) = map (\<lambda>x. coin_amount (of_price x)) (cp_offerings m)"
| "msg_amounts m = []"

lemma validate_basic_signed:
  "validate_basic L m = Inr () \<Longrightarrow> \<exists>a. acc_from_bech32 (ml_bech32 L) (msg_sender m) = Some a \<and> get_signers L m = [a]"
  by (cases m) (simp_all add: fnft_create.signed fnft_purchase.signed fnft_deposit.signed
      fnft_withdraw.signed fnft_transfer.signed fnft_sponsor.signed bazaar_create.signed
      bazaar_purchase.signed bazaar_verify.signed evm_deploy.signed evm_execute.signed oracle_push.signed)

lemma validate_basic_amounts:
  "validate_basic L m = Inr () \<Longrightarrow> \<forall>x \<in> set (msg_amounts m). \<exists>n. x = Some n \<and> 0 < n"
  by (cases m) (auto simp: msg_defs first_error_ok_iff for_each_ok_iff offering_checks_def)

text \<open>All the \<open>math.Int\<close> fields that validation compares.\<close>

fun msg_ints :: "'e module_msg \<Rightarrow> sdk_int list" where
  "msg_ints (Msg_create m) =
     [mc_supply m, mc_owner_equity_percent m, coin_amount (mc_initial_price m)]"
| "msg_ints m = msg_amounts m"

lemma validate_basic_panics: "panics (validate_basic L m) \<Longrightarrow> None \<in> set (msg_ints m)"
  by (cases m; auto simp: msg_defs offering_checks_def image_iff eq_commute [of None]
      dest!: panics_first_errorD panics_for_eachD; blast)

text \<open>The panics are real: a message of each module that is well-formed up to its missing amount.\<close>

lemma missing_amount_panics:
  assumes "acc_from_bech32 (ml_bech32 L) s = Some a" and "c \<noteq> []" and "i \<noteq> []" and "d \<noteq> []"
  shows "panics (validate_basic L (Msg_sponsor \<lparr>sp_sender = s, sp_class_id = c, sp_id = i,
       sp_coin = \<lparr>coin_denom = d, coin_amount = None\<rparr>, sp_description = []\<rparr>))"
    and "panics (validate_basic L (Msg_purchase_shares \<lparr>ms_sender = s, ms_class_id = c, ms_id = i,
       ms_shares = None\<rparr>))"
    and "panics (validate_basic L (Msg_create_product \<lparr>cp_sender = s, cp_class_id = c, cp_id = i,
       cp_offerings = [\<lparr>of_url = [], of_price = \<lparr>coin_denom = d, coin_amount = None\<rparr>,
         of_purchase_count = 0\<rparr>], cp_tags = []\<rparr>))"
  using assms
  by (simp_all add: msg_defs offering_checks_def first_error_simps fail_if_def int_check_def of_option_def)

text \<open>
  C27. A message of the modules \<open>fnft\<close>, \<open>bazaar\<close>, \<open>evm\<close> or \<open>oracle\<close> that passes its \<open>ValidateBasic\<close> has
  exactly one signer, the address its sender field parses to, and every amount of shares and
  coins it moves is present and positive.  \<open>ValidateBasic\<close> panics only on a message that lacks one of
  the integers it compares (a nil \<open>math.Int\<close>, which a message without the field has after
  decoding; lemma \<open>missing_amount_panics\<close> shows that it does).
\<close>

theorem validated_message_is_signed_by_its_sender:
  "(validate_basic L m = Inr () \<longrightarrow>
     (\<exists>a. acc_from_bech32 (ml_bech32 L) (msg_sender m) = Some a \<and> get_signers L m = [a]) \<and>
     (\<forall>x \<in> set (msg_amounts m). \<exists>n. x = Some n \<and> 0 < n)) \<and>
   (panics (validate_basic L m) \<longrightarrow> None \<in> set (msg_ints m))"
  using validate_basic_signed [of L m] validate_basic_amounts [of L m] validate_basic_panics [of L m]
  by blast

definition demo_msg_lib :: "string msg_lib" where
  "demo_msg_lib =
     \<lparr>ml_bech32 = toy_bech32, ml_valid_denom = (\<lambda>d. length d \<ge> 3), ml_coin_ok = (\<lambda>c. case coin_amount c of Some n \<Rightarrow> 0 \<le> n | None \<Rightarrow> False),
      ml_coins_validate = (\<lambda>_. Inr ()), ml_metadata_base = (\<lambda>d. d),
      ml_metadata_ok = (\<lambda>d. d \<noteq> []), ml_abstract_ok = (\<lambda>t d. t \<noteq> [])\<rparr>"

theorem validated_message_is_signed_by_its_sender_witness:
  "let m = Msg_sponsor \<lparr>sp_sender = ''lux1a'', sp_class_id = ''c'', sp_id = ''1'',
       sp_coin = \<lparr>coin_denom = ''lux'', coin_amount = Some 5\<rparr>, sp_description = []\<rparr> :: unit module_msg in
   validate_basic demo_msg_lib m = Inr () \<and> get_signers demo_msg_lib m = [to_bytes ''a'']"
proof -
  let ?m = "Msg_sponsor \<lparr>sp_sender = ''lux1a'', sp_class_id = ''c'', sp_id = ''1'',
       sp_coin = \<lparr>coin_denom = ''lux'', coin_amount = Some 5\<rparr>, sp_description = []\<rparr> :: unit module_msg"
  have "validate_basic demo_msg_lib ?m = Inr ()" by code_simp
  moreover have "acc_from_bech32 (ml_bech32 demo_msg_lib) (msg_sender ?m) = Some (to_bytes ''a'')"
    by code_simp
  ultimately show ?thesis
    using validated_message_is_signed_by_its_sender [of demo_msg_lib ?m] by (auto simp: Let_def)
qed

text \<open>
  The messages of \<open>astromesh\<close> and two of \<open>interpool\<close> do not have that guarantee: with any non-empty sender that is not
  an address, otherwise well-formed messages pass \<open>ValidateBasic\<close>, and their only signer is the
  empty address.
\<close>

theorem unparsable_sender_passes_validation:
  assumes "acc_from_bech32 (ml_bech32 L) s = None" and "s \<noteq> []" and "ml_coin_ok L c"
    and "plane_name x \<noteq> None" and "hex_decode pool \<noteq> None" and "hex_decode cron \<noteq> None"
  shows "(let m = \<lparr>cv_sender = s, cv_plane = x, cv_amount = c\<rparr> in
       charge_validate_basic L m = Inr () \<and> charge_get_signers (ml_bech32 L) m = [[]]) \<and>
    (let m = \<lparr>dv_sender = s, dv_plane = x\<rparr> in
       drain_validate_basic m = Inr () \<and> drain_get_signers (ml_bech32 L) m = [[]]) \<and>
    (let m = \<lparr>at_sender = s, at_receiver = s, at_src_plane = x, at_dst_plane = x, at_coin = c\<rparr> in
       astro_transfer_validate_basic L m = Inr () \<and> astro_transfer_get_signers (ml_bech32 L) m = [[]]) \<and>
    (let m = \<lparr>ft_sender = s, ft_instructions = []\<rparr> in
       fis_validate_basic m = Inr () \<and> fis_get_signers (ml_bech32 L) m = [[]]) \<and>
    (let m = \<lparr>pu_sender = s, pu_pool_id = pool, pu_cron_id = cron\<rparr> in
       update_pool_validate_basic m = Inr () \<and> update_pool_get_signers (ml_bech32 L) m = [[]])"
  using assms
  by (simp add: Let_def charge_validate_basic_def charge_get_signers_def drain_validate_basic_def
      drain_get_signers_def astro_transfer_validate_basic_def astro_transfer_get_signers_def
      fis_validate_basic_def fis_get_signers_def update_pool_validate_basic_def
      update_pool_get_signers_def hex_check_def first_error_ok_iff plane_check_def signer_of_def)

theorem unparsable_sender_passes_validation_witness:
  "let m = \<lparr>cv_sender = ''nobody'', cv_plane = 3, cv_amount = \<lparr>coin_denom = ''lux'', coin_amount = Some 1\<rparr>\<rparr> in
     charge_validate_basic demo_msg_lib m = Inr () \<and> charge_get_signers toy_bech32 m = [[]]"
proof -
  have "acc_from_bech32 (ml_bech32 demo_msg_lib) ''nobody'' = None" "plane_name 3 \<noteq> None"
    "ml_coin_ok demo_msg_lib \<lparr>coin_denom = ''lux'', coin_amount = Some 1\<rparr>" "hex_decode ''00'' \<noteq> None"
    by code_simp+
  from unparsable_sender_passes_validation [OF this(1) _ this(3,2,4,4)] show ?thesis
    by (simp add: Let_def demo_msg_lib_def)
qed

section \<open>Genesis states\<close>

text \<open>The length of the input amount is bounded for \<open>MsgDeployContract\<close> only.\<close>

lemma execute_contract_ignores_input_amount:
  "execute_contract_validate_basic L (m\<lparr>xc_input_amount := b\<rparr>) = execute_contract_validate_basic L m"
  by (simp add: execute_contract_validate_basic_def)

lemma default_genesis_states_validate:
  assumes "\<forall>v \<in> set (bg_verifiers bazaar_default_genesis). acc_from_bech32 B v \<noteq> None"
  shows "fnft_validate_genesis B fnft_default_genesis = Inr ()"
    and "bazaar_validate_genesis B bazaar_default_genesis = Inr ()"
    and "evm_validate_genesis evm_default_genesis = Inr ()"
proof -
  show "fnft_validate_genesis B fnft_default_genesis = Inr ()"
    by (simp add: fnft_validate_genesis_def fnft_default_genesis_def first_error_ok_iff fail_if_def)
  have "\<forall>v \<in> set (bg_verifiers bazaar_default_genesis). checked (parse_acc B v) = Inr ()"
    using assms by simp
  moreover have "\<forall>c \<in> set (bg_commissions bazaar_default_genesis).
      commission_checks ''invalid class commission part'' c = Inr ()"
    by (simp add: bazaar_default_genesis_def commission_checks_def first_error_ok_iff)
  moreover have "bg_products bazaar_default_genesis = []" by (simp add: bazaar_default_genesis_def)
  ultimately show "bazaar_validate_genesis B bazaar_default_genesis = Inr ()"
    by (simp add: bazaar_validate_genesis_def first_error_ok_iff for_each_ok_iff)
  show "evm_validate_genesis evm_default_genesis = Inr ()"
    by (simp add: evm_validate_genesis_def evm_default_genesis_def evm_params_validate_def
        evm_default_params_def first_error_ok_iff)
qed

section \<open>Stream requests\<close>

text \<open>
  The request of the exchange's event stream (\<open>modules/injective/chain/stream/v2/request.go\<close>): ten
  optional filters.  Each filter is the pair of its market and its subaccount identifiers (or its
  only list).
\<close>

record ids_filter =
  market_ids :: "string list"
  subaccount_ids :: "string list"

record stream_request =
  bank_balances_filter :: "string list option"
  subaccount_deposits_filter :: "string list option"
  spot_trades_filter :: "ids_filter option"
  derivative_trades_filter :: "ids_filter option"
  spot_orders_filter :: "ids_filter option"
  derivative_orders_filter :: "ids_filter option"
  spot_orderbooks_filter :: "string list option"
  derivative_orderbooks_filter :: "string list option"
  positions_filter :: "ids_filter option"
  oracle_price_filter :: "string list option"

definition new_full_stream_request :: stream_request where
  "new_full_stream_request =
     (let any_id = [''*'']; any_ids = Some \<lparr>market_ids = any_id, subaccount_ids = any_id\<rparr> in
      \<lparr>bank_balances_filter = Some [], subaccount_deposits_filter = Some any_id,
       spot_trades_filter = any_ids, derivative_trades_filter = any_ids, spot_orders_filter = any_ids,
       derivative_orders_filter = any_ids, spot_orderbooks_filter = Some any_id,
       derivative_orderbooks_filter = Some any_id, positions_filter = any_ids,
       oracle_price_filter = Some any_id\<rparr>)"

definition stream_request_validate :: "stream_request \<Rightarrow> unit res" where
  "stream_request_validate m = fail_if
     (bank_balances_filter m = None \<and> subaccount_deposits_filter m = None \<and> spot_trades_filter m = None \<and>
      derivative_trades_filter m = None \<and> spot_orders_filter m = None \<and> derivative_orders_filter m = None \<and>
      spot_orderbooks_filter m = None \<and> derivative_orderbooks_filter m = None \<and>
      positions_filter m = None \<and> oracle_price_filter m = None) ''at least one filter must be set''"

lemma full_stream_request_validates: "stream_request_validate new_full_stream_request = Inr ()"
  by (simp add: stream_request_validate_def new_full_stream_request_def Let_def)

end
