(* ===== verification/Strategy_Msgs.thy ===== *)
theory Strategy_Msgs
  imports Module_Msgs
begin

text \<open>
  The strategy module's messages (\<open>chain/modules/strategy/types/msgs.go\<close> and \<open>types.go\<close>): the
  validation of a configured strategy with its metadata, supported applications, cron settings
  and prompt schema, and the two directions of contract addresses.  The validation is shown
  equivalent to a declarative description of the accepted messages.
\<close>

section \<open>Data\<close>

text \<open>
  A nil pointer is \<open>None\<close>: JSON's \<open>null\<close> gives nil groups and prompts.  The prompts of a group are a Go
  map, in one of its iteration orders.  A query's instructions are their actions.
\<close>

record schema_group =
  sg_name :: string
  sg_prompts :: "(string \<times> string option) list"

type_synonym schema = "schema_group option list"

record supported_app =
  sa_name :: string
  sa_contract_address :: string
  sa_plane :: "32 word"
  sa_verified :: bool

record strategy_metadata =
  sm_type :: "32 word"
  sm_schema :: string
  sm_cron_gas_price :: sdk_int
  sm_cron_input :: string
  sm_cron_interval :: "64 word"
  sm_supported_apps :: "supported_app list"

record msg_config_strategy =
  cs_sender :: string
  cs_config :: "32 word"
  cs_id :: string
  cs_strategy :: bytes
  cs_query :: "32 word list option"
  cs_metadata :: "strategy_metadata option"

record msg_trigger_strategies =
  ts_sender :: string
  ts_ids :: "string list"
  ts_inputs :: "bytes list"

text \<open>
  \<open>sl_pubkey\<close> is base58 decoding into a public key, \<open>sl_schema\<close> reads a JSON text as a schema,
  \<open>sl_json_ok\<close> says whether a text is JSON.
\<close>

record strategy_lib =
  sl_bech32 :: bech32_lib
  sl_pubkey :: "string \<Rightarrow> bytes option"
  sl_b58_encode :: "bytes \<Rightarrow> string"
  sl_schema :: "string \<Rightarrow> schema option"
  sl_json_ok :: "string \<Rightarrow> bool"

definition cron_minimum_gas_price :: int where
  "cron_minimum_gas_price = 500000000"

section \<open>Contract addresses\<close>

definition parse_contract_addr :: "strategy_lib \<Rightarrow> string \<Rightarrow> 32 word \<Rightarrow> bytes res" where
  "parse_contract_addr L contract plane =
     (if plane = 1 then must_acc (sl_bech32 L) contract
      else if plane = 2 then of_option (Err ''invalid hex string for EVM address'') (hex_decode contract)
      else if plane = 3 then of_option (Panic ''decode base58'') (sl_pubkey L contract)
      else Inl (Err ''unsupported plane''))"

definition stringify_contract_addr :: "strategy_lib \<Rightarrow> bytes \<Rightarrow> 32 word \<Rightarrow> string res" where
  "stringify_contract_addr L contract plane =
     (if plane = 1 then Inr (acc_to_string (sl_bech32 L) contract)
      else if plane = 2 then Inr (hex_encode contract)
      else if plane = 3 then Inr (sl_b58_encode L contract)
      else Inl (Err ''unsupported plane''))"

text \<open>What is printed of an address reads back, given the libraries' own round trips.\<close>

lemma contract_addr_round_trip:
  assumes "\<And>a. plane = 1 \<Longrightarrow> acc_from_bech32 (sl_bech32 L) (acc_to_string (sl_bech32 L) a) = Some a"
    and "\<And>a. plane = 3 \<Longrightarrow> sl_pubkey L (sl_b58_encode L a) = Some a"
    and "stringify_contract_addr L a plane = Inr s"
  shows "parse_contract_addr L s plane = Inr a"
  using assms by (auto simp: parse_contract_addr_def stringify_contract_addr_def split: if_splits)

section \<open>Prompts\<close>

text \<open>
  \<open>FindAllString\<close> of \<open>\${[^}]+}\<close>, each match without its delimiters: after \<open>${\<close> the
  longest run without a closing brace must be non-empty and be followed by one.
\<close>

function template_vars :: "string \<Rightarrow> string list" where
  "template_vars [] = []"
| "template_vars [c] = []"
| "template_vars (c # d # u) =
     (let body = takeWhile (\<lambda>x. x \<noteq> CHR ''}'') u; r = dropWhile (\<lambda>x. x \<noteq> CHR ''}'') u in
      if c = CHR ''$'' \<and> d = CHR ''{'' \<and> body \<noteq> [] \<and> r \<noteq> []
      then body # template_vars (tl r) else template_vars (d # u))"
  by pat_completeness auto
termination
  by (relation "measure length")
     (auto simp: length_dropWhile_le le_imp_less_Suc less_SucI intro: le_less_trans [OF diff_le_self])

definition no_type :: "string \<Rightarrow> bool" where
  "no_type d \<longleftrightarrow>
     (let i = length (takeWhile (\<lambda>x. x \<noteq> CHR '':'') d) in i = 0 \<or> i = length d \<or> i = length d - 1)"

text \<open>\<open>SchemaPrompt.ValidateBasic\<close> on the template; a nil prompt is dereferenced.\<close>

definition prompt_validate_basic :: "string option \<Rightarrow> unit res" where
  "prompt_validate_basic p =
     bind_res (of_option (Panic ''nil pointer dereference'') p) (\<lambda>template.
       for_each (\<lambda>d. first_error
         [fail_if (no_type d) ''invalid definition, must conform structure ${name:type}'',
          fail_if (CHR '' '' \<in> set d) ''invalid definition, must contains no spaces'']) (template_vars template))"

definition group_check :: "bool \<Rightarrow> schema_group option \<Rightarrow> unit res" where
  "group_check many g =
     (if many \<and> g \<noteq> None \<and> sg_name (the g) = [] then Inl (Err ''group name should not be empty when there are many groups'')
      else bind_res (of_option (Panic ''nil pointer dereference'') g) (\<lambda>g'.
        for_each (\<lambda>(_, p). prompt_validate_basic p) (sg_prompts g')))"

definition validate_schema :: "strategy_lib \<Rightarrow> string \<Rightarrow> unit res" where
  "validate_schema L s =
     (if s = [] then Inr ()
      else bind_res (of_option (Err ''invalid json'') (sl_schema L s)) (\<lambda>groups.
        for_each (group_check (1 < length groups)) groups))"

section \<open>Metadata\<close>

text \<open>The loop over the supported applications, with the identifiers seen so far.\<close>

fun apps_loop :: "strategy_lib \<Rightarrow> string list \<Rightarrow> supported_app list \<Rightarrow> unit res" where
  "apps_loop L seen [] = Inr ()"
| "apps_loop L seen (v # vs) =
     bind_res (wrap_err ''invalid contract address'' (parse_contract_addr L (sa_contract_address v) (sa_plane v)))
       (\<lambda>a. let app_id = enum_string plane_name (sa_plane v) @ map (\<lambda>b. char_of (unat b)) a in
            if app_id \<in> set seen then Inl (Err ''app contract duplicated'')
            else apps_loop L (app_id # seen) vs)"

definition cosmos_event :: "32 word" where
  "cosmos_event = 4"

definition cron_check :: "strategy_lib \<Rightarrow> strategy_metadata \<Rightarrow> 32 word list option \<Rightarrow> unit res" where
  "cron_check L m query = first_error
     [int_check (\<lambda>n. n < cron_minimum_gas_price) (sm_cron_gas_price m) ''cron bot minimum gas price'',
      fail_if (\<not> sl_json_ok L (sm_cron_input m)) ''cron bot expects json string input'',
      if sm_cron_interval m = 0 then
        bind_res (of_option (Panic ''nil pointer dereference'') query) (\<lambda>q. first_error
          [fail_if (q = []) ''event-based cron service should have at least 1 fis event query'',
           fail_if (cosmos_event \<notin> set q) ''event-based cron service does not have any fis event query''])
      else Inr ()]"

definition metadata_validate_basic ::
  "strategy_lib \<Rightarrow> strategy_metadata option \<Rightarrow> 32 word list option \<Rightarrow> bool \<Rightarrow> unit res" where
  "metadata_validate_basic L metadata query require_unverified =
     bind_res (of_option (Err ''strategy metadata cannot be nil. Type must be defined'') metadata) (\<lambda>m.
       first_error
         [apps_loop L [] (sm_supported_apps m),
          (if require_unverified
           then for_each (\<lambda>v. fail_if (sa_verified v) ''app must not be verified'') (sm_supported_apps m)
           else Inr ()),
          (if sm_type m = 0 then Inr ()
           else if sm_type m = 1 then validate_schema L (sm_schema m)
           else if sm_type m = 2 then cron_check L m query
           else Inl (Err ''invalid value for mandatory field strategy.Metadata.Type''))])"

section \<open>Messages\<close>

definition config_validate_basic :: "strategy_lib \<Rightarrow> msg_config_strategy \<Rightarrow> unit res" where
  "config_validate_basic L m =
     bind_res (parse_acc (sl_bech32 L) (cs_sender m)) (\<lambda>_.
     if cs_config m = 0 then first_error
       [fail_if (cs_strategy m = []) ''strategy binary for deploy must not be empty'',
        fail_if (cs_id m \<noteq> []) ''strategy id should be empty for deploy, update options'',
        wrap_err ''metadata validate error'' (metadata_validate_basic L (cs_metadata m) (cs_query m) True)]
     else if cs_config m = 1 then first_error
       [fail_if (cs_strategy m \<noteq> []) ''strategy binary must be empty'',
        fail_if (cs_id m = []) ''invalid strategy id to update'',
        hex_check ''strategy id hex parse err'' (cs_id m),
        (if cs_metadata m = None then Inr ()
         else wrap_err ''metadata validate error'' (metadata_validate_basic L (cs_metadata m) (cs_query m) False))]
     else if cs_config m \<in> {2, 3, 4} then first_error
       [fail_if (cs_strategy m \<noteq> []) ''strategy should be empty for enable, disable, revoke options'',
        fail_if (cs_id m = []) ''invalid strategy id for enable, disable, revoke options'',
        hex_check ''strategy id hex parse err'' (cs_id m),
        fail_if (cs_query m \<noteq> None) ''query not allowed in enable, disable and revoke'',
        fail_if (cs_metadata m \<noteq> None) ''metadata config not allowed in enable, enable and revoke'']
     else Inl (Err ''invalid strategy config option''))"

definition config_get_signers :: "strategy_lib \<Rightarrow> msg_config_strategy \<Rightarrow> bytes list" where
  "config_get_signers L m = signer_of (sl_bech32 L) (cs_sender m)"

definition trigger_validate_basic :: "strategy_lib \<Rightarrow> msg_trigger_strategies \<Rightarrow> unit res" where
  "trigger_validate_basic L m = first_error
     [checked (parse_acc (sl_bech32 L) (ts_sender m)),
      fail_if (ts_ids m = []) ''empty strategy ids'',
      fail_if (ts_inputs m = []) ''empty strategy inputs'']"

definition trigger_get_signers :: "strategy_lib \<Rightarrow> msg_trigger_strategies \<Rightarrow> bytes list" where
  "trigger_get_signers L m = signer_of (sl_bech32 L) (ts_sender m)"

interpretation strategy_config: signed_message "sl_bech32 L" "config_validate_basic L" cs_sender "config_get_signers L" for L
  by unfold_locales (auto simp: config_validate_basic_def config_get_signers_def)

interpretation strategy_trigger: signed_message "sl_bech32 L" "trigger_validate_basic L" ts_sender "trigger_get_signers L" for L
  by unfold_locales (auto simp: trigger_validate_basic_def trigger_get_signers_def first_error_ok_iff)

section \<open>The accepted strategies\<close>

text \<open>
  The declarative description: every template variable is \<open>name:type\<close> without spaces; the
  supported applications have addresses of their planes, no two the same; an event-driven cron
  strategy (interval 0) queries a Cosmos event.
\<close>

definition definition_ok :: "string \<Rightarrow> bool" where
  "definition_ok d \<longleftrightarrow>
     (\<exists>name ty. d = name @ CHR '':'' # ty \<and> name \<noteq> [] \<and> ty \<noteq> [] \<and> CHR '':'' \<notin> set name) \<and>
     CHR '' '' \<notin> set d"

definition schema_ok :: "strategy_lib \<Rightarrow> string \<Rightarrow> bool" where
  "schema_ok L s \<longleftrightarrow> s = [] \<or>
     (\<exists>groups. sl_schema L s = Some groups \<and>
        (\<forall>g \<in> set groups. \<exists>g'. g = Some g' \<and> (1 < length groups \<longrightarrow> sg_name g' \<noteq> []) \<and>
           (\<forall>(_, p) \<in> set (sg_prompts g'). \<exists>t. p = Some t \<and> (\<forall>d \<in> set (template_vars t). definition_ok d))))"

definition apps_ok :: "strategy_lib \<Rightarrow> supported_app list \<Rightarrow> bool" where
  "apps_ok L vs \<longleftrightarrow>
     (\<exists>as. list_all2 (\<lambda>v a. parse_contract_addr L (sa_contract_address v) (sa_plane v) = Inr a) vs as \<and>
        distinct (zip (map sa_plane vs) as))"

definition metadata_ok :: "strategy_lib \<Rightarrow> strategy_metadata \<Rightarrow> 32 word list option \<Rightarrow> bool \<Rightarrow> bool" where
  "metadata_ok L m query unverified \<longleftrightarrow>
     apps_ok L (sm_supported_apps m) \<and>
     (unverified \<longrightarrow> (\<forall>v \<in> set (sm_supported_apps m). \<not> sa_verified v)) \<and>
     (sm_type m = 0 \<or>
      sm_type m = 1 \<and> schema_ok L (sm_schema m) \<or>
      sm_type m = 2 \<and> (\<exists>n. sm_cron_gas_price m = Some n \<and> cron_minimum_gas_price \<le> n) \<and>
        sl_json_ok L (sm_cron_input m) \<and>
        (sm_cron_interval m = 0 \<longrightarrow> (\<exists>q. query = Some q \<and> cosmos_event \<in> set q)))"

definition strategy_ok :: "strategy_lib \<Rightarrow> msg_config_strategy \<Rightarrow> bool" where
  "strategy_ok L m \<longleftrightarrow>
     acc_from_bech32 (sl_bech32 L) (cs_sender m) \<noteq> None \<and>
     (cs_config m = 0 \<and> cs_strategy m \<noteq> [] \<and> cs_id m = [] \<and>
        (\<exists>d. cs_metadata m = Some d \<and> metadata_ok L d (cs_query m) True) \<or>
      cs_config m = 1 \<and> cs_strategy m = [] \<and> cs_id m \<noteq> [] \<and> hex_decode (cs_id m) \<noteq> None \<and>
        (\<forall>d. cs_metadata m = Some d \<longrightarrow> metadata_ok L d (cs_query m) False) \<or>
      cs_config m \<in> {2, 3, 4} \<and> cs_strategy m = [] \<and> cs_id m \<noteq> [] \<and> hex_decode (cs_id m) \<noteq> None \<and>
        cs_query m = None \<and> cs_metadata m = None)"

lemma definition_ok_iff: "definition_ok d \<longleftrightarrow> \<not> no_type d \<and> CHR '' '' \<notin> set d"
proof (cases "CHR '':'' \<in> set d")
  case True
  then obtain name ty where d: "d = name @ CHR '':'' # ty" "CHR '':'' \<notin> set name"
    by (meson split_list_first)
  have t: "takeWhile (\<lambda>x. x \<noteq> CHR '':'') (name @ CHR '':'' # ty) = name"
    using d(2) by (subst takeWhile_append2) auto
  have "definition_ok d \<longleftrightarrow> name \<noteq> [] \<and> ty \<noteq> [] \<and> CHR '' '' \<notin> set d"
  proof -
    have rule: "(name @ CHR '':'' # ty = n @ CHR '':'' # y \<and> CHR '':'' \<notin> set n) \<longleftrightarrow> n = name \<and> y = ty" for n y
      using d(2) split_first_unique [of "CHR '':''" name n ty y] by auto
    have u: "(d = n @ CHR '':'' # y \<and> n \<noteq> [] \<and> y \<noteq> [] \<and> CHR '':'' \<notin> set n) \<longleftrightarrow>
        n = name \<and> y = ty \<and> name \<noteq> [] \<and> ty \<noteq> []" for n y
      unfolding d(1) using rule [of n y] by blast
    show ?thesis unfolding definition_ok_def u by blast
  qed
  moreover have "no_type d \<longleftrightarrow> name = [] \<or> ty = []"
    by (simp add: no_type_def Let_def d(1) t)
  ultimately show ?thesis by blast
next
  case False
  then have "takeWhile (\<lambda>x. x \<noteq> CHR '':'') d = d" by (auto simp: takeWhile_eq_all_conv)
  then have "no_type d" by (simp only: no_type_def Let_def) simp
  moreover have "\<not> definition_ok d" using False by (auto simp: definition_ok_def)
  ultimately show ?thesis by blast
qed

lemma prompt_ok_iff:
  "prompt_validate_basic p = Inr () \<longleftrightarrow> (\<exists>t. p = Some t \<and> (\<forall>d \<in> set (template_vars t). definition_ok d))"
  by (auto simp: prompt_validate_basic_def bind_res_Inr_iff for_each_ok_iff first_error_ok_iff definition_ok_iff)

lemma schema_ok_iff: "validate_schema L s = Inr () \<longleftrightarrow> schema_ok L s"
proof -
  have "group_check many g = Inr () \<longleftrightarrow> (\<exists>g'. g = Some g' \<and> (many \<longrightarrow> sg_name g' \<noteq> []) \<and>
      (\<forall>(_, p) \<in> set (sg_prompts g'). \<exists>t. p = Some t \<and> (\<forall>d \<in> set (template_vars t). definition_ok d)))" for many g
    by (cases g) (auto simp: group_check_def for_each_ok_iff prompt_ok_iff)
  then show ?thesis by (auto simp: validate_schema_def schema_ok_def bind_res_Inr_iff for_each_ok_iff)
qed

text \<open>The identifier of an application determines its plane and its address.\<close>

definition app_id :: "32 word \<Rightarrow> bytes \<Rightarrow> string" where
  "app_id x a = enum_string plane_name x @ map (\<lambda>b. char_of (unat b)) a"

lemma parsed_plane: "parse_contract_addr L s x = Inr a \<Longrightarrow> x = 1 \<or> x = 2 \<or> x = 3"
  by (auto simp: parse_contract_addr_def split: if_splits)

lemma app_id_inject:
  assumes "x = 1 \<or> x = 2 \<or> x = 3" and "y = 1 \<or> y = 2 \<or> y = 3"
  shows "app_id x a = app_id y b \<longleftrightarrow> x = y \<and> a = b"
proof -
  have names: "enum_string plane_name 1 = ''WASM''" "enum_string plane_name 2 = ''EVM''"
    "enum_string plane_name 3 = ''SVM''"
    by (simp_all add: enum_string_def plane_name_def)
  have "inj (\<lambda>b :: 8 word. char_of (unat b) :: char)"
  proof (rule injI)
    fix b c :: "8 word"
    assume "char_of (unat b) = (char_of (unat c) :: char)"
    then have "of_char (char_of (unat b) :: char) = (of_char (char_of (unat c) :: char) :: nat)" by simp
    moreover have "unat b < 256" "unat c < 256" using unsigned_less [of b] unsigned_less [of c] by auto
    ultimately have "unat b = unat c" by simp
    then show "b = c" by (rule word_unat_eq_iff [THEN iffD2])
  qed
  then have "map (\<lambda>b :: 8 word. char_of (unat b) :: char) a = map (\<lambda>b. char_of (unat b)) b \<longleftrightarrow> a = b"
    by (simp add: inj_map_eq_map)
  then show ?thesis using assms by (auto simp: app_id_def names)
qed

definition app_addr :: "strategy_lib \<Rightarrow> supported_app \<Rightarrow> bytes res" where
  "app_addr L v = parse_contract_addr L (sa_contract_address v) (sa_plane v)"

lemma apps_loop_ok_iff:
  "apps_loop L seen vs = Inr () \<longleftrightarrow>
     (case map_res (app_addr L) vs of
        Inl _ \<Rightarrow> False
      | Inr as \<Rightarrow> distinct (map2 app_id (map sa_plane vs) as) \<and>
          set (map2 app_id (map sa_plane vs) as) \<inter> set seen = {})"
proof (induction vs arbitrary: seen)
  case (Cons v vs)
  show ?case
  proof (cases "app_addr L v")
    case (Inl e)
    then show ?thesis by (cases e) (simp_all add: app_addr_def)
  next
    case (Inr a)
    have "apps_loop L seen (v # vs) = Inr () \<longleftrightarrow>
        app_id (sa_plane v) a \<notin> set seen \<and> apps_loop L (app_id (sa_plane v) a # seen) vs = Inr ()"
      using Inr by (simp add: app_addr_def app_id_def Let_def)
    also have "\<dots> \<longleftrightarrow> (case map_res (app_addr L) (v # vs) of
        Inl _ \<Rightarrow> False
      | Inr as \<Rightarrow> distinct (map2 app_id (map sa_plane (v # vs)) as) \<and>
          set (map2 app_id (map sa_plane (v # vs)) as) \<inter> set seen = {})"
      unfolding Cons.IH using Inr by (cases "map_res (app_addr L) vs") auto
    finally show ?thesis .
  qed
qed simp

lemma apps_ok_iff: "apps_loop L [] vs = Inr () \<longleftrightarrow> apps_ok L vs"
proof -
  have same: "distinct (map2 app_id (map sa_plane vs) as) \<longleftrightarrow> distinct (zip (map sa_plane vs) as)"
    if as: "list_all2 (\<lambda>v a. app_addr L v = Inr a) vs as" for as
  proof -
    have known: "x = 1 \<or> x = 2 \<or> x = 3" if "(x, a) \<in> set (zip (map sa_plane vs) as)" for x a
      using that as parsed_plane by (fastforce simp: list_all2_conv_all_nth set_zip app_addr_def)
    have "inj_on (\<lambda>(x, a). app_id x a) (set (zip (map sa_plane vs) as))"
    proof (rule inj_onI, clarify)
      fix x a y b
      assume "(x, a) \<in> set (zip (map sa_plane vs) as)" "(y, b) \<in> set (zip (map sa_plane vs) as)"
        and "app_id x a = app_id y b"
      then show "x = y \<and> a = b" using app_id_inject [OF known known] by metis
    qed
    then show ?thesis by (simp add: distinct_map)
  qed
  have "apps_ok L vs \<longleftrightarrow> (\<exists>as. map_res (app_addr L) vs = Inr as \<and> distinct (zip (map sa_plane vs) as))"
    by (simp add: apps_ok_def map_res_Inr_iff app_addr_def)
  then show ?thesis
    using same [OF map_res_Inr_iff [THEN iffD1]]
    by (cases "map_res (app_addr L) vs") (simp_all add: apps_loop_ok_iff)
qed

lemma metadata_ok_iff:
  "metadata_validate_basic L metadata query unverified = Inr () \<longleftrightarrow>
     (\<exists>m. metadata = Some m \<and> metadata_ok L m query unverified)"
proof (cases metadata)
  case (Some m)
  have "cron_check L m query = Inr () \<longleftrightarrow>
      (\<exists>n. sm_cron_gas_price m = Some n \<and> cron_minimum_gas_price \<le> n) \<and>
        sl_json_ok L (sm_cron_input m) \<and>
        (sm_cron_interval m = 0 \<longrightarrow> (\<exists>q. query = Some q \<and> cosmos_event \<in> set q))"
    by (auto simp: cron_check_def first_error_ok_iff)
  then show ?thesis
    by (auto simp: Some metadata_validate_basic_def metadata_ok_def first_error_ok_iff for_each_ok_iff
        apps_ok_iff schema_ok_iff)
qed (simp add: metadata_validate_basic_def)

text \<open>
  C28. \<open>MsgConfigStrategy.ValidateBasic\<close> accepts exactly the described messages: a deployment has a binary, no
  id and verified-free metadata, an update an id in hexadecimal and no binary, the three
  switches only an id; metadata lists distinct contracts at well-formed addresses, a prompt schema
  with typed variables only, and cron settings at the minimum gas price with an event query where
  there is no interval.
\<close>

theorem accepted_strategies: "config_validate_basic L m = Inr () \<longleftrightarrow> strategy_ok L m"
proof -
  have "hex_check e x = Inr () \<longleftrightarrow> hex_decode x \<noteq> None" for e x
    by (auto simp: hex_check_def)
  then show ?thesis
    by (auto simp: config_validate_basic_def strategy_ok_def bind_res_Inr_iff first_error_ok_iff metadata_ok_iff)
qed

text \<open>
  C29. Validation can panic on input a user controls: on a deployed cron strategy without a gas price,
  on an event-driven one without a query, on an application at a WASM or SVM contract whose address does not parse, and on a
  prompt schema in which a group or a prompt is \<open>null\<close>.
\<close>

theorem validation_panics_on_user_input:
  assumes "acc_from_bech32 (sl_bech32 L) (cs_sender m) \<noteq> None" and "cs_config m = 0"
    and "cs_strategy m \<noteq> []" and "cs_id m = []" and "cs_metadata m = Some d"
    and "sm_supported_apps d = [] \<and> sm_type d = 2 \<and> sm_cron_gas_price d = None
         \<or> sm_supported_apps d = [] \<and> sm_type d = 2 \<and>
           (\<exists>n. sm_cron_gas_price d = Some n \<and> cron_minimum_gas_price \<le> n) \<and>
           sl_json_ok L (sm_cron_input d) \<and> sm_cron_interval d = 0 \<and> cs_query m = None
         \<or> (\<exists>v vs. sm_supported_apps d = v # vs \<and>
             (sa_plane v = 1 \<and> acc_from_bech32 (sl_bech32 L) (sa_contract_address v) = None \<or>
              sa_plane v = 3 \<and> sl_pubkey L (sa_contract_address v) = None))
         \<or> sm_supported_apps d = [] \<and> sm_type d = 1 \<and> sm_schema d \<noteq> [] \<and>
           (sl_schema L (sm_schema d) = Some [None] \<or>
            (\<exists>k. sl_schema L (sm_schema d) = Some [Some \<lparr>sg_name = [], sg_prompts = [(k, None)]\<rparr>]))"
  shows "panics (config_validate_basic L m)"
proof -
  have "panics (metadata_validate_basic L (Some d) (cs_query m) True)"
    using assms(6)
    by (auto simp: metadata_validate_basic_def first_error_simps cron_check_def fail_if_def
        parse_contract_addr_def must_acc_def validate_schema_def group_check_def prompt_validate_basic_def
        int_check_def of_option_def)
  then show ?thesis
    using assms(1-5) by (auto simp: config_validate_basic_def first_error_simps fail_if_def)
qed

definition demo_strategy_lib :: strategy_lib where
  "demo_strategy_lib =
     \<lparr>sl_bech32 = toy_bech32, sl_pubkey = (\<lambda>s. if length s = 32 then Some (to_bytes s) else None),
      sl_b58_encode = map (\<lambda>w. char_of (unat w)), sl_schema = (\<lambda>_. None), sl_json_ok = (\<lambda>s. s = ''{}'')\<rparr>"

theorem validation_panics_on_user_input_witness:
  "panics (config_validate_basic demo_strategy_lib
     \<lparr>cs_sender = ''lux1a'', cs_config = 0, cs_id = [], cs_strategy = [1], cs_query = None,
      cs_metadata = Some \<lparr>sm_type = 2, sm_schema = [], sm_cron_gas_price = Some 500000000, sm_cron_input = ''{}'',
        sm_cron_interval = 0, sm_supported_apps = []\<rparr>\<rparr>)"
proof -
  have "acc_from_bech32 (sl_bech32 demo_strategy_lib) ''lux1a'' \<noteq> None" by code_simp
  then show ?thesis
    by (intro validation_panics_on_user_input [where d = "\<lparr>sm_type = 2, sm_schema = [],
          sm_cron_gas_price = Some 500000000, sm_cron_input = ''{}'', sm_cron_interval = 0, sm_supported_apps = []\<rparr>"])
       (simp_all add: demo_strategy_lib_def cron_minimum_gas_price_def)
qed

end
