(* ===== verification/Drift_Enums.thy ===== *)
theory Drift_Enums
  imports Anchor_Codec
begin

text \<open>
  The enumerations of the Drift bindings (\<open>client/svm/drift/types.go\<close>): a byte each, with the names
  \<open>String\<close> gives to the constants, which are numbered from zero in this order.
\<close>

type_synonym SwapDirection = "8 word"

definition SwapDirection_String :: "SwapDirection \<Rightarrow> string" where
  "SwapDirection_String v = enum_name
     [''Add'', ''Remove'']
     (unat v)"

type_synonym PositionDirection = "8 word"

definition PositionDirection_String :: "PositionDirection \<Rightarrow> string" where
  "PositionDirection_String v = enum_name
     [''Long'', ''Short'']
     (unat v)"

type_synonym SpotFulfillmentType = "8 word"

definition SpotFulfillmentType_String :: "SpotFulfillmentType \<Rightarrow> string" where
  "SpotFulfillmentType_String v = enum_name
     [''SerumV3'', ''Match'', ''PhoenixV1'', ''OpenbookV2'']
     (unat v)"

type_synonym SwapReduceOnly = "8 word"

definition SwapReduceOnly_String :: "SwapReduceOnly \<Rightarrow> string" where
  "SwapReduceOnly_String v = enum_name
     [''In'', ''Out'']
     (unat v)"

type_synonym TwapPeriod = "8 word"

definition TwapPeriod_String :: "TwapPeriod \<Rightarrow> string" where
  "TwapPeriod_String v = enum_name
     [''FundingPeriod'', ''FiveMin'']
     (unat v)"

type_synonym LiquidationMultiplierType = "8 word"

definition LiquidationMultiplierType_String :: "LiquidationMultiplierType \<Rightarrow> string" where
  "LiquidationMultiplierType_String v = enum_name
     [''Discount'', ''Premium'']
     (unat v)"

type_synonym MarginRequirementType = "8 word"

definition MarginRequirementType_String :: "MarginRequirementType \<Rightarrow> string" where
  "MarginRequirementType_String v = enum_name
     [''Initial'', ''Fill'', ''Maintenance'']
     (unat v)"

type_synonym OracleValidity = "8 word"

definition OracleValidity_String :: "OracleValidity \<Rightarrow> string" where
  "OracleValidity_String v = enum_name
     [''NonPositive'', ''TooVolatile'', ''TooUncertain'', ''StaleForMargin'',
      ''InsufficientDataPoints'', ''StaleForAMM'', ''Valid'']
     (unat v)"

type_synonym DriftAction = "8 word"

definition DriftAction_String :: "DriftAction \<Rightarrow> string" where
  "DriftAction_String v = enum_name
     [''UpdateFunding'', ''SettlePnl'', ''TriggerOrder'', ''FillOrderMatch'', ''FillOrderAmm'',
      ''Liquidate'', ''MarginCalc'', ''UpdateTwap'', ''UpdateAMMCurve'', ''OracleOrderPrice'']
     (unat v)"

type_synonym PositionUpdateType = "8 word"

definition PositionUpdateType_String :: "PositionUpdateType \<Rightarrow> string" where
  "PositionUpdateType_String v = enum_name
     [''Open'', ''Increase'', ''Reduce'', ''Close'', ''Flip'']
     (unat v)"

type_synonym DepositExplanation = "8 word"

definition DepositExplanation_String :: "DepositExplanation \<Rightarrow> string" where
  "DepositExplanation_String v = enum_name
     [''None'', ''Transfer'', ''Borrow'', ''RepayBorrow'']
     (unat v)"

type_synonym DepositDirection = "8 word"

definition DepositDirection_String :: "DepositDirection \<Rightarrow> string" where
  "DepositDirection_String v = enum_name
     [''Deposit'', ''Withdraw'']
     (unat v)"

type_synonym OrderAction = "8 word"

definition OrderAction_String :: "OrderAction \<Rightarrow> string" where
  "OrderAction_String v = enum_name
     [''Place'', ''Cancel'', ''Fill'', ''Trigger'', ''Expire'']
     (unat v)"

type_synonym OrderActionExplanation = "8 word"

definition OrderActionExplanation_String :: "OrderActionExplanation \<Rightarrow> string" where
  "OrderActionExplanation_String v = enum_name
     [''None'', ''InsufficientFreeCollateral'', ''OraclePriceBreachedLimitPrice'',
      ''MarketOrderFilledToLimitPrice'', ''OrderExpired'', ''Liquidation'', ''OrderFilledWithAMM'',
      ''OrderFilledWithAMMJit'', ''OrderFilledWithMatch'', ''OrderFilledWithMatchJit'',
      ''MarketExpired'', ''RiskingIncreasingOrder'', ''ReduceOnlyOrderIncreasedPosition'',
      ''OrderFillWithSerum'', ''NoBorrowLiquidity'', ''OrderFillWithPhoenix'',
      ''OrderFilledWithAMMJitLPSplit'', ''OrderFilledWithLPJit'', ''DeriskLp'',
      ''OrderFilledWithOpenbookV2'']
     (unat v)"

type_synonym LPAction = "8 word"

definition LPAction_String :: "LPAction \<Rightarrow> string" where
  "LPAction_String v = enum_name
     [''AddLiquidity'', ''RemoveLiquidity'', ''SettleLiquidity'', ''RemoveLiquidityDerisk'']
     (unat v)"

type_synonym LiquidationType = "8 word"

definition LiquidationType_String :: "LiquidationType \<Rightarrow> string" where
  "LiquidationType_String v = enum_name
     [''LiquidatePerp'', ''LiquidateSpot'', ''LiquidateBorrowForPerpPnl'',
      ''LiquidatePerpPnlForDeposit'', ''PerpBankruptcy'', ''SpotBankruptcy'']
     (unat v)"

type_synonym SettlePnlExplanation = "8 word"

definition SettlePnlExplanation_String :: "SettlePnlExplanation \<Rightarrow> string" where
  "SettlePnlExplanation_String v = enum_name
     [''None'', ''ExpiredPosition'']
     (unat v)"

type_synonym StakeAction = "8 word"

definition StakeAction_String :: "StakeAction \<Rightarrow> string" where
  "StakeAction_String v = enum_name
     [''Stake'', ''UnstakeRequest'', ''UnstakeCancelRequest'', ''Unstake'', ''UnstakeTransfer'',
      ''StakeTransfer'']
     (unat v)"

type_synonym FillMode = "8 word"

definition FillMode_String :: "FillMode \<Rightarrow> string" where
  "FillMode_String v = enum_name
     [''Fill'', ''PlaceAndMake'', ''PlaceAndTake'', ''Liquidation'']
     (unat v)"

type_synonym OracleSource = "8 word"

definition OracleSource_String :: "OracleSource \<Rightarrow> string" where
  "OracleSource_String v = enum_name
     [''Pyth'', ''Switchboard'', ''QuoteAsset'', ''Pyth1K'', ''Pyth1M'', ''PythStableCoin'',
      ''Prelaunch'', ''PythPull'', ''Pyth1KPull'', ''Pyth1MPull'', ''PythStableCoinPull'',
      ''SwitchboardOnDemand'']
     (unat v)"

type_synonym PostOnlyParam = "8 word"

definition PostOnlyParam_String :: "PostOnlyParam \<Rightarrow> string" where
  "PostOnlyParam_String v = enum_name
     [''None'', ''MustPostOnly'', ''TryPostOnly'', ''Slide'']
     (unat v)"

type_synonym ModifyOrderPolicy = "8 word"

definition ModifyOrderPolicy_String :: "ModifyOrderPolicy \<Rightarrow> string" where
  "ModifyOrderPolicy_String v = enum_name
     [''TryModify'', ''MustModify'']
     (unat v)"

type_synonym PerpOperation = "8 word"

definition PerpOperation_String :: "PerpOperation \<Rightarrow> string" where
  "PerpOperation_String v = enum_name
     [''UpdateFunding'', ''AmmFill'', ''Fill'', ''SettlePnl'', ''SettlePnlWithPosition'',
      ''Liquidation'']
     (unat v)"

type_synonym SpotOperation = "8 word"

definition SpotOperation_String :: "SpotOperation \<Rightarrow> string" where
  "SpotOperation_String v = enum_name
     [''UpdateCumulativeInterest'', ''Fill'', ''Deposit'', ''Withdraw'', ''Liquidation'']
     (unat v)"

type_synonym InsuranceFundOperation = "8 word"

definition InsuranceFundOperation_String :: "InsuranceFundOperation \<Rightarrow> string" where
  "InsuranceFundOperation_String v = enum_name
     [''Init'', ''Add'', ''RequestRemove'', ''Remove'']
     (unat v)"

type_synonym MarketStatus = "8 word"

definition MarketStatus_String :: "MarketStatus \<Rightarrow> string" where
  "MarketStatus_String v = enum_name
     [''Initialized'', ''Active'', ''FundingPaused'', ''AmmPaused'', ''FillPaused'', ''WithdrawPaused'',
      ''ReduceOnly'', ''Settlement'', ''Delisted'']
     (unat v)"

type_synonym ContractType = "8 word"

definition ContractType_String :: "ContractType \<Rightarrow> string" where
  "ContractType_String v = enum_name
     [''Perpetual'', ''Future'', ''Prediction'']
     (unat v)"

type_synonym ContractTier = "8 word"

definition ContractTier_String :: "ContractTier \<Rightarrow> string" where
  "ContractTier_String v = enum_name
     [''A'', ''B'', ''C'', ''Speculative'', ''HighlySpeculative'', ''Isolated'']
     (unat v)"

type_synonym AMMLiquiditySplit = "8 word"

definition AMMLiquiditySplit_String :: "AMMLiquiditySplit \<Rightarrow> string" where
  "AMMLiquiditySplit_String v = enum_name
     [''ProtocolOwned'', ''LPOwned'', ''Shared'']
     (unat v)"

type_synonym SettlePnlMode = "8 word"

definition SettlePnlMode_String :: "SettlePnlMode \<Rightarrow> string" where
  "SettlePnlMode_String v = enum_name
     [''MustSettle'', ''TrySettle'']
     (unat v)"

type_synonym SpotBalanceType = "8 word"

definition SpotBalanceType_String :: "SpotBalanceType \<Rightarrow> string" where
  "SpotBalanceType_String v = enum_name
     [''Deposit'', ''Borrow'']
     (unat v)"

type_synonym SpotFulfillmentConfigStatus = "8 word"

definition SpotFulfillmentConfigStatus_String :: "SpotFulfillmentConfigStatus \<Rightarrow> string" where
  "SpotFulfillmentConfigStatus_String v = enum_name
     [''Enabled'', ''Disabled'']
     (unat v)"

type_synonym AssetTier = "8 word"

definition AssetTier_String :: "AssetTier \<Rightarrow> string" where
  "AssetTier_String v = enum_name
     [''Collateral'', ''Protected'', ''Cross'', ''Isolated'', ''Unlisted'']
     (unat v)"

type_synonym ExchangeStatus = "8 word"

definition ExchangeStatus_String :: "ExchangeStatus \<Rightarrow> string" where
  "ExchangeStatus_String v = enum_name
     [''DepositPaused'', ''WithdrawPaused'', ''AmmPaused'', ''FillPaused'', ''LiqPaused'',
      ''FundingPaused'', ''SettlePnlPaused'']
     (unat v)"

type_synonym UserStatus = "8 word"

definition UserStatus_String :: "UserStatus \<Rightarrow> string" where
  "UserStatus_String v = enum_name
     [''BeingLiquidated'', ''Bankrupt'', ''ReduceOnly'', ''AdvancedLp'']
     (unat v)"

type_synonym AssetType = "8 word"

definition AssetType_String :: "AssetType \<Rightarrow> string" where
  "AssetType_String v = enum_name
     [''Base'', ''Quote'']
     (unat v)"

type_synonym OrderStatus = "8 word"

definition OrderStatus_String :: "OrderStatus \<Rightarrow> string" where
  "OrderStatus_String v = enum_name
     [''Init'', ''Open'', ''Filled'', ''Canceled'']
     (unat v)"

type_synonym OrderType = "8 word"

definition OrderType_String :: "OrderType \<Rightarrow> string" where
  "OrderType_String v = enum_name
     [''Market'', ''Limit'', ''TriggerMarket'', ''TriggerLimit'', ''Oracle'']
     (unat v)"

type_synonym OrderTriggerCondition = "8 word"

definition OrderTriggerCondition_String :: "OrderTriggerCondition \<Rightarrow> string" where
  "OrderTriggerCondition_String v = enum_name
     [''Above'', ''Below'', ''TriggeredAbove'', ''TriggeredBelow'']
     (unat v)"

type_synonym MarketType = "8 word"

definition MarketType_String :: "MarketType \<Rightarrow> string" where
  "MarketType_String v = enum_name
     [''Spot'', ''Perp'']
     (unat v)"

section \<open>Names\<close>

definition drift_enum_strings :: "(8 word \<Rightarrow> string) list" where
  "drift_enum_strings =
     [SwapDirection_String, PositionDirection_String, SpotFulfillmentType_String, SwapReduceOnly_String,
      TwapPeriod_String, LiquidationMultiplierType_String, MarginRequirementType_String,
      OracleValidity_String, DriftAction_String, PositionUpdateType_String, DepositExplanation_String,
      DepositDirection_String, OrderAction_String, OrderActionExplanation_String, LPAction_String,
      LiquidationType_String, SettlePnlExplanation_String, StakeAction_String, FillMode_String,
      OracleSource_String, PostOnlyParam_String, ModifyOrderPolicy_String, PerpOperation_String,
      SpotOperation_String, InsuranceFundOperation_String, MarketStatus_String, ContractType_String,
      ContractTier_String, AMMLiquiditySplit_String, SettlePnlMode_String, SpotBalanceType_String,
      SpotFulfillmentConfigStatus_String, AssetTier_String, ExchangeStatus_String, UserStatus_String,
      AssetType_String, OrderStatus_String, OrderType_String, OrderTriggerCondition_String,
      MarketType_String]"

lemmas drift_enum_defs =
  SwapDirection_String_def PositionDirection_String_def SpotFulfillmentType_String_def
  SwapReduceOnly_String_def TwapPeriod_String_def LiquidationMultiplierType_String_def
  MarginRequirementType_String_def OracleValidity_String_def DriftAction_String_def
  PositionUpdateType_String_def DepositExplanation_String_def DepositDirection_String_def
  OrderAction_String_def OrderActionExplanation_String_def LPAction_String_def
  LiquidationType_String_def SettlePnlExplanation_String_def StakeAction_String_def
  FillMode_String_def OracleSource_String_def PostOnlyParam_String_def
  ModifyOrderPolicy_String_def PerpOperation_String_def SpotOperation_String_def
  InsuranceFundOperation_String_def MarketStatus_String_def ContractType_String_def
  ContractTier_String_def AMMLiquiditySplit_String_def SettlePnlMode_String_def
  SpotBalanceType_String_def SpotFulfillmentConfigStatus_String_def AssetTier_String_def
  ExchangeStatus_String_def UserStatus_String_def AssetType_String_def
  OrderStatus_String_def OrderType_String_def OrderTriggerCondition_String_def
  MarketType_String_def

end
