(* ===== verification/Drift_Types.thy ===== *)
theory Drift_Types
  imports Drift_Enums
begin

text \<open>
  The structs of the Drift bindings (\<open>client/svm/drift/types.go\<close>): a record each, with its
  \<open>MarshalWithEncoder\<close> and \<open>UnmarshalWithDecoder\<close> as the fields in the order the code has them.
  \<open>wf\<close> is what the Go types say (the lengths of arrays and keys), \<open>fresh\<close> an object whose
  optional pointers are nil; each \<open>rt\<close> lemma is the round trip in front of any continuation.
\<close>

subsection \<open>\<open>UpdatePerpMarketSummaryStatsParams\<close>\<close>

record UpdatePerpMarketSummaryStatsParams =
  QuoteAssetAmountWithUnsettledLp :: "(64 word) option"
  NetUnsettledFundingPnl :: "(64 word) option"
  UpdateAmmSummaryStats :: "bool option"

definition marshal_UpdatePerpMarketSummaryStatsParams :: "bin_lib \<Rightarrow> UpdatePerpMarketSummaryStatsParams \<Rightarrow> bytes" where
  "marshal_UpdatePerpMarketSummaryStatsParams L = enc_all
     [put_opt L (put_u64 L) \<circ> QuoteAssetAmountWithUnsettledLp,
      put_opt L (put_u64 L) \<circ> NetUnsettledFundingPnl,
      put_opt L (put_bool L) \<circ> UpdateAmmSummaryStats]"

definition unmarshal_UpdatePerpMarketSummaryStatsParams :: "bin_lib \<Rightarrow> UpdatePerpMarketSummaryStatsParams reader" where
  "unmarshal_UpdatePerpMarketSummaryStatsParams L = dec_all
     [sub_field (read_opt L (read_ptr 0 (prim (get_u64 L)))) QuoteAssetAmountWithUnsettledLp QuoteAssetAmountWithUnsettledLp_update,
      sub_field (read_opt L (read_ptr 0 (prim (get_u64 L)))) NetUnsettledFundingPnl NetUnsettledFundingPnl_update,
      sub_field (read_opt L (read_ptr False (prim (get_bool L)))) UpdateAmmSummaryStats UpdateAmmSummaryStats_update]"

definition fresh_UpdatePerpMarketSummaryStatsParams :: "UpdatePerpMarketSummaryStatsParams \<Rightarrow> bool" where
  "fresh_UpdatePerpMarketSummaryStatsParams x \<longleftrightarrow>
     QuoteAssetAmountWithUnsettledLp x = None \<and>
     NetUnsettledFundingPnl x = None \<and>
     UpdateAmmSummaryStats x = None"

subsection \<open>\<open>LiquidatePerpRecord\<close>\<close>

record LiquidatePerpRecord =
  MarketIndex :: "16 word"
  OraclePrice :: "64 word"
  BaseAssetAmount :: "64 word"
  QuoteAssetAmount :: "64 word"
  LpShares :: "64 word"
  FillRecordId :: "64 word"
  UserOrderId :: "32 word"
  LiquidatorOrderId :: "32 word"
  LiquidatorFee :: "64 word"
  IfFee :: "64 word"

definition marshal_LiquidatePerpRecord :: "bin_lib \<Rightarrow> LiquidatePerpRecord \<Rightarrow> bytes" where
  "marshal_LiquidatePerpRecord L = enc_all
     [put_u16 L \<circ> MarketIndex, put_u64 L \<circ> OraclePrice, put_u64 L \<circ> BaseAssetAmount,
      put_u64 L \<circ> QuoteAssetAmount, put_u64 L \<circ> LpShares, put_u64 L \<circ> FillRecordId,
      put_u32 L \<circ> UserOrderId, put_u32 L \<circ> LiquidatorOrderId,
      put_u64 L \<circ> LiquidatorFee, put_u64 L \<circ> IfFee]"

definition unmarshal_LiquidatePerpRecord :: "bin_lib \<Rightarrow> LiquidatePerpRecord reader" where
  "unmarshal_LiquidatePerpRecord L = dec_all
     [get_field (get_u16 L) MarketIndex_update, get_field (get_u64 L) OraclePrice_update,
      get_field (get_u64 L) BaseAssetAmount_update, get_field (get_u64 L) QuoteAssetAmount_update,
      get_field (get_u64 L) LpShares_update, get_field (get_u64 L) FillRecordId_update,
      get_field (get_u32 L) UserOrderId_update, get_field (get_u32 L) LiquidatorOrderId_update,
      get_field (get_u64 L) LiquidatorFee_update, get_field (get_u64 L) IfFee_update]"

subsection \<open>\<open>LiquidateSpotRecord\<close>\<close>

record LiquidateSpotRecord =
  AssetMarketIndex :: "16 word"
  AssetPrice :: "64 word"
  AssetTransfer :: "128 word"
  LiabilityMarketIndex :: "16 word"
  LiabilityPrice :: "64 word"
  LiabilityTransfer :: "128 word"
  IfFee :: "64 word"

definition marshal_LiquidateSpotRecord :: "bin_lib \<Rightarrow> LiquidateSpotRecord \<Rightarrow> bytes" where
  "marshal_LiquidateSpotRecord L = enc_all
     [put_u16 L \<circ> AssetMarketIndex, put_u64 L \<circ> AssetPrice,
      put_u128 L \<circ> AssetTransfer, put_u16 L \<circ> LiabilityMarketIndex,
      put_u64 L \<circ> LiabilityPrice, put_u128 L \<circ> LiabilityTransfer, put_u64 L \<circ> IfFee]"

definition unmarshal_LiquidateSpotRecord :: "bin_lib \<Rightarrow> LiquidateSpotRecord reader" where
  "unmarshal_LiquidateSpotRecord L = dec_all
     [get_field (get_u16 L) AssetMarketIndex_update, get_field (get_u64 L) AssetPrice_update,
      get_field (get_u128 L) AssetTransfer_update, get_field (get_u16 L) LiabilityMarketIndex_update,
      get_field (get_u64 L) LiabilityPrice_update, get_field (get_u128 L) LiabilityTransfer_update,
      get_field (get_u64 L) IfFee_update]"

subsection \<open>\<open>LiquidateBorrowForPerpPnlRecord\<close>\<close>

record LiquidateBorrowForPerpPnlRecord =
  PerpMarketIndex :: "16 word"
  MarketOraclePrice :: "64 word"
  PnlTransfer :: "128 word"
  LiabilityMarketIndex :: "16 word"
  LiabilityPrice :: "64 word"
  LiabilityTransfer :: "128 word"

definition marshal_LiquidateBorrowForPerpPnlRecord :: "bin_lib \<Rightarrow> LiquidateBorrowForPerpPnlRecord \<Rightarrow> bytes" where
  "marshal_LiquidateBorrowForPerpPnlRecord L = enc_all
     [put_u16 L \<circ> PerpMarketIndex, put_u64 L \<circ> MarketOraclePrice,
      put_u128 L \<circ> PnlTransfer, put_u16 L \<circ> LiabilityMarketIndex,
      put_u64 L \<circ> LiabilityPrice, put_u128 L \<circ> LiabilityTransfer]"

definition unmarshal_LiquidateBorrowForPerpPnlRecord :: "bin_lib \<Rightarrow> LiquidateBorrowForPerpPnlRecord reader" where
  "unmarshal_LiquidateBorrowForPerpPnlRecord L = dec_all
     [get_field (get_u16 L) PerpMarketIndex_update, get_field (get_u64 L) MarketOraclePrice_update,
      get_field (get_u128 L) PnlTransfer_update, get_field (get_u16 L) LiabilityMarketIndex_update,
      get_field (get_u64 L) LiabilityPrice_update, get_field (get_u128 L) LiabilityTransfer_update]"

subsection \<open>\<open>LiquidatePerpPnlForDepositRecord\<close>\<close>

record LiquidatePerpPnlForDepositRecord =
  PerpMarketIndex :: "16 word"
  MarketOraclePrice :: "64 word"
  PnlTransfer :: "128 word"
  AssetMarketIndex :: "16 word"
  AssetPrice :: "64 word"
  AssetTransfer :: "128 word"

definition marshal_LiquidatePerpPnlForDepositRecord :: "bin_lib \<Rightarrow> LiquidatePerpPnlForDepositRecord \<Rightarrow> bytes" where
  "marshal_LiquidatePerpPnlForDepositRecord L = enc_all
     [put_u16 L \<circ> PerpMarketIndex, put_u64 L \<circ> MarketOraclePrice,
      put_u128 L \<circ> PnlTransfer, put_u16 L \<circ> AssetMarketIndex, put_u64 L \<circ> AssetPrice,
      put_u128 L \<circ> AssetTransfer]"

definition unmarshal_LiquidatePerpPnlForDepositRecord :: "bin_lib \<Rightarrow> LiquidatePerpPnlForDepositRecord reader" where
  "unmarshal_LiquidatePerpPnlForDepositRecord L = dec_all
     [get_field (get_u16 L) PerpMarketIndex_update, get_field (get_u64 L) MarketOraclePrice_update,
      get_field (get_u128 L) PnlTransfer_update, get_field (get_u16 L) AssetMarketIndex_update,
      get_field (get_u64 L) AssetPrice_update, get_field (get_u128 L) AssetTransfer_update]"

subsection \<open>\<open>PerpBankruptcyRecord\<close>\<close>

record PerpBankruptcyRecord =
  MarketIndex :: "16 word"
  Pnl :: "128 word"
  IfPayment :: "128 word"
  ClawbackUser :: "bytes option"
  ClawbackUserPayment :: "(128 word) option"
  CumulativeFundingRateDelta :: "128 word"

definition marshal_PerpBankruptcyRecord :: "bin_lib \<Rightarrow> PerpBankruptcyRecord \<Rightarrow> bytes" where
  "marshal_PerpBankruptcyRecord L = enc_all
     [put_u16 L \<circ> MarketIndex, put_u128 L \<circ> Pnl, put_u128 L \<circ> IfPayment,
      put_opt L (put_key L) \<circ> ClawbackUser, put_opt L (put_u128 L) \<circ> ClawbackUserPayment,
      put_u128 L \<circ> CumulativeFundingRateDelta]"

definition unmarshal_PerpBankruptcyRecord :: "bin_lib \<Rightarrow> PerpBankruptcyRecord reader" where
  "unmarshal_PerpBankruptcyRecord L = dec_all
     [get_field (get_u16 L) MarketIndex_update, get_field (get_u128 L) Pnl_update,
      get_field (get_u128 L) IfPayment_update,
      sub_field (read_opt L (read_ptr (replicate 32 0) (prim (get_key L)))) ClawbackUser ClawbackUser_update,
      sub_field (read_opt L (read_ptr 0 (prim (get_u128 L)))) ClawbackUserPayment ClawbackUserPayment_update,
      get_field (get_u128 L) CumulativeFundingRateDelta_update]"

definition wf_PerpBankruptcyRecord :: "PerpBankruptcyRecord \<Rightarrow> bool" where
  "wf_PerpBankruptcyRecord x \<longleftrightarrow>
     (\<forall>v \<in> set_option (ClawbackUser x). length v = 32)"

definition fresh_PerpBankruptcyRecord :: "PerpBankruptcyRecord \<Rightarrow> bool" where
  "fresh_PerpBankruptcyRecord x \<longleftrightarrow>
     ClawbackUser x = None \<and>
     ClawbackUserPayment x = None"

subsection \<open>\<open>SpotBankruptcyRecord\<close>\<close>

record SpotBankruptcyRecord =
  MarketIndex :: "16 word"
  BorrowAmount :: "128 word"
  IfPayment :: "128 word"
  CumulativeDepositInterestDelta :: "128 word"

definition marshal_SpotBankruptcyRecord :: "bin_lib \<Rightarrow> SpotBankruptcyRecord \<Rightarrow> bytes" where
  "marshal_SpotBankruptcyRecord L = enc_all
     [put_u16 L \<circ> MarketIndex, put_u128 L \<circ> BorrowAmount, put_u128 L \<circ> IfPayment,
      put_u128 L \<circ> CumulativeDepositInterestDelta]"

definition unmarshal_SpotBankruptcyRecord :: "bin_lib \<Rightarrow> SpotBankruptcyRecord reader" where
  "unmarshal_SpotBankruptcyRecord L = dec_all
     [get_field (get_u16 L) MarketIndex_update, get_field (get_u128 L) BorrowAmount_update,
      get_field (get_u128 L) IfPayment_update,
      get_field (get_u128 L) CumulativeDepositInterestDelta_update]"

subsection \<open>\<open>MarketIdentifier\<close>\<close>

record MarketIdentifier =
  MarketType :: MarketType
  MarketIndex :: "16 word"

definition marshal_MarketIdentifier :: "bin_lib \<Rightarrow> MarketIdentifier \<Rightarrow> bytes" where
  "marshal_MarketIdentifier L = enc_all
     [put_u8 L \<circ> MarketType, put_u16 L \<circ> MarketIndex]"

definition unmarshal_MarketIdentifier :: "bin_lib \<Rightarrow> MarketIdentifier reader" where
  "unmarshal_MarketIdentifier L = dec_all
     [get_field (get_u8 L) MarketType_update, get_field (get_u16 L) MarketIndex_update]"

definition zero_MarketIdentifier :: MarketIdentifier where
  "zero_MarketIdentifier =
     \<lparr>MarketType = 0, MarketIndex = 0\<rparr>"

subsection \<open>\<open>HistoricalOracleData\<close>\<close>

record HistoricalOracleData =
  LastOraclePrice :: "64 word"
  LastOracleConf :: "64 word"
  LastOracleDelay :: "64 word"
  LastOraclePriceTwap :: "64 word"
  LastOraclePriceTwap5Min :: "64 word"
  LastOraclePriceTwapTs :: "64 word"

definition marshal_HistoricalOracleData :: "bin_lib \<Rightarrow> HistoricalOracleData \<Rightarrow> bytes" where
  "marshal_HistoricalOracleData L = enc_all
     [put_u64 L \<circ> LastOraclePrice, put_u64 L \<circ> LastOracleConf,
      put_u64 L \<circ> LastOracleDelay, put_u64 L \<circ> LastOraclePriceTwap,
      put_u64 L \<circ> LastOraclePriceTwap5Min, put_u64 L \<circ> LastOraclePriceTwapTs]"

definition unmarshal_HistoricalOracleData :: "bin_lib \<Rightarrow> HistoricalOracleData reader" where
  "unmarshal_HistoricalOracleData L = dec_all
     [get_field (get_u64 L) LastOraclePrice_update, get_field (get_u64 L) LastOracleConf_update,
      get_field (get_u64 L) LastOracleDelay_update, get_field (get_u64 L) LastOraclePriceTwap_update,
      get_field (get_u64 L) LastOraclePriceTwap5Min_update,
      get_field (get_u64 L) LastOraclePriceTwapTs_update]"

subsection \<open>\<open>HistoricalIndexData\<close>\<close>

record HistoricalIndexData =
  LastIndexBidPrice :: "64 word"
  LastIndexAskPrice :: "64 word"
  LastIndexPriceTwap :: "64 word"
  LastIndexPriceTwap5Min :: "64 word"
  LastIndexPriceTwapTs :: "64 word"

definition marshal_HistoricalIndexData :: "bin_lib \<Rightarrow> HistoricalIndexData \<Rightarrow> bytes" where
  "marshal_HistoricalIndexData L = enc_all
     [put_u64 L \<circ> LastIndexBidPrice, put_u64 L \<circ> LastIndexAskPrice,
      put_u64 L \<circ> LastIndexPriceTwap, put_u64 L \<circ> LastIndexPriceTwap5Min,
      put_u64 L \<circ> LastIndexPriceTwapTs]"

definition unmarshal_HistoricalIndexData :: "bin_lib \<Rightarrow> HistoricalIndexData reader" where
  "unmarshal_HistoricalIndexData L = dec_all
     [get_field (get_u64 L) LastIndexBidPrice_update, get_field (get_u64 L) LastIndexAskPrice_update,
      get_field (get_u64 L) LastIndexPriceTwap_update,
      get_field (get_u64 L) LastIndexPriceTwap5Min_update,
      get_field (get_u64 L) LastIndexPriceTwapTs_update]"

subsection \<open>\<open>PrelaunchOracleParams\<close>\<close>

record PrelaunchOracleParams =
  PerpMarketIndex :: "16 word"
  Price :: "(64 word) option"
  MaxPrice :: "(64 word) option"

definition marshal_PrelaunchOracleParams :: "bin_lib \<Rightarrow> PrelaunchOracleParams \<Rightarrow> bytes" where
  "marshal_PrelaunchOracleParams L = enc_all
     [put_u16 L \<circ> PerpMarketIndex, put_opt L (put_u64 L) \<circ> Price,
      put_opt L (put_u64 L) \<circ> MaxPrice]"

definition unmarshal_PrelaunchOracleParams :: "bin_lib \<Rightarrow> PrelaunchOracleParams reader" where
  "unmarshal_PrelaunchOracleParams L = dec_all
     [get_field (get_u16 L) PerpMarketIndex_update,
      sub_field (read_opt L (read_ptr 0 (prim (get_u64 L)))) Price Price_update,
      sub_field (read_opt L (read_ptr 0 (prim (get_u64 L)))) MaxPrice MaxPrice_update]"

definition fresh_PrelaunchOracleParams :: "PrelaunchOracleParams \<Rightarrow> bool" where
  "fresh_PrelaunchOracleParams x \<longleftrightarrow>
     Price x = None \<and>
     MaxPrice x = None"

subsection \<open>\<open>OrderParams\<close>\<close>

record OrderParams =
  OrderType :: OrderType
  MarketType :: MarketType
  Direction :: PositionDirection
  UserOrderId :: "8 word"
  BaseAssetAmount :: "64 word"
  Price :: "64 word"
  MarketIndex :: "16 word"
  ReduceOnly :: bool
  PostOnly :: PostOnlyParam
  ImmediateOrCancel :: bool
  MaxTs :: "(64 word) option"
  TriggerPrice :: "(64 word) option"
  TriggerCondition :: OrderTriggerCondition
  OraclePriceOffset :: "(32 word) option"
  AuctionDuration :: "(8 word) option"
  AuctionStartPrice :: "(64 word) option"
  AuctionEndPrice :: "(64 word) option"

definition marshal_OrderParams :: "bin_lib \<Rightarrow> OrderParams \<Rightarrow> bytes" where
  "marshal_OrderParams L = enc_all
     [put_u8 L \<circ> OrderType, put_u8 L \<circ> MarketType, put_u8 L \<circ> Direction,
      put_u8 L \<circ> UserOrderId, put_u64 L \<circ> BaseAssetAmount, put_u64 L \<circ> Price,
      put_u16 L \<circ> MarketIndex, put_bool L \<circ> ReduceOnly, put_u8 L \<circ> PostOnly,
      put_bool L \<circ> ImmediateOrCancel, put_opt L (put_u64 L) \<circ> MaxTs,
      put_opt L (put_u64 L) \<circ> TriggerPrice, put_u8 L \<circ> TriggerCondition,
      put_opt L (put_u32 L) \<circ> OraclePriceOffset, put_opt L (put_u8 L) \<circ> AuctionDuration,
      put_opt L (put_u64 L) \<circ> AuctionStartPrice, put_opt L (put_u64 L) \<circ> AuctionEndPrice]"

definition unmarshal_OrderParams :: "bin_lib \<Rightarrow> OrderParams reader" where
  "unmarshal_OrderParams L = dec_all
     [get_field (get_u8 L) OrderType_update, get_field (get_u8 L) MarketType_update,
      get_field (get_u8 L) Direction_update, get_field (get_u8 L) UserOrderId_update,
      get_field (get_u64 L) BaseAssetAmount_update, get_field (get_u64 L) Price_update,
      get_field (get_u16 L) MarketIndex_update, get_field (get_bool L) ReduceOnly_update,
      get_field (get_u8 L) PostOnly_update, get_field (get_bool L) ImmediateOrCancel_update,
      sub_field (read_opt L (read_ptr 0 (prim (get_u64 L)))) MaxTs MaxTs_update,
      sub_field (read_opt L (read_ptr 0 (prim (get_u64 L)))) TriggerPrice TriggerPrice_update,
      get_field (get_u8 L) TriggerCondition_update,
      sub_field (read_opt L (read_ptr 0 (prim (get_u32 L)))) OraclePriceOffset OraclePriceOffset_update,
      sub_field (read_opt L (read_ptr 0 (prim (get_u8 L)))) AuctionDuration AuctionDuration_update,
      sub_field (read_opt L (read_ptr 0 (prim (get_u64 L)))) AuctionStartPrice AuctionStartPrice_update,
      sub_field (read_opt L (read_ptr 0 (prim (get_u64 L)))) AuctionEndPrice AuctionEndPrice_update]"

definition fresh_OrderParams :: "OrderParams \<Rightarrow> bool" where
  "fresh_OrderParams x \<longleftrightarrow>
     MaxTs x = None \<and>
     TriggerPrice x = None \<and>
     OraclePriceOffset x = None \<and>
     AuctionDuration x = None \<and>
     AuctionStartPrice x = None \<and>
     AuctionEndPrice x = None"

definition zero_OrderParams :: OrderParams where
  "zero_OrderParams =
     \<lparr>OrderType = 0, MarketType = 0, Direction = 0, UserOrderId = 0, BaseAssetAmount = 0, Price = 0,
       MarketIndex = 0, ReduceOnly = False, PostOnly = 0, ImmediateOrCancel = False, MaxTs = None,
       TriggerPrice = None, TriggerCondition = 0, OraclePriceOffset = None, AuctionDuration = None,
       AuctionStartPrice = None, AuctionEndPrice = None\<rparr>"

subsection \<open>\<open>ModifyOrderParams\<close>\<close>

record ModifyOrderParams =
  Direction :: "PositionDirection option"
  BaseAssetAmount :: "(64 word) option"
  Price :: "(64 word) option"
  ReduceOnly :: "bool option"
  PostOnly :: "PostOnlyParam option"
  ImmediateOrCancel :: "bool option"
  MaxTs :: "(64 word) option"
  TriggerPrice :: "(64 word) option"
  TriggerCondition :: "OrderTriggerCondition option"
  OraclePriceOffset :: "(32 word) option"
  AuctionDuration :: "(8 word) option"
  AuctionStartPrice :: "(64 word) option"
  AuctionEndPrice :: "(64 word) option"
  Policy :: "ModifyOrderPolicy option"

definition marshal_ModifyOrderParams :: "bin_lib \<Rightarrow> ModifyOrderParams \<Rightarrow> bytes" where
  "marshal_ModifyOrderParams L = enc_all
     [put_opt L (put_u8 L) \<circ> Direction, put_opt L (put_u64 L) \<circ> BaseAssetAmount,
      put_opt L (put_u64 L) \<circ> Price, put_opt L (put_bool L) \<circ> ReduceOnly,
      put_opt L (put_u8 L) \<circ> PostOnly, put_opt L (put_bool L) \<circ> ImmediateOrCancel,
      put_opt L (put_u64 L) \<circ> MaxTs, put_opt L (put_u64 L) \<circ> TriggerPrice,
      put_opt L (put_u8 L) \<circ> TriggerCondition, put_opt L (put_u32 L) \<circ> OraclePriceOffset,
      put_opt L (put_u8 L) \<circ> AuctionDuration, put_opt L (put_u64 L) \<circ> AuctionStartPrice,
      put_opt L (put_u64 L) \<circ> AuctionEndPrice, put_opt L (put_u8 L) \<circ> Policy]"

definition unmarshal_ModifyOrderParams :: "bin_lib \<Rightarrow> ModifyOrderParams reader" where
  "unmarshal_ModifyOrderParams L = dec_all
     [sub_field (read_opt L (read_ptr 0 (prim (get_u8 L)))) Direction Direction_update,
      sub_field (read_opt L (read_ptr 0 (prim (get_u64 L)))) BaseAssetAmount BaseAssetAmount_update,
      sub_field (read_opt L (read_ptr 0 (prim (get_u64 L)))) Price Price_update,
      sub_field (read_opt L (read_ptr False (prim (get_bool L)))) ReduceOnly ReduceOnly_update,
      sub_field (read_opt L (read_ptr 0 (prim (get_u8 L)))) PostOnly PostOnly_update,
      sub_field (read_opt L (read_ptr False (prim (get_bool L)))) ImmediateOrCancel ImmediateOrCancel_update,
      sub_field (read_opt L (read_ptr 0 (prim (get_u64 L)))) MaxTs MaxTs_update,
      sub_field (read_opt L (read_ptr 0 (prim (get_u64 L)))) TriggerPrice TriggerPrice_update,
      sub_field (read_opt L (read_ptr 0 (prim (get_u8 L)))) TriggerCondition TriggerCondition_update,
      sub_field (read_opt L (read_ptr 0 (prim (get_u32 L)))) OraclePriceOffset OraclePriceOffset_update,
      sub_field (read_opt L (read_ptr 0 (prim (get_u8 L)))) AuctionDuration AuctionDuration_update,
      sub_field (read_opt L (read_ptr 0 (prim (get_u64 L)))) AuctionStartPrice AuctionStartPrice_update,
      sub_field (read_opt L (read_ptr 0 (prim (get_u64 L)))) AuctionEndPrice AuctionEndPrice_update,
      sub_field (read_opt L (read_ptr 0 (prim (get_u8 L)))) Policy Policy_update]"

definition fresh_ModifyOrderParams :: "ModifyOrderParams \<Rightarrow> bool" where
  "fresh_ModifyOrderParams x \<longleftrightarrow>
     Direction x = None \<and>
     BaseAssetAmount x = None \<and>
     Price x = None \<and>
     ReduceOnly x = None \<and>
     PostOnly x = None \<and>
     ImmediateOrCancel x = None \<and>
     MaxTs x = None \<and>
     TriggerPrice x = None \<and>
     TriggerCondition x = None \<and>
     OraclePriceOffset x = None \<and>
     AuctionDuration x = None \<and>
     AuctionStartPrice x = None \<and>
     AuctionEndPrice x = None \<and>
     Policy x = None"

subsection \<open>\<open>InsuranceClaim\<close>\<close>

record InsuranceClaim =
  RevenueWithdrawSinceLastSettle :: "64 word"
  MaxRevenueWithdrawPerPeriod :: "64 word"
  QuoteMaxInsurance :: "64 word"
  QuoteSettledInsurance :: "64 word"
  LastRevenueWithdrawTs :: "64 word"

definition marshal_InsuranceClaim :: "bin_lib \<Rightarrow> InsuranceClaim \<Rightarrow> bytes" where
  "marshal_InsuranceClaim L = enc_all
     [put_u64 L \<circ> RevenueWithdrawSinceLastSettle, put_u64 L \<circ> MaxRevenueWithdrawPerPeriod,
      put_u64 L \<circ> QuoteMaxInsurance, put_u64 L \<circ> QuoteSettledInsurance,
      put_u64 L \<circ> LastRevenueWithdrawTs]"

definition unmarshal_InsuranceClaim :: "bin_lib \<Rightarrow> InsuranceClaim reader" where
  "unmarshal_InsuranceClaim L = dec_all
     [get_field (get_u64 L) RevenueWithdrawSinceLastSettle_update,
      get_field (get_u64 L) MaxRevenueWithdrawPerPeriod_update,
      get_field (get_u64 L) QuoteMaxInsurance_update,
      get_field (get_u64 L) QuoteSettledInsurance_update,
      get_field (get_u64 L) LastRevenueWithdrawTs_update]"

subsection \<open>\<open>PoolBalance\<close>\<close>

record PoolBalance =
  ScaledBalance :: "128 word"
  MarketIndex :: "16 word"
  Padding :: "(8 word) list"

definition marshal_PoolBalance :: "bin_lib \<Rightarrow> PoolBalance \<Rightarrow> bytes" where
  "marshal_PoolBalance L = enc_all
     [put_u128 L \<circ> ScaledBalance, put_u16 L \<circ> MarketIndex,
      put_array (put_u8 L) \<circ> Padding]"

definition unmarshal_PoolBalance :: "bin_lib \<Rightarrow> PoolBalance reader" where
  "unmarshal_PoolBalance L = dec_all
     [get_field (get_u128 L) ScaledBalance_update, get_field (get_u16 L) MarketIndex_update,
      sub_field (read_each (prim (get_u8 L))) Padding Padding_update]"

definition wf_PoolBalance :: "PoolBalance \<Rightarrow> bool" where
  "wf_PoolBalance x \<longleftrightarrow>
     length (Padding x) = 6"

subsection \<open>\<open>AMM\<close>\<close>

record AMM =
  Oracle :: bytes
  HistoricalOracleData :: HistoricalOracleData
  BaseAssetAmountPerLp :: "128 word"
  QuoteAssetAmountPerLp :: "128 word"
  FeePool :: PoolBalance
  BaseAssetReserve :: "128 word"
  QuoteAssetReserve :: "128 word"
  ConcentrationCoef :: "128 word"
  MinBaseAssetReserve :: "128 word"
  MaxBaseAssetReserve :: "128 word"
  SqrtK :: "128 word"
  PegMultiplier :: "128 word"
  TerminalQuoteAssetReserve :: "128 word"
  BaseAssetAmountLong :: "128 word"
  BaseAssetAmountShort :: "128 word"
  BaseAssetAmountWithAmm :: "128 word"
  BaseAssetAmountWithUnsettledLp :: "128 word"
  MaxOpenInterest :: "128 word"
  QuoteAssetAmount :: "128 word"
  QuoteEntryAmountLong :: "128 word"
  QuoteEntryAmountShort :: "128 word"
  QuoteBreakEvenAmountLong :: "128 word"
  QuoteBreakEvenAmountShort :: "128 word"
  UserLpShares :: "128 word"
  LastFundingRate :: "64 word"
  LastFundingRateLong :: "64 word"
  LastFundingRateShort :: "64 word"
  Last24HAvgFundingRate :: "64 word"
  TotalFee :: "128 word"
  TotalMmFee :: "128 word"
  TotalExchangeFee :: "128 word"
  TotalFeeMinusDistributions :: "128 word"
  TotalFeeWithdrawn :: "128 word"
  TotalLiquidationFee :: "128 word"
  CumulativeFundingRateLong :: "128 word"
  CumulativeFundingRateShort :: "128 word"
  TotalSocialLoss :: "128 word"
  AskBaseAssetReserve :: "128 word"
  AskQuoteAssetReserve :: "128 word"
  BidBaseAssetReserve :: "128 word"
  BidQuoteAssetReserve :: "128 word"
  LastOracleNormalisedPrice :: "64 word"
  LastOracleReservePriceSpreadPct :: "64 word"
  LastBidPriceTwap :: "64 word"
  LastAskPriceTwap :: "64 word"
  LastMarkPriceTwap :: "64 word"
  LastMarkPriceTwap5Min :: "64 word"
  LastUpdateSlot :: "64 word"
  LastOracleConfPct :: "64 word"
  NetRevenueSinceLastFunding :: "64 word"
  LastFundingRateTs :: "64 word"
  FundingPeriod :: "64 word"
  OrderStepSize :: "64 word"
  OrderTickSize :: "64 word"
  MinOrderSize :: "64 word"
  MaxPositionSize :: "64 word"
  Volume24H :: "64 word"
  LongIntensityVolume :: "64 word"
  ShortIntensityVolume :: "64 word"
  LastTradeTs :: "64 word"
  MarkStd :: "64 word"
  OracleStd :: "64 word"
  LastMarkPriceTwapTs :: "64 word"
  BaseSpread :: "32 word"
  MaxSpread :: "32 word"
  LongSpread :: "32 word"
  ShortSpread :: "32 word"
  LongIntensityCount :: "32 word"
  ShortIntensityCount :: "32 word"
  MaxFillReserveFraction :: "16 word"
  MaxSlippageRatio :: "16 word"
  CurveUpdateIntensity :: "8 word"
  AmmJitIntensity :: "8 word"
  OracleSource :: OracleSource
  LastOracleValid :: bool
  TargetBaseAssetAmountPerLp :: "32 word"
  PerLpBase :: "8 word"
  Padding1 :: "8 word"
  Padding2 :: "16 word"
  TotalFeeEarnedPerLp :: "64 word"
  NetUnsettledFundingPnl :: "64 word"
  QuoteAssetAmountWithUnsettledLp :: "64 word"
  ReferencePriceOffset :: "32 word"
  Padding :: "(8 word) list"

definition marshal_AMM :: "bin_lib \<Rightarrow> AMM \<Rightarrow> bytes" where
  "marshal_AMM L = enc_all
     [put_key L \<circ> Oracle, marshal_HistoricalOracleData L \<circ> HistoricalOracleData,
      put_u128 L \<circ> BaseAssetAmountPerLp, put_u128 L \<circ> QuoteAssetAmountPerLp,
      marshal_PoolBalance L \<circ> FeePool, put_u128 L \<circ> BaseAssetReserve,
      put_u128 L \<circ> QuoteAssetReserve, put_u128 L \<circ> ConcentrationCoef,
      put_u128 L \<circ> MinBaseAssetReserve, put_u128 L \<circ> MaxBaseAssetReserve,
      put_u128 L \<circ> SqrtK, put_u128 L \<circ> PegMultiplier,
      put_u128 L \<circ> TerminalQuoteAssetReserve, put_u128 L \<circ> BaseAssetAmountLong,
      put_u128 L \<circ> BaseAssetAmountShort, put_u128 L \<circ> BaseAssetAmountWithAmm,
      put_u128 L \<circ> BaseAssetAmountWithUnsettledLp, put_u128 L \<circ> MaxOpenInterest,
      put_u128 L \<circ> QuoteAssetAmount, put_u128 L \<circ> QuoteEntryAmountLong,
      put_u128 L \<circ> QuoteEntryAmountShort, put_u128 L \<circ> QuoteBreakEvenAmountLong,
      put_u128 L \<circ> QuoteBreakEvenAmountShort, put_u128 L \<circ> UserLpShares,
      put_u64 L \<circ> LastFundingRate, put_u64 L \<circ> LastFundingRateLong,
      put_u64 L \<circ> LastFundingRateShort, put_u64 L \<circ> Last24HAvgFundingRate,
      put_u128 L \<circ> TotalFee, put_u128 L \<circ> TotalMmFee, put_u128 L \<circ> TotalExchangeFee,
      put_u128 L \<circ> TotalFeeMinusDistributions, put_u128 L \<circ> TotalFeeWithdrawn,
      put_u128 L \<circ> TotalLiquidationFee, put_u128 L \<circ> CumulativeFundingRateLong,
      put_u128 L \<circ> CumulativeFundingRateShort, put_u128 L \<circ> TotalSocialLoss,
      put_u128 L \<circ> AskBaseAssetReserve, put_u128 L \<circ> AskQuoteAssetReserve,
      put_u128 L \<circ> BidBaseAssetReserve, put_u128 L \<circ> BidQuoteAssetReserve,
      put_u64 L \<circ> LastOracleNormalisedPrice, put_u64 L \<circ> LastOracleReservePriceSpreadPct,
      put_u64 L \<circ> LastBidPriceTwap, put_u64 L \<circ> LastAskPriceTwap,
      put_u64 L \<circ> LastMarkPriceTwap, put_u64 L \<circ> LastMarkPriceTwap5Min,
      put_u64 L \<circ> LastUpdateSlot, put_u64 L \<circ> LastOracleConfPct,
      put_u64 L \<circ> NetRevenueSinceLastFunding, put_u64 L \<circ> LastFundingRateTs,
      put_u64 L \<circ> FundingPeriod, put_u64 L \<circ> OrderStepSize, put_u64 L \<circ> OrderTickSize,
      put_u64 L \<circ> MinOrderSize, put_u64 L \<circ> MaxPositionSize, put_u64 L \<circ> Volume24H,
      put_u64 L \<circ> LongIntensityVolume, put_u64 L \<circ> ShortIntensityVolume,
      put_u64 L \<circ> LastTradeTs, put_u64 L \<circ> MarkStd, put_u64 L \<circ> OracleStd,
      put_u64 L \<circ> LastMarkPriceTwapTs, put_u32 L \<circ> BaseSpread, put_u32 L \<circ> MaxSpread,
      put_u32 L \<circ> LongSpread, put_u32 L \<circ> ShortSpread, put_u32 L \<circ> LongIntensityCount,
      put_u32 L \<circ> ShortIntensityCount, put_u16 L \<circ> MaxFillReserveFraction,
      put_u16 L \<circ> MaxSlippageRatio, put_u8 L \<circ> CurveUpdateIntensity,
      put_u8 L \<circ> AmmJitIntensity, put_u8 L \<circ> OracleSource,
      put_bool L \<circ> LastOracleValid, put_u32 L \<circ> TargetBaseAssetAmountPerLp,
      put_u8 L \<circ> PerLpBase, put_u8 L \<circ> Padding1, put_u16 L \<circ> Padding2,
      put_u64 L \<circ> TotalFeeEarnedPerLp, put_u64 L \<circ> NetUnsettledFundingPnl,
      put_u64 L \<circ> QuoteAssetAmountWithUnsettledLp, put_u32 L \<circ> ReferencePriceOffset,
      put_array (put_u8 L) \<circ> Padding]"

definition unmarshal_AMM :: "bin_lib \<Rightarrow> AMM reader" where
  "unmarshal_AMM L = dec_all
     [get_field (get_key L) Oracle_update,
      sub_field (unmarshal_HistoricalOracleData L) HistoricalOracleData HistoricalOracleData_update,
      get_field (get_u128 L) BaseAssetAmountPerLp_update,
      get_field (get_u128 L) QuoteAssetAmountPerLp_update,
      sub_field (unmarshal_PoolBalance L) FeePool FeePool_update,
      get_field (get_u128 L) BaseAssetReserve_update, get_field (get_u128 L) QuoteAssetReserve_update,
      get_field (get_u128 L) ConcentrationCoef_update,
      get_field (get_u128 L) MinBaseAssetReserve_update,
      get_field (get_u128 L) MaxBaseAssetReserve_update, get_field (get_u128 L) SqrtK_update,
      get_field (get_u128 L) PegMultiplier_update,
      get_field (get_u128 L) TerminalQuoteAssetReserve_update,
      get_field (get_u128 L) BaseAssetAmountLong_update,
      get_field (get_u128 L) BaseAssetAmountShort_update,
      get_field (get_u128 L) BaseAssetAmountWithAmm_update,
      get_field (get_u128 L) BaseAssetAmountWithUnsettledLp_update,
      get_field (get_u128 L) MaxOpenInterest_update, get_field (get_u128 L) QuoteAssetAmount_update,
      get_field (get_u128 L) QuoteEntryAmountLong_update,
      get_field (get_u128 L) QuoteEntryAmountShort_update,
      get_field (get_u128 L) QuoteBreakEvenAmountLong_update,
      get_field (get_u128 L) QuoteBreakEvenAmountShort_update,
      get_field (get_u128 L) UserLpShares_update, get_field (get_u64 L) LastFundingRate_update,
      get_field (get_u64 L) LastFundingRateLong_update,
      get_field (get_u64 L) LastFundingRateShort_update,
      get_field (get_u64 L) Last24HAvgFundingRate_update, get_field (get_u128 L) TotalFee_update,
      get_field (get_u128 L) TotalMmFee_update, get_field (get_u128 L) TotalExchangeFee_update,
      get_field (get_u128 L) TotalFeeMinusDistributions_update,
      get_field (get_u128 L) TotalFeeWithdrawn_update,
      get_field (get_u128 L) TotalLiquidationFee_update,
      get_field (get_u128 L) CumulativeFundingRateLong_update,
      get_field (get_u128 L) CumulativeFundingRateShort_update,
      get_field (get_u128 L) TotalSocialLoss_update, get_field (get_u128 L) AskBaseAssetReserve_update,
      get_field (get_u128 L) AskQuoteAssetReserve_update,
      get_field (get_u128 L) BidBaseAssetReserve_update,
      get_field (get_u128 L) BidQuoteAssetReserve_update,
      get_field (get_u64 L) LastOracleNormalisedPrice_update,
      get_field (get_u64 L) LastOracleReservePriceSpreadPct_update,
      get_field (get_u64 L) LastBidPriceTwap_update, get_field (get_u64 L) LastAskPriceTwap_update,
      get_field (get_u64 L) LastMarkPriceTwap_update,
      get_field (get_u64 L) LastMarkPriceTwap5Min_update, get_field (get_u64 L) LastUpdateSlot_update,
      get_field (get_u64 L) LastOracleConfPct_update,
      get_field (get_u64 L) NetRevenueSinceLastFunding_update,
      get_field (get_u64 L) LastFundingRateTs_update, get_field (get_u64 L) FundingPeriod_update,
      get_field (get_u64 L) OrderStepSize_update, get_field (get_u64 L) OrderTickSize_update,
      get_field (get_u64 L) MinOrderSize_update, get_field (get_u64 L) MaxPositionSize_update,
      get_field (get_u64 L) Volume24H_update, get_field (get_u64 L) LongIntensityVolume_update,
      get_field (get_u64 L) ShortIntensityVolume_update, get_field (get_u64 L) LastTradeTs_update,
      get_field (get_u64 L) MarkStd_update, get_field (get_u64 L) OracleStd_update,
      get_field (get_u64 L) LastMarkPriceTwapTs_update, get_field (get_u32 L) BaseSpread_update,
      get_field (get_u32 L) MaxSpread_update, get_field (get_u32 L) LongSpread_update,
      get_field (get_u32 L) ShortSpread_update, get_field (get_u32 L) LongIntensityCount_update,
      get_field (get_u32 L) ShortIntensityCount_update,
      get_field (get_u16 L) MaxFillReserveFraction_update,
      get_field (get_u16 L) MaxSlippageRatio_update, get_field (get_u8 L) CurveUpdateIntensity_update,
      get_field (get_u8 L) AmmJitIntensity_update, get_field (get_u8 L) OracleSource_update,
      get_field (get_bool L) LastOracleValid_update,
      get_field (get_u32 L) TargetBaseAssetAmountPerLp_update, get_field (get_u8 L) PerLpBase_update,
      get_field (get_u8 L) Padding1_update, get_field (get_u16 L) Padding2_update,
      get_field (get_u64 L) TotalFeeEarnedPerLp_update,
      get_field (get_u64 L) NetUnsettledFundingPnl_update,
      get_field (get_u64 L) QuoteAssetAmountWithUnsettledLp_update,
      get_field (get_u32 L) ReferencePriceOffset_update,
      sub_field (read_each (prim (get_u8 L))) Padding Padding_update]"

definition wf_AMM :: "AMM \<Rightarrow> bool" where
  "wf_AMM x \<longleftrightarrow>
     length (Oracle x) = 32 \<and>
     wf_PoolBalance (FeePool x) \<and>
     length (Padding x) = 12"

subsection \<open>\<open>InsuranceFund\<close>\<close>

record InsuranceFund =
  Vault :: bytes
  TotalShares :: "128 word"
  UserShares :: "128 word"
  SharesBase :: "128 word"
  UnstakingPeriod :: "64 word"
  LastRevenueSettleTs :: "64 word"
  RevenueSettlePeriod :: "64 word"
  TotalFactor :: "32 word"
  UserFactor :: "32 word"

definition marshal_InsuranceFund :: "bin_lib \<Rightarrow> InsuranceFund \<Rightarrow> bytes" where
  "marshal_InsuranceFund L = enc_all
     [put_key L \<circ> Vault, put_u128 L \<circ> TotalShares, put_u128 L \<circ> UserShares,
      put_u128 L \<circ> SharesBase, put_u64 L \<circ> UnstakingPeriod,
      put_u64 L \<circ> LastRevenueSettleTs, put_u64 L \<circ> RevenueSettlePeriod,
      put_u32 L \<circ> TotalFactor, put_u32 L \<circ> UserFactor]"

definition unmarshal_InsuranceFund :: "bin_lib \<Rightarrow> InsuranceFund reader" where
  "unmarshal_InsuranceFund L = dec_all
     [get_field (get_key L) Vault_update, get_field (get_u128 L) TotalShares_update,
      get_field (get_u128 L) UserShares_update, get_field (get_u128 L) SharesBase_update,
      get_field (get_u64 L) UnstakingPeriod_update, get_field (get_u64 L) LastRevenueSettleTs_update,
      get_field (get_u64 L) RevenueSettlePeriod_update, get_field (get_u32 L) TotalFactor_update,
      get_field (get_u32 L) UserFactor_update]"

definition wf_InsuranceFund :: "InsuranceFund \<Rightarrow> bool" where
  "wf_InsuranceFund x \<longleftrightarrow>
     length (Vault x) = 32"

subsection \<open>\<open>PriceDivergenceGuardRails\<close>\<close>

record PriceDivergenceGuardRails =
  MarkOraclePercentDivergence :: "64 word"
  OracleTwap5MinPercentDivergence :: "64 word"

definition marshal_PriceDivergenceGuardRails :: "bin_lib \<Rightarrow> PriceDivergenceGuardRails \<Rightarrow> bytes" where
  "marshal_PriceDivergenceGuardRails L = enc_all
     [put_u64 L \<circ> MarkOraclePercentDivergence, put_u64 L \<circ> OracleTwap5MinPercentDivergence]"

definition unmarshal_PriceDivergenceGuardRails :: "bin_lib \<Rightarrow> PriceDivergenceGuardRails reader" where
  "unmarshal_PriceDivergenceGuardRails L = dec_all
     [get_field (get_u64 L) MarkOraclePercentDivergence_update,
      get_field (get_u64 L) OracleTwap5MinPercentDivergence_update]"

subsection \<open>\<open>ValidityGuardRails\<close>\<close>

record ValidityGuardRails =
  SlotsBeforeStaleForAmm :: "64 word"
  SlotsBeforeStaleForMargin :: "64 word"
  ConfidenceIntervalMaxSize :: "64 word"
  TooVolatileRatio :: "64 word"

definition marshal_ValidityGuardRails :: "bin_lib \<Rightarrow> ValidityGuardRails \<Rightarrow> bytes" where
  "marshal_ValidityGuardRails L = enc_all
     [put_u64 L \<circ> SlotsBeforeStaleForAmm, put_u64 L \<circ> SlotsBeforeStaleForMargin,
      put_u64 L \<circ> ConfidenceIntervalMaxSize, put_u64 L \<circ> TooVolatileRatio]"

definition unmarshal_ValidityGuardRails :: "bin_lib \<Rightarrow> ValidityGuardRails reader" where
  "unmarshal_ValidityGuardRails L = dec_all
     [get_field (get_u64 L) SlotsBeforeStaleForAmm_update,
      get_field (get_u64 L) SlotsBeforeStaleForMargin_update,
      get_field (get_u64 L) ConfidenceIntervalMaxSize_update,
      get_field (get_u64 L) TooVolatileRatio_update]"

subsection \<open>\<open>OracleGuardRails\<close>\<close>

record OracleGuardRails =
  PriceDivergence :: PriceDivergenceGuardRails
  Validity :: ValidityGuardRails

definition marshal_OracleGuardRails :: "bin_lib \<Rightarrow> OracleGuardRails \<Rightarrow> bytes" where
  "marshal_OracleGuardRails L = enc_all
     [marshal_PriceDivergenceGuardRails L \<circ> PriceDivergence,
      marshal_ValidityGuardRails L \<circ> Validity]"

definition unmarshal_OracleGuardRails :: "bin_lib \<Rightarrow> OracleGuardRails reader" where
  "unmarshal_OracleGuardRails L = dec_all
     [sub_field (unmarshal_PriceDivergenceGuardRails L) PriceDivergence PriceDivergence_update,
      sub_field (unmarshal_ValidityGuardRails L) Validity Validity_update]"

subsection \<open>\<open>FeeTier\<close>\<close>

record FeeTier =
  FeeNumerator :: "32 word"
  FeeDenominator :: "32 word"
  MakerRebateNumerator :: "32 word"
  MakerRebateDenominator :: "32 word"
  ReferrerRewardNumerator :: "32 word"
  ReferrerRewardDenominator :: "32 word"
  RefereeFeeNumerator :: "32 word"
  RefereeFeeDenominator :: "32 word"

definition marshal_FeeTier :: "bin_lib \<Rightarrow> FeeTier \<Rightarrow> bytes" where
  "marshal_FeeTier L = enc_all
     [put_u32 L \<circ> FeeNumerator, put_u32 L \<circ> FeeDenominator,
      put_u32 L \<circ> MakerRebateNumerator, put_u32 L \<circ> MakerRebateDenominator,
      put_u32 L \<circ> ReferrerRewardNumerator, put_u32 L \<circ> ReferrerRewardDenominator,
      put_u32 L \<circ> RefereeFeeNumerator, put_u32 L \<circ> RefereeFeeDenominator]"

definition unmarshal_FeeTier :: "bin_lib \<Rightarrow> FeeTier reader" where
  "unmarshal_FeeTier L = dec_all
     [get_field (get_u32 L) FeeNumerator_update, get_field (get_u32 L) FeeDenominator_update,
      get_field (get_u32 L) MakerRebateNumerator_update,
      get_field (get_u32 L) MakerRebateDenominator_update,
      get_field (get_u32 L) ReferrerRewardNumerator_update,
      get_field (get_u32 L) ReferrerRewardDenominator_update,
      get_field (get_u32 L) RefereeFeeNumerator_update,
      get_field (get_u32 L) RefereeFeeDenominator_update]"

subsection \<open>\<open>OrderFillerRewardStructure\<close>\<close>

record OrderFillerRewardStructure =
  RewardNumerator :: "32 word"
  RewardDenominator :: "32 word"
  TimeBasedRewardLowerBound :: "128 word"

definition marshal_OrderFillerRewardStructure :: "bin_lib \<Rightarrow> OrderFillerRewardStructure \<Rightarrow> bytes" where
  "marshal_OrderFillerRewardStructure L = enc_all
     [put_u32 L \<circ> RewardNumerator, put_u32 L \<circ> RewardDenominator,
      put_u128 L \<circ> TimeBasedRewardLowerBound]"

definition unmarshal_OrderFillerRewardStructure :: "bin_lib \<Rightarrow> OrderFillerRewardStructure reader" where
  "unmarshal_OrderFillerRewardStructure L = dec_all
     [get_field (get_u32 L) RewardNumerator_update, get_field (get_u32 L) RewardDenominator_update,
      get_field (get_u128 L) TimeBasedRewardLowerBound_update]"

subsection \<open>\<open>FeeStructure\<close>\<close>

record FeeStructure =
  FeeTiers :: "FeeTier list"
  FillerRewardStructure :: OrderFillerRewardStructure
  ReferrerRewardEpochUpperBound :: "64 word"
  FlatFillerFee :: "64 word"

definition marshal_FeeStructure :: "bin_lib \<Rightarrow> FeeStructure \<Rightarrow> bytes" where
  "marshal_FeeStructure L = enc_all
     [put_array (marshal_FeeTier L) \<circ> FeeTiers,
      marshal_OrderFillerRewardStructure L \<circ> FillerRewardStructure,
      put_u64 L \<circ> ReferrerRewardEpochUpperBound, put_u64 L \<circ> FlatFillerFee]"

definition unmarshal_FeeStructure :: "bin_lib \<Rightarrow> FeeStructure reader" where
  "unmarshal_FeeStructure L = dec_all
     [sub_field (read_each (unmarshal_FeeTier L)) FeeTiers FeeTiers_update,
      sub_field (unmarshal_OrderFillerRewardStructure L) FillerRewardStructure FillerRewardStructure_update,
      get_field (get_u64 L) ReferrerRewardEpochUpperBound_update,
      get_field (get_u64 L) FlatFillerFee_update]"

definition wf_FeeStructure :: "FeeStructure \<Rightarrow> bool" where
  "wf_FeeStructure x \<longleftrightarrow>
     length (FeeTiers x) = 10"

subsection \<open>\<open>UserFees\<close>\<close>

record UserFees =
  TotalFeePaid :: "64 word"
  TotalFeeRebate :: "64 word"
  TotalTokenDiscount :: "64 word"
  TotalRefereeDiscount :: "64 word"
  TotalReferrerReward :: "64 word"
  CurrentEpochReferrerReward :: "64 word"

definition marshal_UserFees :: "bin_lib \<Rightarrow> UserFees \<Rightarrow> bytes" where
  "marshal_UserFees L = enc_all
     [put_u64 L \<circ> TotalFeePaid, put_u64 L \<circ> TotalFeeRebate,
      put_u64 L \<circ> TotalTokenDiscount, put_u64 L \<circ> TotalRefereeDiscount,
      put_u64 L \<circ> TotalReferrerReward, put_u64 L \<circ> CurrentEpochReferrerReward]"

definition unmarshal_UserFees :: "bin_lib \<Rightarrow> UserFees reader" where
  "unmarshal_UserFees L = dec_all
     [get_field (get_u64 L) TotalFeePaid_update, get_field (get_u64 L) TotalFeeRebate_update,
      get_field (get_u64 L) TotalTokenDiscount_update,
      get_field (get_u64 L) TotalRefereeDiscount_update,
      get_field (get_u64 L) TotalReferrerReward_update,
      get_field (get_u64 L) CurrentEpochReferrerReward_update]"

subsection \<open>\<open>SpotPosition\<close>\<close>

record SpotPosition =
  ScaledBalance :: "64 word"
  OpenBids :: "64 word"
  OpenAsks :: "64 word"
  CumulativeDeposits :: "64 word"
  MarketIndex :: "16 word"
  BalanceType :: SpotBalanceType
  OpenOrders :: "8 word"
  Padding :: "(8 word) list"

definition marshal_SpotPosition :: "bin_lib \<Rightarrow> SpotPosition \<Rightarrow> bytes" where
  "marshal_SpotPosition L = enc_all
     [put_u64 L \<circ> ScaledBalance, put_u64 L \<circ> OpenBids, put_u64 L \<circ> OpenAsks,
      put_u64 L \<circ> CumulativeDeposits, put_u16 L \<circ> MarketIndex, put_u8 L \<circ> BalanceType,
      put_u8 L \<circ> OpenOrders, put_array (put_u8 L) \<circ> Padding]"

definition unmarshal_SpotPosition :: "bin_lib \<Rightarrow> SpotPosition reader" where
  "unmarshal_SpotPosition L = dec_all
     [get_field (get_u64 L) ScaledBalance_update, get_field (get_u64 L) OpenBids_update,
      get_field (get_u64 L) OpenAsks_update, get_field (get_u64 L) CumulativeDeposits_update,
      get_field (get_u16 L) MarketIndex_update, get_field (get_u8 L) BalanceType_update,
      get_field (get_u8 L) OpenOrders_update,
      sub_field (read_each (prim (get_u8 L))) Padding Padding_update]"

definition wf_SpotPosition :: "SpotPosition \<Rightarrow> bool" where
  "wf_SpotPosition x \<longleftrightarrow>
     length (Padding x) = 4"

definition zero_SpotPosition :: SpotPosition where
  "zero_SpotPosition =
     \<lparr>ScaledBalance = 0, OpenBids = 0, OpenAsks = 0, CumulativeDeposits = 0, MarketIndex = 0,
       BalanceType = 0, OpenOrders = 0, Padding = replicate 4 0\<rparr>"

subsection \<open>\<open>PerpPosition\<close>\<close>

record PerpPosition =
  LastCumulativeFundingRate :: "64 word"
  BaseAssetAmount :: "64 word"
  QuoteAssetAmount :: "64 word"
  QuoteBreakEvenAmount :: "64 word"
  QuoteEntryAmount :: "64 word"
  OpenBids :: "64 word"
  OpenAsks :: "64 word"
  SettledPnl :: "64 word"
  LpShares :: "64 word"
  LastBaseAssetAmountPerLp :: "64 word"
  LastQuoteAssetAmountPerLp :: "64 word"
  RemainderBaseAssetAmount :: "32 word"
  MarketIndex :: "16 word"
  OpenOrders :: "8 word"
  PerLpBase :: "8 word"

definition marshal_PerpPosition :: "bin_lib \<Rightarrow> PerpPosition \<Rightarrow> bytes" where
  "marshal_PerpPosition L = enc_all
     [put_u64 L \<circ> LastCumulativeFundingRate, put_u64 L \<circ> BaseAssetAmount,
      put_u64 L \<circ> QuoteAssetAmount, put_u64 L \<circ> QuoteBreakEvenAmount,
      put_u64 L \<circ> QuoteEntryAmount, put_u64 L \<circ> OpenBids, put_u64 L \<circ> OpenAsks,
      put_u64 L \<circ> SettledPnl, put_u64 L \<circ> LpShares,
      put_u64 L \<circ> LastBaseAssetAmountPerLp, put_u64 L \<circ> LastQuoteAssetAmountPerLp,
      put_u32 L \<circ> RemainderBaseAssetAmount, put_u16 L \<circ> MarketIndex,
      put_u8 L \<circ> OpenOrders, put_u8 L \<circ> PerLpBase]"

definition unmarshal_PerpPosition :: "bin_lib \<Rightarrow> PerpPosition reader" where
  "unmarshal_PerpPosition L = dec_all
     [get_field (get_u64 L) LastCumulativeFundingRate_update,
      get_field (get_u64 L) BaseAssetAmount_update, get_field (get_u64 L) QuoteAssetAmount_update,
      get_field (get_u64 L) QuoteBreakEvenAmount_update, get_field (get_u64 L) QuoteEntryAmount_update,
      get_field (get_u64 L) OpenBids_update, get_field (get_u64 L) OpenAsks_update,
      get_field (get_u64 L) SettledPnl_update, get_field (get_u64 L) LpShares_update,
      get_field (get_u64 L) LastBaseAssetAmountPerLp_update,
      get_field (get_u64 L) LastQuoteAssetAmountPerLp_update,
      get_field (get_u32 L) RemainderBaseAssetAmount_update, get_field (get_u16 L) MarketIndex_update,
      get_field (get_u8 L) OpenOrders_update, get_field (get_u8 L) PerLpBase_update]"

definition zero_PerpPosition :: PerpPosition where
  "zero_PerpPosition =
     \<lparr>LastCumulativeFundingRate = 0, BaseAssetAmount = 0, QuoteAssetAmount = 0,
       QuoteBreakEvenAmount = 0, QuoteEntryAmount = 0, OpenBids = 0, OpenAsks = 0, SettledPnl = 0,
       LpShares = 0, LastBaseAssetAmountPerLp = 0, LastQuoteAssetAmountPerLp = 0,
       RemainderBaseAssetAmount = 0, MarketIndex = 0, OpenOrders = 0, PerLpBase = 0\<rparr>"

subsection \<open>\<open>Order\<close>\<close>

record Order =
  Slot :: "64 word"
  Price :: "64 word"
  BaseAssetAmount :: "64 word"
  BaseAssetAmountFilled :: "64 word"
  QuoteAssetAmountFilled :: "64 word"
  TriggerPrice :: "64 word"
  AuctionStartPrice :: "64 word"
  AuctionEndPrice :: "64 word"
  MaxTs :: "64 word"
  OraclePriceOffset :: "32 word"
  OrderId :: "32 word"
  MarketIndex :: "16 word"
  Status :: OrderStatus
  OrderType :: OrderType
  MarketType :: MarketType
  UserOrderId :: "8 word"
  ExistingPositionDirection :: PositionDirection
  Direction :: PositionDirection
  ReduceOnly :: bool
  PostOnly :: bool
  ImmediateOrCancel :: bool
  TriggerCondition :: OrderTriggerCondition
  AuctionDuration :: "8 word"
  Padding :: "(8 word) list"

definition marshal_Order :: "bin_lib \<Rightarrow> Order \<Rightarrow> bytes" where
  "marshal_Order L = enc_all
     [put_u64 L \<circ> Slot, put_u64 L \<circ> Price, put_u64 L \<circ> BaseAssetAmount,
      put_u64 L \<circ> BaseAssetAmountFilled, put_u64 L \<circ> QuoteAssetAmountFilled,
      put_u64 L \<circ> TriggerPrice, put_u64 L \<circ> AuctionStartPrice,
      put_u64 L \<circ> AuctionEndPrice, put_u64 L \<circ> MaxTs, put_u32 L \<circ> OraclePriceOffset,
      put_u32 L \<circ> OrderId, put_u16 L \<circ> MarketIndex, put_u8 L \<circ> Status,
      put_u8 L \<circ> OrderType, put_u8 L \<circ> MarketType, put_u8 L \<circ> UserOrderId,
      put_u8 L \<circ> ExistingPositionDirection, put_u8 L \<circ> Direction,
      put_bool L \<circ> ReduceOnly, put_bool L \<circ> PostOnly, put_bool L \<circ> ImmediateOrCancel,
      put_u8 L \<circ> TriggerCondition, put_u8 L \<circ> AuctionDuration,
      put_array (put_u8 L) \<circ> Padding]"

definition unmarshal_Order :: "bin_lib \<Rightarrow> Order reader" where
  "unmarshal_Order L = dec_all
     [get_field (get_u64 L) Slot_update, get_field (get_u64 L) Price_update,
      get_field (get_u64 L) BaseAssetAmount_update, get_field (get_u64 L) BaseAssetAmountFilled_update,
      get_field (get_u64 L) QuoteAssetAmountFilled_update, get_field (get_u64 L) TriggerPrice_update,
      get_field (get_u64 L) AuctionStartPrice_update, get_field (get_u64 L) AuctionEndPrice_update,
      get_field (get_u64 L) MaxTs_update, get_field (get_u32 L) OraclePriceOffset_update,
      get_field (get_u32 L) OrderId_update, get_field (get_u16 L) MarketIndex_update,
      get_field (get_u8 L) Status_update, get_field (get_u8 L) OrderType_update,
      get_field (get_u8 L) MarketType_update, get_field (get_u8 L) UserOrderId_update,
      get_field (get_u8 L) ExistingPositionDirection_update, get_field (get_u8 L) Direction_update,
      get_field (get_bool L) ReduceOnly_update, get_field (get_bool L) PostOnly_update,
      get_field (get_bool L) ImmediateOrCancel_update, get_field (get_u8 L) TriggerCondition_update,
      get_field (get_u8 L) AuctionDuration_update,
      sub_field (read_each (prim (get_u8 L))) Padding Padding_update]"

definition wf_Order :: "Order \<Rightarrow> bool" where
  "wf_Order x \<longleftrightarrow>
     length (Padding x) = 3"

definition zero_Order :: Order where
  "zero_Order =
     \<lparr>Slot = 0, Price = 0, BaseAssetAmount = 0, BaseAssetAmountFilled = 0, QuoteAssetAmountFilled = 0,
       TriggerPrice = 0, AuctionStartPrice = 0, AuctionEndPrice = 0, MaxTs = 0, OraclePriceOffset = 0,
       OrderId = 0, MarketIndex = 0, Status = 0, OrderType = 0, MarketType = 0, UserOrderId = 0,
       ExistingPositionDirection = 0, Direction = 0, ReduceOnly = False, PostOnly = False,
       ImmediateOrCancel = False, TriggerCondition = 0, AuctionDuration = 0, Padding = replicate 3 0\<rparr>"

subsection \<open>\<open>ModifyOrderIdUserOrderId\<close>\<close>

record ModifyOrderIdUserOrderId =
  Id :: "8 word"

definition marshal_ModifyOrderIdUserOrderId :: "bin_lib \<Rightarrow> ModifyOrderIdUserOrderId \<Rightarrow> bytes" where
  "marshal_ModifyOrderIdUserOrderId L = enc_all
     [put_u8 L \<circ> Id]"

definition unmarshal_ModifyOrderIdUserOrderId :: "bin_lib \<Rightarrow> ModifyOrderIdUserOrderId reader" where
  "unmarshal_ModifyOrderIdUserOrderId L = dec_all
     [get_field (get_u8 L) Id_update]"

subsection \<open>\<open>ModifyOrderIdOrderId\<close>\<close>

record ModifyOrderIdOrderId =
  Id :: "32 word"

definition marshal_ModifyOrderIdOrderId :: "bin_lib \<Rightarrow> ModifyOrderIdOrderId \<Rightarrow> bytes" where
  "marshal_ModifyOrderIdOrderId L = enc_all
     [put_u32 L \<circ> Id]"

definition unmarshal_ModifyOrderIdOrderId :: "bin_lib \<Rightarrow> ModifyOrderIdOrderId reader" where
  "unmarshal_ModifyOrderIdOrderId L = dec_all
     [get_field (get_u32 L) Id_update]"

subsection \<open>\<open>PerpFulfillmentMethodAMM\<close>\<close>

record PerpFulfillmentMethodAMM =
  Option :: "(64 word) option"

definition marshal_PerpFulfillmentMethodAMM :: "bin_lib \<Rightarrow> PerpFulfillmentMethodAMM \<Rightarrow> bytes" where
  "marshal_PerpFulfillmentMethodAMM L = enc_all
     [put_opt L (put_u64 L) \<circ> Option]"

definition unmarshal_PerpFulfillmentMethodAMM :: "bin_lib \<Rightarrow> PerpFulfillmentMethodAMM reader" where
  "unmarshal_PerpFulfillmentMethodAMM L = dec_all
     [sub_field (read_opt L (read_ptr 0 (prim (get_u64 L)))) Option Option_update]"

definition fresh_PerpFulfillmentMethodAMM :: "PerpFulfillmentMethodAMM \<Rightarrow> bool" where
  "fresh_PerpFulfillmentMethodAMM x \<longleftrightarrow>
     Option x = None"

subsection \<open>\<open>PerpFulfillmentMethodMatch\<close>\<close>

record PerpFulfillmentMethodMatch =
  PublicKey :: bytes
  Id :: "16 word"

definition marshal_PerpFulfillmentMethodMatch :: "bin_lib \<Rightarrow> PerpFulfillmentMethodMatch \<Rightarrow> bytes" where
  "marshal_PerpFulfillmentMethodMatch L = enc_all
     [put_key L \<circ> PublicKey, put_u16 L \<circ> Id]"

definition unmarshal_PerpFulfillmentMethodMatch :: "bin_lib \<Rightarrow> PerpFulfillmentMethodMatch reader" where
  "unmarshal_PerpFulfillmentMethodMatch L = dec_all
     [get_field (get_key L) PublicKey_update, get_field (get_u16 L) Id_update]"

definition wf_PerpFulfillmentMethodMatch :: "PerpFulfillmentMethodMatch \<Rightarrow> bool" where
  "wf_PerpFulfillmentMethodMatch x \<longleftrightarrow>
     length (PublicKey x) = 32"

subsection \<open>\<open>SpotFulfillmentMethodMatch\<close>\<close>

record SpotFulfillmentMethodMatch =
  PublicKey :: bytes
  Id :: "16 word"

definition marshal_SpotFulfillmentMethodMatch :: "bin_lib \<Rightarrow> SpotFulfillmentMethodMatch \<Rightarrow> bytes" where
  "marshal_SpotFulfillmentMethodMatch L = enc_all
     [put_key L \<circ> PublicKey, put_u16 L \<circ> Id]"

definition unmarshal_SpotFulfillmentMethodMatch :: "bin_lib \<Rightarrow> SpotFulfillmentMethodMatch reader" where
  "unmarshal_SpotFulfillmentMethodMatch L = dec_all
     [get_field (get_key L) PublicKey_update, get_field (get_u16 L) Id_update]"

definition wf_SpotFulfillmentMethodMatch :: "SpotFulfillmentMethodMatch \<Rightarrow> bool" where
  "wf_SpotFulfillmentMethodMatch x \<longleftrightarrow>
     length (PublicKey x) = 32"

subsection \<open>\<open>MarginCalculationModeStandard\<close>\<close>

record MarginCalculationModeStandard =
  TrackOpenOrdersFraction :: bool

definition marshal_MarginCalculationModeStandard :: "bin_lib \<Rightarrow> MarginCalculationModeStandard \<Rightarrow> bytes" where
  "marshal_MarginCalculationModeStandard L = enc_all
     [put_bool L \<circ> TrackOpenOrdersFraction]"

definition unmarshal_MarginCalculationModeStandard :: "bin_lib \<Rightarrow> MarginCalculationModeStandard reader" where
  "unmarshal_MarginCalculationModeStandard L = dec_all
     [get_field (get_bool L) TrackOpenOrdersFraction_update]"

subsection \<open>\<open>MarginCalculationModeLiquidation\<close>\<close>

record MarginCalculationModeLiquidation =
  MarketToTrackMarginRequirement :: "MarketIdentifier option"

definition marshal_MarginCalculationModeLiquidation :: "bin_lib \<Rightarrow> MarginCalculationModeLiquidation \<Rightarrow> bytes" where
  "marshal_MarginCalculationModeLiquidation L = enc_all
     [put_opt L (marshal_MarketIdentifier L) \<circ> MarketToTrackMarginRequirement]"

definition unmarshal_MarginCalculationModeLiquidation :: "bin_lib \<Rightarrow> MarginCalculationModeLiquidation reader" where
  "unmarshal_MarginCalculationModeLiquidation L = dec_all
     [sub_field (read_opt L (read_ptr zero_MarketIdentifier (unmarshal_MarketIdentifier L))) MarketToTrackMarginRequirement MarketToTrackMarginRequirement_update]"

definition fresh_MarginCalculationModeLiquidation :: "MarginCalculationModeLiquidation \<Rightarrow> bool" where
  "fresh_MarginCalculationModeLiquidation x \<longleftrightarrow>
     MarketToTrackMarginRequirement x = None"

lemma fresh_zero_OrderParams [simp]: "fresh_OrderParams zero_OrderParams"
  by (simp add: fresh_OrderParams_def zero_OrderParams_def)

section \<open>Round trips\<close>

context bin_library
begin

lemma UpdatePerpMarketSummaryStatsParams_rt [simp]:
  "fresh_UpdatePerpMarketSummaryStatsParams y \<Longrightarrow> 
    unmarshal_UpdatePerpMarketSummaryStatsParams L (y, marshal_UpdatePerpMarketSummaryStatsParams L x @ r) = Inr (x, r)"
  by (simp add: unmarshal_UpdatePerpMarketSummaryStatsParams_def marshal_UpdatePerpMarketSummaryStatsParams_def fresh_UpdatePerpMarketSummaryStatsParams_def)

lemma LiquidatePerpRecord_rt [simp]:
  "
    unmarshal_LiquidatePerpRecord L (y, marshal_LiquidatePerpRecord L x @ r) = Inr (x, r)"
  by (simp add: unmarshal_LiquidatePerpRecord_def marshal_LiquidatePerpRecord_def)

lemma LiquidateSpotRecord_rt [simp]:
  "
    unmarshal_LiquidateSpotRecord L (y, marshal_LiquidateSpotRecord L x @ r) = Inr (x, r)"
  by (simp add: unmarshal_LiquidateSpotRecord_def marshal_LiquidateSpotRecord_def)

lemma LiquidateBorrowForPerpPnlRecord_rt [simp]:
  "
    unmarshal_LiquidateBorrowForPerpPnlRecord L (y, marshal_LiquidateBorrowForPerpPnlRecord L x @ r) = Inr (x, r)"
  by (simp add: unmarshal_LiquidateBorrowForPerpPnlRecord_def marshal_LiquidateBorrowForPerpPnlRecord_def)

lemma LiquidatePerpPnlForDepositRecord_rt [simp]:
  "
    unmarshal_LiquidatePerpPnlForDepositRecord L (y, marshal_LiquidatePerpPnlForDepositRecord L x @ r) = Inr (x, r)"
  by (simp add: unmarshal_LiquidatePerpPnlForDepositRecord_def marshal_LiquidatePerpPnlForDepositRecord_def)

lemma PerpBankruptcyRecord_rt [simp]:
  "wf_PerpBankruptcyRecord x \<Longrightarrow> wf_PerpBankruptcyRecord y \<Longrightarrow> fresh_PerpBankruptcyRecord y \<Longrightarrow> 
    unmarshal_PerpBankruptcyRecord L (y, marshal_PerpBankruptcyRecord L x @ r) = Inr (x, r)"
  by (simp add: unmarshal_PerpBankruptcyRecord_def marshal_PerpBankruptcyRecord_def wf_PerpBankruptcyRecord_def fresh_PerpBankruptcyRecord_def)

lemma SpotBankruptcyRecord_rt [simp]:
  "
    unmarshal_SpotBankruptcyRecord L (y, marshal_SpotBankruptcyRecord L x @ r) = Inr (x, r)"
  by (simp add: unmarshal_SpotBankruptcyRecord_def marshal_SpotBankruptcyRecord_def)

lemma MarketIdentifier_rt [simp]:
  "
    unmarshal_MarketIdentifier L (y, marshal_MarketIdentifier L x @ r) = Inr (x, r)"
  by (simp add: unmarshal_MarketIdentifier_def marshal_MarketIdentifier_def)

lemma HistoricalOracleData_rt [simp]:
  "
    unmarshal_HistoricalOracleData L (y, marshal_HistoricalOracleData L x @ r) = Inr (x, r)"
  by (simp add: unmarshal_HistoricalOracleData_def marshal_HistoricalOracleData_def)

lemma HistoricalIndexData_rt [simp]:
  "
    unmarshal_HistoricalIndexData L (y, marshal_HistoricalIndexData L x @ r) = Inr (x, r)"
  by (simp add: unmarshal_HistoricalIndexData_def marshal_HistoricalIndexData_def)

lemma PrelaunchOracleParams_rt [simp]:
  "fresh_PrelaunchOracleParams y \<Longrightarrow> 
    unmarshal_PrelaunchOracleParams L (y, marshal_PrelaunchOracleParams L x @ r) = Inr (x, r)"
  by (simp add: unmarshal_PrelaunchOracleParams_def marshal_PrelaunchOracleParams_def fresh_PrelaunchOracleParams_def)

lemma OrderParams_rt [simp]:
  "fresh_OrderParams y \<Longrightarrow> 
    unmarshal_OrderParams L (y, marshal_OrderParams L x @ r) = Inr (x, r)"
  by (simp add: unmarshal_OrderParams_def marshal_OrderParams_def fresh_OrderParams_def)

lemma ModifyOrderParams_rt [simp]:
  "fresh_ModifyOrderParams y \<Longrightarrow> 
    unmarshal_ModifyOrderParams L (y, marshal_ModifyOrderParams L x @ r) = Inr (x, r)"
  by (simp add: unmarshal_ModifyOrderParams_def marshal_ModifyOrderParams_def fresh_ModifyOrderParams_def)

lemma InsuranceClaim_rt [simp]:
  "
    unmarshal_InsuranceClaim L (y, marshal_InsuranceClaim L x @ r) = Inr (x, r)"
  by (simp add: unmarshal_InsuranceClaim_def marshal_InsuranceClaim_def)

lemma PoolBalance_rt [simp]:
  "wf_PoolBalance x \<Longrightarrow> wf_PoolBalance y \<Longrightarrow> 
    unmarshal_PoolBalance L (y, marshal_PoolBalance L x @ r) = Inr (x, r)"
  by (simp add: unmarshal_PoolBalance_def marshal_PoolBalance_def wf_PoolBalance_def)

lemma AMM_rt [simp]:
  "wf_AMM x \<Longrightarrow> wf_AMM y \<Longrightarrow> 
    unmarshal_AMM L (y, marshal_AMM L x @ r) = Inr (x, r)"
  by (simp add: unmarshal_AMM_def marshal_AMM_def wf_AMM_def)

lemma InsuranceFund_rt [simp]:
  "wf_InsuranceFund x \<Longrightarrow> wf_InsuranceFund y \<Longrightarrow> 
    unmarshal_InsuranceFund L (y, marshal_InsuranceFund L x @ r) = Inr (x, r)"
  by (simp add: unmarshal_InsuranceFund_def marshal_InsuranceFund_def wf_InsuranceFund_def)

lemma PriceDivergenceGuardRails_rt [simp]:
  "
    unmarshal_PriceDivergenceGuardRails L (y, marshal_PriceDivergenceGuardRails L x @ r) = Inr (x, r)"
  by (simp add: unmarshal_PriceDivergenceGuardRails_def marshal_PriceDivergenceGuardRails_def)

lemma ValidityGuardRails_rt [simp]:
  "
    unmarshal_ValidityGuardRails L (y, marshal_ValidityGuardRails L x @ r) = Inr (x, r)"
  by (simp add: unmarshal_ValidityGuardRails_def marshal_ValidityGuardRails_def)

lemma OracleGuardRails_rt [simp]:
  "
    unmarshal_OracleGuardRails L (y, marshal_OracleGuardRails L x @ r) = Inr (x, r)"
  by (simp add: unmarshal_OracleGuardRails_def marshal_OracleGuardRails_def)

lemma FeeTier_rt [simp]:
  "
    unmarshal_FeeTier L (y, marshal_FeeTier L x @ r) = Inr (x, r)"
  by (simp add: unmarshal_FeeTier_def marshal_FeeTier_def)

lemma OrderFillerRewardStructure_rt [simp]:
  "
    unmarshal_OrderFillerRewardStructure L (y, marshal_OrderFillerRewardStructure L x @ r) = Inr (x, r)"
  by (simp add: unmarshal_OrderFillerRewardStructure_def marshal_OrderFillerRewardStructure_def)

lemma FeeStructure_rt [simp]:
  "wf_FeeStructure x \<Longrightarrow> wf_FeeStructure y \<Longrightarrow> 
    unmarshal_FeeStructure L (y, marshal_FeeStructure L x @ r) = Inr (x, r)"
  by (simp add: unmarshal_FeeStructure_def marshal_FeeStructure_def wf_FeeStructure_def)

lemma UserFees_rt [simp]:
  "
    unmarshal_UserFees L (y, marshal_UserFees L x @ r) = Inr (x, r)"
  by (simp add: unmarshal_UserFees_def marshal_UserFees_def)

lemma SpotPosition_rt [simp]:
  "wf_SpotPosition x \<Longrightarrow> wf_SpotPosition y \<Longrightarrow> 
    unmarshal_SpotPosition L (y, marshal_SpotPosition L x @ r) = Inr (x, r)"
  by (simp add: unmarshal_SpotPosition_def marshal_SpotPosition_def wf_SpotPosition_def)

lemma PerpPosition_rt [simp]:
  "
    unmarshal_PerpPosition L (y, marshal_PerpPosition L x @ r) = Inr (x, r)"
  by (simp add: unmarshal_PerpPosition_def marshal_PerpPosition_def)

lemma Order_rt [simp]:
  "wf_Order x \<Longrightarrow> wf_Order y \<Longrightarrow> 
    unmarshal_Order L (y, marshal_Order L x @ r) = Inr (x, r)"
  by (simp add: unmarshal_Order_def marshal_Order_def wf_Order_def)

lemma ModifyOrderIdUserOrderId_rt [simp]:
  "
    unmarshal_ModifyOrderIdUserOrderId L (y, marshal_ModifyOrderIdUserOrderId L x @ r) = Inr (x, r)"
  by (simp add: unmarshal_ModifyOrderIdUserOrderId_def marshal_ModifyOrderIdUserOrderId_def)

lemma ModifyOrderIdOrderId_rt [simp]:
  "
    unmarshal_ModifyOrderIdOrderId L (y, marshal_ModifyOrderIdOrderId L x @ r) = Inr (x, r)"
  by (simp add: unmarshal_ModifyOrderIdOrderId_def marshal_ModifyOrderIdOrderId_def)

lemma PerpFulfillmentMethodAMM_rt [simp]:
  "fresh_PerpFulfillmentMethodAMM y \<Longrightarrow> 
    unmarshal_PerpFulfillmentMethodAMM L (y, marshal_PerpFulfillmentMethodAMM L x @ r) = Inr (x, r)"
  by (simp add: unmarshal_PerpFulfillmentMethodAMM_def marshal_PerpFulfillmentMethodAMM_def fresh_PerpFulfillmentMethodAMM_def)

lemma PerpFulfillmentMethodMatch_rt [simp]:
  "wf_PerpFulfillmentMethodMatch x \<Longrightarrow> wf_PerpFulfillmentMethodMatch y \<Longrightarrow> 
    unmarshal_PerpFulfillmentMethodMatch L (y, marshal_PerpFulfillmentMethodMatch L x @ r) = Inr (x, r)"
  by (simp add: unmarshal_PerpFulfillmentMethodMatch_def marshal_PerpFulfillmentMethodMatch_def wf_PerpFulfillmentMethodMatch_def)

lemma SpotFulfillmentMethodMatch_rt [simp]:
  "wf_SpotFulfillmentMethodMatch x \<Longrightarrow> wf_SpotFulfillmentMethodMatch y \<Longrightarrow> 
    unmarshal_SpotFulfillmentMethodMatch L (y, marshal_SpotFulfillmentMethodMatch L x @ r) = Inr (x, r)"
  by (simp add: unmarshal_SpotFulfillmentMethodMatch_def marshal_SpotFulfillmentMethodMatch_def wf_SpotFulfillmentMethodMatch_def)

lemma MarginCalculationModeStandard_rt [simp]:
  "
    unmarshal_MarginCalculationModeStandard L (y, marshal_MarginCalculationModeStandard L x @ r) = Inr (x, r)"
  by (simp add: unmarshal_MarginCalculationModeStandard_def marshal_MarginCalculationModeStandard_def)

lemma MarginCalculationModeLiquidation_rt [simp]:
  "fresh_MarginCalculationModeLiquidation y \<Longrightarrow> 
    unmarshal_MarginCalculationModeLiquidation L (y, marshal_MarginCalculationModeLiquidation L x @ r) = Inr (x, r)"
  by (simp add: unmarshal_MarginCalculationModeLiquidation_def marshal_MarginCalculationModeLiquidation_def fresh_MarginCalculationModeLiquidation_def)

end

section \<open>Reading into an object in use\<close>

definition kept :: "'a option \<Rightarrow> 'a option \<Rightarrow> 'a option" where
  "kept old new = (case new of None \<Rightarrow> old | Some v \<Rightarrow> Some v)"

lemma kept_simps [simp]: "kept None new = new" "kept old (Some v) = Some v" "kept old None = old"
  by (simp_all add: kept_def split: option.splits)

context bin_library
begin

lemma read_opt_kept:
  "(\<And>v r. p = Some v \<Longrightarrow> rd (old, put v @ r) = Inr (Some v, r)) \<Longrightarrow>
     read_opt L rd (old, put_opt L put p @ r) = Inr (kept old p, r)"
  by (simp add: read_opt_keeps kept_def)

lemma OrderParams_reused:
  "unmarshal_OrderParams L (y, marshal_OrderParams L x @ r) =
     Inr (x\<lparr>OrderParams.MaxTs := kept (OrderParams.MaxTs y) (OrderParams.MaxTs x),
       OrderParams.TriggerPrice := kept (OrderParams.TriggerPrice y) (OrderParams.TriggerPrice x),
       OrderParams.OraclePriceOffset := kept (OrderParams.OraclePriceOffset y) (OrderParams.OraclePriceOffset x),
       OrderParams.AuctionDuration := kept (OrderParams.AuctionDuration y) (OrderParams.AuctionDuration x),
       OrderParams.AuctionStartPrice := kept (OrderParams.AuctionStartPrice y) (OrderParams.AuctionStartPrice x),
       OrderParams.AuctionEndPrice := kept (OrderParams.AuctionEndPrice y) (OrderParams.AuctionEndPrice x)\<rparr>, r)"
  by (simp add: unmarshal_OrderParams_def marshal_OrderParams_def read_opt_kept del: read_opt_rt)

end

text \<open>
  Order parameters decoded into an object that is in use keep its optional values.  What
  \<open>UnmarshalWithDecoder\<close> leaves in the object is the written order, except that each of the six optional
  parameters that was written as absent is the one the object had before (an expiry or a trigger
  price of the previous order survives); a fresh object gives the order back.
\<close>

theorem reused_order_params_keep_stale_options:
  assumes "bin_ok L"
  shows "unmarshal_OrderParams L (y, marshal_OrderParams L x @ r) =
     Inr (x\<lparr>OrderParams.MaxTs := kept (OrderParams.MaxTs y) (OrderParams.MaxTs x),
       OrderParams.TriggerPrice := kept (OrderParams.TriggerPrice y) (OrderParams.TriggerPrice x),
       OrderParams.OraclePriceOffset := kept (OrderParams.OraclePriceOffset y) (OrderParams.OraclePriceOffset x),
       OrderParams.AuctionDuration := kept (OrderParams.AuctionDuration y) (OrderParams.AuctionDuration x),
       OrderParams.AuctionStartPrice := kept (OrderParams.AuctionStartPrice y) (OrderParams.AuctionStartPrice x),
       OrderParams.AuctionEndPrice := kept (OrderParams.AuctionEndPrice y) (OrderParams.AuctionEndPrice x)\<rparr>, r)"
  by (rule bin_library.OrderParams_reused [OF bin_library.intro [OF assms]])

theorem reused_order_params_keep_stale_options_witness:
  "unmarshal_OrderParams le_lib
     (zero_OrderParams\<lparr>OrderParams.MaxTs := Some 7\<rparr>, marshal_OrderParams le_lib zero_OrderParams @ []) =
     Inr (zero_OrderParams\<lparr>OrderParams.MaxTs := Some 7\<rparr>, [])"
  using reused_order_params_keep_stale_options
      [OF bin_ok_le_lib, of "zero_OrderParams\<lparr>OrderParams.MaxTs := Some 7\<rparr>" zero_OrderParams "[]"]
  by (simp add: zero_OrderParams_def)

end
