(* ===== verification/Drift_Accounts.thy ===== *)
theory Drift_Accounts
  imports Drift_Types
begin

text \<open>
  The accounts of the Drift bindings (\<open>client/svm/drift/accounts.go\<close>): a record each, written behind its
  eight-byte discriminator, which the reader checks first.  Each is an \<open>account_codec\<close>.
\<close>

subsection \<open>\<open>OpenbookV2FulfillmentConfig\<close>\<close>

record OpenbookV2FulfillmentConfig =
  Pubkey :: bytes
  OpenbookV2ProgramId :: bytes
  OpenbookV2Market :: bytes
  OpenbookV2MarketAuthority :: bytes
  OpenbookV2EventHeap :: bytes
  OpenbookV2Bids :: bytes
  OpenbookV2Asks :: bytes
  OpenbookV2BaseVault :: bytes
  OpenbookV2QuoteVault :: bytes
  MarketIndex :: "16 word"
  FulfillmentType :: SpotFulfillmentType
  Status :: SpotFulfillmentConfigStatus
  Padding :: "(8 word) list"

definition OpenbookV2FulfillmentConfig_discriminator :: bytes where
  "OpenbookV2FulfillmentConfig_discriminator = [3, 43, 58, 106, 131, 132, 199, 171]"

definition marshal_OpenbookV2FulfillmentConfig :: "bin_lib \<Rightarrow> OpenbookV2FulfillmentConfig \<Rightarrow> bytes" where
  "marshal_OpenbookV2FulfillmentConfig L = enc_all
     [\<lambda>_. OpenbookV2FulfillmentConfig_discriminator, put_key L \<circ> Pubkey,
      put_key L \<circ> OpenbookV2ProgramId, put_key L \<circ> OpenbookV2Market,
      put_key L \<circ> OpenbookV2MarketAuthority, put_key L \<circ> OpenbookV2EventHeap,
      put_key L \<circ> OpenbookV2Bids, put_key L \<circ> OpenbookV2Asks,
      put_key L \<circ> OpenbookV2BaseVault, put_key L \<circ> OpenbookV2QuoteVault,
      put_u16 L \<circ> MarketIndex, put_u8 L \<circ> FulfillmentType, put_u8 L \<circ> Status,
      put_array (put_u8 L) \<circ> Padding]"

definition unmarshal_OpenbookV2FulfillmentConfig :: "bin_lib \<Rightarrow> OpenbookV2FulfillmentConfig reader" where
  "unmarshal_OpenbookV2FulfillmentConfig L = dec_all
     [check_discriminator OpenbookV2FulfillmentConfig_discriminator,
      get_field (get_key L) Pubkey_update, get_field (get_key L) OpenbookV2ProgramId_update,
      get_field (get_key L) OpenbookV2Market_update,
      get_field (get_key L) OpenbookV2MarketAuthority_update,
      get_field (get_key L) OpenbookV2EventHeap_update, get_field (get_key L) OpenbookV2Bids_update,
      get_field (get_key L) OpenbookV2Asks_update, get_field (get_key L) OpenbookV2BaseVault_update,
      get_field (get_key L) OpenbookV2QuoteVault_update, get_field (get_u16 L) MarketIndex_update,
      get_field (get_u8 L) FulfillmentType_update, get_field (get_u8 L) Status_update,
      sub_field (read_each (prim (get_u8 L))) Padding Padding_update]"

definition wf_OpenbookV2FulfillmentConfig :: "OpenbookV2FulfillmentConfig \<Rightarrow> bool" where
  "wf_OpenbookV2FulfillmentConfig x \<longleftrightarrow>
     length (Pubkey x) = 32 \<and>
     length (OpenbookV2ProgramId x) = 32 \<and>
     length (OpenbookV2Market x) = 32 \<and>
     length (OpenbookV2MarketAuthority x) = 32 \<and>
     length (OpenbookV2EventHeap x) = 32 \<and>
     length (OpenbookV2Bids x) = 32 \<and>
     length (OpenbookV2Asks x) = 32 \<and>
     length (OpenbookV2BaseVault x) = 32 \<and>
     length (OpenbookV2QuoteVault x) = 32 \<and>
     length (Padding x) = 4"

subsection \<open>\<open>PhoenixV1FulfillmentConfig\<close>\<close>

record PhoenixV1FulfillmentConfig =
  Pubkey :: bytes
  PhoenixProgramId :: bytes
  PhoenixLogAuthority :: bytes
  PhoenixMarket :: bytes
  PhoenixBaseVault :: bytes
  PhoenixQuoteVault :: bytes
  MarketIndex :: "16 word"
  FulfillmentType :: SpotFulfillmentType
  Status :: SpotFulfillmentConfigStatus
  Padding :: "(8 word) list"

definition PhoenixV1FulfillmentConfig_discriminator :: bytes where
  "PhoenixV1FulfillmentConfig_discriminator = [233, 45, 62, 40, 35, 129, 48, 72]"

definition marshal_PhoenixV1FulfillmentConfig :: "bin_lib \<Rightarrow> PhoenixV1FulfillmentConfig \<Rightarrow> bytes" where
  "marshal_PhoenixV1FulfillmentConfig L = enc_all
     [\<lambda>_. PhoenixV1FulfillmentConfig_discriminator, put_key L \<circ> Pubkey,
      put_key L \<circ> PhoenixProgramId, put_key L \<circ> PhoenixLogAuthority,
      put_key L \<circ> PhoenixMarket, put_key L \<circ> PhoenixBaseVault,
      put_key L \<circ> PhoenixQuoteVault, put_u16 L \<circ> MarketIndex,
      put_u8 L \<circ> FulfillmentType, put_u8 L \<circ> Status, put_array (put_u8 L) \<circ> Padding]"

definition unmarshal_PhoenixV1FulfillmentConfig :: "bin_lib \<Rightarrow> PhoenixV1FulfillmentConfig reader" where
  "unmarshal_PhoenixV1FulfillmentConfig L = dec_all
     [check_discriminator PhoenixV1FulfillmentConfig_discriminator, get_field (get_key L) Pubkey_update,
      get_field (get_key L) PhoenixProgramId_update, get_field (get_key L) PhoenixLogAuthority_update,
      get_field (get_key L) PhoenixMarket_update, get_field (get_key L) PhoenixBaseVault_update,
      get_field (get_key L) PhoenixQuoteVault_update, get_field (get_u16 L) MarketIndex_update,
      get_field (get_u8 L) FulfillmentType_update, get_field (get_u8 L) Status_update,
      sub_field (read_each (prim (get_u8 L))) Padding Padding_update]"

definition wf_PhoenixV1FulfillmentConfig :: "PhoenixV1FulfillmentConfig \<Rightarrow> bool" where
  "wf_PhoenixV1FulfillmentConfig x \<longleftrightarrow>
     length (Pubkey x) = 32 \<and>
     length (PhoenixProgramId x) = 32 \<and>
     length (PhoenixLogAuthority x) = 32 \<and>
     length (PhoenixMarket x) = 32 \<and>
     length (PhoenixBaseVault x) = 32 \<and>
     length (PhoenixQuoteVault x) = 32 \<and>
     length (Padding x) = 4"

subsection \<open>\<open>SerumV3FulfillmentConfig\<close>\<close>

record SerumV3FulfillmentConfig =
  Pubkey :: bytes
  SerumProgramId :: bytes
  SerumMarket :: bytes
  SerumRequestQueue :: bytes
  SerumEventQueue :: bytes
  SerumBids :: bytes
  SerumAsks :: bytes
  SerumBaseVault :: bytes
  SerumQuoteVault :: bytes
  SerumOpenOrders :: bytes
  SerumSignerNonce :: "64 word"
  MarketIndex :: "16 word"
  FulfillmentType :: SpotFulfillmentType
  Status :: SpotFulfillmentConfigStatus
  Padding :: "(8 word) list"

definition SerumV3FulfillmentConfig_discriminator :: bytes where
  "SerumV3FulfillmentConfig_discriminator = [65, 160, 197, 112, 239, 168, 103, 185]"

definition marshal_SerumV3FulfillmentConfig :: "bin_lib \<Rightarrow> SerumV3FulfillmentConfig \<Rightarrow> bytes" where
  "marshal_SerumV3FulfillmentConfig L = enc_all
     [\<lambda>_. SerumV3FulfillmentConfig_discriminator, put_key L \<circ> Pubkey,
      put_key L \<circ> SerumProgramId, put_key L \<circ> SerumMarket,
      put_key L \<circ> SerumRequestQueue, put_key L \<circ> SerumEventQueue,
      put_key L \<circ> SerumBids, put_key L \<circ> SerumAsks, put_key L \<circ> SerumBaseVault,
      put_key L \<circ> SerumQuoteVault, put_key L \<circ> SerumOpenOrders,
      put_u64 L \<circ> SerumSignerNonce, put_u16 L \<circ> MarketIndex,
      put_u8 L \<circ> FulfillmentType, put_u8 L \<circ> Status, put_array (put_u8 L) \<circ> Padding]"

definition unmarshal_SerumV3FulfillmentConfig :: "bin_lib \<Rightarrow> SerumV3FulfillmentConfig reader" where
  "unmarshal_SerumV3FulfillmentConfig L = dec_all
     [check_discriminator SerumV3FulfillmentConfig_discriminator, get_field (get_key L) Pubkey_update,
      get_field (get_key L) SerumProgramId_update, get_field (get_key L) SerumMarket_update,
      get_field (get_key L) SerumRequestQueue_update, get_field (get_key L) SerumEventQueue_update,
      get_field (get_key L) SerumBids_update, get_field (get_key L) SerumAsks_update,
      get_field (get_key L) SerumBaseVault_update, get_field (get_key L) SerumQuoteVault_update,
      get_field (get_key L) SerumOpenOrders_update, get_field (get_u64 L) SerumSignerNonce_update,
      get_field (get_u16 L) MarketIndex_update, get_field (get_u8 L) FulfillmentType_update,
      get_field (get_u8 L) Status_update,
      sub_field (read_each (prim (get_u8 L))) Padding Padding_update]"

definition wf_SerumV3FulfillmentConfig :: "SerumV3FulfillmentConfig \<Rightarrow> bool" where
  "wf_SerumV3FulfillmentConfig x \<longleftrightarrow>
     length (Pubkey x) = 32 \<and>
     length (SerumProgramId x) = 32 \<and>
     length (SerumMarket x) = 32 \<and>
     length (SerumRequestQueue x) = 32 \<and>
     length (SerumEventQueue x) = 32 \<and>
     length (SerumBids x) = 32 \<and>
     length (SerumAsks x) = 32 \<and>
     length (SerumBaseVault x) = 32 \<and>
     length (SerumQuoteVault x) = 32 \<and>
     length (SerumOpenOrders x) = 32 \<and>
     length (Padding x) = 4"

subsection \<open>\<open>InsuranceFundStake\<close>\<close>

record InsuranceFundStake =
  Authority :: bytes
  IfShares :: "128 word"
  LastWithdrawRequestShares :: "128 word"
  IfBase :: "128 word"
  LastValidTs :: "64 word"
  LastWithdrawRequestValue :: "64 word"
  LastWithdrawRequestTs :: "64 word"
  CostBasis :: "64 word"
  MarketIndex :: "16 word"
  Padding :: "(8 word) list"

definition InsuranceFundStake_discriminator :: bytes where
  "InsuranceFundStake_discriminator = [110, 202, 14, 42, 95, 73, 90, 95]"

definition marshal_InsuranceFundStake :: "bin_lib \<Rightarrow> InsuranceFundStake \<Rightarrow> bytes" where
  "marshal_InsuranceFundStake L = enc_all
     [\<lambda>_. InsuranceFundStake_discriminator, put_key L \<circ> Authority,
      put_u128 L \<circ> IfShares, put_u128 L \<circ> LastWithdrawRequestShares,
      put_u128 L \<circ> IfBase, put_u64 L \<circ> LastValidTs,
      put_u64 L \<circ> LastWithdrawRequestValue, put_u64 L \<circ> LastWithdrawRequestTs,
      put_u64 L \<circ> CostBasis, put_u16 L \<circ> MarketIndex, put_array (put_u8 L) \<circ> Padding]"

definition unmarshal_InsuranceFundStake :: "bin_lib \<Rightarrow> InsuranceFundStake reader" where
  "unmarshal_InsuranceFundStake L = dec_all
     [check_discriminator InsuranceFundStake_discriminator, get_field (get_key L) Authority_update,
      get_field (get_u128 L) IfShares_update, get_field (get_u128 L) LastWithdrawRequestShares_update,
      get_field (get_u128 L) IfBase_update, get_field (get_u64 L) LastValidTs_update,
      get_field (get_u64 L) LastWithdrawRequestValue_update,
      get_field (get_u64 L) LastWithdrawRequestTs_update, get_field (get_u64 L) CostBasis_update,
      get_field (get_u16 L) MarketIndex_update,
      sub_field (read_each (prim (get_u8 L))) Padding Padding_update]"

definition wf_InsuranceFundStake :: "InsuranceFundStake \<Rightarrow> bool" where
  "wf_InsuranceFundStake x \<longleftrightarrow>
     length (Authority x) = 32 \<and>
     length (Padding x) = 14"

subsection \<open>\<open>ProtocolIfSharesTransferConfig\<close>\<close>

record ProtocolIfSharesTransferConfig =
  WhitelistedSigners :: "bytes list"
  MaxTransferPerEpoch :: "128 word"
  CurrentEpochTransfer :: "128 word"
  NextEpochTs :: "64 word"
  Padding :: "(128 word) list"

definition ProtocolIfSharesTransferConfig_discriminator :: bytes where
  "ProtocolIfSharesTransferConfig_discriminator = [188, 1, 213, 98, 23, 148, 30, 1]"

definition marshal_ProtocolIfSharesTransferConfig :: "bin_lib \<Rightarrow> ProtocolIfSharesTransferConfig \<Rightarrow> bytes" where
  "marshal_ProtocolIfSharesTransferConfig L = enc_all
     [\<lambda>_. ProtocolIfSharesTransferConfig_discriminator,
      put_array (put_key L) \<circ> WhitelistedSigners, put_u128 L \<circ> MaxTransferPerEpoch,
      put_u128 L \<circ> CurrentEpochTransfer, put_u64 L \<circ> NextEpochTs,
      put_array (put_u128 L) \<circ> Padding]"

definition unmarshal_ProtocolIfSharesTransferConfig :: "bin_lib \<Rightarrow> ProtocolIfSharesTransferConfig reader" where
  "unmarshal_ProtocolIfSharesTransferConfig L = dec_all
     [check_discriminator ProtocolIfSharesTransferConfig_discriminator,
      sub_field (read_each (prim (get_key L))) WhitelistedSigners WhitelistedSigners_update,
      get_field (get_u128 L) MaxTransferPerEpoch_update,
      get_field (get_u128 L) CurrentEpochTransfer_update, get_field (get_u64 L) NextEpochTs_update,
      sub_field (read_each (prim (get_u128 L))) Padding Padding_update]"

definition wf_ProtocolIfSharesTransferConfig :: "ProtocolIfSharesTransferConfig \<Rightarrow> bool" where
  "wf_ProtocolIfSharesTransferConfig x \<longleftrightarrow>
     length (WhitelistedSigners x) = 4 \<and> (\<forall>v \<in> set (WhitelistedSigners x). length v = 32) \<and>
     length (Padding x) = 8"

subsection \<open>\<open>PrelaunchOracle\<close>\<close>

record PrelaunchOracle =
  Price :: "64 word"
  MaxPrice :: "64 word"
  Confidence :: "64 word"
  LastUpdateSlot :: "64 word"
  AmmLastUpdateSlot :: "64 word"
  PerpMarketIndex :: "16 word"
  Padding :: "(8 word) list"

definition PrelaunchOracle_discriminator :: bytes where
  "PrelaunchOracle_discriminator = [92, 14, 139, 234, 72, 244, 68, 26]"

definition marshal_PrelaunchOracle :: "bin_lib \<Rightarrow> PrelaunchOracle \<Rightarrow> bytes" where
  "marshal_PrelaunchOracle L = enc_all
     [\<lambda>_. PrelaunchOracle_discriminator, put_u64 L \<circ> Price, put_u64 L \<circ> MaxPrice,
      put_u64 L \<circ> Confidence, put_u64 L \<circ> LastUpdateSlot,
      put_u64 L \<circ> AmmLastUpdateSlot, put_u16 L \<circ> PerpMarketIndex,
      put_array (put_u8 L) \<circ> Padding]"

definition unmarshal_PrelaunchOracle :: "bin_lib \<Rightarrow> PrelaunchOracle reader" where
  "unmarshal_PrelaunchOracle L = dec_all
     [check_discriminator PrelaunchOracle_discriminator, get_field (get_u64 L) Price_update,
      get_field (get_u64 L) MaxPrice_update, get_field (get_u64 L) Confidence_update,
      get_field (get_u64 L) LastUpdateSlot_update, get_field (get_u64 L) AmmLastUpdateSlot_update,
      get_field (get_u16 L) PerpMarketIndex_update,
      sub_field (read_each (prim (get_u8 L))) Padding Padding_update]"

definition wf_PrelaunchOracle :: "PrelaunchOracle \<Rightarrow> bool" where
  "wf_PrelaunchOracle x \<longleftrightarrow>
     length (Padding x) = 70"

subsection \<open>\<open>PerpMarket\<close>\<close>

record PerpMarket =
  Pubkey :: bytes
  Amm :: AMM
  PnlPool :: PoolBalance
  Name :: "(8 word) list"
  InsuranceClaim :: InsuranceClaim
  UnrealizedPnlMaxImbalance :: "64 word"
  ExpiryTs :: "64 word"
  ExpiryPrice :: "64 word"
  NextFillRecordId :: "64 word"
  NextFundingRateRecordId :: "64 word"
  NextCurveRecordId :: "64 word"
  ImfFactor :: "32 word"
  UnrealizedPnlImfFactor :: "32 word"
  LiquidatorFee :: "32 word"
  IfLiquidationFee :: "32 word"
  MarginRatioInitial :: "32 word"
  MarginRatioMaintenance :: "32 word"
  UnrealizedPnlInitialAssetWeight :: "32 word"
  UnrealizedPnlMaintenanceAssetWeight :: "32 word"
  NumberOfUsersWithBase :: "32 word"
  NumberOfUsers :: "32 word"
  MarketIndex :: "16 word"
  Status :: MarketStatus
  ContractType :: ContractType
  ContractTier :: ContractTier
  PausedOperations :: "8 word"
  QuoteSpotMarketIndex :: "16 word"
  FeeAdjustment :: "16 word"
  FuelBoostPosition :: "8 word"
  FuelBoostTaker :: "8 word"
  FuelBoostMaker :: "8 word"
  Padding :: "(8 word) list"

definition PerpMarket_discriminator :: bytes where
  "PerpMarket_discriminator = [10, 223, 12, 44, 107, 245, 55, 247]"

definition marshal_PerpMarket :: "bin_lib \<Rightarrow> PerpMarket \<Rightarrow> bytes" where
  "marshal_PerpMarket L = enc_all
     [\<lambda>_. PerpMarket_discriminator, put_key L \<circ> Pubkey, marshal_AMM L \<circ> Amm,
      marshal_PoolBalance L \<circ> PnlPool, put_array (put_u8 L) \<circ> Name,
      marshal_InsuranceClaim L \<circ> InsuranceClaim, put_u64 L \<circ> UnrealizedPnlMaxImbalance,
      put_u64 L \<circ> ExpiryTs, put_u64 L \<circ> ExpiryPrice, put_u64 L \<circ> NextFillRecordId,
      put_u64 L \<circ> NextFundingRateRecordId, put_u64 L \<circ> NextCurveRecordId,
      put_u32 L \<circ> ImfFactor, put_u32 L \<circ> UnrealizedPnlImfFactor,
      put_u32 L \<circ> LiquidatorFee, put_u32 L \<circ> IfLiquidationFee,
      put_u32 L \<circ> MarginRatioInitial, put_u32 L \<circ> MarginRatioMaintenance,
      put_u32 L \<circ> UnrealizedPnlInitialAssetWeight,
      put_u32 L \<circ> UnrealizedPnlMaintenanceAssetWeight, put_u32 L \<circ> NumberOfUsersWithBase,
      put_u32 L \<circ> NumberOfUsers, put_u16 L \<circ> MarketIndex, put_u8 L \<circ> Status,
      put_u8 L \<circ> ContractType, put_u8 L \<circ> ContractTier, put_u8 L \<circ> PausedOperations,
      put_u16 L \<circ> QuoteSpotMarketIndex, put_u16 L \<circ> FeeAdjustment,
      put_u8 L \<circ> FuelBoostPosition, put_u8 L \<circ> FuelBoostTaker,
      put_u8 L \<circ> FuelBoostMaker, put_array (put_u8 L) \<circ> Padding]"

definition unmarshal_PerpMarket :: "bin_lib \<Rightarrow> PerpMarket reader" where
  "unmarshal_PerpMarket L = dec_all
     [check_discriminator PerpMarket_discriminator, get_field (get_key L) Pubkey_update,
      sub_field (unmarshal_AMM L) Amm Amm_update,
      sub_field (unmarshal_PoolBalance L) PnlPool PnlPool_update,
      sub_field (read_each (prim (get_u8 L))) Name Name_update,
      sub_field (unmarshal_InsuranceClaim L) InsuranceClaim InsuranceClaim_update,
      get_field (get_u64 L) UnrealizedPnlMaxImbalance_update, get_field (get_u64 L) ExpiryTs_update,
      get_field (get_u64 L) ExpiryPrice_update, get_field (get_u64 L) NextFillRecordId_update,
      get_field (get_u64 L) NextFundingRateRecordId_update,
      get_field (get_u64 L) NextCurveRecordId_update, get_field (get_u32 L) ImfFactor_update,
      get_field (get_u32 L) UnrealizedPnlImfFactor_update, get_field (get_u32 L) LiquidatorFee_update,
      get_field (get_u32 L) IfLiquidationFee_update, get_field (get_u32 L) MarginRatioInitial_update,
      get_field (get_u32 L) MarginRatioMaintenance_update,
      get_field (get_u32 L) UnrealizedPnlInitialAssetWeight_update,
      get_field (get_u32 L) UnrealizedPnlMaintenanceAssetWeight_update,
      get_field (get_u32 L) NumberOfUsersWithBase_update, get_field (get_u32 L) NumberOfUsers_update,
      get_field (get_u16 L) MarketIndex_update, get_field (get_u8 L) Status_update,
      get_field (get_u8 L) ContractType_update, get_field (get_u8 L) ContractTier_update,
      get_field (get_u8 L) PausedOperations_update, get_field (get_u16 L) QuoteSpotMarketIndex_update,
      get_field (get_u16 L) FeeAdjustment_update, get_field (get_u8 L) FuelBoostPosition_update,
      get_field (get_u8 L) FuelBoostTaker_update, get_field (get_u8 L) FuelBoostMaker_update,
      sub_field (read_each (prim (get_u8 L))) Padding Padding_update]"

definition wf_PerpMarket :: "PerpMarket \<Rightarrow> bool" where
  "wf_PerpMarket x \<longleftrightarrow>
     length (Pubkey x) = 32 \<and>
     wf_AMM (Amm x) \<and>
     wf_PoolBalance (PnlPool x) \<and>
     length (Name x) = 32 \<and>
     length (Padding x) = 43"

subsection \<open>\<open>SpotMarket\<close>\<close>

record SpotMarket =
  Pubkey :: bytes
  Oracle :: bytes
  Mint :: bytes
  Vault :: bytes
  Name :: "(8 word) list"
  HistoricalOracleData :: HistoricalOracleData
  HistoricalIndexData :: HistoricalIndexData
  RevenuePool :: PoolBalance
  SpotFeePool :: PoolBalance
  InsuranceFund :: InsuranceFund
  TotalSpotFee :: "128 word"
  DepositBalance :: "128 word"
  BorrowBalance :: "128 word"
  CumulativeDepositInterest :: "128 word"
  CumulativeBorrowInterest :: "128 word"
  TotalSocialLoss :: "128 word"
  TotalQuoteSocialLoss :: "128 word"
  WithdrawGuardThreshold :: "64 word"
  MaxTokenDeposits :: "64 word"
  DepositTokenTwap :: "64 word"
  BorrowTokenTwap :: "64 word"
  UtilizationTwap :: "64 word"
  LastInterestTs :: "64 word"
  LastTwapTs :: "64 word"
  ExpiryTs :: "64 word"
  OrderStepSize :: "64 word"
  OrderTickSize :: "64 word"
  MinOrderSize :: "64 word"
  MaxPositionSize :: "64 word"
  NextFillRecordId :: "64 word"
  NextDepositRecordId :: "64 word"
  InitialAssetWeight :: "32 word"
  MaintenanceAssetWeight :: "32 word"
  InitialLiabilityWeight :: "32 word"
  MaintenanceLiabilityWeight :: "32 word"
  ImfFactor :: "32 word"
  LiquidatorFee :: "32 word"
  IfLiquidationFee :: "32 word"
  OptimalUtilization :: "32 word"
  OptimalBorrowRate :: "32 word"
  MaxBorrowRate :: "32 word"
  Decimals :: "32 word"
  MarketIndex :: "16 word"
  OrdersEnabled :: bool
  OracleSource :: OracleSource
  Status :: MarketStatus
  AssetTier :: AssetTier
  PausedOperations :: "8 word"
  IfPausedOperations :: "8 word"
  FeeAdjustment :: "16 word"
  MaxTokenBorrowsFraction :: "16 word"
  FlashLoanAmount :: "64 word"
  FlashLoanInitialTokenAmount :: "64 word"
  TotalSwapFee :: "64 word"
  ScaleInitialAssetWeightStart :: "64 word"
  MinBorrowRate :: "8 word"
  FuelBoostDeposits :: "8 word"
  FuelBoostBorrows :: "8 word"
  FuelBoostTaker :: "8 word"
  FuelBoostMaker :: "8 word"
  FuelBoostInsurance :: "8 word"
  TokenProgram :: "8 word"
  Padding :: "(8 word) list"

definition SpotMarket_discriminator :: bytes where
  "SpotMarket_discriminator = [100, 177, 8, 107, 168, 65, 65, 39]"

definition marshal_SpotMarket :: "bin_lib \<Rightarrow> SpotMarket \<Rightarrow> bytes" where
  "marshal_SpotMarket L = enc_all
     [\<lambda>_. SpotMarket_discriminator, put_key L \<circ> Pubkey, put_key L \<circ> Oracle,
      put_key L \<circ> Mint, put_key L \<circ> Vault, put_array (put_u8 L) \<circ> Name,
      marshal_HistoricalOracleData L \<circ> HistoricalOracleData,
      marshal_HistoricalIndexData L \<circ> HistoricalIndexData,
      marshal_PoolBalance L \<circ> RevenuePool, marshal_PoolBalance L \<circ> SpotFeePool,
      marshal_InsuranceFund L \<circ> InsuranceFund, put_u128 L \<circ> TotalSpotFee,
      put_u128 L \<circ> DepositBalance, put_u128 L \<circ> BorrowBalance,
      put_u128 L \<circ> CumulativeDepositInterest, put_u128 L \<circ> CumulativeBorrowInterest,
      put_u128 L \<circ> TotalSocialLoss, put_u128 L \<circ> TotalQuoteSocialLoss,
      put_u64 L \<circ> WithdrawGuardThreshold, put_u64 L \<circ> MaxTokenDeposits,
      put_u64 L \<circ> DepositTokenTwap, put_u64 L \<circ> BorrowTokenTwap,
      put_u64 L \<circ> UtilizationTwap, put_u64 L \<circ> LastInterestTs, put_u64 L \<circ> LastTwapTs,
      put_u64 L \<circ> ExpiryTs, put_u64 L \<circ> OrderStepSize, put_u64 L \<circ> OrderTickSize,
      put_u64 L \<circ> MinOrderSize, put_u64 L \<circ> MaxPositionSize,
      put_u64 L \<circ> NextFillRecordId, put_u64 L \<circ> NextDepositRecordId,
      put_u32 L \<circ> InitialAssetWeight, put_u32 L \<circ> MaintenanceAssetWeight,
      put_u32 L \<circ> InitialLiabilityWeight, put_u32 L \<circ> MaintenanceLiabilityWeight,
      put_u32 L \<circ> ImfFactor, put_u32 L \<circ> LiquidatorFee, put_u32 L \<circ> IfLiquidationFee,
      put_u32 L \<circ> OptimalUtilization, put_u32 L \<circ> OptimalBorrowRate,
      put_u32 L \<circ> MaxBorrowRate, put_u32 L \<circ> Decimals, put_u16 L \<circ> MarketIndex,
      put_bool L \<circ> OrdersEnabled, put_u8 L \<circ> OracleSource, put_u8 L \<circ> Status,
      put_u8 L \<circ> AssetTier, put_u8 L \<circ> PausedOperations,
      put_u8 L \<circ> IfPausedOperations, put_u16 L \<circ> FeeAdjustment,
      put_u16 L \<circ> MaxTokenBorrowsFraction, put_u64 L \<circ> FlashLoanAmount,
      put_u64 L \<circ> FlashLoanInitialTokenAmount, put_u64 L \<circ> TotalSwapFee,
      put_u64 L \<circ> ScaleInitialAssetWeightStart, put_u8 L \<circ> MinBorrowRate,
      put_u8 L \<circ> FuelBoostDeposits, put_u8 L \<circ> FuelBoostBorrows,
      put_u8 L \<circ> FuelBoostTaker, put_u8 L \<circ> FuelBoostMaker,
      put_u8 L \<circ> FuelBoostInsurance, put_u8 L \<circ> TokenProgram,
      put_array (put_u8 L) \<circ> Padding]"

definition unmarshal_SpotMarket :: "bin_lib \<Rightarrow> SpotMarket reader" where
  "unmarshal_SpotMarket L = dec_all
     [check_discriminator SpotMarket_discriminator, get_field (get_key L) Pubkey_update,
      get_field (get_key L) Oracle_update, get_field (get_key L) Mint_update,
      get_field (get_key L) Vault_update, sub_field (read_each (prim (get_u8 L))) Name Name_update,
      sub_field (unmarshal_HistoricalOracleData L) HistoricalOracleData HistoricalOracleData_update,
      sub_field (unmarshal_HistoricalIndexData L) HistoricalIndexData HistoricalIndexData_update,
      sub_field (unmarshal_PoolBalance L) RevenuePool RevenuePool_update,
      sub_field (unmarshal_PoolBalance L) SpotFeePool SpotFeePool_update,
      sub_field (unmarshal_InsuranceFund L) InsuranceFund InsuranceFund_update,
      get_field (get_u128 L) TotalSpotFee_update, get_field (get_u128 L) DepositBalance_update,
      get_field (get_u128 L) BorrowBalance_update,
      get_field (get_u128 L) CumulativeDepositInterest_update,
      get_field (get_u128 L) CumulativeBorrowInterest_update,
      get_field (get_u128 L) TotalSocialLoss_update, get_field (get_u128 L) TotalQuoteSocialLoss_update,
      get_field (get_u64 L) WithdrawGuardThreshold_update,
      get_field (get_u64 L) MaxTokenDeposits_update, get_field (get_u64 L) DepositTokenTwap_update,
      get_field (get_u64 L) BorrowTokenTwap_update, get_field (get_u64 L) UtilizationTwap_update,
      get_field (get_u64 L) LastInterestTs_update, get_field (get_u64 L) LastTwapTs_update,
      get_field (get_u64 L) ExpiryTs_update, get_field (get_u64 L) OrderStepSize_update,
      get_field (get_u64 L) OrderTickSize_update, get_field (get_u64 L) MinOrderSize_update,
      get_field (get_u64 L) MaxPositionSize_update, get_field (get_u64 L) NextFillRecordId_update,
      get_field (get_u64 L) NextDepositRecordId_update, get_field (get_u32 L) InitialAssetWeight_update,
      get_field (get_u32 L) MaintenanceAssetWeight_update,
      get_field (get_u32 L) InitialLiabilityWeight_update,
      get_field (get_u32 L) MaintenanceLiabilityWeight_update, get_field (get_u32 L) ImfFactor_update,
      get_field (get_u32 L) LiquidatorFee_update, get_field (get_u32 L) IfLiquidationFee_update,
      get_field (get_u32 L) OptimalUtilization_update, get_field (get_u32 L) OptimalBorrowRate_update,
      get_field (get_u32 L) MaxBorrowRate_update, get_field (get_u32 L) Decimals_update,
      get_field (get_u16 L) MarketIndex_update, get_field (get_bool L) OrdersEnabled_update,
      get_field (get_u8 L) OracleSource_update, get_field (get_u8 L) Status_update,
      get_field (get_u8 L) AssetTier_update, get_field (get_u8 L) PausedOperations_update,
      get_field (get_u8 L) IfPausedOperations_update, get_field (get_u16 L) FeeAdjustment_update,
      get_field (get_u16 L) MaxTokenBorrowsFraction_update,
      get_field (get_u64 L) FlashLoanAmount_update,
      get_field (get_u64 L) FlashLoanInitialTokenAmount_update,
      get_field (get_u64 L) TotalSwapFee_update,
      get_field (get_u64 L) ScaleInitialAssetWeightStart_update,
      get_field (get_u8 L) MinBorrowRate_update, get_field (get_u8 L) FuelBoostDeposits_update,
      get_field (get_u8 L) FuelBoostBorrows_update, get_field (get_u8 L) FuelBoostTaker_update,
      get_field (get_u8 L) FuelBoostMaker_update, get_field (get_u8 L) FuelBoostInsurance_update,
      get_field (get_u8 L) TokenProgram_update,
      sub_field (read_each (prim (get_u8 L))) Padding Padding_update]"

definition wf_SpotMarket :: "SpotMarket \<Rightarrow> bool" where
  "wf_SpotMarket x \<longleftrightarrow>
     length (Pubkey x) = 32 \<and>
     length (Oracle x) = 32 \<and>
     length (Mint x) = 32 \<and>
     length (Vault x) = 32 \<and>
     length (Name x) = 32 \<and>
     wf_PoolBalance (RevenuePool x) \<and>
     wf_PoolBalance (SpotFeePool x) \<and>
     wf_InsuranceFund (InsuranceFund x) \<and>
     length (Padding x) = 41"

subsection \<open>\<open>State\<close>\<close>

record State =
  Admin :: bytes
  WhitelistMint :: bytes
  DiscountMint :: bytes
  Signer :: bytes
  SrmVault :: bytes
  PerpFeeStructure :: FeeStructure
  SpotFeeStructure :: FeeStructure
  OracleGuardRails :: OracleGuardRails
  NumberOfAuthorities :: "64 word"
  NumberOfSubAccounts :: "64 word"
  LpCooldownTime :: "64 word"
  LiquidationMarginBufferRatio :: "32 word"
  SettlementDuration :: "16 word"
  NumberOfMarkets :: "16 word"
  NumberOfSpotMarkets :: "16 word"
  SignerNonce :: "8 word"
  MinPerpAuctionDuration :: "8 word"
  DefaultMarketOrderTimeInForce :: "8 word"
  DefaultSpotAuctionDuration :: "8 word"
  ExchangeStatus :: "8 word"
  LiquidationDuration :: "8 word"
  InitialPctToLiquidate :: "16 word"
  MaxNumberOfSubAccounts :: "16 word"
  MaxInitializeUserFee :: "16 word"
  Padding :: "(8 word) list"

definition State_discriminator :: bytes where
  "State_discriminator = [216, 146, 107, 94, 104, 75, 182, 177]"

definition marshal_State :: "bin_lib \<Rightarrow> State \<Rightarrow> bytes" where
  "marshal_State L = enc_all
     [\<lambda>_. State_discriminator, put_key L \<circ> Admin, put_key L \<circ> WhitelistMint,
      put_key L \<circ> DiscountMint, put_key L \<circ> Signer, put_key L \<circ> SrmVault,
      marshal_FeeStructure L \<circ> PerpFeeStructure, marshal_FeeStructure L \<circ> SpotFeeStructure,
      marshal_OracleGuardRails L \<circ> OracleGuardRails, put_u64 L \<circ> NumberOfAuthorities,
      put_u64 L \<circ> NumberOfSubAccounts, put_u64 L \<circ> LpCooldownTime,
      put_u32 L \<circ> LiquidationMarginBufferRatio, put_u16 L \<circ> SettlementDuration,
      put_u16 L \<circ> NumberOfMarkets, put_u16 L \<circ> NumberOfSpotMarkets,
      put_u8 L \<circ> SignerNonce, put_u8 L \<circ> MinPerpAuctionDuration,
      put_u8 L \<circ> DefaultMarketOrderTimeInForce, put_u8 L \<circ> DefaultSpotAuctionDuration,
      put_u8 L \<circ> ExchangeStatus, put_u8 L \<circ> LiquidationDuration,
      put_u16 L \<circ> InitialPctToLiquidate, put_u16 L \<circ> MaxNumberOfSubAccounts,
      put_u16 L \<circ> MaxInitializeUserFee, put_array (put_u8 L) \<circ> Padding]"

definition unmarshal_State :: "bin_lib \<Rightarrow> State reader" where
  "unmarshal_State L = dec_all
     [check_discriminator State_discriminator, get_field (get_key L) Admin_update,
      get_field (get_key L) WhitelistMint_update, get_field (get_key L) DiscountMint_update,
      get_field (get_key L) Signer_update, get_field (get_key L) SrmVault_update,
      sub_field (unmarshal_FeeStructure L) PerpFeeStructure PerpFeeStructure_update,
      sub_field (unmarshal_FeeStructure L) SpotFeeStructure SpotFeeStructure_update,
      sub_field (unmarshal_OracleGuardRails L) OracleGuardRails OracleGuardRails_update,
      get_field (get_u64 L) NumberOfAuthorities_update,
      get_field (get_u64 L) NumberOfSubAccounts_update, get_field (get_u64 L) LpCooldownTime_update,
      get_field (get_u32 L) LiquidationMarginBufferRatio_update,
      get_field (get_u16 L) SettlementDuration_update, get_field (get_u16 L) NumberOfMarkets_update,
      get_field (get_u16 L) NumberOfSpotMarkets_update, get_field (get_u8 L) SignerNonce_update,
      get_field (get_u8 L) MinPerpAuctionDuration_update,
      get_field (get_u8 L) DefaultMarketOrderTimeInForce_update,
      get_field (get_u8 L) DefaultSpotAuctionDuration_update,
      get_field (get_u8 L) ExchangeStatus_update, get_field (get_u8 L) LiquidationDuration_update,
      get_field (get_u16 L) InitialPctToLiquidate_update,
      get_field (get_u16 L) MaxNumberOfSubAccounts_update,
      get_field (get_u16 L) MaxInitializeUserFee_update,
      sub_field (read_each (prim (get_u8 L))) Padding Padding_update]"

definition wf_State :: "State \<Rightarrow> bool" where
  "wf_State x \<longleftrightarrow>
     length (Admin x) = 32 \<and>
     length (WhitelistMint x) = 32 \<and>
     length (DiscountMint x) = 32 \<and>
     length (Signer x) = 32 \<and>
     length (SrmVault x) = 32 \<and>
     wf_FeeStructure (PerpFeeStructure x) \<and>
     wf_FeeStructure (SpotFeeStructure x) \<and>
     length (Padding x) = 10"

subsection \<open>\<open>User\<close>\<close>

record User =
  Authority :: bytes
  Delegate :: bytes
  Name :: "(8 word) list"
  SpotPositions :: "SpotPosition list"
  PerpPositions :: "PerpPosition list"
  Orders :: "Order list"
  LastAddPerpLpSharesTs :: "64 word"
  TotalDeposits :: "64 word"
  TotalWithdraws :: "64 word"
  TotalSocialLoss :: "64 word"
  SettledPerpPnl :: "64 word"
  CumulativeSpotFees :: "64 word"
  CumulativePerpFunding :: "64 word"
  LiquidationMarginFreed :: "64 word"
  LastActiveSlot :: "64 word"
  NextOrderId :: "32 word"
  MaxMarginRatio :: "32 word"
  NextLiquidationId :: "16 word"
  SubAccountId :: "16 word"
  Status :: "8 word"
  IsMarginTradingEnabled :: bool
  Idle :: bool
  OpenOrders :: "8 word"
  HasOpenOrder :: bool
  OpenAuctions :: "8 word"
  HasOpenAuction :: bool
  Padding1 :: "(8 word) list"
  LastFuelBonusUpdateTs :: "32 word"
  Padding :: "(8 word) list"

definition User_discriminator :: bytes where
  "User_discriminator = [159, 117, 95, 227, 239, 151, 58, 236]"

definition marshal_User :: "bin_lib \<Rightarrow> User \<Rightarrow> bytes" where
  "marshal_User L = enc_all
     [\<lambda>_. User_discriminator, put_key L \<circ> Authority, put_key L \<circ> Delegate,
      put_array (put_u8 L) \<circ> Name, put_array (marshal_SpotPosition L) \<circ> SpotPositions,
      put_array (marshal_PerpPosition L) \<circ> PerpPositions,
      put_array (marshal_Order L) \<circ> Orders, put_u64 L \<circ> LastAddPerpLpSharesTs,
      put_u64 L \<circ> TotalDeposits, put_u64 L \<circ> TotalWithdraws,
      put_u64 L \<circ> TotalSocialLoss, put_u64 L \<circ> SettledPerpPnl,
      put_u64 L \<circ> CumulativeSpotFees, put_u64 L \<circ> CumulativePerpFunding,
      put_u64 L \<circ> LiquidationMarginFreed, put_u64 L \<circ> LastActiveSlot,
      put_u32 L \<circ> NextOrderId, put_u32 L \<circ> MaxMarginRatio,
      put_u16 L \<circ> NextLiquidationId, put_u16 L \<circ> SubAccountId, put_u8 L \<circ> Status,
      put_bool L \<circ> IsMarginTradingEnabled, put_bool L \<circ> Idle, put_u8 L \<circ> OpenOrders,
      put_bool L \<circ> HasOpenOrder, put_u8 L \<circ> OpenAuctions, put_bool L \<circ> HasOpenAuction,
      put_array (put_u8 L) \<circ> Padding1, put_u32 L \<circ> LastFuelBonusUpdateTs,
      put_array (put_u8 L) \<circ> Padding]"

definition unmarshal_User :: "bin_lib \<Rightarrow> User reader" where
  "unmarshal_User L = dec_all
     [check_discriminator User_discriminator, get_field (get_key L) Authority_update,
      get_field (get_key L) Delegate_update, sub_field (read_each (prim (get_u8 L))) Name Name_update,
      sub_field (read_each (unmarshal_SpotPosition L)) SpotPositions SpotPositions_update,
      sub_field (read_each (unmarshal_PerpPosition L)) PerpPositions PerpPositions_update,
      sub_field (read_each (unmarshal_Order L)) Orders Orders_update,
      get_field (get_u64 L) LastAddPerpLpSharesTs_update, get_field (get_u64 L) TotalDeposits_update,
      get_field (get_u64 L) TotalWithdraws_update, get_field (get_u64 L) TotalSocialLoss_update,
      get_field (get_u64 L) SettledPerpPnl_update, get_field (get_u64 L) CumulativeSpotFees_update,
      get_field (get_u64 L) CumulativePerpFunding_update,
      get_field (get_u64 L) LiquidationMarginFreed_update, get_field (get_u64 L) LastActiveSlot_update,
      get_field (get_u32 L) NextOrderId_update, get_field (get_u32 L) MaxMarginRatio_update,
      get_field (get_u16 L) NextLiquidationId_update, get_field (get_u16 L) SubAccountId_update,
      get_field (get_u8 L) Status_update, get_field (get_bool L) IsMarginTradingEnabled_update,
      get_field (get_bool L) Idle_update, get_field (get_u8 L) OpenOrders_update,
      get_field (get_bool L) HasOpenOrder_update, get_field (get_u8 L) OpenAuctions_update,
      get_field (get_bool L) HasOpenAuction_update,
      sub_field (read_each (prim (get_u8 L))) Padding1 Padding1_update,
      get_field (get_u32 L) LastFuelBonusUpdateTs_update,
      sub_field (read_each (prim (get_u8 L))) Padding Padding_update]"

definition wf_User :: "User \<Rightarrow> bool" where
  "wf_User x \<longleftrightarrow>
     length (Authority x) = 32 \<and>
     length (Delegate x) = 32 \<and>
     length (Name x) = 32 \<and>
     length (SpotPositions x) = 8 \<and> (\<forall>v \<in> set (SpotPositions x). wf_SpotPosition v) \<and>
     length (PerpPositions x) = 8 \<and>
     length (Orders x) = 32 \<and> (\<forall>v \<in> set (Orders x). wf_Order v) \<and>
     length (Padding1 x) = 5 \<and>
     length (Padding x) = 12"

definition zero_User :: User where
  "zero_User =
     \<lparr>Authority = replicate 32 0, Delegate = replicate 32 0, Name = replicate 32 0,
       SpotPositions = replicate 8 zero_SpotPosition, PerpPositions = replicate 8 zero_PerpPosition,
       Orders = replicate 32 zero_Order, LastAddPerpLpSharesTs = 0, TotalDeposits = 0,
       TotalWithdraws = 0, TotalSocialLoss = 0, SettledPerpPnl = 0, CumulativeSpotFees = 0,
       CumulativePerpFunding = 0, LiquidationMarginFreed = 0, LastActiveSlot = 0, NextOrderId = 0,
       MaxMarginRatio = 0, NextLiquidationId = 0, SubAccountId = 0, Status = 0,
       IsMarginTradingEnabled = False, Idle = False, OpenOrders = 0, HasOpenOrder = False,
       OpenAuctions = 0, HasOpenAuction = False, Padding1 = replicate 5 0, LastFuelBonusUpdateTs = 0,
       Padding = replicate 12 0\<rparr>"

subsection \<open>\<open>UserStats\<close>\<close>

record UserStats =
  Authority :: bytes
  Referrer :: bytes
  Fees :: UserFees
  NextEpochTs :: "64 word"
  MakerVolume30D :: "64 word"
  TakerVolume30D :: "64 word"
  FillerVolume30D :: "64 word"
  LastMakerVolume30DTs :: "64 word"
  LastTakerVolume30DTs :: "64 word"
  LastFillerVolume30DTs :: "64 word"
  IfStakedQuoteAssetAmount :: "64 word"
  NumberOfSubAccounts :: "16 word"
  NumberOfSubAccountsCreated :: "16 word"
  IsReferrer :: bool
  DisableUpdatePerpBidAskTwap :: bool
  Padding1 :: "(8 word) list"
  FuelInsurance :: "32 word"
  FuelDeposits :: "32 word"
  FuelBorrows :: "32 word"
  FuelPositions :: "32 word"
  FuelTaker :: "32 word"
  FuelMaker :: "32 word"
  IfStakedGovTokenAmount :: "64 word"
  LastFuelIfBonusUpdateTs :: "32 word"
  Padding :: "(8 word) list"

definition UserStats_discriminator :: bytes where
  "UserStats_discriminator = [176, 223, 136, 27, 122, 79, 32, 227]"

definition marshal_UserStats :: "bin_lib \<Rightarrow> UserStats \<Rightarrow> bytes" where
  "marshal_UserStats L = enc_all
     [\<lambda>_. UserStats_discriminator, put_key L \<circ> Authority, put_key L \<circ> Referrer,
      marshal_UserFees L \<circ> Fees, put_u64 L \<circ> NextEpochTs, put_u64 L \<circ> MakerVolume30D,
      put_u64 L \<circ> TakerVolume30D, put_u64 L \<circ> FillerVolume30D,
      put_u64 L \<circ> LastMakerVolume30DTs, put_u64 L \<circ> LastTakerVolume30DTs,
      put_u64 L \<circ> LastFillerVolume30DTs, put_u64 L \<circ> IfStakedQuoteAssetAmount,
      put_u16 L \<circ> NumberOfSubAccounts, put_u16 L \<circ> NumberOfSubAccountsCreated,
      put_bool L \<circ> IsReferrer, put_bool L \<circ> DisableUpdatePerpBidAskTwap,
      put_array (put_u8 L) \<circ> Padding1, put_u32 L \<circ> FuelInsurance,
      put_u32 L \<circ> FuelDeposits, put_u32 L \<circ> FuelBorrows, put_u32 L \<circ> FuelPositions,
      put_u32 L \<circ> FuelTaker, put_u32 L \<circ> FuelMaker,
      put_u64 L \<circ> IfStakedGovTokenAmount, put_u32 L \<circ> LastFuelIfBonusUpdateTs,
      put_array (put_u8 L) \<circ> Padding]"

definition unmarshal_UserStats :: "bin_lib \<Rightarrow> UserStats reader" where
  "unmarshal_UserStats L = dec_all
     [check_discriminator UserStats_discriminator, get_field (get_key L) Authority_update,
      get_field (get_key L) Referrer_update, sub_field (unmarshal_UserFees L) Fees Fees_update,
      get_field (get_u64 L) NextEpochTs_update, get_field (get_u64 L) MakerVolume30D_update,
      get_field (get_u64 L) TakerVolume30D_update, get_field (get_u64 L) FillerVolume30D_update,
      get_field (get_u64 L) LastMakerVolume30DTs_update,
      get_field (get_u64 L) LastTakerVolume30DTs_update,
      get_field (get_u64 L) LastFillerVolume30DTs_update,
      get_field (get_u64 L) IfStakedQuoteAssetAmount_update,
      get_field (get_u16 L) NumberOfSubAccounts_update,
      get_field (get_u16 L) NumberOfSubAccountsCreated_update, get_field (get_bool L) IsReferrer_update,
      get_field (get_bool L) DisableUpdatePerpBidAskTwap_update,
      sub_field (read_each (prim (get_u8 L))) Padding1 Padding1_update,
      get_field (get_u32 L) FuelInsurance_update, get_field (get_u32 L) FuelDeposits_update,
      get_field (get_u32 L) FuelBorrows_update, get_field (get_u32 L) FuelPositions_update,
      get_field (get_u32 L) FuelTaker_update, get_field (get_u32 L) FuelMaker_update,
      get_field (get_u64 L) IfStakedGovTokenAmount_update,
      get_field (get_u32 L) LastFuelIfBonusUpdateTs_update,
      sub_field (read_each (prim (get_u8 L))) Padding Padding_update]"

definition wf_UserStats :: "UserStats \<Rightarrow> bool" where
  "wf_UserStats x \<longleftrightarrow>
     length (Authority x) = 32 \<and>
     length (Referrer x) = 32 \<and>
     length (Padding1 x) = 2 \<and>
     length (Padding x) = 12"

subsection \<open>\<open>ReferrerName\<close>\<close>

record ReferrerName =
  Authority :: bytes
  User :: bytes
  UserStats :: bytes
  Name :: "(8 word) list"

definition ReferrerName_discriminator :: bytes where
  "ReferrerName_discriminator = [105, 133, 170, 110, 52, 42, 28, 182]"

definition marshal_ReferrerName :: "bin_lib \<Rightarrow> ReferrerName \<Rightarrow> bytes" where
  "marshal_ReferrerName L = enc_all
     [\<lambda>_. ReferrerName_discriminator, put_key L \<circ> Authority, put_key L \<circ> User,
      put_key L \<circ> UserStats, put_array (put_u8 L) \<circ> Name]"

definition unmarshal_ReferrerName :: "bin_lib \<Rightarrow> ReferrerName reader" where
  "unmarshal_ReferrerName L = dec_all
     [check_discriminator ReferrerName_discriminator, get_field (get_key L) Authority_update,
      get_field (get_key L) User_update, get_field (get_key L) UserStats_update,
      sub_field (read_each (prim (get_u8 L))) Name Name_update]"

definition wf_ReferrerName :: "ReferrerName \<Rightarrow> bool" where
  "wf_ReferrerName x \<longleftrightarrow>
     length (Authority x) = 32 \<and>
     length (User x) = 32 \<and>
     length (UserStats x) = 32 \<and>
     length (Name x) = 32"

definition zero_ReferrerName :: ReferrerName where
  "zero_ReferrerName =
     \<lparr>Authority = replicate 32 0, User = replicate 32 0, UserStats = replicate 32 0,
       Name = replicate 32 0\<rparr>"

lemmas account_discriminator_defs =
  OpenbookV2FulfillmentConfig_discriminator_def PhoenixV1FulfillmentConfig_discriminator_def
  SerumV3FulfillmentConfig_discriminator_def InsuranceFundStake_discriminator_def
  ProtocolIfSharesTransferConfig_discriminator_def PrelaunchOracle_discriminator_def
  PerpMarket_discriminator_def SpotMarket_discriminator_def
  State_discriminator_def User_discriminator_def
  UserStats_discriminator_def ReferrerName_discriminator_def

lemma length_discriminators [simp]:
  "length OpenbookV2FulfillmentConfig_discriminator = 8"
  "length PhoenixV1FulfillmentConfig_discriminator = 8"
  "length SerumV3FulfillmentConfig_discriminator = 8"
  "length InsuranceFundStake_discriminator = 8"
  "length ProtocolIfSharesTransferConfig_discriminator = 8"
  "length PrelaunchOracle_discriminator = 8"
  "length PerpMarket_discriminator = 8"
  "length SpotMarket_discriminator = 8"
  "length State_discriminator = 8"
  "length User_discriminator = 8"
  "length UserStats_discriminator = 8"
  "length ReferrerName_discriminator = 8"
  by (simp_all add: account_discriminator_defs)

section \<open>Round trips\<close>

context bin_library
begin

lemma OpenbookV2FulfillmentConfig_rt [simp]:
  "wf_OpenbookV2FulfillmentConfig x \<Longrightarrow> wf_OpenbookV2FulfillmentConfig y \<Longrightarrow> 
    unmarshal_OpenbookV2FulfillmentConfig L (y, marshal_OpenbookV2FulfillmentConfig L x @ r) = Inr (x, r)"
  by (simp add: unmarshal_OpenbookV2FulfillmentConfig_def marshal_OpenbookV2FulfillmentConfig_def wf_OpenbookV2FulfillmentConfig_def check_discriminator_append)

lemma PhoenixV1FulfillmentConfig_rt [simp]:
  "wf_PhoenixV1FulfillmentConfig x \<Longrightarrow> wf_PhoenixV1FulfillmentConfig y \<Longrightarrow> 
    unmarshal_PhoenixV1FulfillmentConfig L (y, marshal_PhoenixV1FulfillmentConfig L x @ r) = Inr (x, r)"
  by (simp add: unmarshal_PhoenixV1FulfillmentConfig_def marshal_PhoenixV1FulfillmentConfig_def wf_PhoenixV1FulfillmentConfig_def check_discriminator_append)

lemma SerumV3FulfillmentConfig_rt [simp]:
  "wf_SerumV3FulfillmentConfig x \<Longrightarrow> wf_SerumV3FulfillmentConfig y \<Longrightarrow> 
    unmarshal_SerumV3FulfillmentConfig L (y, marshal_SerumV3FulfillmentConfig L x @ r) = Inr (x, r)"
  by (simp add: unmarshal_SerumV3FulfillmentConfig_def marshal_SerumV3FulfillmentConfig_def wf_SerumV3FulfillmentConfig_def check_discriminator_append)

lemma InsuranceFundStake_rt [simp]:
  "wf_InsuranceFundStake x \<Longrightarrow> wf_InsuranceFundStake y \<Longrightarrow> 
    unmarshal_InsuranceFundStake L (y, marshal_InsuranceFundStake L x @ r) = Inr (x, r)"
  by (simp add: unmarshal_InsuranceFundStake_def marshal_InsuranceFundStake_def wf_InsuranceFundStake_def check_discriminator_append)

lemma ProtocolIfSharesTransferConfig_rt [simp]:
  "wf_ProtocolIfSharesTransferConfig x \<Longrightarrow> wf_ProtocolIfSharesTransferConfig y \<Longrightarrow> 
    unmarshal_ProtocolIfSharesTransferConfig L (y, marshal_ProtocolIfSharesTransferConfig L x @ r) = Inr (x, r)"
  by (simp add: unmarshal_ProtocolIfSharesTransferConfig_def marshal_ProtocolIfSharesTransferConfig_def wf_ProtocolIfSharesTransferConfig_def check_discriminator_append)

lemma PrelaunchOracle_rt [simp]:
  "wf_PrelaunchOracle x \<Longrightarrow> wf_PrelaunchOracle y \<Longrightarrow> 
    unmarshal_PrelaunchOracle L (y, marshal_PrelaunchOracle L x @ r) = Inr (x, r)"
  by (simp add: unmarshal_PrelaunchOracle_def marshal_PrelaunchOracle_def wf_PrelaunchOracle_def check_discriminator_append)

lemma PerpMarket_rt [simp]:
  "wf_PerpMarket x \<Longrightarrow> wf_PerpMarket y \<Longrightarrow> 
    unmarshal_PerpMarket L (y, marshal_PerpMarket L x @ r) = Inr (x, r)"
  by (simp add: unmarshal_PerpMarket_def marshal_PerpMarket_def wf_PerpMarket_def check_discriminator_append)

lemma SpotMarket_rt [simp]:
  "wf_SpotMarket x \<Longrightarrow> wf_SpotMarket y \<Longrightarrow> 
    unmarshal_SpotMarket L (y, marshal_SpotMarket L x @ r) = Inr (x, r)"
  by (simp add: unmarshal_SpotMarket_def marshal_SpotMarket_def wf_SpotMarket_def check_discriminator_append)

lemma State_rt [simp]:
  "wf_State x \<Longrightarrow> wf_State y \<Longrightarrow> 
    unmarshal_State L (y, marshal_State L x @ r) = Inr (x, r)"
  by (simp add: unmarshal_State_def marshal_State_def wf_State_def check_discriminator_append)

lemma User_rt [simp]:
  "wf_User x \<Longrightarrow> wf_User y \<Longrightarrow> 
    unmarshal_User L (y, marshal_User L x @ r) = Inr (x, r)"
  by (simp add: unmarshal_User_def marshal_User_def wf_User_def check_discriminator_append)

lemma UserStats_rt [simp]:
  "wf_UserStats x \<Longrightarrow> wf_UserStats y \<Longrightarrow> 
    unmarshal_UserStats L (y, marshal_UserStats L x @ r) = Inr (x, r)"
  by (simp add: unmarshal_UserStats_def marshal_UserStats_def wf_UserStats_def check_discriminator_append)

lemma ReferrerName_rt [simp]:
  "wf_ReferrerName x \<Longrightarrow> wf_ReferrerName y \<Longrightarrow> 
    unmarshal_ReferrerName L (y, marshal_ReferrerName L x @ r) = Inr (x, r)"
  by (simp add: unmarshal_ReferrerName_def marshal_ReferrerName_def wf_ReferrerName_def check_discriminator_append)

sublocale acc_OpenbookV2FulfillmentConfig: account_codec OpenbookV2FulfillmentConfig_discriminator "marshal_OpenbookV2FulfillmentConfig L" "unmarshal_OpenbookV2FulfillmentConfig L" "wf_OpenbookV2FulfillmentConfig"
  by unfold_locales
    (simp, simp add: unmarshal_OpenbookV2FulfillmentConfig_def check_discriminator_append, simp add: marshal_OpenbookV2FulfillmentConfig_def, simp)

sublocale acc_PhoenixV1FulfillmentConfig: account_codec PhoenixV1FulfillmentConfig_discriminator "marshal_PhoenixV1FulfillmentConfig L" "unmarshal_PhoenixV1FulfillmentConfig L" "wf_PhoenixV1FulfillmentConfig"
  by unfold_locales
    (simp, simp add: unmarshal_PhoenixV1FulfillmentConfig_def check_discriminator_append, simp add: marshal_PhoenixV1FulfillmentConfig_def, simp)

sublocale acc_SerumV3FulfillmentConfig: account_codec SerumV3FulfillmentConfig_discriminator "marshal_SerumV3FulfillmentConfig L" "unmarshal_SerumV3FulfillmentConfig L" "wf_SerumV3FulfillmentConfig"
  by unfold_locales
    (simp, simp add: unmarshal_SerumV3FulfillmentConfig_def check_discriminator_append, simp add: marshal_SerumV3FulfillmentConfig_def, simp)

sublocale acc_InsuranceFundStake: account_codec InsuranceFundStake_discriminator "marshal_InsuranceFundStake L" "unmarshal_InsuranceFundStake L" "wf_InsuranceFundStake"
  by unfold_locales
    (simp, simp add: unmarshal_InsuranceFundStake_def check_discriminator_append, simp add: marshal_InsuranceFundStake_def, simp)

sublocale acc_ProtocolIfSharesTransferConfig: account_codec ProtocolIfSharesTransferConfig_discriminator "marshal_ProtocolIfSharesTransferConfig L" "unmarshal_ProtocolIfSharesTransferConfig L" "wf_ProtocolIfSharesTransferConfig"
  by unfold_locales
    (simp, simp add: unmarshal_ProtocolIfSharesTransferConfig_def check_discriminator_append, simp add: marshal_ProtocolIfSharesTransferConfig_def, simp)

sublocale acc_PrelaunchOracle: account_codec PrelaunchOracle_discriminator "marshal_PrelaunchOracle L" "unmarshal_PrelaunchOracle L" "wf_PrelaunchOracle"
  by unfold_locales
    (simp, simp add: unmarshal_PrelaunchOracle_def check_discriminator_append, simp add: marshal_PrelaunchOracle_def, simp)

sublocale acc_PerpMarket: account_codec PerpMarket_discriminator "marshal_PerpMarket L" "unmarshal_PerpMarket L" "wf_PerpMarket"
  by unfold_locales
    (simp, simp add: unmarshal_PerpMarket_def check_discriminator_append, simp add: marshal_PerpMarket_def, simp)

sublocale acc_SpotMarket: account_codec SpotMarket_discriminator "marshal_SpotMarket L" "unmarshal_SpotMarket L" "wf_SpotMarket"
  by unfold_locales
    (simp, simp add: unmarshal_SpotMarket_def check_discriminator_append, simp add: marshal_SpotMarket_def, simp)

sublocale acc_State: account_codec State_discriminator "marshal_State L" "unmarshal_State L" "wf_State"
  by unfold_locales
    (simp, simp add: unmarshal_State_def check_discriminator_append, simp add: marshal_State_def, simp)

sublocale acc_User: account_codec User_discriminator "marshal_User L" "unmarshal_User L" "wf_User"
  by unfold_locales
    (simp, simp add: unmarshal_User_def check_discriminator_append, simp add: marshal_User_def, simp)

sublocale acc_UserStats: account_codec UserStats_discriminator "marshal_UserStats L" "unmarshal_UserStats L" "wf_UserStats"
  by unfold_locales
    (simp, simp add: unmarshal_UserStats_def check_discriminator_append, simp add: marshal_UserStats_def, simp)

sublocale acc_ReferrerName: account_codec ReferrerName_discriminator "marshal_ReferrerName L" "unmarshal_ReferrerName L" "wf_ReferrerName"
  by unfold_locales
    (simp, simp add: unmarshal_ReferrerName_def check_discriminator_append, simp add: marshal_ReferrerName_def, simp)

end

section \<open>What the accounts promise\<close>

text \<open>
  C31. Every account is read back.  For each of the twelve account kinds, what \<open>MarshalWithEncoder\<close> writes of
  an account is read back by \<open>UnmarshalWithDecoder\<close>, in front of anything that follows and into any
  object, when the library reads what it wrote and arrays and keys have the lengths of their Go types.
\<close>

theorem drift_accounts_round_trip:
  assumes "bin_ok L"
  shows
    "(\<forall>x y r. wf_OpenbookV2FulfillmentConfig x \<longrightarrow> wf_OpenbookV2FulfillmentConfig y \<longrightarrow> unmarshal_OpenbookV2FulfillmentConfig L (y, marshal_OpenbookV2FulfillmentConfig L x @ r) = Inr (x, r)) \<and>
     (\<forall>x y r. wf_PhoenixV1FulfillmentConfig x \<longrightarrow> wf_PhoenixV1FulfillmentConfig y \<longrightarrow> unmarshal_PhoenixV1FulfillmentConfig L (y, marshal_PhoenixV1FulfillmentConfig L x @ r) = Inr (x, r)) \<and>
     (\<forall>x y r. wf_SerumV3FulfillmentConfig x \<longrightarrow> wf_SerumV3FulfillmentConfig y \<longrightarrow> unmarshal_SerumV3FulfillmentConfig L (y, marshal_SerumV3FulfillmentConfig L x @ r) = Inr (x, r)) \<and>
     (\<forall>x y r. wf_InsuranceFundStake x \<longrightarrow> wf_InsuranceFundStake y \<longrightarrow> unmarshal_InsuranceFundStake L (y, marshal_InsuranceFundStake L x @ r) = Inr (x, r)) \<and>
     (\<forall>x y r. wf_ProtocolIfSharesTransferConfig x \<longrightarrow> wf_ProtocolIfSharesTransferConfig y \<longrightarrow> unmarshal_ProtocolIfSharesTransferConfig L (y, marshal_ProtocolIfSharesTransferConfig L x @ r) = Inr (x, r)) \<and>
     (\<forall>x y r. wf_PrelaunchOracle x \<longrightarrow> wf_PrelaunchOracle y \<longrightarrow> unmarshal_PrelaunchOracle L (y, marshal_PrelaunchOracle L x @ r) = Inr (x, r)) \<and>
     (\<forall>x y r. wf_PerpMarket x \<longrightarrow> wf_PerpMarket y \<longrightarrow> unmarshal_PerpMarket L (y, marshal_PerpMarket L x @ r) = Inr (x, r)) \<and>
     (\<forall>x y r. wf_SpotMarket x \<longrightarrow> wf_SpotMarket y \<longrightarrow> unmarshal_SpotMarket L (y, marshal_SpotMarket L x @ r) = Inr (x, r)) \<and>
     (\<forall>x y r. wf_State x \<longrightarrow> wf_State y \<longrightarrow> unmarshal_State L (y, marshal_State L x @ r) = Inr (x, r)) \<and>
     (\<forall>x y r. wf_User x \<longrightarrow> wf_User y \<longrightarrow> unmarshal_User L (y, marshal_User L x @ r) = Inr (x, r)) \<and>
     (\<forall>x y r. wf_UserStats x \<longrightarrow> wf_UserStats y \<longrightarrow> unmarshal_UserStats L (y, marshal_UserStats L x @ r) = Inr (x, r)) \<and>
     (\<forall>x y r. wf_ReferrerName x \<longrightarrow> wf_ReferrerName y \<longrightarrow> unmarshal_ReferrerName L (y, marshal_ReferrerName L x @ r) = Inr (x, r))"
  by (intro conjI allI impI;
      rule bin_library.OpenbookV2FulfillmentConfig_rt [OF bin_library.intro [OF assms]]
      bin_library.PhoenixV1FulfillmentConfig_rt [OF bin_library.intro [OF assms]]
      bin_library.SerumV3FulfillmentConfig_rt [OF bin_library.intro [OF assms]]
      bin_library.InsuranceFundStake_rt [OF bin_library.intro [OF assms]]
      bin_library.ProtocolIfSharesTransferConfig_rt [OF bin_library.intro [OF assms]]
      bin_library.PrelaunchOracle_rt [OF bin_library.intro [OF assms]]
      bin_library.PerpMarket_rt [OF bin_library.intro [OF assms]]
      bin_library.SpotMarket_rt [OF bin_library.intro [OF assms]]
      bin_library.State_rt [OF bin_library.intro [OF assms]]
      bin_library.User_rt [OF bin_library.intro [OF assms]]
      bin_library.UserStats_rt [OF bin_library.intro [OF assms]]
      bin_library.ReferrerName_rt [OF bin_library.intro [OF assms]])

lemma zero_ReferrerName_wf: "wf_ReferrerName zero_ReferrerName"
  by (simp add: wf_ReferrerName_def zero_ReferrerName_def)

theorem drift_accounts_round_trip_witness:
  "unmarshal_ReferrerName le_lib (zero_ReferrerName, marshal_ReferrerName le_lib zero_ReferrerName @ []) =
     Inr (zero_ReferrerName, [])"
  using drift_accounts_round_trip [OF bin_ok_le_lib] zero_ReferrerName_wf by blast

text \<open>The kinds, with the bytes their readers accept into some object.\<close>

definition drift_account_kinds :: "bin_lib \<Rightarrow> (bytes \<times> (bytes \<Rightarrow> bool)) list" where
  "drift_account_kinds L =
     [(OpenbookV2FulfillmentConfig_discriminator, \<lambda>bs. \<exists>y z. unmarshal_OpenbookV2FulfillmentConfig L (y, bs) = Inr z),
      (PhoenixV1FulfillmentConfig_discriminator, \<lambda>bs. \<exists>y z. unmarshal_PhoenixV1FulfillmentConfig L (y, bs) = Inr z),
      (SerumV3FulfillmentConfig_discriminator, \<lambda>bs. \<exists>y z. unmarshal_SerumV3FulfillmentConfig L (y, bs) = Inr z),
      (InsuranceFundStake_discriminator, \<lambda>bs. \<exists>y z. unmarshal_InsuranceFundStake L (y, bs) = Inr z),
      (ProtocolIfSharesTransferConfig_discriminator, \<lambda>bs. \<exists>y z. unmarshal_ProtocolIfSharesTransferConfig L (y, bs) = Inr z),
      (PrelaunchOracle_discriminator, \<lambda>bs. \<exists>y z. unmarshal_PrelaunchOracle L (y, bs) = Inr z),
      (PerpMarket_discriminator, \<lambda>bs. \<exists>y z. unmarshal_PerpMarket L (y, bs) = Inr z),
      (SpotMarket_discriminator, \<lambda>bs. \<exists>y z. unmarshal_SpotMarket L (y, bs) = Inr z),
      (State_discriminator, \<lambda>bs. \<exists>y z. unmarshal_State L (y, bs) = Inr z),
      (User_discriminator, \<lambda>bs. \<exists>y z. unmarshal_User L (y, bs) = Inr z),
      (UserStats_discriminator, \<lambda>bs. \<exists>y z. unmarshal_UserStats L (y, bs) = Inr z),
      (ReferrerName_discriminator, \<lambda>bs. \<exists>y z. unmarshal_ReferrerName L (y, bs) = Inr z)]"

lemma accepted_discriminators:
  "unmarshal_OpenbookV2FulfillmentConfig L (y_0, bs) = Inr z_0 \<Longrightarrow> take 8 bs = OpenbookV2FulfillmentConfig_discriminator"
  "unmarshal_PhoenixV1FulfillmentConfig L (y_1, bs) = Inr z_1 \<Longrightarrow> take 8 bs = PhoenixV1FulfillmentConfig_discriminator"
  "unmarshal_SerumV3FulfillmentConfig L (y_2, bs) = Inr z_2 \<Longrightarrow> take 8 bs = SerumV3FulfillmentConfig_discriminator"
  "unmarshal_InsuranceFundStake L (y_3, bs) = Inr z_3 \<Longrightarrow> take 8 bs = InsuranceFundStake_discriminator"
  "unmarshal_ProtocolIfSharesTransferConfig L (y_4, bs) = Inr z_4 \<Longrightarrow> take 8 bs = ProtocolIfSharesTransferConfig_discriminator"
  "unmarshal_PrelaunchOracle L (y_5, bs) = Inr z_5 \<Longrightarrow> take 8 bs = PrelaunchOracle_discriminator"
  "unmarshal_PerpMarket L (y_6, bs) = Inr z_6 \<Longrightarrow> take 8 bs = PerpMarket_discriminator"
  "unmarshal_SpotMarket L (y_7, bs) = Inr z_7 \<Longrightarrow> take 8 bs = SpotMarket_discriminator"
  "unmarshal_State L (y_8, bs) = Inr z_8 \<Longrightarrow> take 8 bs = State_discriminator"
  "unmarshal_User L (y_9, bs) = Inr z_9 \<Longrightarrow> take 8 bs = User_discriminator"
  "unmarshal_UserStats L (y_10, bs) = Inr z_10 \<Longrightarrow> take 8 bs = UserStats_discriminator"
  "unmarshal_ReferrerName L (y_11, bs) = Inr z_11 \<Longrightarrow> take 8 bs = ReferrerName_discriminator"
  unfolding unmarshal_OpenbookV2FulfillmentConfig_def
      unmarshal_PhoenixV1FulfillmentConfig_def
      unmarshal_SerumV3FulfillmentConfig_def
      unmarshal_InsuranceFundStake_def
      unmarshal_ProtocolIfSharesTransferConfig_def
      unmarshal_PrelaunchOracle_def
      unmarshal_PerpMarket_def
      unmarshal_SpotMarket_def
      unmarshal_State_def
      unmarshal_User_def
      unmarshal_UserStats_def
      unmarshal_ReferrerName_def
  by (erule read_needs_discriminator)+

lemma accepted_kinds:
  "list_all (\<lambda>(d, accepts). \<forall>bs. accepts bs \<longrightarrow> take 8 bs = d) (drift_account_kinds L)"
  unfolding drift_account_kinds_def list.pred_inject(2) prod.case
  by (intro conjI allI impI; (elim exE, erule accepted_discriminators | simp only: list.pred_inject))

lemma accepted_has_discriminator:
  "(d, accepts) \<in> set (drift_account_kinds L) \<Longrightarrow> accepts bs \<Longrightarrow> take 8 bs = d"
  using accepted_kinds [of L] by (auto simp only: list_all_iff prod.case)

lemma discriminators_distinct: "distinct (map fst (drift_account_kinds L))"
  by (simp add: drift_account_kinds_def account_discriminator_defs)

text \<open>
  C32. An account is never read as another kind.  Bytes that two of the account readers accept (into whatever objects)
  belong to one kind: each reader insists on its own discriminator, and the twelve differ.
\<close>

theorem drift_account_kinds_apart:
  assumes "(d, accepts) \<in> set (drift_account_kinds L)" and "(d', accepts') \<in> set (drift_account_kinds L)"
    and "accepts bs" and "accepts' bs"
  shows "d = d' \<and> accepts = accepts'"
proof -
  have "d = d'" using accepted_has_discriminator assms by metis
  moreover have "map_of (drift_account_kinds L) d = Some accepts" "map_of (drift_account_kinds L) d' = Some accepts'"
    using assms(1,2) discriminators_distinct by simp_all
  ultimately show ?thesis by simp
qed

theorem drift_account_kinds_apart_witness:
  "ReferrerName_discriminator = ReferrerName_discriminator \<and>
     (\<lambda>bs. \<exists>y z. unmarshal_ReferrerName le_lib (y, bs) = Inr z) = (\<lambda>bs. \<exists>y z. unmarshal_ReferrerName le_lib (y, bs) = Inr z)"
proof (rule drift_account_kinds_apart)
  show "(ReferrerName_discriminator, \<lambda>bs. \<exists>y z. unmarshal_ReferrerName le_lib (y, bs) = Inr z) \<in> set (drift_account_kinds le_lib)"
    by (simp add: drift_account_kinds_def)
  then show "(ReferrerName_discriminator, \<lambda>bs. \<exists>y z. unmarshal_ReferrerName le_lib (y, bs) = Inr z) \<in> set (drift_account_kinds le_lib)" .
  have "unmarshal_ReferrerName le_lib (zero_ReferrerName, marshal_ReferrerName le_lib zero_ReferrerName @ []) = Inr (zero_ReferrerName, [])"
    by (rule le.ReferrerName_rt [OF zero_ReferrerName_wf zero_ReferrerName_wf])
  then show "\<exists>y z. unmarshal_ReferrerName le_lib (y, marshal_ReferrerName le_lib zero_ReferrerName @ []) = Inr z" by blast
  then show "\<exists>y z. unmarshal_ReferrerName le_lib (y, marshal_ReferrerName le_lib zero_ReferrerName @ []) = Inr z" .
qed

end
