(* ===== verification/Drift_Instructions.thy ===== *)
theory Drift_Instructions
  imports Drift_Types
begin

text \<open>
  The instructions of the Drift bindings (\<open>client/svm/drift\<close>): for each of the thirteen its record, the
  slots of its accounts (setters and getters), builder, parameter setters, \<open>Validate\<close>, codec and
  constructor; then the instruction type with its data, the variant table and \<open>DecodeInstruction\<close>.  The
  display of instructions as trees is left out.
\<close>

section \<open>Instructions\<close>

subsection \<open>\<open>InitializeUser\<close>\<close>

record Drift_InitializeUser =
  SubAccountId :: "(16 word) option"
  Name :: "((8 word) list) option"
  accounts :: metas

definition Drift_InitializeUser_slots :: "slot list" where
  "Drift_InitializeUser_slots =
     [slot_rw ''User'', slot_rw ''UserStats'', slot_rw ''State'', slot_ro_sign ''Authority'',
      slot_rw_sign ''Payer'', slot_ro ''Rent'', slot_ro ''SystemProgram'']"

definition Drift_InitializeUser_zero :: Drift_InitializeUser where
  "Drift_InitializeUser_zero =
     \<lparr>SubAccountId = None, Name = None, accounts = []\<rparr>"

definition Drift_InitializeUser_builder :: Drift_InitializeUser where
  "Drift_InitializeUser_builder = Drift_InitializeUser_zero\<lparr>accounts := replicate 7 None\<rparr>"

definition Drift_InitializeUser_SetSubAccountId :: "16 word \<Rightarrow> Drift_InitializeUser \<Rightarrow> Drift_InitializeUser" where
  "Drift_InitializeUser_SetSubAccountId v i = i\<lparr>SubAccountId := Some v\<rparr>"

definition Drift_InitializeUser_SetName :: "(8 word) list \<Rightarrow> Drift_InitializeUser \<Rightarrow> Drift_InitializeUser" where
  "Drift_InitializeUser_SetName v i = i\<lparr>Name := Some v\<rparr>"

definition Drift_InitializeUser_Validate :: "Drift_InitializeUser \<Rightarrow> unit res" where
  "Drift_InitializeUser_Validate i = first_error (
     [fail_if (SubAccountId i = None) ''SubAccountId parameter is not set'',
      fail_if (Name i = None) ''Name parameter is not set''] @
     slot_checks Drift_InitializeUser_slots 0 (accounts i))"

definition marshal_Drift_InitializeUser :: "bytes res \<Rightarrow> bin_lib \<Rightarrow> Drift_InitializeUser \<Rightarrow> bytes res" where
  "marshal_Drift_InitializeUser nil L i = enc_seq
     [put_param nil (put_u16 L) (SubAccountId i), put_param nil (put_array (put_u8 L)) (Name i)]"

definition unmarshal_Drift_InitializeUser :: "bin_lib \<Rightarrow> Drift_InitializeUser reader" where
  "unmarshal_Drift_InitializeUser L = dec_all
     [sub_field (read_ptr 0 (prim (get_u16 L))) SubAccountId SubAccountId_update,
      sub_field (read_ptr (replicate 32 0) (read_each (prim (get_u8 L)))) Name Name_update]"

definition new_Drift_InitializeUser ::
   "16 word \<Rightarrow> (8 word) list \<Rightarrow> bytes \<Rightarrow> bytes \<Rightarrow>
   bytes \<Rightarrow> bytes \<Rightarrow> bytes \<Rightarrow> bytes \<Rightarrow> bytes \<Rightarrow>
   Drift_InitializeUser res" where
  "new_Drift_InitializeUser
      subAccountId name user userStats state authority payer rent systemProgram =
     (let i = Drift_InitializeUser_SetName name (
        Drift_InitializeUser_SetSubAccountId subAccountId Drift_InitializeUser_builder)
      in bind_res (set_accounts_from Drift_InitializeUser_slots 0
           [user, userStats, state, authority, payer, rent, systemProgram]
           (accounts i)) (\<lambda>as. Inr (i\<lparr>accounts := as\<rparr>)))"

definition wf_Drift_InitializeUser :: "Drift_InitializeUser \<Rightarrow> bool" where
  "wf_Drift_InitializeUser i \<longleftrightarrow> (\<forall>v \<in> set_option (Name i). length v = 32)"

subsection \<open>\<open>InitializeUserStats\<close>\<close>

record Drift_InitializeUserStats =
  accounts :: metas

definition Drift_InitializeUserStats_slots :: "slot list" where
  "Drift_InitializeUserStats_slots =
     [slot_rw ''UserStats'', slot_rw ''State'', slot_ro_sign ''Authority'', slot_rw_sign ''Payer'',
      slot_ro ''Rent'', slot_ro ''SystemProgram'']"

definition Drift_InitializeUserStats_zero :: Drift_InitializeUserStats where
  "Drift_InitializeUserStats_zero =
     \<lparr>accounts = []\<rparr>"

definition Drift_InitializeUserStats_builder :: Drift_InitializeUserStats where
  "Drift_InitializeUserStats_builder = Drift_InitializeUserStats_zero\<lparr>accounts := replicate 6 None\<rparr>"

definition Drift_InitializeUserStats_Validate :: "Drift_InitializeUserStats \<Rightarrow> unit res" where
  "Drift_InitializeUserStats_Validate i = first_error (
     [] @
     slot_checks Drift_InitializeUserStats_slots 0 (accounts i))"

definition marshal_Drift_InitializeUserStats :: "bytes res \<Rightarrow> bin_lib \<Rightarrow> Drift_InitializeUserStats \<Rightarrow> bytes res" where
  "marshal_Drift_InitializeUserStats nil L i = enc_seq
     []"

definition unmarshal_Drift_InitializeUserStats :: "bin_lib \<Rightarrow> Drift_InitializeUserStats reader" where
  "unmarshal_Drift_InitializeUserStats L = dec_all
     []"

definition new_Drift_InitializeUserStats ::
   "bytes \<Rightarrow> bytes \<Rightarrow> bytes \<Rightarrow> bytes \<Rightarrow> bytes \<Rightarrow>
   bytes \<Rightarrow> Drift_InitializeUserStats res" where
  "new_Drift_InitializeUserStats
      userStats state authority payer rent systemProgram =
     (let i = Drift_InitializeUserStats_builder
      in bind_res (set_accounts_from Drift_InitializeUserStats_slots 0
           [userStats, state, authority, payer, rent, systemProgram]
           (accounts i)) (\<lambda>as. Inr (i\<lparr>accounts := as\<rparr>)))"

subsection \<open>\<open>Deposit\<close>\<close>

record Drift_Deposit =
  MarketIndex :: "(16 word) option"
  Amount :: "(64 word) option"
  ReduceOnly :: "bool option"
  accounts :: metas

definition Drift_Deposit_slots :: "slot list" where
  "Drift_Deposit_slots =
     [slot_ro ''State'', slot_rw ''User'', slot_rw ''UserStats'', slot_ro_sign ''Authority'',
      slot_rw ''SpotMarketVault'', slot_rw ''UserTokenAccount'', slot_ro ''TokenProgram'']"

definition Drift_Deposit_zero :: Drift_Deposit where
  "Drift_Deposit_zero =
     \<lparr>MarketIndex = None, Amount = None, ReduceOnly = None, accounts = []\<rparr>"

definition Drift_Deposit_builder :: Drift_Deposit where
  "Drift_Deposit_builder = Drift_Deposit_zero\<lparr>accounts := replicate 7 None\<rparr>"

definition Drift_Deposit_SetMarketIndex :: "16 word \<Rightarrow> Drift_Deposit \<Rightarrow> Drift_Deposit" where
  "Drift_Deposit_SetMarketIndex v i = i\<lparr>MarketIndex := Some v\<rparr>"

definition Drift_Deposit_SetAmount :: "64 word \<Rightarrow> Drift_Deposit \<Rightarrow> Drift_Deposit" where
  "Drift_Deposit_SetAmount v i = i\<lparr>Amount := Some v\<rparr>"

definition Drift_Deposit_SetReduceOnly :: "bool \<Rightarrow> Drift_Deposit \<Rightarrow> Drift_Deposit" where
  "Drift_Deposit_SetReduceOnly v i = i\<lparr>ReduceOnly := Some v\<rparr>"

definition Drift_Deposit_Validate :: "Drift_Deposit \<Rightarrow> unit res" where
  "Drift_Deposit_Validate i = first_error (
     [fail_if (MarketIndex i = None) ''MarketIndex parameter is not set'',
      fail_if (Amount i = None) ''Amount parameter is not set'',
      fail_if (ReduceOnly i = None) ''ReduceOnly parameter is not set''] @
     slot_checks Drift_Deposit_slots 0 (accounts i))"

definition marshal_Drift_Deposit :: "bytes res \<Rightarrow> bin_lib \<Rightarrow> Drift_Deposit \<Rightarrow> bytes res" where
  "marshal_Drift_Deposit nil L i = enc_seq
     [put_param nil (put_u16 L) (MarketIndex i), put_param nil (put_u64 L) (Amount i),
      put_param nil (put_bool L) (ReduceOnly i)]"

definition unmarshal_Drift_Deposit :: "bin_lib \<Rightarrow> Drift_Deposit reader" where
  "unmarshal_Drift_Deposit L = dec_all
     [sub_field (read_ptr 0 (prim (get_u16 L))) MarketIndex MarketIndex_update,
      sub_field (read_ptr 0 (prim (get_u64 L))) Amount Amount_update,
      sub_field (read_ptr False (prim (get_bool L))) ReduceOnly ReduceOnly_update]"

definition new_Drift_Deposit ::
   "16 word \<Rightarrow> 64 word \<Rightarrow> bool \<Rightarrow> bytes \<Rightarrow>
   bytes \<Rightarrow> bytes \<Rightarrow> bytes \<Rightarrow> bytes \<Rightarrow> bytes \<Rightarrow>
   bytes \<Rightarrow> Drift_Deposit res" where
  "new_Drift_Deposit
      marketIndex amount reduceOnly state user userStats authority spotMarketVault userTokenAccount
      tokenProgram =
     (let i = Drift_Deposit_SetReduceOnly reduceOnly (
        Drift_Deposit_SetAmount amount (
        Drift_Deposit_SetMarketIndex marketIndex Drift_Deposit_builder))
      in bind_res (set_accounts_from Drift_Deposit_slots 0
           [state, user, userStats, authority, spotMarketVault, userTokenAccount, tokenProgram]
           (accounts i)) (\<lambda>as. Inr (i\<lparr>accounts := as\<rparr>)))"

subsection \<open>\<open>Withdraw\<close>\<close>

record Drift_Withdraw =
  MarketIndex :: "(16 word) option"
  Amount :: "(64 word) option"
  ReduceOnly :: "bool option"
  accounts :: metas

definition Drift_Withdraw_slots :: "slot list" where
  "Drift_Withdraw_slots =
     [slot_ro ''State'', slot_rw ''User'', slot_rw ''UserStats'', slot_ro_sign ''Authority'',
      slot_rw ''SpotMarketVault'', slot_ro ''DriftSigner'', slot_rw ''UserTokenAccount'',
      slot_ro ''TokenProgram'']"

definition Drift_Withdraw_zero :: Drift_Withdraw where
  "Drift_Withdraw_zero =
     \<lparr>MarketIndex = None, Amount = None, ReduceOnly = None, accounts = []\<rparr>"

definition Drift_Withdraw_builder :: Drift_Withdraw where
  "Drift_Withdraw_builder = Drift_Withdraw_zero\<lparr>accounts := replicate 8 None\<rparr>"

definition Drift_Withdraw_SetMarketIndex :: "16 word \<Rightarrow> Drift_Withdraw \<Rightarrow> Drift_Withdraw" where
  "Drift_Withdraw_SetMarketIndex v i = i\<lparr>MarketIndex := Some v\<rparr>"

definition Drift_Withdraw_SetAmount :: "64 word \<Rightarrow> Drift_Withdraw \<Rightarrow> Drift_Withdraw" where
  "Drift_Withdraw_SetAmount v i = i\<lparr>Amount := Some v\<rparr>"

definition Drift_Withdraw_SetReduceOnly :: "bool \<Rightarrow> Drift_Withdraw \<Rightarrow> Drift_Withdraw" where
  "Drift_Withdraw_SetReduceOnly v i = i\<lparr>ReduceOnly := Some v\<rparr>"

definition Drift_Withdraw_Validate :: "Drift_Withdraw \<Rightarrow> unit res" where
  "Drift_Withdraw_Validate i = first_error (
     [fail_if (MarketIndex i = None) ''MarketIndex parameter is not set'',
      fail_if (Amount i = None) ''Amount parameter is not set'',
      fail_if (ReduceOnly i = None) ''ReduceOnly parameter is not set''] @
     slot_checks Drift_Withdraw_slots 0 (accounts i))"

definition marshal_Drift_Withdraw :: "bytes res \<Rightarrow> bin_lib \<Rightarrow> Drift_Withdraw \<Rightarrow> bytes res" where
  "marshal_Drift_Withdraw nil L i = enc_seq
     [put_param nil (put_u16 L) (MarketIndex i), put_param nil (put_u64 L) (Amount i),
      put_param nil (put_bool L) (ReduceOnly i)]"

definition unmarshal_Drift_Withdraw :: "bin_lib \<Rightarrow> Drift_Withdraw reader" where
  "unmarshal_Drift_Withdraw L = dec_all
     [sub_field (read_ptr 0 (prim (get_u16 L))) MarketIndex MarketIndex_update,
      sub_field (read_ptr 0 (prim (get_u64 L))) Amount Amount_update,
      sub_field (read_ptr False (prim (get_bool L))) ReduceOnly ReduceOnly_update]"

definition new_Drift_Withdraw ::
   "16 word \<Rightarrow> 64 word \<Rightarrow> bool \<Rightarrow> bytes \<Rightarrow>
   bytes \<Rightarrow> bytes \<Rightarrow> bytes \<Rightarrow> bytes \<Rightarrow> bytes \<Rightarrow>
   bytes \<Rightarrow> bytes \<Rightarrow> Drift_Withdraw res" where
  "new_Drift_Withdraw
      marketIndex amount reduceOnly state user userStats authority spotMarketVault driftSigner
      userTokenAccount tokenProgram =
     (let i = Drift_Withdraw_SetReduceOnly reduceOnly (
        Drift_Withdraw_SetAmount amount (
        Drift_Withdraw_SetMarketIndex marketIndex Drift_Withdraw_builder))
      in bind_res (set_accounts_from Drift_Withdraw_slots 0
           [state, user, userStats, authority, spotMarketVault, driftSigner, userTokenAccount,
            tokenProgram]
           (accounts i)) (\<lambda>as. Inr (i\<lparr>accounts := as\<rparr>)))"

subsection \<open>\<open>PlacePerpOrder\<close>\<close>

record Drift_PlacePerpOrder =
  Params :: "OrderParams option"
  accounts :: metas

definition Drift_PlacePerpOrder_slots :: "slot list" where
  "Drift_PlacePerpOrder_slots =
     [slot_ro ''State'', slot_rw ''User'', slot_ro_sign ''Authority'']"

definition Drift_PlacePerpOrder_zero :: Drift_PlacePerpOrder where
  "Drift_PlacePerpOrder_zero =
     \<lparr>Params = None, accounts = []\<rparr>"

definition Drift_PlacePerpOrder_builder :: Drift_PlacePerpOrder where
  "Drift_PlacePerpOrder_builder = Drift_PlacePerpOrder_zero\<lparr>accounts := replicate 3 None\<rparr>"

definition Drift_PlacePerpOrder_SetParams :: "OrderParams \<Rightarrow> Drift_PlacePerpOrder \<Rightarrow> Drift_PlacePerpOrder" where
  "Drift_PlacePerpOrder_SetParams v i = i\<lparr>Params := Some v\<rparr>"

definition Drift_PlacePerpOrder_Validate :: "Drift_PlacePerpOrder \<Rightarrow> unit res" where
  "Drift_PlacePerpOrder_Validate i = first_error (
     [fail_if (Params i = None) ''Params parameter is not set''] @
     slot_checks Drift_PlacePerpOrder_slots 0 (accounts i))"

definition marshal_Drift_PlacePerpOrder :: "bytes res \<Rightarrow> bin_lib \<Rightarrow> Drift_PlacePerpOrder \<Rightarrow> bytes res" where
  "marshal_Drift_PlacePerpOrder nil L i = enc_seq
     [put_param nil (marshal_OrderParams L) (Params i)]"

definition unmarshal_Drift_PlacePerpOrder :: "bin_lib \<Rightarrow> Drift_PlacePerpOrder reader" where
  "unmarshal_Drift_PlacePerpOrder L = dec_all
     [sub_field (read_ptr zero_OrderParams (unmarshal_OrderParams L)) Params Params_update]"

definition new_Drift_PlacePerpOrder ::
   "OrderParams \<Rightarrow> bytes \<Rightarrow> bytes \<Rightarrow> bytes \<Rightarrow>
   Drift_PlacePerpOrder res" where
  "new_Drift_PlacePerpOrder
      params state user authority =
     (let i = Drift_PlacePerpOrder_SetParams params Drift_PlacePerpOrder_builder
      in bind_res (set_accounts_from Drift_PlacePerpOrder_slots 0
           [state, user, authority]
           (accounts i)) (\<lambda>as. Inr (i\<lparr>accounts := as\<rparr>)))"

subsection \<open>\<open>PlaceSpotOrder\<close>\<close>

record Drift_PlaceSpotOrder =
  Params :: "OrderParams option"
  accounts :: metas

definition Drift_PlaceSpotOrder_slots :: "slot list" where
  "Drift_PlaceSpotOrder_slots =
     [slot_ro ''State'', slot_rw ''User'', slot_ro_sign ''Authority'']"

definition Drift_PlaceSpotOrder_zero :: Drift_PlaceSpotOrder where
  "Drift_PlaceSpotOrder_zero =
     \<lparr>Params = None, accounts = []\<rparr>"

definition Drift_PlaceSpotOrder_builder :: Drift_PlaceSpotOrder where
  "Drift_PlaceSpotOrder_builder = Drift_PlaceSpotOrder_zero\<lparr>accounts := replicate 3 None\<rparr>"

definition Drift_PlaceSpotOrder_SetParams :: "OrderParams \<Rightarrow> Drift_PlaceSpotOrder \<Rightarrow> Drift_PlaceSpotOrder" where
  "Drift_PlaceSpotOrder_SetParams v i = i\<lparr>Params := Some v\<rparr>"

definition Drift_PlaceSpotOrder_Validate :: "Drift_PlaceSpotOrder \<Rightarrow> unit res" where
  "Drift_PlaceSpotOrder_Validate i = first_error (
     [fail_if (Params i = None) ''Params parameter is not set''] @
     slot_checks Drift_PlaceSpotOrder_slots 0 (accounts i))"

definition marshal_Drift_PlaceSpotOrder :: "bytes res \<Rightarrow> bin_lib \<Rightarrow> Drift_PlaceSpotOrder \<Rightarrow> bytes res" where
  "marshal_Drift_PlaceSpotOrder nil L i = enc_seq
     [put_param nil (marshal_OrderParams L) (Params i)]"

definition unmarshal_Drift_PlaceSpotOrder :: "bin_lib \<Rightarrow> Drift_PlaceSpotOrder reader" where
  "unmarshal_Drift_PlaceSpotOrder L = dec_all
     [sub_field (read_ptr zero_OrderParams (unmarshal_OrderParams L)) Params Params_update]"

definition new_Drift_PlaceSpotOrder ::
   "OrderParams \<Rightarrow> bytes \<Rightarrow> bytes \<Rightarrow> bytes \<Rightarrow>
   Drift_PlaceSpotOrder res" where
  "new_Drift_PlaceSpotOrder
      params state user authority =
     (let i = Drift_PlaceSpotOrder_SetParams params Drift_PlaceSpotOrder_builder
      in bind_res (set_accounts_from Drift_PlaceSpotOrder_slots 0
           [state, user, authority]
           (accounts i)) (\<lambda>as. Inr (i\<lparr>accounts := as\<rparr>)))"

subsection \<open>\<open>FillPerpOrder\<close>\<close>

record Drift_FillPerpOrder =
  OrderId :: "(32 word) option"
  MakerOrderId :: "(32 word) option"
  accounts :: metas

definition Drift_FillPerpOrder_slots :: "slot list" where
  "Drift_FillPerpOrder_slots =
     [slot_ro ''State'', slot_ro_sign ''Authority'', slot_rw ''Filler'', slot_rw ''FillerStats'',
      slot_rw ''User'', slot_rw ''UserStats'']"

definition Drift_FillPerpOrder_zero :: Drift_FillPerpOrder where
  "Drift_FillPerpOrder_zero =
     \<lparr>OrderId = None, MakerOrderId = None, accounts = []\<rparr>"

definition Drift_FillPerpOrder_builder :: Drift_FillPerpOrder where
  "Drift_FillPerpOrder_builder = Drift_FillPerpOrder_zero\<lparr>accounts := replicate 6 None\<rparr>"

definition Drift_FillPerpOrder_SetOrderId :: "32 word \<Rightarrow> Drift_FillPerpOrder \<Rightarrow> Drift_FillPerpOrder" where
  "Drift_FillPerpOrder_SetOrderId v i = i\<lparr>OrderId := Some v\<rparr>"

definition Drift_FillPerpOrder_SetMakerOrderId :: "32 word \<Rightarrow> Drift_FillPerpOrder \<Rightarrow> Drift_FillPerpOrder" where
  "Drift_FillPerpOrder_SetMakerOrderId v i = i\<lparr>MakerOrderId := Some v\<rparr>"

definition Drift_FillPerpOrder_Validate :: "Drift_FillPerpOrder \<Rightarrow> unit res" where
  "Drift_FillPerpOrder_Validate i = first_error (
     [] @
     slot_checks Drift_FillPerpOrder_slots 0 (accounts i))"

definition marshal_Drift_FillPerpOrder :: "bytes res \<Rightarrow> bin_lib \<Rightarrow> Drift_FillPerpOrder \<Rightarrow> bytes res" where
  "marshal_Drift_FillPerpOrder nil L i = enc_seq
     [Inr (put_opt L (put_u32 L) (OrderId i)), Inr (put_opt L (put_u32 L) (MakerOrderId i))]"

definition unmarshal_Drift_FillPerpOrder :: "bin_lib \<Rightarrow> Drift_FillPerpOrder reader" where
  "unmarshal_Drift_FillPerpOrder L = dec_all
     [sub_field (read_opt L (read_ptr 0 (prim (get_u32 L)))) OrderId OrderId_update,
      sub_field (read_opt L (read_ptr 0 (prim (get_u32 L)))) MakerOrderId MakerOrderId_update]"

definition new_Drift_FillPerpOrder ::
   "32 word \<Rightarrow> 32 word \<Rightarrow> bytes \<Rightarrow> bytes \<Rightarrow>
   bytes \<Rightarrow> bytes \<Rightarrow> bytes \<Rightarrow> bytes \<Rightarrow>
   Drift_FillPerpOrder res" where
  "new_Drift_FillPerpOrder
      orderId makerOrderId state authority filler fillerStats user userStats =
     (let i = Drift_FillPerpOrder_SetMakerOrderId makerOrderId (
        Drift_FillPerpOrder_SetOrderId orderId Drift_FillPerpOrder_builder)
      in bind_res (set_accounts_from Drift_FillPerpOrder_slots 0
           [state, authority, filler, fillerStats, user, userStats]
           (accounts i)) (\<lambda>as. Inr (i\<lparr>accounts := as\<rparr>)))"

subsection \<open>\<open>PlaceAndMakeSpotOrder\<close>\<close>

record Drift_PlaceAndMakeSpotOrder =
  Params :: "OrderParams option"
  TakerOrderId :: "(32 word) option"
  FulfillmentType :: "SpotFulfillmentType option"
  accounts :: metas

definition Drift_PlaceAndMakeSpotOrder_slots :: "slot list" where
  "Drift_PlaceAndMakeSpotOrder_slots =
     [slot_ro ''State'', slot_rw ''User'', slot_rw ''UserStats'', slot_rw ''Taker'',
      slot_rw ''TakerStats'', slot_ro_sign ''Authority'']"

definition Drift_PlaceAndMakeSpotOrder_zero :: Drift_PlaceAndMakeSpotOrder where
  "Drift_PlaceAndMakeSpotOrder_zero =
     \<lparr>Params = None, TakerOrderId = None, FulfillmentType = None, accounts = []\<rparr>"

definition Drift_PlaceAndMakeSpotOrder_builder :: Drift_PlaceAndMakeSpotOrder where
  "Drift_PlaceAndMakeSpotOrder_builder = Drift_PlaceAndMakeSpotOrder_zero\<lparr>accounts := replicate 6 None\<rparr>"

definition Drift_PlaceAndMakeSpotOrder_SetParams :: "OrderParams \<Rightarrow> Drift_PlaceAndMakeSpotOrder \<Rightarrow> Drift_PlaceAndMakeSpotOrder" where
  "Drift_PlaceAndMakeSpotOrder_SetParams v i = i\<lparr>Params := Some v\<rparr>"

definition Drift_PlaceAndMakeSpotOrder_SetTakerOrderId :: "32 word \<Rightarrow> Drift_PlaceAndMakeSpotOrder \<Rightarrow> Drift_PlaceAndMakeSpotOrder" where
  "Drift_PlaceAndMakeSpotOrder_SetTakerOrderId v i = i\<lparr>TakerOrderId := Some v\<rparr>"

definition Drift_PlaceAndMakeSpotOrder_SetFulfillmentType :: "SpotFulfillmentType \<Rightarrow> Drift_PlaceAndMakeSpotOrder \<Rightarrow> Drift_PlaceAndMakeSpotOrder" where
  "Drift_PlaceAndMakeSpotOrder_SetFulfillmentType v i = i\<lparr>FulfillmentType := Some v\<rparr>"

definition Drift_PlaceAndMakeSpotOrder_Validate :: "Drift_PlaceAndMakeSpotOrder \<Rightarrow> unit res" where
  "Drift_PlaceAndMakeSpotOrder_Validate i = first_error (
     [fail_if (Params i = None) ''Params parameter is not set'',
      fail_if (TakerOrderId i = None) ''TakerOrderId parameter is not set''] @
     slot_checks Drift_PlaceAndMakeSpotOrder_slots 0 (accounts i))"

definition marshal_Drift_PlaceAndMakeSpotOrder :: "bytes res \<Rightarrow> bin_lib \<Rightarrow> Drift_PlaceAndMakeSpotOrder \<Rightarrow> bytes res" where
  "marshal_Drift_PlaceAndMakeSpotOrder nil L i = enc_seq
     [put_param nil (marshal_OrderParams L) (Params i), put_param nil (put_u32 L) (TakerOrderId i),
      Inr (put_opt L (put_u8 L) (FulfillmentType i))]"

definition unmarshal_Drift_PlaceAndMakeSpotOrder :: "bin_lib \<Rightarrow> Drift_PlaceAndMakeSpotOrder reader" where
  "unmarshal_Drift_PlaceAndMakeSpotOrder L = dec_all
     [sub_field (read_ptr zero_OrderParams (unmarshal_OrderParams L)) Params Params_update,
      sub_field (read_ptr 0 (prim (get_u32 L))) TakerOrderId TakerOrderId_update,
      sub_field (read_opt L (read_ptr 0 (prim (get_u8 L)))) FulfillmentType FulfillmentType_update]"

definition new_Drift_PlaceAndMakeSpotOrder ::
   "OrderParams \<Rightarrow> 32 word \<Rightarrow> SpotFulfillmentType \<Rightarrow> bytes \<Rightarrow>
   bytes \<Rightarrow> bytes \<Rightarrow> bytes \<Rightarrow> bytes \<Rightarrow> bytes \<Rightarrow>
   Drift_PlaceAndMakeSpotOrder res" where
  "new_Drift_PlaceAndMakeSpotOrder
      params takerOrderId fulfillmentType state user userStats taker takerStats authority =
     (let i = Drift_PlaceAndMakeSpotOrder_SetFulfillmentType fulfillmentType (
        Drift_PlaceAndMakeSpotOrder_SetTakerOrderId takerOrderId (
        Drift_PlaceAndMakeSpotOrder_SetParams params Drift_PlaceAndMakeSpotOrder_builder))
      in bind_res (set_accounts_from Drift_PlaceAndMakeSpotOrder_slots 0
           [state, user, userStats, taker, takerStats, authority]
           (accounts i)) (\<lambda>as. Inr (i\<lparr>accounts := as\<rparr>)))"

subsection \<open>\<open>PlaceAndMakePerpOrder\<close>\<close>

record Drift_PlaceAndMakePerpOrder =
  Params :: "OrderParams option"
  TakerOrderId :: "(32 word) option"
  accounts :: metas

definition Drift_PlaceAndMakePerpOrder_slots :: "slot list" where
  "Drift_PlaceAndMakePerpOrder_slots =
     [slot_ro ''State'', slot_rw ''User'', slot_rw ''UserStats'', slot_rw ''Taker'',
      slot_rw ''TakerStats'', slot_ro_sign ''Authority'']"

definition Drift_PlaceAndMakePerpOrder_zero :: Drift_PlaceAndMakePerpOrder where
  "Drift_PlaceAndMakePerpOrder_zero =
     \<lparr>Params = None, TakerOrderId = None, accounts = []\<rparr>"

definition Drift_PlaceAndMakePerpOrder_builder :: Drift_PlaceAndMakePerpOrder where
  "Drift_PlaceAndMakePerpOrder_builder = Drift_PlaceAndMakePerpOrder_zero\<lparr>accounts := replicate 6 None\<rparr>"

definition Drift_PlaceAndMakePerpOrder_SetParams :: "OrderParams \<Rightarrow> Drift_PlaceAndMakePerpOrder \<Rightarrow> Drift_PlaceAndMakePerpOrder" where
  "Drift_PlaceAndMakePerpOrder_SetParams v i = i\<lparr>Params := Some v\<rparr>"

definition Drift_PlaceAndMakePerpOrder_SetTakerOrderId :: "32 word \<Rightarrow> Drift_PlaceAndMakePerpOrder \<Rightarrow> Drift_PlaceAndMakePerpOrder" where
  "Drift_PlaceAndMakePerpOrder_SetTakerOrderId v i = i\<lparr>TakerOrderId := Some v\<rparr>"

definition Drift_PlaceAndMakePerpOrder_Validate :: "Drift_PlaceAndMakePerpOrder \<Rightarrow> unit res" where
  "Drift_PlaceAndMakePerpOrder_Validate i = first_error (
     [fail_if (Params i = None) ''Params parameter is not set'',
      fail_if (TakerOrderId i = None) ''TakerOrderId parameter is not set''] @
     slot_checks Drift_PlaceAndMakePerpOrder_slots 0 (accounts i))"

definition marshal_Drift_PlaceAndMakePerpOrder :: "bytes res \<Rightarrow> bin_lib \<Rightarrow> Drift_PlaceAndMakePerpOrder \<Rightarrow> bytes res" where
  "marshal_Drift_PlaceAndMakePerpOrder nil L i = enc_seq
     [put_param nil (marshal_OrderParams L) (Params i), put_param nil (put_u32 L) (TakerOrderId i)]"

definition unmarshal_Drift_PlaceAndMakePerpOrder :: "bin_lib \<Rightarrow> Drift_PlaceAndMakePerpOrder reader" where
  "unmarshal_Drift_PlaceAndMakePerpOrder L = dec_all
     [sub_field (read_ptr zero_OrderParams (unmarshal_OrderParams L)) Params Params_update,
      sub_field (read_ptr 0 (prim (get_u32 L))) TakerOrderId TakerOrderId_update]"

definition new_Drift_PlaceAndMakePerpOrder ::
   "OrderParams \<Rightarrow> 32 word \<Rightarrow> bytes \<Rightarrow> bytes \<Rightarrow>
   bytes \<Rightarrow> bytes \<Rightarrow> bytes \<Rightarrow> bytes \<Rightarrow>
   Drift_PlaceAndMakePerpOrder res" where
  "new_Drift_PlaceAndMakePerpOrder
      params takerOrderId state user userStats taker takerStats authority =
     (let i = Drift_PlaceAndMakePerpOrder_SetTakerOrderId takerOrderId (
        Drift_PlaceAndMakePerpOrder_SetParams params Drift_PlaceAndMakePerpOrder_builder)
      in bind_res (set_accounts_from Drift_PlaceAndMakePerpOrder_slots 0
           [state, user, userStats, taker, takerStats, authority]
           (accounts i)) (\<lambda>as. Inr (i\<lparr>accounts := as\<rparr>)))"

subsection \<open>\<open>FillSpotOrder\<close>\<close>

record Drift_FillSpotOrder =
  OrderId :: "(32 word) option"
  FulfillmentType :: "SpotFulfillmentType option"
  MakerOrderId :: "(32 word) option"
  accounts :: metas

definition Drift_FillSpotOrder_slots :: "slot list" where
  "Drift_FillSpotOrder_slots =
     [slot_ro ''State'', slot_ro_sign ''Authority'', slot_rw ''Filler'', slot_rw ''FillerStats'',
      slot_rw ''User'', slot_rw ''UserStats'']"

definition Drift_FillSpotOrder_zero :: Drift_FillSpotOrder where
  "Drift_FillSpotOrder_zero =
     \<lparr>OrderId = None, FulfillmentType = None, MakerOrderId = None, accounts = []\<rparr>"

definition Drift_FillSpotOrder_builder :: Drift_FillSpotOrder where
  "Drift_FillSpotOrder_builder = Drift_FillSpotOrder_zero\<lparr>accounts := replicate 6 None\<rparr>"

definition Drift_FillSpotOrder_SetOrderId :: "32 word \<Rightarrow> Drift_FillSpotOrder \<Rightarrow> Drift_FillSpotOrder" where
  "Drift_FillSpotOrder_SetOrderId v i = i\<lparr>OrderId := Some v\<rparr>"

definition Drift_FillSpotOrder_SetFulfillmentType :: "SpotFulfillmentType \<Rightarrow> Drift_FillSpotOrder \<Rightarrow> Drift_FillSpotOrder" where
  "Drift_FillSpotOrder_SetFulfillmentType v i = i\<lparr>FulfillmentType := Some v\<rparr>"

definition Drift_FillSpotOrder_SetMakerOrderId :: "32 word \<Rightarrow> Drift_FillSpotOrder \<Rightarrow> Drift_FillSpotOrder" where
  "Drift_FillSpotOrder_SetMakerOrderId v i = i\<lparr>MakerOrderId := Some v\<rparr>"

definition Drift_FillSpotOrder_Validate :: "Drift_FillSpotOrder \<Rightarrow> unit res" where
  "Drift_FillSpotOrder_Validate i = first_error (
     [] @
     slot_checks Drift_FillSpotOrder_slots 0 (accounts i))"

definition marshal_Drift_FillSpotOrder :: "bytes res \<Rightarrow> bin_lib \<Rightarrow> Drift_FillSpotOrder \<Rightarrow> bytes res" where
  "marshal_Drift_FillSpotOrder nil L i = enc_seq
     [Inr (put_opt L (put_u32 L) (OrderId i)), Inr (put_opt L (put_u8 L) (FulfillmentType i)),
      Inr (put_opt L (put_u32 L) (MakerOrderId i))]"

definition unmarshal_Drift_FillSpotOrder :: "bin_lib \<Rightarrow> Drift_FillSpotOrder reader" where
  "unmarshal_Drift_FillSpotOrder L = dec_all
     [sub_field (read_opt L (read_ptr 0 (prim (get_u32 L)))) OrderId OrderId_update,
      sub_field (read_opt L (read_ptr 0 (prim (get_u8 L)))) FulfillmentType FulfillmentType_update,
      sub_field (read_opt L (read_ptr 0 (prim (get_u32 L)))) MakerOrderId MakerOrderId_update]"

definition new_Drift_FillSpotOrder ::
   "32 word \<Rightarrow> SpotFulfillmentType \<Rightarrow> 32 word \<Rightarrow> bytes \<Rightarrow>
   bytes \<Rightarrow> bytes \<Rightarrow> bytes \<Rightarrow> bytes \<Rightarrow> bytes \<Rightarrow>
   Drift_FillSpotOrder res" where
  "new_Drift_FillSpotOrder
      orderId fulfillmentType makerOrderId state authority filler fillerStats user userStats =
     (let i = Drift_FillSpotOrder_SetMakerOrderId makerOrderId (
        Drift_FillSpotOrder_SetFulfillmentType fulfillmentType (
        Drift_FillSpotOrder_SetOrderId orderId Drift_FillSpotOrder_builder))
      in bind_res (set_accounts_from Drift_FillSpotOrder_slots 0
           [state, authority, filler, fillerStats, user, userStats]
           (accounts i)) (\<lambda>as. Inr (i\<lparr>accounts := as\<rparr>)))"

subsection \<open>\<open>Initialize\<close>\<close>

record Drift_Initialize =
  accounts :: metas

definition Drift_Initialize_slots :: "slot list" where
  "Drift_Initialize_slots =
     [slot_rw_sign ''Admin'', slot_rw ''State'', slot_ro ''QuoteAssetMint'', slot_ro ''DriftSigner'',
      slot_ro ''Rent'', slot_ro ''SystemProgram'', slot_ro ''TokenProgram'']"

definition Drift_Initialize_zero :: Drift_Initialize where
  "Drift_Initialize_zero =
     \<lparr>accounts = []\<rparr>"

definition Drift_Initialize_builder :: Drift_Initialize where
  "Drift_Initialize_builder = Drift_Initialize_zero\<lparr>accounts := replicate 7 None\<rparr>"

definition Drift_Initialize_Validate :: "Drift_Initialize \<Rightarrow> unit res" where
  "Drift_Initialize_Validate i = first_error (
     [] @
     slot_checks Drift_Initialize_slots 0 (accounts i))"

definition marshal_Drift_Initialize :: "bytes res \<Rightarrow> bin_lib \<Rightarrow> Drift_Initialize \<Rightarrow> bytes res" where
  "marshal_Drift_Initialize nil L i = enc_seq
     []"

definition unmarshal_Drift_Initialize :: "bin_lib \<Rightarrow> Drift_Initialize reader" where
  "unmarshal_Drift_Initialize L = dec_all
     []"

definition new_Drift_Initialize ::
   "bytes \<Rightarrow> bytes \<Rightarrow> bytes \<Rightarrow> bytes \<Rightarrow> bytes \<Rightarrow>
   bytes \<Rightarrow> bytes \<Rightarrow> Drift_Initialize res" where
  "new_Drift_Initialize
      admin state quoteAssetMint driftSigner rent systemProgram tokenProgram =
     (let i = Drift_Initialize_builder
      in bind_res (set_accounts_from Drift_Initialize_slots 0
           [admin, state, quoteAssetMint, driftSigner, rent, systemProgram, tokenProgram]
           (accounts i)) (\<lambda>as. Inr (i\<lparr>accounts := as\<rparr>)))"

subsection \<open>\<open>InitializeSpotMarket\<close>\<close>

record Drift_InitializeSpotMarket =
  OptimalUtilization :: "(32 word) option"
  OptimalBorrowRate :: "(32 word) option"
  MaxBorrowRate :: "(32 word) option"
  OracleSource :: "OracleSource option"
  InitialAssetWeight :: "(32 word) option"
  MaintenanceAssetWeight :: "(32 word) option"
  InitialLiabilityWeight :: "(32 word) option"
  MaintenanceLiabilityWeight :: "(32 word) option"
  ImfFactor :: "(32 word) option"
  LiquidatorFee :: "(32 word) option"
  IfLiquidationFee :: "(32 word) option"
  ActiveStatus :: "bool option"
  AssetTier :: "AssetTier option"
  ScaleInitialAssetWeightStart :: "(64 word) option"
  WithdrawGuardThreshold :: "(64 word) option"
  OrderTickSize :: "(64 word) option"
  OrderStepSize :: "(64 word) option"
  IfTotalFactor :: "(32 word) option"
  Name :: "((8 word) list) option"
  accounts :: metas

definition Drift_InitializeSpotMarket_slots :: "slot list" where
  "Drift_InitializeSpotMarket_slots =
     [slot_rw ''SpotMarket'', slot_ro ''SpotMarketMint'', slot_rw ''SpotMarketVault'',
      slot_rw ''InsuranceFundVault'', slot_ro ''DriftSigner'', slot_rw ''State'', slot_ro ''Oracle'',
      slot_rw_sign ''Admin'', slot_ro ''Rent'', slot_ro ''SystemProgram'', slot_ro ''TokenProgram'']"

definition Drift_InitializeSpotMarket_zero :: Drift_InitializeSpotMarket where
  "Drift_InitializeSpotMarket_zero =
     \<lparr>OptimalUtilization = None, OptimalBorrowRate = None, MaxBorrowRate = None, OracleSource = None,
       InitialAssetWeight = None, MaintenanceAssetWeight = None, InitialLiabilityWeight = None,
       MaintenanceLiabilityWeight = None, ImfFactor = None, LiquidatorFee = None,
       IfLiquidationFee = None, ActiveStatus = None, AssetTier = None,
       ScaleInitialAssetWeightStart = None, WithdrawGuardThreshold = None, OrderTickSize = None,
       OrderStepSize = None, IfTotalFactor = None, Name = None, accounts = []\<rparr>"

definition Drift_InitializeSpotMarket_builder :: Drift_InitializeSpotMarket where
  "Drift_InitializeSpotMarket_builder = Drift_InitializeSpotMarket_zero\<lparr>accounts := replicate 11 None\<rparr>"

definition Drift_InitializeSpotMarket_SetOptimalUtilization :: "32 word \<Rightarrow> Drift_InitializeSpotMarket \<Rightarrow> Drift_InitializeSpotMarket" where
  "Drift_InitializeSpotMarket_SetOptimalUtilization v i = i\<lparr>OptimalUtilization := Some v\<rparr>"

definition Drift_InitializeSpotMarket_SetOptimalBorrowRate :: "32 word \<Rightarrow> Drift_InitializeSpotMarket \<Rightarrow> Drift_InitializeSpotMarket" where
  "Drift_InitializeSpotMarket_SetOptimalBorrowRate v i = i\<lparr>OptimalBorrowRate := Some v\<rparr>"

definition Drift_InitializeSpotMarket_SetMaxBorrowRate :: "32 word \<Rightarrow> Drift_InitializeSpotMarket \<Rightarrow> Drift_InitializeSpotMarket" where
  "Drift_InitializeSpotMarket_SetMaxBorrowRate v i = i\<lparr>MaxBorrowRate := Some v\<rparr>"

definition Drift_InitializeSpotMarket_SetOracleSource :: "OracleSource \<Rightarrow> Drift_InitializeSpotMarket \<Rightarrow> Drift_InitializeSpotMarket" where
  "Drift_InitializeSpotMarket_SetOracleSource v i = i\<lparr>OracleSource := Some v\<rparr>"

definition Drift_InitializeSpotMarket_SetInitialAssetWeight :: "32 word \<Rightarrow> Drift_InitializeSpotMarket \<Rightarrow> Drift_InitializeSpotMarket" where
  "Drift_InitializeSpotMarket_SetInitialAssetWeight v i = i\<lparr>InitialAssetWeight := Some v\<rparr>"

definition Drift_InitializeSpotMarket_SetMaintenanceAssetWeight :: "32 word \<Rightarrow> Drift_InitializeSpotMarket \<Rightarrow> Drift_InitializeSpotMarket" where
  "Drift_InitializeSpotMarket_SetMaintenanceAssetWeight v i = i\<lparr>MaintenanceAssetWeight := Some v\<rparr>"

definition Drift_InitializeSpotMarket_SetInitialLiabilityWeight :: "32 word \<Rightarrow> Drift_InitializeSpotMarket \<Rightarrow> Drift_InitializeSpotMarket" where
  "Drift_InitializeSpotMarket_SetInitialLiabilityWeight v i = i\<lparr>InitialLiabilityWeight := Some v\<rparr>"

definition Drift_InitializeSpotMarket_SetMaintenanceLiabilityWeight :: "32 word \<Rightarrow> Drift_InitializeSpotMarket \<Rightarrow> Drift_InitializeSpotMarket" where
  "Drift_InitializeSpotMarket_SetMaintenanceLiabilityWeight v i = i\<lparr>MaintenanceLiabilityWeight := Some v\<rparr>"

definition Drift_InitializeSpotMarket_SetImfFactor :: "32 word \<Rightarrow> Drift_InitializeSpotMarket \<Rightarrow> Drift_InitializeSpotMarket" where
  "Drift_InitializeSpotMarket_SetImfFactor v i = i\<lparr>ImfFactor := Some v\<rparr>"

definition Drift_InitializeSpotMarket_SetLiquidatorFee :: "32 word \<Rightarrow> Drift_InitializeSpotMarket \<Rightarrow> Drift_InitializeSpotMarket" where
  "Drift_InitializeSpotMarket_SetLiquidatorFee v i = i\<lparr>LiquidatorFee := Some v\<rparr>"

definition Drift_InitializeSpotMarket_SetIfLiquidationFee :: "32 word \<Rightarrow> Drift_InitializeSpotMarket \<Rightarrow> Drift_InitializeSpotMarket" where
  "Drift_InitializeSpotMarket_SetIfLiquidationFee v i = i\<lparr>IfLiquidationFee := Some v\<rparr>"

definition Drift_InitializeSpotMarket_SetActiveStatus :: "bool \<Rightarrow> Drift_InitializeSpotMarket \<Rightarrow> Drift_InitializeSpotMarket" where
  "Drift_InitializeSpotMarket_SetActiveStatus v i = i\<lparr>ActiveStatus := Some v\<rparr>"

definition Drift_InitializeSpotMarket_SetAssetTier :: "AssetTier \<Rightarrow> Drift_InitializeSpotMarket \<Rightarrow> Drift_InitializeSpotMarket" where
  "Drift_InitializeSpotMarket_SetAssetTier v i = i\<lparr>AssetTier := Some v\<rparr>"

definition Drift_InitializeSpotMarket_SetScaleInitialAssetWeightStart :: "64 word \<Rightarrow> Drift_InitializeSpotMarket \<Rightarrow> Drift_InitializeSpotMarket" where
  "Drift_InitializeSpotMarket_SetScaleInitialAssetWeightStart v i = i\<lparr>ScaleInitialAssetWeightStart := Some v\<rparr>"

definition Drift_InitializeSpotMarket_SetWithdrawGuardThreshold :: "64 word \<Rightarrow> Drift_InitializeSpotMarket \<Rightarrow> Drift_InitializeSpotMarket" where
  "Drift_InitializeSpotMarket_SetWithdrawGuardThreshold v i = i\<lparr>WithdrawGuardThreshold := Some v\<rparr>"

definition Drift_InitializeSpotMarket_SetOrderTickSize :: "64 word \<Rightarrow> Drift_InitializeSpotMarket \<Rightarrow> Drift_InitializeSpotMarket" where
  "Drift_InitializeSpotMarket_SetOrderTickSize v i = i\<lparr>OrderTickSize := Some v\<rparr>"

definition Drift_InitializeSpotMarket_SetOrderStepSize :: "64 word \<Rightarrow> Drift_InitializeSpotMarket \<Rightarrow> Drift_InitializeSpotMarket" where
  "Drift_InitializeSpotMarket_SetOrderStepSize v i = i\<lparr>OrderStepSize := Some v\<rparr>"

definition Drift_InitializeSpotMarket_SetIfTotalFactor :: "32 word \<Rightarrow> Drift_InitializeSpotMarket \<Rightarrow> Drift_InitializeSpotMarket" where
  "Drift_InitializeSpotMarket_SetIfTotalFactor v i = i\<lparr>IfTotalFactor := Some v\<rparr>"

definition Drift_InitializeSpotMarket_SetName :: "(8 word) list \<Rightarrow> Drift_InitializeSpotMarket \<Rightarrow> Drift_InitializeSpotMarket" where
  "Drift_InitializeSpotMarket_SetName v i = i\<lparr>Name := Some v\<rparr>"

definition Drift_InitializeSpotMarket_Validate :: "Drift_InitializeSpotMarket \<Rightarrow> unit res" where
  "Drift_InitializeSpotMarket_Validate i = first_error (
     [fail_if (OptimalUtilization i = None) ''OptimalUtilization parameter is not set'',
      fail_if (OptimalBorrowRate i = None) ''OptimalBorrowRate parameter is not set'',
      fail_if (MaxBorrowRate i = None) ''MaxBorrowRate parameter is not set'',
      fail_if (OracleSource i = None) ''OracleSource parameter is not set'',
      fail_if (InitialAssetWeight i = None) ''InitialAssetWeight parameter is not set'',
      fail_if (MaintenanceAssetWeight i = None) ''MaintenanceAssetWeight parameter is not set'',
      fail_if (InitialLiabilityWeight i = None) ''InitialLiabilityWeight parameter is not set'',
      fail_if (MaintenanceLiabilityWeight i = None) ''MaintenanceLiabilityWeight parameter is not set'',
      fail_if (ImfFactor i = None) ''ImfFactor parameter is not set'',
      fail_if (LiquidatorFee i = None) ''LiquidatorFee parameter is not set'',
      fail_if (IfLiquidationFee i = None) ''IfLiquidationFee parameter is not set'',
      fail_if (ActiveStatus i = None) ''ActiveStatus parameter is not set'',
      fail_if (AssetTier i = None) ''AssetTier parameter is not set'',
      fail_if (ScaleInitialAssetWeightStart i = None) ''ScaleInitialAssetWeightStart parameter is not set'',
      fail_if (WithdrawGuardThreshold i = None) ''WithdrawGuardThreshold parameter is not set'',
      fail_if (OrderTickSize i = None) ''OrderTickSize parameter is not set'',
      fail_if (OrderStepSize i = None) ''OrderStepSize parameter is not set'',
      fail_if (IfTotalFactor i = None) ''IfTotalFactor parameter is not set'',
      fail_if (Name i = None) ''Name parameter is not set''] @
     slot_checks Drift_InitializeSpotMarket_slots 0 (accounts i))"

definition marshal_Drift_InitializeSpotMarket :: "bytes res \<Rightarrow> bin_lib \<Rightarrow> Drift_InitializeSpotMarket \<Rightarrow> bytes res" where
  "marshal_Drift_InitializeSpotMarket nil L i = enc_seq
     [put_param nil (put_u32 L) (OptimalUtilization i), put_param nil (put_u32 L) (OptimalBorrowRate i),
      put_param nil (put_u32 L) (MaxBorrowRate i), put_param nil (put_u8 L) (OracleSource i),
      put_param nil (put_u32 L) (InitialAssetWeight i),
      put_param nil (put_u32 L) (MaintenanceAssetWeight i),
      put_param nil (put_u32 L) (InitialLiabilityWeight i),
      put_param nil (put_u32 L) (MaintenanceLiabilityWeight i), put_param nil (put_u32 L) (ImfFactor i),
      put_param nil (put_u32 L) (LiquidatorFee i), put_param nil (put_u32 L) (IfLiquidationFee i),
      put_param nil (put_bool L) (ActiveStatus i), put_param nil (put_u8 L) (AssetTier i),
      put_param nil (put_u64 L) (ScaleInitialAssetWeightStart i),
      put_param nil (put_u64 L) (WithdrawGuardThreshold i), put_param nil (put_u64 L) (OrderTickSize i),
      put_param nil (put_u64 L) (OrderStepSize i), put_param nil (put_u32 L) (IfTotalFactor i),
      put_param nil (put_array (put_u8 L)) (Name i)]"

definition unmarshal_Drift_InitializeSpotMarket :: "bin_lib \<Rightarrow> Drift_InitializeSpotMarket reader" where
  "unmarshal_Drift_InitializeSpotMarket L = dec_all
     [sub_field (read_ptr 0 (prim (get_u32 L))) OptimalUtilization OptimalUtilization_update,
      sub_field (read_ptr 0 (prim (get_u32 L))) OptimalBorrowRate OptimalBorrowRate_update,
      sub_field (read_ptr 0 (prim (get_u32 L))) MaxBorrowRate MaxBorrowRate_update,
      sub_field (read_ptr 0 (prim (get_u8 L))) OracleSource OracleSource_update,
      sub_field (read_ptr 0 (prim (get_u32 L))) InitialAssetWeight InitialAssetWeight_update,
      sub_field (read_ptr 0 (prim (get_u32 L))) MaintenanceAssetWeight MaintenanceAssetWeight_update,
      sub_field (read_ptr 0 (prim (get_u32 L))) InitialLiabilityWeight InitialLiabilityWeight_update,
      sub_field (read_ptr 0 (prim (get_u32 L))) MaintenanceLiabilityWeight MaintenanceLiabilityWeight_update,
      sub_field (read_ptr 0 (prim (get_u32 L))) ImfFactor ImfFactor_update,
      sub_field (read_ptr 0 (prim (get_u32 L))) LiquidatorFee LiquidatorFee_update,
      sub_field (read_ptr 0 (prim (get_u32 L))) IfLiquidationFee IfLiquidationFee_update,
      sub_field (read_ptr False (prim (get_bool L))) ActiveStatus ActiveStatus_update,
      sub_field (read_ptr 0 (prim (get_u8 L))) AssetTier AssetTier_update,
      sub_field (read_ptr 0 (prim (get_u64 L))) ScaleInitialAssetWeightStart ScaleInitialAssetWeightStart_update,
      sub_field (read_ptr 0 (prim (get_u64 L))) WithdrawGuardThreshold WithdrawGuardThreshold_update,
      sub_field (read_ptr 0 (prim (get_u64 L))) OrderTickSize OrderTickSize_update,
      sub_field (read_ptr 0 (prim (get_u64 L))) OrderStepSize OrderStepSize_update,
      sub_field (read_ptr 0 (prim (get_u32 L))) IfTotalFactor IfTotalFactor_update,
      sub_field (read_ptr (replicate 32 0) (read_each (prim (get_u8 L)))) Name Name_update]"

definition new_Drift_InitializeSpotMarket ::
   "32 word \<Rightarrow> 32 word \<Rightarrow> 32 word \<Rightarrow> OracleSource \<Rightarrow>
   32 word \<Rightarrow> 32 word \<Rightarrow> 32 word \<Rightarrow> 32 word \<Rightarrow>
   32 word \<Rightarrow> 32 word \<Rightarrow> 32 word \<Rightarrow> bool \<Rightarrow>
   AssetTier \<Rightarrow> 64 word \<Rightarrow> 64 word \<Rightarrow> 64 word \<Rightarrow>
   64 word \<Rightarrow> 32 word \<Rightarrow> (8 word) list \<Rightarrow> bytes \<Rightarrow>
   bytes \<Rightarrow> bytes \<Rightarrow> bytes \<Rightarrow> bytes \<Rightarrow> bytes \<Rightarrow>
   bytes \<Rightarrow> bytes \<Rightarrow> bytes \<Rightarrow> bytes \<Rightarrow> bytes \<Rightarrow>
   Drift_InitializeSpotMarket res" where
  "new_Drift_InitializeSpotMarket
      optimalUtilization optimalBorrowRate maxBorrowRate oracleSource initialAssetWeight
      maintenanceAssetWeight initialLiabilityWeight maintenanceLiabilityWeight imfFactor liquidatorFee
      ifLiquidationFee activeStatus assetTier scaleInitialAssetWeightStart withdrawGuardThreshold
      orderTickSize orderStepSize ifTotalFactor name spotMarket spotMarketMint spotMarketVault
      insuranceFundVault driftSigner state oracle admin rent systemProgram tokenProgram =
     (let i = Drift_InitializeSpotMarket_SetName name (
        Drift_InitializeSpotMarket_SetIfTotalFactor ifTotalFactor (
        Drift_InitializeSpotMarket_SetOrderStepSize orderStepSize (
        Drift_InitializeSpotMarket_SetOrderTickSize orderTickSize (
        Drift_InitializeSpotMarket_SetWithdrawGuardThreshold withdrawGuardThreshold (
        Drift_InitializeSpotMarket_SetScaleInitialAssetWeightStart scaleInitialAssetWeightStart (
        Drift_InitializeSpotMarket_SetAssetTier assetTier (
        Drift_InitializeSpotMarket_SetActiveStatus activeStatus (
        Drift_InitializeSpotMarket_SetIfLiquidationFee ifLiquidationFee (
        Drift_InitializeSpotMarket_SetLiquidatorFee liquidatorFee (
        Drift_InitializeSpotMarket_SetImfFactor imfFactor (
        Drift_InitializeSpotMarket_SetMaintenanceLiabilityWeight maintenanceLiabilityWeight (
        Drift_InitializeSpotMarket_SetInitialLiabilityWeight initialLiabilityWeight (
        Drift_InitializeSpotMarket_SetMaintenanceAssetWeight maintenanceAssetWeight (
        Drift_InitializeSpotMarket_SetInitialAssetWeight initialAssetWeight (
        Drift_InitializeSpotMarket_SetOracleSource oracleSource (
        Drift_InitializeSpotMarket_SetMaxBorrowRate maxBorrowRate (
        Drift_InitializeSpotMarket_SetOptimalBorrowRate optimalBorrowRate (
        Drift_InitializeSpotMarket_SetOptimalUtilization optimalUtilization Drift_InitializeSpotMarket_builder))))))))))))))))))
      in bind_res (set_accounts_from Drift_InitializeSpotMarket_slots 0
           [spotMarket, spotMarketMint, spotMarketVault, insuranceFundVault, driftSigner, state, oracle,
            admin, rent, systemProgram, tokenProgram]
           (accounts i)) (\<lambda>as. Inr (i\<lparr>accounts := as\<rparr>)))"

definition wf_Drift_InitializeSpotMarket :: "Drift_InitializeSpotMarket \<Rightarrow> bool" where
  "wf_Drift_InitializeSpotMarket i \<longleftrightarrow> (\<forall>v \<in> set_option (Name i). length v = 32)"

subsection \<open>\<open>InitializePerpMarket\<close>\<close>

record Drift_InitializePerpMarket =
  MarketIndex :: "(16 word) option"
  AmmBaseAssetReserve :: "(128 word) option"
  AmmQuoteAssetReserve :: "(128 word) option"
  AmmPeriodicity :: "(64 word) option"
  AmmPegMultiplier :: "(128 word) option"
  OracleSource :: "OracleSource option"
  ContractTier :: "ContractTier option"
  MarginRatioInitial :: "(32 word) option"
  MarginRatioMaintenance :: "(32 word) option"
  LiquidatorFee :: "(32 word) option"
  IfLiquidationFee :: "(32 word) option"
  ImfFactor :: "(32 word) option"
  ActiveStatus :: "bool option"
  BaseSpread :: "(32 word) option"
  MaxSpread :: "(32 word) option"
  MaxOpenInterest :: "(128 word) option"
  MaxRevenueWithdrawPerPeriod :: "(64 word) option"
  QuoteMaxInsurance :: "(64 word) option"
  OrderStepSize :: "(64 word) option"
  OrderTickSize :: "(64 word) option"
  MinOrderSize :: "(64 word) option"
  ConcentrationCoefScale :: "(128 word) option"
  CurveUpdateIntensity :: "(8 word) option"
  AmmJitIntensity :: "(8 word) option"
  Name :: "((8 word) list) option"
  accounts :: metas

definition Drift_InitializePerpMarket_slots :: "slot list" where
  "Drift_InitializePerpMarket_slots =
     [slot_rw_sign ''Admin'', slot_rw ''State'', slot_rw ''PerpMarket'', slot_ro ''Oracle'',
      slot_ro ''Rent'', slot_ro ''SystemProgram'']"

definition Drift_InitializePerpMarket_zero :: Drift_InitializePerpMarket where
  "Drift_InitializePerpMarket_zero =
     \<lparr>MarketIndex = None, AmmBaseAssetReserve = None, AmmQuoteAssetReserve = None,
       AmmPeriodicity = None, AmmPegMultiplier = None, OracleSource = None, ContractTier = None,
       MarginRatioInitial = None, MarginRatioMaintenance = None, LiquidatorFee = None,
       IfLiquidationFee = None, ImfFactor = None, ActiveStatus = None, BaseSpread = None,
       MaxSpread = None, MaxOpenInterest = None, MaxRevenueWithdrawPerPeriod = None,
       QuoteMaxInsurance = None, OrderStepSize = None, OrderTickSize = None, MinOrderSize = None,
       ConcentrationCoefScale = None, CurveUpdateIntensity = None, AmmJitIntensity = None, Name = None,
       accounts = []\<rparr>"

definition Drift_InitializePerpMarket_builder :: Drift_InitializePerpMarket where
  "Drift_InitializePerpMarket_builder = Drift_InitializePerpMarket_zero\<lparr>accounts := replicate 6 None\<rparr>"

definition Drift_InitializePerpMarket_SetMarketIndex :: "16 word \<Rightarrow> Drift_InitializePerpMarket \<Rightarrow> Drift_InitializePerpMarket" where
  "Drift_InitializePerpMarket_SetMarketIndex v i = i\<lparr>MarketIndex := Some v\<rparr>"

definition Drift_InitializePerpMarket_SetAmmBaseAssetReserve :: "128 word \<Rightarrow> Drift_InitializePerpMarket \<Rightarrow> Drift_InitializePerpMarket" where
  "Drift_InitializePerpMarket_SetAmmBaseAssetReserve v i = i\<lparr>AmmBaseAssetReserve := Some v\<rparr>"

definition Drift_InitializePerpMarket_SetAmmQuoteAssetReserve :: "128 word \<Rightarrow> Drift_InitializePerpMarket \<Rightarrow> Drift_InitializePerpMarket" where
  "Drift_InitializePerpMarket_SetAmmQuoteAssetReserve v i = i\<lparr>AmmQuoteAssetReserve := Some v\<rparr>"

definition Drift_InitializePerpMarket_SetAmmPeriodicity :: "64 word \<Rightarrow> Drift_InitializePerpMarket \<Rightarrow> Drift_InitializePerpMarket" where
  "Drift_InitializePerpMarket_SetAmmPeriodicity v i = i\<lparr>AmmPeriodicity := Some v\<rparr>"

definition Drift_InitializePerpMarket_SetAmmPegMultiplier :: "128 word \<Rightarrow> Drift_InitializePerpMarket \<Rightarrow> Drift_InitializePerpMarket" where
  "Drift_InitializePerpMarket_SetAmmPegMultiplier v i = i\<lparr>AmmPegMultiplier := Some v\<rparr>"

definition Drift_InitializePerpMarket_SetOracleSource :: "OracleSource \<Rightarrow> Drift_InitializePerpMarket \<Rightarrow> Drift_InitializePerpMarket" where
  "Drift_InitializePerpMarket_SetOracleSource v i = i\<lparr>OracleSource := Some v\<rparr>"

definition Drift_InitializePerpMarket_SetContractTier :: "ContractTier \<Rightarrow> Drift_InitializePerpMarket \<Rightarrow> Drift_InitializePerpMarket" where
  "Drift_InitializePerpMarket_SetContractTier v i = i\<lparr>ContractTier := Some v\<rparr>"

definition Drift_InitializePerpMarket_SetMarginRatioInitial :: "32 word \<Rightarrow> Drift_InitializePerpMarket \<Rightarrow> Drift_InitializePerpMarket" where
  "Drift_InitializePerpMarket_SetMarginRatioInitial v i = i\<lparr>MarginRatioInitial := Some v\<rparr>"

definition Drift_InitializePerpMarket_SetMarginRatioMaintenance :: "32 word \<Rightarrow> Drift_InitializePerpMarket \<Rightarrow> Drift_InitializePerpMarket" where
  "Drift_InitializePerpMarket_SetMarginRatioMaintenance v i = i\<lparr>MarginRatioMaintenance := Some v\<rparr>"

definition Drift_InitializePerpMarket_SetLiquidatorFee :: "32 word \<Rightarrow> Drift_InitializePerpMarket \<Rightarrow> Drift_InitializePerpMarket" where
  "Drift_InitializePerpMarket_SetLiquidatorFee v i = i\<lparr>LiquidatorFee := Some v\<rparr>"

definition Drift_InitializePerpMarket_SetIfLiquidationFee :: "32 word \<Rightarrow> Drift_InitializePerpMarket \<Rightarrow> Drift_InitializePerpMarket" where
  "Drift_InitializePerpMarket_SetIfLiquidationFee v i = i\<lparr>IfLiquidationFee := Some v\<rparr>"

definition Drift_InitializePerpMarket_SetImfFactor :: "32 word \<Rightarrow> Drift_InitializePerpMarket \<Rightarrow> Drift_InitializePerpMarket" where
  "Drift_InitializePerpMarket_SetImfFactor v i = i\<lparr>ImfFactor := Some v\<rparr>"

definition Drift_InitializePerpMarket_SetActiveStatus :: "bool \<Rightarrow> Drift_InitializePerpMarket \<Rightarrow> Drift_InitializePerpMarket" where
  "Drift_InitializePerpMarket_SetActiveStatus v i = i\<lparr>ActiveStatus := Some v\<rparr>"

definition Drift_InitializePerpMarket_SetBaseSpread :: "32 word \<Rightarrow> Drift_InitializePerpMarket \<Rightarrow> Drift_InitializePerpMarket" where
  "Drift_InitializePerpMarket_SetBaseSpread v i = i\<lparr>BaseSpread := Some v\<rparr>"

definition Drift_InitializePerpMarket_SetMaxSpread :: "32 word \<Rightarrow> Drift_InitializePerpMarket \<Rightarrow> Drift_InitializePerpMarket" where
  "Drift_InitializePerpMarket_SetMaxSpread v i = i\<lparr>MaxSpread := Some v\<rparr>"

definition Drift_InitializePerpMarket_SetMaxOpenInterest :: "128 word \<Rightarrow> Drift_InitializePerpMarket \<Rightarrow> Drift_InitializePerpMarket" where
  "Drift_InitializePerpMarket_SetMaxOpenInterest v i = i\<lparr>MaxOpenInterest := Some v\<rparr>"

definition Drift_InitializePerpMarket_SetMaxRevenueWithdrawPerPeriod :: "64 word \<Rightarrow> Drift_InitializePerpMarket \<Rightarrow> Drift_InitializePerpMarket" where
  "Drift_InitializePerpMarket_SetMaxRevenueWithdrawPerPeriod v i = i\<lparr>MaxRevenueWithdrawPerPeriod := Some v\<rparr>"

definition Drift_InitializePerpMarket_SetQuoteMaxInsurance :: "64 word \<Rightarrow> Drift_InitializePerpMarket \<Rightarrow> Drift_InitializePerpMarket" where
  "Drift_InitializePerpMarket_SetQuoteMaxInsurance v i = i\<lparr>QuoteMaxInsurance := Some v\<rparr>"

definition Drift_InitializePerpMarket_SetOrderStepSize :: "64 word \<Rightarrow> Drift_InitializePerpMarket \<Rightarrow> Drift_InitializePerpMarket" where
  "Drift_InitializePerpMarket_SetOrderStepSize v i = i\<lparr>OrderStepSize := Some v\<rparr>"

definition Drift_InitializePerpMarket_SetOrderTickSize :: "64 word \<Rightarrow> Drift_InitializePerpMarket \<Rightarrow> Drift_InitializePerpMarket" where
  "Drift_InitializePerpMarket_SetOrderTickSize v i = i\<lparr>OrderTickSize := Some v\<rparr>"

definition Drift_InitializePerpMarket_SetMinOrderSize :: "64 word \<Rightarrow> Drift_InitializePerpMarket \<Rightarrow> Drift_InitializePerpMarket" where
  "Drift_InitializePerpMarket_SetMinOrderSize v i = i\<lparr>MinOrderSize := Some v\<rparr>"

definition Drift_InitializePerpMarket_SetConcentrationCoefScale :: "128 word \<Rightarrow> Drift_InitializePerpMarket \<Rightarrow> Drift_InitializePerpMarket" where
  "Drift_InitializePerpMarket_SetConcentrationCoefScale v i = i\<lparr>ConcentrationCoefScale := Some v\<rparr>"

definition Drift_InitializePerpMarket_SetCurveUpdateIntensity :: "8 word \<Rightarrow> Drift_InitializePerpMarket \<Rightarrow> Drift_InitializePerpMarket" where
  "Drift_InitializePerpMarket_SetCurveUpdateIntensity v i = i\<lparr>CurveUpdateIntensity := Some v\<rparr>"

definition Drift_InitializePerpMarket_SetAmmJitIntensity :: "8 word \<Rightarrow> Drift_InitializePerpMarket \<Rightarrow> Drift_InitializePerpMarket" where
  "Drift_InitializePerpMarket_SetAmmJitIntensity v i = i\<lparr>AmmJitIntensity := Some v\<rparr>"

definition Drift_InitializePerpMarket_SetName :: "(8 word) list \<Rightarrow> Drift_InitializePerpMarket \<Rightarrow> Drift_InitializePerpMarket" where
  "Drift_InitializePerpMarket_SetName v i = i\<lparr>Name := Some v\<rparr>"

definition Drift_InitializePerpMarket_Validate :: "Drift_InitializePerpMarket \<Rightarrow> unit res" where
  "Drift_InitializePerpMarket_Validate i = first_error (
     [fail_if (MarketIndex i = None) ''MarketIndex parameter is not set'',
      fail_if (AmmBaseAssetReserve i = None) ''AmmBaseAssetReserve parameter is not set'',
      fail_if (AmmQuoteAssetReserve i = None) ''AmmQuoteAssetReserve parameter is not set'',
      fail_if (AmmPeriodicity i = None) ''AmmPeriodicity parameter is not set'',
      fail_if (AmmPegMultiplier i = None) ''AmmPegMultiplier parameter is not set'',
      fail_if (OracleSource i = None) ''OracleSource parameter is not set'',
      fail_if (ContractTier i = None) ''ContractTier parameter is not set'',
      fail_if (MarginRatioInitial i = None) ''MarginRatioInitial parameter is not set'',
      fail_if (MarginRatioMaintenance i = None) ''MarginRatioMaintenance parameter is not set'',
      fail_if (LiquidatorFee i = None) ''LiquidatorFee parameter is not set'',
      fail_if (IfLiquidationFee i = None) ''IfLiquidationFee parameter is not set'',
      fail_if (ImfFactor i = None) ''ImfFactor parameter is not set'',
      fail_if (ActiveStatus i = None) ''ActiveStatus parameter is not set'',
      fail_if (BaseSpread i = None) ''BaseSpread parameter is not set'',
      fail_if (MaxSpread i = None) ''MaxSpread parameter is not set'',
      fail_if (MaxOpenInterest i = None) ''MaxOpenInterest parameter is not set'',
      fail_if (MaxRevenueWithdrawPerPeriod i = None) ''MaxRevenueWithdrawPerPeriod parameter is not set'',
      fail_if (QuoteMaxInsurance i = None) ''QuoteMaxInsurance parameter is not set'',
      fail_if (OrderStepSize i = None) ''OrderStepSize parameter is not set'',
      fail_if (OrderTickSize i = None) ''OrderTickSize parameter is not set'',
      fail_if (MinOrderSize i = None) ''MinOrderSize parameter is not set'',
      fail_if (ConcentrationCoefScale i = None) ''ConcentrationCoefScale parameter is not set'',
      fail_if (CurveUpdateIntensity i = None) ''CurveUpdateIntensity parameter is not set'',
      fail_if (AmmJitIntensity i = None) ''AmmJitIntensity parameter is not set'',
      fail_if (Name i = None) ''Name parameter is not set''] @
     slot_checks Drift_InitializePerpMarket_slots 0 (accounts i))"

definition marshal_Drift_InitializePerpMarket :: "bytes res \<Rightarrow> bin_lib \<Rightarrow> Drift_InitializePerpMarket \<Rightarrow> bytes res" where
  "marshal_Drift_InitializePerpMarket nil L i = enc_seq
     [put_param nil (put_u16 L) (MarketIndex i), put_param nil (put_u128 L) (AmmBaseAssetReserve i),
      put_param nil (put_u128 L) (AmmQuoteAssetReserve i), put_param nil (put_u64 L) (AmmPeriodicity i),
      put_param nil (put_u128 L) (AmmPegMultiplier i), put_param nil (put_u8 L) (OracleSource i),
      put_param nil (put_u8 L) (ContractTier i), put_param nil (put_u32 L) (MarginRatioInitial i),
      put_param nil (put_u32 L) (MarginRatioMaintenance i), put_param nil (put_u32 L) (LiquidatorFee i),
      put_param nil (put_u32 L) (IfLiquidationFee i), put_param nil (put_u32 L) (ImfFactor i),
      put_param nil (put_bool L) (ActiveStatus i), put_param nil (put_u32 L) (BaseSpread i),
      put_param nil (put_u32 L) (MaxSpread i), put_param nil (put_u128 L) (MaxOpenInterest i),
      put_param nil (put_u64 L) (MaxRevenueWithdrawPerPeriod i),
      put_param nil (put_u64 L) (QuoteMaxInsurance i), put_param nil (put_u64 L) (OrderStepSize i),
      put_param nil (put_u64 L) (OrderTickSize i), put_param nil (put_u64 L) (MinOrderSize i),
      put_param nil (put_u128 L) (ConcentrationCoefScale i),
      put_param nil (put_u8 L) (CurveUpdateIntensity i), put_param nil (put_u8 L) (AmmJitIntensity i),
      put_param nil (put_array (put_u8 L)) (Name i)]"

definition unmarshal_Drift_InitializePerpMarket :: "bin_lib \<Rightarrow> Drift_InitializePerpMarket reader" where
  "unmarshal_Drift_InitializePerpMarket L = dec_all
     [sub_field (read_ptr 0 (prim (get_u16 L))) MarketIndex MarketIndex_update,
      sub_field (read_ptr 0 (prim (get_u128 L))) AmmBaseAssetReserve AmmBaseAssetReserve_update,
      sub_field (read_ptr 0 (prim (get_u128 L))) AmmQuoteAssetReserve AmmQuoteAssetReserve_update,
      sub_field (read_ptr 0 (prim (get_u64 L))) AmmPeriodicity AmmPeriodicity_update,
      sub_field (read_ptr 0 (prim (get_u128 L))) AmmPegMultiplier AmmPegMultiplier_update,
      sub_field (read_ptr 0 (prim (get_u8 L))) OracleSource OracleSource_update,
      sub_field (read_ptr 0 (prim (get_u8 L))) ContractTier ContractTier_update,
      sub_field (read_ptr 0 (prim (get_u32 L))) MarginRatioInitial MarginRatioInitial_update,
      sub_field (read_ptr 0 (prim (get_u32 L))) MarginRatioMaintenance MarginRatioMaintenance_update,
      sub_field (read_ptr 0 (prim (get_u32 L))) LiquidatorFee LiquidatorFee_update,
      sub_field (read_ptr 0 (prim (get_u32 L))) IfLiquidationFee IfLiquidationFee_update,
      sub_field (read_ptr 0 (prim (get_u32 L))) ImfFactor ImfFactor_update,
      sub_field (read_ptr False (prim (get_bool L))) ActiveStatus ActiveStatus_update,
      sub_field (read_ptr 0 (prim (get_u32 L))) BaseSpread BaseSpread_update,
      sub_field (read_ptr 0 (prim (get_u32 L))) MaxSpread MaxSpread_update,
      sub_field (read_ptr 0 (prim (get_u128 L))) MaxOpenInterest MaxOpenInterest_update,
      sub_field (read_ptr 0 (prim (get_u64 L))) MaxRevenueWithdrawPerPeriod MaxRevenueWithdrawPerPeriod_update,
      sub_field (read_ptr 0 (prim (get_u64 L))) QuoteMaxInsurance QuoteMaxInsurance_update,
      sub_field (read_ptr 0 (prim (get_u64 L))) OrderStepSize OrderStepSize_update,
      sub_field (read_ptr 0 (prim (get_u64 L))) OrderTickSize OrderTickSize_update,
      sub_field (read_ptr 0 (prim (get_u64 L))) MinOrderSize MinOrderSize_update,
      sub_field (read_ptr 0 (prim (get_u128 L))) ConcentrationCoefScale ConcentrationCoefScale_update,
      sub_field (read_ptr 0 (prim (get_u8 L))) CurveUpdateIntensity CurveUpdateIntensity_update,
      sub_field (read_ptr 0 (prim (get_u8 L))) AmmJitIntensity AmmJitIntensity_update,
      sub_field (read_ptr (replicate 32 0) (read_each (prim (get_u8 L)))) Name Name_update]"

definition new_Drift_InitializePerpMarket ::
   "16 word \<Rightarrow> 128 word \<Rightarrow> 128 word \<Rightarrow> 64 word \<Rightarrow>
   128 word \<Rightarrow> OracleSource \<Rightarrow> ContractTier \<Rightarrow> 32 word \<Rightarrow>
   32 word \<Rightarrow> 32 word \<Rightarrow> 32 word \<Rightarrow> 32 word \<Rightarrow>
   bool \<Rightarrow> 32 word \<Rightarrow> 32 word \<Rightarrow> 128 word \<Rightarrow>
   64 word \<Rightarrow> 64 word \<Rightarrow> 64 word \<Rightarrow> 64 word \<Rightarrow>
   64 word \<Rightarrow> 128 word \<Rightarrow> 8 word \<Rightarrow> 8 word \<Rightarrow>
   (8 word) list \<Rightarrow> bytes \<Rightarrow> bytes \<Rightarrow> bytes \<Rightarrow>
   bytes \<Rightarrow> bytes \<Rightarrow> bytes \<Rightarrow> Drift_InitializePerpMarket res" where
  "new_Drift_InitializePerpMarket
      marketIndex ammBaseAssetReserve ammQuoteAssetReserve ammPeriodicity ammPegMultiplier oracleSource
      contractTier marginRatioInitial marginRatioMaintenance liquidatorFee ifLiquidationFee imfFactor
      activeStatus baseSpread maxSpread maxOpenInterest maxRevenueWithdrawPerPeriod quoteMaxInsurance
      orderStepSize orderTickSize minOrderSize concentrationCoefScale curveUpdateIntensity
      ammJitIntensity name admin state perpMarket oracle rent systemProgram =
     (let i = Drift_InitializePerpMarket_SetName name (
        Drift_InitializePerpMarket_SetAmmJitIntensity ammJitIntensity (
        Drift_InitializePerpMarket_SetCurveUpdateIntensity curveUpdateIntensity (
        Drift_InitializePerpMarket_SetConcentrationCoefScale concentrationCoefScale (
        Drift_InitializePerpMarket_SetMinOrderSize minOrderSize (
        Drift_InitializePerpMarket_SetOrderTickSize orderTickSize (
        Drift_InitializePerpMarket_SetOrderStepSize orderStepSize (
        Drift_InitializePerpMarket_SetQuoteMaxInsurance quoteMaxInsurance (
        Drift_InitializePerpMarket_SetMaxRevenueWithdrawPerPeriod maxRevenueWithdrawPerPeriod (
        Drift_InitializePerpMarket_SetMaxOpenInterest maxOpenInterest (
        Drift_InitializePerpMarket_SetMaxSpread maxSpread (
        Drift_InitializePerpMarket_SetBaseSpread baseSpread (
        Drift_InitializePerpMarket_SetActiveStatus activeStatus (
        Drift_InitializePerpMarket_SetImfFactor imfFactor (
        Drift_InitializePerpMarket_SetIfLiquidationFee ifLiquidationFee (
        Drift_InitializePerpMarket_SetLiquidatorFee liquidatorFee (
        Drift_InitializePerpMarket_SetMarginRatioMaintenance marginRatioMaintenance (
        Drift_InitializePerpMarket_SetMarginRatioInitial marginRatioInitial (
        Drift_InitializePerpMarket_SetContractTier contractTier (
        Drift_InitializePerpMarket_SetOracleSource oracleSource (
        Drift_InitializePerpMarket_SetAmmPegMultiplier ammPegMultiplier (
        Drift_InitializePerpMarket_SetAmmPeriodicity ammPeriodicity (
        Drift_InitializePerpMarket_SetAmmQuoteAssetReserve ammQuoteAssetReserve (
        Drift_InitializePerpMarket_SetAmmBaseAssetReserve ammBaseAssetReserve (
        Drift_InitializePerpMarket_SetMarketIndex marketIndex Drift_InitializePerpMarket_builder))))))))))))))))))))))))
      in bind_res (set_accounts_from Drift_InitializePerpMarket_slots 0
           [admin, state, perpMarket, oracle, rent, systemProgram]
           (accounts i)) (\<lambda>as. Inr (i\<lparr>accounts := as\<rparr>)))"

definition wf_Drift_InitializePerpMarket :: "Drift_InitializePerpMarket \<Rightarrow> bool" where
  "wf_Drift_InitializePerpMarket i \<longleftrightarrow> (\<forall>v \<in> set_option (Name i). length v = 32)"

section \<open>Instruction data\<close>

definition drift_id_InitializeUser :: bytes where "drift_id_InitializeUser = [111, 17, 185, 250, 60, 122, 38, 254]"
definition drift_id_InitializeUserStats :: bytes where "drift_id_InitializeUserStats = [254, 243, 72, 98, 251, 130, 168, 213]"
definition drift_id_Deposit :: bytes where "drift_id_Deposit = [242, 35, 198, 137, 82, 225, 242, 182]"
definition drift_id_Withdraw :: bytes where "drift_id_Withdraw = [183, 18, 70, 156, 148, 109, 161, 34]"
definition drift_id_PlacePerpOrder :: bytes where "drift_id_PlacePerpOrder = [69, 161, 93, 202, 120, 126, 76, 185]"
definition drift_id_PlaceAndMakePerpOrder :: bytes where "drift_id_PlaceAndMakePerpOrder = [149, 117, 11, 237, 47, 95, 89, 237]"
definition drift_id_PlaceSpotOrder :: bytes where "drift_id_PlaceSpotOrder = [45, 79, 81, 160, 248, 90, 91, 220]"
definition drift_id_PlaceAndMakeSpotOrder :: bytes where "drift_id_PlaceAndMakeSpotOrder = [149, 158, 85, 66, 239, 9, 243, 98]"
definition drift_id_FillPerpOrder :: bytes where "drift_id_FillPerpOrder = [13, 188, 248, 103, 134, 217, 106, 240]"
definition drift_id_FillSpotOrder :: bytes where "drift_id_FillSpotOrder = [212, 206, 130, 173, 21, 34, 199, 40]"
definition drift_id_Initialize :: bytes where "drift_id_Initialize = [175, 175, 109, 31, 13, 152, 155, 237]"
definition drift_id_InitializeSpotMarket :: bytes where "drift_id_InitializeSpotMarket = [234, 196, 128, 44, 94, 15, 48, 201]"
definition drift_id_InitializePerpMarket :: bytes where "drift_id_InitializePerpMarket = [132, 9, 229, 118, 117, 118, 117, 62]"

definition drift_instruction_ids :: "(string \<times> bytes) list" where
  "drift_instruction_ids =
     [(''InitializeUser'', drift_id_InitializeUser),
      (''InitializeUserStats'', drift_id_InitializeUserStats),
      (''InitializeReferrerName'', [235, 126, 231, 10, 42, 164, 26, 61]),
      (''Deposit'', drift_id_Deposit), (''Withdraw'', drift_id_Withdraw),
      (''TransferDeposit'', [20, 20, 147, 223, 41, 63, 204, 111]),
      (''PlacePerpOrder'', drift_id_PlacePerpOrder),
      (''CancelOrder'', [95, 129, 237, 240, 8, 49, 223, 132]),
      (''CancelOrderByUserId'', [107, 211, 250, 133, 18, 37, 57, 100]),
      (''CancelOrders'', [238, 225, 95, 158, 227, 103, 8, 194]),
      (''CancelOrdersByIds'', [134, 19, 144, 165, 94, 240, 210, 94]),
      (''ModifyOrder'', [47, 124, 117, 255, 201, 197, 130, 94]),
      (''ModifyOrderByUserId'', [158, 77, 4, 253, 252, 194, 161, 179]),
      (''PlaceAndTakePerpOrder'', [213, 51, 1, 187, 108, 220, 230, 224]),
      (''PlaceAndMakePerpOrder'', drift_id_PlaceAndMakePerpOrder),
      (''PlaceSpotOrder'', drift_id_PlaceSpotOrder),
      (''PlaceAndTakeSpotOrder'', [191, 3, 138, 71, 114, 198, 202, 100]),
      (''PlaceAndMakeSpotOrder'', drift_id_PlaceAndMakeSpotOrder),
      (''PlaceOrders'', [60, 63, 50, 123, 12, 197, 60, 190]),
      (''BeginSwap'', [174, 109, 228, 1, 242, 105, 232, 105]),
      (''EndSwap'', [177, 184, 27, 193, 34, 13, 210, 145]),
      (''AddPerpLpShares'', [56, 209, 56, 197, 119, 254, 188, 117]),
      (''RemovePerpLpShares'', [213, 89, 217, 18, 160, 55, 53, 141]),
      (''RemovePerpLpSharesInExpiringMarket'', [83, 254, 253, 137, 59, 122, 68, 156]),
      (''UpdateUserName'', [135, 25, 185, 56, 165, 53, 34, 136]),
      (''UpdateUserCustomMarginRatio'', [21, 221, 140, 187, 32, 129, 11, 123]),
      (''UpdateUserMarginTradingEnabled'', [194, 92, 204, 223, 246, 188, 31, 203]),
      (''UpdateUserDelegate'', [139, 205, 141, 141, 113, 36, 94, 187]),
      (''UpdateUserReduceOnly'', [199, 71, 42, 67, 144, 19, 86, 109]),
      (''UpdateUserAdvancedLp'', [66, 80, 107, 186, 27, 242, 66, 95]),
      (''DeleteUser'', [186, 85, 17, 249, 219, 231, 98, 251]),
      (''ReclaimRent'', [218, 200, 19, 197, 227, 89, 192, 22]),
      (''FillPerpOrder'', drift_id_FillPerpOrder),
      (''RevertFill'', [236, 238, 176, 69, 239, 10, 181, 193]),
      (''FillSpotOrder'', drift_id_FillSpotOrder),
      (''TriggerOrder'', [63, 112, 51, 233, 232, 47, 240, 199]),
      (''ForceCancelOrders'', [64, 181, 196, 63, 222, 72, 64, 232]),
      (''UpdateUserIdle'', [253, 133, 67, 22, 103, 161, 20, 100]),
      (''UpdateUserOpenOrdersCount'', [104, 39, 65, 210, 250, 163, 100, 134]),
      (''AdminDisableUpdatePerpBidAskTwap'', [17, 164, 82, 45, 183, 86, 191, 199]),
      (''SettlePnl'', [43, 61, 234, 45, 15, 95, 152, 153]),
      (''SettleMultiplePnls'', [127, 66, 117, 57, 40, 50, 152, 127]),
      (''SettleFundingPayment'', [222, 90, 202, 94, 28, 45, 115, 183]),
      (''SettleLp'', [155, 231, 116, 113, 97, 229, 139, 141]),
      (''SettleExpiredMarket'', [120, 89, 11, 25, 122, 77, 72, 193]),
      (''LiquidatePerp'', [75, 35, 119, 247, 191, 18, 139, 2]),
      (''LiquidatePerpWithFill'', [95, 111, 124, 105, 86, 169, 187, 34]),
      (''LiquidateSpot'', [107, 0, 128, 41, 35, 229, 251, 18]),
      (''LiquidateBorrowForPerpPnl'', [169, 17, 32, 90, 207, 148, 209, 27]),
      (''LiquidatePerpPnlForDeposit'', [237, 75, 198, 235, 233, 186, 75, 35]),
      (''ResolvePerpPnlDeficit'', [168, 204, 68, 150, 159, 126, 95, 148]),
      (''ResolvePerpBankruptcy'', [224, 16, 176, 214, 162, 213, 183, 222]),
      (''ResolveSpotBankruptcy'', [124, 194, 240, 254, 198, 213, 52, 122]),
      (''SettleRevenueToInsuranceFund'', [200, 120, 93, 136, 69, 38, 199, 159]),
      (''UpdateFundingRate'', [201, 178, 116, 212, 166, 144, 72, 238]),
      (''UpdatePrelaunchOracle'', [220, 132, 27, 27, 233, 220, 61, 219]),
      (''UpdatePerpBidAskTwap'', [247, 23, 255, 65, 212, 90, 221, 194]),
      (''UpdateSpotMarketCumulativeInterest'', [39, 166, 139, 243, 158, 165, 155, 225]),
      (''UpdateAmms'', [201, 106, 217, 253, 4, 175, 228, 97]),
      (''UpdateSpotMarketExpiry'', [208, 11, 211, 159, 226, 24, 11, 247]),
      (''UpdateUserQuoteAssetInsuranceStake'', [251, 101, 156, 7, 2, 63, 30, 23]),
      (''UpdateUserGovTokenInsuranceStake'', [143, 99, 235, 187, 20, 159, 184, 84]),
      (''InitializeInsuranceFundStake'', [187, 179, 243, 70, 248, 90, 92, 147]),
      (''AddInsuranceFundStake'', [251, 144, 115, 11, 222, 47, 62, 236]),
      (''RequestRemoveInsuranceFundStake'', [142, 70, 204, 92, 73, 106, 180, 52]),
      (''CancelRequestRemoveInsuranceFundStake'', [97, 235, 78, 62, 212, 42, 241, 127]),
      (''RemoveInsuranceFundStake'', [128, 166, 142, 9, 254, 187, 143, 174]),
      (''TransferProtocolIfShares'', [94, 93, 226, 240, 195, 201, 184, 109]),
      (''UpdatePythPullOracle'', [230, 191, 189, 94, 108, 59, 74, 197]),
      (''PostPythPullOracleUpdateAtomic'', [116, 122, 137, 158, 224, 195, 173, 119]),
      (''PostMultiPythPullOracleUpdatesAtomic'', [243, 79, 204, 228, 227, 208, 100, 244]),
      (''Initialize'', drift_id_Initialize), (''InitializeSpotMarket'', drift_id_InitializeSpotMarket),
      (''DeleteInitializedSpotMarket'', [31, 140, 67, 191, 189, 20, 101, 221]),
      (''InitializeSerumFulfillmentConfig'', [193, 211, 132, 172, 70, 171, 7, 94]),
      (''UpdateSerumFulfillmentConfigStatus'', [171, 109, 240, 251, 95, 1, 149, 89]),
      (''InitializeOpenbookV2FulfillmentConfig'', [7, 221, 103, 153, 107, 57, 27, 197]),
      (''OpenbookV2FulfillmentConfigStatus'', [25, 173, 19, 189, 4, 211, 64, 238]),
      (''InitializePhoenixFulfillmentConfig'', [135, 132, 110, 107, 185, 160, 169, 154]),
      (''PhoenixFulfillmentConfigStatus'', [96, 31, 113, 32, 12, 203, 7, 154]),
      (''UpdateSerumVault'', [219, 8, 246, 96, 169, 121, 91, 110]),
      (''InitializePerpMarket'', drift_id_InitializePerpMarket),
      (''InitializePredictionMarket'', [248, 70, 198, 224, 224, 105, 125, 195]),
      (''DeleteInitializedPerpMarket'', [91, 154, 24, 87, 106, 59, 190, 66]),
      (''MoveAmmPrice'', [235, 109, 2, 82, 219, 118, 6, 159]),
      (''RecenterPerpMarketAmm'', [24, 87, 10, 115, 165, 190, 80, 139]),
      (''UpdatePerpMarketAmmSummaryStats'', [122, 101, 249, 238, 209, 9, 241, 245]),
      (''UpdatePerpMarketExpiry'', [44, 221, 227, 151, 131, 140, 22, 110]),
      (''SettleExpiredMarketPoolsToRevenuePool'', [55, 19, 238, 169, 227, 90, 200, 184]),
      (''DepositIntoPerpMarketFeePool'', [34, 58, 57, 68, 97, 80, 244, 6]),
      (''DepositIntoSpotMarketVault'', [48, 252, 119, 73, 255, 205, 174, 247]),
      (''DepositIntoSpotMarketRevenuePool'', [92, 40, 151, 42, 122, 254, 139, 246]),
      (''RepegAmmCurve'', [3, 36, 102, 89, 180, 128, 120, 213]),
      (''UpdatePerpMarketAmmOracleTwap'', [241, 74, 114, 123, 206, 153, 24, 202]),
      (''ResetPerpMarketAmmOracleTwap'', [127, 10, 55, 164, 123, 226, 47, 24]),
      (''UpdateK'', [72, 98, 9, 139, 129, 229, 172, 56]),
      (''UpdatePerpMarketMarginRatio'', [130, 173, 107, 45, 119, 105, 26, 113]),
      (''UpdatePerpMarketFundingPeriod'', [171, 161, 69, 91, 129, 139, 161, 28]),
      (''UpdatePerpMarketMaxImbalances'', [15, 206, 73, 133, 60, 8, 86, 89]),
      (''UpdatePerpMarketLiquidationFee'', [90, 137, 9, 145, 41, 8, 148, 117]),
      (''UpdateInsuranceFundUnstakingPeriod'', [44, 69, 43, 226, 204, 223, 202, 52]),
      (''UpdateSpotMarketLiquidationFee'', [11, 13, 255, 53, 56, 136, 104, 177]),
      (''UpdateWithdrawGuardThreshold'', [56, 18, 39, 61, 155, 211, 44, 133]),
      (''UpdateSpotMarketIfFactor'', [147, 30, 224, 34, 18, 230, 105, 4]),
      (''UpdateSpotMarketRevenueSettlePeriod'', [81, 92, 126, 41, 250, 225, 156, 219]),
      (''UpdateSpotMarketStatus'', [78, 94, 16, 188, 193, 110, 231, 31]),
      (''UpdateSpotMarketPausedOperations'', [100, 61, 153, 81, 180, 12, 6, 248]),
      (''UpdateSpotMarketAssetTier'', [253, 209, 231, 14, 242, 208, 243, 130]),
      (''UpdateSpotMarketMarginWeights'', [109, 33, 87, 195, 255, 36, 6, 81]),
      (''UpdateSpotMarketBorrowRate'', [71, 239, 236, 153, 210, 62, 254, 76]),
      (''UpdateSpotMarketMaxTokenDeposits'', [56, 191, 79, 18, 26, 121, 80, 208]),
      (''UpdateSpotMarketMaxTokenBorrows'', [57, 102, 204, 212, 253, 95, 13, 199]),
      (''UpdateSpotMarketScaleInitialAssetWeightStart'', [217, 204, 204, 118, 204, 130, 225, 147]),
      (''UpdateSpotMarketOracle'', [114, 184, 102, 37, 246, 186, 180, 99]),
      (''UpdateSpotMarketStepSizeAndTickSize'', [238, 153, 137, 80, 206, 59, 250, 61]),
      (''UpdateSpotMarketMinOrderSize'', [93, 128, 11, 119, 26, 20, 181, 50]),
      (''UpdateSpotMarketOrdersEnabled'', [190, 79, 206, 15, 26, 229, 229, 43]),
      (''UpdateSpotMarketIfPausedOperations'', [101, 215, 79, 74, 59, 41, 79, 12]),
      (''UpdateSpotMarketName'', [17, 208, 1, 1, 162, 211, 188, 224]),
      (''UpdatePerpMarketStatus'', [71, 201, 175, 122, 255, 207, 196, 207]),
      (''UpdatePerpMarketPausedOperations'', [53, 16, 136, 132, 30, 220, 121, 85]),
      (''UpdatePerpMarketContractTier'', [236, 128, 15, 95, 203, 214, 68, 117]),
      (''UpdatePerpMarketImfFactor'', [207, 194, 56, 132, 35, 67, 71, 244]),
      (''UpdatePerpMarketUnrealizedAssetWeight'', [135, 132, 205, 165, 109, 150, 166, 106]),
      (''UpdatePerpMarketConcentrationCoef'', [24, 78, 232, 126, 169, 176, 230, 16]),
      (''UpdatePerpMarketCurveUpdateIntensity'', [50, 131, 6, 156, 226, 231, 189, 72]),
      (''UpdatePerpMarketTargetBaseAssetAmountPerLp'', [62, 87, 68, 115, 29, 150, 150, 165]),
      (''UpdatePerpMarketPerLpBase'', [103, 152, 103, 102, 89, 144, 193, 71]),
      (''UpdateLpCooldownTime'', [198, 133, 88, 41, 241, 119, 61, 14]),
      (''UpdatePerpFeeStructure'', [23, 178, 111, 203, 73, 22, 140, 75]),
      (''UpdateSpotFeeStructure'', [97, 216, 105, 131, 113, 246, 142, 141]),
      (''UpdateInitialPctToLiquidate'', [210, 133, 225, 128, 194, 50, 13, 109]),
      (''UpdateLiquidationDuration'', [28, 154, 20, 249, 102, 192, 73, 71]),
      (''UpdateLiquidationMarginBufferRatio'', [132, 224, 243, 160, 154, 82, 97, 215]),
      (''UpdateOracleGuardRails'', [131, 112, 10, 59, 32, 54, 40, 164]),
      (''UpdateStateSettlementDuration'', [97, 68, 199, 235, 131, 80, 61, 173]),
      (''UpdateStateMaxNumberOfSubAccounts'', [155, 123, 214, 2, 221, 166, 204, 85]),
      (''UpdateStateMaxInitializeUserFee'', [237, 225, 25, 237, 193, 45, 77, 97]),
      (''UpdatePerpMarketOracle'', [182, 113, 111, 160, 67, 174, 89, 191]),
      (''UpdatePerpMarketBaseSpread'', [71, 95, 84, 168, 9, 157, 198, 65]),
      (''UpdateAmmJitIntensity'', [181, 191, 53, 109, 166, 249, 55, 142]),
      (''UpdatePerpMarketMaxSpread'', [80, 252, 122, 62, 40, 218, 91, 100]),
      (''UpdatePerpMarketStepSizeAndTickSize'', [231, 255, 97, 25, 146, 139, 174, 4]),
      (''UpdatePerpMarketName'', [211, 31, 21, 210, 64, 108, 66, 201]),
      (''UpdatePerpMarketMinOrderSize'', [226, 74, 5, 89, 108, 223, 46, 141]),
      (''UpdatePerpMarketMaxSlippageRatio'', [235, 37, 40, 196, 70, 146, 54, 201]),
      (''UpdatePerpMarketMaxFillReserveFraction'', [19, 172, 114, 154, 42, 135, 161, 133]),
      (''UpdatePerpMarketMaxOpenInterest'', [194, 79, 149, 224, 246, 102, 186, 140]),
      (''UpdatePerpMarketNumberOfUsers'', [35, 62, 144, 177, 180, 62, 215, 196]),
      (''UpdatePerpMarketFeeAdjustment'', [194, 174, 87, 102, 43, 148, 32, 112]),
      (''UpdateSpotMarketFeeAdjustment'', [148, 182, 3, 126, 157, 114, 220, 99]),
      (''UpdatePerpMarketFuel'', [252, 141, 110, 101, 27, 99, 182, 21]),
      (''UpdateSpotMarketFuel'', [226, 253, 76, 71, 17, 2, 171, 169]),
      (''InitUserFuel'', [132, 191, 228, 141, 201, 138, 60, 48]),
      (''UpdateAdmin'', [161, 176, 40, 213, 60, 184, 179, 228]),
      (''UpdateWhitelistMint'', [161, 15, 162, 19, 148, 120, 144, 151]),
      (''UpdateDiscountMint'', [32, 252, 122, 211, 66, 31, 47, 241]),
      (''UpdateExchangeStatus'', [83, 160, 252, 250, 129, 116, 49, 223]),
      (''UpdatePerpAuctionDuration'', [126, 110, 52, 174, 30, 206, 215, 90]),
      (''UpdateSpotAuctionDuration'', [182, 178, 203, 72, 187, 143, 157, 107]),
      (''InitializeProtocolIfSharesTransferConfig'', [89, 131, 239, 200, 178, 141, 106, 194]),
      (''UpdateProtocolIfSharesTransferConfig'', [34, 135, 47, 91, 220, 24, 212, 53]),
      (''InitializePrelaunchOracle'', [169, 178, 84, 25, 175, 62, 29, 247]),
      (''UpdatePrelaunchOracleParams'', [98, 205, 147, 243, 18, 75, 83, 207]),
      (''DeletePrelaunchOracle'', [59, 169, 100, 49, 69, 17, 173, 253]),
      (''InitializePythPullOracle'', [249, 140, 253, 243, 248, 74, 240, 238])]"

text \<open>The switch has the cases in the order of the variables.\<close>

definition drift_InstructionIDToName :: "bytes \<Rightarrow> string" where
  "drift_InstructionIDToName tid =
     (case find (\<lambda>(n, b). b = tid) drift_instruction_ids of None \<Rightarrow> [] | Some (n, _) \<Rightarrow> n)"

datatype Drift_Instruction =
    Ix_Drift_InitializeUser Drift_InitializeUser
  | Ix_Drift_InitializeUserStats Drift_InitializeUserStats
  | Ix_Drift_Deposit Drift_Deposit
  | Ix_Drift_Withdraw Drift_Withdraw
  | Ix_Drift_PlacePerpOrder Drift_PlacePerpOrder
  | Ix_Drift_PlaceSpotOrder Drift_PlaceSpotOrder
  | Ix_Drift_FillPerpOrder Drift_FillPerpOrder
  | Ix_Drift_PlaceAndMakeSpotOrder Drift_PlaceAndMakeSpotOrder
  | Ix_Drift_PlaceAndMakePerpOrder Drift_PlaceAndMakePerpOrder
  | Ix_Drift_FillSpotOrder Drift_FillSpotOrder
  | Ix_Drift_Initialize Drift_Initialize
  | Ix_Drift_InitializeSpotMarket Drift_InitializeSpotMarket
  | Ix_Drift_InitializePerpMarket Drift_InitializePerpMarket

fun drift_type_id :: "Drift_Instruction \<Rightarrow> bytes" where
  "drift_type_id (Ix_Drift_InitializeUser i) = drift_id_InitializeUser"
| "drift_type_id (Ix_Drift_InitializeUserStats i) = drift_id_InitializeUserStats"
| "drift_type_id (Ix_Drift_Deposit i) = drift_id_Deposit"
| "drift_type_id (Ix_Drift_Withdraw i) = drift_id_Withdraw"
| "drift_type_id (Ix_Drift_PlacePerpOrder i) = drift_id_PlacePerpOrder"
| "drift_type_id (Ix_Drift_PlaceSpotOrder i) = drift_id_PlaceSpotOrder"
| "drift_type_id (Ix_Drift_FillPerpOrder i) = drift_id_FillPerpOrder"
| "drift_type_id (Ix_Drift_PlaceAndMakeSpotOrder i) = drift_id_PlaceAndMakeSpotOrder"
| "drift_type_id (Ix_Drift_PlaceAndMakePerpOrder i) = drift_id_PlaceAndMakePerpOrder"
| "drift_type_id (Ix_Drift_FillSpotOrder i) = drift_id_FillSpotOrder"
| "drift_type_id (Ix_Drift_Initialize i) = drift_id_Initialize"
| "drift_type_id (Ix_Drift_InitializeSpotMarket i) = drift_id_InitializeSpotMarket"
| "drift_type_id (Ix_Drift_InitializePerpMarket i) = drift_id_InitializePerpMarket"

fun drift_Validate :: "Drift_Instruction \<Rightarrow> unit res" where
  "drift_Validate (Ix_Drift_InitializeUser i) = Drift_InitializeUser_Validate i"
| "drift_Validate (Ix_Drift_InitializeUserStats i) = Drift_InitializeUserStats_Validate i"
| "drift_Validate (Ix_Drift_Deposit i) = Drift_Deposit_Validate i"
| "drift_Validate (Ix_Drift_Withdraw i) = Drift_Withdraw_Validate i"
| "drift_Validate (Ix_Drift_PlacePerpOrder i) = Drift_PlacePerpOrder_Validate i"
| "drift_Validate (Ix_Drift_PlaceSpotOrder i) = Drift_PlaceSpotOrder_Validate i"
| "drift_Validate (Ix_Drift_FillPerpOrder i) = Drift_FillPerpOrder_Validate i"
| "drift_Validate (Ix_Drift_PlaceAndMakeSpotOrder i) = Drift_PlaceAndMakeSpotOrder_Validate i"
| "drift_Validate (Ix_Drift_PlaceAndMakePerpOrder i) = Drift_PlaceAndMakePerpOrder_Validate i"
| "drift_Validate (Ix_Drift_FillSpotOrder i) = Drift_FillSpotOrder_Validate i"
| "drift_Validate (Ix_Drift_Initialize i) = Drift_Initialize_Validate i"
| "drift_Validate (Ix_Drift_InitializeSpotMarket i) = Drift_InitializeSpotMarket_Validate i"
| "drift_Validate (Ix_Drift_InitializePerpMarket i) = Drift_InitializePerpMarket_Validate i"

definition drift_ValidateAndBuild :: "Drift_Instruction \<Rightarrow> Drift_Instruction res" where
  "drift_ValidateAndBuild i = bind_res (drift_Validate i) (\<lambda>_. Inr i)"

fun drift_marshal_impl :: "bytes res \<Rightarrow> bin_lib \<Rightarrow> Drift_Instruction \<Rightarrow> bytes res" where
  "drift_marshal_impl nil L (Ix_Drift_InitializeUser i) = marshal_Drift_InitializeUser nil L i"
| "drift_marshal_impl nil L (Ix_Drift_InitializeUserStats i) = marshal_Drift_InitializeUserStats nil L i"
| "drift_marshal_impl nil L (Ix_Drift_Deposit i) = marshal_Drift_Deposit nil L i"
| "drift_marshal_impl nil L (Ix_Drift_Withdraw i) = marshal_Drift_Withdraw nil L i"
| "drift_marshal_impl nil L (Ix_Drift_PlacePerpOrder i) = marshal_Drift_PlacePerpOrder nil L i"
| "drift_marshal_impl nil L (Ix_Drift_PlaceSpotOrder i) = marshal_Drift_PlaceSpotOrder nil L i"
| "drift_marshal_impl nil L (Ix_Drift_FillPerpOrder i) = marshal_Drift_FillPerpOrder nil L i"
| "drift_marshal_impl nil L (Ix_Drift_PlaceAndMakeSpotOrder i) = marshal_Drift_PlaceAndMakeSpotOrder nil L i"
| "drift_marshal_impl nil L (Ix_Drift_PlaceAndMakePerpOrder i) = marshal_Drift_PlaceAndMakePerpOrder nil L i"
| "drift_marshal_impl nil L (Ix_Drift_FillSpotOrder i) = marshal_Drift_FillSpotOrder nil L i"
| "drift_marshal_impl nil L (Ix_Drift_Initialize i) = marshal_Drift_Initialize nil L i"
| "drift_marshal_impl nil L (Ix_Drift_InitializeSpotMarket i) = marshal_Drift_InitializeSpotMarket nil L i"
| "drift_marshal_impl nil L (Ix_Drift_InitializePerpMarket i) = marshal_Drift_InitializePerpMarket nil L i"

definition drift_Marshal :: "bytes res \<Rightarrow> bin_lib \<Rightarrow> Drift_Instruction \<Rightarrow> bytes res" where
  "drift_Marshal nil L i = bind_res (drift_marshal_impl nil L i) (\<lambda>b. Inr (drift_type_id i @ b))"

definition drift_Data :: "bytes res \<Rightarrow> bin_lib \<Rightarrow> Drift_Instruction \<Rightarrow> bytes res" where
  "drift_Data nil L i = wrap_err ''unable to encode instruction'' (drift_Marshal nil L i)"

fun drift_Accounts :: "Drift_Instruction \<Rightarrow> metas" where
  "drift_Accounts (Ix_Drift_InitializeUser i) = Drift_InitializeUser.accounts i"
| "drift_Accounts (Ix_Drift_InitializeUserStats i) = Drift_InitializeUserStats.accounts i"
| "drift_Accounts (Ix_Drift_Deposit i) = Drift_Deposit.accounts i"
| "drift_Accounts (Ix_Drift_Withdraw i) = Drift_Withdraw.accounts i"
| "drift_Accounts (Ix_Drift_PlacePerpOrder i) = Drift_PlacePerpOrder.accounts i"
| "drift_Accounts (Ix_Drift_PlaceSpotOrder i) = Drift_PlaceSpotOrder.accounts i"
| "drift_Accounts (Ix_Drift_FillPerpOrder i) = Drift_FillPerpOrder.accounts i"
| "drift_Accounts (Ix_Drift_PlaceAndMakeSpotOrder i) = Drift_PlaceAndMakeSpotOrder.accounts i"
| "drift_Accounts (Ix_Drift_PlaceAndMakePerpOrder i) = Drift_PlaceAndMakePerpOrder.accounts i"
| "drift_Accounts (Ix_Drift_FillSpotOrder i) = Drift_FillSpotOrder.accounts i"
| "drift_Accounts (Ix_Drift_Initialize i) = Drift_Initialize.accounts i"
| "drift_Accounts (Ix_Drift_InitializeSpotMarket i) = Drift_InitializeSpotMarket.accounts i"
| "drift_Accounts (Ix_Drift_InitializePerpMarket i) = Drift_InitializePerpMarket.accounts i"

fun drift_with_accounts :: "metas \<Rightarrow> Drift_Instruction \<Rightarrow> Drift_Instruction" where
  "drift_with_accounts as (Ix_Drift_InitializeUser i) = Ix_Drift_InitializeUser (i\<lparr>Drift_InitializeUser.accounts := as\<rparr>)"
| "drift_with_accounts as (Ix_Drift_InitializeUserStats i) = Ix_Drift_InitializeUserStats (i\<lparr>Drift_InitializeUserStats.accounts := as\<rparr>)"
| "drift_with_accounts as (Ix_Drift_Deposit i) = Ix_Drift_Deposit (i\<lparr>Drift_Deposit.accounts := as\<rparr>)"
| "drift_with_accounts as (Ix_Drift_Withdraw i) = Ix_Drift_Withdraw (i\<lparr>Drift_Withdraw.accounts := as\<rparr>)"
| "drift_with_accounts as (Ix_Drift_PlacePerpOrder i) = Ix_Drift_PlacePerpOrder (i\<lparr>Drift_PlacePerpOrder.accounts := as\<rparr>)"
| "drift_with_accounts as (Ix_Drift_PlaceSpotOrder i) = Ix_Drift_PlaceSpotOrder (i\<lparr>Drift_PlaceSpotOrder.accounts := as\<rparr>)"
| "drift_with_accounts as (Ix_Drift_FillPerpOrder i) = Ix_Drift_FillPerpOrder (i\<lparr>Drift_FillPerpOrder.accounts := as\<rparr>)"
| "drift_with_accounts as (Ix_Drift_PlaceAndMakeSpotOrder i) = Ix_Drift_PlaceAndMakeSpotOrder (i\<lparr>Drift_PlaceAndMakeSpotOrder.accounts := as\<rparr>)"
| "drift_with_accounts as (Ix_Drift_PlaceAndMakePerpOrder i) = Ix_Drift_PlaceAndMakePerpOrder (i\<lparr>Drift_PlaceAndMakePerpOrder.accounts := as\<rparr>)"
| "drift_with_accounts as (Ix_Drift_FillSpotOrder i) = Ix_Drift_FillSpotOrder (i\<lparr>Drift_FillSpotOrder.accounts := as\<rparr>)"
| "drift_with_accounts as (Ix_Drift_Initialize i) = Ix_Drift_Initialize (i\<lparr>Drift_Initialize.accounts := as\<rparr>)"
| "drift_with_accounts as (Ix_Drift_InitializeSpotMarket i) = Ix_Drift_InitializeSpotMarket (i\<lparr>Drift_InitializeSpotMarket.accounts := as\<rparr>)"
| "drift_with_accounts as (Ix_Drift_InitializePerpMarket i) = Ix_Drift_InitializePerpMarket (i\<lparr>Drift_InitializePerpMarket.accounts := as\<rparr>)"

text \<open>\<open>InstructionImplDef\<close>: the variants by name; each is read into a new object.\<close>

definition drift_variants :: "bin_lib \<Rightarrow> (string \<times> (bytes \<Rightarrow> Drift_Instruction res)) list" where
  "drift_variants L =
     [(''initialize_user'', \<lambda>bs. map_fst_res Ix_Drift_InitializeUser (unmarshal_Drift_InitializeUser L (Drift_InitializeUser_zero, bs))),
      (''initialize_user_stats'', \<lambda>bs. map_fst_res Ix_Drift_InitializeUserStats (unmarshal_Drift_InitializeUserStats L (Drift_InitializeUserStats_zero, bs))),
      (''deposit'', \<lambda>bs. map_fst_res Ix_Drift_Deposit (unmarshal_Drift_Deposit L (Drift_Deposit_zero, bs))),
      (''withdraw'', \<lambda>bs. map_fst_res Ix_Drift_Withdraw (unmarshal_Drift_Withdraw L (Drift_Withdraw_zero, bs))),
      (''place_perp_order'', \<lambda>bs. map_fst_res Ix_Drift_PlacePerpOrder (unmarshal_Drift_PlacePerpOrder L (Drift_PlacePerpOrder_zero, bs))),
      (''place_spot_order'', \<lambda>bs. map_fst_res Ix_Drift_PlaceSpotOrder (unmarshal_Drift_PlaceSpotOrder L (Drift_PlaceSpotOrder_zero, bs))),
      (''fill_perp_order'', \<lambda>bs. map_fst_res Ix_Drift_FillPerpOrder (unmarshal_Drift_FillPerpOrder L (Drift_FillPerpOrder_zero, bs))),
      (''place_and_make_spot_order'', \<lambda>bs. map_fst_res Ix_Drift_PlaceAndMakeSpotOrder (unmarshal_Drift_PlaceAndMakeSpotOrder L (Drift_PlaceAndMakeSpotOrder_zero, bs))),
      (''place_and_make_perp_order'', \<lambda>bs. map_fst_res Ix_Drift_PlaceAndMakePerpOrder (unmarshal_Drift_PlaceAndMakePerpOrder L (Drift_PlaceAndMakePerpOrder_zero, bs))),
      (''fill_spot_order'', \<lambda>bs. map_fst_res Ix_Drift_FillSpotOrder (unmarshal_Drift_FillSpotOrder L (Drift_FillSpotOrder_zero, bs))),
      (''initialize'', \<lambda>bs. map_fst_res Ix_Drift_Initialize (unmarshal_Drift_Initialize L (Drift_Initialize_zero, bs))),
      (''initialize_spot_market'', \<lambda>bs. map_fst_res Ix_Drift_InitializeSpotMarket (unmarshal_Drift_InitializeSpotMarket L (Drift_InitializeSpotMarket_zero, bs))),
      (''initialize_perp_market'', \<lambda>bs. map_fst_res Ix_Drift_InitializePerpMarket (unmarshal_Drift_InitializePerpMarket L (Drift_InitializePerpMarket_zero, bs)))]"

definition drift_Unmarshal :: "(string \<Rightarrow> bytes) \<Rightarrow> bin_lib \<Rightarrow> bytes \<Rightarrow> Drift_Instruction res" where
  "drift_Unmarshal sighash L = read_variant sighash (drift_variants L)"

text \<open>\<open>set_accounts\<close> is the library's \<open>SetAccounts\<close> of a slice of accounts.\<close>

definition drift_DecodeInstruction ::
  "(string \<Rightarrow> bytes) \<Rightarrow> ('acc \<Rightarrow> metas res) \<Rightarrow> bin_lib \<Rightarrow> 'acc \<Rightarrow> bytes \<Rightarrow> Drift_Instruction res" where
  "drift_DecodeInstruction sighash set_accounts L accs data =
     bind_res (wrap_err ''unable to decode instruction'' (drift_Unmarshal sighash L data)) (\<lambda>i.
     bind_res (wrap_err ''unable to set accounts for instruction'' (set_accounts accs)) (\<lambda>as.
       Inr (drift_with_accounts as i)))"

section \<open>What an instruction writes is read back\<close>

fun drift_wf :: "Drift_Instruction \<Rightarrow> bool" where
  "drift_wf (Ix_Drift_InitializeUser i) = wf_Drift_InitializeUser i"
| "drift_wf (Ix_Drift_InitializeUserStats i) = True"
| "drift_wf (Ix_Drift_Deposit i) = True"
| "drift_wf (Ix_Drift_Withdraw i) = True"
| "drift_wf (Ix_Drift_PlacePerpOrder i) = True"
| "drift_wf (Ix_Drift_PlaceSpotOrder i) = True"
| "drift_wf (Ix_Drift_FillPerpOrder i) = True"
| "drift_wf (Ix_Drift_PlaceAndMakeSpotOrder i) = True"
| "drift_wf (Ix_Drift_PlaceAndMakePerpOrder i) = True"
| "drift_wf (Ix_Drift_FillSpotOrder i) = True"
| "drift_wf (Ix_Drift_Initialize i) = True"
| "drift_wf (Ix_Drift_InitializeSpotMarket i) = wf_Drift_InitializeSpotMarket i"
| "drift_wf (Ix_Drift_InitializePerpMarket i) = wf_Drift_InitializePerpMarket i"

lemmas drift_id_defs =
  drift_id_InitializeUser_def drift_id_InitializeUserStats_def drift_id_Deposit_def
  drift_id_Withdraw_def drift_id_PlacePerpOrder_def drift_id_PlaceSpotOrder_def
  drift_id_FillPerpOrder_def drift_id_PlaceAndMakeSpotOrder_def drift_id_PlaceAndMakePerpOrder_def
  drift_id_FillSpotOrder_def drift_id_Initialize_def drift_id_InitializeSpotMarket_def
  drift_id_InitializePerpMarket_def

text \<open>Anchor's discriminators of the variant names are the ids of the client.\<close>

definition drift_ids_ok :: "(string \<Rightarrow> bytes) \<Rightarrow> bool" where
  "drift_ids_ok sighash \<longleftrightarrow>
     sighash ''initialize_user'' = drift_id_InitializeUser \<and>
     sighash ''initialize_user_stats'' = drift_id_InitializeUserStats \<and>
     sighash ''deposit'' = drift_id_Deposit \<and>
     sighash ''withdraw'' = drift_id_Withdraw \<and>
     sighash ''place_perp_order'' = drift_id_PlacePerpOrder \<and>
     sighash ''place_spot_order'' = drift_id_PlaceSpotOrder \<and>
     sighash ''fill_perp_order'' = drift_id_FillPerpOrder \<and>
     sighash ''place_and_make_spot_order'' = drift_id_PlaceAndMakeSpotOrder \<and>
     sighash ''place_and_make_perp_order'' = drift_id_PlaceAndMakePerpOrder \<and>
     sighash ''fill_spot_order'' = drift_id_FillSpotOrder \<and>
     sighash ''initialize'' = drift_id_Initialize \<and>
     sighash ''initialize_spot_market'' = drift_id_InitializeSpotMarket \<and>
     sighash ''initialize_perp_market'' = drift_id_InitializePerpMarket"

locale drift_program = bin_library +
  fixes sighash :: "string \<Rightarrow> bytes" and nil :: "bytes res"
  assumes ids: "drift_ids_ok sighash"
begin

lemma Drift_InitializeUser_rt:
  "Drift_InitializeUser_Validate i = Inr () \<Longrightarrow> wf_Drift_InitializeUser i \<Longrightarrow> 
    \<exists>b. marshal_Drift_InitializeUser nil L i = Inr b \<and>
      unmarshal_Drift_InitializeUser L (Drift_InitializeUser_zero, b @ r) = Inr (i\<lparr>Drift_InitializeUser.accounts := []\<rparr>, r)"
  by (cases i) (auto simp: Drift_InitializeUser_Validate_def marshal_Drift_InitializeUser_def unmarshal_Drift_InitializeUser_def Drift_InitializeUser_zero_def wf_Drift_InitializeUser_def first_error_ok_iff)

lemma Drift_InitializeUserStats_rt:
  "Drift_InitializeUserStats_Validate i = Inr () \<Longrightarrow> 
    \<exists>b. marshal_Drift_InitializeUserStats nil L i = Inr b \<and>
      unmarshal_Drift_InitializeUserStats L (Drift_InitializeUserStats_zero, b @ r) = Inr (i\<lparr>Drift_InitializeUserStats.accounts := []\<rparr>, r)"
  by (cases i) (auto simp: Drift_InitializeUserStats_Validate_def marshal_Drift_InitializeUserStats_def unmarshal_Drift_InitializeUserStats_def Drift_InitializeUserStats_zero_def first_error_ok_iff)

lemma Drift_Deposit_rt:
  "Drift_Deposit_Validate i = Inr () \<Longrightarrow> 
    \<exists>b. marshal_Drift_Deposit nil L i = Inr b \<and>
      unmarshal_Drift_Deposit L (Drift_Deposit_zero, b @ r) = Inr (i\<lparr>Drift_Deposit.accounts := []\<rparr>, r)"
  by (cases i) (auto simp: Drift_Deposit_Validate_def marshal_Drift_Deposit_def unmarshal_Drift_Deposit_def Drift_Deposit_zero_def first_error_ok_iff)

lemma Drift_Withdraw_rt:
  "Drift_Withdraw_Validate i = Inr () \<Longrightarrow> 
    \<exists>b. marshal_Drift_Withdraw nil L i = Inr b \<and>
      unmarshal_Drift_Withdraw L (Drift_Withdraw_zero, b @ r) = Inr (i\<lparr>Drift_Withdraw.accounts := []\<rparr>, r)"
  by (cases i) (auto simp: Drift_Withdraw_Validate_def marshal_Drift_Withdraw_def unmarshal_Drift_Withdraw_def Drift_Withdraw_zero_def first_error_ok_iff)

lemma Drift_PlacePerpOrder_rt:
  "Drift_PlacePerpOrder_Validate i = Inr () \<Longrightarrow> 
    \<exists>b. marshal_Drift_PlacePerpOrder nil L i = Inr b \<and>
      unmarshal_Drift_PlacePerpOrder L (Drift_PlacePerpOrder_zero, b @ r) = Inr (i\<lparr>Drift_PlacePerpOrder.accounts := []\<rparr>, r)"
  by (cases i) (auto simp: Drift_PlacePerpOrder_Validate_def marshal_Drift_PlacePerpOrder_def unmarshal_Drift_PlacePerpOrder_def Drift_PlacePerpOrder_zero_def first_error_ok_iff)

lemma Drift_PlaceSpotOrder_rt:
  "Drift_PlaceSpotOrder_Validate i = Inr () \<Longrightarrow> 
    \<exists>b. marshal_Drift_PlaceSpotOrder nil L i = Inr b \<and>
      unmarshal_Drift_PlaceSpotOrder L (Drift_PlaceSpotOrder_zero, b @ r) = Inr (i\<lparr>Drift_PlaceSpotOrder.accounts := []\<rparr>, r)"
  by (cases i) (auto simp: Drift_PlaceSpotOrder_Validate_def marshal_Drift_PlaceSpotOrder_def unmarshal_Drift_PlaceSpotOrder_def Drift_PlaceSpotOrder_zero_def first_error_ok_iff)

lemma Drift_FillPerpOrder_rt:
  "Drift_FillPerpOrder_Validate i = Inr () \<Longrightarrow> 
    \<exists>b. marshal_Drift_FillPerpOrder nil L i = Inr b \<and>
      unmarshal_Drift_FillPerpOrder L (Drift_FillPerpOrder_zero, b @ r) = Inr (i\<lparr>Drift_FillPerpOrder.accounts := []\<rparr>, r)"
  by (cases i) (auto simp: Drift_FillPerpOrder_Validate_def marshal_Drift_FillPerpOrder_def unmarshal_Drift_FillPerpOrder_def Drift_FillPerpOrder_zero_def first_error_ok_iff)

lemma Drift_PlaceAndMakeSpotOrder_rt:
  "Drift_PlaceAndMakeSpotOrder_Validate i = Inr () \<Longrightarrow> 
    \<exists>b. marshal_Drift_PlaceAndMakeSpotOrder nil L i = Inr b \<and>
      unmarshal_Drift_PlaceAndMakeSpotOrder L (Drift_PlaceAndMakeSpotOrder_zero, b @ r) = Inr (i\<lparr>Drift_PlaceAndMakeSpotOrder.accounts := []\<rparr>, r)"
  by (cases i) (auto simp: Drift_PlaceAndMakeSpotOrder_Validate_def marshal_Drift_PlaceAndMakeSpotOrder_def unmarshal_Drift_PlaceAndMakeSpotOrder_def Drift_PlaceAndMakeSpotOrder_zero_def first_error_ok_iff)

lemma Drift_PlaceAndMakePerpOrder_rt:
  "Drift_PlaceAndMakePerpOrder_Validate i = Inr () \<Longrightarrow> 
    \<exists>b. marshal_Drift_PlaceAndMakePerpOrder nil L i = Inr b \<and>
      unmarshal_Drift_PlaceAndMakePerpOrder L (Drift_PlaceAndMakePerpOrder_zero, b @ r) = Inr (i\<lparr>Drift_PlaceAndMakePerpOrder.accounts := []\<rparr>, r)"
  by (cases i) (auto simp: Drift_PlaceAndMakePerpOrder_Validate_def marshal_Drift_PlaceAndMakePerpOrder_def unmarshal_Drift_PlaceAndMakePerpOrder_def Drift_PlaceAndMakePerpOrder_zero_def first_error_ok_iff)

lemma Drift_FillSpotOrder_rt:
  "Drift_FillSpotOrder_Validate i = Inr () \<Longrightarrow> 
    \<exists>b. marshal_Drift_FillSpotOrder nil L i = Inr b \<and>
      unmarshal_Drift_FillSpotOrder L (Drift_FillSpotOrder_zero, b @ r) = Inr (i\<lparr>Drift_FillSpotOrder.accounts := []\<rparr>, r)"
  by (cases i) (auto simp: Drift_FillSpotOrder_Validate_def marshal_Drift_FillSpotOrder_def unmarshal_Drift_FillSpotOrder_def Drift_FillSpotOrder_zero_def first_error_ok_iff)

lemma Drift_Initialize_rt:
  "Drift_Initialize_Validate i = Inr () \<Longrightarrow> 
    \<exists>b. marshal_Drift_Initialize nil L i = Inr b \<and>
      unmarshal_Drift_Initialize L (Drift_Initialize_zero, b @ r) = Inr (i\<lparr>Drift_Initialize.accounts := []\<rparr>, r)"
  by (cases i) (auto simp: Drift_Initialize_Validate_def marshal_Drift_Initialize_def unmarshal_Drift_Initialize_def Drift_Initialize_zero_def first_error_ok_iff)

lemma Drift_InitializeSpotMarket_rt:
  "Drift_InitializeSpotMarket_Validate i = Inr () \<Longrightarrow> wf_Drift_InitializeSpotMarket i \<Longrightarrow> 
    \<exists>b. marshal_Drift_InitializeSpotMarket nil L i = Inr b \<and>
      unmarshal_Drift_InitializeSpotMarket L (Drift_InitializeSpotMarket_zero, b @ r) = Inr (i\<lparr>Drift_InitializeSpotMarket.accounts := []\<rparr>, r)"
  by (cases i) (auto simp: Drift_InitializeSpotMarket_Validate_def marshal_Drift_InitializeSpotMarket_def unmarshal_Drift_InitializeSpotMarket_def Drift_InitializeSpotMarket_zero_def wf_Drift_InitializeSpotMarket_def first_error_ok_iff)

lemma Drift_InitializePerpMarket_rt:
  "Drift_InitializePerpMarket_Validate i = Inr () \<Longrightarrow> wf_Drift_InitializePerpMarket i \<Longrightarrow> 
    \<exists>b. marshal_Drift_InitializePerpMarket nil L i = Inr b \<and>
      unmarshal_Drift_InitializePerpMarket L (Drift_InitializePerpMarket_zero, b @ r) = Inr (i\<lparr>Drift_InitializePerpMarket.accounts := []\<rparr>, r)"
  by (cases i) (auto simp: Drift_InitializePerpMarket_Validate_def marshal_Drift_InitializePerpMarket_def unmarshal_Drift_InitializePerpMarket_def Drift_InitializePerpMarket_zero_def wf_Drift_InitializePerpMarket_def first_error_ok_iff)

lemma found:
  "find (\<lambda>(n, _). sighash n = drift_id_InitializeUser) (drift_variants L) =
     Some (''initialize_user'', \<lambda>bs. map_fst_res Ix_Drift_InitializeUser (unmarshal_Drift_InitializeUser L (Drift_InitializeUser_zero, bs)))"
  "find (\<lambda>(n, _). sighash n = drift_id_InitializeUserStats) (drift_variants L) =
     Some (''initialize_user_stats'', \<lambda>bs. map_fst_res Ix_Drift_InitializeUserStats (unmarshal_Drift_InitializeUserStats L (Drift_InitializeUserStats_zero, bs)))"
  "find (\<lambda>(n, _). sighash n = drift_id_Deposit) (drift_variants L) =
     Some (''deposit'', \<lambda>bs. map_fst_res Ix_Drift_Deposit (unmarshal_Drift_Deposit L (Drift_Deposit_zero, bs)))"
  "find (\<lambda>(n, _). sighash n = drift_id_Withdraw) (drift_variants L) =
     Some (''withdraw'', \<lambda>bs. map_fst_res Ix_Drift_Withdraw (unmarshal_Drift_Withdraw L (Drift_Withdraw_zero, bs)))"
  "find (\<lambda>(n, _). sighash n = drift_id_PlacePerpOrder) (drift_variants L) =
     Some (''place_perp_order'', \<lambda>bs. map_fst_res Ix_Drift_PlacePerpOrder (unmarshal_Drift_PlacePerpOrder L (Drift_PlacePerpOrder_zero, bs)))"
  "find (\<lambda>(n, _). sighash n = drift_id_PlaceSpotOrder) (drift_variants L) =
     Some (''place_spot_order'', \<lambda>bs. map_fst_res Ix_Drift_PlaceSpotOrder (unmarshal_Drift_PlaceSpotOrder L (Drift_PlaceSpotOrder_zero, bs)))"
  "find (\<lambda>(n, _). sighash n = drift_id_FillPerpOrder) (drift_variants L) =
     Some (''fill_perp_order'', \<lambda>bs. map_fst_res Ix_Drift_FillPerpOrder (unmarshal_Drift_FillPerpOrder L (Drift_FillPerpOrder_zero, bs)))"
  "find (\<lambda>(n, _). sighash n = drift_id_PlaceAndMakeSpotOrder) (drift_variants L) =
     Some (''place_and_make_spot_order'', \<lambda>bs. map_fst_res Ix_Drift_PlaceAndMakeSpotOrder (unmarshal_Drift_PlaceAndMakeSpotOrder L (Drift_PlaceAndMakeSpotOrder_zero, bs)))"
  "find (\<lambda>(n, _). sighash n = drift_id_PlaceAndMakePerpOrder) (drift_variants L) =
     Some (''place_and_make_perp_order'', \<lambda>bs. map_fst_res Ix_Drift_PlaceAndMakePerpOrder (unmarshal_Drift_PlaceAndMakePerpOrder L (Drift_PlaceAndMakePerpOrder_zero, bs)))"
  "find (\<lambda>(n, _). sighash n = drift_id_FillSpotOrder) (drift_variants L) =
     Some (''fill_spot_order'', \<lambda>bs. map_fst_res Ix_Drift_FillSpotOrder (unmarshal_Drift_FillSpotOrder L (Drift_FillSpotOrder_zero, bs)))"
  "find (\<lambda>(n, _). sighash n = drift_id_Initialize) (drift_variants L) =
     Some (''initialize'', \<lambda>bs. map_fst_res Ix_Drift_Initialize (unmarshal_Drift_Initialize L (Drift_Initialize_zero, bs)))"
  "find (\<lambda>(n, _). sighash n = drift_id_InitializeSpotMarket) (drift_variants L) =
     Some (''initialize_spot_market'', \<lambda>bs. map_fst_res Ix_Drift_InitializeSpotMarket (unmarshal_Drift_InitializeSpotMarket L (Drift_InitializeSpotMarket_zero, bs)))"
  "find (\<lambda>(n, _). sighash n = drift_id_InitializePerpMarket) (drift_variants L) =
     Some (''initialize_perp_market'', \<lambda>bs. map_fst_res Ix_Drift_InitializePerpMarket (unmarshal_Drift_InitializePerpMarket L (Drift_InitializePerpMarket_zero, bs)))"
  using ids by (simp_all add: drift_variants_def drift_ids_ok_def drift_id_defs)

lemma program_variant:
  assumes "drift_Validate i = Inr ()" and "drift_wf i"
  shows "\<exists>n un b. find (\<lambda>(n, _). sighash n = drift_type_id i) (drift_variants L) = Some (n, un) \<and>
      drift_marshal_impl nil L i = Inr b \<and> un b = Inr (drift_with_accounts [] i)"
proof (cases i)
  case (Ix_Drift_InitializeUser x)
  with Drift_InitializeUser_rt [of x "[]"] assms show ?thesis by (auto simp: found)
next
  case (Ix_Drift_InitializeUserStats x)
  with Drift_InitializeUserStats_rt [of x "[]"] assms show ?thesis by (auto simp: found)
next
  case (Ix_Drift_Deposit x)
  with Drift_Deposit_rt [of x "[]"] assms show ?thesis by (auto simp: found)
next
  case (Ix_Drift_Withdraw x)
  with Drift_Withdraw_rt [of x "[]"] assms show ?thesis by (auto simp: found)
next
  case (Ix_Drift_PlacePerpOrder x)
  with Drift_PlacePerpOrder_rt [of x "[]"] assms show ?thesis by (auto simp: found)
next
  case (Ix_Drift_PlaceSpotOrder x)
  with Drift_PlaceSpotOrder_rt [of x "[]"] assms show ?thesis by (auto simp: found)
next
  case (Ix_Drift_FillPerpOrder x)
  with Drift_FillPerpOrder_rt [of x "[]"] assms show ?thesis by (auto simp: found)
next
  case (Ix_Drift_PlaceAndMakeSpotOrder x)
  with Drift_PlaceAndMakeSpotOrder_rt [of x "[]"] assms show ?thesis by (auto simp: found)
next
  case (Ix_Drift_PlaceAndMakePerpOrder x)
  with Drift_PlaceAndMakePerpOrder_rt [of x "[]"] assms show ?thesis by (auto simp: found)
next
  case (Ix_Drift_FillSpotOrder x)
  with Drift_FillSpotOrder_rt [of x "[]"] assms show ?thesis by (auto simp: found)
next
  case (Ix_Drift_Initialize x)
  with Drift_Initialize_rt [of x "[]"] assms show ?thesis by (auto simp: found)
next
  case (Ix_Drift_InitializeSpotMarket x)
  with Drift_InitializeSpotMarket_rt [of x "[]"] assms show ?thesis by (auto simp: found)
next
  case (Ix_Drift_InitializePerpMarket x)
  with Drift_InitializePerpMarket_rt [of x "[]"] assms show ?thesis by (auto simp: found)
qed

end

sublocale drift_program \<subseteq> anchor_program sighash "drift_variants L" drift_type_id "drift_marshal_impl nil L"
  "drift_with_accounts []" "\<lambda>i. drift_Validate i = Inr () \<and> drift_wf i"
proof unfold_locales
  fix i show "length (drift_type_id i) = 8" by (cases i) (simp_all add: drift_id_defs)
qed (blast intro: program_variant)

context drift_program
begin

lemmas instruction_reads = data_reads

end

section \<open>Constructors\<close>

text \<open>Every constructor succeeds and gives an instruction that validates, with the flags of its slots.\<close>

lemma length_drift_slots [simp]:
  "length Drift_InitializeUser_slots = 7"
  "length Drift_InitializeUserStats_slots = 6"
  "length Drift_Deposit_slots = 7"
  "length Drift_Withdraw_slots = 8"
  "length Drift_PlacePerpOrder_slots = 3"
  "length Drift_PlaceSpotOrder_slots = 3"
  "length Drift_FillPerpOrder_slots = 6"
  "length Drift_PlaceAndMakeSpotOrder_slots = 6"
  "length Drift_PlaceAndMakePerpOrder_slots = 6"
  "length Drift_FillSpotOrder_slots = 6"
  "length Drift_Initialize_slots = 7"
  "length Drift_InitializeSpotMarket_slots = 11"
  "length Drift_InitializePerpMarket_slots = 6"
  by (simp_all add: Drift_InitializeUser_slots_def
      Drift_InitializeUserStats_slots_def
      Drift_Deposit_slots_def
      Drift_Withdraw_slots_def
      Drift_PlacePerpOrder_slots_def
      Drift_PlaceSpotOrder_slots_def
      Drift_FillPerpOrder_slots_def
      Drift_PlaceAndMakeSpotOrder_slots_def
      Drift_PlaceAndMakePerpOrder_slots_def
      Drift_FillSpotOrder_slots_def
      Drift_Initialize_slots_def
      Drift_InitializeSpotMarket_slots_def
      Drift_InitializePerpMarket_slots_def)

lemma new_Drift_InitializeUser_valid:
  "\<exists>i. new_Drift_InitializeUser subAccountId name user userStats state authority payer rent systemProgram = Inr i \<and>
     Drift_InitializeUser_Validate i = Inr () \<and> required_signers (Drift_InitializeUser.accounts i) = [authority, payer]"
proof -
  have "required_signers (map2 (\<lambda>s k. Some (slot_meta s k)) Drift_InitializeUser_slots
      [user, userStats, state, authority, payer, rent, systemProgram]) = [authority, payer]"
    by (simp add: Drift_InitializeUser_slots_def)
  then show ?thesis
    by (simp add: new_Drift_InitializeUser_def Let_def Drift_InitializeUser_builder_def Drift_InitializeUser_zero_def Drift_InitializeUser_Validate_def
        first_error_simps fail_if_def Drift_InitializeUser_SetSubAccountId_def Drift_InitializeUser_SetName_def)
qed

lemma new_Drift_InitializeUserStats_valid:
  "\<exists>i. new_Drift_InitializeUserStats userStats state authority payer rent systemProgram = Inr i \<and>
     Drift_InitializeUserStats_Validate i = Inr () \<and> required_signers (Drift_InitializeUserStats.accounts i) = [authority, payer]"
proof -
  have "required_signers (map2 (\<lambda>s k. Some (slot_meta s k)) Drift_InitializeUserStats_slots
      [userStats, state, authority, payer, rent, systemProgram]) = [authority, payer]"
    by (simp add: Drift_InitializeUserStats_slots_def)
  then show ?thesis
    by (simp add: new_Drift_InitializeUserStats_def Let_def Drift_InitializeUserStats_builder_def Drift_InitializeUserStats_zero_def Drift_InitializeUserStats_Validate_def
        first_error_simps fail_if_def )
qed

lemma new_Drift_Deposit_valid:
  "\<exists>i. new_Drift_Deposit marketIndex amount reduceOnly state user userStats authority spotMarketVault userTokenAccount
        tokenProgram = Inr i \<and>
     Drift_Deposit_Validate i = Inr () \<and> required_signers (Drift_Deposit.accounts i) = [authority]"
proof -
  have "required_signers (map2 (\<lambda>s k. Some (slot_meta s k)) Drift_Deposit_slots
      [state, user, userStats, authority, spotMarketVault, userTokenAccount, tokenProgram]) = [authority]"
    by (simp add: Drift_Deposit_slots_def)
  then show ?thesis
    by (simp add: new_Drift_Deposit_def Let_def Drift_Deposit_builder_def Drift_Deposit_zero_def Drift_Deposit_Validate_def
        first_error_simps fail_if_def Drift_Deposit_SetMarketIndex_def Drift_Deposit_SetAmount_def Drift_Deposit_SetReduceOnly_def)
qed

lemma new_Drift_Withdraw_valid:
  "\<exists>i. new_Drift_Withdraw marketIndex amount reduceOnly state user userStats authority spotMarketVault driftSigner
        userTokenAccount tokenProgram = Inr i \<and>
     Drift_Withdraw_Validate i = Inr () \<and> required_signers (Drift_Withdraw.accounts i) = [authority]"
proof -
  have "required_signers (map2 (\<lambda>s k. Some (slot_meta s k)) Drift_Withdraw_slots
      [state, user, userStats, authority, spotMarketVault, driftSigner, userTokenAccount, tokenProgram]) = [authority]"
    by (simp add: Drift_Withdraw_slots_def)
  then show ?thesis
    by (simp add: new_Drift_Withdraw_def Let_def Drift_Withdraw_builder_def Drift_Withdraw_zero_def Drift_Withdraw_Validate_def
        first_error_simps fail_if_def Drift_Withdraw_SetMarketIndex_def Drift_Withdraw_SetAmount_def Drift_Withdraw_SetReduceOnly_def)
qed

lemma new_Drift_PlacePerpOrder_valid:
  "\<exists>i. new_Drift_PlacePerpOrder params state user authority = Inr i \<and>
     Drift_PlacePerpOrder_Validate i = Inr () \<and> required_signers (Drift_PlacePerpOrder.accounts i) = [authority]"
proof -
  have "required_signers (map2 (\<lambda>s k. Some (slot_meta s k)) Drift_PlacePerpOrder_slots
      [state, user, authority]) = [authority]"
    by (simp add: Drift_PlacePerpOrder_slots_def)
  then show ?thesis
    by (simp add: new_Drift_PlacePerpOrder_def Let_def Drift_PlacePerpOrder_builder_def Drift_PlacePerpOrder_zero_def Drift_PlacePerpOrder_Validate_def
        first_error_simps fail_if_def Drift_PlacePerpOrder_SetParams_def)
qed

lemma new_Drift_PlaceSpotOrder_valid:
  "\<exists>i. new_Drift_PlaceSpotOrder params state user authority = Inr i \<and>
     Drift_PlaceSpotOrder_Validate i = Inr () \<and> required_signers (Drift_PlaceSpotOrder.accounts i) = [authority]"
proof -
  have "required_signers (map2 (\<lambda>s k. Some (slot_meta s k)) Drift_PlaceSpotOrder_slots
      [state, user, authority]) = [authority]"
    by (simp add: Drift_PlaceSpotOrder_slots_def)
  then show ?thesis
    by (simp add: new_Drift_PlaceSpotOrder_def Let_def Drift_PlaceSpotOrder_builder_def Drift_PlaceSpotOrder_zero_def Drift_PlaceSpotOrder_Validate_def
        first_error_simps fail_if_def Drift_PlaceSpotOrder_SetParams_def)
qed

lemma new_Drift_FillPerpOrder_valid:
  "\<exists>i. new_Drift_FillPerpOrder orderId makerOrderId state authority filler fillerStats user userStats = Inr i \<and>
     Drift_FillPerpOrder_Validate i = Inr () \<and> required_signers (Drift_FillPerpOrder.accounts i) = [authority]"
proof -
  have "required_signers (map2 (\<lambda>s k. Some (slot_meta s k)) Drift_FillPerpOrder_slots
      [state, authority, filler, fillerStats, user, userStats]) = [authority]"
    by (simp add: Drift_FillPerpOrder_slots_def)
  then show ?thesis
    by (simp add: new_Drift_FillPerpOrder_def Let_def Drift_FillPerpOrder_builder_def Drift_FillPerpOrder_zero_def Drift_FillPerpOrder_Validate_def
        first_error_simps fail_if_def Drift_FillPerpOrder_SetOrderId_def Drift_FillPerpOrder_SetMakerOrderId_def)
qed

lemma new_Drift_PlaceAndMakeSpotOrder_valid:
  "\<exists>i. new_Drift_PlaceAndMakeSpotOrder params takerOrderId fulfillmentType state user userStats taker takerStats authority = Inr i \<and>
     Drift_PlaceAndMakeSpotOrder_Validate i = Inr () \<and> required_signers (Drift_PlaceAndMakeSpotOrder.accounts i) = [authority]"
proof -
  have "required_signers (map2 (\<lambda>s k. Some (slot_meta s k)) Drift_PlaceAndMakeSpotOrder_slots
      [state, user, userStats, taker, takerStats, authority]) = [authority]"
    by (simp add: Drift_PlaceAndMakeSpotOrder_slots_def)
  then show ?thesis
    by (simp add: new_Drift_PlaceAndMakeSpotOrder_def Let_def Drift_PlaceAndMakeSpotOrder_builder_def Drift_PlaceAndMakeSpotOrder_zero_def Drift_PlaceAndMakeSpotOrder_Validate_def
        first_error_simps fail_if_def Drift_PlaceAndMakeSpotOrder_SetParams_def Drift_PlaceAndMakeSpotOrder_SetTakerOrderId_def Drift_PlaceAndMakeSpotOrder_SetFulfillmentType_def)
qed

lemma new_Drift_PlaceAndMakePerpOrder_valid:
  "\<exists>i. new_Drift_PlaceAndMakePerpOrder params takerOrderId state user userStats taker takerStats authority = Inr i \<and>
     Drift_PlaceAndMakePerpOrder_Validate i = Inr () \<and> required_signers (Drift_PlaceAndMakePerpOrder.accounts i) = [authority]"
proof -
  have "required_signers (map2 (\<lambda>s k. Some (slot_meta s k)) Drift_PlaceAndMakePerpOrder_slots
      [state, user, userStats, taker, takerStats, authority]) = [authority]"
    by (simp add: Drift_PlaceAndMakePerpOrder_slots_def)
  then show ?thesis
    by (simp add: new_Drift_PlaceAndMakePerpOrder_def Let_def Drift_PlaceAndMakePerpOrder_builder_def Drift_PlaceAndMakePerpOrder_zero_def Drift_PlaceAndMakePerpOrder_Validate_def
        first_error_simps fail_if_def Drift_PlaceAndMakePerpOrder_SetParams_def Drift_PlaceAndMakePerpOrder_SetTakerOrderId_def)
qed

lemma new_Drift_FillSpotOrder_valid:
  "\<exists>i. new_Drift_FillSpotOrder orderId fulfillmentType makerOrderId state authority filler fillerStats user userStats = Inr i \<and>
     Drift_FillSpotOrder_Validate i = Inr () \<and> required_signers (Drift_FillSpotOrder.accounts i) = [authority]"
proof -
  have "required_signers (map2 (\<lambda>s k. Some (slot_meta s k)) Drift_FillSpotOrder_slots
      [state, authority, filler, fillerStats, user, userStats]) = [authority]"
    by (simp add: Drift_FillSpotOrder_slots_def)
  then show ?thesis
    by (simp add: new_Drift_FillSpotOrder_def Let_def Drift_FillSpotOrder_builder_def Drift_FillSpotOrder_zero_def Drift_FillSpotOrder_Validate_def
        first_error_simps fail_if_def Drift_FillSpotOrder_SetOrderId_def Drift_FillSpotOrder_SetFulfillmentType_def Drift_FillSpotOrder_SetMakerOrderId_def)
qed

lemma new_Drift_Initialize_valid:
  "\<exists>i. new_Drift_Initialize admin state quoteAssetMint driftSigner rent systemProgram tokenProgram = Inr i \<and>
     Drift_Initialize_Validate i = Inr () \<and> required_signers (Drift_Initialize.accounts i) = [admin]"
proof -
  have "required_signers (map2 (\<lambda>s k. Some (slot_meta s k)) Drift_Initialize_slots
      [admin, state, quoteAssetMint, driftSigner, rent, systemProgram, tokenProgram]) = [admin]"
    by (simp add: Drift_Initialize_slots_def)
  then show ?thesis
    by (simp add: new_Drift_Initialize_def Let_def Drift_Initialize_builder_def Drift_Initialize_zero_def Drift_Initialize_Validate_def
        first_error_simps fail_if_def )
qed

lemma new_Drift_InitializeSpotMarket_valid:
  "\<exists>i. new_Drift_InitializeSpotMarket optimalUtilization optimalBorrowRate maxBorrowRate oracleSource initialAssetWeight
        maintenanceAssetWeight initialLiabilityWeight maintenanceLiabilityWeight imfFactor liquidatorFee
        ifLiquidationFee activeStatus assetTier scaleInitialAssetWeightStart withdrawGuardThreshold
        orderTickSize orderStepSize ifTotalFactor name spotMarket spotMarketMint spotMarketVault
        insuranceFundVault driftSigner state oracle admin rent systemProgram tokenProgram = Inr i \<and>
     Drift_InitializeSpotMarket_Validate i = Inr () \<and> required_signers (Drift_InitializeSpotMarket.accounts i) = [admin]"
proof -
  have "required_signers (map2 (\<lambda>s k. Some (slot_meta s k)) Drift_InitializeSpotMarket_slots
      [spotMarket, spotMarketMint, spotMarketVault, insuranceFundVault, driftSigner, state, oracle, admin, rent, systemProgram, tokenProgram]) = [admin]"
    by (simp add: Drift_InitializeSpotMarket_slots_def)
  then show ?thesis
    by (simp add: new_Drift_InitializeSpotMarket_def Let_def Drift_InitializeSpotMarket_builder_def Drift_InitializeSpotMarket_zero_def Drift_InitializeSpotMarket_Validate_def
        first_error_simps fail_if_def Drift_InitializeSpotMarket_SetOptimalUtilization_def Drift_InitializeSpotMarket_SetOptimalBorrowRate_def Drift_InitializeSpotMarket_SetMaxBorrowRate_def Drift_InitializeSpotMarket_SetOracleSource_def Drift_InitializeSpotMarket_SetInitialAssetWeight_def Drift_InitializeSpotMarket_SetMaintenanceAssetWeight_def Drift_InitializeSpotMarket_SetInitialLiabilityWeight_def Drift_InitializeSpotMarket_SetMaintenanceLiabilityWeight_def Drift_InitializeSpotMarket_SetImfFactor_def Drift_InitializeSpotMarket_SetLiquidatorFee_def Drift_InitializeSpotMarket_SetIfLiquidationFee_def Drift_InitializeSpotMarket_SetActiveStatus_def Drift_InitializeSpotMarket_SetAssetTier_def Drift_InitializeSpotMarket_SetScaleInitialAssetWeightStart_def Drift_InitializeSpotMarket_SetWithdrawGuardThreshold_def Drift_InitializeSpotMarket_SetOrderTickSize_def Drift_InitializeSpotMarket_SetOrderStepSize_def Drift_InitializeSpotMarket_SetIfTotalFactor_def Drift_InitializeSpotMarket_SetName_def)
qed

lemma new_Drift_InitializePerpMarket_valid:
  "\<exists>i. new_Drift_InitializePerpMarket marketIndex ammBaseAssetReserve ammQuoteAssetReserve ammPeriodicity ammPegMultiplier
        oracleSource contractTier marginRatioInitial marginRatioMaintenance liquidatorFee
        ifLiquidationFee imfFactor activeStatus baseSpread maxSpread maxOpenInterest
        maxRevenueWithdrawPerPeriod quoteMaxInsurance orderStepSize orderTickSize minOrderSize
        concentrationCoefScale curveUpdateIntensity ammJitIntensity name admin state perpMarket oracle
        rent systemProgram = Inr i \<and>
     Drift_InitializePerpMarket_Validate i = Inr () \<and> required_signers (Drift_InitializePerpMarket.accounts i) = [admin]"
proof -
  have "required_signers (map2 (\<lambda>s k. Some (slot_meta s k)) Drift_InitializePerpMarket_slots
      [admin, state, perpMarket, oracle, rent, systemProgram]) = [admin]"
    by (simp add: Drift_InitializePerpMarket_slots_def)
  then show ?thesis
    by (simp add: new_Drift_InitializePerpMarket_def Let_def Drift_InitializePerpMarket_builder_def Drift_InitializePerpMarket_zero_def Drift_InitializePerpMarket_Validate_def
        first_error_simps fail_if_def Drift_InitializePerpMarket_SetMarketIndex_def Drift_InitializePerpMarket_SetAmmBaseAssetReserve_def Drift_InitializePerpMarket_SetAmmQuoteAssetReserve_def Drift_InitializePerpMarket_SetAmmPeriodicity_def Drift_InitializePerpMarket_SetAmmPegMultiplier_def Drift_InitializePerpMarket_SetOracleSource_def Drift_InitializePerpMarket_SetContractTier_def Drift_InitializePerpMarket_SetMarginRatioInitial_def Drift_InitializePerpMarket_SetMarginRatioMaintenance_def Drift_InitializePerpMarket_SetLiquidatorFee_def Drift_InitializePerpMarket_SetIfLiquidationFee_def Drift_InitializePerpMarket_SetImfFactor_def Drift_InitializePerpMarket_SetActiveStatus_def Drift_InitializePerpMarket_SetBaseSpread_def Drift_InitializePerpMarket_SetMaxSpread_def Drift_InitializePerpMarket_SetMaxOpenInterest_def Drift_InitializePerpMarket_SetMaxRevenueWithdrawPerPeriod_def Drift_InitializePerpMarket_SetQuoteMaxInsurance_def Drift_InitializePerpMarket_SetOrderStepSize_def Drift_InitializePerpMarket_SetOrderTickSize_def Drift_InitializePerpMarket_SetMinOrderSize_def Drift_InitializePerpMarket_SetConcentrationCoefScale_def Drift_InitializePerpMarket_SetCurveUpdateIntensity_def Drift_InitializePerpMarket_SetAmmJitIntensity_def Drift_InitializePerpMarket_SetName_def)
qed

section \<open>What the bindings promise\<close>

text \<open>A discriminator for concrete runs.\<close>

definition drift_demo_sighash :: "string \<Rightarrow> bytes" where
  "drift_demo_sighash name =
     (if name = ''initialize_user'' then drift_id_InitializeUser
      else if name = ''initialize_user_stats'' then drift_id_InitializeUserStats
      else if name = ''deposit'' then drift_id_Deposit
      else if name = ''withdraw'' then drift_id_Withdraw
      else if name = ''place_perp_order'' then drift_id_PlacePerpOrder
      else if name = ''place_spot_order'' then drift_id_PlaceSpotOrder
      else if name = ''fill_perp_order'' then drift_id_FillPerpOrder
      else if name = ''place_and_make_spot_order'' then drift_id_PlaceAndMakeSpotOrder
      else if name = ''place_and_make_perp_order'' then drift_id_PlaceAndMakePerpOrder
      else if name = ''fill_spot_order'' then drift_id_FillSpotOrder
      else if name = ''initialize'' then drift_id_Initialize
      else if name = ''initialize_spot_market'' then drift_id_InitializeSpotMarket
      else if name = ''initialize_perp_market'' then drift_id_InitializePerpMarket
      else [])"

lemma drift_demo_ids: "drift_ids_ok drift_demo_sighash"
  by (simp add: drift_ids_ok_def drift_demo_sighash_def)

interpretation le_drift: drift_program le_lib drift_demo_sighash "Inl (Panic [])"
  by unfold_locales (rule drift_demo_ids)

lemma drift_with_accounts_twice [simp]: "drift_with_accounts as (drift_with_accounts bs i) = drift_with_accounts as i"
  by (cases i) simp_all

text \<open>
  C34. Drift instructions round-trip.  An instruction that \<open>ValidateAndBuild\<close> returns has data, and
  decoding that data with a list of accounts gives the same instruction with those accounts, for each of the
  thirteen instructions.  The hypotheses are that the library reads what it wrote, that Anchor's discriminators of the
  names are the ids of the client, and that arrays have the lengths of their Go types.
\<close>

theorem drift_instruction_round_trip:
  assumes "bin_ok L" and "drift_ids_ok sighash" and "drift_ValidateAndBuild i = Inr j" and "drift_wf i"
    and "set_accounts accs = Inr as"
  shows "\<exists>b. drift_Data nil L j = Inr b \<and>
    drift_DecodeInstruction sighash set_accounts L accs b = Inr (drift_with_accounts as i)"
proof -
  have program: "drift_program L sighash"
    using assms(1,2) by (simp add: drift_program_def drift_program_axioms_def bin_library_def)
  have valid: "drift_Validate i = Inr ()" and j: "j = i"
    using assms(3) by (auto simp: drift_ValidateAndBuild_def)
  obtain b where "drift_marshal_impl nil L i = Inr b"
    and "read_variant sighash (drift_variants L) (drift_type_id i @ b) = Inr (drift_with_accounts [] i)"
    using drift_program.instruction_reads [OF program, of i nil] valid assms(4) by blast
  then show ?thesis
    by (simp add: j drift_Data_def drift_Marshal_def drift_DecodeInstruction_def drift_Unmarshal_def assms(5))
qed

theorem drift_instruction_round_trip_witness:
  "\<exists>i b. new_Drift_FillPerpOrder 5 7 [1] [2] [3] [4] [5] [6] = Inr i \<and>
     drift_Data (Inl (Panic [])) le_lib (Ix_Drift_FillPerpOrder i) = Inr b \<and>
     drift_DecodeInstruction drift_demo_sighash Inr le_lib [None] b = Inr (Ix_Drift_FillPerpOrder (i\<lparr>Drift_FillPerpOrder.accounts := [None]\<rparr>))"
proof -
  obtain i where i: "new_Drift_FillPerpOrder 5 7 [1] [2] [3] [4] [5] [6] = Inr i" "Drift_FillPerpOrder_Validate i = Inr ()"
    using new_Drift_FillPerpOrder_valid by blast
  have "drift_ValidateAndBuild (Ix_Drift_FillPerpOrder i) = Inr (Ix_Drift_FillPerpOrder i)"
    using i(2) by (simp add: drift_ValidateAndBuild_def)
  from drift_instruction_round_trip [OF bin_ok_le_lib drift_demo_ids this, of Inr "[None]" "[None]"] i(1)
  show ?thesis by auto
qed

text \<open>
  Only the instructions of the variant table are decoded.  Data with any other type id is refused, also when
  \<open>InstructionIDToName\<close> has a name for it, as for CancelOrder: the client names 166 instructions and
  decodes thirteen.
\<close>

theorem drift_decodes_only_its_variants:
  assumes "drift_ids_ok sighash" and "length t = 8"
    and "t \<notin> set [drift_id_InitializeUser, drift_id_InitializeUserStats, drift_id_Deposit, drift_id_Withdraw,
      drift_id_PlacePerpOrder, drift_id_PlaceSpotOrder, drift_id_FillPerpOrder,
      drift_id_PlaceAndMakeSpotOrder, drift_id_PlaceAndMakePerpOrder, drift_id_FillSpotOrder,
      drift_id_Initialize, drift_id_InitializeSpotMarket, drift_id_InitializePerpMarket]"
  shows "drift_DecodeInstruction sighash set_accounts L accs (t @ bs) =
    Inl (Err ''unable to decode instruction: no known type'')"
proof -
  have "find (\<lambda>(n, _). sighash n = t) (drift_variants L) = None"
    using assms(1,3) by (auto simp: drift_variants_def drift_ids_ok_def find_None_iff)
  then show ?thesis
    using assms(2) by (simp add: drift_DecodeInstruction_def drift_Unmarshal_def read_variant_append)
qed

theorem drift_decodes_only_its_variants_witness:
  "drift_InstructionIDToName [95, 129, 237, 240, 8, 49, 223, 132] = ''CancelOrder'' \<and>
   drift_DecodeInstruction drift_demo_sighash Inr le_lib [None] ([95, 129, 237, 240, 8, 49, 223, 132] @ [0]) =
     Inl (Err ''unable to decode instruction: no known type'')"
proof
  show "drift_InstructionIDToName [95, 129, 237, 240, 8, 49, 223, 132] = ''CancelOrder''"
    by (simp add: drift_InstructionIDToName_def drift_instruction_ids_def drift_id_defs)
  show "drift_DecodeInstruction drift_demo_sighash Inr le_lib [None] ([95, 129, 237, 240, 8, 49, 223, 132] @ [0]) =
      Inl (Err ''unable to decode instruction: no known type'')"
    by (rule drift_decodes_only_its_variants [OF drift_demo_ids]) (simp_all add: drift_id_defs)
qed

text \<open>
  C35. The constructors of Drift give instructions that pass \<open>Validate\<close> whatever their arguments, and the
  signatures these instructions need are exactly those of the accounts the program authorises:
  the authority of a deposit,
  withdrawal or order, the authority and the payer of a new user, the admin of a market.
\<close>

theorem drift_constructors_ask_for_the_right_signatures:
  "(\<forall>subAccountId name user userStats state authority payer rent systemProgram.
     \<exists>i. new_Drift_InitializeUser subAccountId name user userStats state authority payer rent systemProgram = Inr i \<and>
     Drift_InitializeUser_Validate i = Inr () \<and> required_signers (Drift_InitializeUser.accounts i) = [authority, payer]) \<and>
   (\<forall>userStats state authority payer rent systemProgram.
     \<exists>i. new_Drift_InitializeUserStats userStats state authority payer rent systemProgram = Inr i \<and>
     Drift_InitializeUserStats_Validate i = Inr () \<and> required_signers (Drift_InitializeUserStats.accounts i) = [authority, payer]) \<and>
   (\<forall>marketIndex amount reduceOnly state user userStats authority spotMarketVault userTokenAccount tokenProgram.
     \<exists>i. new_Drift_Deposit marketIndex amount reduceOnly state user userStats authority spotMarketVault userTokenAccount
        tokenProgram = Inr i \<and>
     Drift_Deposit_Validate i = Inr () \<and> required_signers (Drift_Deposit.accounts i) = [authority]) \<and>
   (\<forall>marketIndex amount reduceOnly state user userStats authority spotMarketVault driftSigner userTokenAccount tokenProgram.
     \<exists>i. new_Drift_Withdraw marketIndex amount reduceOnly state user userStats authority spotMarketVault driftSigner
        userTokenAccount tokenProgram = Inr i \<and>
     Drift_Withdraw_Validate i = Inr () \<and> required_signers (Drift_Withdraw.accounts i) = [authority]) \<and>
   (\<forall>params state user authority.
     \<exists>i. new_Drift_PlacePerpOrder params state user authority = Inr i \<and>
     Drift_PlacePerpOrder_Validate i = Inr () \<and> required_signers (Drift_PlacePerpOrder.accounts i) = [authority]) \<and>
   (\<forall>params state user authority.
     \<exists>i. new_Drift_PlaceSpotOrder params state user authority = Inr i \<and>
     Drift_PlaceSpotOrder_Validate i = Inr () \<and> required_signers (Drift_PlaceSpotOrder.accounts i) = [authority]) \<and>
   (\<forall>orderId makerOrderId state authority filler fillerStats user userStats.
     \<exists>i. new_Drift_FillPerpOrder orderId makerOrderId state authority filler fillerStats user userStats = Inr i \<and>
     Drift_FillPerpOrder_Validate i = Inr () \<and> required_signers (Drift_FillPerpOrder.accounts i) = [authority]) \<and>
   (\<forall>params takerOrderId fulfillmentType state user userStats taker takerStats authority.
     \<exists>i. new_Drift_PlaceAndMakeSpotOrder params takerOrderId fulfillmentType state user userStats taker takerStats authority = Inr i \<and>
     Drift_PlaceAndMakeSpotOrder_Validate i = Inr () \<and> required_signers (Drift_PlaceAndMakeSpotOrder.accounts i) = [authority]) \<and>
   (\<forall>params takerOrderId state user userStats taker takerStats authority.
     \<exists>i. new_Drift_PlaceAndMakePerpOrder params takerOrderId state user userStats taker takerStats authority = Inr i \<and>
     Drift_PlaceAndMakePerpOrder_Validate i = Inr () \<and> required_signers (Drift_PlaceAndMakePerpOrder.accounts i) = [authority]) \<and>
   (\<forall>orderId fulfillmentType makerOrderId state authority filler fillerStats user userStats.
     \<exists>i. new_Drift_FillSpotOrder orderId fulfillmentType makerOrderId state authority filler fillerStats user userStats = Inr i \<and>
     Drift_FillSpotOrder_Validate i = Inr () \<and> required_signers (Drift_FillSpotOrder.accounts i) = [authority]) \<and>
   (\<forall>admin state quoteAssetMint driftSigner rent systemProgram tokenProgram.
     \<exists>i. new_Drift_Initialize admin state quoteAssetMint driftSigner rent systemProgram tokenProgram = Inr i \<and>
     Drift_Initialize_Validate i = Inr () \<and> required_signers (Drift_Initialize.accounts i) = [admin]) \<and>
   (\<forall>optimalUtilization optimalBorrowRate maxBorrowRate oracleSource initialAssetWeight maintenanceAssetWeight initialLiabilityWeight maintenanceLiabilityWeight imfFactor liquidatorFee ifLiquidationFee activeStatus assetTier scaleInitialAssetWeightStart withdrawGuardThreshold orderTickSize orderStepSize ifTotalFactor name spotMarket spotMarketMint spotMarketVault insuranceFundVault driftSigner state oracle admin rent systemProgram tokenProgram.
     \<exists>i. new_Drift_InitializeSpotMarket optimalUtilization optimalBorrowRate maxBorrowRate oracleSource initialAssetWeight
        maintenanceAssetWeight initialLiabilityWeight maintenanceLiabilityWeight imfFactor liquidatorFee
        ifLiquidationFee activeStatus assetTier scaleInitialAssetWeightStart withdrawGuardThreshold
        orderTickSize orderStepSize ifTotalFactor name spotMarket spotMarketMint spotMarketVault
        insuranceFundVault driftSigner state oracle admin rent systemProgram tokenProgram = Inr i \<and>
     Drift_InitializeSpotMarket_Validate i = Inr () \<and> required_signers (Drift_InitializeSpotMarket.accounts i) = [admin]) \<and>
   (\<forall>marketIndex ammBaseAssetReserve ammQuoteAssetReserve ammPeriodicity ammPegMultiplier oracleSource contractTier marginRatioInitial marginRatioMaintenance liquidatorFee ifLiquidationFee imfFactor activeStatus baseSpread maxSpread maxOpenInterest maxRevenueWithdrawPerPeriod quoteMaxInsurance orderStepSize orderTickSize minOrderSize concentrationCoefScale curveUpdateIntensity ammJitIntensity name admin state perpMarket oracle rent systemProgram.
     \<exists>i. new_Drift_InitializePerpMarket marketIndex ammBaseAssetReserve ammQuoteAssetReserve ammPeriodicity ammPegMultiplier
        oracleSource contractTier marginRatioInitial marginRatioMaintenance liquidatorFee
        ifLiquidationFee imfFactor activeStatus baseSpread maxSpread maxOpenInterest
        maxRevenueWithdrawPerPeriod quoteMaxInsurance orderStepSize orderTickSize minOrderSize
        concentrationCoefScale curveUpdateIntensity ammJitIntensity name admin state perpMarket oracle
        rent systemProgram = Inr i \<and>
     Drift_InitializePerpMarket_Validate i = Inr () \<and> required_signers (Drift_InitializePerpMarket.accounts i) = [admin])"
  by (intro conjI allI new_Drift_InitializeUser_valid
      new_Drift_InitializeUserStats_valid
      new_Drift_Deposit_valid
      new_Drift_Withdraw_valid
      new_Drift_PlacePerpOrder_valid
      new_Drift_PlaceSpotOrder_valid
      new_Drift_FillPerpOrder_valid
      new_Drift_PlaceAndMakeSpotOrder_valid
      new_Drift_PlaceAndMakePerpOrder_valid
      new_Drift_FillSpotOrder_valid
      new_Drift_Initialize_valid
      new_Drift_InitializeSpotMarket_valid
      new_Drift_InitializePerpMarket_valid)

end
