(* ===== verification/Raydium_Swap.thy ===== *)
theory Raydium_Swap
  imports Anchor_Codec
begin

text \<open>
  The bindings of the Raydium constant-product swap (\<open>client/svm/raydium_cp_swap\<close>): its enumerations, the
  observation struct, the accounts behind their discriminators, and the ten instructions with their
  account slots, builders, \<open>Validate\<close>, codecs and constructors; then the instruction type, its data and
  \<open>DecodeInstruction\<close>.  The display of instructions as trees is left out.
\<close>

section \<open>Enumerations and structs\<close>

type_synonym TradeDirection = "8 word"

definition TradeDirection_String :: "TradeDirection \<Rightarrow> string" where
  "TradeDirection_String v = enum_name
     [''ZeroForOne'', ''OneForZero'']
     (unat v)"

type_synonym RoundDirection = "8 word"

definition RoundDirection_String :: "RoundDirection \<Rightarrow> string" where
  "RoundDirection_String v = enum_name
     [''Floor'', ''Ceiling'']
     (unat v)"

type_synonym PoolStatusBitIndex = "8 word"

definition PoolStatusBitIndex_String :: "PoolStatusBitIndex \<Rightarrow> string" where
  "PoolStatusBitIndex_String v = enum_name
     [''Deposit'', ''Withdraw'', ''Swap'']
     (unat v)"

type_synonym PoolStatusBitFlag = "8 word"

definition PoolStatusBitFlag_String :: "PoolStatusBitFlag \<Rightarrow> string" where
  "PoolStatusBitFlag_String v = enum_name
     [''Enable'', ''Disable'']
     (unat v)"

subsection \<open>\<open>Observation\<close>\<close>

record Observation =
  BlockTimestamp :: "64 word"
  CumulativeToken0PriceX32 :: "128 word"
  CumulativeToken1PriceX32 :: "128 word"

definition marshal_Observation :: "bin_lib \<Rightarrow> Observation \<Rightarrow> bytes" where
  "marshal_Observation L = enc_all
     [put_u64 L \<circ> BlockTimestamp, put_u128 L \<circ> CumulativeToken0PriceX32,
      put_u128 L \<circ> CumulativeToken1PriceX32]"

definition unmarshal_Observation :: "bin_lib \<Rightarrow> Observation reader" where
  "unmarshal_Observation L = dec_all
     [get_field (get_u64 L) BlockTimestamp_update,
      get_field (get_u128 L) CumulativeToken0PriceX32_update,
      get_field (get_u128 L) CumulativeToken1PriceX32_update]"

section \<open>Accounts\<close>

subsection \<open>\<open>AmmConfig\<close>\<close>

record AmmConfig =
  Bump :: "8 word"
  DisableCreatePool :: bool
  Index :: "16 word"
  TradeFeeRate :: "64 word"
  ProtocolFeeRate :: "64 word"
  FundFeeRate :: "64 word"
  CreatePoolFee :: "64 word"
  ProtocolOwner :: bytes
  FundOwner :: bytes
  Padding :: "(64 word) list"

definition AmmConfig_discriminator :: bytes where
  "AmmConfig_discriminator = [218, 244, 33, 104, 203, 203, 43, 111]"

definition marshal_AmmConfig :: "bin_lib \<Rightarrow> AmmConfig \<Rightarrow> bytes" where
  "marshal_AmmConfig L = enc_all
     [\<lambda>_. AmmConfig_discriminator, put_u8 L \<circ> Bump, put_bool L \<circ> DisableCreatePool,
      put_u16 L \<circ> Index, put_u64 L \<circ> TradeFeeRate, put_u64 L \<circ> ProtocolFeeRate,
      put_u64 L \<circ> FundFeeRate, put_u64 L \<circ> CreatePoolFee, put_key L \<circ> ProtocolOwner,
      put_key L \<circ> FundOwner, put_array (put_u64 L) \<circ> Padding]"

definition unmarshal_AmmConfig :: "bin_lib \<Rightarrow> AmmConfig reader" where
  "unmarshal_AmmConfig L = dec_all
     [check_discriminator AmmConfig_discriminator, get_field (get_u8 L) Bump_update,
      get_field (get_bool L) DisableCreatePool_update, get_field (get_u16 L) Index_update,
      get_field (get_u64 L) TradeFeeRate_update, get_field (get_u64 L) ProtocolFeeRate_update,
      get_field (get_u64 L) FundFeeRate_update, get_field (get_u64 L) CreatePoolFee_update,
      get_field (get_key L) ProtocolOwner_update, get_field (get_key L) FundOwner_update,
      sub_field (read_each (prim (get_u64 L))) Padding Padding_update]"

definition wf_AmmConfig :: "AmmConfig \<Rightarrow> bool" where
  "wf_AmmConfig x \<longleftrightarrow>
     length (ProtocolOwner x) = 32 \<and>
     length (FundOwner x) = 32 \<and>
     length (Padding x) = 16"

definition zero_AmmConfig :: AmmConfig where
  "zero_AmmConfig =
     \<lparr>Bump = 0, DisableCreatePool = False, Index = 0, TradeFeeRate = 0, ProtocolFeeRate = 0,
       FundFeeRate = 0, CreatePoolFee = 0, ProtocolOwner = replicate 32 0, FundOwner = replicate 32 0,
       Padding = replicate 16 0\<rparr>"

subsection \<open>\<open>ObservationState\<close>\<close>

record ObservationState =
  Initialized :: bool
  ObservationIndex :: "16 word"
  PoolId :: bytes
  Observations :: "Observation list"
  Padding :: "(64 word) list"

definition ObservationState_discriminator :: bytes where
  "ObservationState_discriminator = [122, 174, 197, 53, 129, 9, 165, 132]"

definition marshal_ObservationState :: "bin_lib \<Rightarrow> ObservationState \<Rightarrow> bytes" where
  "marshal_ObservationState L = enc_all
     [\<lambda>_. ObservationState_discriminator, put_bool L \<circ> Initialized,
      put_u16 L \<circ> ObservationIndex, put_key L \<circ> PoolId,
      put_array (marshal_Observation L) \<circ> Observations, put_array (put_u64 L) \<circ> Padding]"

definition unmarshal_ObservationState :: "bin_lib \<Rightarrow> ObservationState reader" where
  "unmarshal_ObservationState L = dec_all
     [check_discriminator ObservationState_discriminator, get_field (get_bool L) Initialized_update,
      get_field (get_u16 L) ObservationIndex_update, get_field (get_key L) PoolId_update,
      sub_field (read_each (unmarshal_Observation L)) Observations Observations_update,
      sub_field (read_each (prim (get_u64 L))) Padding Padding_update]"

definition wf_ObservationState :: "ObservationState \<Rightarrow> bool" where
  "wf_ObservationState x \<longleftrightarrow>
     length (PoolId x) = 32 \<and>
     length (Observations x) = 100 \<and>
     length (Padding x) = 4"

subsection \<open>\<open>PoolState\<close>\<close>

record PoolState =
  AmmConfig :: bytes
  PoolCreator :: bytes
  Token0Vault :: bytes
  Token1Vault :: bytes
  LpMint :: bytes
  Token0Mint :: bytes
  Token1Mint :: bytes
  Token0Program :: bytes
  Token1Program :: bytes
  ObservationKey :: bytes
  AuthBump :: "8 word"
  Status :: "8 word"
  LpMintDecimals :: "8 word"
  Mint0Decimals :: "8 word"
  Mint1Decimals :: "8 word"
  LpSupply :: "64 word"
  ProtocolFeesToken0 :: "64 word"
  ProtocolFeesToken1 :: "64 word"
  FundFeesToken0 :: "64 word"
  FundFeesToken1 :: "64 word"
  OpenTime :: "64 word"
  Padding :: "(64 word) list"

definition PoolState_discriminator :: bytes where
  "PoolState_discriminator = [247, 237, 227, 245, 215, 195, 222, 70]"

definition marshal_PoolState :: "bin_lib \<Rightarrow> PoolState \<Rightarrow> bytes" where
  "marshal_PoolState L = enc_all
     [\<lambda>_. PoolState_discriminator, put_key L \<circ> AmmConfig, put_key L \<circ> PoolCreator,
      put_key L \<circ> Token0Vault, put_key L \<circ> Token1Vault, put_key L \<circ> LpMint,
      put_key L \<circ> Token0Mint, put_key L \<circ> Token1Mint, put_key L \<circ> Token0Program,
      put_key L \<circ> Token1Program, put_key L \<circ> ObservationKey, put_u8 L \<circ> AuthBump,
      put_u8 L \<circ> Status, put_u8 L \<circ> LpMintDecimals, put_u8 L \<circ> Mint0Decimals,
      put_u8 L \<circ> Mint1Decimals, put_u64 L \<circ> LpSupply, put_u64 L \<circ> ProtocolFeesToken0,
      put_u64 L \<circ> ProtocolFeesToken1, put_u64 L \<circ> FundFeesToken0,
      put_u64 L \<circ> FundFeesToken1, put_u64 L \<circ> OpenTime,
      put_array (put_u64 L) \<circ> Padding]"

definition unmarshal_PoolState :: "bin_lib \<Rightarrow> PoolState reader" where
  "unmarshal_PoolState L = dec_all
     [check_discriminator PoolState_discriminator, get_field (get_key L) AmmConfig_update,
      get_field (get_key L) PoolCreator_update, get_field (get_key L) Token0Vault_update,
      get_field (get_key L) Token1Vault_update, get_field (get_key L) LpMint_update,
      get_field (get_key L) Token0Mint_update, get_field (get_key L) Token1Mint_update,
      get_field (get_key L) Token0Program_update, get_field (get_key L) Token1Program_update,
      get_field (get_key L) ObservationKey_update, get_field (get_u8 L) AuthBump_update,
      get_field (get_u8 L) Status_update, get_field (get_u8 L) LpMintDecimals_update,
      get_field (get_u8 L) Mint0Decimals_update, get_field (get_u8 L) Mint1Decimals_update,
      get_field (get_u64 L) LpSupply_update, get_field (get_u64 L) ProtocolFeesToken0_update,
      get_field (get_u64 L) ProtocolFeesToken1_update, get_field (get_u64 L) FundFeesToken0_update,
      get_field (get_u64 L) FundFeesToken1_update, get_field (get_u64 L) OpenTime_update,
      sub_field (read_each (prim (get_u64 L))) Padding Padding_update]"

definition wf_PoolState :: "PoolState \<Rightarrow> bool" where
  "wf_PoolState x \<longleftrightarrow>
     length (AmmConfig x) = 32 \<and>
     length (PoolCreator x) = 32 \<and>
     length (Token0Vault x) = 32 \<and>
     length (Token1Vault x) = 32 \<and>
     length (LpMint x) = 32 \<and>
     length (Token0Mint x) = 32 \<and>
     length (Token1Mint x) = 32 \<and>
     length (Token0Program x) = 32 \<and>
     length (Token1Program x) = 32 \<and>
     length (ObservationKey x) = 32 \<and>
     length (Padding x) = 32"

lemmas raydium_account_discriminator_defs =
  AmmConfig_discriminator_def ObservationState_discriminator_def
  PoolState_discriminator_def

lemma length_raydium_discriminators [simp]:
  "length AmmConfig_discriminator = 8"
  "length ObservationState_discriminator = 8"
  "length PoolState_discriminator = 8"
  by (simp_all add: raydium_account_discriminator_defs)

section \<open>Round trips\<close>

context bin_library
begin

lemma Observation_rt [simp]:
  "
    unmarshal_Observation L (y, marshal_Observation L x @ r) = Inr (x, r)"
  by (simp add: unmarshal_Observation_def marshal_Observation_def)

lemma AmmConfig_rt [simp]:
  "wf_AmmConfig x \<Longrightarrow> wf_AmmConfig y \<Longrightarrow> 
    unmarshal_AmmConfig L (y, marshal_AmmConfig L x @ r) = Inr (x, r)"
  by (simp add: unmarshal_AmmConfig_def marshal_AmmConfig_def wf_AmmConfig_def check_discriminator_append)

lemma ObservationState_rt [simp]:
  "wf_ObservationState x \<Longrightarrow> wf_ObservationState y \<Longrightarrow> 
    unmarshal_ObservationState L (y, marshal_ObservationState L x @ r) = Inr (x, r)"
  by (simp add: unmarshal_ObservationState_def marshal_ObservationState_def wf_ObservationState_def check_discriminator_append)

lemma PoolState_rt [simp]:
  "wf_PoolState x \<Longrightarrow> wf_PoolState y \<Longrightarrow> 
    unmarshal_PoolState L (y, marshal_PoolState L x @ r) = Inr (x, r)"
  by (simp add: unmarshal_PoolState_def marshal_PoolState_def wf_PoolState_def check_discriminator_append)

sublocale acc_AmmConfig: account_codec AmmConfig_discriminator "marshal_AmmConfig L" "unmarshal_AmmConfig L" "wf_AmmConfig"
  by unfold_locales
    (simp, simp add: unmarshal_AmmConfig_def check_discriminator_append, simp add: marshal_AmmConfig_def, simp)

sublocale acc_ObservationState: account_codec ObservationState_discriminator "marshal_ObservationState L" "unmarshal_ObservationState L" "wf_ObservationState"
  by unfold_locales
    (simp, simp add: unmarshal_ObservationState_def check_discriminator_append, simp add: marshal_ObservationState_def, simp)

sublocale acc_PoolState: account_codec PoolState_discriminator "marshal_PoolState L" "unmarshal_PoolState L" "wf_PoolState"
  by unfold_locales
    (simp, simp add: unmarshal_PoolState_def check_discriminator_append, simp add: marshal_PoolState_def, simp)

end

section \<open>Instructions\<close>

subsection \<open>\<open>CreateAmmConfig\<close>\<close>

record Raydium_CreateAmmConfig =
  Index :: "(16 word) option"
  TradeFeeRate :: "(64 word) option"
  ProtocolFeeRate :: "(64 word) option"
  FundFeeRate :: "(64 word) option"
  CreatePoolFee :: "(64 word) option"
  accounts :: metas

definition Raydium_CreateAmmConfig_slots :: "slot list" where
  "Raydium_CreateAmmConfig_slots =
     [slot_rw_sign ''Owner'', slot_rw ''AmmConfig'', slot_ro ''SystemProgram'']"

definition Raydium_CreateAmmConfig_zero :: Raydium_CreateAmmConfig where
  "Raydium_CreateAmmConfig_zero =
     \<lparr>Index = None, TradeFeeRate = None, ProtocolFeeRate = None, FundFeeRate = None,
       CreatePoolFee = None, accounts = []\<rparr>"

definition Raydium_CreateAmmConfig_builder :: Raydium_CreateAmmConfig where
  "Raydium_CreateAmmConfig_builder = Raydium_CreateAmmConfig_zero\<lparr>accounts := replicate 3 None\<rparr>"

definition Raydium_CreateAmmConfig_SetIndex :: "16 word \<Rightarrow> Raydium_CreateAmmConfig \<Rightarrow> Raydium_CreateAmmConfig" where
  "Raydium_CreateAmmConfig_SetIndex v i = i\<lparr>Index := Some v\<rparr>"

definition Raydium_CreateAmmConfig_SetTradeFeeRate :: "64 word \<Rightarrow> Raydium_CreateAmmConfig \<Rightarrow> Raydium_CreateAmmConfig" where
  "Raydium_CreateAmmConfig_SetTradeFeeRate v i = i\<lparr>TradeFeeRate := Some v\<rparr>"

definition Raydium_CreateAmmConfig_SetProtocolFeeRate :: "64 word \<Rightarrow> Raydium_CreateAmmConfig \<Rightarrow> Raydium_CreateAmmConfig" where
  "Raydium_CreateAmmConfig_SetProtocolFeeRate v i = i\<lparr>ProtocolFeeRate := Some v\<rparr>"

definition Raydium_CreateAmmConfig_SetFundFeeRate :: "64 word \<Rightarrow> Raydium_CreateAmmConfig \<Rightarrow> Raydium_CreateAmmConfig" where
  "Raydium_CreateAmmConfig_SetFundFeeRate v i = i\<lparr>FundFeeRate := Some v\<rparr>"

definition Raydium_CreateAmmConfig_SetCreatePoolFee :: "64 word \<Rightarrow> Raydium_CreateAmmConfig \<Rightarrow> Raydium_CreateAmmConfig" where
  "Raydium_CreateAmmConfig_SetCreatePoolFee v i = i\<lparr>CreatePoolFee := Some v\<rparr>"

definition Raydium_CreateAmmConfig_Validate :: "Raydium_CreateAmmConfig \<Rightarrow> unit res" where
  "Raydium_CreateAmmConfig_Validate i = first_error (
     [fail_if (Index i = None) ''Index parameter is not set'',
      fail_if (TradeFeeRate i = None) ''TradeFeeRate parameter is not set'',
      fail_if (ProtocolFeeRate i = None) ''ProtocolFeeRate parameter is not set'',
      fail_if (FundFeeRate i = None) ''FundFeeRate parameter is not set'',
      fail_if (CreatePoolFee i = None) ''CreatePoolFee parameter is not set''] @
     slot_checks Raydium_CreateAmmConfig_slots 0 (accounts i))"

definition marshal_Raydium_CreateAmmConfig :: "bytes res \<Rightarrow> bin_lib \<Rightarrow> Raydium_CreateAmmConfig \<Rightarrow> bytes res" where
  "marshal_Raydium_CreateAmmConfig nil L i = enc_seq
     [put_param nil (put_u16 L) (Index i), put_param nil (put_u64 L) (TradeFeeRate i),
      put_param nil (put_u64 L) (ProtocolFeeRate i), put_param nil (put_u64 L) (FundFeeRate i),
      put_param nil (put_u64 L) (CreatePoolFee i)]"

definition unmarshal_Raydium_CreateAmmConfig :: "bin_lib \<Rightarrow> Raydium_CreateAmmConfig reader" where
  "unmarshal_Raydium_CreateAmmConfig L = dec_all
     [sub_field (read_ptr 0 (prim (get_u16 L))) Index Index_update,
      sub_field (read_ptr 0 (prim (get_u64 L))) TradeFeeRate TradeFeeRate_update,
      sub_field (read_ptr 0 (prim (get_u64 L))) ProtocolFeeRate ProtocolFeeRate_update,
      sub_field (read_ptr 0 (prim (get_u64 L))) FundFeeRate FundFeeRate_update,
      sub_field (read_ptr 0 (prim (get_u64 L))) CreatePoolFee CreatePoolFee_update]"

definition new_Raydium_CreateAmmConfig ::
   "16 word \<Rightarrow> 64 word \<Rightarrow> 64 word \<Rightarrow> 64 word \<Rightarrow>
   64 word \<Rightarrow> bytes \<Rightarrow> bytes \<Rightarrow> bytes \<Rightarrow>
   Raydium_CreateAmmConfig res" where
  "new_Raydium_CreateAmmConfig
      index tradeFeeRate protocolFeeRate fundFeeRate createPoolFee owner ammConfig systemProgram =
     (let i = Raydium_CreateAmmConfig_SetCreatePoolFee createPoolFee (
        Raydium_CreateAmmConfig_SetFundFeeRate fundFeeRate (
        Raydium_CreateAmmConfig_SetProtocolFeeRate protocolFeeRate (
        Raydium_CreateAmmConfig_SetTradeFeeRate tradeFeeRate (
        Raydium_CreateAmmConfig_SetIndex index Raydium_CreateAmmConfig_builder))))
      in bind_res (set_accounts_from Raydium_CreateAmmConfig_slots 0
           [owner, ammConfig, systemProgram]
           (accounts i)) (\<lambda>as. Inr (i\<lparr>accounts := as\<rparr>)))"

subsection \<open>\<open>UpdateAmmConfig\<close>\<close>

record Raydium_UpdateAmmConfig =
  Param :: "(8 word) option"
  Value :: "(64 word) option"
  accounts :: metas

definition Raydium_UpdateAmmConfig_slots :: "slot list" where
  "Raydium_UpdateAmmConfig_slots =
     [slot_ro_sign ''Owner'', slot_rw ''AmmConfig'']"

definition Raydium_UpdateAmmConfig_zero :: Raydium_UpdateAmmConfig where
  "Raydium_UpdateAmmConfig_zero =
     \<lparr>Param = None, Value = None, accounts = []\<rparr>"

definition Raydium_UpdateAmmConfig_builder :: Raydium_UpdateAmmConfig where
  "Raydium_UpdateAmmConfig_builder = Raydium_UpdateAmmConfig_zero\<lparr>accounts := replicate 2 None\<rparr>"

definition Raydium_UpdateAmmConfig_SetParam :: "8 word \<Rightarrow> Raydium_UpdateAmmConfig \<Rightarrow> Raydium_UpdateAmmConfig" where
  "Raydium_UpdateAmmConfig_SetParam v i = i\<lparr>Param := Some v\<rparr>"

definition Raydium_UpdateAmmConfig_SetValue :: "64 word \<Rightarrow> Raydium_UpdateAmmConfig \<Rightarrow> Raydium_UpdateAmmConfig" where
  "Raydium_UpdateAmmConfig_SetValue v i = i\<lparr>Value := Some v\<rparr>"

definition Raydium_UpdateAmmConfig_Validate :: "Raydium_UpdateAmmConfig \<Rightarrow> unit res" where
  "Raydium_UpdateAmmConfig_Validate i = first_error (
     [fail_if (Param i = None) ''Param parameter is not set'',
      fail_if (Value i = None) ''Value parameter is not set''] @
     slot_checks Raydium_UpdateAmmConfig_slots 0 (accounts i))"

definition marshal_Raydium_UpdateAmmConfig :: "bytes res \<Rightarrow> bin_lib \<Rightarrow> Raydium_UpdateAmmConfig \<Rightarrow> bytes res" where
  "marshal_Raydium_UpdateAmmConfig nil L i = enc_seq
     [put_param nil (put_u8 L) (Param i), put_param nil (put_u64 L) (Value i)]"

definition unmarshal_Raydium_UpdateAmmConfig :: "bin_lib \<Rightarrow> Raydium_UpdateAmmConfig reader" where
  "unmarshal_Raydium_UpdateAmmConfig L = dec_all
     [sub_field (read_ptr 0 (prim (get_u8 L))) Param Param_update,
      sub_field (read_ptr 0 (prim (get_u64 L))) Value Value_update]"

definition new_Raydium_UpdateAmmConfig ::
   "8 word \<Rightarrow> 64 word \<Rightarrow> bytes \<Rightarrow> bytes \<Rightarrow>
   Raydium_UpdateAmmConfig res" where
  "new_Raydium_UpdateAmmConfig
      param value owner ammConfig =
     (let i = Raydium_UpdateAmmConfig_SetValue value (
        Raydium_UpdateAmmConfig_SetParam param Raydium_UpdateAmmConfig_builder)
      in bind_res (set_accounts_from Raydium_UpdateAmmConfig_slots 0
           [owner, ammConfig]
           (accounts i)) (\<lambda>as. Inr (i\<lparr>accounts := as\<rparr>)))"

subsection \<open>\<open>UpdatePoolStatus\<close>\<close>

record Raydium_UpdatePoolStatus =
  Status :: "(8 word) option"
  accounts :: metas

definition Raydium_UpdatePoolStatus_slots :: "slot list" where
  "Raydium_UpdatePoolStatus_slots =
     [slot_ro_sign ''Authority'', slot_rw ''PoolState'']"

definition Raydium_UpdatePoolStatus_zero :: Raydium_UpdatePoolStatus where
  "Raydium_UpdatePoolStatus_zero =
     \<lparr>Status = None, accounts = []\<rparr>"

definition Raydium_UpdatePoolStatus_builder :: Raydium_UpdatePoolStatus where
  "Raydium_UpdatePoolStatus_builder = Raydium_UpdatePoolStatus_zero\<lparr>accounts := replicate 2 None\<rparr>"

definition Raydium_UpdatePoolStatus_SetStatus :: "8 word \<Rightarrow> Raydium_UpdatePoolStatus \<Rightarrow> Raydium_UpdatePoolStatus" where
  "Raydium_UpdatePoolStatus_SetStatus v i = i\<lparr>Status := Some v\<rparr>"

definition Raydium_UpdatePoolStatus_Validate :: "Raydium_UpdatePoolStatus \<Rightarrow> unit res" where
  "Raydium_UpdatePoolStatus_Validate i = first_error (
     [fail_if (Status i = None) ''Status parameter is not set''] @
     slot_checks Raydium_UpdatePoolStatus_slots 0 (accounts i))"

definition marshal_Raydium_UpdatePoolStatus :: "bytes res \<Rightarrow> bin_lib \<Rightarrow> Raydium_UpdatePoolStatus \<Rightarrow> bytes res" where
  "marshal_Raydium_UpdatePoolStatus nil L i = enc_seq
     [put_param nil (put_u8 L) (Status i)]"

definition unmarshal_Raydium_UpdatePoolStatus :: "bin_lib \<Rightarrow> Raydium_UpdatePoolStatus reader" where
  "unmarshal_Raydium_UpdatePoolStatus L = dec_all
     [sub_field (read_ptr 0 (prim (get_u8 L))) Status Status_update]"

definition new_Raydium_UpdatePoolStatus ::
   "8 word \<Rightarrow> bytes \<Rightarrow> bytes \<Rightarrow> Raydium_UpdatePoolStatus res" where
  "new_Raydium_UpdatePoolStatus
      status authority poolState =
     (let i = Raydium_UpdatePoolStatus_SetStatus status Raydium_UpdatePoolStatus_builder
      in bind_res (set_accounts_from Raydium_UpdatePoolStatus_slots 0
           [authority, poolState]
           (accounts i)) (\<lambda>as. Inr (i\<lparr>accounts := as\<rparr>)))"

subsection \<open>\<open>CollectProtocolFee\<close>\<close>

record Raydium_CollectProtocolFee =
  Amount0Requested :: "(64 word) option"
  Amount1Requested :: "(64 word) option"
  accounts :: metas

definition Raydium_CollectProtocolFee_slots :: "slot list" where
  "Raydium_CollectProtocolFee_slots =
     [slot_ro_sign ''Owner'', slot_ro ''Authority'', slot_rw ''PoolState'', slot_ro ''AmmConfig'',
      slot_rw ''Token0Vault'', slot_rw ''Token1Vault'', slot_ro ''Vault0Mint'', slot_ro ''Vault1Mint'',
      slot_rw ''RecipientToken0Account'', slot_rw ''RecipientToken1Account'', slot_ro ''TokenProgram'',
      slot_ro ''TokenProgram2022'']"

definition Raydium_CollectProtocolFee_zero :: Raydium_CollectProtocolFee where
  "Raydium_CollectProtocolFee_zero =
     \<lparr>Amount0Requested = None, Amount1Requested = None, accounts = []\<rparr>"

definition Raydium_CollectProtocolFee_builder :: Raydium_CollectProtocolFee where
  "Raydium_CollectProtocolFee_builder = Raydium_CollectProtocolFee_zero\<lparr>accounts := replicate 12 None\<rparr>"

definition Raydium_CollectProtocolFee_SetAmount0Requested :: "64 word \<Rightarrow> Raydium_CollectProtocolFee \<Rightarrow> Raydium_CollectProtocolFee" where
  "Raydium_CollectProtocolFee_SetAmount0Requested v i = i\<lparr>Amount0Requested := Some v\<rparr>"

definition Raydium_CollectProtocolFee_SetAmount1Requested :: "64 word \<Rightarrow> Raydium_CollectProtocolFee \<Rightarrow> Raydium_CollectProtocolFee" where
  "Raydium_CollectProtocolFee_SetAmount1Requested v i = i\<lparr>Amount1Requested := Some v\<rparr>"

definition Raydium_CollectProtocolFee_Validate :: "Raydium_CollectProtocolFee \<Rightarrow> unit res" where
  "Raydium_CollectProtocolFee_Validate i = first_error (
     [fail_if (Amount0Requested i = None) ''Amount0Requested parameter is not set'',
      fail_if (Amount1Requested i = None) ''Amount1Requested parameter is not set''] @
     slot_checks Raydium_CollectProtocolFee_slots 0 (accounts i))"

definition marshal_Raydium_CollectProtocolFee :: "bytes res \<Rightarrow> bin_lib \<Rightarrow> Raydium_CollectProtocolFee \<Rightarrow> bytes res" where
  "marshal_Raydium_CollectProtocolFee nil L i = enc_seq
     [put_param nil (put_u64 L) (Amount0Requested i), put_param nil (put_u64 L) (Amount1Requested i)]"

definition unmarshal_Raydium_CollectProtocolFee :: "bin_lib \<Rightarrow> Raydium_CollectProtocolFee reader" where
  "unmarshal_Raydium_CollectProtocolFee L = dec_all
     [sub_field (read_ptr 0 (prim (get_u64 L))) Amount0Requested Amount0Requested_update,
      sub_field (read_ptr 0 (prim (get_u64 L))) Amount1Requested Amount1Requested_update]"

definition new_Raydium_CollectProtocolFee ::
   "64 word \<Rightarrow> 64 word \<Rightarrow> bytes \<Rightarrow> bytes \<Rightarrow>
   bytes \<Rightarrow> bytes \<Rightarrow> bytes \<Rightarrow> bytes \<Rightarrow> bytes \<Rightarrow>
   bytes \<Rightarrow> bytes \<Rightarrow> bytes \<Rightarrow> bytes \<Rightarrow> bytes \<Rightarrow>
   Raydium_CollectProtocolFee res" where
  "new_Raydium_CollectProtocolFee
      amount0Requested amount1Requested owner authority poolState ammConfig token0Vault token1Vault
      vault0Mint vault1Mint recipientToken0Account recipientToken1Account tokenProgram tokenProgram2022 =
     (let i = Raydium_CollectProtocolFee_SetAmount1Requested amount1Requested (
        Raydium_CollectProtocolFee_SetAmount0Requested amount0Requested Raydium_CollectProtocolFee_builder)
      in bind_res (set_accounts_from Raydium_CollectProtocolFee_slots 0
           [owner, authority, poolState, ammConfig, token0Vault, token1Vault, vault0Mint, vault1Mint,
            recipientToken0Account, recipientToken1Account, tokenProgram, tokenProgram2022]
           (accounts i)) (\<lambda>as. Inr (i\<lparr>accounts := as\<rparr>)))"

subsection \<open>\<open>CollectFundFee\<close>\<close>

record Raydium_CollectFundFee =
  Amount0Requested :: "(64 word) option"
  Amount1Requested :: "(64 word) option"
  accounts :: metas

definition Raydium_CollectFundFee_slots :: "slot list" where
  "Raydium_CollectFundFee_slots =
     [slot_ro_sign ''Owner'', slot_ro ''Authority'', slot_rw ''PoolState'', slot_ro ''AmmConfig'',
      slot_rw ''Token0Vault'', slot_rw ''Token1Vault'', slot_ro ''Vault0Mint'', slot_ro ''Vault1Mint'',
      slot_rw ''RecipientToken0Account'', slot_rw ''RecipientToken1Account'', slot_ro ''TokenProgram'',
      slot_ro ''TokenProgram2022'']"

definition Raydium_CollectFundFee_zero :: Raydium_CollectFundFee where
  "Raydium_CollectFundFee_zero =
     \<lparr>Amount0Requested = None, Amount1Requested = None, accounts = []\<rparr>"

definition Raydium_CollectFundFee_builder :: Raydium_CollectFundFee where
  "Raydium_CollectFundFee_builder = Raydium_CollectFundFee_zero\<lparr>accounts := replicate 12 None\<rparr>"

definition Raydium_CollectFundFee_SetAmount0Requested :: "64 word \<Rightarrow> Raydium_CollectFundFee \<Rightarrow> Raydium_CollectFundFee" where
  "Raydium_CollectFundFee_SetAmount0Requested v i = i\<lparr>Amount0Requested := Some v\<rparr>"

definition Raydium_CollectFundFee_SetAmount1Requested :: "64 word \<Rightarrow> Raydium_CollectFundFee \<Rightarrow> Raydium_CollectFundFee" where
  "Raydium_CollectFundFee_SetAmount1Requested v i = i\<lparr>Amount1Requested := Some v\<rparr>"

definition Raydium_CollectFundFee_Validate :: "Raydium_CollectFundFee \<Rightarrow> unit res" where
  "Raydium_CollectFundFee_Validate i = first_error (
     [fail_if (Amount0Requested i = None) ''Amount0Requested parameter is not set'',
      fail_if (Amount1Requested i = None) ''Amount1Requested parameter is not set''] @
     slot_checks Raydium_CollectFundFee_slots 0 (accounts i))"

definition marshal_Raydium_CollectFundFee :: "bytes res \<Rightarrow> bin_lib \<Rightarrow> Raydium_CollectFundFee \<Rightarrow> bytes res" where
  "marshal_Raydium_CollectFundFee nil L i = enc_seq
     [put_param nil (put_u64 L) (Amount0Requested i), put_param nil (put_u64 L) (Amount1Requested i)]"

definition unmarshal_Raydium_CollectFundFee :: "bin_lib \<Rightarrow> Raydium_CollectFundFee reader" where
  "unmarshal_Raydium_CollectFundFee L = dec_all
     [sub_field (read_ptr 0 (prim (get_u64 L))) Amount0Requested Amount0Requested_update,
      sub_field (read_ptr 0 (prim (get_u64 L))) Amount1Requested Amount1Requested_update]"

definition new_Raydium_CollectFundFee ::
   "64 word \<Rightarrow> 64 word \<Rightarrow> bytes \<Rightarrow> bytes \<Rightarrow>
   bytes \<Rightarrow> bytes \<Rightarrow> bytes \<Rightarrow> bytes \<Rightarrow> bytes \<Rightarrow>
   bytes \<Rightarrow> bytes \<Rightarrow> bytes \<Rightarrow> bytes \<Rightarrow> bytes \<Rightarrow>
   Raydium_CollectFundFee res" where
  "new_Raydium_CollectFundFee
      amount0Requested amount1Requested owner authority poolState ammConfig token0Vault token1Vault
      vault0Mint vault1Mint recipientToken0Account recipientToken1Account tokenProgram tokenProgram2022 =
     (let i = Raydium_CollectFundFee_SetAmount1Requested amount1Requested (
        Raydium_CollectFundFee_SetAmount0Requested amount0Requested Raydium_CollectFundFee_builder)
      in bind_res (set_accounts_from Raydium_CollectFundFee_slots 0
           [owner, authority, poolState, ammConfig, token0Vault, token1Vault, vault0Mint, vault1Mint,
            recipientToken0Account, recipientToken1Account, tokenProgram, tokenProgram2022]
           (accounts i)) (\<lambda>as. Inr (i\<lparr>accounts := as\<rparr>)))"

subsection \<open>\<open>Initialize\<close>\<close>

record Raydium_Initialize =
  InitAmount0 :: "(64 word) option"
  InitAmount1 :: "(64 word) option"
  OpenTime :: "(64 word) option"
  accounts :: metas

definition Raydium_Initialize_slots :: "slot list" where
  "Raydium_Initialize_slots =
     [slot_rw_sign ''Creator'', slot_ro ''AmmConfig'', slot_ro ''Authority'', slot_rw ''PoolState'',
      slot_ro ''Token0Mint'', slot_ro ''Token1Mint'', slot_rw ''LpMint'', slot_rw ''CreatorToken0'',
      slot_rw ''CreatorToken1'', slot_rw ''CreatorLpToken'', slot_rw ''Token0Vault'',
      slot_rw ''Token1Vault'', slot_rw ''CreatePoolFee'', slot_rw ''ObservationState'',
      slot_ro ''TokenProgram'', slot_ro ''Token0Program'', slot_ro ''Token1Program'',
      slot_ro ''AssociatedTokenProgram'', slot_ro ''SystemProgram'', slot_ro ''Rent'']"

definition Raydium_Initialize_zero :: Raydium_Initialize where
  "Raydium_Initialize_zero =
     \<lparr>InitAmount0 = None, InitAmount1 = None, OpenTime = None, accounts = []\<rparr>"

definition Raydium_Initialize_builder :: Raydium_Initialize where
  "Raydium_Initialize_builder = Raydium_Initialize_zero\<lparr>accounts := replicate 20 None\<rparr>"

definition Raydium_Initialize_SetInitAmount0 :: "64 word \<Rightarrow> Raydium_Initialize \<Rightarrow> Raydium_Initialize" where
  "Raydium_Initialize_SetInitAmount0 v i = i\<lparr>InitAmount0 := Some v\<rparr>"

definition Raydium_Initialize_SetInitAmount1 :: "64 word \<Rightarrow> Raydium_Initialize \<Rightarrow> Raydium_Initialize" where
  "Raydium_Initialize_SetInitAmount1 v i = i\<lparr>InitAmount1 := Some v\<rparr>"

definition Raydium_Initialize_SetOpenTime :: "64 word \<Rightarrow> Raydium_Initialize \<Rightarrow> Raydium_Initialize" where
  "Raydium_Initialize_SetOpenTime v i = i\<lparr>OpenTime := Some v\<rparr>"

definition Raydium_Initialize_Validate :: "Raydium_Initialize \<Rightarrow> unit res" where
  "Raydium_Initialize_Validate i = first_error (
     [fail_if (InitAmount0 i = None) ''InitAmount0 parameter is not set'',
      fail_if (InitAmount1 i = None) ''InitAmount1 parameter is not set'',
      fail_if (OpenTime i = None) ''OpenTime parameter is not set''] @
     slot_checks Raydium_Initialize_slots 0 (accounts i))"

definition marshal_Raydium_Initialize :: "bytes res \<Rightarrow> bin_lib \<Rightarrow> Raydium_Initialize \<Rightarrow> bytes res" where
  "marshal_Raydium_Initialize nil L i = enc_seq
     [put_param nil (put_u64 L) (InitAmount0 i), put_param nil (put_u64 L) (InitAmount1 i),
      put_param nil (put_u64 L) (OpenTime i)]"

definition unmarshal_Raydium_Initialize :: "bin_lib \<Rightarrow> Raydium_Initialize reader" where
  "unmarshal_Raydium_Initialize L = dec_all
     [sub_field (read_ptr 0 (prim (get_u64 L))) InitAmount0 InitAmount0_update,
      sub_field (read_ptr 0 (prim (get_u64 L))) InitAmount1 InitAmount1_update,
      sub_field (read_ptr 0 (prim (get_u64 L))) OpenTime OpenTime_update]"

definition new_Raydium_Initialize ::
   "64 word \<Rightarrow> 64 word \<Rightarrow> 64 word \<Rightarrow> bytes \<Rightarrow>
   bytes \<Rightarrow> bytes \<Rightarrow> bytes \<Rightarrow> bytes \<Rightarrow> bytes \<Rightarrow>
   bytes \<Rightarrow> bytes \<Rightarrow> bytes \<Rightarrow> bytes \<Rightarrow> bytes \<Rightarrow>
   bytes \<Rightarrow> bytes \<Rightarrow> bytes \<Rightarrow> bytes \<Rightarrow> bytes \<Rightarrow>
   bytes \<Rightarrow> bytes \<Rightarrow> bytes \<Rightarrow> bytes \<Rightarrow>
   Raydium_Initialize res" where
  "new_Raydium_Initialize
      initAmount0 initAmount1 openTime creator ammConfig authority poolState token0Mint token1Mint
      lpMint creatorToken0 creatorToken1 creatorLpToken token0Vault token1Vault createPoolFee
      observationState tokenProgram token0Program token1Program associatedTokenProgram systemProgram
      rent =
     (let i = Raydium_Initialize_SetOpenTime openTime (
        Raydium_Initialize_SetInitAmount1 initAmount1 (
        Raydium_Initialize_SetInitAmount0 initAmount0 Raydium_Initialize_builder))
      in bind_res (set_accounts_from Raydium_Initialize_slots 0
           [creator, ammConfig, authority, poolState, token0Mint, token1Mint, lpMint, creatorToken0,
            creatorToken1, creatorLpToken, token0Vault, token1Vault, createPoolFee, observationState,
            tokenProgram, token0Program, token1Program, associatedTokenProgram, systemProgram, rent]
           (accounts i)) (\<lambda>as. Inr (i\<lparr>accounts := as\<rparr>)))"

subsection \<open>\<open>Deposit\<close>\<close>

record Raydium_Deposit =
  LpTokenAmount :: "(64 word) option"
  MaximumToken0Amount :: "(64 word) option"
  MaximumToken1Amount :: "(64 word) option"
  accounts :: metas

definition Raydium_Deposit_slots :: "slot list" where
  "Raydium_Deposit_slots =
     [slot_ro_sign ''Owner'', slot_ro ''Authority'', slot_rw ''PoolState'', slot_rw ''OwnerLpToken'',
      slot_rw ''Token0Account'', slot_rw ''Token1Account'', slot_rw ''Token0Vault'',
      slot_rw ''Token1Vault'', slot_ro ''TokenProgram'', slot_ro ''TokenProgram2022'',
      slot_ro ''Vault0Mint'', slot_ro ''Vault1Mint'', slot_rw ''LpMint'']"

definition Raydium_Deposit_zero :: Raydium_Deposit where
  "Raydium_Deposit_zero =
     \<lparr>LpTokenAmount = None, MaximumToken0Amount = None, MaximumToken1Amount = None, accounts = []\<rparr>"

definition Raydium_Deposit_builder :: Raydium_Deposit where
  "Raydium_Deposit_builder = Raydium_Deposit_zero\<lparr>accounts := replicate 13 None\<rparr>"

definition Raydium_Deposit_SetLpTokenAmount :: "64 word \<Rightarrow> Raydium_Deposit \<Rightarrow> Raydium_Deposit" where
  "Raydium_Deposit_SetLpTokenAmount v i = i\<lparr>LpTokenAmount := Some v\<rparr>"

definition Raydium_Deposit_SetMaximumToken0Amount :: "64 word \<Rightarrow> Raydium_Deposit \<Rightarrow> Raydium_Deposit" where
  "Raydium_Deposit_SetMaximumToken0Amount v i = i\<lparr>MaximumToken0Amount := Some v\<rparr>"

definition Raydium_Deposit_SetMaximumToken1Amount :: "64 word \<Rightarrow> Raydium_Deposit \<Rightarrow> Raydium_Deposit" where
  "Raydium_Deposit_SetMaximumToken1Amount v i = i\<lparr>MaximumToken1Amount := Some v\<rparr>"

definition Raydium_Deposit_Validate :: "Raydium_Deposit \<Rightarrow> unit res" where
  "Raydium_Deposit_Validate i = first_error (
     [fail_if (LpTokenAmount i = None) ''LpTokenAmount parameter is not set'',
      fail_if (MaximumToken0Amount i = None) ''MaximumToken0Amount parameter is not set'',
      fail_if (MaximumToken1Amount i = None) ''MaximumToken1Amount parameter is not set''] @
     slot_checks Raydium_Deposit_slots 0 (accounts i))"

definition marshal_Raydium_Deposit :: "bytes res \<Rightarrow> bin_lib \<Rightarrow> Raydium_Deposit \<Rightarrow> bytes res" where
  "marshal_Raydium_Deposit nil L i = enc_seq
     [put_param nil (put_u64 L) (LpTokenAmount i), put_param nil (put_u64 L) (MaximumToken0Amount i),
      put_param nil (put_u64 L) (MaximumToken1Amount i)]"

definition unmarshal_Raydium_Deposit :: "bin_lib \<Rightarrow> Raydium_Deposit reader" where
  "unmarshal_Raydium_Deposit L = dec_all
     [sub_field (read_ptr 0 (prim (get_u64 L))) LpTokenAmount LpTokenAmount_update,
      sub_field (read_ptr 0 (prim (get_u64 L))) MaximumToken0Amount MaximumToken0Amount_update,
      sub_field (read_ptr 0 (prim (get_u64 L))) MaximumToken1Amount MaximumToken1Amount_update]"

definition new_Raydium_Deposit ::
   "64 word \<Rightarrow> 64 word \<Rightarrow> 64 word \<Rightarrow> bytes \<Rightarrow>
   bytes \<Rightarrow> bytes \<Rightarrow> bytes \<Rightarrow> bytes \<Rightarrow> bytes \<Rightarrow>
   bytes \<Rightarrow> bytes \<Rightarrow> bytes \<Rightarrow> bytes \<Rightarrow> bytes \<Rightarrow>
   bytes \<Rightarrow> bytes \<Rightarrow> Raydium_Deposit res" where
  "new_Raydium_Deposit
      lpTokenAmount maximumToken0Amount maximumToken1Amount owner authority poolState ownerLpToken
      token0Account token1Account token0Vault token1Vault tokenProgram tokenProgram2022 vault0Mint
      vault1Mint lpMint =
     (let i = Raydium_Deposit_SetMaximumToken1Amount maximumToken1Amount (
        Raydium_Deposit_SetMaximumToken0Amount maximumToken0Amount (
        Raydium_Deposit_SetLpTokenAmount lpTokenAmount Raydium_Deposit_builder))
      in bind_res (set_accounts_from Raydium_Deposit_slots 0
           [owner, authority, poolState, ownerLpToken, token0Account, token1Account, token0Vault,
            token1Vault, tokenProgram, tokenProgram2022, vault0Mint, vault1Mint, lpMint]
           (accounts i)) (\<lambda>as. Inr (i\<lparr>accounts := as\<rparr>)))"

subsection \<open>\<open>Withdraw\<close>\<close>

record Raydium_Withdraw =
  LpTokenAmount :: "(64 word) option"
  MinimumToken0Amount :: "(64 word) option"
  MinimumToken1Amount :: "(64 word) option"
  accounts :: metas

definition Raydium_Withdraw_slots :: "slot list" where
  "Raydium_Withdraw_slots =
     [slot_ro_sign ''Owner'', slot_ro ''Authority'', slot_rw ''PoolState'', slot_rw ''OwnerLpToken'',
      slot_rw ''Token0Account'', slot_rw ''Token1Account'', slot_rw ''Token0Vault'',
      slot_rw ''Token1Vault'', slot_ro ''TokenProgram'', slot_ro ''TokenProgram2022'',
      slot_ro ''Vault0Mint'', slot_ro ''Vault1Mint'', slot_rw ''LpMint'', slot_ro ''MemoProgram'']"

definition Raydium_Withdraw_zero :: Raydium_Withdraw where
  "Raydium_Withdraw_zero =
     \<lparr>LpTokenAmount = None, MinimumToken0Amount = None, MinimumToken1Amount = None, accounts = []\<rparr>"

definition Raydium_Withdraw_builder :: Raydium_Withdraw where
  "Raydium_Withdraw_builder = Raydium_Withdraw_zero\<lparr>accounts := replicate 14 None\<rparr>"

definition Raydium_Withdraw_SetLpTokenAmount :: "64 word \<Rightarrow> Raydium_Withdraw \<Rightarrow> Raydium_Withdraw" where
  "Raydium_Withdraw_SetLpTokenAmount v i = i\<lparr>LpTokenAmount := Some v\<rparr>"

definition Raydium_Withdraw_SetMinimumToken0Amount :: "64 word \<Rightarrow> Raydium_Withdraw \<Rightarrow> Raydium_Withdraw" where
  "Raydium_Withdraw_SetMinimumToken0Amount v i = i\<lparr>MinimumToken0Amount := Some v\<rparr>"

definition Raydium_Withdraw_SetMinimumToken1Amount :: "64 word \<Rightarrow> Raydium_Withdraw \<Rightarrow> Raydium_Withdraw" where
  "Raydium_Withdraw_SetMinimumToken1Amount v i = i\<lparr>MinimumToken1Amount := Some v\<rparr>"

definition Raydium_Withdraw_Validate :: "Raydium_Withdraw \<Rightarrow> unit res" where
  "Raydium_Withdraw_Validate i = first_error (
     [fail_if (LpTokenAmount i = None) ''LpTokenAmount parameter is not set'',
      fail_if (MinimumToken0Amount i = None) ''MinimumToken0Amount parameter is not set'',
      fail_if (MinimumToken1Amount i = None) ''MinimumToken1Amount parameter is not set''] @
     slot_checks Raydium_Withdraw_slots 0 (accounts i))"

definition marshal_Raydium_Withdraw :: "bytes res \<Rightarrow> bin_lib \<Rightarrow> Raydium_Withdraw \<Rightarrow> bytes res" where
  "marshal_Raydium_Withdraw nil L i = enc_seq
     [put_param nil (put_u64 L) (LpTokenAmount i), put_param nil (put_u64 L) (MinimumToken0Amount i),
      put_param nil (put_u64 L) (MinimumToken1Amount i)]"

definition unmarshal_Raydium_Withdraw :: "bin_lib \<Rightarrow> Raydium_Withdraw reader" where
  "unmarshal_Raydium_Withdraw L = dec_all
     [sub_field (read_ptr 0 (prim (get_u64 L))) LpTokenAmount LpTokenAmount_update,
      sub_field (read_ptr 0 (prim (get_u64 L))) MinimumToken0Amount MinimumToken0Amount_update,
      sub_field (read_ptr 0 (prim (get_u64 L))) MinimumToken1Amount MinimumToken1Amount_update]"

definition new_Raydium_Withdraw ::
   "64 word \<Rightarrow> 64 word \<Rightarrow> 64 word \<Rightarrow> bytes \<Rightarrow>
   bytes \<Rightarrow> bytes \<Rightarrow> bytes \<Rightarrow> bytes \<Rightarrow> bytes \<Rightarrow>
   bytes \<Rightarrow> bytes \<Rightarrow> bytes \<Rightarrow> bytes \<Rightarrow> bytes \<Rightarrow>
   bytes \<Rightarrow> bytes \<Rightarrow> bytes \<Rightarrow> Raydium_Withdraw res" where
  "new_Raydium_Withdraw
      lpTokenAmount minimumToken0Amount minimumToken1Amount owner authority poolState ownerLpToken
      token0Account token1Account token0Vault token1Vault tokenProgram tokenProgram2022 vault0Mint
      vault1Mint lpMint memoProgram =
     (let i = Raydium_Withdraw_SetMinimumToken1Amount minimumToken1Amount (
        Raydium_Withdraw_SetMinimumToken0Amount minimumToken0Amount (
        Raydium_Withdraw_SetLpTokenAmount lpTokenAmount Raydium_Withdraw_builder))
      in bind_res (set_accounts_from Raydium_Withdraw_slots 0
           [owner, authority, poolState, ownerLpToken, token0Account, token1Account, token0Vault,
            token1Vault, tokenProgram, tokenProgram2022, vault0Mint, vault1Mint, lpMint, memoProgram]
           (accounts i)) (\<lambda>as. Inr (i\<lparr>accounts := as\<rparr>)))"

subsection \<open>\<open>SwapBaseInput\<close>\<close>

record Raydium_SwapBaseInput =
  AmountIn :: "(64 word) option"
  MinimumAmountOut :: "(64 word) option"
  accounts :: metas

definition Raydium_SwapBaseInput_slots :: "slot list" where
  "Raydium_SwapBaseInput_slots =
     [slot_ro_sign ''Payer'', slot_ro ''Authority'', slot_ro ''AmmConfig'', slot_rw ''PoolState'',
      slot_rw ''InputTokenAccount'', slot_rw ''OutputTokenAccount'', slot_rw ''InputVault'',
      slot_rw ''OutputVault'', slot_ro ''InputTokenProgram'', slot_ro ''OutputTokenProgram'',
      slot_ro ''InputTokenMint'', slot_ro ''OutputTokenMint'', slot_rw ''ObservationState'']"

definition Raydium_SwapBaseInput_zero :: Raydium_SwapBaseInput where
  "Raydium_SwapBaseInput_zero =
     \<lparr>AmountIn = None, MinimumAmountOut = None, accounts = []\<rparr>"

definition Raydium_SwapBaseInput_builder :: Raydium_SwapBaseInput where
  "Raydium_SwapBaseInput_builder = Raydium_SwapBaseInput_zero\<lparr>accounts := replicate 13 None\<rparr>"

definition Raydium_SwapBaseInput_SetAmountIn :: "64 word \<Rightarrow> Raydium_SwapBaseInput \<Rightarrow> Raydium_SwapBaseInput" where
  "Raydium_SwapBaseInput_SetAmountIn v i = i\<lparr>AmountIn := Some v\<rparr>"

definition Raydium_SwapBaseInput_SetMinimumAmountOut :: "64 word \<Rightarrow> Raydium_SwapBaseInput \<Rightarrow> Raydium_SwapBaseInput" where
  "Raydium_SwapBaseInput_SetMinimumAmountOut v i = i\<lparr>MinimumAmountOut := Some v\<rparr>"

definition Raydium_SwapBaseInput_Validate :: "Raydium_SwapBaseInput \<Rightarrow> unit res" where
  "Raydium_SwapBaseInput_Validate i = first_error (
     [fail_if (AmountIn i = None) ''AmountIn parameter is not set'',
      fail_if (MinimumAmountOut i = None) ''MinimumAmountOut parameter is not set''] @
     slot_checks Raydium_SwapBaseInput_slots 0 (accounts i))"

definition marshal_Raydium_SwapBaseInput :: "bytes res \<Rightarrow> bin_lib \<Rightarrow> Raydium_SwapBaseInput \<Rightarrow> bytes res" where
  "marshal_Raydium_SwapBaseInput nil L i = enc_seq
     [put_param nil (put_u64 L) (AmountIn i), put_param nil (put_u64 L) (MinimumAmountOut i)]"

definition unmarshal_Raydium_SwapBaseInput :: "bin_lib \<Rightarrow> Raydium_SwapBaseInput reader" where
  "unmarshal_Raydium_SwapBaseInput L = dec_all
     [sub_field (read_ptr 0 (prim (get_u64 L))) AmountIn AmountIn_update,
      sub_field (read_ptr 0 (prim (get_u64 L))) MinimumAmountOut MinimumAmountOut_update]"

definition new_Raydium_SwapBaseInput ::
   "64 word \<Rightarrow> 64 word \<Rightarrow> bytes \<Rightarrow> bytes \<Rightarrow>
   bytes \<Rightarrow> bytes \<Rightarrow> bytes \<Rightarrow> bytes \<Rightarrow> bytes \<Rightarrow>
   bytes \<Rightarrow> bytes \<Rightarrow> bytes \<Rightarrow> bytes \<Rightarrow> bytes \<Rightarrow>
   bytes \<Rightarrow> Raydium_SwapBaseInput res" where
  "new_Raydium_SwapBaseInput
      amountIn minimumAmountOut payer authority ammConfig poolState inputTokenAccount outputTokenAccount
      inputVault outputVault inputTokenProgram outputTokenProgram inputTokenMint outputTokenMint
      observationState =
     (let i = Raydium_SwapBaseInput_SetMinimumAmountOut minimumAmountOut (
        Raydium_SwapBaseInput_SetAmountIn amountIn Raydium_SwapBaseInput_builder)
      in bind_res (set_accounts_from Raydium_SwapBaseInput_slots 0
           [payer, authority, ammConfig, poolState, inputTokenAccount, outputTokenAccount, inputVault,
            outputVault, inputTokenProgram, outputTokenProgram, inputTokenMint, outputTokenMint,
            observationState]
           (accounts i)) (\<lambda>as. Inr (i\<lparr>accounts := as\<rparr>)))"

subsection \<open>\<open>SwapBaseOutput\<close>\<close>

record Raydium_SwapBaseOutput =
  MaxAmountIn :: "(64 word) option"
  AmountOut :: "(64 word) option"
  accounts :: metas

definition Raydium_SwapBaseOutput_slots :: "slot list" where
  "Raydium_SwapBaseOutput_slots =
     [slot_ro_sign ''Payer'', slot_ro ''Authority'', slot_ro ''AmmConfig'', slot_rw ''PoolState'',
      slot_rw ''InputTokenAccount'', slot_rw ''OutputTokenAccount'', slot_rw ''InputVault'',
      slot_rw ''OutputVault'', slot_ro ''InputTokenProgram'', slot_ro ''OutputTokenProgram'',
      slot_ro ''InputTokenMint'', slot_ro ''OutputTokenMint'', slot_rw ''ObservationState'']"

definition Raydium_SwapBaseOutput_zero :: Raydium_SwapBaseOutput where
  "Raydium_SwapBaseOutput_zero =
     \<lparr>MaxAmountIn = None, AmountOut = None, accounts = []\<rparr>"

definition Raydium_SwapBaseOutput_builder :: Raydium_SwapBaseOutput where
  "Raydium_SwapBaseOutput_builder = Raydium_SwapBaseOutput_zero\<lparr>accounts := replicate 13 None\<rparr>"

definition Raydium_SwapBaseOutput_SetMaxAmountIn :: "64 word \<Rightarrow> Raydium_SwapBaseOutput \<Rightarrow> Raydium_SwapBaseOutput" where
  "Raydium_SwapBaseOutput_SetMaxAmountIn v i = i\<lparr>MaxAmountIn := Some v\<rparr>"

definition Raydium_SwapBaseOutput_SetAmountOut :: "64 word \<Rightarrow> Raydium_SwapBaseOutput \<Rightarrow> Raydium_SwapBaseOutput" where
  "Raydium_SwapBaseOutput_SetAmountOut v i = i\<lparr>AmountOut := Some v\<rparr>"

definition Raydium_SwapBaseOutput_Validate :: "Raydium_SwapBaseOutput \<Rightarrow> unit res" where
  "Raydium_SwapBaseOutput_Validate i = first_error (
     [fail_if (MaxAmountIn i = None) ''MaxAmountIn parameter is not set'',
      fail_if (AmountOut i = None) ''AmountOut parameter is not set''] @
     slot_checks Raydium_SwapBaseOutput_slots 0 (accounts i))"

definition marshal_Raydium_SwapBaseOutput :: "bytes res \<Rightarrow> bin_lib \<Rightarrow> Raydium_SwapBaseOutput \<Rightarrow> bytes res" where
  "marshal_Raydium_SwapBaseOutput nil L i = enc_seq
     [put_param nil (put_u64 L) (MaxAmountIn i), put_param nil (put_u64 L) (AmountOut i)]"

definition unmarshal_Raydium_SwapBaseOutput :: "bin_lib \<Rightarrow> Raydium_SwapBaseOutput reader" where
  "unmarshal_Raydium_SwapBaseOutput L = dec_all
     [sub_field (read_ptr 0 (prim (get_u64 L))) MaxAmountIn MaxAmountIn_update,
      sub_field (read_ptr 0 (prim (get_u64 L))) AmountOut AmountOut_update]"

definition new_Raydium_SwapBaseOutput ::
   "64 word \<Rightarrow> 64 word \<Rightarrow> bytes \<Rightarrow> bytes \<Rightarrow>
   bytes \<Rightarrow> bytes \<Rightarrow> bytes \<Rightarrow> bytes \<Rightarrow> bytes \<Rightarrow>
   bytes \<Rightarrow> bytes \<Rightarrow> bytes \<Rightarrow> bytes \<Rightarrow> bytes \<Rightarrow>
   bytes \<Rightarrow> Raydium_SwapBaseOutput res" where
  "new_Raydium_SwapBaseOutput
      maxAmountIn amountOut payer authority ammConfig poolState inputTokenAccount outputTokenAccount
      inputVault outputVault inputTokenProgram outputTokenProgram inputTokenMint outputTokenMint
      observationState =
     (let i = Raydium_SwapBaseOutput_SetAmountOut amountOut (
        Raydium_SwapBaseOutput_SetMaxAmountIn maxAmountIn Raydium_SwapBaseOutput_builder)
      in bind_res (set_accounts_from Raydium_SwapBaseOutput_slots 0
           [payer, authority, ammConfig, poolState, inputTokenAccount, outputTokenAccount, inputVault,
            outputVault, inputTokenProgram, outputTokenProgram, inputTokenMint, outputTokenMint,
            observationState]
           (accounts i)) (\<lambda>as. Inr (i\<lparr>accounts := as\<rparr>)))"

section \<open>Instruction data\<close>

definition raydium_id_CreateAmmConfig :: bytes where "raydium_id_CreateAmmConfig = [137, 52, 237, 212, 215, 117, 108, 104]"
definition raydium_id_UpdateAmmConfig :: bytes where "raydium_id_UpdateAmmConfig = [49, 60, 174, 136, 154, 28, 116, 200]"
definition raydium_id_UpdatePoolStatus :: bytes where "raydium_id_UpdatePoolStatus = [130, 87, 108, 6, 46, 224, 117, 123]"
definition raydium_id_CollectProtocolFee :: bytes where "raydium_id_CollectProtocolFee = [136, 136, 252, 221, 194, 66, 126, 89]"
definition raydium_id_CollectFundFee :: bytes where "raydium_id_CollectFundFee = [167, 138, 78, 149, 223, 194, 6, 126]"
definition raydium_id_Initialize :: bytes where "raydium_id_Initialize = [175, 175, 109, 31, 13, 152, 155, 237]"
definition raydium_id_Deposit :: bytes where "raydium_id_Deposit = [242, 35, 198, 137, 82, 225, 242, 182]"
definition raydium_id_Withdraw :: bytes where "raydium_id_Withdraw = [183, 18, 70, 156, 148, 109, 161, 34]"
definition raydium_id_SwapBaseInput :: bytes where "raydium_id_SwapBaseInput = [143, 190, 90, 218, 196, 30, 51, 222]"
definition raydium_id_SwapBaseOutput :: bytes where "raydium_id_SwapBaseOutput = [55, 217, 98, 86, 163, 74, 180, 173]"

definition raydium_instruction_ids :: "(string \<times> bytes) list" where
  "raydium_instruction_ids =
     [(''CreateAmmConfig'', raydium_id_CreateAmmConfig),
      (''UpdateAmmConfig'', raydium_id_UpdateAmmConfig),
      (''UpdatePoolStatus'', raydium_id_UpdatePoolStatus),
      (''CollectProtocolFee'', raydium_id_CollectProtocolFee),
      (''CollectFundFee'', raydium_id_CollectFundFee), (''Initialize'', raydium_id_Initialize),
      (''Deposit'', raydium_id_Deposit), (''Withdraw'', raydium_id_Withdraw),
      (''SwapBaseInput'', raydium_id_SwapBaseInput), (''SwapBaseOutput'', raydium_id_SwapBaseOutput)]"

text \<open>The switch has the cases in the order of the variables.\<close>

definition raydium_InstructionIDToName :: "bytes \<Rightarrow> string" where
  "raydium_InstructionIDToName tid =
     (case find (\<lambda>(n, b). b = tid) raydium_instruction_ids of None \<Rightarrow> [] | Some (n, _) \<Rightarrow> n)"

datatype Raydium_Instruction =
    Ix_Raydium_CreateAmmConfig Raydium_CreateAmmConfig
  | Ix_Raydium_UpdateAmmConfig Raydium_UpdateAmmConfig
  | Ix_Raydium_UpdatePoolStatus Raydium_UpdatePoolStatus
  | Ix_Raydium_CollectProtocolFee Raydium_CollectProtocolFee
  | Ix_Raydium_CollectFundFee Raydium_CollectFundFee
  | Ix_Raydium_Initialize Raydium_Initialize
  | Ix_Raydium_Deposit Raydium_Deposit
  | Ix_Raydium_Withdraw Raydium_Withdraw
  | Ix_Raydium_SwapBaseInput Raydium_SwapBaseInput
  | Ix_Raydium_SwapBaseOutput Raydium_SwapBaseOutput

fun raydium_type_id :: "Raydium_Instruction \<Rightarrow> bytes" where
  "raydium_type_id (Ix_Raydium_CreateAmmConfig i) = raydium_id_CreateAmmConfig"
| "raydium_type_id (Ix_Raydium_UpdateAmmConfig i) = raydium_id_UpdateAmmConfig"
| "raydium_type_id (Ix_Raydium_UpdatePoolStatus i) = raydium_id_UpdatePoolStatus"
| "raydium_type_id (Ix_Raydium_CollectProtocolFee i) = raydium_id_CollectProtocolFee"
| "raydium_type_id (Ix_Raydium_CollectFundFee i) = raydium_id_CollectFundFee"
| "raydium_type_id (Ix_Raydium_Initialize i) = raydium_id_Initialize"
| "raydium_type_id (Ix_Raydium_Deposit i) = raydium_id_Deposit"
| "raydium_type_id (Ix_Raydium_Withdraw i) = raydium_id_Withdraw"
| "raydium_type_id (Ix_Raydium_SwapBaseInput i) = raydium_id_SwapBaseInput"
| "raydium_type_id (Ix_Raydium_SwapBaseOutput i) = raydium_id_SwapBaseOutput"

fun raydium_Validate :: "Raydium_Instruction \<Rightarrow> unit res" where
  "raydium_Validate (Ix_Raydium_CreateAmmConfig i) = Raydium_CreateAmmConfig_Validate i"
| "raydium_Validate (Ix_Raydium_UpdateAmmConfig i) = Raydium_UpdateAmmConfig_Validate i"
| "raydium_Validate (Ix_Raydium_UpdatePoolStatus i) = Raydium_UpdatePoolStatus_Validate i"
| "raydium_Validate (Ix_Raydium_CollectProtocolFee i) = Raydium_CollectProtocolFee_Validate i"
| "raydium_Validate (Ix_Raydium_CollectFundFee i) = Raydium_CollectFundFee_Validate i"
| "raydium_Validate (Ix_Raydium_Initialize i) = Raydium_Initialize_Validate i"
| "raydium_Validate (Ix_Raydium_Deposit i) = Raydium_Deposit_Validate i"
| "raydium_Validate (Ix_Raydium_Withdraw i) = Raydium_Withdraw_Validate i"
| "raydium_Validate (Ix_Raydium_SwapBaseInput i) = Raydium_SwapBaseInput_Validate i"
| "raydium_Validate (Ix_Raydium_SwapBaseOutput i) = Raydium_SwapBaseOutput_Validate i"

definition raydium_ValidateAndBuild :: "Raydium_Instruction \<Rightarrow> Raydium_Instruction res" where
  "raydium_ValidateAndBuild i = bind_res (raydium_Validate i) (\<lambda>_. Inr i)"

fun raydium_marshal_impl :: "bytes res \<Rightarrow> bin_lib \<Rightarrow> Raydium_Instruction \<Rightarrow> bytes res" where
  "raydium_marshal_impl nil L (Ix_Raydium_CreateAmmConfig i) = marshal_Raydium_CreateAmmConfig nil L i"
| "raydium_marshal_impl nil L (Ix_Raydium_UpdateAmmConfig i) = marshal_Raydium_UpdateAmmConfig nil L i"
| "raydium_marshal_impl nil L (Ix_Raydium_UpdatePoolStatus i) = marshal_Raydium_UpdatePoolStatus nil L i"
| "raydium_marshal_impl nil L (Ix_Raydium_CollectProtocolFee i) = marshal_Raydium_CollectProtocolFee nil L i"
| "raydium_marshal_impl nil L (Ix_Raydium_CollectFundFee i) = marshal_Raydium_CollectFundFee nil L i"
| "raydium_marshal_impl nil L (Ix_Raydium_Initialize i) = marshal_Raydium_Initialize nil L i"
| "raydium_marshal_impl nil L (Ix_Raydium_Deposit i) = marshal_Raydium_Deposit nil L i"
| "raydium_marshal_impl nil L (Ix_Raydium_Withdraw i) = marshal_Raydium_Withdraw nil L i"
| "raydium_marshal_impl nil L (Ix_Raydium_SwapBaseInput i) = marshal_Raydium_SwapBaseInput nil L i"
| "raydium_marshal_impl nil L (Ix_Raydium_SwapBaseOutput i) = marshal_Raydium_SwapBaseOutput nil L i"

definition raydium_Marshal :: "bytes res \<Rightarrow> bin_lib \<Rightarrow> Raydium_Instruction \<Rightarrow> bytes res" where
  "raydium_Marshal nil L i = bind_res (raydium_marshal_impl nil L i) (\<lambda>b. Inr (raydium_type_id i @ b))"

definition raydium_Data :: "bytes res \<Rightarrow> bin_lib \<Rightarrow> Raydium_Instruction \<Rightarrow> bytes res" where
  "raydium_Data nil L i = wrap_err ''unable to encode instruction'' (raydium_Marshal nil L i)"

fun raydium_Accounts :: "Raydium_Instruction \<Rightarrow> metas" where
  "raydium_Accounts (Ix_Raydium_CreateAmmConfig i) = Raydium_CreateAmmConfig.accounts i"
| "raydium_Accounts (Ix_Raydium_UpdateAmmConfig i) = Raydium_UpdateAmmConfig.accounts i"
| "raydium_Accounts (Ix_Raydium_UpdatePoolStatus i) = Raydium_UpdatePoolStatus.accounts i"
| "raydium_Accounts (Ix_Raydium_CollectProtocolFee i) = Raydium_CollectProtocolFee.accounts i"
| "raydium_Accounts (Ix_Raydium_CollectFundFee i) = Raydium_CollectFundFee.accounts i"
| "raydium_Accounts (Ix_Raydium_Initialize i) = Raydium_Initialize.accounts i"
| "raydium_Accounts (Ix_Raydium_Deposit i) = Raydium_Deposit.accounts i"
| "raydium_Accounts (Ix_Raydium_Withdraw i) = Raydium_Withdraw.accounts i"
| "raydium_Accounts (Ix_Raydium_SwapBaseInput i) = Raydium_SwapBaseInput.accounts i"
| "raydium_Accounts (Ix_Raydium_SwapBaseOutput i) = Raydium_SwapBaseOutput.accounts i"

fun raydium_with_accounts :: "metas \<Rightarrow> Raydium_Instruction \<Rightarrow> Raydium_Instruction" where
  "raydium_with_accounts as (Ix_Raydium_CreateAmmConfig i) = Ix_Raydium_CreateAmmConfig (i\<lparr>Raydium_CreateAmmConfig.accounts := as\<rparr>)"
| "raydium_with_accounts as (Ix_Raydium_UpdateAmmConfig i) = Ix_Raydium_UpdateAmmConfig (i\<lparr>Raydium_UpdateAmmConfig.accounts := as\<rparr>)"
| "raydium_with_accounts as (Ix_Raydium_UpdatePoolStatus i) = Ix_Raydium_UpdatePoolStatus (i\<lparr>Raydium_UpdatePoolStatus.accounts := as\<rparr>)"
| "raydium_with_accounts as (Ix_Raydium_CollectProtocolFee i) = Ix_Raydium_CollectProtocolFee (i\<lparr>Raydium_CollectProtocolFee.accounts := as\<rparr>)"
| "raydium_with_accounts as (Ix_Raydium_CollectFundFee i) = Ix_Raydium_CollectFundFee (i\<lparr>Raydium_CollectFundFee.accounts := as\<rparr>)"
| "raydium_with_accounts as (Ix_Raydium_Initialize i) = Ix_Raydium_Initialize (i\<lparr>Raydium_Initialize.accounts := as\<rparr>)"
| "raydium_with_accounts as (Ix_Raydium_Deposit i) = Ix_Raydium_Deposit (i\<lparr>Raydium_Deposit.accounts := as\<rparr>)"
| "raydium_with_accounts as (Ix_Raydium_Withdraw i) = Ix_Raydium_Withdraw (i\<lparr>Raydium_Withdraw.accounts := as\<rparr>)"
| "raydium_with_accounts as (Ix_Raydium_SwapBaseInput i) = Ix_Raydium_SwapBaseInput (i\<lparr>Raydium_SwapBaseInput.accounts := as\<rparr>)"
| "raydium_with_accounts as (Ix_Raydium_SwapBaseOutput i) = Ix_Raydium_SwapBaseOutput (i\<lparr>Raydium_SwapBaseOutput.accounts := as\<rparr>)"

text \<open>\<open>InstructionImplDef\<close>: the variants by name; each is read into a new object.\<close>

definition raydium_variants :: "bin_lib \<Rightarrow> (string \<times> (bytes \<Rightarrow> Raydium_Instruction res)) list" where
  "raydium_variants L =
     [(''create_amm_config'', \<lambda>bs. map_fst_res Ix_Raydium_CreateAmmConfig (unmarshal_Raydium_CreateAmmConfig L (Raydium_CreateAmmConfig_zero, bs))),
      (''update_amm_config'', \<lambda>bs. map_fst_res Ix_Raydium_UpdateAmmConfig (unmarshal_Raydium_UpdateAmmConfig L (Raydium_UpdateAmmConfig_zero, bs))),
      (''update_pool_status'', \<lambda>bs. map_fst_res Ix_Raydium_UpdatePoolStatus (unmarshal_Raydium_UpdatePoolStatus L (Raydium_UpdatePoolStatus_zero, bs))),
      (''collect_protocol_fee'', \<lambda>bs. map_fst_res Ix_Raydium_CollectProtocolFee (unmarshal_Raydium_CollectProtocolFee L (Raydium_CollectProtocolFee_zero, bs))),
      (''collect_fund_fee'', \<lambda>bs. map_fst_res Ix_Raydium_CollectFundFee (unmarshal_Raydium_CollectFundFee L (Raydium_CollectFundFee_zero, bs))),
      (''initialize'', \<lambda>bs. map_fst_res Ix_Raydium_Initialize (unmarshal_Raydium_Initialize L (Raydium_Initialize_zero, bs))),
      (''deposit'', \<lambda>bs. map_fst_res Ix_Raydium_Deposit (unmarshal_Raydium_Deposit L (Raydium_Deposit_zero, bs))),
      (''withdraw'', \<lambda>bs. map_fst_res Ix_Raydium_Withdraw (unmarshal_Raydium_Withdraw L (Raydium_Withdraw_zero, bs))),
      (''swap_base_input'', \<lambda>bs. map_fst_res Ix_Raydium_SwapBaseInput (unmarshal_Raydium_SwapBaseInput L (Raydium_SwapBaseInput_zero, bs))),
      (''swap_base_output'', \<lambda>bs. map_fst_res Ix_Raydium_SwapBaseOutput (unmarshal_Raydium_SwapBaseOutput L (Raydium_SwapBaseOutput_zero, bs)))]"

definition raydium_Unmarshal :: "(string \<Rightarrow> bytes) \<Rightarrow> bin_lib \<Rightarrow> bytes \<Rightarrow> Raydium_Instruction res" where
  "raydium_Unmarshal sighash L = read_variant sighash (raydium_variants L)"

text \<open>\<open>set_accounts\<close> is the library's \<open>SetAccounts\<close> of a slice of accounts.\<close>

definition raydium_DecodeInstruction ::
  "(string \<Rightarrow> bytes) \<Rightarrow> ('acc \<Rightarrow> metas res) \<Rightarrow> bin_lib \<Rightarrow> 'acc \<Rightarrow> bytes \<Rightarrow> Raydium_Instruction res" where
  "raydium_DecodeInstruction sighash set_accounts L accs data =
     bind_res (wrap_err ''unable to decode instruction'' (raydium_Unmarshal sighash L data)) (\<lambda>i.
     bind_res (wrap_err ''unable to set accounts for instruction'' (set_accounts accs)) (\<lambda>as.
       Inr (raydium_with_accounts as i)))"

section \<open>What an instruction writes is read back\<close>

fun raydium_wf :: "Raydium_Instruction \<Rightarrow> bool" where
  "raydium_wf (Ix_Raydium_CreateAmmConfig i) = True"
| "raydium_wf (Ix_Raydium_UpdateAmmConfig i) = True"
| "raydium_wf (Ix_Raydium_UpdatePoolStatus i) = True"
| "raydium_wf (Ix_Raydium_CollectProtocolFee i) = True"
| "raydium_wf (Ix_Raydium_CollectFundFee i) = True"
| "raydium_wf (Ix_Raydium_Initialize i) = True"
| "raydium_wf (Ix_Raydium_Deposit i) = True"
| "raydium_wf (Ix_Raydium_Withdraw i) = True"
| "raydium_wf (Ix_Raydium_SwapBaseInput i) = True"
| "raydium_wf (Ix_Raydium_SwapBaseOutput i) = True"

lemmas raydium_id_defs =
  raydium_id_CreateAmmConfig_def raydium_id_UpdateAmmConfig_def raydium_id_UpdatePoolStatus_def
  raydium_id_CollectProtocolFee_def raydium_id_CollectFundFee_def raydium_id_Initialize_def
  raydium_id_Deposit_def raydium_id_Withdraw_def raydium_id_SwapBaseInput_def
  raydium_id_SwapBaseOutput_def

text \<open>Anchor's discriminators of the variant names are the ids of the client.\<close>

definition raydium_ids_ok :: "(string \<Rightarrow> bytes) \<Rightarrow> bool" where
  "raydium_ids_ok sighash \<longleftrightarrow>
     sighash ''create_amm_config'' = raydium_id_CreateAmmConfig \<and>
     sighash ''update_amm_config'' = raydium_id_UpdateAmmConfig \<and>
     sighash ''update_pool_status'' = raydium_id_UpdatePoolStatus \<and>
     sighash ''collect_protocol_fee'' = raydium_id_CollectProtocolFee \<and>
     sighash ''collect_fund_fee'' = raydium_id_CollectFundFee \<and>
     sighash ''initialize'' = raydium_id_Initialize \<and>
     sighash ''deposit'' = raydium_id_Deposit \<and>
     sighash ''withdraw'' = raydium_id_Withdraw \<and>
     sighash ''swap_base_input'' = raydium_id_SwapBaseInput \<and>
     sighash ''swap_base_output'' = raydium_id_SwapBaseOutput"

locale raydium_program = bin_library +
  fixes sighash :: "string \<Rightarrow> bytes" and nil :: "bytes res"
  assumes ids: "raydium_ids_ok sighash"
begin

lemma Raydium_CreateAmmConfig_rt:
  "Raydium_CreateAmmConfig_Validate i = Inr () \<Longrightarrow> 
    \<exists>b. marshal_Raydium_CreateAmmConfig nil L i = Inr b \<and>
      unmarshal_Raydium_CreateAmmConfig L (Raydium_CreateAmmConfig_zero, b @ r) = Inr (i\<lparr>Raydium_CreateAmmConfig.accounts := []\<rparr>, r)"
  by (cases i) (auto simp: Raydium_CreateAmmConfig_Validate_def marshal_Raydium_CreateAmmConfig_def unmarshal_Raydium_CreateAmmConfig_def Raydium_CreateAmmConfig_zero_def first_error_ok_iff)

lemma Raydium_UpdateAmmConfig_rt:
  "Raydium_UpdateAmmConfig_Validate i = Inr () \<Longrightarrow> 
    \<exists>b. marshal_Raydium_UpdateAmmConfig nil L i = Inr b \<and>
      unmarshal_Raydium_UpdateAmmConfig L (Raydium_UpdateAmmConfig_zero, b @ r) = Inr (i\<lparr>Raydium_UpdateAmmConfig.accounts := []\<rparr>, r)"
  by (cases i) (auto simp: Raydium_UpdateAmmConfig_Validate_def marshal_Raydium_UpdateAmmConfig_def unmarshal_Raydium_UpdateAmmConfig_def Raydium_UpdateAmmConfig_zero_def first_error_ok_iff)

lemma Raydium_UpdatePoolStatus_rt:
  "Raydium_UpdatePoolStatus_Validate i = Inr () \<Longrightarrow> 
    \<exists>b. marshal_Raydium_UpdatePoolStatus nil L i = Inr b \<and>
      unmarshal_Raydium_UpdatePoolStatus L (Raydium_UpdatePoolStatus_zero, b @ r) = Inr (i\<lparr>Raydium_UpdatePoolStatus.accounts := []\<rparr>, r)"
  by (cases i) (auto simp: Raydium_UpdatePoolStatus_Validate_def marshal_Raydium_UpdatePoolStatus_def unmarshal_Raydium_UpdatePoolStatus_def Raydium_UpdatePoolStatus_zero_def first_error_ok_iff)

lemma Raydium_CollectProtocolFee_rt:
  "Raydium_CollectProtocolFee_Validate i = Inr () \<Longrightarrow> 
    \<exists>b. marshal_Raydium_CollectProtocolFee nil L i = Inr b \<and>
      unmarshal_Raydium_CollectProtocolFee L (Raydium_CollectProtocolFee_zero, b @ r) = Inr (i\<lparr>Raydium_CollectProtocolFee.accounts := []\<rparr>, r)"
  by (cases i) (auto simp: Raydium_CollectProtocolFee_Validate_def marshal_Raydium_CollectProtocolFee_def unmarshal_Raydium_CollectProtocolFee_def Raydium_CollectProtocolFee_zero_def first_error_ok_iff)

lemma Raydium_CollectFundFee_rt:
  "Raydium_CollectFundFee_Validate i = Inr () \<Longrightarrow> 
    \<exists>b. marshal_Raydium_CollectFundFee nil L i = Inr b \<and>
      unmarshal_Raydium_CollectFundFee L (Raydium_CollectFundFee_zero, b @ r) = Inr (i\<lparr>Raydium_CollectFundFee.accounts := []\<rparr>, r)"
  by (cases i) (auto simp: Raydium_CollectFundFee_Validate_def marshal_Raydium_CollectFundFee_def unmarshal_Raydium_CollectFundFee_def Raydium_CollectFundFee_zero_def first_error_ok_iff)

lemma Raydium_Initialize_rt:
  "Raydium_Initialize_Validate i = Inr () \<Longrightarrow> 
    \<exists>b. marshal_Raydium_Initialize nil L i = Inr b \<and>
      unmarshal_Raydium_Initialize L (Raydium_Initialize_zero, b @ r) = Inr (i\<lparr>Raydium_Initialize.accounts := []\<rparr>, r)"
  by (cases i) (auto simp: Raydium_Initialize_Validate_def marshal_Raydium_Initialize_def unmarshal_Raydium_Initialize_def Raydium_Initialize_zero_def first_error_ok_iff)

lemma Raydium_Deposit_rt:
  "Raydium_Deposit_Validate i = Inr () \<Longrightarrow> 
    \<exists>b. marshal_Raydium_Deposit nil L i = Inr b \<and>
      unmarshal_Raydium_Deposit L (Raydium_Deposit_zero, b @ r) = Inr (i\<lparr>Raydium_Deposit.accounts := []\<rparr>, r)"
  by (cases i) (auto simp: Raydium_Deposit_Validate_def marshal_Raydium_Deposit_def unmarshal_Raydium_Deposit_def Raydium_Deposit_zero_def first_error_ok_iff)

lemma Raydium_Withdraw_rt:
  "Raydium_Withdraw_Validate i = Inr () \<Longrightarrow> 
    \<exists>b. marshal_Raydium_Withdraw nil L i = Inr b \<and>
      unmarshal_Raydium_Withdraw L (Raydium_Withdraw_zero, b @ r) = Inr (i\<lparr>Raydium_Withdraw.accounts := []\<rparr>, r)"
  by (cases i) (auto simp: Raydium_Withdraw_Validate_def marshal_Raydium_Withdraw_def unmarshal_Raydium_Withdraw_def Raydium_Withdraw_zero_def first_error_ok_iff)

lemma Raydium_SwapBaseInput_rt:
  "Raydium_SwapBaseInput_Validate i = Inr () \<Longrightarrow> 
    \<exists>b. marshal_Raydium_SwapBaseInput nil L i = Inr b \<and>
      unmarshal_Raydium_SwapBaseInput L (Raydium_SwapBaseInput_zero, b @ r) = Inr (i\<lparr>Raydium_SwapBaseInput.accounts := []\<rparr>, r)"
  by (cases i) (auto simp: Raydium_SwapBaseInput_Validate_def marshal_Raydium_SwapBaseInput_def unmarshal_Raydium_SwapBaseInput_def Raydium_SwapBaseInput_zero_def first_error_ok_iff)

lemma Raydium_SwapBaseOutput_rt:
  "Raydium_SwapBaseOutput_Validate i = Inr () \<Longrightarrow> 
    \<exists>b. marshal_Raydium_SwapBaseOutput nil L i = Inr b \<and>
      unmarshal_Raydium_SwapBaseOutput L (Raydium_SwapBaseOutput_zero, b @ r) = Inr (i\<lparr>Raydium_SwapBaseOutput.accounts := []\<rparr>, r)"
  by (cases i) (auto simp: Raydium_SwapBaseOutput_Validate_def marshal_Raydium_SwapBaseOutput_def unmarshal_Raydium_SwapBaseOutput_def Raydium_SwapBaseOutput_zero_def first_error_ok_iff)

lemma found:
  "find (\<lambda>(n, _). sighash n = raydium_id_CreateAmmConfig) (raydium_variants L) =
     Some (''create_amm_config'', \<lambda>bs. map_fst_res Ix_Raydium_CreateAmmConfig (unmarshal_Raydium_CreateAmmConfig L (Raydium_CreateAmmConfig_zero, bs)))"
  "find (\<lambda>(n, _). sighash n = raydium_id_UpdateAmmConfig) (raydium_variants L) =
     Some (''update_amm_config'', \<lambda>bs. map_fst_res Ix_Raydium_UpdateAmmConfig (unmarshal_Raydium_UpdateAmmConfig L (Raydium_UpdateAmmConfig_zero, bs)))"
  "find (\<lambda>(n, _). sighash n = raydium_id_UpdatePoolStatus) (raydium_variants L) =
     Some (''update_pool_status'', \<lambda>bs. map_fst_res Ix_Raydium_UpdatePoolStatus (unmarshal_Raydium_UpdatePoolStatus L (Raydium_UpdatePoolStatus_zero, bs)))"
  "find (\<lambda>(n, _). sighash n = raydium_id_CollectProtocolFee) (raydium_variants L) =
     Some (''collect_protocol_fee'', \<lambda>bs. map_fst_res Ix_Raydium_CollectProtocolFee (unmarshal_Raydium_CollectProtocolFee L (Raydium_CollectProtocolFee_zero, bs)))"
  "find (\<lambda>(n, _). sighash n = raydium_id_CollectFundFee) (raydium_variants L) =
     Some (''collect_fund_fee'', \<lambda>bs. map_fst_res Ix_Raydium_CollectFundFee (unmarshal_Raydium_CollectFundFee L (Raydium_CollectFundFee_zero, bs)))"
  "find (\<lambda>(n, _). sighash n = raydium_id_Initialize) (raydium_variants L) =
     Some (''initialize'', \<lambda>bs. map_fst_res Ix_Raydium_Initialize (unmarshal_Raydium_Initialize L (Raydium_Initialize_zero, bs)))"
  "find (\<lambda>(n, _). sighash n = raydium_id_Deposit) (raydium_variants L) =
     Some (''deposit'', \<lambda>bs. map_fst_res Ix_Raydium_Deposit (unmarshal_Raydium_Deposit L (Raydium_Deposit_zero, bs)))"
  "find (\<lambda>(n, _). sighash n = raydium_id_Withdraw) (raydium_variants L) =
     Some (''withdraw'', \<lambda>bs. map_fst_res Ix_Raydium_Withdraw (unmarshal_Raydium_Withdraw L (Raydium_Withdraw_zero, bs)))"
  "find (\<lambda>(n, _). sighash n = raydium_id_SwapBaseInput) (raydium_variants L) =
     Some (''swap_base_input'', \<lambda>bs. map_fst_res Ix_Raydium_SwapBaseInput (unmarshal_Raydium_SwapBaseInput L (Raydium_SwapBaseInput_zero, bs)))"
  "find (\<lambda>(n, _). sighash n = raydium_id_SwapBaseOutput) (raydium_variants L) =
     Some (''swap_base_output'', \<lambda>bs. map_fst_res Ix_Raydium_SwapBaseOutput (unmarshal_Raydium_SwapBaseOutput L (Raydium_SwapBaseOutput_zero, bs)))"
  using ids by (simp_all add: raydium_variants_def raydium_ids_ok_def raydium_id_defs)

lemma program_variant:
  assumes "raydium_Validate i = Inr ()" and "raydium_wf i"
  shows "\<exists>n un b. find (\<lambda>(n, _). sighash n = raydium_type_id i) (raydium_variants L) = Some (n, un) \<and>
      raydium_marshal_impl nil L i = Inr b \<and> un b = Inr (raydium_with_accounts [] i)"
proof (cases i)
  case (Ix_Raydium_CreateAmmConfig x)
  with Raydium_CreateAmmConfig_rt [of x "[]"] assms show ?thesis by (auto simp: found)
next
  case (Ix_Raydium_UpdateAmmConfig x)
  with Raydium_UpdateAmmConfig_rt [of x "[]"] assms show ?thesis by (auto simp: found)
next
  case (Ix_Raydium_UpdatePoolStatus x)
  with Raydium_UpdatePoolStatus_rt [of x "[]"] assms show ?thesis by (auto simp: found)
next
  case (Ix_Raydium_CollectProtocolFee x)
  with Raydium_CollectProtocolFee_rt [of x "[]"] assms show ?thesis by (auto simp: found)
next
  case (Ix_Raydium_CollectFundFee x)
  with Raydium_CollectFundFee_rt [of x "[]"] assms show ?thesis by (auto simp: found)
next
  case (Ix_Raydium_Initialize x)
  with Raydium_Initialize_rt [of x "[]"] assms show ?thesis by (auto simp: found)
next
  case (Ix_Raydium_Deposit x)
  with Raydium_Deposit_rt [of x "[]"] assms show ?thesis by (auto simp: found)
next
  case (Ix_Raydium_Withdraw x)
  with Raydium_Withdraw_rt [of x "[]"] assms show ?thesis by (auto simp: found)
next
  case (Ix_Raydium_SwapBaseInput x)
  with Raydium_SwapBaseInput_rt [of x "[]"] assms show ?thesis by (auto simp: found)
next
  case (Ix_Raydium_SwapBaseOutput x)
  with Raydium_SwapBaseOutput_rt [of x "[]"] assms show ?thesis by (auto simp: found)
qed

end

sublocale raydium_program \<subseteq> anchor_program sighash "raydium_variants L" raydium_type_id "raydium_marshal_impl nil L"
  "raydium_with_accounts []" "\<lambda>i. raydium_Validate i = Inr () \<and> raydium_wf i"
proof unfold_locales
  fix i show "length (raydium_type_id i) = 8" by (cases i) (simp_all add: raydium_id_defs)
qed (blast intro: program_variant)

context raydium_program
begin

lemmas instruction_reads = data_reads

end

section \<open>Constructors\<close>

text \<open>Every constructor succeeds and gives an instruction that validates, with the flags of its slots.\<close>

lemma length_raydium_slots [simp]:
  "length Raydium_CreateAmmConfig_slots = 3"
  "length Raydium_UpdateAmmConfig_slots = 2"
  "length Raydium_UpdatePoolStatus_slots = 2"
  "length Raydium_CollectProtocolFee_slots = 12"
  "length Raydium_CollectFundFee_slots = 12"
  "length Raydium_Initialize_slots = 20"
  "length Raydium_Deposit_slots = 13"
  "length Raydium_Withdraw_slots = 14"
  "length Raydium_SwapBaseInput_slots = 13"
  "length Raydium_SwapBaseOutput_slots = 13"
  by (simp_all add: Raydium_CreateAmmConfig_slots_def
      Raydium_UpdateAmmConfig_slots_def
      Raydium_UpdatePoolStatus_slots_def
      Raydium_CollectProtocolFee_slots_def
      Raydium_CollectFundFee_slots_def
      Raydium_Initialize_slots_def
      Raydium_Deposit_slots_def
      Raydium_Withdraw_slots_def
      Raydium_SwapBaseInput_slots_def
      Raydium_SwapBaseOutput_slots_def)

lemma new_Raydium_CreateAmmConfig_valid:
  "\<exists>i. new_Raydium_CreateAmmConfig index tradeFeeRate protocolFeeRate fundFeeRate createPoolFee owner ammConfig systemProgram = Inr i \<and>
     Raydium_CreateAmmConfig_Validate i = Inr () \<and> required_signers (Raydium_CreateAmmConfig.accounts i) = [owner]"
proof -
  have "required_signers (map2 (\<lambda>s k. Some (slot_meta s k)) Raydium_CreateAmmConfig_slots
      [owner, ammConfig, systemProgram]) = [owner]"
    by (simp add: Raydium_CreateAmmConfig_slots_def)
  then show ?thesis
    by (simp add: new_Raydium_CreateAmmConfig_def Let_def Raydium_CreateAmmConfig_builder_def Raydium_CreateAmmConfig_zero_def Raydium_CreateAmmConfig_Validate_def
        first_error_simps fail_if_def Raydium_CreateAmmConfig_SetIndex_def Raydium_CreateAmmConfig_SetTradeFeeRate_def Raydium_CreateAmmConfig_SetProtocolFeeRate_def Raydium_CreateAmmConfig_SetFundFeeRate_def Raydium_CreateAmmConfig_SetCreatePoolFee_def)
qed

lemma new_Raydium_UpdateAmmConfig_valid:
  "\<exists>i. new_Raydium_UpdateAmmConfig param value owner ammConfig = Inr i \<and>
     Raydium_UpdateAmmConfig_Validate i = Inr () \<and> required_signers (Raydium_UpdateAmmConfig.accounts i) = [owner]"
proof -
  have "required_signers (map2 (\<lambda>s k. Some (slot_meta s k)) Raydium_UpdateAmmConfig_slots
      [owner, ammConfig]) = [owner]"
    by (simp add: Raydium_UpdateAmmConfig_slots_def)
  then show ?thesis
    by (simp add: new_Raydium_UpdateAmmConfig_def Let_def Raydium_UpdateAmmConfig_builder_def Raydium_UpdateAmmConfig_zero_def Raydium_UpdateAmmConfig_Validate_def
        first_error_simps fail_if_def Raydium_UpdateAmmConfig_SetParam_def Raydium_UpdateAmmConfig_SetValue_def)
qed

lemma new_Raydium_UpdatePoolStatus_valid:
  "\<exists>i. new_Raydium_UpdatePoolStatus status authority poolState = Inr i \<and>
     Raydium_UpdatePoolStatus_Validate i = Inr () \<and> required_signers (Raydium_UpdatePoolStatus.accounts i) = [authority]"
proof -
  have "required_signers (map2 (\<lambda>s k. Some (slot_meta s k)) Raydium_UpdatePoolStatus_slots
      [authority, poolState]) = [authority]"
    by (simp add: Raydium_UpdatePoolStatus_slots_def)
  then show ?thesis
    by (simp add: new_Raydium_UpdatePoolStatus_def Let_def Raydium_UpdatePoolStatus_builder_def Raydium_UpdatePoolStatus_zero_def Raydium_UpdatePoolStatus_Validate_def
        first_error_simps fail_if_def Raydium_UpdatePoolStatus_SetStatus_def)
qed

lemma new_Raydium_CollectProtocolFee_valid:
  "\<exists>i. new_Raydium_CollectProtocolFee amount0Requested amount1Requested owner authority poolState ammConfig token0Vault token1Vault
        vault0Mint vault1Mint recipientToken0Account recipientToken1Account tokenProgram
        tokenProgram2022 = Inr i \<and>
     Raydium_CollectProtocolFee_Validate i = Inr () \<and> required_signers (Raydium_CollectProtocolFee.accounts i) = [owner]"
proof -
  have "required_signers (map2 (\<lambda>s k. Some (slot_meta s k)) Raydium_CollectProtocolFee_slots
      [owner, authority, poolState, ammConfig, token0Vault, token1Vault, vault0Mint, vault1Mint, recipientToken0Account, recipientToken1Account, tokenProgram, tokenProgram2022]) = [owner]"
    by (simp add: Raydium_CollectProtocolFee_slots_def)
  then show ?thesis
    by (simp add: new_Raydium_CollectProtocolFee_def Let_def Raydium_CollectProtocolFee_builder_def Raydium_CollectProtocolFee_zero_def Raydium_CollectProtocolFee_Validate_def
        first_error_simps fail_if_def Raydium_CollectProtocolFee_SetAmount0Requested_def Raydium_CollectProtocolFee_SetAmount1Requested_def)
qed

lemma new_Raydium_CollectFundFee_valid:
  "\<exists>i. new_Raydium_CollectFundFee amount0Requested amount1Requested owner authority poolState ammConfig token0Vault token1Vault
        vault0Mint vault1Mint recipientToken0Account recipientToken1Account tokenProgram
        tokenProgram2022 = Inr i \<and>
     Raydium_CollectFundFee_Validate i = Inr () \<and> required_signers (Raydium_CollectFundFee.accounts i) = [owner]"
proof -
  have "required_signers (map2 (\<lambda>s k. Some (slot_meta s k)) Raydium_CollectFundFee_slots
      [owner, authority, poolState, ammConfig, token0Vault, token1Vault, vault0Mint, vault1Mint, recipientToken0Account, recipientToken1Account, tokenProgram, tokenProgram2022]) = [owner]"
    by (simp add: Raydium_CollectFundFee_slots_def)
  then show ?thesis
    by (simp add: new_Raydium_CollectFundFee_def Let_def Raydium_CollectFundFee_builder_def Raydium_CollectFundFee_zero_def Raydium_CollectFundFee_Validate_def
        first_error_simps fail_if_def Raydium_CollectFundFee_SetAmount0Requested_def Raydium_CollectFundFee_SetAmount1Requested_def)
qed

lemma new_Raydium_Initialize_valid:
  "\<exists>i. new_Raydium_Initialize initAmount0 initAmount1 openTime creator ammConfig authority poolState token0Mint token1Mint
        lpMint creatorToken0 creatorToken1 creatorLpToken token0Vault token1Vault createPoolFee
        observationState tokenProgram token0Program token1Program associatedTokenProgram systemProgram
        rent = Inr i \<and>
     Raydium_Initialize_Validate i = Inr () \<and> required_signers (Raydium_Initialize.accounts i) = [creator]"
proof -
  have "required_signers (map2 (\<lambda>s k. Some (slot_meta s k)) Raydium_Initialize_slots
      [creator, ammConfig, authority, poolState, token0Mint, token1Mint, lpMint, creatorToken0, creatorToken1, creatorLpToken, token0Vault, token1Vault, createPoolFee, observationState, tokenProgram, token0Program, token1Program, associatedTokenProgram, systemProgram, rent]) = [creator]"
    by (simp add: Raydium_Initialize_slots_def)
  then show ?thesis
    by (simp add: new_Raydium_Initialize_def Let_def Raydium_Initialize_builder_def Raydium_Initialize_zero_def Raydium_Initialize_Validate_def
        first_error_simps fail_if_def Raydium_Initialize_SetInitAmount0_def Raydium_Initialize_SetInitAmount1_def Raydium_Initialize_SetOpenTime_def)
qed

lemma new_Raydium_Deposit_valid:
  "\<exists>i. new_Raydium_Deposit lpTokenAmount maximumToken0Amount maximumToken1Amount owner authority poolState ownerLpToken
        token0Account token1Account token0Vault token1Vault tokenProgram tokenProgram2022 vault0Mint
        vault1Mint lpMint = Inr i \<and>
     Raydium_Deposit_Validate i = Inr () \<and> required_signers (Raydium_Deposit.accounts i) = [owner]"
proof -
  have "required_signers (map2 (\<lambda>s k. Some (slot_meta s k)) Raydium_Deposit_slots
      [owner, authority, poolState, ownerLpToken, token0Account, token1Account, token0Vault, token1Vault, tokenProgram, tokenProgram2022, vault0Mint, vault1Mint, lpMint]) = [owner]"
    by (simp add: Raydium_Deposit_slots_def)
  then show ?thesis
    by (simp add: new_Raydium_Deposit_def Let_def Raydium_Deposit_builder_def Raydium_Deposit_zero_def Raydium_Deposit_Validate_def
        first_error_simps fail_if_def Raydium_Deposit_SetLpTokenAmount_def Raydium_Deposit_SetMaximumToken0Amount_def Raydium_Deposit_SetMaximumToken1Amount_def)
qed

lemma new_Raydium_Withdraw_valid:
  "\<exists>i. new_Raydium_Withdraw lpTokenAmount minimumToken0Amount minimumToken1Amount owner authority poolState ownerLpToken
        token0Account token1Account token0Vault token1Vault tokenProgram tokenProgram2022 vault0Mint
        vault1Mint lpMint memoProgram = Inr i \<and>
     Raydium_Withdraw_Validate i = Inr () \<and> required_signers (Raydium_Withdraw.accounts i) = [owner]"
proof -
  have "required_signers (map2 (\<lambda>s k. Some (slot_meta s k)) Raydium_Withdraw_slots
      [owner, authority, poolState, ownerLpToken, token0Account, token1Account, token0Vault, token1Vault, tokenProgram, tokenProgram2022, vault0Mint, vault1Mint, lpMint, memoProgram]) = [owner]"
    by (simp add: Raydium_Withdraw_slots_def)
  then show ?thesis
    by (simp add: new_Raydium_Withdraw_def Let_def Raydium_Withdraw_builder_def Raydium_Withdraw_zero_def Raydium_Withdraw_Validate_def
        first_error_simps fail_if_def Raydium_Withdraw_SetLpTokenAmount_def Raydium_Withdraw_SetMinimumToken0Amount_def Raydium_Withdraw_SetMinimumToken1Amount_def)
qed

lemma new_Raydium_SwapBaseInput_valid:
  "\<exists>i. new_Raydium_SwapBaseInput amountIn minimumAmountOut payer authority ammConfig poolState inputTokenAccount
        outputTokenAccount inputVault outputVault inputTokenProgram outputTokenProgram inputTokenMint
        outputTokenMint observationState = Inr i \<and>
     Raydium_SwapBaseInput_Validate i = Inr () \<and> required_signers (Raydium_SwapBaseInput.accounts i) = [payer]"
proof -
  have "required_signers (map2 (\<lambda>s k. Some (slot_meta s k)) Raydium_SwapBaseInput_slots
      [payer, authority, ammConfig, poolState, inputTokenAccount, outputTokenAccount, inputVault, outputVault, inputTokenProgram, outputTokenProgram, inputTokenMint, outputTokenMint, observationState]) = [payer]"
    by (simp add: Raydium_SwapBaseInput_slots_def)
  then show ?thesis
    by (simp add: new_Raydium_SwapBaseInput_def Let_def Raydium_SwapBaseInput_builder_def Raydium_SwapBaseInput_zero_def Raydium_SwapBaseInput_Validate_def
        first_error_simps fail_if_def Raydium_SwapBaseInput_SetAmountIn_def Raydium_SwapBaseInput_SetMinimumAmountOut_def)
qed

lemma new_Raydium_SwapBaseOutput_valid:
  "\<exists>i. new_Raydium_SwapBaseOutput maxAmountIn amountOut payer authority ammConfig poolState inputTokenAccount outputTokenAccount
        inputVault outputVault inputTokenProgram outputTokenProgram inputTokenMint outputTokenMint
        observationState = Inr i \<and>
     Raydium_SwapBaseOutput_Validate i = Inr () \<and> required_signers (Raydium_SwapBaseOutput.accounts i) = [payer]"
proof -
  have "required_signers (map2 (\<lambda>s k. Some (slot_meta s k)) Raydium_SwapBaseOutput_slots
      [payer, authority, ammConfig, poolState, inputTokenAccount, outputTokenAccount, inputVault, outputVault, inputTokenProgram, outputTokenProgram, inputTokenMint, outputTokenMint, observationState]) = [payer]"
    by (simp add: Raydium_SwapBaseOutput_slots_def)
  then show ?thesis
    by (simp add: new_Raydium_SwapBaseOutput_def Let_def Raydium_SwapBaseOutput_builder_def Raydium_SwapBaseOutput_zero_def Raydium_SwapBaseOutput_Validate_def
        first_error_simps fail_if_def Raydium_SwapBaseOutput_SetMaxAmountIn_def Raydium_SwapBaseOutput_SetAmountOut_def)
qed

section \<open>What the bindings promise\<close>

text \<open>A discriminator for concrete runs.\<close>

definition raydium_demo_sighash :: "string \<Rightarrow> bytes" where
  "raydium_demo_sighash name =
     (if name = ''create_amm_config'' then raydium_id_CreateAmmConfig
      else if name = ''update_amm_config'' then raydium_id_UpdateAmmConfig
      else if name = ''update_pool_status'' then raydium_id_UpdatePoolStatus
      else if name = ''collect_protocol_fee'' then raydium_id_CollectProtocolFee
      else if name = ''collect_fund_fee'' then raydium_id_CollectFundFee
      else if name = ''initialize'' then raydium_id_Initialize
      else if name = ''deposit'' then raydium_id_Deposit
      else if name = ''withdraw'' then raydium_id_Withdraw
      else if name = ''swap_base_input'' then raydium_id_SwapBaseInput
      else if name = ''swap_base_output'' then raydium_id_SwapBaseOutput
      else [])"

lemma raydium_demo_ids: "raydium_ids_ok raydium_demo_sighash"
  by (simp add: raydium_ids_ok_def raydium_demo_sighash_def)

interpretation le_raydium: raydium_program le_lib raydium_demo_sighash "Inl (Panic [])"
  by unfold_locales (rule raydium_demo_ids)

lemma raydium_with_accounts_twice [simp]: "raydium_with_accounts as (raydium_with_accounts bs i) = raydium_with_accounts as i"
  by (cases i) simp_all

text \<open>
  C36. Raydium instructions round-trip.  An instruction that \<open>ValidateAndBuild\<close> returns has data, and
  decoding that data with a list of accounts gives the same instruction with those accounts, for each of the
  ten instructions.  The hypotheses are that the library reads what it wrote, that Anchor's discriminators of the
  names are the ids of the client, and that arrays have the lengths of their Go types.
\<close>

theorem raydium_instruction_round_trip:
  assumes "bin_ok L" and "raydium_ids_ok sighash" and "raydium_ValidateAndBuild i = Inr j" and "raydium_wf i"
    and "set_accounts accs = Inr as"
  shows "\<exists>b. raydium_Data nil L j = Inr b \<and>
    raydium_DecodeInstruction sighash set_accounts L accs b = Inr (raydium_with_accounts as i)"
proof -
  have program: "raydium_program L sighash"
    using assms(1,2) by (simp add: raydium_program_def raydium_program_axioms_def bin_library_def)
  have valid: "raydium_Validate i = Inr ()" and j: "j = i"
    using assms(3) by (auto simp: raydium_ValidateAndBuild_def)
  obtain b where "raydium_marshal_impl nil L i = Inr b"
    and "read_variant sighash (raydium_variants L) (raydium_type_id i @ b) = Inr (raydium_with_accounts [] i)"
    using raydium_program.instruction_reads [OF program, of i nil] valid assms(4) by blast
  then show ?thesis
    by (simp add: j raydium_Data_def raydium_Marshal_def raydium_DecodeInstruction_def raydium_Unmarshal_def assms(5))
qed

theorem raydium_instruction_round_trip_witness:
  "\<exists>i b. new_Raydium_UpdateAmmConfig 1 5 [1] [2] = Inr i \<and>
     raydium_Data (Inl (Panic [])) le_lib (Ix_Raydium_UpdateAmmConfig i) = Inr b \<and>
     raydium_DecodeInstruction raydium_demo_sighash Inr le_lib [None] b = Inr (Ix_Raydium_UpdateAmmConfig (i\<lparr>Raydium_UpdateAmmConfig.accounts := [None]\<rparr>))"
proof -
  obtain i where i: "new_Raydium_UpdateAmmConfig 1 5 [1] [2] = Inr i" "Raydium_UpdateAmmConfig_Validate i = Inr ()"
    using new_Raydium_UpdateAmmConfig_valid by blast
  have "raydium_ValidateAndBuild (Ix_Raydium_UpdateAmmConfig i) = Inr (Ix_Raydium_UpdateAmmConfig i)"
    using i(2) by (simp add: raydium_ValidateAndBuild_def)
  from raydium_instruction_round_trip [OF bin_ok_le_lib raydium_demo_ids this, of Inr "[None]" "[None]"] i(1)
  show ?thesis by auto
qed

text \<open>
  The constructors of Raydium give instructions that pass \<open>Validate\<close> whatever their arguments, and the
  signatures these instructions need are exactly those of the accounts the program authorises:
  the payer of a swap, the owner of the liquidity, the creator of a pool, the owner of the program or pool configuration.
\<close>

theorem raydium_constructors_ask_for_the_right_signatures:
  "(\<forall>index tradeFeeRate protocolFeeRate fundFeeRate createPoolFee owner ammConfig systemProgram.
     \<exists>i. new_Raydium_CreateAmmConfig index tradeFeeRate protocolFeeRate fundFeeRate createPoolFee owner ammConfig systemProgram = Inr i \<and>
     Raydium_CreateAmmConfig_Validate i = Inr () \<and> required_signers (Raydium_CreateAmmConfig.accounts i) = [owner]) \<and>
   (\<forall>param value owner ammConfig.
     \<exists>i. new_Raydium_UpdateAmmConfig param value owner ammConfig = Inr i \<and>
     Raydium_UpdateAmmConfig_Validate i = Inr () \<and> required_signers (Raydium_UpdateAmmConfig.accounts i) = [owner]) \<and>
   (\<forall>status authority poolState.
     \<exists>i. new_Raydium_UpdatePoolStatus status authority poolState = Inr i \<and>
     Raydium_UpdatePoolStatus_Validate i = Inr () \<and> required_signers (Raydium_UpdatePoolStatus.accounts i) = [authority]) \<and>
   (\<forall>amount0Requested amount1Requested owner authority poolState ammConfig token0Vault token1Vault vault0Mint vault1Mint recipientToken0Account recipientToken1Account tokenProgram tokenProgram2022.
     \<exists>i. new_Raydium_CollectProtocolFee amount0Requested amount1Requested owner authority poolState ammConfig token0Vault token1Vault
        vault0Mint vault1Mint recipientToken0Account recipientToken1Account tokenProgram
        tokenProgram2022 = Inr i \<and>
     Raydium_CollectProtocolFee_Validate i = Inr () \<and> required_signers (Raydium_CollectProtocolFee.accounts i) = [owner]) \<and>
   (\<forall>amount0Requested amount1Requested owner authority poolState ammConfig token0Vault token1Vault vault0Mint vault1Mint recipientToken0Account recipientToken1Account tokenProgram tokenProgram2022.
     \<exists>i. new_Raydium_CollectFundFee amount0Requested amount1Requested owner authority poolState ammConfig token0Vault token1Vault
        vault0Mint vault1Mint recipientToken0Account recipientToken1Account tokenProgram
        tokenProgram2022 = Inr i \<and>
     Raydium_CollectFundFee_Validate i = Inr () \<and> required_signers (Raydium_CollectFundFee.accounts i) = [owner]) \<and>
   (\<forall>initAmount0 initAmount1 openTime creator ammConfig authority poolState token0Mint token1Mint lpMint creatorToken0 creatorToken1 creatorLpToken token0Vault token1Vault createPoolFee observationState tokenProgram token0Program token1Program associatedTokenProgram systemProgram rent.
     \<exists>i. new_Raydium_Initialize initAmount0 initAmount1 openTime creator ammConfig authority poolState token0Mint token1Mint
        lpMint creatorToken0 creatorToken1 creatorLpToken token0Vault token1Vault createPoolFee
        observationState tokenProgram token0Program token1Program associatedTokenProgram systemProgram
        rent = Inr i \<and>
     Raydium_Initialize_Validate i = Inr () \<and> required_signers (Raydium_Initialize.accounts i) = [creator]) \<and>
   (\<forall>lpTokenAmount maximumToken0Amount maximumToken1Amount owner authority poolState ownerLpToken token0Account token1Account token0Vault token1Vault tokenProgram tokenProgram2022 vault0Mint vault1Mint lpMint.
     \<exists>i. new_Raydium_Deposit lpTokenAmount maximumToken0Amount maximumToken1Amount owner authority poolState ownerLpToken
        token0Account token1Account token0Vault token1Vault tokenProgram tokenProgram2022 vault0Mint
        vault1Mint lpMint = Inr i \<and>
     Raydium_Deposit_Validate i = Inr () \<and> required_signers (Raydium_Deposit.accounts i) = [owner]) \<and>
   (\<forall>lpTokenAmount minimumToken0Amount minimumToken1Amount owner authority poolState ownerLpToken token0Account token1Account token0Vault token1Vault tokenProgram tokenProgram2022 vault0Mint vault1Mint lpMint memoProgram.
     \<exists>i. new_Raydium_Withdraw lpTokenAmount minimumToken0Amount minimumToken1Amount owner authority poolState ownerLpToken
        token0Account token1Account token0Vault token1Vault tokenProgram tokenProgram2022 vault0Mint
        vault1Mint lpMint memoProgram = Inr i \<and>
     Raydium_Withdraw_Validate i = Inr () \<and> required_signers (Raydium_Withdraw.accounts i) = [owner]) \<and>
   (\<forall>amountIn minimumAmountOut payer authority ammConfig poolState inputTokenAccount outputTokenAccount inputVault outputVault inputTokenProgram outputTokenProgram inputTokenMint outputTokenMint observationState.
     \<exists>i. new_Raydium_SwapBaseInput amountIn minimumAmountOut payer authority ammConfig poolState inputTokenAccount
        outputTokenAccount inputVault outputVault inputTokenProgram outputTokenProgram inputTokenMint
        outputTokenMint observationState = Inr i \<and>
     Raydium_SwapBaseInput_Validate i = Inr () \<and> required_signers (Raydium_SwapBaseInput.accounts i) = [payer]) \<and>
   (\<forall>maxAmountIn amountOut payer authority ammConfig poolState inputTokenAccount outputTokenAccount inputVault outputVault inputTokenProgram outputTokenProgram inputTokenMint outputTokenMint observationState.
     \<exists>i. new_Raydium_SwapBaseOutput maxAmountIn amountOut payer authority ammConfig poolState inputTokenAccount outputTokenAccount
        inputVault outputVault inputTokenProgram outputTokenProgram inputTokenMint outputTokenMint
        observationState = Inr i \<and>
     Raydium_SwapBaseOutput_Validate i = Inr () \<and> required_signers (Raydium_SwapBaseOutput.accounts i) = [payer])"
  by (intro conjI allI new_Raydium_CreateAmmConfig_valid
      new_Raydium_UpdateAmmConfig_valid
      new_Raydium_UpdatePoolStatus_valid
      new_Raydium_CollectProtocolFee_valid
      new_Raydium_CollectFundFee_valid
      new_Raydium_Initialize_valid
      new_Raydium_Deposit_valid
      new_Raydium_Withdraw_valid
      new_Raydium_SwapBaseInput_valid
      new_Raydium_SwapBaseOutput_valid)

end
