(* ===== verification/Gateway.thy ===== *)
theory Gateway
  imports Prelude
begin

text \<open>
  The shape of the gRPC gateways (\<open>*.pb.gw.go\<close>): how a handler fills a request message from the path and
  the query string, calls the service in process or over a connection, and answers over HTTP; the routes
  a service registers; and the laws of these operations that hold for every service.  The runtime of
  grpc-gateway, the gRPC services and the annotation of contexts are parameters.
\<close>

section \<open>Messages and requests\<close>

text \<open>
  A protobuf message: its type (the Go package and the name in it) and the fields set so far, by their Go names; other fields have
  their zero value.
\<close>

datatype pval =
  PString string
| PBytes bytes
| PUint64 "64 word"
| PInt64 "64 word"
| PStrings "string list"
| PEnum "32 word"

type_synonym message_type = "string \<times> string"

record gw_message =
  m_type :: message_type
  m_fields :: "string \<rightharpoonup> pval"

definition zero_message :: "message_type \<Rightarrow> gw_message" where
  "zero_message T = \<lparr>m_type = T, m_fields = Map.empty\<rparr>"

definition set_field :: "string \<Rightarrow> pval \<Rightarrow> gw_message \<Rightarrow> gw_message" where
  "set_field f v m = m\<lparr>m_fields := (m_fields m)(f \<mapsto> v)\<rparr>"

text \<open>\<open>utilities.DoubleArray\<close>, and an HTTP request by what \<open>ParseForm\<close> answers for it.\<close>

record double_array =
  Encoding :: "(string \<times> nat) list"
  Base :: "int list"
  Check :: "int list"

type_synonym gw_form = "string \<rightharpoonup> string list"

record http_request =
  rq_form :: "string + gw_form"

type_synonym path_params = "string \<rightharpoonup> string"

section \<open>Errors and results\<close>

datatype status_code = Invalid_argument | Unimplemented

text \<open>An error the gateway makes with \<open>status.Errorf\<close>, or one that it was given.\<close>

datatype gw_error = Status status_code string | Upstream string

type_synonym md = "(string \<times> string list) list"

record server_md =
  header_md :: md
  trailer_md :: md

definition no_md :: server_md where
  "no_md = \<lparr>header_md = [], trailer_md = []\<rparr>"

section \<open>Parameters\<close>

text \<open>
  The functions of the grpc-gateway runtime, with the text of their errors: the conversions of a path
  parameter, \<open>PopulateQueryParameters\<close> and the field name that it reads off the front of a key of the query,
  \<open>metadata.Join\<close>, and the two annotations of the context.
\<close>

record 'c gw_runtime =
  rt_string :: "string \<Rightarrow> string + string"
  rt_bytes :: "string \<Rightarrow> string + bytes"
  rt_uint64 :: "string \<Rightarrow> string + 64 word"
  rt_int64 :: "string \<Rightarrow> string + 64 word"
  rt_string_slice :: "string \<Rightarrow> string \<Rightarrow> string + string list"
  rt_enum :: "string \<Rightarrow> (string \<times> 32 word) list \<Rightarrow> string + 32 word"
  rt_key_head :: "string \<Rightarrow> string"
  rt_populate :: "gw_message \<Rightarrow> gw_form \<Rightarrow> double_array \<Rightarrow> string + gw_message"
  rt_join :: "md \<Rightarrow> md \<Rightarrow> md"
  rt_annotate :: "http_request \<Rightarrow> string + 'c"
  rt_annotate_incoming :: "http_request \<Rightarrow> string + 'c"

text \<open>
  A service, by the names of its methods: in process, with the metadata it sends on the transport stream,
  and over a connection, with the metadata the call options collect.
\<close>

record ('c, 'r) gw_server =
  sv_call :: "'c \<Rightarrow> string \<Rightarrow> gw_message \<Rightarrow> (gw_error + 'r) \<times> server_md"

record ('c, 'r, 's) gw_client =
  cl_call :: "'c \<Rightarrow> string \<Rightarrow> gw_message \<Rightarrow> (gw_error + 'r) \<times> server_md"
  cl_stream :: "'c \<Rightarrow> string \<Rightarrow> gw_message \<Rightarrow> gw_error + 's"
  cl_header :: "'s \<Rightarrow> gw_error + md"

section \<open>Filling a request\<close>

definition as_string :: "'c gw_runtime \<Rightarrow> string \<Rightarrow> string + pval" where
  "as_string G v = map_sum id PString (rt_string G v)"

definition as_bytes :: "'c gw_runtime \<Rightarrow> string \<Rightarrow> string + pval" where
  "as_bytes G v = map_sum id PBytes (rt_bytes G v)"

definition as_uint64 :: "'c gw_runtime \<Rightarrow> string \<Rightarrow> string + pval" where
  "as_uint64 G v = map_sum id PUint64 (rt_uint64 G v)"

definition as_int64 :: "'c gw_runtime \<Rightarrow> string \<Rightarrow> string + pval" where
  "as_int64 G v = map_sum id PInt64 (rt_int64 G v)"

definition as_strings :: "'c gw_runtime \<Rightarrow> string \<Rightarrow> string \<Rightarrow> string + pval" where
  "as_strings G sep v = map_sum id PStrings (rt_string_slice G v sep)"

definition as_enum :: "'c gw_runtime \<Rightarrow> (string \<times> 32 word) list \<Rightarrow> string \<Rightarrow> string + pval" where
  "as_enum G table v = map_sum id PEnum (rt_enum G v table)"

text \<open>
  The statements that fill a request: a path parameter that is looked up, converted and stored, and
  the query string.
\<close>

type_synonym fill = "gw_message \<Rightarrow> gw_error + gw_message"

definition path_param :: "path_params \<Rightarrow> (string \<Rightarrow> string + pval) \<Rightarrow> string \<Rightarrow> string \<Rightarrow> fill" where
  "path_param pp conv name field m =
     (case pp name of
        None \<Rightarrow> Inl (Status Invalid_argument (''missing parameter '' @ name))
      | Some val \<Rightarrow>
          (case conv val of
             Inl e \<Rightarrow> Inl (Status Invalid_argument (''type mismatch, parameter: '' @ name @ '', error: '' @ e))
           | Inr x \<Rightarrow> Inr (set_field field x m)))"

definition query_params :: "'c gw_runtime \<Rightarrow> http_request \<Rightarrow> double_array \<Rightarrow> fill" where
  "query_params G req flt m =
     (case rq_form req of
        Inl e \<Rightarrow> Inl (Status Invalid_argument e)
      | Inr form \<Rightarrow>
          (case rt_populate G m form flt of
             Inl e \<Rightarrow> Inl (Status Invalid_argument e)
           | Inr m' \<Rightarrow> Inr m'))"

fun fill_all :: "fill list \<Rightarrow> fill" where
  "fill_all [] m = Inr m"
| "fill_all (f # fs) m = (case f m of Inl e \<Rightarrow> Inl e | Inr m' \<Rightarrow> fill_all fs m')"

section \<open>Requests\<close>

text \<open>The end of \<open>request_M\<close>, \<open>local_request_M\<close> and of \<open>request_M\<close> for a method that answers with a stream.\<close>

definition remote_call :: "('c, 'r, 's) gw_client \<Rightarrow> 'c \<Rightarrow> string \<Rightarrow> gw_error + gw_message \<Rightarrow> (gw_error + 'r) \<times> server_md" where
  "remote_call C ctx M req = (case req of Inl e \<Rightarrow> (Inl e, no_md) | Inr m \<Rightarrow> cl_call C ctx M m)"

text \<open>The second component is the metadata \<open>local_request_M\<close> returns, the third what the service sent on the stream.\<close>

definition local_call :: "('c, 'r) gw_server \<Rightarrow> 'c \<Rightarrow> string \<Rightarrow> gw_error + gw_message \<Rightarrow> (gw_error + 'r) \<times> server_md \<times> server_md" where
  "local_call S ctx M req =
     (case req of
        Inl e \<Rightarrow> (Inl e, no_md, no_md)
      | Inr m \<Rightarrow> (case sv_call S ctx M m of (r, sent) \<Rightarrow> (r, no_md, sent)))"

definition stream_call :: "('c, 'r, 's) gw_client \<Rightarrow> 'c \<Rightarrow> string \<Rightarrow> gw_error + gw_message \<Rightarrow> (gw_error + 's) \<times> server_md" where
  "stream_call C ctx M req =
     (case req of
        Inl e \<Rightarrow> (Inl e, no_md)
      | Inr m \<Rightarrow>
          (case cl_stream C ctx M m of
             Inl e \<Rightarrow> (Inl e, no_md)
           | Inr s \<Rightarrow>
               (case cl_header C s of
                  Inl e \<Rightarrow> (Inl e, no_md)
                | Inr h \<Rightarrow> (Inr s, no_md\<lparr>header_md := h\<rparr>))))"

section \<open>Handlers\<close>

text \<open>What a handler does with the response: \<open>HTTPError\<close> (with the metadata in its context, if any) or a forward.\<close>

datatype ('r, 's) http_out =
  Http_error gw_error "server_md option"
| Forward_message 'r server_md
| Forward_stream 's server_md

definition serve_client ::
  "'c gw_runtime \<Rightarrow> ('c \<Rightarrow> http_request \<Rightarrow> path_params \<Rightarrow> (gw_error + 'r) \<times> server_md) \<Rightarrow>
     http_request \<Rightarrow> path_params \<Rightarrow> ('r, 's) http_out" where
  "serve_client G request req pp =
     (case rt_annotate G req of
        Inl e \<Rightarrow> Http_error (Upstream e) None
      | Inr rctx \<Rightarrow>
          (case request rctx req pp of
             (Inl e, md) \<Rightarrow> Http_error e (Some md)
           | (Inr resp, md) \<Rightarrow> Forward_message resp md))"

definition serve_client_stream ::
  "'c gw_runtime \<Rightarrow> ('c \<Rightarrow> http_request \<Rightarrow> path_params \<Rightarrow> (gw_error + 's) \<times> server_md) \<Rightarrow>
     http_request \<Rightarrow> path_params \<Rightarrow> ('r, 's) http_out" where
  "serve_client_stream G request req pp =
     (case rt_annotate G req of
        Inl e \<Rightarrow> Http_error (Upstream e) None
      | Inr rctx \<Rightarrow>
          (case request rctx req pp of
             (Inl e, md) \<Rightarrow> Http_error e (Some md)
           | (Inr s, md) \<Rightarrow> Forward_stream s md))"

definition serve_local ::
  "'c gw_runtime \<Rightarrow> ('c \<Rightarrow> http_request \<Rightarrow> path_params \<Rightarrow> (gw_error + 'r) \<times> server_md \<times> server_md) \<Rightarrow>
     http_request \<Rightarrow> path_params \<Rightarrow> ('r, 's) http_out" where
  "serve_local G request req pp =
     (case rt_annotate_incoming G req of
        Inl e \<Rightarrow> Http_error (Upstream e) None
      | Inr rctx \<Rightarrow>
          (case request rctx req pp of
             (r, md, sent) \<Rightarrow>
               (let md' = \<lparr>header_md = rt_join G (header_md md) (header_md sent),
                           trailer_md = rt_join G (trailer_md md) (trailer_md sent)\<rparr>
                in case r of Inl e \<Rightarrow> Http_error e (Some md') | Inr resp \<Rightarrow> Forward_message resp md')))"

definition not_streamed :: "http_request \<Rightarrow> path_params \<Rightarrow> ('r, 's) http_out" where
  "not_streamed req pp =
     Http_error (Status Unimplemented ''streaming calls are not yet supported in the in-process transport'') None"

section \<open>Routes\<close>

text \<open>The arguments of \<open>runtime.NewPattern\<close>; \<open>MustPattern\<close> and the matching of URLs are the runtime's.\<close>

record url_pattern =
  up_version :: int
  up_ops :: "nat list"
  up_pool :: "string list"
  up_verb :: string

record ('r, 's) route =
  gr_method :: string
  gr_pattern :: url_pattern
  gr_handler :: "http_request \<Rightarrow> path_params \<Rightarrow> ('r, 's) http_out"

text \<open>
  \<open>mux.Handle\<close> adds a route.  \<open>register_from_endpoint\<close> is the body of the \<open>FromEndpoint\<close> functions: the
  connection is closed at once when registering fails, else when the context ends.
\<close>

datatype conn_fate = Closed_at_once | Closed_with_context

definition handle_route :: "('r, 's) route list \<Rightarrow> ('r, 's) route \<Rightarrow> ('r, 's) route list" where
  "handle_route mux r = mux @ [r]"

definition register_from_endpoint ::
  "(string \<Rightarrow> gw_error + 'conn) \<Rightarrow> (('r, 's) route list \<Rightarrow> 'conn \<Rightarrow> gw_error + ('r, 's) route list) \<Rightarrow>
     ('r, 's) route list \<Rightarrow> string \<Rightarrow> (gw_error + ('r, 's) route list) \<times> conn_fate option" where
  "register_from_endpoint dial register mux endpoint =
     (case dial endpoint of
        Inl e \<Rightarrow> (Inl e, None)
      | Inr conn \<Rightarrow>
          (let r = register mux conn in
           (r, Some (case r of Inl _ \<Rightarrow> Closed_at_once | Inr _ \<Rightarrow> Closed_with_context))))"

named_theorems gateway_patterns \<open>the URL patterns\<close>
named_theorems gateway_filters \<open>the filters of the query strings\<close>
named_theorems gateway_requests \<open>the requests\<close>
named_theorems gateway_routes \<open>the routes\<close>
named_theorems gateway_registers \<open>the registrations\<close>

end
