(* ===== verification/Gateway_Chain.thy ===== *)
theory Gateway_Chain
  imports Gateway
begin

text \<open>
  The gateways of the chain modules and of the event stream: for every method the request over a connection and in
  process, its URL pattern and its two routes, and for every service the registration functions.
\<close>

section \<open>Enumerations of the path parameters\<close>

definition Plane_value :: "(string \<times> 32 word) list" where
  "Plane_value = [(''COSMOS'', 0), (''WASM'', 1), (''EVM'', 2), (''SVM'', 3)]"

definition StrategyType_value :: "(string \<times> 32 word) list" where
  "StrategyType_value = [(''STRATEGY'', 0), (''INTENT_SOLVER'', 1), (''CRON'', 2)]"

section \<open>Query (\<open>chain/modules/astromesh/types/query.pb.gw.go\<close>)\<close>

definition filter_astromesh_Query_DenomLink_0 :: double_array where
  "filter_astromesh_Query_DenomLink_0 = \<lparr>Encoding = [(''src_plane'', 0), (''dst_plane'', 1)], Base = [1, 1, 2, 0, 0], Check = [0, 1, 1, 2, 3]\<rparr>"

definition filter_astromesh_Query_Balance_0 :: double_array where
  "filter_astromesh_Query_Balance_0 = \<lparr>Encoding = [(''plane'', 0), (''address'', 1)], Base = [1, 1, 2, 0, 0], Check = [0, 1, 1, 2, 3]\<rparr>"

definition request_astromesh_Query_DenomLink_0 ::
  "'c gw_runtime \<Rightarrow> ('c, 'r, 's) gw_client \<Rightarrow> 'c \<Rightarrow> http_request \<Rightarrow> path_params \<Rightarrow> (gw_error + 'r) \<times> server_md" where
  "request_astromesh_Query_DenomLink_0 G C ctx req pp =
     remote_call C ctx ''DenomLink'' (fill_all
       [path_param pp (as_enum G Plane_value) ''src_plane'' ''SrcPlane'',
        path_param pp (as_enum G Plane_value) ''dst_plane'' ''DstPlane'',
        query_params G req filter_astromesh_Query_DenomLink_0]
       (zero_message (''astromesh'', ''QueryDenomLinkRequest'')))"

definition local_request_astromesh_Query_DenomLink_0 ::
  "'c gw_runtime \<Rightarrow> ('c, 'r) gw_server \<Rightarrow> 'c \<Rightarrow> http_request \<Rightarrow> path_params \<Rightarrow> (gw_error + 'r) \<times> server_md \<times> server_md" where
  "local_request_astromesh_Query_DenomLink_0 G S ctx req pp =
     local_call S ctx ''DenomLink'' (fill_all
       [path_param pp (as_enum G Plane_value) ''src_plane'' ''SrcPlane'',
        path_param pp (as_enum G Plane_value) ''dst_plane'' ''DstPlane'',
        query_params G req filter_astromesh_Query_DenomLink_0]
       (zero_message (''astromesh'', ''QueryDenomLinkRequest'')))"

definition request_astromesh_Query_Balance_0 ::
  "'c gw_runtime \<Rightarrow> ('c, 'r, 's) gw_client \<Rightarrow> 'c \<Rightarrow> http_request \<Rightarrow> path_params \<Rightarrow> (gw_error + 'r) \<times> server_md" where
  "request_astromesh_Query_Balance_0 G C ctx req pp =
     remote_call C ctx ''Balance'' (fill_all
       [path_param pp (as_string G) ''plane'' ''Plane'',
        path_param pp (as_string G) ''address'' ''Address'',
        query_params G req filter_astromesh_Query_Balance_0]
       (zero_message (''astromesh'', ''BalanceRequest'')))"

definition local_request_astromesh_Query_Balance_0 ::
  "'c gw_runtime \<Rightarrow> ('c, 'r) gw_server \<Rightarrow> 'c \<Rightarrow> http_request \<Rightarrow> path_params \<Rightarrow> (gw_error + 'r) \<times> server_md \<times> server_md" where
  "local_request_astromesh_Query_Balance_0 G S ctx req pp =
     local_call S ctx ''Balance'' (fill_all
       [path_param pp (as_string G) ''plane'' ''Plane'',
        path_param pp (as_string G) ''address'' ''Address'',
        query_params G req filter_astromesh_Query_Balance_0]
       (zero_message (''astromesh'', ''BalanceRequest'')))"

definition pattern_astromesh_Query_DenomLink_0 :: url_pattern where
  "pattern_astromesh_Query_DenomLink_0 = \<lparr>up_version = 1, up_ops = [2, 0, 2, 1, 2, 2, 2, 3, 1, 0, 4, 1, 5, 4, 1, 0, 4, 1, 5, 5],
     up_pool = [''flux'', ''astromesh'', ''v1beta1'', ''denom_link'', ''src_plane'', ''dst_plane''], up_verb = []\<rparr>"

definition pattern_astromesh_Query_Balance_0 :: url_pattern where
  "pattern_astromesh_Query_Balance_0 = \<lparr>up_version = 1, up_ops = [2, 0, 2, 1, 2, 2, 2, 3, 1, 0, 4, 1, 5, 4, 1, 0, 4, 1, 5, 5],
     up_pool = [''flux'', ''astromesh'', ''v1beta1'', ''balance'', ''plane'', ''address''], up_verb = []\<rparr>"

definition server_route_astromesh_Query_DenomLink_0 :: "'c gw_runtime \<Rightarrow> ('c, 'r) gw_server \<Rightarrow> ('r, 's) route" where
  "server_route_astromesh_Query_DenomLink_0 G S =
     \<lparr>gr_method = ''GET'', gr_pattern = pattern_astromesh_Query_DenomLink_0, gr_handler = serve_local G (local_request_astromesh_Query_DenomLink_0 G S)\<rparr>"

definition server_route_astromesh_Query_Balance_0 :: "'c gw_runtime \<Rightarrow> ('c, 'r) gw_server \<Rightarrow> ('r, 's) route" where
  "server_route_astromesh_Query_Balance_0 G S =
     \<lparr>gr_method = ''GET'', gr_pattern = pattern_astromesh_Query_Balance_0, gr_handler = serve_local G (local_request_astromesh_Query_Balance_0 G S)\<rparr>"

definition register_astromesh_QueryHandlerServer ::
  "'c gw_runtime \<Rightarrow> ('c, 'r) gw_server \<Rightarrow> ('r, 's) route list \<Rightarrow> gw_error + ('r, 's) route list" where
  "register_astromesh_QueryHandlerServer G S mux = Inr (foldl handle_route mux
     [server_route_astromesh_Query_DenomLink_0 G S,
      server_route_astromesh_Query_Balance_0 G S])"

definition client_route_astromesh_Query_DenomLink_0 :: "'c gw_runtime \<Rightarrow> ('c, 'r, 's) gw_client \<Rightarrow> ('r, 's) route" where
  "client_route_astromesh_Query_DenomLink_0 G C =
     \<lparr>gr_method = ''GET'', gr_pattern = pattern_astromesh_Query_DenomLink_0, gr_handler = serve_client G (request_astromesh_Query_DenomLink_0 G C)\<rparr>"

definition client_route_astromesh_Query_Balance_0 :: "'c gw_runtime \<Rightarrow> ('c, 'r, 's) gw_client \<Rightarrow> ('r, 's) route" where
  "client_route_astromesh_Query_Balance_0 G C =
     \<lparr>gr_method = ''GET'', gr_pattern = pattern_astromesh_Query_Balance_0, gr_handler = serve_client G (request_astromesh_Query_Balance_0 G C)\<rparr>"

definition register_astromesh_QueryHandlerClient ::
  "'c gw_runtime \<Rightarrow> ('c, 'r, 's) gw_client \<Rightarrow> ('r, 's) route list \<Rightarrow> gw_error + ('r, 's) route list" where
  "register_astromesh_QueryHandlerClient G C mux = Inr (foldl handle_route mux
     [client_route_astromesh_Query_DenomLink_0 G C,
      client_route_astromesh_Query_Balance_0 G C])"

definition register_astromesh_QueryHandler ::
  "'c gw_runtime \<Rightarrow> ('conn \<Rightarrow> ('c, 'r, 's) gw_client) \<Rightarrow> ('r, 's) route list \<Rightarrow> 'conn \<Rightarrow> gw_error + ('r, 's) route list" where
  "register_astromesh_QueryHandler G new_client mux conn = register_astromesh_QueryHandlerClient G (new_client conn) mux"

definition register_astromesh_QueryHandlerFromEndpoint ::
  "'c gw_runtime \<Rightarrow> ('conn \<Rightarrow> ('c, 'r, 's) gw_client) \<Rightarrow> (string \<Rightarrow> gw_error + 'conn) \<Rightarrow> ('r, 's) route list \<Rightarrow> string \<Rightarrow>
     (gw_error + ('r, 's) route list) \<times> conn_fate option" where
  "register_astromesh_QueryHandlerFromEndpoint G new_client dial mux endpoint =
     register_from_endpoint dial (register_astromesh_QueryHandler G new_client) mux endpoint"

section \<open>Query (\<open>chain/modules/fnft/types/query.pb.gw.go\<close>)\<close>

definition filter_fnft_Query_NFTs_0 :: double_array where
  "filter_fnft_Query_NFTs_0 = \<lparr>Encoding = [], Base = [], Check = []\<rparr>"

definition filter_fnft_Query_Classes_0 :: double_array where
  "filter_fnft_Query_Classes_0 = \<lparr>Encoding = [], Base = [], Check = []\<rparr>"

definition request_fnft_Query_Balance_0 ::
  "'c gw_runtime \<Rightarrow> ('c, 'r, 's) gw_client \<Rightarrow> 'c \<Rightarrow> http_request \<Rightarrow> path_params \<Rightarrow> (gw_error + 'r) \<times> server_md" where
  "request_fnft_Query_Balance_0 G C ctx req pp =
     remote_call C ctx ''Balance'' (fill_all
       [path_param pp (as_string G) ''owner'' ''Owner'',
        path_param pp (as_string G) ''class_id'' ''ClassId'']
       (zero_message (''fnft'', ''QueryBalanceRequest'')))"

definition local_request_fnft_Query_Balance_0 ::
  "'c gw_runtime \<Rightarrow> ('c, 'r) gw_server \<Rightarrow> 'c \<Rightarrow> http_request \<Rightarrow> path_params \<Rightarrow> (gw_error + 'r) \<times> server_md \<times> server_md" where
  "local_request_fnft_Query_Balance_0 G S ctx req pp =
     local_call S ctx ''Balance'' (fill_all
       [path_param pp (as_string G) ''owner'' ''Owner'',
        path_param pp (as_string G) ''class_id'' ''ClassId'']
       (zero_message (''fnft'', ''QueryBalanceRequest'')))"

definition request_fnft_Query_Owner_0 ::
  "'c gw_runtime \<Rightarrow> ('c, 'r, 's) gw_client \<Rightarrow> 'c \<Rightarrow> http_request \<Rightarrow> path_params \<Rightarrow> (gw_error + 'r) \<times> server_md" where
  "request_fnft_Query_Owner_0 G C ctx req pp =
     remote_call C ctx ''Owner'' (fill_all
       [path_param pp (as_string G) ''class_id'' ''ClassId'',
        path_param pp (as_string G) ''id'' ''Id'']
       (zero_message (''fnft'', ''QueryOwnerRequest'')))"

definition local_request_fnft_Query_Owner_0 ::
  "'c gw_runtime \<Rightarrow> ('c, 'r) gw_server \<Rightarrow> 'c \<Rightarrow> http_request \<Rightarrow> path_params \<Rightarrow> (gw_error + 'r) \<times> server_md \<times> server_md" where
  "local_request_fnft_Query_Owner_0 G S ctx req pp =
     local_call S ctx ''Owner'' (fill_all
       [path_param pp (as_string G) ''class_id'' ''ClassId'',
        path_param pp (as_string G) ''id'' ''Id'']
       (zero_message (''fnft'', ''QueryOwnerRequest'')))"

definition request_fnft_Query_Supply_0 ::
  "'c gw_runtime \<Rightarrow> ('c, 'r, 's) gw_client \<Rightarrow> 'c \<Rightarrow> http_request \<Rightarrow> path_params \<Rightarrow> (gw_error + 'r) \<times> server_md" where
  "request_fnft_Query_Supply_0 G C ctx req pp =
     remote_call C ctx ''Supply'' (fill_all
       [path_param pp (as_string G) ''class_id'' ''ClassId'']
       (zero_message (''fnft'', ''QuerySupplyRequest'')))"

definition local_request_fnft_Query_Supply_0 ::
  "'c gw_runtime \<Rightarrow> ('c, 'r) gw_server \<Rightarrow> 'c \<Rightarrow> http_request \<Rightarrow> path_params \<Rightarrow> (gw_error + 'r) \<times> server_md \<times> server_md" where
  "local_request_fnft_Query_Supply_0 G S ctx req pp =
     local_call S ctx ''Supply'' (fill_all
       [path_param pp (as_string G) ''class_id'' ''ClassId'']
       (zero_message (''fnft'', ''QuerySupplyRequest'')))"

definition request_fnft_Query_Holder_0 ::
  "'c gw_runtime \<Rightarrow> ('c, 'r, 's) gw_client \<Rightarrow> 'c \<Rightarrow> http_request \<Rightarrow> path_params \<Rightarrow> (gw_error + 'r) \<times> server_md" where
  "request_fnft_Query_Holder_0 G C ctx req pp =
     remote_call C ctx ''Holder'' (fill_all
       [path_param pp (as_string G) ''class_id'' ''ClassId'',
        path_param pp (as_string G) ''id'' ''Id'',
        path_param pp (as_string G) ''address'' ''Address'']
       (zero_message (''fnft'', ''QueryHolderRequest'')))"

definition local_request_fnft_Query_Holder_0 ::
  "'c gw_runtime \<Rightarrow> ('c, 'r) gw_server \<Rightarrow> 'c \<Rightarrow> http_request \<Rightarrow> path_params \<Rightarrow> (gw_error + 'r) \<times> server_md \<times> server_md" where
  "local_request_fnft_Query_Holder_0 G S ctx req pp =
     local_call S ctx ''Holder'' (fill_all
       [path_param pp (as_string G) ''class_id'' ''ClassId'',
        path_param pp (as_string G) ''id'' ''Id'',
        path_param pp (as_string G) ''address'' ''Address'']
       (zero_message (''fnft'', ''QueryHolderRequest'')))"

definition request_fnft_Query_Holders_0 ::
  "'c gw_runtime \<Rightarrow> ('c, 'r, 's) gw_client \<Rightarrow> 'c \<Rightarrow> http_request \<Rightarrow> path_params \<Rightarrow> (gw_error + 'r) \<times> server_md" where
  "request_fnft_Query_Holders_0 G C ctx req pp =
     remote_call C ctx ''Holders'' (fill_all
       [path_param pp (as_string G) ''class_id'' ''ClassId'',
        path_param pp (as_string G) ''id'' ''Id'']
       (zero_message (''fnft'', ''QueryHoldersRequest'')))"

definition local_request_fnft_Query_Holders_0 ::
  "'c gw_runtime \<Rightarrow> ('c, 'r) gw_server \<Rightarrow> 'c \<Rightarrow> http_request \<Rightarrow> path_params \<Rightarrow> (gw_error + 'r) \<times> server_md \<times> server_md" where
  "local_request_fnft_Query_Holders_0 G S ctx req pp =
     local_call S ctx ''Holders'' (fill_all
       [path_param pp (as_string G) ''class_id'' ''ClassId'',
        path_param pp (as_string G) ''id'' ''Id'']
       (zero_message (''fnft'', ''QueryHoldersRequest'')))"

definition request_fnft_Query_NFTs_0 ::
  "'c gw_runtime \<Rightarrow> ('c, 'r, 's) gw_client \<Rightarrow> 'c \<Rightarrow> http_request \<Rightarrow> path_params \<Rightarrow> (gw_error + 'r) \<times> server_md" where
  "request_fnft_Query_NFTs_0 G C ctx req pp =
     remote_call C ctx ''NFTs'' (fill_all
       [query_params G req filter_fnft_Query_NFTs_0]
       (zero_message (''fnft'', ''QueryNFTsRequest'')))"

definition local_request_fnft_Query_NFTs_0 ::
  "'c gw_runtime \<Rightarrow> ('c, 'r) gw_server \<Rightarrow> 'c \<Rightarrow> http_request \<Rightarrow> path_params \<Rightarrow> (gw_error + 'r) \<times> server_md \<times> server_md" where
  "local_request_fnft_Query_NFTs_0 G S ctx req pp =
     local_call S ctx ''NFTs'' (fill_all
       [query_params G req filter_fnft_Query_NFTs_0]
       (zero_message (''fnft'', ''QueryNFTsRequest'')))"

definition request_fnft_Query_NFT_0 ::
  "'c gw_runtime \<Rightarrow> ('c, 'r, 's) gw_client \<Rightarrow> 'c \<Rightarrow> http_request \<Rightarrow> path_params \<Rightarrow> (gw_error + 'r) \<times> server_md" where
  "request_fnft_Query_NFT_0 G C ctx req pp =
     remote_call C ctx ''NFT'' (fill_all
       [path_param pp (as_string G) ''class_id'' ''ClassId'',
        path_param pp (as_string G) ''id'' ''Id'']
       (zero_message (''fnft'', ''QueryNFTRequest'')))"

definition local_request_fnft_Query_NFT_0 ::
  "'c gw_runtime \<Rightarrow> ('c, 'r) gw_server \<Rightarrow> 'c \<Rightarrow> http_request \<Rightarrow> path_params \<Rightarrow> (gw_error + 'r) \<times> server_md \<times> server_md" where
  "local_request_fnft_Query_NFT_0 G S ctx req pp =
     local_call S ctx ''NFT'' (fill_all
       [path_param pp (as_string G) ''class_id'' ''ClassId'',
        path_param pp (as_string G) ''id'' ''Id'']
       (zero_message (''fnft'', ''QueryNFTRequest'')))"

definition request_fnft_Query_Class_0 ::
  "'c gw_runtime \<Rightarrow> ('c, 'r, 's) gw_client \<Rightarrow> 'c \<Rightarrow> http_request \<Rightarrow> path_params \<Rightarrow> (gw_error + 'r) \<times> server_md" where
  "request_fnft_Query_Class_0 G C ctx req pp =
     remote_call C ctx ''Class'' (fill_all
       [path_param pp (as_string G) ''class_id'' ''ClassId'']
       (zero_message (''fnft'', ''QueryClassRequest'')))"

definition local_request_fnft_Query_Class_0 ::
  "'c gw_runtime \<Rightarrow> ('c, 'r) gw_server \<Rightarrow> 'c \<Rightarrow> http_request \<Rightarrow> path_params \<Rightarrow> (gw_error + 'r) \<times> server_md \<times> server_md" where
  "local_request_fnft_Query_Class_0 G S ctx req pp =
     local_call S ctx ''Class'' (fill_all
       [path_param pp (as_string G) ''class_id'' ''ClassId'']
       (zero_message (''fnft'', ''QueryClassRequest'')))"

definition request_fnft_Query_Classes_0 ::
  "'c gw_runtime \<Rightarrow> ('c, 'r, 's) gw_client \<Rightarrow> 'c \<Rightarrow> http_request \<Rightarrow> path_params \<Rightarrow> (gw_error + 'r) \<times> server_md" where
  "request_fnft_Query_Classes_0 G C ctx req pp =
     remote_call C ctx ''Classes'' (fill_all
       [query_params G req filter_fnft_Query_Classes_0]
       (zero_message (''fnft'', ''QueryClassesRequest'')))"

definition local_request_fnft_Query_Classes_0 ::
  "'c gw_runtime \<Rightarrow> ('c, 'r) gw_server \<Rightarrow> 'c \<Rightarrow> http_request \<Rightarrow> path_params \<Rightarrow> (gw_error + 'r) \<times> server_md \<times> server_md" where
  "local_request_fnft_Query_Classes_0 G S ctx req pp =
     local_call S ctx ''Classes'' (fill_all
       [query_params G req filter_fnft_Query_Classes_0]
       (zero_message (''fnft'', ''QueryClassesRequest'')))"

definition pattern_fnft_Query_Balance_0 :: url_pattern where
  "pattern_fnft_Query_Balance_0 = \<lparr>up_version = 1, up_ops = [2, 0, 2, 1, 2, 2, 2, 3, 1, 0, 4, 1, 5, 4, 1, 0, 4, 1, 5, 5],
     up_pool = [''flux'', ''fnft'', ''v1beta1'', ''balance'', ''owner'', ''class_id''], up_verb = []\<rparr>"

definition pattern_fnft_Query_Owner_0 :: url_pattern where
  "pattern_fnft_Query_Owner_0 = \<lparr>up_version = 1, up_ops = [2, 0, 2, 1, 2, 2, 2, 3, 1, 0, 4, 1, 5, 4, 1, 0, 4, 1, 5, 5],
     up_pool = [''flux'', ''fnft'', ''v1beta1'', ''owner'', ''class_id'', ''id''], up_verb = []\<rparr>"

definition pattern_fnft_Query_Supply_0 :: url_pattern where
  "pattern_fnft_Query_Supply_0 = \<lparr>up_version = 1, up_ops = [2, 0, 2, 1, 2, 2, 2, 3, 1, 0, 4, 1, 5, 4],
     up_pool = [''flux'', ''fnft'', ''v1beta1'', ''supply'', ''class_id''], up_verb = []\<rparr>"

definition pattern_fnft_Query_Holder_0 :: url_pattern where
  "pattern_fnft_Query_Holder_0 = \<lparr>up_version = 1, up_ops = [2, 0, 2, 1, 2, 2, 2, 3, 1, 0, 4, 1, 5, 4, 1, 0, 4, 1, 5, 5, 1, 0, 4, 1, 5, 6],
     up_pool = [''flux'', ''fnft'', ''v1beta1'', ''holder'', ''class_id'', ''id'', ''address''], up_verb = []\<rparr>"

definition pattern_fnft_Query_Holders_0 :: url_pattern where
  "pattern_fnft_Query_Holders_0 = \<lparr>up_version = 1, up_ops = [2, 0, 2, 1, 2, 2, 2, 3, 1, 0, 4, 1, 5, 4, 1, 0, 4, 1, 5, 5],
     up_pool = [''flux'', ''fnft'', ''v1beta1'', ''holders'', ''class_id'', ''id''], up_verb = []\<rparr>"

definition pattern_fnft_Query_NFTs_0 :: url_pattern where
  "pattern_fnft_Query_NFTs_0 = \<lparr>up_version = 1, up_ops = [2, 0, 2, 1, 2, 2, 2, 3],
     up_pool = [''flux'', ''fnft'', ''v1beta1'', ''nfts''], up_verb = []\<rparr>"

definition pattern_fnft_Query_NFT_0 :: url_pattern where
  "pattern_fnft_Query_NFT_0 = \<lparr>up_version = 1, up_ops = [2, 0, 2, 1, 2, 2, 2, 3, 1, 0, 4, 1, 5, 4, 1, 0, 4, 1, 5, 5],
     up_pool = [''flux'', ''fnft'', ''v1beta1'', ''nfts'', ''class_id'', ''id''], up_verb = []\<rparr>"

definition pattern_fnft_Query_Class_0 :: url_pattern where
  "pattern_fnft_Query_Class_0 = \<lparr>up_version = 1, up_ops = [2, 0, 2, 1, 2, 2, 2, 3, 1, 0, 4, 1, 5, 4],
     up_pool = [''flux'', ''fnft'', ''v1beta1'', ''classes'', ''class_id''], up_verb = []\<rparr>"

definition pattern_fnft_Query_Classes_0 :: url_pattern where
  "pattern_fnft_Query_Classes_0 = \<lparr>up_version = 1, up_ops = [2, 0, 2, 1, 2, 2, 2, 3],
     up_pool = [''flux'', ''fnft'', ''v1beta1'', ''classes''], up_verb = []\<rparr>"

definition server_route_fnft_Query_Balance_0 :: "'c gw_runtime \<Rightarrow> ('c, 'r) gw_server \<Rightarrow> ('r, 's) route" where
  "server_route_fnft_Query_Balance_0 G S =
     \<lparr>gr_method = ''GET'', gr_pattern = pattern_fnft_Query_Balance_0, gr_handler = serve_local G (local_request_fnft_Query_Balance_0 G S)\<rparr>"

definition server_route_fnft_Query_Owner_0 :: "'c gw_runtime \<Rightarrow> ('c, 'r) gw_server \<Rightarrow> ('r, 's) route" where
  "server_route_fnft_Query_Owner_0 G S =
     \<lparr>gr_method = ''GET'', gr_pattern = pattern_fnft_Query_Owner_0, gr_handler = serve_local G (local_request_fnft_Query_Owner_0 G S)\<rparr>"

definition server_route_fnft_Query_Supply_0 :: "'c gw_runtime \<Rightarrow> ('c, 'r) gw_server \<Rightarrow> ('r, 's) route" where
  "server_route_fnft_Query_Supply_0 G S =
     \<lparr>gr_method = ''GET'', gr_pattern = pattern_fnft_Query_Supply_0, gr_handler = serve_local G (local_request_fnft_Query_Supply_0 G S)\<rparr>"

definition server_route_fnft_Query_Holder_0 :: "'c gw_runtime \<Rightarrow> ('c, 'r) gw_server \<Rightarrow> ('r, 's) route" where
  "server_route_fnft_Query_Holder_0 G S =
     \<lparr>gr_method = ''GET'', gr_pattern = pattern_fnft_Query_Holder_0, gr_handler = serve_local G (local_request_fnft_Query_Holder_0 G S)\<rparr>"

definition server_route_fnft_Query_Holders_0 :: "'c gw_runtime \<Rightarrow> ('c, 'r) gw_server \<Rightarrow> ('r, 's) route" where
  "server_route_fnft_Query_Holders_0 G S =
     \<lparr>gr_method = ''GET'', gr_pattern = pattern_fnft_Query_Holders_0, gr_handler = serve_local G (local_request_fnft_Query_Holders_0 G S)\<rparr>"

definition server_route_fnft_Query_NFTs_0 :: "'c gw_runtime \<Rightarrow> ('c, 'r) gw_server \<Rightarrow> ('r, 's) route" where
  "server_route_fnft_Query_NFTs_0 G S =
     \<lparr>gr_method = ''GET'', gr_pattern = pattern_fnft_Query_NFTs_0, gr_handler = serve_local G (local_request_fnft_Query_NFTs_0 G S)\<rparr>"

definition server_route_fnft_Query_NFT_0 :: "'c gw_runtime \<Rightarrow> ('c, 'r) gw_server \<Rightarrow> ('r, 's) route" where
  "server_route_fnft_Query_NFT_0 G S =
     \<lparr>gr_method = ''GET'', gr_pattern = pattern_fnft_Query_NFT_0, gr_handler = serve_local G (local_request_fnft_Query_NFT_0 G S)\<rparr>"

definition server_route_fnft_Query_Class_0 :: "'c gw_runtime \<Rightarrow> ('c, 'r) gw_server \<Rightarrow> ('r, 's) route" where
  "server_route_fnft_Query_Class_0 G S =
     \<lparr>gr_method = ''GET'', gr_pattern = pattern_fnft_Query_Class_0, gr_handler = serve_local G (local_request_fnft_Query_Class_0 G S)\<rparr>"

definition server_route_fnft_Query_Classes_0 :: "'c gw_runtime \<Rightarrow> ('c, 'r) gw_server \<Rightarrow> ('r, 's) route" where
  "server_route_fnft_Query_Classes_0 G S =
     \<lparr>gr_method = ''GET'', gr_pattern = pattern_fnft_Query_Classes_0, gr_handler = serve_local G (local_request_fnft_Query_Classes_0 G S)\<rparr>"

definition register_fnft_QueryHandlerServer ::
  "'c gw_runtime \<Rightarrow> ('c, 'r) gw_server \<Rightarrow> ('r, 's) route list \<Rightarrow> gw_error + ('r, 's) route list" where
  "register_fnft_QueryHandlerServer G S mux = Inr (foldl handle_route mux
     [server_route_fnft_Query_Balance_0 G S,
      server_route_fnft_Query_Owner_0 G S,
      server_route_fnft_Query_Supply_0 G S,
      server_route_fnft_Query_Holder_0 G S,
      server_route_fnft_Query_Holders_0 G S,
      server_route_fnft_Query_NFTs_0 G S,
      server_route_fnft_Query_NFT_0 G S,
      server_route_fnft_Query_Class_0 G S,
      server_route_fnft_Query_Classes_0 G S])"

definition client_route_fnft_Query_Balance_0 :: "'c gw_runtime \<Rightarrow> ('c, 'r, 's) gw_client \<Rightarrow> ('r, 's) route" where
  "client_route_fnft_Query_Balance_0 G C =
     \<lparr>gr_method = ''GET'', gr_pattern = pattern_fnft_Query_Balance_0, gr_handler = serve_client G (request_fnft_Query_Balance_0 G C)\<rparr>"

definition client_route_fnft_Query_Owner_0 :: "'c gw_runtime \<Rightarrow> ('c, 'r, 's) gw_client \<Rightarrow> ('r, 's) route" where
  "client_route_fnft_Query_Owner_0 G C =
     \<lparr>gr_method = ''GET'', gr_pattern = pattern_fnft_Query_Owner_0, gr_handler = serve_client G (request_fnft_Query_Owner_0 G C)\<rparr>"

definition client_route_fnft_Query_Supply_0 :: "'c gw_runtime \<Rightarrow> ('c, 'r, 's) gw_client \<Rightarrow> ('r, 's) route" where
  "client_route_fnft_Query_Supply_0 G C =
     \<lparr>gr_method = ''GET'', gr_pattern = pattern_fnft_Query_Supply_0, gr_handler = serve_client G (request_fnft_Query_Supply_0 G C)\<rparr>"

definition client_route_fnft_Query_Holder_0 :: "'c gw_runtime \<Rightarrow> ('c, 'r, 's) gw_client \<Rightarrow> ('r, 's) route" where
  "client_route_fnft_Query_Holder_0 G C =
     \<lparr>gr_method = ''GET'', gr_pattern = pattern_fnft_Query_Holder_0, gr_handler = serve_client G (request_fnft_Query_Holder_0 G C)\<rparr>"

definition client_route_fnft_Query_Holders_0 :: "'c gw_runtime \<Rightarrow> ('c, 'r, 's) gw_client \<Rightarrow> ('r, 's) route" where
  "client_route_fnft_Query_Holders_0 G C =
     \<lparr>gr_method = ''GET'', gr_pattern = pattern_fnft_Query_Holders_0, gr_handler = serve_client G (request_fnft_Query_Holders_0 G C)\<rparr>"

definition client_route_fnft_Query_NFTs_0 :: "'c gw_runtime \<Rightarrow> ('c, 'r, 's) gw_client \<Rightarrow> ('r, 's) route" where
  "client_route_fnft_Query_NFTs_0 G C =
     \<lparr>gr_method = ''GET'', gr_pattern = pattern_fnft_Query_NFTs_0, gr_handler = serve_client G (request_fnft_Query_NFTs_0 G C)\<rparr>"

definition client_route_fnft_Query_NFT_0 :: "'c gw_runtime \<Rightarrow> ('c, 'r, 's) gw_client \<Rightarrow> ('r, 's) route" where
  "client_route_fnft_Query_NFT_0 G C =
     \<lparr>gr_method = ''GET'', gr_pattern = pattern_fnft_Query_NFT_0, gr_handler = serve_client G (request_fnft_Query_NFT_0 G C)\<rparr>"

definition client_route_fnft_Query_Class_0 :: "'c gw_runtime \<Rightarrow> ('c, 'r, 's) gw_client \<Rightarrow> ('r, 's) route" where
  "client_route_fnft_Query_Class_0 G C =
     \<lparr>gr_method = ''GET'', gr_pattern = pattern_fnft_Query_Class_0, gr_handler = serve_client G (request_fnft_Query_Class_0 G C)\<rparr>"

definition client_route_fnft_Query_Classes_0 :: "'c gw_runtime \<Rightarrow> ('c, 'r, 's) gw_client \<Rightarrow> ('r, 's) route" where
  "client_route_fnft_Query_Classes_0 G C =
     \<lparr>gr_method = ''GET'', gr_pattern = pattern_fnft_Query_Classes_0, gr_handler = serve_client G (request_fnft_Query_Classes_0 G C)\<rparr>"

definition register_fnft_QueryHandlerClient ::
  "'c gw_runtime \<Rightarrow> ('c, 'r, 's) gw_client \<Rightarrow> ('r, 's) route list \<Rightarrow> gw_error + ('r, 's) route list" where
  "register_fnft_QueryHandlerClient G C mux = Inr (foldl handle_route mux
     [client_route_fnft_Query_Balance_0 G C,
      client_route_fnft_Query_Owner_0 G C,
      client_route_fnft_Query_Supply_0 G C,
      client_route_fnft_Query_Holder_0 G C,
      client_route_fnft_Query_Holders_0 G C,
      client_route_fnft_Query_NFTs_0 G C,
      client_route_fnft_Query_NFT_0 G C,
      client_route_fnft_Query_Class_0 G C,
      client_route_fnft_Query_Classes_0 G C])"

definition register_fnft_QueryHandler ::
  "'c gw_runtime \<Rightarrow> ('conn \<Rightarrow> ('c, 'r, 's) gw_client) \<Rightarrow> ('r, 's) route list \<Rightarrow> 'conn \<Rightarrow> gw_error + ('r, 's) route list" where
  "register_fnft_QueryHandler G new_client mux conn = register_fnft_QueryHandlerClient G (new_client conn) mux"

definition register_fnft_QueryHandlerFromEndpoint ::
  "'c gw_runtime \<Rightarrow> ('conn \<Rightarrow> ('c, 'r, 's) gw_client) \<Rightarrow> (string \<Rightarrow> gw_error + 'conn) \<Rightarrow> ('r, 's) route list \<Rightarrow> string \<Rightarrow>
     (gw_error + ('r, 's) route list) \<times> conn_fate option" where
  "register_fnft_QueryHandlerFromEndpoint G new_client dial mux endpoint =
     register_from_endpoint dial (register_fnft_QueryHandler G new_client) mux endpoint"

section \<open>Query (\<open>chain/modules/evm/types/query.pb.gw.go\<close>)\<close>

definition request_evm_Query_Balance_0 ::
  "'c gw_runtime \<Rightarrow> ('c, 'r, 's) gw_client \<Rightarrow> 'c \<Rightarrow> http_request \<Rightarrow> path_params \<Rightarrow> (gw_error + 'r) \<times> server_md" where
  "request_evm_Query_Balance_0 G C ctx req pp =
     remote_call C ctx ''Balance'' (fill_all
       [path_param pp (as_string G) ''address'' ''Address'']
       (zero_message (''evm'', ''BalanceRequest'')))"

definition local_request_evm_Query_Balance_0 ::
  "'c gw_runtime \<Rightarrow> ('c, 'r) gw_server \<Rightarrow> 'c \<Rightarrow> http_request \<Rightarrow> path_params \<Rightarrow> (gw_error + 'r) \<times> server_md \<times> server_md" where
  "local_request_evm_Query_Balance_0 G S ctx req pp =
     local_call S ctx ''Balance'' (fill_all
       [path_param pp (as_string G) ''address'' ''Address'']
       (zero_message (''evm'', ''BalanceRequest'')))"

definition request_evm_Query_ContractQuery_0 ::
  "'c gw_runtime \<Rightarrow> ('c, 'r, 's) gw_client \<Rightarrow> 'c \<Rightarrow> http_request \<Rightarrow> path_params \<Rightarrow> (gw_error + 'r) \<times> server_md" where
  "request_evm_Query_ContractQuery_0 G C ctx req pp =
     remote_call C ctx ''ContractQuery'' (fill_all
       [path_param pp (as_string G) ''address'' ''Address'',
        path_param pp (as_bytes G) ''calldata'' ''Calldata'']
       (zero_message (''evm'', ''ContractQueryRequest'')))"

definition local_request_evm_Query_ContractQuery_0 ::
  "'c gw_runtime \<Rightarrow> ('c, 'r) gw_server \<Rightarrow> 'c \<Rightarrow> http_request \<Rightarrow> path_params \<Rightarrow> (gw_error + 'r) \<times> server_md \<times> server_md" where
  "local_request_evm_Query_ContractQuery_0 G S ctx req pp =
     local_call S ctx ''ContractQuery'' (fill_all
       [path_param pp (as_string G) ''address'' ''Address'',
        path_param pp (as_bytes G) ''calldata'' ''Calldata'']
       (zero_message (''evm'', ''ContractQueryRequest'')))"

definition pattern_evm_Query_Balance_0 :: url_pattern where
  "pattern_evm_Query_Balance_0 = \<lparr>up_version = 1, up_ops = [2, 0, 2, 1, 2, 2, 2, 3, 1, 0, 4, 1, 5, 4],
     up_pool = [''flux'', ''evm'', ''v1beta1'', ''balance'', ''address''], up_verb = []\<rparr>"

definition pattern_evm_Query_ContractQuery_0 :: url_pattern where
  "pattern_evm_Query_ContractQuery_0 = \<lparr>up_version = 1, up_ops = [2, 0, 2, 1, 2, 2, 2, 3, 1, 0, 4, 1, 5, 4, 1, 0, 4, 1, 5, 5],
     up_pool = [''flux'', ''evm'', ''v1beta1'', ''query'', ''address'', ''calldata''], up_verb = []\<rparr>"

definition server_route_evm_Query_Balance_0 :: "'c gw_runtime \<Rightarrow> ('c, 'r) gw_server \<Rightarrow> ('r, 's) route" where
  "server_route_evm_Query_Balance_0 G S =
     \<lparr>gr_method = ''GET'', gr_pattern = pattern_evm_Query_Balance_0, gr_handler = serve_local G (local_request_evm_Query_Balance_0 G S)\<rparr>"

definition server_route_evm_Query_ContractQuery_0 :: "'c gw_runtime \<Rightarrow> ('c, 'r) gw_server \<Rightarrow> ('r, 's) route" where
  "server_route_evm_Query_ContractQuery_0 G S =
     \<lparr>gr_method = ''GET'', gr_pattern = pattern_evm_Query_ContractQuery_0, gr_handler = serve_local G (local_request_evm_Query_ContractQuery_0 G S)\<rparr>"

definition register_evm_QueryHandlerServer ::
  "'c gw_runtime \<Rightarrow> ('c, 'r) gw_server \<Rightarrow> ('r, 's) route list \<Rightarrow> gw_error + ('r, 's) route list" where
  "register_evm_QueryHandlerServer G S mux = Inr (foldl handle_route mux
     [server_route_evm_Query_Balance_0 G S,
      server_route_evm_Query_ContractQuery_0 G S])"

definition client_route_evm_Query_Balance_0 :: "'c gw_runtime \<Rightarrow> ('c, 'r, 's) gw_client \<Rightarrow> ('r, 's) route" where
  "client_route_evm_Query_Balance_0 G C =
     \<lparr>gr_method = ''GET'', gr_pattern = pattern_evm_Query_Balance_0, gr_handler = serve_client G (request_evm_Query_Balance_0 G C)\<rparr>"

definition client_route_evm_Query_ContractQuery_0 :: "'c gw_runtime \<Rightarrow> ('c, 'r, 's) gw_client \<Rightarrow> ('r, 's) route" where
  "client_route_evm_Query_ContractQuery_0 G C =
     \<lparr>gr_method = ''GET'', gr_pattern = pattern_evm_Query_ContractQuery_0, gr_handler = serve_client G (request_evm_Query_ContractQuery_0 G C)\<rparr>"

definition register_evm_QueryHandlerClient ::
  "'c gw_runtime \<Rightarrow> ('c, 'r, 's) gw_client \<Rightarrow> ('r, 's) route list \<Rightarrow> gw_error + ('r, 's) route list" where
  "register_evm_QueryHandlerClient G C mux = Inr (foldl handle_route mux
     [client_route_evm_Query_Balance_0 G C,
      client_route_evm_Query_ContractQuery_0 G C])"

definition register_evm_QueryHandler ::
  "'c gw_runtime \<Rightarrow> ('conn \<Rightarrow> ('c, 'r, 's) gw_client) \<Rightarrow> ('r, 's) route list \<Rightarrow> 'conn \<Rightarrow> gw_error + ('r, 's) route list" where
  "register_evm_QueryHandler G new_client mux conn = register_evm_QueryHandlerClient G (new_client conn) mux"

definition register_evm_QueryHandlerFromEndpoint ::
  "'c gw_runtime \<Rightarrow> ('conn \<Rightarrow> ('c, 'r, 's) gw_client) \<Rightarrow> (string \<Rightarrow> gw_error + 'conn) \<Rightarrow> ('r, 's) route list \<Rightarrow> string \<Rightarrow>
     (gw_error + ('r, 's) route list) \<times> conn_fate option" where
  "register_evm_QueryHandlerFromEndpoint G new_client dial mux endpoint =
     register_from_endpoint dial (register_evm_QueryHandler G new_client) mux endpoint"

section \<open>Query (\<open>chain/modules/oracle/types/query.pb.gw.go\<close>)\<close>

definition request_oracle_Query_SimpleEntry_0 ::
  "'c gw_runtime \<Rightarrow> ('c, 'r, 's) gw_client \<Rightarrow> 'c \<Rightarrow> http_request \<Rightarrow> path_params \<Rightarrow> (gw_error + 'r) \<times> server_md" where
  "request_oracle_Query_SimpleEntry_0 G C ctx req pp =
     remote_call C ctx ''SimpleEntry'' (fill_all
       [path_param pp (as_string G) ''symbols'' ''Symbols'']
       (zero_message (''oracle'', ''QuerySimpleEntry'')))"

definition local_request_oracle_Query_SimpleEntry_0 ::
  "'c gw_runtime \<Rightarrow> ('c, 'r) gw_server \<Rightarrow> 'c \<Rightarrow> http_request \<Rightarrow> path_params \<Rightarrow> (gw_error + 'r) \<times> server_md \<times> server_md" where
  "local_request_oracle_Query_SimpleEntry_0 G S ctx req pp =
     local_call S ctx ''SimpleEntry'' (fill_all
       [path_param pp (as_string G) ''symbols'' ''Symbols'']
       (zero_message (''oracle'', ''QuerySimpleEntry'')))"

definition pattern_oracle_Query_SimpleEntry_0 :: url_pattern where
  "pattern_oracle_Query_SimpleEntry_0 = \<lparr>up_version = 1, up_ops = [2, 0, 2, 1, 2, 2, 2, 3, 1, 0, 4, 1, 5, 4],
     up_pool = [''flux'', ''oracle'', ''v1beta1'', ''denom_metadata'', ''symbols''], up_verb = []\<rparr>"

definition server_route_oracle_Query_SimpleEntry_0 :: "'c gw_runtime \<Rightarrow> ('c, 'r) gw_server \<Rightarrow> ('r, 's) route" where
  "server_route_oracle_Query_SimpleEntry_0 G S =
     \<lparr>gr_method = ''GET'', gr_pattern = pattern_oracle_Query_SimpleEntry_0, gr_handler = serve_local G (local_request_oracle_Query_SimpleEntry_0 G S)\<rparr>"

definition register_oracle_QueryHandlerServer ::
  "'c gw_runtime \<Rightarrow> ('c, 'r) gw_server \<Rightarrow> ('r, 's) route list \<Rightarrow> gw_error + ('r, 's) route list" where
  "register_oracle_QueryHandlerServer G S mux = Inr (foldl handle_route mux
     [server_route_oracle_Query_SimpleEntry_0 G S])"

definition client_route_oracle_Query_SimpleEntry_0 :: "'c gw_runtime \<Rightarrow> ('c, 'r, 's) gw_client \<Rightarrow> ('r, 's) route" where
  "client_route_oracle_Query_SimpleEntry_0 G C =
     \<lparr>gr_method = ''GET'', gr_pattern = pattern_oracle_Query_SimpleEntry_0, gr_handler = serve_client G (request_oracle_Query_SimpleEntry_0 G C)\<rparr>"

definition register_oracle_QueryHandlerClient ::
  "'c gw_runtime \<Rightarrow> ('c, 'r, 's) gw_client \<Rightarrow> ('r, 's) route list \<Rightarrow> gw_error + ('r, 's) route list" where
  "register_oracle_QueryHandlerClient G C mux = Inr (foldl handle_route mux
     [client_route_oracle_Query_SimpleEntry_0 G C])"

definition register_oracle_QueryHandler ::
  "'c gw_runtime \<Rightarrow> ('conn \<Rightarrow> ('c, 'r, 's) gw_client) \<Rightarrow> ('r, 's) route list \<Rightarrow> 'conn \<Rightarrow> gw_error + ('r, 's) route list" where
  "register_oracle_QueryHandler G new_client mux conn = register_oracle_QueryHandlerClient G (new_client conn) mux"

definition register_oracle_QueryHandlerFromEndpoint ::
  "'c gw_runtime \<Rightarrow> ('conn \<Rightarrow> ('c, 'r, 's) gw_client) \<Rightarrow> (string \<Rightarrow> gw_error + 'conn) \<Rightarrow> ('r, 's) route list \<Rightarrow> string \<Rightarrow>
     (gw_error + ('r, 's) route list) \<times> conn_fate option" where
  "register_oracle_QueryHandlerFromEndpoint G new_client dial mux endpoint =
     register_from_endpoint dial (register_oracle_QueryHandler G new_client) mux endpoint"

section \<open>Query (\<open>chain/modules/bazaar/types/query.pb.gw.go\<close>)\<close>

definition request_bazaar_Query_NFTProducts_0 ::
  "'c gw_runtime \<Rightarrow> ('c, 'r, 's) gw_client \<Rightarrow> 'c \<Rightarrow> http_request \<Rightarrow> path_params \<Rightarrow> (gw_error + 'r) \<times> server_md" where
  "request_bazaar_Query_NFTProducts_0 G C ctx req pp =
     remote_call C ctx ''NFTProducts'' (fill_all
       [path_param pp (as_string G) ''class_id'' ''ClassId'',
        path_param pp (as_string G) ''id'' ''Id'']
       (zero_message (''bazaar'', ''QueryNFTProductsRequest'')))"

definition local_request_bazaar_Query_NFTProducts_0 ::
  "'c gw_runtime \<Rightarrow> ('c, 'r) gw_server \<Rightarrow> 'c \<Rightarrow> http_request \<Rightarrow> path_params \<Rightarrow> (gw_error + 'r) \<times> server_md \<times> server_md" where
  "local_request_bazaar_Query_NFTProducts_0 G S ctx req pp =
     local_call S ctx ''NFTProducts'' (fill_all
       [path_param pp (as_string G) ''class_id'' ''ClassId'',
        path_param pp (as_string G) ''id'' ''Id'']
       (zero_message (''bazaar'', ''QueryNFTProductsRequest'')))"

definition request_bazaar_Query_NFTProduct_0 ::
  "'c gw_runtime \<Rightarrow> ('c, 'r, 's) gw_client \<Rightarrow> 'c \<Rightarrow> http_request \<Rightarrow> path_params \<Rightarrow> (gw_error + 'r) \<times> server_md" where
  "request_bazaar_Query_NFTProduct_0 G C ctx req pp =
     remote_call C ctx ''NFTProduct'' (fill_all
       [path_param pp (as_string G) ''class_id'' ''ClassId'',
        path_param pp (as_string G) ''id'' ''Id'',
        path_param pp (as_string G) ''product_id'' ''ProductId'']
       (zero_message (''bazaar'', ''QueryNFTProductRequest'')))"

definition local_request_bazaar_Query_NFTProduct_0 ::
  "'c gw_runtime \<Rightarrow> ('c, 'r) gw_server \<Rightarrow> 'c \<Rightarrow> http_request \<Rightarrow> path_params \<Rightarrow> (gw_error + 'r) \<times> server_md \<times> server_md" where
  "local_request_bazaar_Query_NFTProduct_0 G S ctx req pp =
     local_call S ctx ''NFTProduct'' (fill_all
       [path_param pp (as_string G) ''class_id'' ''ClassId'',
        path_param pp (as_string G) ''id'' ''Id'',
        path_param pp (as_string G) ''product_id'' ''ProductId'']
       (zero_message (''bazaar'', ''QueryNFTProductRequest'')))"

definition request_bazaar_Query_Verifiers_0 ::
  "'c gw_runtime \<Rightarrow> ('c, 'r, 's) gw_client \<Rightarrow> 'c \<Rightarrow> http_request \<Rightarrow> path_params \<Rightarrow> (gw_error + 'r) \<times> server_md" where
  "request_bazaar_Query_Verifiers_0 G C ctx req pp =
     remote_call C ctx ''Verifiers'' (fill_all
       []
       (zero_message (''bazaar'', ''QueryVerifiersRequest'')))"

definition local_request_bazaar_Query_Verifiers_0 ::
  "'c gw_runtime \<Rightarrow> ('c, 'r) gw_server \<Rightarrow> 'c \<Rightarrow> http_request \<Rightarrow> path_params \<Rightarrow> (gw_error + 'r) \<times> server_md \<times> server_md" where
  "local_request_bazaar_Query_Verifiers_0 G S ctx req pp =
     local_call S ctx ''Verifiers'' (fill_all
       []
       (zero_message (''bazaar'', ''QueryVerifiersRequest'')))"

definition pattern_bazaar_Query_NFTProducts_0 :: url_pattern where
  "pattern_bazaar_Query_NFTProducts_0 = \<lparr>up_version = 1, up_ops = [2, 0, 2, 1, 2, 2, 2, 3, 1, 0, 4, 1, 5, 4, 1, 0, 4, 1, 5, 5],
     up_pool = [''flux'', ''bazaar'', ''v1beta1'', ''products'', ''class_id'', ''id''], up_verb = []\<rparr>"

definition pattern_bazaar_Query_NFTProduct_0 :: url_pattern where
  "pattern_bazaar_Query_NFTProduct_0 = \<lparr>up_version = 1, up_ops = [2, 0, 2, 1, 2, 2, 2, 3, 1, 0, 4, 1, 5, 4, 1, 0, 4, 1, 5, 5, 1, 0, 4, 1, 5, 6],
     up_pool = [''flux'', ''bazaar'', ''v1beta1'', ''product'', ''class_id'', ''id'', ''product_id''], up_verb = []\<rparr>"

definition pattern_bazaar_Query_Verifiers_0 :: url_pattern where
  "pattern_bazaar_Query_Verifiers_0 = \<lparr>up_version = 1, up_ops = [2, 0, 2, 1, 2, 2, 2, 3],
     up_pool = [''flux'', ''bazaar'', ''v1beta1'', ''verifiers''], up_verb = []\<rparr>"

definition server_route_bazaar_Query_NFTProducts_0 :: "'c gw_runtime \<Rightarrow> ('c, 'r) gw_server \<Rightarrow> ('r, 's) route" where
  "server_route_bazaar_Query_NFTProducts_0 G S =
     \<lparr>gr_method = ''GET'', gr_pattern = pattern_bazaar_Query_NFTProducts_0, gr_handler = serve_local G (local_request_bazaar_Query_NFTProducts_0 G S)\<rparr>"

definition server_route_bazaar_Query_NFTProduct_0 :: "'c gw_runtime \<Rightarrow> ('c, 'r) gw_server \<Rightarrow> ('r, 's) route" where
  "server_route_bazaar_Query_NFTProduct_0 G S =
     \<lparr>gr_method = ''GET'', gr_pattern = pattern_bazaar_Query_NFTProduct_0, gr_handler = serve_local G (local_request_bazaar_Query_NFTProduct_0 G S)\<rparr>"

definition server_route_bazaar_Query_Verifiers_0 :: "'c gw_runtime \<Rightarrow> ('c, 'r) gw_server \<Rightarrow> ('r, 's) route" where
  "server_route_bazaar_Query_Verifiers_0 G S =
     \<lparr>gr_method = ''GET'', gr_pattern = pattern_bazaar_Query_Verifiers_0, gr_handler = serve_local G (local_request_bazaar_Query_Verifiers_0 G S)\<rparr>"

definition register_bazaar_QueryHandlerServer ::
  "'c gw_runtime \<Rightarrow> ('c, 'r) gw_server \<Rightarrow> ('r, 's) route list \<Rightarrow> gw_error + ('r, 's) route list" where
  "register_bazaar_QueryHandlerServer G S mux = Inr (foldl handle_route mux
     [server_route_bazaar_Query_NFTProducts_0 G S,
      server_route_bazaar_Query_NFTProduct_0 G S,
      server_route_bazaar_Query_Verifiers_0 G S])"

definition client_route_bazaar_Query_NFTProducts_0 :: "'c gw_runtime \<Rightarrow> ('c, 'r, 's) gw_client \<Rightarrow> ('r, 's) route" where
  "client_route_bazaar_Query_NFTProducts_0 G C =
     \<lparr>gr_method = ''GET'', gr_pattern = pattern_bazaar_Query_NFTProducts_0, gr_handler = serve_client G (request_bazaar_Query_NFTProducts_0 G C)\<rparr>"

definition client_route_bazaar_Query_NFTProduct_0 :: "'c gw_runtime \<Rightarrow> ('c, 'r, 's) gw_client \<Rightarrow> ('r, 's) route" where
  "client_route_bazaar_Query_NFTProduct_0 G C =
     \<lparr>gr_method = ''GET'', gr_pattern = pattern_bazaar_Query_NFTProduct_0, gr_handler = serve_client G (request_bazaar_Query_NFTProduct_0 G C)\<rparr>"

definition client_route_bazaar_Query_Verifiers_0 :: "'c gw_runtime \<Rightarrow> ('c, 'r, 's) gw_client \<Rightarrow> ('r, 's) route" where
  "client_route_bazaar_Query_Verifiers_0 G C =
     \<lparr>gr_method = ''GET'', gr_pattern = pattern_bazaar_Query_Verifiers_0, gr_handler = serve_client G (request_bazaar_Query_Verifiers_0 G C)\<rparr>"

definition register_bazaar_QueryHandlerClient ::
  "'c gw_runtime \<Rightarrow> ('c, 'r, 's) gw_client \<Rightarrow> ('r, 's) route list \<Rightarrow> gw_error + ('r, 's) route list" where
  "register_bazaar_QueryHandlerClient G C mux = Inr (foldl handle_route mux
     [client_route_bazaar_Query_NFTProducts_0 G C,
      client_route_bazaar_Query_NFTProduct_0 G C,
      client_route_bazaar_Query_Verifiers_0 G C])"

definition register_bazaar_QueryHandler ::
  "'c gw_runtime \<Rightarrow> ('conn \<Rightarrow> ('c, 'r, 's) gw_client) \<Rightarrow> ('r, 's) route list \<Rightarrow> 'conn \<Rightarrow> gw_error + ('r, 's) route list" where
  "register_bazaar_QueryHandler G new_client mux conn = register_bazaar_QueryHandlerClient G (new_client conn) mux"

definition register_bazaar_QueryHandlerFromEndpoint ::
  "'c gw_runtime \<Rightarrow> ('conn \<Rightarrow> ('c, 'r, 's) gw_client) \<Rightarrow> (string \<Rightarrow> gw_error + 'conn) \<Rightarrow> ('r, 's) route list \<Rightarrow> string \<Rightarrow>
     (gw_error + ('r, 's) route list) \<times> conn_fate option" where
  "register_bazaar_QueryHandlerFromEndpoint G new_client dial mux endpoint =
     register_from_endpoint dial (register_bazaar_QueryHandler G new_client) mux endpoint"

section \<open>Query (\<open>chain/modules/svm/types/query.pb.gw.go\<close>)\<close>

definition request_svm_Query_Account_0 ::
  "'c gw_runtime \<Rightarrow> ('c, 'r, 's) gw_client \<Rightarrow> 'c \<Rightarrow> http_request \<Rightarrow> path_params \<Rightarrow> (gw_error + 'r) \<times> server_md" where
  "request_svm_Query_Account_0 G C ctx req pp =
     remote_call C ctx ''Account'' (fill_all
       [path_param pp (as_string G) ''address'' ''Address'']
       (zero_message (''svm'', ''AccountRequest'')))"

definition local_request_svm_Query_Account_0 ::
  "'c gw_runtime \<Rightarrow> ('c, 'r) gw_server \<Rightarrow> 'c \<Rightarrow> http_request \<Rightarrow> path_params \<Rightarrow> (gw_error + 'r) \<times> server_md \<times> server_md" where
  "local_request_svm_Query_Account_0 G S ctx req pp =
     local_call S ctx ''Account'' (fill_all
       [path_param pp (as_string G) ''address'' ''Address'']
       (zero_message (''svm'', ''AccountRequest'')))"

definition request_svm_Query_AccountsByOwner_0 ::
  "'c gw_runtime \<Rightarrow> ('c, 'r, 's) gw_client \<Rightarrow> 'c \<Rightarrow> http_request \<Rightarrow> path_params \<Rightarrow> (gw_error + 'r) \<times> server_md" where
  "request_svm_Query_AccountsByOwner_0 G C ctx req pp =
     remote_call C ctx ''AccountsByOwner'' (fill_all
       [path_param pp (as_string G) ''address'' ''Address'']
       (zero_message (''svm'', ''AccountsByOwnerRequest'')))"

definition local_request_svm_Query_AccountsByOwner_0 ::
  "'c gw_runtime \<Rightarrow> ('c, 'r) gw_server \<Rightarrow> 'c \<Rightarrow> http_request \<Rightarrow> path_params \<Rightarrow> (gw_error + 'r) \<times> server_md \<times> server_md" where
  "local_request_svm_Query_AccountsByOwner_0 G S ctx req pp =
     local_call S ctx ''AccountsByOwner'' (fill_all
       [path_param pp (as_string G) ''address'' ''Address'']
       (zero_message (''svm'', ''AccountsByOwnerRequest'')))"

definition request_svm_Query_AccountLink_0 ::
  "'c gw_runtime \<Rightarrow> ('c, 'r, 's) gw_client \<Rightarrow> 'c \<Rightarrow> http_request \<Rightarrow> path_params \<Rightarrow> (gw_error + 'r) \<times> server_md" where
  "request_svm_Query_AccountLink_0 G C ctx req pp =
     remote_call C ctx ''AccountLink'' (fill_all
       [path_param pp (as_string G) ''address'' ''Address'']
       (zero_message (''svm'', ''AccountLinkRequest'')))"

definition local_request_svm_Query_AccountLink_0 ::
  "'c gw_runtime \<Rightarrow> ('c, 'r) gw_server \<Rightarrow> 'c \<Rightarrow> http_request \<Rightarrow> path_params \<Rightarrow> (gw_error + 'r) \<times> server_md \<times> server_md" where
  "local_request_svm_Query_AccountLink_0 G S ctx req pp =
     local_call S ctx ''AccountLink'' (fill_all
       [path_param pp (as_string G) ''address'' ''Address'']
       (zero_message (''svm'', ''AccountLinkRequest'')))"

definition request_svm_Query_AccountLinkBySvmAddr_0 ::
  "'c gw_runtime \<Rightarrow> ('c, 'r, 's) gw_client \<Rightarrow> 'c \<Rightarrow> http_request \<Rightarrow> path_params \<Rightarrow> (gw_error + 'r) \<times> server_md" where
  "request_svm_Query_AccountLinkBySvmAddr_0 G C ctx req pp =
     remote_call C ctx ''AccountLinkBySvmAddr'' (fill_all
       [path_param pp (as_string G) ''address'' ''Address'']
       (zero_message (''svm'', ''AccountLinkRequest'')))"

definition local_request_svm_Query_AccountLinkBySvmAddr_0 ::
  "'c gw_runtime \<Rightarrow> ('c, 'r) gw_server \<Rightarrow> 'c \<Rightarrow> http_request \<Rightarrow> path_params \<Rightarrow> (gw_error + 'r) \<times> server_md \<times> server_md" where
  "local_request_svm_Query_AccountLinkBySvmAddr_0 G S ctx req pp =
     local_call S ctx ''AccountLinkBySvmAddr'' (fill_all
       [path_param pp (as_string G) ''address'' ''Address'']
       (zero_message (''svm'', ''AccountLinkRequest'')))"

definition pattern_svm_Query_Account_0 :: url_pattern where
  "pattern_svm_Query_Account_0 = \<lparr>up_version = 1, up_ops = [2, 0, 2, 1, 2, 2, 2, 3, 1, 0, 4, 1, 5, 4],
     up_pool = [''flux'', ''svm'', ''v1beta1'', ''account'', ''address''], up_verb = []\<rparr>"

definition pattern_svm_Query_AccountsByOwner_0 :: url_pattern where
  "pattern_svm_Query_AccountsByOwner_0 = \<lparr>up_version = 1, up_ops = [2, 0, 2, 1, 2, 2, 2, 3, 1, 0, 4, 1, 5, 4],
     up_pool = [''flux'', ''svm'', ''v1beta1'', ''accounts_by_owner'', ''address''], up_verb = []\<rparr>"

definition pattern_svm_Query_AccountLink_0 :: url_pattern where
  "pattern_svm_Query_AccountLink_0 = \<lparr>up_version = 1, up_ops = [2, 0, 2, 1, 2, 2, 2, 3, 2, 4, 1, 0, 4, 1, 5, 5],
     up_pool = [''flux'', ''svm'', ''v1beta1'', ''account_link'', ''cosmos'', ''address''], up_verb = []\<rparr>"

definition pattern_svm_Query_AccountLinkBySvmAddr_0 :: url_pattern where
  "pattern_svm_Query_AccountLinkBySvmAddr_0 = \<lparr>up_version = 1, up_ops = [2, 0, 2, 1, 2, 2, 2, 3, 2, 1, 1, 0, 4, 1, 5, 4],
     up_pool = [''flux'', ''svm'', ''v1beta1'', ''account_link'', ''address''], up_verb = []\<rparr>"

definition server_route_svm_Query_Account_0 :: "'c gw_runtime \<Rightarrow> ('c, 'r) gw_server \<Rightarrow> ('r, 's) route" where
  "server_route_svm_Query_Account_0 G S =
     \<lparr>gr_method = ''GET'', gr_pattern = pattern_svm_Query_Account_0, gr_handler = serve_local G (local_request_svm_Query_Account_0 G S)\<rparr>"

definition server_route_svm_Query_AccountsByOwner_0 :: "'c gw_runtime \<Rightarrow> ('c, 'r) gw_server \<Rightarrow> ('r, 's) route" where
  "server_route_svm_Query_AccountsByOwner_0 G S =
     \<lparr>gr_method = ''GET'', gr_pattern = pattern_svm_Query_AccountsByOwner_0, gr_handler = serve_local G (local_request_svm_Query_AccountsByOwner_0 G S)\<rparr>"

definition server_route_svm_Query_AccountLink_0 :: "'c gw_runtime \<Rightarrow> ('c, 'r) gw_server \<Rightarrow> ('r, 's) route" where
  "server_route_svm_Query_AccountLink_0 G S =
     \<lparr>gr_method = ''GET'', gr_pattern = pattern_svm_Query_AccountLink_0, gr_handler = serve_local G (local_request_svm_Query_AccountLink_0 G S)\<rparr>"

definition server_route_svm_Query_AccountLinkBySvmAddr_0 :: "'c gw_runtime \<Rightarrow> ('c, 'r) gw_server \<Rightarrow> ('r, 's) route" where
  "server_route_svm_Query_AccountLinkBySvmAddr_0 G S =
     \<lparr>gr_method = ''GET'', gr_pattern = pattern_svm_Query_AccountLinkBySvmAddr_0, gr_handler = serve_local G (local_request_svm_Query_AccountLinkBySvmAddr_0 G S)\<rparr>"

definition register_svm_QueryHandlerServer ::
  "'c gw_runtime \<Rightarrow> ('c, 'r) gw_server \<Rightarrow> ('r, 's) route list \<Rightarrow> gw_error + ('r, 's) route list" where
  "register_svm_QueryHandlerServer G S mux = Inr (foldl handle_route mux
     [server_route_svm_Query_Account_0 G S,
      server_route_svm_Query_AccountsByOwner_0 G S,
      server_route_svm_Query_AccountLink_0 G S,
      server_route_svm_Query_AccountLinkBySvmAddr_0 G S])"

definition client_route_svm_Query_Account_0 :: "'c gw_runtime \<Rightarrow> ('c, 'r, 's) gw_client \<Rightarrow> ('r, 's) route" where
  "client_route_svm_Query_Account_0 G C =
     \<lparr>gr_method = ''GET'', gr_pattern = pattern_svm_Query_Account_0, gr_handler = serve_client G (request_svm_Query_Account_0 G C)\<rparr>"

definition client_route_svm_Query_AccountsByOwner_0 :: "'c gw_runtime \<Rightarrow> ('c, 'r, 's) gw_client \<Rightarrow> ('r, 's) route" where
  "client_route_svm_Query_AccountsByOwner_0 G C =
     \<lparr>gr_method = ''GET'', gr_pattern = pattern_svm_Query_AccountsByOwner_0, gr_handler = serve_client G (request_svm_Query_AccountsByOwner_0 G C)\<rparr>"

definition client_route_svm_Query_AccountLink_0 :: "'c gw_runtime \<Rightarrow> ('c, 'r, 's) gw_client \<Rightarrow> ('r, 's) route" where
  "client_route_svm_Query_AccountLink_0 G C =
     \<lparr>gr_method = ''GET'', gr_pattern = pattern_svm_Query_AccountLink_0, gr_handler = serve_client G (request_svm_Query_AccountLink_0 G C)\<rparr>"

definition client_route_svm_Query_AccountLinkBySvmAddr_0 :: "'c gw_runtime \<Rightarrow> ('c, 'r, 's) gw_client \<Rightarrow> ('r, 's) route" where
  "client_route_svm_Query_AccountLinkBySvmAddr_0 G C =
     \<lparr>gr_method = ''GET'', gr_pattern = pattern_svm_Query_AccountLinkBySvmAddr_0, gr_handler = serve_client G (request_svm_Query_AccountLinkBySvmAddr_0 G C)\<rparr>"

definition register_svm_QueryHandlerClient ::
  "'c gw_runtime \<Rightarrow> ('c, 'r, 's) gw_client \<Rightarrow> ('r, 's) route list \<Rightarrow> gw_error + ('r, 's) route list" where
  "register_svm_QueryHandlerClient G C mux = Inr (foldl handle_route mux
     [client_route_svm_Query_Account_0 G C,
      client_route_svm_Query_AccountsByOwner_0 G C,
      client_route_svm_Query_AccountLink_0 G C,
      client_route_svm_Query_AccountLinkBySvmAddr_0 G C])"

definition register_svm_QueryHandler ::
  "'c gw_runtime \<Rightarrow> ('conn \<Rightarrow> ('c, 'r, 's) gw_client) \<Rightarrow> ('r, 's) route list \<Rightarrow> 'conn \<Rightarrow> gw_error + ('r, 's) route list" where
  "register_svm_QueryHandler G new_client mux conn = register_svm_QueryHandlerClient G (new_client conn) mux"

definition register_svm_QueryHandlerFromEndpoint ::
  "'c gw_runtime \<Rightarrow> ('conn \<Rightarrow> ('c, 'r, 's) gw_client) \<Rightarrow> (string \<Rightarrow> gw_error + 'conn) \<Rightarrow> ('r, 's) route list \<Rightarrow> string \<Rightarrow>
     (gw_error + ('r, 's) route list) \<times> conn_fate option" where
  "register_svm_QueryHandlerFromEndpoint G new_client dial mux endpoint =
     register_from_endpoint dial (register_svm_QueryHandler G new_client) mux endpoint"

section \<open>Query (\<open>chain/modules/strategy/types/query.pb.gw.go\<close>)\<close>

definition request_strategy_Query_GetStrategyById_0 ::
  "'c gw_runtime \<Rightarrow> ('c, 'r, 's) gw_client \<Rightarrow> 'c \<Rightarrow> http_request \<Rightarrow> path_params \<Rightarrow> (gw_error + 'r) \<times> server_md" where
  "request_strategy_Query_GetStrategyById_0 G C ctx req pp =
     remote_call C ctx ''GetStrategyById'' (fill_all
       [path_param pp (as_string G) ''id'' ''Id'']
       (zero_message (''strategy'', ''GetStrategyByIdRequest'')))"

definition local_request_strategy_Query_GetStrategyById_0 ::
  "'c gw_runtime \<Rightarrow> ('c, 'r) gw_server \<Rightarrow> 'c \<Rightarrow> http_request \<Rightarrow> path_params \<Rightarrow> (gw_error + 'r) \<times> server_md \<times> server_md" where
  "local_request_strategy_Query_GetStrategyById_0 G S ctx req pp =
     local_call S ctx ''GetStrategyById'' (fill_all
       [path_param pp (as_string G) ''id'' ''Id'']
       (zero_message (''strategy'', ''GetStrategyByIdRequest'')))"

definition request_strategy_Query_ListStrategies_0 ::
  "'c gw_runtime \<Rightarrow> ('c, 'r, 's) gw_client \<Rightarrow> 'c \<Rightarrow> http_request \<Rightarrow> path_params \<Rightarrow> (gw_error + 'r) \<times> server_md" where
  "request_strategy_Query_ListStrategies_0 G C ctx req pp =
     remote_call C ctx ''ListStrategies'' (fill_all
       []
       (zero_message (''strategy'', ''ListStrategiesRequest'')))"

definition local_request_strategy_Query_ListStrategies_0 ::
  "'c gw_runtime \<Rightarrow> ('c, 'r) gw_server \<Rightarrow> 'c \<Rightarrow> http_request \<Rightarrow> path_params \<Rightarrow> (gw_error + 'r) \<times> server_md \<times> server_md" where
  "local_request_strategy_Query_ListStrategies_0 G S ctx req pp =
     local_call S ctx ''ListStrategies'' (fill_all
       []
       (zero_message (''strategy'', ''ListStrategiesRequest'')))"

definition request_strategy_Query_ListStrategiesByOwner_0 ::
  "'c gw_runtime \<Rightarrow> ('c, 'r, 's) gw_client \<Rightarrow> 'c \<Rightarrow> http_request \<Rightarrow> path_params \<Rightarrow> (gw_error + 'r) \<times> server_md" where
  "request_strategy_Query_ListStrategiesByOwner_0 G C ctx req pp =
     remote_call C ctx ''ListStrategiesByOwner'' (fill_all
       [path_param pp (as_string G) ''owner'' ''Owner'']
       (zero_message (''strategy'', ''ListStrategiesByOwnerRequest'')))"

definition local_request_strategy_Query_ListStrategiesByOwner_0 ::
  "'c gw_runtime \<Rightarrow> ('c, 'r) gw_server \<Rightarrow> 'c \<Rightarrow> http_request \<Rightarrow> path_params \<Rightarrow> (gw_error + 'r) \<times> server_md \<times> server_md" where
  "local_request_strategy_Query_ListStrategiesByOwner_0 G S ctx req pp =
     local_call S ctx ''ListStrategiesByOwner'' (fill_all
       [path_param pp (as_string G) ''owner'' ''Owner'']
       (zero_message (''strategy'', ''ListStrategiesByOwnerRequest'')))"

definition request_strategy_Query_ListStrategiesByType_0 ::
  "'c gw_runtime \<Rightarrow> ('c, 'r, 's) gw_client \<Rightarrow> 'c \<Rightarrow> http_request \<Rightarrow> path_params \<Rightarrow> (gw_error + 'r) \<times> server_md" where
  "request_strategy_Query_ListStrategiesByType_0 G C ctx req pp =
     remote_call C ctx ''ListStrategiesByType'' (fill_all
       [path_param pp (as_enum G StrategyType_value) ''type'' ''Type'']
       (zero_message (''strategy'', ''ListStrategiesByTypeRequest'')))"

definition local_request_strategy_Query_ListStrategiesByType_0 ::
  "'c gw_runtime \<Rightarrow> ('c, 'r) gw_server \<Rightarrow> 'c \<Rightarrow> http_request \<Rightarrow> path_params \<Rightarrow> (gw_error + 'r) \<times> server_md \<times> server_md" where
  "local_request_strategy_Query_ListStrategiesByType_0 G S ctx req pp =
     local_call S ctx ''ListStrategiesByType'' (fill_all
       [path_param pp (as_enum G StrategyType_value) ''type'' ''Type'']
       (zero_message (''strategy'', ''ListStrategiesByTypeRequest'')))"

definition request_strategy_Query_GetStrategyVerifier_0 ::
  "'c gw_runtime \<Rightarrow> ('c, 'r, 's) gw_client \<Rightarrow> 'c \<Rightarrow> http_request \<Rightarrow> path_params \<Rightarrow> (gw_error + 'r) \<times> server_md" where
  "request_strategy_Query_GetStrategyVerifier_0 G C ctx req pp =
     remote_call C ctx ''GetStrategyVerifier'' (fill_all
       [path_param pp (as_enum G Plane_value) ''plane'' ''Plane'',
        path_param pp (as_string G) ''contract_address'' ''ContractAddress'']
       (zero_message (''strategy'', ''GetStrategyVerifierRequest'')))"

definition local_request_strategy_Query_GetStrategyVerifier_0 ::
  "'c gw_runtime \<Rightarrow> ('c, 'r) gw_server \<Rightarrow> 'c \<Rightarrow> http_request \<Rightarrow> path_params \<Rightarrow> (gw_error + 'r) \<times> server_md \<times> server_md" where
  "local_request_strategy_Query_GetStrategyVerifier_0 G S ctx req pp =
     local_call S ctx ''GetStrategyVerifier'' (fill_all
       [path_param pp (as_enum G Plane_value) ''plane'' ''Plane'',
        path_param pp (as_string G) ''contract_address'' ''ContractAddress'']
       (zero_message (''strategy'', ''GetStrategyVerifierRequest'')))"

definition pattern_strategy_Query_GetStrategyById_0 :: url_pattern where
  "pattern_strategy_Query_GetStrategyById_0 = \<lparr>up_version = 1, up_ops = [2, 0, 2, 1, 2, 2, 2, 3, 1, 0, 4, 1, 5, 4],
     up_pool = [''flux'', ''strategy'', ''v1beta1'', ''strategy_by_id'', ''id''], up_verb = []\<rparr>"

definition pattern_strategy_Query_ListStrategies_0 :: url_pattern where
  "pattern_strategy_Query_ListStrategies_0 = \<lparr>up_version = 1, up_ops = [2, 0, 2, 1, 2, 2, 2, 3],
     up_pool = [''flux'', ''strategy'', ''v1beta1'', ''strategies''], up_verb = []\<rparr>"

definition pattern_strategy_Query_ListStrategiesByOwner_0 :: url_pattern where
  "pattern_strategy_Query_ListStrategiesByOwner_0 = \<lparr>up_version = 1, up_ops = [2, 0, 2, 1, 2, 2, 2, 3, 2, 4, 1, 0, 4, 1, 5, 4],
     up_pool = [''flux'', ''strategy'', ''v1beta1'', ''strategies'', ''owner''], up_verb = []\<rparr>"

definition pattern_strategy_Query_ListStrategiesByType_0 :: url_pattern where
  "pattern_strategy_Query_ListStrategiesByType_0 = \<lparr>up_version = 1, up_ops = [2, 0, 2, 1, 2, 2, 2, 3, 2, 4, 1, 0, 4, 1, 5, 4],
     up_pool = [''flux'', ''strategy'', ''v1beta1'', ''strategies'', ''type''], up_verb = []\<rparr>"

definition pattern_strategy_Query_GetStrategyVerifier_0 :: url_pattern where
  "pattern_strategy_Query_GetStrategyVerifier_0 = \<lparr>up_version = 1, up_ops = [2, 0, 2, 1, 2, 2, 2, 3, 1, 0, 4, 1, 5, 4, 1, 0, 4, 1, 5, 5],
     up_pool = [''flux'', ''strategy'', ''v1beta1'', ''verifier'', ''plane'', ''contract_address''], up_verb = []\<rparr>"

definition server_route_strategy_Query_GetStrategyById_0 :: "'c gw_runtime \<Rightarrow> ('c, 'r) gw_server \<Rightarrow> ('r, 's) route" where
  "server_route_strategy_Query_GetStrategyById_0 G S =
     \<lparr>gr_method = ''GET'', gr_pattern = pattern_strategy_Query_GetStrategyById_0, gr_handler = serve_local G (local_request_strategy_Query_GetStrategyById_0 G S)\<rparr>"

definition server_route_strategy_Query_ListStrategies_0 :: "'c gw_runtime \<Rightarrow> ('c, 'r) gw_server \<Rightarrow> ('r, 's) route" where
  "server_route_strategy_Query_ListStrategies_0 G S =
     \<lparr>gr_method = ''GET'', gr_pattern = pattern_strategy_Query_ListStrategies_0, gr_handler = serve_local G (local_request_strategy_Query_ListStrategies_0 G S)\<rparr>"

definition server_route_strategy_Query_ListStrategiesByOwner_0 :: "'c gw_runtime \<Rightarrow> ('c, 'r) gw_server \<Rightarrow> ('r, 's) route" where
  "server_route_strategy_Query_ListStrategiesByOwner_0 G S =
     \<lparr>gr_method = ''GET'', gr_pattern = pattern_strategy_Query_ListStrategiesByOwner_0, gr_handler = serve_local G (local_request_strategy_Query_ListStrategiesByOwner_0 G S)\<rparr>"

definition server_route_strategy_Query_ListStrategiesByType_0 :: "'c gw_runtime \<Rightarrow> ('c, 'r) gw_server \<Rightarrow> ('r, 's) route" where
  "server_route_strategy_Query_ListStrategiesByType_0 G S =
     \<lparr>gr_method = ''GET'', gr_pattern = pattern_strategy_Query_ListStrategiesByType_0, gr_handler = serve_local G (local_request_strategy_Query_ListStrategiesByType_0 G S)\<rparr>"

definition server_route_strategy_Query_GetStrategyVerifier_0 :: "'c gw_runtime \<Rightarrow> ('c, 'r) gw_server \<Rightarrow> ('r, 's) route" where
  "server_route_strategy_Query_GetStrategyVerifier_0 G S =
     \<lparr>gr_method = ''GET'', gr_pattern = pattern_strategy_Query_GetStrategyVerifier_0, gr_handler = serve_local G (local_request_strategy_Query_GetStrategyVerifier_0 G S)\<rparr>"

definition register_strategy_QueryHandlerServer ::
  "'c gw_runtime \<Rightarrow> ('c, 'r) gw_server \<Rightarrow> ('r, 's) route list \<Rightarrow> gw_error + ('r, 's) route list" where
  "register_strategy_QueryHandlerServer G S mux = Inr (foldl handle_route mux
     [server_route_strategy_Query_GetStrategyById_0 G S,
      server_route_strategy_Query_ListStrategies_0 G S,
      server_route_strategy_Query_ListStrategiesByOwner_0 G S,
      server_route_strategy_Query_ListStrategiesByType_0 G S,
      server_route_strategy_Query_GetStrategyVerifier_0 G S])"

definition client_route_strategy_Query_GetStrategyById_0 :: "'c gw_runtime \<Rightarrow> ('c, 'r, 's) gw_client \<Rightarrow> ('r, 's) route" where
  "client_route_strategy_Query_GetStrategyById_0 G C =
     \<lparr>gr_method = ''GET'', gr_pattern = pattern_strategy_Query_GetStrategyById_0, gr_handler = serve_client G (request_strategy_Query_GetStrategyById_0 G C)\<rparr>"

definition client_route_strategy_Query_ListStrategies_0 :: "'c gw_runtime \<Rightarrow> ('c, 'r, 's) gw_client \<Rightarrow> ('r, 's) route" where
  "client_route_strategy_Query_ListStrategies_0 G C =
     \<lparr>gr_method = ''GET'', gr_pattern = pattern_strategy_Query_ListStrategies_0, gr_handler = serve_client G (request_strategy_Query_ListStrategies_0 G C)\<rparr>"

definition client_route_strategy_Query_ListStrategiesByOwner_0 :: "'c gw_runtime \<Rightarrow> ('c, 'r, 's) gw_client \<Rightarrow> ('r, 's) route" where
  "client_route_strategy_Query_ListStrategiesByOwner_0 G C =
     \<lparr>gr_method = ''GET'', gr_pattern = pattern_strategy_Query_ListStrategiesByOwner_0, gr_handler = serve_client G (request_strategy_Query_ListStrategiesByOwner_0 G C)\<rparr>"

definition client_route_strategy_Query_ListStrategiesByType_0 :: "'c gw_runtime \<Rightarrow> ('c, 'r, 's) gw_client \<Rightarrow> ('r, 's) route" where
  "client_route_strategy_Query_ListStrategiesByType_0 G C =
     \<lparr>gr_method = ''GET'', gr_pattern = pattern_strategy_Query_ListStrategiesByType_0, gr_handler = serve_client G (request_strategy_Query_ListStrategiesByType_0 G C)\<rparr>"

definition client_route_strategy_Query_GetStrategyVerifier_0 :: "'c gw_runtime \<Rightarrow> ('c, 'r, 's) gw_client \<Rightarrow> ('r, 's) route" where
  "client_route_strategy_Query_GetStrategyVerifier_0 G C =
     \<lparr>gr_method = ''GET'', gr_pattern = pattern_strategy_Query_GetStrategyVerifier_0, gr_handler = serve_client G (request_strategy_Query_GetStrategyVerifier_0 G C)\<rparr>"

definition register_strategy_QueryHandlerClient ::
  "'c gw_runtime \<Rightarrow> ('c, 'r, 's) gw_client \<Rightarrow> ('r, 's) route list \<Rightarrow> gw_error + ('r, 's) route list" where
  "register_strategy_QueryHandlerClient G C mux = Inr (foldl handle_route mux
     [client_route_strategy_Query_GetStrategyById_0 G C,
      client_route_strategy_Query_ListStrategies_0 G C,
      client_route_strategy_Query_ListStrategiesByOwner_0 G C,
      client_route_strategy_Query_ListStrategiesByType_0 G C,
      client_route_strategy_Query_GetStrategyVerifier_0 G C])"

definition register_strategy_QueryHandler ::
  "'c gw_runtime \<Rightarrow> ('conn \<Rightarrow> ('c, 'r, 's) gw_client) \<Rightarrow> ('r, 's) route list \<Rightarrow> 'conn \<Rightarrow> gw_error + ('r, 's) route list" where
  "register_strategy_QueryHandler G new_client mux conn = register_strategy_QueryHandlerClient G (new_client conn) mux"

definition register_strategy_QueryHandlerFromEndpoint ::
  "'c gw_runtime \<Rightarrow> ('conn \<Rightarrow> ('c, 'r, 's) gw_client) \<Rightarrow> (string \<Rightarrow> gw_error + 'conn) \<Rightarrow> ('r, 's) route list \<Rightarrow> string \<Rightarrow>
     (gw_error + ('r, 's) route list) \<times> conn_fate option" where
  "register_strategy_QueryHandlerFromEndpoint G new_client dial mux endpoint =
     register_from_endpoint dial (register_strategy_QueryHandler G new_client) mux endpoint"

section \<open>Query (\<open>chain/modules/interpool/types/query.pb.gw.go\<close>)\<close>

definition filter_interpool_Query_PoolShares_0 :: double_array where
  "filter_interpool_Query_PoolShares_0 = \<lparr>Encoding = [(''pool_id'', 0)], Base = [1, 1, 0], Check = [0, 1, 2]\<rparr>"

definition request_interpool_Query_Pool_0 ::
  "'c gw_runtime \<Rightarrow> ('c, 'r, 's) gw_client \<Rightarrow> 'c \<Rightarrow> http_request \<Rightarrow> path_params \<Rightarrow> (gw_error + 'r) \<times> server_md" where
  "request_interpool_Query_Pool_0 G C ctx req pp =
     remote_call C ctx ''Pool'' (fill_all
       [path_param pp (as_string G) ''pool_id'' ''PoolId'']
       (zero_message (''interpool'', ''QueryPoolRequest'')))"

definition local_request_interpool_Query_Pool_0 ::
  "'c gw_runtime \<Rightarrow> ('c, 'r) gw_server \<Rightarrow> 'c \<Rightarrow> http_request \<Rightarrow> path_params \<Rightarrow> (gw_error + 'r) \<times> server_md \<times> server_md" where
  "local_request_interpool_Query_Pool_0 G S ctx req pp =
     local_call S ctx ''Pool'' (fill_all
       [path_param pp (as_string G) ''pool_id'' ''PoolId'']
       (zero_message (''interpool'', ''QueryPoolRequest'')))"

definition request_interpool_Query_PoolShares_0 ::
  "'c gw_runtime \<Rightarrow> ('c, 'r, 's) gw_client \<Rightarrow> 'c \<Rightarrow> http_request \<Rightarrow> path_params \<Rightarrow> (gw_error + 'r) \<times> server_md" where
  "request_interpool_Query_PoolShares_0 G C ctx req pp =
     remote_call C ctx ''PoolShares'' (fill_all
       [path_param pp (as_string G) ''pool_id'' ''PoolId'',
        query_params G req filter_interpool_Query_PoolShares_0]
       (zero_message (''interpool'', ''QueryPoolSharesRequest'')))"

definition local_request_interpool_Query_PoolShares_0 ::
  "'c gw_runtime \<Rightarrow> ('c, 'r) gw_server \<Rightarrow> 'c \<Rightarrow> http_request \<Rightarrow> path_params \<Rightarrow> (gw_error + 'r) \<times> server_md \<times> server_md" where
  "local_request_interpool_Query_PoolShares_0 G S ctx req pp =
     local_call S ctx ''PoolShares'' (fill_all
       [path_param pp (as_string G) ''pool_id'' ''PoolId'',
        query_params G req filter_interpool_Query_PoolShares_0]
       (zero_message (''interpool'', ''QueryPoolSharesRequest'')))"

definition pattern_interpool_Query_Pool_0 :: url_pattern where
  "pattern_interpool_Query_Pool_0 = \<lparr>up_version = 1, up_ops = [2, 0, 2, 1, 2, 2, 2, 3, 1, 0, 4, 1, 5, 4],
     up_pool = [''flux'', ''interpool'', ''v1beta1'', ''pools'', ''pool_id''], up_verb = []\<rparr>"

definition pattern_interpool_Query_PoolShares_0 :: url_pattern where
  "pattern_interpool_Query_PoolShares_0 = \<lparr>up_version = 1, up_ops = [2, 0, 2, 1, 2, 2, 2, 3, 1, 0, 4, 1, 5, 4, 2, 5],
     up_pool = [''flux'', ''interpool'', ''v1beta1'', ''pools'', ''pool_id'', ''shares''], up_verb = []\<rparr>"

definition server_route_interpool_Query_Pool_0 :: "'c gw_runtime \<Rightarrow> ('c, 'r) gw_server \<Rightarrow> ('r, 's) route" where
  "server_route_interpool_Query_Pool_0 G S =
     \<lparr>gr_method = ''GET'', gr_pattern = pattern_interpool_Query_Pool_0, gr_handler = serve_local G (local_request_interpool_Query_Pool_0 G S)\<rparr>"

definition server_route_interpool_Query_PoolShares_0 :: "'c gw_runtime \<Rightarrow> ('c, 'r) gw_server \<Rightarrow> ('r, 's) route" where
  "server_route_interpool_Query_PoolShares_0 G S =
     \<lparr>gr_method = ''GET'', gr_pattern = pattern_interpool_Query_PoolShares_0, gr_handler = serve_local G (local_request_interpool_Query_PoolShares_0 G S)\<rparr>"

definition register_interpool_QueryHandlerServer ::
  "'c gw_runtime \<Rightarrow> ('c, 'r) gw_server \<Rightarrow> ('r, 's) route list \<Rightarrow> gw_error + ('r, 's) route list" where
  "register_interpool_QueryHandlerServer G S mux = Inr (foldl handle_route mux
     [server_route_interpool_Query_Pool_0 G S,
      server_route_interpool_Query_PoolShares_0 G S])"

definition client_route_interpool_Query_Pool_0 :: "'c gw_runtime \<Rightarrow> ('c, 'r, 's) gw_client \<Rightarrow> ('r, 's) route" where
  "client_route_interpool_Query_Pool_0 G C =
     \<lparr>gr_method = ''GET'', gr_pattern = pattern_interpool_Query_Pool_0, gr_handler = serve_client G (request_interpool_Query_Pool_0 G C)\<rparr>"

definition client_route_interpool_Query_PoolShares_0 :: "'c gw_runtime \<Rightarrow> ('c, 'r, 's) gw_client \<Rightarrow> ('r, 's) route" where
  "client_route_interpool_Query_PoolShares_0 G C =
     \<lparr>gr_method = ''GET'', gr_pattern = pattern_interpool_Query_PoolShares_0, gr_handler = serve_client G (request_interpool_Query_PoolShares_0 G C)\<rparr>"

definition register_interpool_QueryHandlerClient ::
  "'c gw_runtime \<Rightarrow> ('c, 'r, 's) gw_client \<Rightarrow> ('r, 's) route list \<Rightarrow> gw_error + ('r, 's) route list" where
  "register_interpool_QueryHandlerClient G C mux = Inr (foldl handle_route mux
     [client_route_interpool_Query_Pool_0 G C,
      client_route_interpool_Query_PoolShares_0 G C])"

definition register_interpool_QueryHandler ::
  "'c gw_runtime \<Rightarrow> ('conn \<Rightarrow> ('c, 'r, 's) gw_client) \<Rightarrow> ('r, 's) route list \<Rightarrow> 'conn \<Rightarrow> gw_error + ('r, 's) route list" where
  "register_interpool_QueryHandler G new_client mux conn = register_interpool_QueryHandlerClient G (new_client conn) mux"

definition register_interpool_QueryHandlerFromEndpoint ::
  "'c gw_runtime \<Rightarrow> ('conn \<Rightarrow> ('c, 'r, 's) gw_client) \<Rightarrow> (string \<Rightarrow> gw_error + 'conn) \<Rightarrow> ('r, 's) route list \<Rightarrow> string \<Rightarrow>
     (gw_error + ('r, 's) route list) \<times> conn_fate option" where
  "register_interpool_QueryHandlerFromEndpoint G new_client dial mux endpoint =
     register_from_endpoint dial (register_interpool_QueryHandler G new_client) mux endpoint"

section \<open>Query (\<open>chain/eventstream/types/query.pb.gw.go\<close>)\<close>

definition request_eventstream_Query_GetEvents_0 ::
  "'c gw_runtime \<Rightarrow> ('c, 'r, 's) gw_client \<Rightarrow> 'c \<Rightarrow> http_request \<Rightarrow> path_params \<Rightarrow> (gw_error + 'r) \<times> server_md" where
  "request_eventstream_Query_GetEvents_0 G C ctx req pp =
     remote_call C ctx ''GetEvents'' (fill_all
       [path_param pp (as_uint64 G) ''height'' ''Height'',
        path_param pp (as_strings G '','') ''modules'' ''Modules'',
        path_param pp (as_strings G '','') ''tm_queries'' ''TmQueries'']
       (zero_message (''eventstream'', ''EventsRequest'')))"

definition local_request_eventstream_Query_GetEvents_0 ::
  "'c gw_runtime \<Rightarrow> ('c, 'r) gw_server \<Rightarrow> 'c \<Rightarrow> http_request \<Rightarrow> path_params \<Rightarrow> (gw_error + 'r) \<times> server_md \<times> server_md" where
  "local_request_eventstream_Query_GetEvents_0 G S ctx req pp =
     local_call S ctx ''GetEvents'' (fill_all
       [path_param pp (as_uint64 G) ''height'' ''Height'',
        path_param pp (as_strings G '','') ''modules'' ''Modules'',
        path_param pp (as_strings G '','') ''tm_queries'' ''TmQueries'']
       (zero_message (''eventstream'', ''EventsRequest'')))"

definition request_eventstream_Query_StreamEvents_0 ::
  "'c gw_runtime \<Rightarrow> ('c, 'r, 's) gw_client \<Rightarrow> 'c \<Rightarrow> http_request \<Rightarrow> path_params \<Rightarrow> (gw_error + 's) \<times> server_md" where
  "request_eventstream_Query_StreamEvents_0 G C ctx req pp =
     stream_call C ctx ''StreamEvents'' (fill_all
       [path_param pp (as_uint64 G) ''height'' ''Height'',
        path_param pp (as_strings G '','') ''modules'' ''Modules'',
        path_param pp (as_strings G '','') ''tm_queries'' ''TmQueries'']
       (zero_message (''eventstream'', ''EventsRequest'')))"

definition pattern_eventstream_Query_GetEvents_0 :: url_pattern where
  "pattern_eventstream_Query_GetEvents_0 = \<lparr>up_version = 1, up_ops = [2, 0, 2, 1, 2, 2, 2, 3, 1, 0, 4, 1, 5, 4, 1, 0, 4, 1, 5, 5, 1, 0, 4, 1, 5, 6],
     up_pool = [''flux'', ''stream'', ''v1beta1'', ''events'', ''height'', ''modules'', ''tm_queries''], up_verb = []\<rparr>"

definition pattern_eventstream_Query_StreamEvents_0 :: url_pattern where
  "pattern_eventstream_Query_StreamEvents_0 = \<lparr>up_version = 1, up_ops = [2, 0, 2, 1, 2, 2, 2, 3, 1, 0, 4, 1, 5, 4, 1, 0, 4, 1, 5, 5, 1, 0, 4, 1, 5, 6],
     up_pool = [''flux'', ''stream'', ''v1beta1'', ''streamevents'', ''height'', ''modules'', ''tm_queries''], up_verb = []\<rparr>"

definition server_route_eventstream_Query_GetEvents_0 :: "'c gw_runtime \<Rightarrow> ('c, 'r) gw_server \<Rightarrow> ('r, 's) route" where
  "server_route_eventstream_Query_GetEvents_0 G S =
     \<lparr>gr_method = ''GET'', gr_pattern = pattern_eventstream_Query_GetEvents_0, gr_handler = serve_local G (local_request_eventstream_Query_GetEvents_0 G S)\<rparr>"

definition server_route_eventstream_Query_StreamEvents_0 :: "('r, 's) route" where
  "server_route_eventstream_Query_StreamEvents_0 =
     \<lparr>gr_method = ''GET'', gr_pattern = pattern_eventstream_Query_StreamEvents_0, gr_handler = not_streamed\<rparr>"

definition register_eventstream_QueryHandlerServer ::
  "'c gw_runtime \<Rightarrow> ('c, 'r) gw_server \<Rightarrow> ('r, 's) route list \<Rightarrow> gw_error + ('r, 's) route list" where
  "register_eventstream_QueryHandlerServer G S mux = Inr (foldl handle_route mux
     [server_route_eventstream_Query_GetEvents_0 G S,
      server_route_eventstream_Query_StreamEvents_0])"

definition client_route_eventstream_Query_GetEvents_0 :: "'c gw_runtime \<Rightarrow> ('c, 'r, 's) gw_client \<Rightarrow> ('r, 's) route" where
  "client_route_eventstream_Query_GetEvents_0 G C =
     \<lparr>gr_method = ''GET'', gr_pattern = pattern_eventstream_Query_GetEvents_0, gr_handler = serve_client G (request_eventstream_Query_GetEvents_0 G C)\<rparr>"

definition client_route_eventstream_Query_StreamEvents_0 :: "'c gw_runtime \<Rightarrow> ('c, 'r, 's) gw_client \<Rightarrow> ('r, 's) route" where
  "client_route_eventstream_Query_StreamEvents_0 G C =
     \<lparr>gr_method = ''GET'', gr_pattern = pattern_eventstream_Query_StreamEvents_0, gr_handler = serve_client_stream G (request_eventstream_Query_StreamEvents_0 G C)\<rparr>"

definition register_eventstream_QueryHandlerClient ::
  "'c gw_runtime \<Rightarrow> ('c, 'r, 's) gw_client \<Rightarrow> ('r, 's) route list \<Rightarrow> gw_error + ('r, 's) route list" where
  "register_eventstream_QueryHandlerClient G C mux = Inr (foldl handle_route mux
     [client_route_eventstream_Query_GetEvents_0 G C,
      client_route_eventstream_Query_StreamEvents_0 G C])"

definition register_eventstream_QueryHandler ::
  "'c gw_runtime \<Rightarrow> ('conn \<Rightarrow> ('c, 'r, 's) gw_client) \<Rightarrow> ('r, 's) route list \<Rightarrow> 'conn \<Rightarrow> gw_error + ('r, 's) route list" where
  "register_eventstream_QueryHandler G new_client mux conn = register_eventstream_QueryHandlerClient G (new_client conn) mux"

definition register_eventstream_QueryHandlerFromEndpoint ::
  "'c gw_runtime \<Rightarrow> ('conn \<Rightarrow> ('c, 'r, 's) gw_client) \<Rightarrow> (string \<Rightarrow> gw_error + 'conn) \<Rightarrow> ('r, 's) route list \<Rightarrow> string \<Rightarrow>
     (gw_error + ('r, 's) route list) \<times> conn_fate option" where
  "register_eventstream_QueryHandlerFromEndpoint G new_client dial mux endpoint =
     register_from_endpoint dial (register_eventstream_QueryHandler G new_client) mux endpoint"

section \<open>Definitions by group\<close>

lemmas [gateway_patterns] =
  pattern_astromesh_Query_DenomLink_0_def pattern_astromesh_Query_Balance_0_def
  pattern_fnft_Query_Balance_0_def pattern_fnft_Query_Owner_0_def pattern_fnft_Query_Supply_0_def
  pattern_fnft_Query_Holder_0_def pattern_fnft_Query_Holders_0_def pattern_fnft_Query_NFTs_0_def
  pattern_fnft_Query_NFT_0_def pattern_fnft_Query_Class_0_def pattern_fnft_Query_Classes_0_def
  pattern_evm_Query_Balance_0_def pattern_evm_Query_ContractQuery_0_def
  pattern_oracle_Query_SimpleEntry_0_def pattern_bazaar_Query_NFTProducts_0_def
  pattern_bazaar_Query_NFTProduct_0_def pattern_bazaar_Query_Verifiers_0_def
  pattern_svm_Query_Account_0_def pattern_svm_Query_AccountsByOwner_0_def
  pattern_svm_Query_AccountLink_0_def pattern_svm_Query_AccountLinkBySvmAddr_0_def
  pattern_strategy_Query_GetStrategyById_0_def pattern_strategy_Query_ListStrategies_0_def
  pattern_strategy_Query_ListStrategiesByOwner_0_def pattern_strategy_Query_ListStrategiesByType_0_def
  pattern_strategy_Query_GetStrategyVerifier_0_def pattern_interpool_Query_Pool_0_def
  pattern_interpool_Query_PoolShares_0_def pattern_eventstream_Query_GetEvents_0_def
  pattern_eventstream_Query_StreamEvents_0_def

lemmas [gateway_filters] =
  filter_astromesh_Query_DenomLink_0_def filter_astromesh_Query_Balance_0_def
  filter_fnft_Query_NFTs_0_def filter_fnft_Query_Classes_0_def filter_interpool_Query_PoolShares_0_def

lemmas [gateway_requests] =
  request_astromesh_Query_DenomLink_0_def local_request_astromesh_Query_DenomLink_0_def
  request_astromesh_Query_Balance_0_def local_request_astromesh_Query_Balance_0_def
  request_fnft_Query_Balance_0_def local_request_fnft_Query_Balance_0_def
  request_fnft_Query_Owner_0_def local_request_fnft_Query_Owner_0_def request_fnft_Query_Supply_0_def
  local_request_fnft_Query_Supply_0_def request_fnft_Query_Holder_0_def
  local_request_fnft_Query_Holder_0_def request_fnft_Query_Holders_0_def
  local_request_fnft_Query_Holders_0_def request_fnft_Query_NFTs_0_def
  local_request_fnft_Query_NFTs_0_def request_fnft_Query_NFT_0_def local_request_fnft_Query_NFT_0_def
  request_fnft_Query_Class_0_def local_request_fnft_Query_Class_0_def request_fnft_Query_Classes_0_def
  local_request_fnft_Query_Classes_0_def request_evm_Query_Balance_0_def
  local_request_evm_Query_Balance_0_def request_evm_Query_ContractQuery_0_def
  local_request_evm_Query_ContractQuery_0_def request_oracle_Query_SimpleEntry_0_def
  local_request_oracle_Query_SimpleEntry_0_def request_bazaar_Query_NFTProducts_0_def
  local_request_bazaar_Query_NFTProducts_0_def request_bazaar_Query_NFTProduct_0_def
  local_request_bazaar_Query_NFTProduct_0_def request_bazaar_Query_Verifiers_0_def
  local_request_bazaar_Query_Verifiers_0_def request_svm_Query_Account_0_def
  local_request_svm_Query_Account_0_def request_svm_Query_AccountsByOwner_0_def
  local_request_svm_Query_AccountsByOwner_0_def request_svm_Query_AccountLink_0_def
  local_request_svm_Query_AccountLink_0_def request_svm_Query_AccountLinkBySvmAddr_0_def
  local_request_svm_Query_AccountLinkBySvmAddr_0_def request_strategy_Query_GetStrategyById_0_def
  local_request_strategy_Query_GetStrategyById_0_def request_strategy_Query_ListStrategies_0_def
  local_request_strategy_Query_ListStrategies_0_def request_strategy_Query_ListStrategiesByOwner_0_def
  local_request_strategy_Query_ListStrategiesByOwner_0_def
  request_strategy_Query_ListStrategiesByType_0_def
  local_request_strategy_Query_ListStrategiesByType_0_def
  request_strategy_Query_GetStrategyVerifier_0_def
  local_request_strategy_Query_GetStrategyVerifier_0_def request_interpool_Query_Pool_0_def
  local_request_interpool_Query_Pool_0_def request_interpool_Query_PoolShares_0_def
  local_request_interpool_Query_PoolShares_0_def request_eventstream_Query_GetEvents_0_def
  local_request_eventstream_Query_GetEvents_0_def request_eventstream_Query_StreamEvents_0_def

lemmas [gateway_routes] =
  server_route_astromesh_Query_DenomLink_0_def server_route_astromesh_Query_Balance_0_def
  client_route_astromesh_Query_DenomLink_0_def client_route_astromesh_Query_Balance_0_def
  server_route_fnft_Query_Balance_0_def server_route_fnft_Query_Owner_0_def
  server_route_fnft_Query_Supply_0_def server_route_fnft_Query_Holder_0_def
  server_route_fnft_Query_Holders_0_def server_route_fnft_Query_NFTs_0_def
  server_route_fnft_Query_NFT_0_def server_route_fnft_Query_Class_0_def
  server_route_fnft_Query_Classes_0_def client_route_fnft_Query_Balance_0_def
  client_route_fnft_Query_Owner_0_def client_route_fnft_Query_Supply_0_def
  client_route_fnft_Query_Holder_0_def client_route_fnft_Query_Holders_0_def
  client_route_fnft_Query_NFTs_0_def client_route_fnft_Query_NFT_0_def
  client_route_fnft_Query_Class_0_def client_route_fnft_Query_Classes_0_def
  server_route_evm_Query_Balance_0_def server_route_evm_Query_ContractQuery_0_def
  client_route_evm_Query_Balance_0_def client_route_evm_Query_ContractQuery_0_def
  server_route_oracle_Query_SimpleEntry_0_def client_route_oracle_Query_SimpleEntry_0_def
  server_route_bazaar_Query_NFTProducts_0_def server_route_bazaar_Query_NFTProduct_0_def
  server_route_bazaar_Query_Verifiers_0_def client_route_bazaar_Query_NFTProducts_0_def
  client_route_bazaar_Query_NFTProduct_0_def client_route_bazaar_Query_Verifiers_0_def
  server_route_svm_Query_Account_0_def server_route_svm_Query_AccountsByOwner_0_def
  server_route_svm_Query_AccountLink_0_def server_route_svm_Query_AccountLinkBySvmAddr_0_def
  client_route_svm_Query_Account_0_def client_route_svm_Query_AccountsByOwner_0_def
  client_route_svm_Query_AccountLink_0_def client_route_svm_Query_AccountLinkBySvmAddr_0_def
  server_route_strategy_Query_GetStrategyById_0_def server_route_strategy_Query_ListStrategies_0_def
  server_route_strategy_Query_ListStrategiesByOwner_0_def
  server_route_strategy_Query_ListStrategiesByType_0_def
  server_route_strategy_Query_GetStrategyVerifier_0_def
  client_route_strategy_Query_GetStrategyById_0_def client_route_strategy_Query_ListStrategies_0_def
  client_route_strategy_Query_ListStrategiesByOwner_0_def
  client_route_strategy_Query_ListStrategiesByType_0_def
  client_route_strategy_Query_GetStrategyVerifier_0_def server_route_interpool_Query_Pool_0_def
  server_route_interpool_Query_PoolShares_0_def client_route_interpool_Query_Pool_0_def
  client_route_interpool_Query_PoolShares_0_def server_route_eventstream_Query_GetEvents_0_def
  server_route_eventstream_Query_StreamEvents_0_def client_route_eventstream_Query_GetEvents_0_def
  client_route_eventstream_Query_StreamEvents_0_def

lemmas [gateway_registers] =
  register_astromesh_QueryHandlerServer_def register_astromesh_QueryHandlerClient_def
  register_fnft_QueryHandlerServer_def register_fnft_QueryHandlerClient_def
  register_evm_QueryHandlerServer_def register_evm_QueryHandlerClient_def
  register_oracle_QueryHandlerServer_def register_oracle_QueryHandlerClient_def
  register_bazaar_QueryHandlerServer_def register_bazaar_QueryHandlerClient_def
  register_svm_QueryHandlerServer_def register_svm_QueryHandlerClient_def
  register_strategy_QueryHandlerServer_def register_strategy_QueryHandlerClient_def
  register_interpool_QueryHandlerServer_def register_interpool_QueryHandlerClient_def
  register_eventstream_QueryHandlerServer_def register_eventstream_QueryHandlerClient_def

end
