(* ===== verification/Gateway_Indexer.thy ===== *)
theory Gateway_Indexer
  imports Gateway_Chain
begin

text \<open>
  The gateways of the indexers: explorer, provider, Camp Clash, media and OHLCV.
\<close>

section \<open>API (\<open>chain/indexer/explorer/query.pb.gw.go\<close>)\<close>

definition filter_explorer_API_ListEvmContracts_0 :: double_array where
  "filter_explorer_API_ListEvmContracts_0 = \<lparr>Encoding = [], Base = [], Check = []\<rparr>"

definition filter_explorer_API_Balances_0 :: double_array where
  "filter_explorer_API_Balances_0 = \<lparr>Encoding = [(''address'', 0)], Base = [1, 1, 0], Check = [0, 1, 2]\<rparr>"

definition filter_explorer_API_ListStrategies_0 :: double_array where
  "filter_explorer_API_ListStrategies_0 = \<lparr>Encoding = [], Base = [], Check = []\<rparr>"

definition filter_explorer_API_ListStrategiesByOwner_0 :: double_array where
  "filter_explorer_API_ListStrategiesByOwner_0 = \<lparr>Encoding = [(''owner'', 0)], Base = [1, 1, 0], Check = [0, 1, 2]\<rparr>"

definition filter_explorer_API_ListStrategyTriggersById_0 :: double_array where
  "filter_explorer_API_ListStrategyTriggersById_0 = \<lparr>Encoding = [(''id'', 0)], Base = [1, 1, 0], Check = [0, 1, 2]\<rparr>"

definition filter_explorer_API_ListTokenMetadata_0 :: double_array where
  "filter_explorer_API_ListTokenMetadata_0 = \<lparr>Encoding = [], Base = [], Check = []\<rparr>"

definition filter_explorer_API_ListSvmAccountLinks_0 :: double_array where
  "filter_explorer_API_ListSvmAccountLinks_0 = \<lparr>Encoding = [], Base = [], Check = []\<rparr>"

definition filter_explorer_API_StreamBalances_0 :: double_array where
  "filter_explorer_API_StreamBalances_0 = \<lparr>Encoding = [], Base = [], Check = []\<rparr>"

definition filter_explorer_API_StreamStrategies_0 :: double_array where
  "filter_explorer_API_StreamStrategies_0 = \<lparr>Encoding = [], Base = [], Check = []\<rparr>"

definition filter_explorer_API_StreamSvmAccountLink_0 :: double_array where
  "filter_explorer_API_StreamSvmAccountLink_0 = \<lparr>Encoding = [], Base = [], Check = []\<rparr>"

definition filter_explorer_API_ListDriftOrders_0 :: double_array where
  "filter_explorer_API_ListDriftOrders_0 = \<lparr>Encoding = [], Base = [], Check = []\<rparr>"

definition filter_explorer_API_ListFillableDriftJITOrders_0 :: double_array where
  "filter_explorer_API_ListFillableDriftJITOrders_0 = \<lparr>Encoding = [], Base = [], Check = []\<rparr>"

definition filter_explorer_API_StreamDriftOrders_0 :: double_array where
  "filter_explorer_API_StreamDriftOrders_0 = \<lparr>Encoding = [], Base = [], Check = []\<rparr>"

definition filter_explorer_API_ListTxs_0 :: double_array where
  "filter_explorer_API_ListTxs_0 = \<lparr>Encoding = [], Base = [], Check = []\<rparr>"

definition filter_explorer_API_ListAccountTxs_0 :: double_array where
  "filter_explorer_API_ListAccountTxs_0 = \<lparr>Encoding = [(''account'', 0)], Base = [1, 1, 0], Check = [0, 1, 2]\<rparr>"

definition filter_explorer_API_ListBlocks_0 :: double_array where
  "filter_explorer_API_ListBlocks_0 = \<lparr>Encoding = [], Base = [], Check = []\<rparr>"

definition filter_explorer_API_StreamTxs_0 :: double_array where
  "filter_explorer_API_StreamTxs_0 = \<lparr>Encoding = [], Base = [], Check = []\<rparr>"

definition filter_explorer_API_ListContracts_0 :: double_array where
  "filter_explorer_API_ListContracts_0 = \<lparr>Encoding = [], Base = [], Check = []\<rparr>"

definition filter_explorer_API_GetContract_0 :: double_array where
  "filter_explorer_API_GetContract_0 = \<lparr>Encoding = [(''address'', 0)], Base = [1, 1, 0], Check = [0, 1, 2]\<rparr>"

definition filter_explorer_API_StreamContract_0 :: double_array where
  "filter_explorer_API_StreamContract_0 = \<lparr>Encoding = [], Base = [], Check = []\<rparr>"

definition filter_explorer_API_ListDumpsadCoins_0 :: double_array where
  "filter_explorer_API_ListDumpsadCoins_0 = \<lparr>Encoding = [], Base = [], Check = []\<rparr>"

definition filter_explorer_API_StreamDumpsadCoins_0 :: double_array where
  "filter_explorer_API_StreamDumpsadCoins_0 = \<lparr>Encoding = [], Base = [], Check = []\<rparr>"

definition filter_explorer_API_ListDumpsadTrades_0 :: double_array where
  "filter_explorer_API_ListDumpsadTrades_0 = \<lparr>Encoding = [], Base = [], Check = []\<rparr>"

definition filter_explorer_API_StreamDumpsadTrades_0 :: double_array where
  "filter_explorer_API_StreamDumpsadTrades_0 = \<lparr>Encoding = [], Base = [], Check = []\<rparr>"

definition request_explorer_API_ListEvmContracts_0 ::
  "'c gw_runtime \<Rightarrow> ('c, 'r, 's) gw_client \<Rightarrow> 'c \<Rightarrow> http_request \<Rightarrow> path_params \<Rightarrow> (gw_error + 'r) \<times> server_md" where
  "request_explorer_API_ListEvmContracts_0 G C ctx req pp =
     remote_call C ctx ''ListEvmContracts'' (fill_all
       [query_params G req filter_explorer_API_ListEvmContracts_0]
       (zero_message (''explorer'', ''ListEvmContractsRequest'')))"

definition local_request_explorer_API_ListEvmContracts_0 ::
  "'c gw_runtime \<Rightarrow> ('c, 'r) gw_server \<Rightarrow> 'c \<Rightarrow> http_request \<Rightarrow> path_params \<Rightarrow> (gw_error + 'r) \<times> server_md \<times> server_md" where
  "local_request_explorer_API_ListEvmContracts_0 G S ctx req pp =
     local_call S ctx ''ListEvmContracts'' (fill_all
       [query_params G req filter_explorer_API_ListEvmContracts_0]
       (zero_message (''explorer'', ''ListEvmContractsRequest'')))"

definition request_explorer_API_Balances_0 ::
  "'c gw_runtime \<Rightarrow> ('c, 'r, 's) gw_client \<Rightarrow> 'c \<Rightarrow> http_request \<Rightarrow> path_params \<Rightarrow> (gw_error + 'r) \<times> server_md" where
  "request_explorer_API_Balances_0 G C ctx req pp =
     remote_call C ctx ''Balances'' (fill_all
       [path_param pp (as_string G) ''address'' ''Address'',
        query_params G req filter_explorer_API_Balances_0]
       (zero_message (''explorer'', ''BalancesRequest'')))"

definition local_request_explorer_API_Balances_0 ::
  "'c gw_runtime \<Rightarrow> ('c, 'r) gw_server \<Rightarrow> 'c \<Rightarrow> http_request \<Rightarrow> path_params \<Rightarrow> (gw_error + 'r) \<times> server_md \<times> server_md" where
  "local_request_explorer_API_Balances_0 G S ctx req pp =
     local_call S ctx ''Balances'' (fill_all
       [path_param pp (as_string G) ''address'' ''Address'',
        query_params G req filter_explorer_API_Balances_0]
       (zero_message (''explorer'', ''BalancesRequest'')))"

definition request_explorer_API_ListStrategies_0 ::
  "'c gw_runtime \<Rightarrow> ('c, 'r, 's) gw_client \<Rightarrow> 'c \<Rightarrow> http_request \<Rightarrow> path_params \<Rightarrow> (gw_error + 'r) \<times> server_md" where
  "request_explorer_API_ListStrategies_0 G C ctx req pp =
     remote_call C ctx ''ListStrategies'' (fill_all
       [query_params G req filter_explorer_API_ListStrategies_0]
       (zero_message (''explorer'', ''ListStrategiesRequest'')))"

definition local_request_explorer_API_ListStrategies_0 ::
  "'c gw_runtime \<Rightarrow> ('c, 'r) gw_server \<Rightarrow> 'c \<Rightarrow> http_request \<Rightarrow> path_params \<Rightarrow> (gw_error + 'r) \<times> server_md \<times> server_md" where
  "local_request_explorer_API_ListStrategies_0 G S ctx req pp =
     local_call S ctx ''ListStrategies'' (fill_all
       [query_params G req filter_explorer_API_ListStrategies_0]
       (zero_message (''explorer'', ''ListStrategiesRequest'')))"

definition request_explorer_API_ListStrategiesByOwner_0 ::
  "'c gw_runtime \<Rightarrow> ('c, 'r, 's) gw_client \<Rightarrow> 'c \<Rightarrow> http_request \<Rightarrow> path_params \<Rightarrow> (gw_error + 'r) \<times> server_md" where
  "request_explorer_API_ListStrategiesByOwner_0 G C ctx req pp =
     remote_call C ctx ''ListStrategiesByOwner'' (fill_all
       [path_param pp (as_string G) ''owner'' ''Owner'',
        query_params G req filter_explorer_API_ListStrategiesByOwner_0]
       (zero_message (''explorer'', ''ListStrategiesByOwnerRequest'')))"

definition local_request_explorer_API_ListStrategiesByOwner_0 ::
  "'c gw_runtime \<Rightarrow> ('c, 'r) gw_server \<Rightarrow> 'c \<Rightarrow> http_request \<Rightarrow> path_params \<Rightarrow> (gw_error + 'r) \<times> server_md \<times> server_md" where
  "local_request_explorer_API_ListStrategiesByOwner_0 G S ctx req pp =
     local_call S ctx ''ListStrategiesByOwner'' (fill_all
       [path_param pp (as_string G) ''owner'' ''Owner'',
        query_params G req filter_explorer_API_ListStrategiesByOwner_0]
       (zero_message (''explorer'', ''ListStrategiesByOwnerRequest'')))"

definition request_explorer_API_GetMetrics_0 ::
  "'c gw_runtime \<Rightarrow> ('c, 'r, 's) gw_client \<Rightarrow> 'c \<Rightarrow> http_request \<Rightarrow> path_params \<Rightarrow> (gw_error + 'r) \<times> server_md" where
  "request_explorer_API_GetMetrics_0 G C ctx req pp =
     remote_call C ctx ''GetMetrics'' (fill_all
       []
       (zero_message (''explorer'', ''GetMetricsRequest'')))"

definition local_request_explorer_API_GetMetrics_0 ::
  "'c gw_runtime \<Rightarrow> ('c, 'r) gw_server \<Rightarrow> 'c \<Rightarrow> http_request \<Rightarrow> path_params \<Rightarrow> (gw_error + 'r) \<times> server_md \<times> server_md" where
  "local_request_explorer_API_GetMetrics_0 G S ctx req pp =
     local_call S ctx ''GetMetrics'' (fill_all
       []
       (zero_message (''explorer'', ''GetMetricsRequest'')))"

definition request_explorer_API_ListStrategyTriggersById_0 ::
  "'c gw_runtime \<Rightarrow> ('c, 'r, 's) gw_client \<Rightarrow> 'c \<Rightarrow> http_request \<Rightarrow> path_params \<Rightarrow> (gw_error + 'r) \<times> server_md" where
  "request_explorer_API_ListStrategyTriggersById_0 G C ctx req pp =
     remote_call C ctx ''ListStrategyTriggersById'' (fill_all
       [path_param pp (as_string G) ''id'' ''Id'',
        query_params G req filter_explorer_API_ListStrategyTriggersById_0]
       (zero_message (''explorer'', ''ListStrategyTriggerByIdRequest'')))"

definition local_request_explorer_API_ListStrategyTriggersById_0 ::
  "'c gw_runtime \<Rightarrow> ('c, 'r) gw_server \<Rightarrow> 'c \<Rightarrow> http_request \<Rightarrow> path_params \<Rightarrow> (gw_error + 'r) \<times> server_md \<times> server_md" where
  "local_request_explorer_API_ListStrategyTriggersById_0 G S ctx req pp =
     local_call S ctx ''ListStrategyTriggersById'' (fill_all
       [path_param pp (as_string G) ''id'' ''Id'',
        query_params G req filter_explorer_API_ListStrategyTriggersById_0]
       (zero_message (''explorer'', ''ListStrategyTriggerByIdRequest'')))"

definition request_explorer_API_ListTokenMetadata_0 ::
  "'c gw_runtime \<Rightarrow> ('c, 'r, 's) gw_client \<Rightarrow> 'c \<Rightarrow> http_request \<Rightarrow> path_params \<Rightarrow> (gw_error + 'r) \<times> server_md" where
  "request_explorer_API_ListTokenMetadata_0 G C ctx req pp =
     remote_call C ctx ''ListTokenMetadata'' (fill_all
       [query_params G req filter_explorer_API_ListTokenMetadata_0]
       (zero_message (''explorer'', ''ListTokenMetadataRequest'')))"

definition local_request_explorer_API_ListTokenMetadata_0 ::
  "'c gw_runtime \<Rightarrow> ('c, 'r) gw_server \<Rightarrow> 'c \<Rightarrow> http_request \<Rightarrow> path_params \<Rightarrow> (gw_error + 'r) \<times> server_md \<times> server_md" where
  "local_request_explorer_API_ListTokenMetadata_0 G S ctx req pp =
     local_call S ctx ''ListTokenMetadata'' (fill_all
       [query_params G req filter_explorer_API_ListTokenMetadata_0]
       (zero_message (''explorer'', ''ListTokenMetadataRequest'')))"

definition request_explorer_API_ListSvmAccountLinks_0 ::
  "'c gw_runtime \<Rightarrow> ('c, 'r, 's) gw_client \<Rightarrow> 'c \<Rightarrow> http_request \<Rightarrow> path_params \<Rightarrow> (gw_error + 'r) \<times> server_md" where
  "request_explorer_API_ListSvmAccountLinks_0 G C ctx req pp =
     remote_call C ctx ''ListSvmAccountLinks'' (fill_all
       [query_params G req filter_explorer_API_ListSvmAccountLinks_0]
       (zero_message (''explorer'', ''ListSvmAccountLinksRequest'')))"

definition local_request_explorer_API_ListSvmAccountLinks_0 ::
  "'c gw_runtime \<Rightarrow> ('c, 'r) gw_server \<Rightarrow> 'c \<Rightarrow> http_request \<Rightarrow> path_params \<Rightarrow> (gw_error + 'r) \<times> server_md \<times> server_md" where
  "local_request_explorer_API_ListSvmAccountLinks_0 G S ctx req pp =
     local_call S ctx ''ListSvmAccountLinks'' (fill_all
       [query_params G req filter_explorer_API_ListSvmAccountLinks_0]
       (zero_message (''explorer'', ''ListSvmAccountLinksRequest'')))"

definition request_explorer_API_StreamBalances_0 ::
  "'c gw_runtime \<Rightarrow> ('c, 'r, 's) gw_client \<Rightarrow> 'c \<Rightarrow> http_request \<Rightarrow> path_params \<Rightarrow> (gw_error + 's) \<times> server_md" where
  "request_explorer_API_StreamBalances_0 G C ctx req pp =
     stream_call C ctx ''StreamBalances'' (fill_all
       [query_params G req filter_explorer_API_StreamBalances_0]
       (zero_message (''explorer'', ''BalancesRequest'')))"

definition request_explorer_API_StreamStrategyTriggers_0 ::
  "'c gw_runtime \<Rightarrow> ('c, 'r, 's) gw_client \<Rightarrow> 'c \<Rightarrow> http_request \<Rightarrow> path_params \<Rightarrow> (gw_error + 's) \<times> server_md" where
  "request_explorer_API_StreamStrategyTriggers_0 G C ctx req pp =
     stream_call C ctx ''StreamStrategyTriggers'' (fill_all
       [path_param pp (as_strings G '','') ''id'' ''Id'']
       (zero_message (''explorer'', ''StreamStrategyTriggerRequest'')))"

definition request_explorer_API_StreamStrategies_0 ::
  "'c gw_runtime \<Rightarrow> ('c, 'r, 's) gw_client \<Rightarrow> 'c \<Rightarrow> http_request \<Rightarrow> path_params \<Rightarrow> (gw_error + 's) \<times> server_md" where
  "request_explorer_API_StreamStrategies_0 G C ctx req pp =
     stream_call C ctx ''StreamStrategies'' (fill_all
       [query_params G req filter_explorer_API_StreamStrategies_0]
       (zero_message (''explorer'', ''StreamStrategiesRequest'')))"

definition request_explorer_API_StreamTokenMetadata_0 ::
  "'c gw_runtime \<Rightarrow> ('c, 'r, 's) gw_client \<Rightarrow> 'c \<Rightarrow> http_request \<Rightarrow> path_params \<Rightarrow> (gw_error + 's) \<times> server_md" where
  "request_explorer_API_StreamTokenMetadata_0 G C ctx req pp =
     stream_call C ctx ''StreamTokenMetadata'' (fill_all
       []
       (zero_message (''explorer'', ''StreamTokenMetadataRequest'')))"

definition request_explorer_API_StreamSvmAccountLink_0 ::
  "'c gw_runtime \<Rightarrow> ('c, 'r, 's) gw_client \<Rightarrow> 'c \<Rightarrow> http_request \<Rightarrow> path_params \<Rightarrow> (gw_error + 's) \<times> server_md" where
  "request_explorer_API_StreamSvmAccountLink_0 G C ctx req pp =
     stream_call C ctx ''StreamSvmAccountLink'' (fill_all
       [query_params G req filter_explorer_API_StreamSvmAccountLink_0]
       (zero_message (''explorer'', ''StreamSvmAccountLinkRequest'')))"

definition request_explorer_API_ListDriftOrders_0 ::
  "'c gw_runtime \<Rightarrow> ('c, 'r, 's) gw_client \<Rightarrow> 'c \<Rightarrow> http_request \<Rightarrow> path_params \<Rightarrow> (gw_error + 'r) \<times> server_md" where
  "request_explorer_API_ListDriftOrders_0 G C ctx req pp =
     remote_call C ctx ''ListDriftOrders'' (fill_all
       [query_params G req filter_explorer_API_ListDriftOrders_0]
       (zero_message (''explorer'', ''ListDriftOrdersRequest'')))"

definition local_request_explorer_API_ListDriftOrders_0 ::
  "'c gw_runtime \<Rightarrow> ('c, 'r) gw_server \<Rightarrow> 'c \<Rightarrow> http_request \<Rightarrow> path_params \<Rightarrow> (gw_error + 'r) \<times> server_md \<times> server_md" where
  "local_request_explorer_API_ListDriftOrders_0 G S ctx req pp =
     local_call S ctx ''ListDriftOrders'' (fill_all
       [query_params G req filter_explorer_API_ListDriftOrders_0]
       (zero_message (''explorer'', ''ListDriftOrdersRequest'')))"

definition request_explorer_API_ListFillableDriftJITOrders_0 ::
  "'c gw_runtime \<Rightarrow> ('c, 'r, 's) gw_client \<Rightarrow> 'c \<Rightarrow> http_request \<Rightarrow> path_params \<Rightarrow> (gw_error + 'r) \<times> server_md" where
  "request_explorer_API_ListFillableDriftJITOrders_0 G C ctx req pp =
     remote_call C ctx ''ListFillableDriftJITOrders'' (fill_all
       [query_params G req filter_explorer_API_ListFillableDriftJITOrders_0]
       (zero_message (''explorer'', ''ListFillableDriftJITOrdersRequest'')))"

definition local_request_explorer_API_ListFillableDriftJITOrders_0 ::
  "'c gw_runtime \<Rightarrow> ('c, 'r) gw_server \<Rightarrow> 'c \<Rightarrow> http_request \<Rightarrow> path_params \<Rightarrow> (gw_error + 'r) \<times> server_md \<times> server_md" where
  "local_request_explorer_API_ListFillableDriftJITOrders_0 G S ctx req pp =
     local_call S ctx ''ListFillableDriftJITOrders'' (fill_all
       [query_params G req filter_explorer_API_ListFillableDriftJITOrders_0]
       (zero_message (''explorer'', ''ListFillableDriftJITOrdersRequest'')))"

definition request_explorer_API_StreamDriftOrders_0 ::
  "'c gw_runtime \<Rightarrow> ('c, 'r, 's) gw_client \<Rightarrow> 'c \<Rightarrow> http_request \<Rightarrow> path_params \<Rightarrow> (gw_error + 's) \<times> server_md" where
  "request_explorer_API_StreamDriftOrders_0 G C ctx req pp =
     stream_call C ctx ''StreamDriftOrders'' (fill_all
       [query_params G req filter_explorer_API_StreamDriftOrders_0]
       (zero_message (''explorer'', ''StreamDriftOrdersRequest'')))"

definition request_explorer_API_ListTxs_0 ::
  "'c gw_runtime \<Rightarrow> ('c, 'r, 's) gw_client \<Rightarrow> 'c \<Rightarrow> http_request \<Rightarrow> path_params \<Rightarrow> (gw_error + 'r) \<times> server_md" where
  "request_explorer_API_ListTxs_0 G C ctx req pp =
     remote_call C ctx ''ListTxs'' (fill_all
       [query_params G req filter_explorer_API_ListTxs_0]
       (zero_message (''explorer'', ''ListTxsRequest'')))"

definition local_request_explorer_API_ListTxs_0 ::
  "'c gw_runtime \<Rightarrow> ('c, 'r) gw_server \<Rightarrow> 'c \<Rightarrow> http_request \<Rightarrow> path_params \<Rightarrow> (gw_error + 'r) \<times> server_md \<times> server_md" where
  "local_request_explorer_API_ListTxs_0 G S ctx req pp =
     local_call S ctx ''ListTxs'' (fill_all
       [query_params G req filter_explorer_API_ListTxs_0]
       (zero_message (''explorer'', ''ListTxsRequest'')))"

definition request_explorer_API_GetTx_0 ::
  "'c gw_runtime \<Rightarrow> ('c, 'r, 's) gw_client \<Rightarrow> 'c \<Rightarrow> http_request \<Rightarrow> path_params \<Rightarrow> (gw_error + 'r) \<times> server_md" where
  "request_explorer_API_GetTx_0 G C ctx req pp =
     remote_call C ctx ''GetTx'' (fill_all
       [path_param pp (as_string G) ''tx_hash'' ''TxHash'']
       (zero_message (''explorer'', ''GetTxRequest'')))"

definition local_request_explorer_API_GetTx_0 ::
  "'c gw_runtime \<Rightarrow> ('c, 'r) gw_server \<Rightarrow> 'c \<Rightarrow> http_request \<Rightarrow> path_params \<Rightarrow> (gw_error + 'r) \<times> server_md \<times> server_md" where
  "local_request_explorer_API_GetTx_0 G S ctx req pp =
     local_call S ctx ''GetTx'' (fill_all
       [path_param pp (as_string G) ''tx_hash'' ''TxHash'']
       (zero_message (''explorer'', ''GetTxRequest'')))"

definition request_explorer_API_ListAccountTxs_0 ::
  "'c gw_runtime \<Rightarrow> ('c, 'r, 's) gw_client \<Rightarrow> 'c \<Rightarrow> http_request \<Rightarrow> path_params \<Rightarrow> (gw_error + 'r) \<times> server_md" where
  "request_explorer_API_ListAccountTxs_0 G C ctx req pp =
     remote_call C ctx ''ListAccountTxs'' (fill_all
       [path_param pp (as_string G) ''account'' ''Account'',
        query_params G req filter_explorer_API_ListAccountTxs_0]
       (zero_message (''explorer'', ''ListAccountTxsRequest'')))"

definition local_request_explorer_API_ListAccountTxs_0 ::
  "'c gw_runtime \<Rightarrow> ('c, 'r) gw_server \<Rightarrow> 'c \<Rightarrow> http_request \<Rightarrow> path_params \<Rightarrow> (gw_error + 'r) \<times> server_md \<times> server_md" where
  "local_request_explorer_API_ListAccountTxs_0 G S ctx req pp =
     local_call S ctx ''ListAccountTxs'' (fill_all
       [path_param pp (as_string G) ''account'' ''Account'',
        query_params G req filter_explorer_API_ListAccountTxs_0]
       (zero_message (''explorer'', ''ListAccountTxsRequest'')))"

definition request_explorer_API_ListBlocks_0 ::
  "'c gw_runtime \<Rightarrow> ('c, 'r, 's) gw_client \<Rightarrow> 'c \<Rightarrow> http_request \<Rightarrow> path_params \<Rightarrow> (gw_error + 'r) \<times> server_md" where
  "request_explorer_API_ListBlocks_0 G C ctx req pp =
     remote_call C ctx ''ListBlocks'' (fill_all
       [query_params G req filter_explorer_API_ListBlocks_0]
       (zero_message (''explorer'', ''ListBlocksRequest'')))"

definition local_request_explorer_API_ListBlocks_0 ::
  "'c gw_runtime \<Rightarrow> ('c, 'r) gw_server \<Rightarrow> 'c \<Rightarrow> http_request \<Rightarrow> path_params \<Rightarrow> (gw_error + 'r) \<times> server_md \<times> server_md" where
  "local_request_explorer_API_ListBlocks_0 G S ctx req pp =
     local_call S ctx ''ListBlocks'' (fill_all
       [query_params G req filter_explorer_API_ListBlocks_0]
       (zero_message (''explorer'', ''ListBlocksRequest'')))"

definition request_explorer_API_GetBlock_0 ::
  "'c gw_runtime \<Rightarrow> ('c, 'r, 's) gw_client \<Rightarrow> 'c \<Rightarrow> http_request \<Rightarrow> path_params \<Rightarrow> (gw_error + 'r) \<times> server_md" where
  "request_explorer_API_GetBlock_0 G C ctx req pp =
     remote_call C ctx ''GetBlock'' (fill_all
       [path_param pp (as_int64 G) ''block_height'' ''BlockHeight'']
       (zero_message (''explorer'', ''GetBlockRequest'')))"

definition local_request_explorer_API_GetBlock_0 ::
  "'c gw_runtime \<Rightarrow> ('c, 'r) gw_server \<Rightarrow> 'c \<Rightarrow> http_request \<Rightarrow> path_params \<Rightarrow> (gw_error + 'r) \<times> server_md \<times> server_md" where
  "local_request_explorer_API_GetBlock_0 G S ctx req pp =
     local_call S ctx ''GetBlock'' (fill_all
       [path_param pp (as_int64 G) ''block_height'' ''BlockHeight'']
       (zero_message (''explorer'', ''GetBlockRequest'')))"

definition request_explorer_API_StreamTxs_0 ::
  "'c gw_runtime \<Rightarrow> ('c, 'r, 's) gw_client \<Rightarrow> 'c \<Rightarrow> http_request \<Rightarrow> path_params \<Rightarrow> (gw_error + 's) \<times> server_md" where
  "request_explorer_API_StreamTxs_0 G C ctx req pp =
     stream_call C ctx ''StreamTxs'' (fill_all
       [query_params G req filter_explorer_API_StreamTxs_0]
       (zero_message (''explorer'', ''StreamTxsRequest'')))"

definition request_explorer_API_StreamBlocks_0 ::
  "'c gw_runtime \<Rightarrow> ('c, 'r, 's) gw_client \<Rightarrow> 'c \<Rightarrow> http_request \<Rightarrow> path_params \<Rightarrow> (gw_error + 's) \<times> server_md" where
  "request_explorer_API_StreamBlocks_0 G C ctx req pp =
     stream_call C ctx ''StreamBlocks'' (fill_all
       []
       (zero_message (''explorer'', ''StreamBlocksRequest'')))"

definition request_explorer_API_ListContracts_0 ::
  "'c gw_runtime \<Rightarrow> ('c, 'r, 's) gw_client \<Rightarrow> 'c \<Rightarrow> http_request \<Rightarrow> path_params \<Rightarrow> (gw_error + 'r) \<times> server_md" where
  "request_explorer_API_ListContracts_0 G C ctx req pp =
     remote_call C ctx ''ListContracts'' (fill_all
       [query_params G req filter_explorer_API_ListContracts_0]
       (zero_message (''explorer'', ''ListContractsRequest'')))"

definition local_request_explorer_API_ListContracts_0 ::
  "'c gw_runtime \<Rightarrow> ('c, 'r) gw_server \<Rightarrow> 'c \<Rightarrow> http_request \<Rightarrow> path_params \<Rightarrow> (gw_error + 'r) \<times> server_md \<times> server_md" where
  "local_request_explorer_API_ListContracts_0 G S ctx req pp =
     local_call S ctx ''ListContracts'' (fill_all
       [query_params G req filter_explorer_API_ListContracts_0]
       (zero_message (''explorer'', ''ListContractsRequest'')))"

definition request_explorer_API_GetContract_0 ::
  "'c gw_runtime \<Rightarrow> ('c, 'r, 's) gw_client \<Rightarrow> 'c \<Rightarrow> http_request \<Rightarrow> path_params \<Rightarrow> (gw_error + 'r) \<times> server_md" where
  "request_explorer_API_GetContract_0 G C ctx req pp =
     remote_call C ctx ''GetContract'' (fill_all
       [path_param pp (as_string G) ''address'' ''Address'',
        query_params G req filter_explorer_API_GetContract_0]
       (zero_message (''explorer'', ''GetContractRequest'')))"

definition local_request_explorer_API_GetContract_0 ::
  "'c gw_runtime \<Rightarrow> ('c, 'r) gw_server \<Rightarrow> 'c \<Rightarrow> http_request \<Rightarrow> path_params \<Rightarrow> (gw_error + 'r) \<times> server_md \<times> server_md" where
  "local_request_explorer_API_GetContract_0 G S ctx req pp =
     local_call S ctx ''GetContract'' (fill_all
       [path_param pp (as_string G) ''address'' ''Address'',
        query_params G req filter_explorer_API_GetContract_0]
       (zero_message (''explorer'', ''GetContractRequest'')))"

definition request_explorer_API_StreamContract_0 ::
  "'c gw_runtime \<Rightarrow> ('c, 'r, 's) gw_client \<Rightarrow> 'c \<Rightarrow> http_request \<Rightarrow> path_params \<Rightarrow> (gw_error + 's) \<times> server_md" where
  "request_explorer_API_StreamContract_0 G C ctx req pp =
     stream_call C ctx ''StreamContract'' (fill_all
       [query_params G req filter_explorer_API_StreamContract_0]
       (zero_message (''explorer'', ''StreamContractRequest'')))"

definition request_explorer_API_ListDumpsadCoins_0 ::
  "'c gw_runtime \<Rightarrow> ('c, 'r, 's) gw_client \<Rightarrow> 'c \<Rightarrow> http_request \<Rightarrow> path_params \<Rightarrow> (gw_error + 'r) \<times> server_md" where
  "request_explorer_API_ListDumpsadCoins_0 G C ctx req pp =
     remote_call C ctx ''ListDumpsadCoins'' (fill_all
       [query_params G req filter_explorer_API_ListDumpsadCoins_0]
       (zero_message (''explorer'', ''ListDumpsadCoinsRequest'')))"

definition local_request_explorer_API_ListDumpsadCoins_0 ::
  "'c gw_runtime \<Rightarrow> ('c, 'r) gw_server \<Rightarrow> 'c \<Rightarrow> http_request \<Rightarrow> path_params \<Rightarrow> (gw_error + 'r) \<times> server_md \<times> server_md" where
  "local_request_explorer_API_ListDumpsadCoins_0 G S ctx req pp =
     local_call S ctx ''ListDumpsadCoins'' (fill_all
       [query_params G req filter_explorer_API_ListDumpsadCoins_0]
       (zero_message (''explorer'', ''ListDumpsadCoinsRequest'')))"

definition request_explorer_API_StreamDumpsadCoins_0 ::
  "'c gw_runtime \<Rightarrow> ('c, 'r, 's) gw_client \<Rightarrow> 'c \<Rightarrow> http_request \<Rightarrow> path_params \<Rightarrow> (gw_error + 's) \<times> server_md" where
  "request_explorer_API_StreamDumpsadCoins_0 G C ctx req pp =
     stream_call C ctx ''StreamDumpsadCoins'' (fill_all
       [query_params G req filter_explorer_API_StreamDumpsadCoins_0]
       (zero_message (''explorer'', ''StreamDumpsadCoinsRequest'')))"

definition request_explorer_API_ListDumpsadTrades_0 ::
  "'c gw_runtime \<Rightarrow> ('c, 'r, 's) gw_client \<Rightarrow> 'c \<Rightarrow> http_request \<Rightarrow> path_params \<Rightarrow> (gw_error + 'r) \<times> server_md" where
  "request_explorer_API_ListDumpsadTrades_0 G C ctx req pp =
     remote_call C ctx ''ListDumpsadTrades'' (fill_all
       [query_params G req filter_explorer_API_ListDumpsadTrades_0]
       (zero_message (''explorer'', ''ListDumpsadTradesRequest'')))"

definition local_request_explorer_API_ListDumpsadTrades_0 ::
  "'c gw_runtime \<Rightarrow> ('c, 'r) gw_server \<Rightarrow> 'c \<Rightarrow> http_request \<Rightarrow> path_params \<Rightarrow> (gw_error + 'r) \<times> server_md \<times> server_md" where
  "local_request_explorer_API_ListDumpsadTrades_0 G S ctx req pp =
     local_call S ctx ''ListDumpsadTrades'' (fill_all
       [query_params G req filter_explorer_API_ListDumpsadTrades_0]
       (zero_message (''explorer'', ''ListDumpsadTradesRequest'')))"

definition request_explorer_API_StreamDumpsadTrades_0 ::
  "'c gw_runtime \<Rightarrow> ('c, 'r, 's) gw_client \<Rightarrow> 'c \<Rightarrow> http_request \<Rightarrow> path_params \<Rightarrow> (gw_error + 's) \<times> server_md" where
  "request_explorer_API_StreamDumpsadTrades_0 G C ctx req pp =
     stream_call C ctx ''StreamDumpsadTrades'' (fill_all
       [query_params G req filter_explorer_API_StreamDumpsadTrades_0]
       (zero_message (''explorer'', ''StreamDumpsadTradesRequest'')))"

definition pattern_explorer_API_ListEvmContracts_0 :: url_pattern where
  "pattern_explorer_API_ListEvmContracts_0 = \<lparr>up_version = 1, up_ops = [2, 0, 2, 1, 2, 2, 2, 3],
     up_pool = [''explorer'', ''v1'', ''evm'', ''contracts''], up_verb = []\<rparr>"

definition pattern_explorer_API_Balances_0 :: url_pattern where
  "pattern_explorer_API_Balances_0 = \<lparr>up_version = 1, up_ops = [2, 0, 2, 1, 2, 2, 1, 0, 4, 1, 5, 3],
     up_pool = [''explorer'', ''v1'', ''balances'', ''address''], up_verb = []\<rparr>"

definition pattern_explorer_API_ListStrategies_0 :: url_pattern where
  "pattern_explorer_API_ListStrategies_0 = \<lparr>up_version = 1, up_ops = [2, 0, 2, 1, 2, 2],
     up_pool = [''explorer'', ''v1'', ''strategies''], up_verb = []\<rparr>"

definition pattern_explorer_API_ListStrategiesByOwner_0 :: url_pattern where
  "pattern_explorer_API_ListStrategiesByOwner_0 = \<lparr>up_version = 1, up_ops = [2, 0, 2, 1, 2, 2, 1, 0, 4, 1, 5, 3],
     up_pool = [''explorer'', ''v1'', ''strategies'', ''owner''], up_verb = []\<rparr>"

definition pattern_explorer_API_GetMetrics_0 :: url_pattern where
  "pattern_explorer_API_GetMetrics_0 = \<lparr>up_version = 1, up_ops = [2, 0, 2, 1, 2, 2],
     up_pool = [''explorer'', ''v1'', ''metrics''], up_verb = []\<rparr>"

definition pattern_explorer_API_ListStrategyTriggersById_0 :: url_pattern where
  "pattern_explorer_API_ListStrategyTriggersById_0 = \<lparr>up_version = 1, up_ops = [2, 0, 2, 1, 2, 2, 1, 0, 4, 1, 5, 3, 2, 4],
     up_pool = [''explorer'', ''v1'', ''strategy'', ''id'', ''triggers''], up_verb = []\<rparr>"

definition pattern_explorer_API_ListTokenMetadata_0 :: url_pattern where
  "pattern_explorer_API_ListTokenMetadata_0 = \<lparr>up_version = 1, up_ops = [2, 0, 2, 1, 2, 2],
     up_pool = [''explorer'', ''v1'', ''token_metadata''], up_verb = []\<rparr>"

definition pattern_explorer_API_ListSvmAccountLinks_0 :: url_pattern where
  "pattern_explorer_API_ListSvmAccountLinks_0 = \<lparr>up_version = 1, up_ops = [2, 0, 2, 1, 2, 2, 2, 3],
     up_pool = [''explorer'', ''v1'', ''svm'', ''account_links''], up_verb = []\<rparr>"

definition pattern_explorer_API_StreamBalances_0 :: url_pattern where
  "pattern_explorer_API_StreamBalances_0 = \<lparr>up_version = 1, up_ops = [2, 0, 2, 1, 2, 2],
     up_pool = [''explorer'', ''v1'', ''stream_balances''], up_verb = []\<rparr>"

definition pattern_explorer_API_StreamStrategyTriggers_0 :: url_pattern where
  "pattern_explorer_API_StreamStrategyTriggers_0 = \<lparr>up_version = 1, up_ops = [2, 0, 2, 1, 2, 2, 1, 0, 4, 1, 5, 3, 2, 4],
     up_pool = [''explorer'', ''v1'', ''strategy'', ''id'', ''stream_triggers''], up_verb = []\<rparr>"

definition pattern_explorer_API_StreamStrategies_0 :: url_pattern where
  "pattern_explorer_API_StreamStrategies_0 = \<lparr>up_version = 1, up_ops = [2, 0, 2, 1, 2, 2, 2, 3],
     up_pool = [''explorer'', ''v1'', ''strategy'', ''stream_strategies''], up_verb = []\<rparr>"

definition pattern_explorer_API_StreamTokenMetadata_0 :: url_pattern where
  "pattern_explorer_API_StreamTokenMetadata_0 = \<lparr>up_version = 1, up_ops = [2, 0, 2, 1, 2, 2],
     up_pool = [''explorer'', ''v1'', ''stream_token_metadata''], up_verb = []\<rparr>"

definition pattern_explorer_API_StreamSvmAccountLink_0 :: url_pattern where
  "pattern_explorer_API_StreamSvmAccountLink_0 = \<lparr>up_version = 1, up_ops = [2, 0, 2, 1, 2, 2, 2, 3],
     up_pool = [''explorer'', ''v1'', ''svm'', ''stream_account_link''], up_verb = []\<rparr>"

definition pattern_explorer_API_ListDriftOrders_0 :: url_pattern where
  "pattern_explorer_API_ListDriftOrders_0 = \<lparr>up_version = 1, up_ops = [2, 0, 2, 1, 2, 2, 2, 3],
     up_pool = [''explorer'', ''v1'', ''drift'', ''orders''], up_verb = []\<rparr>"

definition pattern_explorer_API_ListFillableDriftJITOrders_0 :: url_pattern where
  "pattern_explorer_API_ListFillableDriftJITOrders_0 = \<lparr>up_version = 1, up_ops = [2, 0, 2, 1, 2, 2, 2, 3],
     up_pool = [''explorer'', ''v1'', ''drift'', ''fillable_orders''], up_verb = []\<rparr>"

definition pattern_explorer_API_StreamDriftOrders_0 :: url_pattern where
  "pattern_explorer_API_StreamDriftOrders_0 = \<lparr>up_version = 1, up_ops = [2, 0, 2, 1, 2, 2, 2, 3],
     up_pool = [''explorer'', ''v1'', ''drift'', ''stream_orders''], up_verb = []\<rparr>"

definition pattern_explorer_API_ListTxs_0 :: url_pattern where
  "pattern_explorer_API_ListTxs_0 = \<lparr>up_version = 1, up_ops = [2, 0, 2, 1, 2, 2],
     up_pool = [''explorer'', ''v1'', ''txs''], up_verb = []\<rparr>"

definition pattern_explorer_API_GetTx_0 :: url_pattern where
  "pattern_explorer_API_GetTx_0 = \<lparr>up_version = 1, up_ops = [2, 0, 2, 1, 2, 2, 1, 0, 4, 1, 5, 3],
     up_pool = [''explorer'', ''v1'', ''tx'', ''tx_hash''], up_verb = []\<rparr>"

definition pattern_explorer_API_ListAccountTxs_0 :: url_pattern where
  "pattern_explorer_API_ListAccountTxs_0 = \<lparr>up_version = 1, up_ops = [2, 0, 2, 1, 2, 2, 1, 0, 4, 1, 5, 2, 2, 3],
     up_pool = [''explorer'', ''v1'', ''account'', ''txs''], up_verb = []\<rparr>"

definition pattern_explorer_API_ListBlocks_0 :: url_pattern where
  "pattern_explorer_API_ListBlocks_0 = \<lparr>up_version = 1, up_ops = [2, 0, 2, 1, 2, 2],
     up_pool = [''explorer'', ''v1'', ''blocks''], up_verb = []\<rparr>"

definition pattern_explorer_API_GetBlock_0 :: url_pattern where
  "pattern_explorer_API_GetBlock_0 = \<lparr>up_version = 1, up_ops = [2, 0, 2, 1, 2, 2, 1, 0, 4, 1, 5, 3],
     up_pool = [''explorer'', ''v1'', ''block'', ''block_height''], up_verb = []\<rparr>"

definition pattern_explorer_API_StreamTxs_0 :: url_pattern where
  "pattern_explorer_API_StreamTxs_0 = \<lparr>up_version = 1, up_ops = [2, 0, 2, 1, 2, 2],
     up_pool = [''explorer'', ''v1'', ''stream_txs''], up_verb = []\<rparr>"

definition pattern_explorer_API_StreamBlocks_0 :: url_pattern where
  "pattern_explorer_API_StreamBlocks_0 = \<lparr>up_version = 1, up_ops = [2, 0, 2, 1, 2, 2],
     up_pool = [''explorer'', ''v1'', ''stream_blocks''], up_verb = []\<rparr>"

definition pattern_explorer_API_ListContracts_0 :: url_pattern where
  "pattern_explorer_API_ListContracts_0 = \<lparr>up_version = 1, up_ops = [2, 0, 2, 1, 2, 2],
     up_pool = [''explorer'', ''v1'', ''contracts''], up_verb = []\<rparr>"

definition pattern_explorer_API_GetContract_0 :: url_pattern where
  "pattern_explorer_API_GetContract_0 = \<lparr>up_version = 1, up_ops = [2, 0, 2, 1, 2, 2, 1, 0, 4, 1, 5, 3],
     up_pool = [''explorer'', ''v1'', ''contract'', ''address''], up_verb = []\<rparr>"

definition pattern_explorer_API_StreamContract_0 :: url_pattern where
  "pattern_explorer_API_StreamContract_0 = \<lparr>up_version = 1, up_ops = [2, 0, 2, 1, 2, 2],
     up_pool = [''explorer'', ''v1'', ''stream_contracts''], up_verb = []\<rparr>"

definition pattern_explorer_API_ListDumpsadCoins_0 :: url_pattern where
  "pattern_explorer_API_ListDumpsadCoins_0 = \<lparr>up_version = 1, up_ops = [2, 0, 2, 1, 2, 2],
     up_pool = [''explorer'', ''v1'', ''dumpsad_coins''], up_verb = []\<rparr>"

definition pattern_explorer_API_StreamDumpsadCoins_0 :: url_pattern where
  "pattern_explorer_API_StreamDumpsadCoins_0 = \<lparr>up_version = 1, up_ops = [2, 0, 2, 1, 2, 2],
     up_pool = [''explorer'', ''v1'', ''stream_dumpsad_coins''], up_verb = []\<rparr>"

definition pattern_explorer_API_ListDumpsadTrades_0 :: url_pattern where
  "pattern_explorer_API_ListDumpsadTrades_0 = \<lparr>up_version = 1, up_ops = [2, 0, 2, 1, 2, 2],
     up_pool = [''explorer'', ''v1'', ''dumpsad_trades''], up_verb = []\<rparr>"

definition pattern_explorer_API_StreamDumpsadTrades_0 :: url_pattern where
  "pattern_explorer_API_StreamDumpsadTrades_0 = \<lparr>up_version = 1, up_ops = [2, 0, 2, 1, 2, 2],
     up_pool = [''explorer'', ''v1'', ''stream_dumpsad_trades''], up_verb = []\<rparr>"

definition server_route_explorer_API_ListEvmContracts_0 :: "'c gw_runtime \<Rightarrow> ('c, 'r) gw_server \<Rightarrow> ('r, 's) route" where
  "server_route_explorer_API_ListEvmContracts_0 G S =
     \<lparr>gr_method = ''GET'', gr_pattern = pattern_explorer_API_ListEvmContracts_0, gr_handler = serve_local G (local_request_explorer_API_ListEvmContracts_0 G S)\<rparr>"

definition server_route_explorer_API_Balances_0 :: "'c gw_runtime \<Rightarrow> ('c, 'r) gw_server \<Rightarrow> ('r, 's) route" where
  "server_route_explorer_API_Balances_0 G S =
     \<lparr>gr_method = ''GET'', gr_pattern = pattern_explorer_API_Balances_0, gr_handler = serve_local G (local_request_explorer_API_Balances_0 G S)\<rparr>"

definition server_route_explorer_API_ListStrategies_0 :: "'c gw_runtime \<Rightarrow> ('c, 'r) gw_server \<Rightarrow> ('r, 's) route" where
  "server_route_explorer_API_ListStrategies_0 G S =
     \<lparr>gr_method = ''GET'', gr_pattern = pattern_explorer_API_ListStrategies_0, gr_handler = serve_local G (local_request_explorer_API_ListStrategies_0 G S)\<rparr>"

definition server_route_explorer_API_ListStrategiesByOwner_0 :: "'c gw_runtime \<Rightarrow> ('c, 'r) gw_server \<Rightarrow> ('r, 's) route" where
  "server_route_explorer_API_ListStrategiesByOwner_0 G S =
     \<lparr>gr_method = ''GET'', gr_pattern = pattern_explorer_API_ListStrategiesByOwner_0, gr_handler = serve_local G (local_request_explorer_API_ListStrategiesByOwner_0 G S)\<rparr>"

definition server_route_explorer_API_GetMetrics_0 :: "'c gw_runtime \<Rightarrow> ('c, 'r) gw_server \<Rightarrow> ('r, 's) route" where
  "server_route_explorer_API_GetMetrics_0 G S =
     \<lparr>gr_method = ''GET'', gr_pattern = pattern_explorer_API_GetMetrics_0, gr_handler = serve_local G (local_request_explorer_API_GetMetrics_0 G S)\<rparr>"

definition server_route_explorer_API_ListStrategyTriggersById_0 :: "'c gw_runtime \<Rightarrow> ('c, 'r) gw_server \<Rightarrow> ('r, 's) route" where
  "server_route_explorer_API_ListStrategyTriggersById_0 G S =
     \<lparr>gr_method = ''GET'', gr_pattern = pattern_explorer_API_ListStrategyTriggersById_0, gr_handler = serve_local G (local_request_explorer_API_ListStrategyTriggersById_0 G S)\<rparr>"

definition server_route_explorer_API_ListTokenMetadata_0 :: "'c gw_runtime \<Rightarrow> ('c, 'r) gw_server \<Rightarrow> ('r, 's) route" where
  "server_route_explorer_API_ListTokenMetadata_0 G S =
     \<lparr>gr_method = ''GET'', gr_pattern = pattern_explorer_API_ListTokenMetadata_0, gr_handler = serve_local G (local_request_explorer_API_ListTokenMetadata_0 G S)\<rparr>"

definition server_route_explorer_API_ListSvmAccountLinks_0 :: "'c gw_runtime \<Rightarrow> ('c, 'r) gw_server \<Rightarrow> ('r, 's) route" where
  "server_route_explorer_API_ListSvmAccountLinks_0 G S =
     \<lparr>gr_method = ''GET'', gr_pattern = pattern_explorer_API_ListSvmAccountLinks_0, gr_handler = serve_local G (local_request_explorer_API_ListSvmAccountLinks_0 G S)\<rparr>"

definition server_route_explorer_API_StreamBalances_0 :: "('r, 's) route" where
  "server_route_explorer_API_StreamBalances_0 =
     \<lparr>gr_method = ''GET'', gr_pattern = pattern_explorer_API_StreamBalances_0, gr_handler = not_streamed\<rparr>"

definition server_route_explorer_API_StreamStrategyTriggers_0 :: "('r, 's) route" where
  "server_route_explorer_API_StreamStrategyTriggers_0 =
     \<lparr>gr_method = ''GET'', gr_pattern = pattern_explorer_API_StreamStrategyTriggers_0, gr_handler = not_streamed\<rparr>"

definition server_route_explorer_API_StreamStrategies_0 :: "('r, 's) route" where
  "server_route_explorer_API_StreamStrategies_0 =
     \<lparr>gr_method = ''GET'', gr_pattern = pattern_explorer_API_StreamStrategies_0, gr_handler = not_streamed\<rparr>"

definition server_route_explorer_API_StreamTokenMetadata_0 :: "('r, 's) route" where
  "server_route_explorer_API_StreamTokenMetadata_0 =
     \<lparr>gr_method = ''GET'', gr_pattern = pattern_explorer_API_StreamTokenMetadata_0, gr_handler = not_streamed\<rparr>"

definition server_route_explorer_API_StreamSvmAccountLink_0 :: "('r, 's) route" where
  "server_route_explorer_API_StreamSvmAccountLink_0 =
     \<lparr>gr_method = ''GET'', gr_pattern = pattern_explorer_API_StreamSvmAccountLink_0, gr_handler = not_streamed\<rparr>"

definition server_route_explorer_API_ListDriftOrders_0 :: "'c gw_runtime \<Rightarrow> ('c, 'r) gw_server \<Rightarrow> ('r, 's) route" where
  "server_route_explorer_API_ListDriftOrders_0 G S =
     \<lparr>gr_method = ''GET'', gr_pattern = pattern_explorer_API_ListDriftOrders_0, gr_handler = serve_local G (local_request_explorer_API_ListDriftOrders_0 G S)\<rparr>"

definition server_route_explorer_API_ListFillableDriftJITOrders_0 :: "'c gw_runtime \<Rightarrow> ('c, 'r) gw_server \<Rightarrow> ('r, 's) route" where
  "server_route_explorer_API_ListFillableDriftJITOrders_0 G S =
     \<lparr>gr_method = ''GET'', gr_pattern = pattern_explorer_API_ListFillableDriftJITOrders_0, gr_handler = serve_local G (local_request_explorer_API_ListFillableDriftJITOrders_0 G S)\<rparr>"

definition server_route_explorer_API_StreamDriftOrders_0 :: "('r, 's) route" where
  "server_route_explorer_API_StreamDriftOrders_0 =
     \<lparr>gr_method = ''GET'', gr_pattern = pattern_explorer_API_StreamDriftOrders_0, gr_handler = not_streamed\<rparr>"

definition server_route_explorer_API_ListTxs_0 :: "'c gw_runtime \<Rightarrow> ('c, 'r) gw_server \<Rightarrow> ('r, 's) route" where
  "server_route_explorer_API_ListTxs_0 G S =
     \<lparr>gr_method = ''GET'', gr_pattern = pattern_explorer_API_ListTxs_0, gr_handler = serve_local G (local_request_explorer_API_ListTxs_0 G S)\<rparr>"

definition server_route_explorer_API_GetTx_0 :: "'c gw_runtime \<Rightarrow> ('c, 'r) gw_server \<Rightarrow> ('r, 's) route" where
  "server_route_explorer_API_GetTx_0 G S =
     \<lparr>gr_method = ''GET'', gr_pattern = pattern_explorer_API_GetTx_0, gr_handler = serve_local G (local_request_explorer_API_GetTx_0 G S)\<rparr>"

definition server_route_explorer_API_ListAccountTxs_0 :: "'c gw_runtime \<Rightarrow> ('c, 'r) gw_server \<Rightarrow> ('r, 's) route" where
  "server_route_explorer_API_ListAccountTxs_0 G S =
     \<lparr>gr_method = ''GET'', gr_pattern = pattern_explorer_API_ListAccountTxs_0, gr_handler = serve_local G (local_request_explorer_API_ListAccountTxs_0 G S)\<rparr>"

definition server_route_explorer_API_ListBlocks_0 :: "'c gw_runtime \<Rightarrow> ('c, 'r) gw_server \<Rightarrow> ('r, 's) route" where
  "server_route_explorer_API_ListBlocks_0 G S =
     \<lparr>gr_method = ''GET'', gr_pattern = pattern_explorer_API_ListBlocks_0, gr_handler = serve_local G (local_request_explorer_API_ListBlocks_0 G S)\<rparr>"

definition server_route_explorer_API_GetBlock_0 :: "'c gw_runtime \<Rightarrow> ('c, 'r) gw_server \<Rightarrow> ('r, 's) route" where
  "server_route_explorer_API_GetBlock_0 G S =
     \<lparr>gr_method = ''GET'', gr_pattern = pattern_explorer_API_GetBlock_0, gr_handler = serve_local G (local_request_explorer_API_GetBlock_0 G S)\<rparr>"

definition server_route_explorer_API_StreamTxs_0 :: "('r, 's) route" where
  "server_route_explorer_API_StreamTxs_0 =
     \<lparr>gr_method = ''GET'', gr_pattern = pattern_explorer_API_StreamTxs_0, gr_handler = not_streamed\<rparr>"

definition server_route_explorer_API_StreamBlocks_0 :: "('r, 's) route" where
  "server_route_explorer_API_StreamBlocks_0 =
     \<lparr>gr_method = ''GET'', gr_pattern = pattern_explorer_API_StreamBlocks_0, gr_handler = not_streamed\<rparr>"

definition server_route_explorer_API_ListContracts_0 :: "'c gw_runtime \<Rightarrow> ('c, 'r) gw_server \<Rightarrow> ('r, 's) route" where
  "server_route_explorer_API_ListContracts_0 G S =
     \<lparr>gr_method = ''GET'', gr_pattern = pattern_explorer_API_ListContracts_0, gr_handler = serve_local G (local_request_explorer_API_ListContracts_0 G S)\<rparr>"

definition server_route_explorer_API_GetContract_0 :: "'c gw_runtime \<Rightarrow> ('c, 'r) gw_server \<Rightarrow> ('r, 's) route" where
  "server_route_explorer_API_GetContract_0 G S =
     \<lparr>gr_method = ''GET'', gr_pattern = pattern_explorer_API_GetContract_0, gr_handler = serve_local G (local_request_explorer_API_GetContract_0 G S)\<rparr>"

definition server_route_explorer_API_StreamContract_0 :: "('r, 's) route" where
  "server_route_explorer_API_StreamContract_0 =
     \<lparr>gr_method = ''GET'', gr_pattern = pattern_explorer_API_StreamContract_0, gr_handler = not_streamed\<rparr>"

definition server_route_explorer_API_ListDumpsadCoins_0 :: "'c gw_runtime \<Rightarrow> ('c, 'r) gw_server \<Rightarrow> ('r, 's) route" where
  "server_route_explorer_API_ListDumpsadCoins_0 G S =
     \<lparr>gr_method = ''GET'', gr_pattern = pattern_explorer_API_ListDumpsadCoins_0, gr_handler = serve_local G (local_request_explorer_API_ListDumpsadCoins_0 G S)\<rparr>"

definition server_route_explorer_API_StreamDumpsadCoins_0 :: "('r, 's) route" where
  "server_route_explorer_API_StreamDumpsadCoins_0 =
     \<lparr>gr_method = ''GET'', gr_pattern = pattern_explorer_API_StreamDumpsadCoins_0, gr_handler = not_streamed\<rparr>"

definition server_route_explorer_API_ListDumpsadTrades_0 :: "'c gw_runtime \<Rightarrow> ('c, 'r) gw_server \<Rightarrow> ('r, 's) route" where
  "server_route_explorer_API_ListDumpsadTrades_0 G S =
     \<lparr>gr_method = ''GET'', gr_pattern = pattern_explorer_API_ListDumpsadTrades_0, gr_handler = serve_local G (local_request_explorer_API_ListDumpsadTrades_0 G S)\<rparr>"

definition server_route_explorer_API_StreamDumpsadTrades_0 :: "('r, 's) route" where
  "server_route_explorer_API_StreamDumpsadTrades_0 =
     \<lparr>gr_method = ''GET'', gr_pattern = pattern_explorer_API_StreamDumpsadTrades_0, gr_handler = not_streamed\<rparr>"

definition register_explorer_APIHandlerServer ::
  "'c gw_runtime \<Rightarrow> ('c, 'r) gw_server \<Rightarrow> ('r, 's) route list \<Rightarrow> gw_error + ('r, 's) route list" where
  "register_explorer_APIHandlerServer G S mux = Inr (foldl handle_route mux
     [server_route_explorer_API_ListEvmContracts_0 G S,
      server_route_explorer_API_Balances_0 G S,
      server_route_explorer_API_ListStrategies_0 G S,
      server_route_explorer_API_ListStrategiesByOwner_0 G S,
      server_route_explorer_API_GetMetrics_0 G S,
      server_route_explorer_API_ListStrategyTriggersById_0 G S,
      server_route_explorer_API_ListTokenMetadata_0 G S,
      server_route_explorer_API_ListSvmAccountLinks_0 G S,
      server_route_explorer_API_StreamBalances_0,
      server_route_explorer_API_StreamStrategyTriggers_0,
      server_route_explorer_API_StreamStrategies_0,
      server_route_explorer_API_StreamTokenMetadata_0,
      server_route_explorer_API_StreamSvmAccountLink_0,
      server_route_explorer_API_ListDriftOrders_0 G S,
      server_route_explorer_API_ListFillableDriftJITOrders_0 G S,
      server_route_explorer_API_StreamDriftOrders_0,
      server_route_explorer_API_ListTxs_0 G S,
      server_route_explorer_API_GetTx_0 G S,
      server_route_explorer_API_ListAccountTxs_0 G S,
      server_route_explorer_API_ListBlocks_0 G S,
      server_route_explorer_API_GetBlock_0 G S,
      server_route_explorer_API_StreamTxs_0,
      server_route_explorer_API_StreamBlocks_0,
      server_route_explorer_API_ListContracts_0 G S,
      server_route_explorer_API_GetContract_0 G S,
      server_route_explorer_API_StreamContract_0,
      server_route_explorer_API_ListDumpsadCoins_0 G S,
      server_route_explorer_API_StreamDumpsadCoins_0,
      server_route_explorer_API_ListDumpsadTrades_0 G S,
      server_route_explorer_API_StreamDumpsadTrades_0])"

definition client_route_explorer_API_ListEvmContracts_0 :: "'c gw_runtime \<Rightarrow> ('c, 'r, 's) gw_client \<Rightarrow> ('r, 's) route" where
  "client_route_explorer_API_ListEvmContracts_0 G C =
     \<lparr>gr_method = ''GET'', gr_pattern = pattern_explorer_API_ListEvmContracts_0, gr_handler = serve_client G (request_explorer_API_ListEvmContracts_0 G C)\<rparr>"

definition client_route_explorer_API_Balances_0 :: "'c gw_runtime \<Rightarrow> ('c, 'r, 's) gw_client \<Rightarrow> ('r, 's) route" where
  "client_route_explorer_API_Balances_0 G C =
     \<lparr>gr_method = ''GET'', gr_pattern = pattern_explorer_API_Balances_0, gr_handler = serve_client G (request_explorer_API_Balances_0 G C)\<rparr>"

definition client_route_explorer_API_ListStrategies_0 :: "'c gw_runtime \<Rightarrow> ('c, 'r, 's) gw_client \<Rightarrow> ('r, 's) route" where
  "client_route_explorer_API_ListStrategies_0 G C =
     \<lparr>gr_method = ''GET'', gr_pattern = pattern_explorer_API_ListStrategies_0, gr_handler = serve_client G (request_explorer_API_ListStrategies_0 G C)\<rparr>"

definition client_route_explorer_API_ListStrategiesByOwner_0 :: "'c gw_runtime \<Rightarrow> ('c, 'r, 's) gw_client \<Rightarrow> ('r, 's) route" where
  "client_route_explorer_API_ListStrategiesByOwner_0 G C =
     \<lparr>gr_method = ''GET'', gr_pattern = pattern_explorer_API_ListStrategiesByOwner_0, gr_handler = serve_client G (request_explorer_API_ListStrategiesByOwner_0 G C)\<rparr>"

definition client_route_explorer_API_GetMetrics_0 :: "'c gw_runtime \<Rightarrow> ('c, 'r, 's) gw_client \<Rightarrow> ('r, 's) route" where
  "client_route_explorer_API_GetMetrics_0 G C =
     \<lparr>gr_method = ''GET'', gr_pattern = pattern_explorer_API_GetMetrics_0, gr_handler = serve_client G (request_explorer_API_GetMetrics_0 G C)\<rparr>"

definition client_route_explorer_API_ListStrategyTriggersById_0 :: "'c gw_runtime \<Rightarrow> ('c, 'r, 's) gw_client \<Rightarrow> ('r, 's) route" where
  "client_route_explorer_API_ListStrategyTriggersById_0 G C =
     \<lparr>gr_method = ''GET'', gr_pattern = pattern_explorer_API_ListStrategyTriggersById_0, gr_handler = serve_client G (request_explorer_API_ListStrategyTriggersById_0 G C)\<rparr>"

definition client_route_explorer_API_ListTokenMetadata_0 :: "'c gw_runtime \<Rightarrow> ('c, 'r, 's) gw_client \<Rightarrow> ('r, 's) route" where
  "client_route_explorer_API_ListTokenMetadata_0 G C =
     \<lparr>gr_method = ''GET'', gr_pattern = pattern_explorer_API_ListTokenMetadata_0, gr_handler = serve_client G (request_explorer_API_ListTokenMetadata_0 G C)\<rparr>"

definition client_route_explorer_API_ListSvmAccountLinks_0 :: "'c gw_runtime \<Rightarrow> ('c, 'r, 's) gw_client \<Rightarrow> ('r, 's) route" where
  "client_route_explorer_API_ListSvmAccountLinks_0 G C =
     \<lparr>gr_method = ''GET'', gr_pattern = pattern_explorer_API_ListSvmAccountLinks_0, gr_handler = serve_client G (request_explorer_API_ListSvmAccountLinks_0 G C)\<rparr>"

definition client_route_explorer_API_StreamBalances_0 :: "'c gw_runtime \<Rightarrow> ('c, 'r, 's) gw_client \<Rightarrow> ('r, 's) route" where
  "client_route_explorer_API_StreamBalances_0 G C =
     \<lparr>gr_method = ''GET'', gr_pattern = pattern_explorer_API_StreamBalances_0, gr_handler = serve_client_stream G (request_explorer_API_StreamBalances_0 G C)\<rparr>"

definition client_route_explorer_API_StreamStrategyTriggers_0 :: "'c gw_runtime \<Rightarrow> ('c, 'r, 's) gw_client \<Rightarrow> ('r, 's) route" where
  "client_route_explorer_API_StreamStrategyTriggers_0 G C =
     \<lparr>gr_method = ''GET'', gr_pattern = pattern_explorer_API_StreamStrategyTriggers_0, gr_handler = serve_client_stream G (request_explorer_API_StreamStrategyTriggers_0 G C)\<rparr>"

definition client_route_explorer_API_StreamStrategies_0 :: "'c gw_runtime \<Rightarrow> ('c, 'r, 's) gw_client \<Rightarrow> ('r, 's) route" where
  "client_route_explorer_API_StreamStrategies_0 G C =
     \<lparr>gr_method = ''GET'', gr_pattern = pattern_explorer_API_StreamStrategies_0, gr_handler = serve_client_stream G (request_explorer_API_StreamStrategies_0 G C)\<rparr>"

definition client_route_explorer_API_StreamTokenMetadata_0 :: "'c gw_runtime \<Rightarrow> ('c, 'r, 's) gw_client \<Rightarrow> ('r, 's) route" where
  "client_route_explorer_API_StreamTokenMetadata_0 G C =
     \<lparr>gr_method = ''GET'', gr_pattern = pattern_explorer_API_StreamTokenMetadata_0, gr_handler = serve_client_stream G (request_explorer_API_StreamTokenMetadata_0 G C)\<rparr>"

definition client_route_explorer_API_StreamSvmAccountLink_0 :: "'c gw_runtime \<Rightarrow> ('c, 'r, 's) gw_client \<Rightarrow> ('r, 's) route" where
  "client_route_explorer_API_StreamSvmAccountLink_0 G C =
     \<lparr>gr_method = ''GET'', gr_pattern = pattern_explorer_API_StreamSvmAccountLink_0, gr_handler = serve_client_stream G (request_explorer_API_StreamSvmAccountLink_0 G C)\<rparr>"

definition client_route_explorer_API_ListDriftOrders_0 :: "'c gw_runtime \<Rightarrow> ('c, 'r, 's) gw_client \<Rightarrow> ('r, 's) route" where
  "client_route_explorer_API_ListDriftOrders_0 G C =
     \<lparr>gr_method = ''GET'', gr_pattern = pattern_explorer_API_ListDriftOrders_0, gr_handler = serve_client G (request_explorer_API_ListDriftOrders_0 G C)\<rparr>"

definition client_route_explorer_API_ListFillableDriftJITOrders_0 :: "'c gw_runtime \<Rightarrow> ('c, 'r, 's) gw_client \<Rightarrow> ('r, 's) route" where
  "client_route_explorer_API_ListFillableDriftJITOrders_0 G C =
     \<lparr>gr_method = ''GET'', gr_pattern = pattern_explorer_API_ListFillableDriftJITOrders_0, gr_handler = serve_client G (request_explorer_API_ListFillableDriftJITOrders_0 G C)\<rparr>"

definition client_route_explorer_API_StreamDriftOrders_0 :: "'c gw_runtime \<Rightarrow> ('c, 'r, 's) gw_client \<Rightarrow> ('r, 's) route" where
  "client_route_explorer_API_StreamDriftOrders_0 G C =
     \<lparr>gr_method = ''GET'', gr_pattern = pattern_explorer_API_StreamDriftOrders_0, gr_handler = serve_client_stream G (request_explorer_API_StreamDriftOrders_0 G C)\<rparr>"

definition client_route_explorer_API_ListTxs_0 :: "'c gw_runtime \<Rightarrow> ('c, 'r, 's) gw_client \<Rightarrow> ('r, 's) route" where
  "client_route_explorer_API_ListTxs_0 G C =
     \<lparr>gr_method = ''GET'', gr_pattern = pattern_explorer_API_ListTxs_0, gr_handler = serve_client G (request_explorer_API_ListTxs_0 G C)\<rparr>"

definition client_route_explorer_API_GetTx_0 :: "'c gw_runtime \<Rightarrow> ('c, 'r, 's) gw_client \<Rightarrow> ('r, 's) route" where
  "client_route_explorer_API_GetTx_0 G C =
     \<lparr>gr_method = ''GET'', gr_pattern = pattern_explorer_API_GetTx_0, gr_handler = serve_client G (request_explorer_API_GetTx_0 G C)\<rparr>"

definition client_route_explorer_API_ListAccountTxs_0 :: "'c gw_runtime \<Rightarrow> ('c, 'r, 's) gw_client \<Rightarrow> ('r, 's) route" where
  "client_route_explorer_API_ListAccountTxs_0 G C =
     \<lparr>gr_method = ''GET'', gr_pattern = pattern_explorer_API_ListAccountTxs_0, gr_handler = serve_client G (request_explorer_API_ListAccountTxs_0 G C)\<rparr>"

definition client_route_explorer_API_ListBlocks_0 :: "'c gw_runtime \<Rightarrow> ('c, 'r, 's) gw_client \<Rightarrow> ('r, 's) route" where
  "client_route_explorer_API_ListBlocks_0 G C =
     \<lparr>gr_method = ''GET'', gr_pattern = pattern_explorer_API_ListBlocks_0, gr_handler = serve_client G (request_explorer_API_ListBlocks_0 G C)\<rparr>"

definition client_route_explorer_API_GetBlock_0 :: "'c gw_runtime \<Rightarrow> ('c, 'r, 's) gw_client \<Rightarrow> ('r, 's) route" where
  "client_route_explorer_API_GetBlock_0 G C =
     \<lparr>gr_method = ''GET'', gr_pattern = pattern_explorer_API_GetBlock_0, gr_handler = serve_client G (request_explorer_API_GetBlock_0 G C)\<rparr>"

definition client_route_explorer_API_StreamTxs_0 :: "'c gw_runtime \<Rightarrow> ('c, 'r, 's) gw_client \<Rightarrow> ('r, 's) route" where
  "client_route_explorer_API_StreamTxs_0 G C =
     \<lparr>gr_method = ''GET'', gr_pattern = pattern_explorer_API_StreamTxs_0, gr_handler = serve_client_stream G (request_explorer_API_StreamTxs_0 G C)\<rparr>"

definition client_route_explorer_API_StreamBlocks_0 :: "'c gw_runtime \<Rightarrow> ('c, 'r, 's) gw_client \<Rightarrow> ('r, 's) route" where
  "client_route_explorer_API_StreamBlocks_0 G C =
     \<lparr>gr_method = ''GET'', gr_pattern = pattern_explorer_API_StreamBlocks_0, gr_handler = serve_client_stream G (request_explorer_API_StreamBlocks_0 G C)\<rparr>"

definition client_route_explorer_API_ListContracts_0 :: "'c gw_runtime \<Rightarrow> ('c, 'r, 's) gw_client \<Rightarrow> ('r, 's) route" where
  "client_route_explorer_API_ListContracts_0 G C =
     \<lparr>gr_method = ''GET'', gr_pattern = pattern_explorer_API_ListContracts_0, gr_handler = serve_client G (request_explorer_API_ListContracts_0 G C)\<rparr>"

definition client_route_explorer_API_GetContract_0 :: "'c gw_runtime \<Rightarrow> ('c, 'r, 's) gw_client \<Rightarrow> ('r, 's) route" where
  "client_route_explorer_API_GetContract_0 G C =
     \<lparr>gr_method = ''GET'', gr_pattern = pattern_explorer_API_GetContract_0, gr_handler = serve_client G (request_explorer_API_GetContract_0 G C)\<rparr>"

definition client_route_explorer_API_StreamContract_0 :: "'c gw_runtime \<Rightarrow> ('c, 'r, 's) gw_client \<Rightarrow> ('r, 's) route" where
  "client_route_explorer_API_StreamContract_0 G C =
     \<lparr>gr_method = ''GET'', gr_pattern = pattern_explorer_API_StreamContract_0, gr_handler = serve_client_stream G (request_explorer_API_StreamContract_0 G C)\<rparr>"

definition client_route_explorer_API_ListDumpsadCoins_0 :: "'c gw_runtime \<Rightarrow> ('c, 'r, 's) gw_client \<Rightarrow> ('r, 's) route" where
  "client_route_explorer_API_ListDumpsadCoins_0 G C =
     \<lparr>gr_method = ''GET'', gr_pattern = pattern_explorer_API_ListDumpsadCoins_0, gr_handler = serve_client G (request_explorer_API_ListDumpsadCoins_0 G C)\<rparr>"

definition client_route_explorer_API_StreamDumpsadCoins_0 :: "'c gw_runtime \<Rightarrow> ('c, 'r, 's) gw_client \<Rightarrow> ('r, 's) route" where
  "client_route_explorer_API_StreamDumpsadCoins_0 G C =
     \<lparr>gr_method = ''GET'', gr_pattern = pattern_explorer_API_StreamDumpsadCoins_0, gr_handler = serve_client_stream G (request_explorer_API_StreamDumpsadCoins_0 G C)\<rparr>"

definition client_route_explorer_API_ListDumpsadTrades_0 :: "'c gw_runtime \<Rightarrow> ('c, 'r, 's) gw_client \<Rightarrow> ('r, 's) route" where
  "client_route_explorer_API_ListDumpsadTrades_0 G C =
     \<lparr>gr_method = ''GET'', gr_pattern = pattern_explorer_API_ListDumpsadTrades_0, gr_handler = serve_client G (request_explorer_API_ListDumpsadTrades_0 G C)\<rparr>"

definition client_route_explorer_API_StreamDumpsadTrades_0 :: "'c gw_runtime \<Rightarrow> ('c, 'r, 's) gw_client \<Rightarrow> ('r, 's) route" where
  "client_route_explorer_API_StreamDumpsadTrades_0 G C =
     \<lparr>gr_method = ''GET'', gr_pattern = pattern_explorer_API_StreamDumpsadTrades_0, gr_handler = serve_client_stream G (request_explorer_API_StreamDumpsadTrades_0 G C)\<rparr>"

definition register_explorer_APIHandlerClient ::
  "'c gw_runtime \<Rightarrow> ('c, 'r, 's) gw_client \<Rightarrow> ('r, 's) route list \<Rightarrow> gw_error + ('r, 's) route list" where
  "register_explorer_APIHandlerClient G C mux = Inr (foldl handle_route mux
     [client_route_explorer_API_ListEvmContracts_0 G C,
      client_route_explorer_API_Balances_0 G C,
      client_route_explorer_API_ListStrategies_0 G C,
      client_route_explorer_API_ListStrategiesByOwner_0 G C,
      client_route_explorer_API_GetMetrics_0 G C,
      client_route_explorer_API_ListStrategyTriggersById_0 G C,
      client_route_explorer_API_ListTokenMetadata_0 G C,
      client_route_explorer_API_ListSvmAccountLinks_0 G C,
      client_route_explorer_API_StreamBalances_0 G C,
      client_route_explorer_API_StreamStrategyTriggers_0 G C,
      client_route_explorer_API_StreamStrategies_0 G C,
      client_route_explorer_API_StreamTokenMetadata_0 G C,
      client_route_explorer_API_StreamSvmAccountLink_0 G C,
      client_route_explorer_API_ListDriftOrders_0 G C,
      client_route_explorer_API_ListFillableDriftJITOrders_0 G C,
      client_route_explorer_API_StreamDriftOrders_0 G C,
      client_route_explorer_API_ListTxs_0 G C,
      client_route_explorer_API_GetTx_0 G C,
      client_route_explorer_API_ListAccountTxs_0 G C,
      client_route_explorer_API_ListBlocks_0 G C,
      client_route_explorer_API_GetBlock_0 G C,
      client_route_explorer_API_StreamTxs_0 G C,
      client_route_explorer_API_StreamBlocks_0 G C,
      client_route_explorer_API_ListContracts_0 G C,
      client_route_explorer_API_GetContract_0 G C,
      client_route_explorer_API_StreamContract_0 G C,
      client_route_explorer_API_ListDumpsadCoins_0 G C,
      client_route_explorer_API_StreamDumpsadCoins_0 G C,
      client_route_explorer_API_ListDumpsadTrades_0 G C,
      client_route_explorer_API_StreamDumpsadTrades_0 G C])"

definition register_explorer_APIHandler ::
  "'c gw_runtime \<Rightarrow> ('conn \<Rightarrow> ('c, 'r, 's) gw_client) \<Rightarrow> ('r, 's) route list \<Rightarrow> 'conn \<Rightarrow> gw_error + ('r, 's) route list" where
  "register_explorer_APIHandler G new_client mux conn = register_explorer_APIHandlerClient G (new_client conn) mux"

definition register_explorer_APIHandlerFromEndpoint ::
  "'c gw_runtime \<Rightarrow> ('conn \<Rightarrow> ('c, 'r, 's) gw_client) \<Rightarrow> (string \<Rightarrow> gw_error + 'conn) \<Rightarrow> ('r, 's) route list \<Rightarrow> string \<Rightarrow>
     (gw_error + ('r, 's) route list) \<times> conn_fate option" where
  "register_explorer_APIHandlerFromEndpoint G new_client dial mux endpoint =
     register_from_endpoint dial (register_explorer_APIHandler G new_client) mux endpoint"

section \<open>API (\<open>chain/indexer/provider/query.pb.gw.go\<close>)\<close>

definition request_provider_API_GetBlock_0 ::
  "'c gw_runtime \<Rightarrow> ('c, 'r, 's) gw_client \<Rightarrow> 'c \<Rightarrow> http_request \<Rightarrow> path_params \<Rightarrow> (gw_error + 'r) \<times> server_md" where
  "request_provider_API_GetBlock_0 G C ctx req pp =
     remote_call C ctx ''GetBlock'' (fill_all
       [path_param pp (as_uint64 G) ''height'' ''Height'']
       (zero_message (''provider'', ''ProviderBlockRequest'')))"

definition local_request_provider_API_GetBlock_0 ::
  "'c gw_runtime \<Rightarrow> ('c, 'r) gw_server \<Rightarrow> 'c \<Rightarrow> http_request \<Rightarrow> path_params \<Rightarrow> (gw_error + 'r) \<times> server_md \<times> server_md" where
  "local_request_provider_API_GetBlock_0 G S ctx req pp =
     local_call S ctx ''GetBlock'' (fill_all
       [path_param pp (as_uint64 G) ''height'' ''Height'']
       (zero_message (''provider'', ''ProviderBlockRequest'')))"

definition request_provider_API_StreamBlock_0 ::
  "'c gw_runtime \<Rightarrow> ('c, 'r, 's) gw_client \<Rightarrow> 'c \<Rightarrow> http_request \<Rightarrow> path_params \<Rightarrow> (gw_error + 's) \<times> server_md" where
  "request_provider_API_StreamBlock_0 G C ctx req pp =
     stream_call C ctx ''StreamBlock'' (fill_all
       [path_param pp (as_uint64 G) ''height'' ''Height'']
       (zero_message (''provider'', ''ProviderBlockRequest'')))"

definition request_provider_API_GetEvents_0 ::
  "'c gw_runtime \<Rightarrow> ('c, 'r, 's) gw_client \<Rightarrow> 'c \<Rightarrow> http_request \<Rightarrow> path_params \<Rightarrow> (gw_error + 'r) \<times> server_md" where
  "request_provider_API_GetEvents_0 G C ctx req pp =
     remote_call C ctx ''GetEvents'' (fill_all
       [path_param pp (as_uint64 G) ''height'' ''Height'',
        path_param pp (as_strings G '','') ''modules'' ''Modules'']
       (zero_message (''provider'', ''ProviderEventsRequest'')))"

definition local_request_provider_API_GetEvents_0 ::
  "'c gw_runtime \<Rightarrow> ('c, 'r) gw_server \<Rightarrow> 'c \<Rightarrow> http_request \<Rightarrow> path_params \<Rightarrow> (gw_error + 'r) \<times> server_md \<times> server_md" where
  "local_request_provider_API_GetEvents_0 G S ctx req pp =
     local_call S ctx ''GetEvents'' (fill_all
       [path_param pp (as_uint64 G) ''height'' ''Height'',
        path_param pp (as_strings G '','') ''modules'' ''Modules'']
       (zero_message (''provider'', ''ProviderEventsRequest'')))"

definition request_provider_API_StreamEvents_0 ::
  "'c gw_runtime \<Rightarrow> ('c, 'r, 's) gw_client \<Rightarrow> 'c \<Rightarrow> http_request \<Rightarrow> path_params \<Rightarrow> (gw_error + 's) \<times> server_md" where
  "request_provider_API_StreamEvents_0 G C ctx req pp =
     stream_call C ctx ''StreamEvents'' (fill_all
       [path_param pp (as_uint64 G) ''height'' ''Height'',
        path_param pp (as_strings G '','') ''modules'' ''Modules'']
       (zero_message (''provider'', ''ProviderEventsRequest'')))"

definition pattern_provider_API_GetBlock_0 :: url_pattern where
  "pattern_provider_API_GetBlock_0 = \<lparr>up_version = 1, up_ops = [2, 0, 2, 1, 2, 2, 2, 3, 1, 0, 4, 1, 5, 4],
     up_pool = [''flux'', ''indexer'', ''provider'', ''block'', ''height''], up_verb = []\<rparr>"

definition pattern_provider_API_StreamBlock_0 :: url_pattern where
  "pattern_provider_API_StreamBlock_0 = \<lparr>up_version = 1, up_ops = [2, 0, 2, 1, 2, 2, 2, 3, 1, 0, 4, 1, 5, 4],
     up_pool = [''flux'', ''indexer'', ''provider'', ''streamblock'', ''height''], up_verb = []\<rparr>"

definition pattern_provider_API_GetEvents_0 :: url_pattern where
  "pattern_provider_API_GetEvents_0 = \<lparr>up_version = 1, up_ops = [2, 0, 2, 1, 2, 2, 2, 3, 1, 0, 4, 1, 5, 4, 1, 0, 4, 1, 5, 5],
     up_pool = [''flux'', ''indexer'', ''provider'', ''events'', ''height'', ''modules''], up_verb = []\<rparr>"

definition pattern_provider_API_StreamEvents_0 :: url_pattern where
  "pattern_provider_API_StreamEvents_0 = \<lparr>up_version = 1, up_ops = [2, 0, 2, 1, 2, 2, 2, 3, 1, 0, 4, 1, 5, 4, 1, 0, 4, 1, 5, 5],
     up_pool = [''flux'', ''indexer'', ''provider'', ''streamevents'', ''height'', ''modules''], up_verb = []\<rparr>"

definition server_route_provider_API_GetBlock_0 :: "'c gw_runtime \<Rightarrow> ('c, 'r) gw_server \<Rightarrow> ('r, 's) route" where
  "server_route_provider_API_GetBlock_0 G S =
     \<lparr>gr_method = ''GET'', gr_pattern = pattern_provider_API_GetBlock_0, gr_handler = serve_local G (local_request_provider_API_GetBlock_0 G S)\<rparr>"

definition server_route_provider_API_StreamBlock_0 :: "('r, 's) route" where
  "server_route_provider_API_StreamBlock_0 =
     \<lparr>gr_method = ''GET'', gr_pattern = pattern_provider_API_StreamBlock_0, gr_handler = not_streamed\<rparr>"

definition server_route_provider_API_GetEvents_0 :: "'c gw_runtime \<Rightarrow> ('c, 'r) gw_server \<Rightarrow> ('r, 's) route" where
  "server_route_provider_API_GetEvents_0 G S =
     \<lparr>gr_method = ''GET'', gr_pattern = pattern_provider_API_GetEvents_0, gr_handler = serve_local G (local_request_provider_API_GetEvents_0 G S)\<rparr>"

definition server_route_provider_API_StreamEvents_0 :: "('r, 's) route" where
  "server_route_provider_API_StreamEvents_0 =
     \<lparr>gr_method = ''GET'', gr_pattern = pattern_provider_API_StreamEvents_0, gr_handler = not_streamed\<rparr>"

definition register_provider_APIHandlerServer ::
  "'c gw_runtime \<Rightarrow> ('c, 'r) gw_server \<Rightarrow> ('r, 's) route list \<Rightarrow> gw_error + ('r, 's) route list" where
  "register_provider_APIHandlerServer G S mux = Inr (foldl handle_route mux
     [server_route_provider_API_GetBlock_0 G S,
      server_route_provider_API_StreamBlock_0,
      server_route_provider_API_GetEvents_0 G S,
      server_route_provider_API_StreamEvents_0])"

definition client_route_provider_API_GetBlock_0 :: "'c gw_runtime \<Rightarrow> ('c, 'r, 's) gw_client \<Rightarrow> ('r, 's) route" where
  "client_route_provider_API_GetBlock_0 G C =
     \<lparr>gr_method = ''GET'', gr_pattern = pattern_provider_API_GetBlock_0, gr_handler = serve_client G (request_provider_API_GetBlock_0 G C)\<rparr>"

definition client_route_provider_API_StreamBlock_0 :: "'c gw_runtime \<Rightarrow> ('c, 'r, 's) gw_client \<Rightarrow> ('r, 's) route" where
  "client_route_provider_API_StreamBlock_0 G C =
     \<lparr>gr_method = ''GET'', gr_pattern = pattern_provider_API_StreamBlock_0, gr_handler = serve_client_stream G (request_provider_API_StreamBlock_0 G C)\<rparr>"

definition client_route_provider_API_GetEvents_0 :: "'c gw_runtime \<Rightarrow> ('c, 'r, 's) gw_client \<Rightarrow> ('r, 's) route" where
  "client_route_provider_API_GetEvents_0 G C =
     \<lparr>gr_method = ''GET'', gr_pattern = pattern_provider_API_GetEvents_0, gr_handler = serve_client G (request_provider_API_GetEvents_0 G C)\<rparr>"

definition client_route_provider_API_StreamEvents_0 :: "'c gw_runtime \<Rightarrow> ('c, 'r, 's) gw_client \<Rightarrow> ('r, 's) route" where
  "client_route_provider_API_StreamEvents_0 G C =
     \<lparr>gr_method = ''GET'', gr_pattern = pattern_provider_API_StreamEvents_0, gr_handler = serve_client_stream G (request_provider_API_StreamEvents_0 G C)\<rparr>"

definition register_provider_APIHandlerClient ::
  "'c gw_runtime \<Rightarrow> ('c, 'r, 's) gw_client \<Rightarrow> ('r, 's) route list \<Rightarrow> gw_error + ('r, 's) route list" where
  "register_provider_APIHandlerClient G C mux = Inr (foldl handle_route mux
     [client_route_provider_API_GetBlock_0 G C,
      client_route_provider_API_StreamBlock_0 G C,
      client_route_provider_API_GetEvents_0 G C,
      client_route_provider_API_StreamEvents_0 G C])"

definition register_provider_APIHandler ::
  "'c gw_runtime \<Rightarrow> ('conn \<Rightarrow> ('c, 'r, 's) gw_client) \<Rightarrow> ('r, 's) route list \<Rightarrow> 'conn \<Rightarrow> gw_error + ('r, 's) route list" where
  "register_provider_APIHandler G new_client mux conn = register_provider_APIHandlerClient G (new_client conn) mux"

definition register_provider_APIHandlerFromEndpoint ::
  "'c gw_runtime \<Rightarrow> ('conn \<Rightarrow> ('c, 'r, 's) gw_client) \<Rightarrow> (string \<Rightarrow> gw_error + 'conn) \<Rightarrow> ('r, 's) route list \<Rightarrow> string \<Rightarrow>
     (gw_error + ('r, 's) route list) \<times> conn_fate option" where
  "register_provider_APIHandlerFromEndpoint G new_client dial mux endpoint =
     register_from_endpoint dial (register_provider_APIHandler G new_client) mux endpoint"

section \<open>ProviderQuery (\<open>chain/indexer/campclash/provider_query.pb.gw.go\<close>)\<close>

definition request_campclash_ProviderQuery_CampEvents_0 ::
  "'c gw_runtime \<Rightarrow> ('c, 'r, 's) gw_client \<Rightarrow> 'c \<Rightarrow> http_request \<Rightarrow> path_params \<Rightarrow> (gw_error + 'r) \<times> server_md" where
  "request_campclash_ProviderQuery_CampEvents_0 G C ctx req pp =
     remote_call C ctx ''CampEvents'' (fill_all
       [path_param pp (as_int64 G) ''height'' ''Height'']
       (zero_message (''campclash'', ''QueryCampEventsRequest'')))"

definition local_request_campclash_ProviderQuery_CampEvents_0 ::
  "'c gw_runtime \<Rightarrow> ('c, 'r) gw_server \<Rightarrow> 'c \<Rightarrow> http_request \<Rightarrow> path_params \<Rightarrow> (gw_error + 'r) \<times> server_md \<times> server_md" where
  "local_request_campclash_ProviderQuery_CampEvents_0 G S ctx req pp =
     local_call S ctx ''CampEvents'' (fill_all
       [path_param pp (as_int64 G) ''height'' ''Height'']
       (zero_message (''campclash'', ''QueryCampEventsRequest'')))"

definition request_campclash_ProviderQuery_GetProviderLatestHeight_0 ::
  "'c gw_runtime \<Rightarrow> ('c, 'r, 's) gw_client \<Rightarrow> 'c \<Rightarrow> http_request \<Rightarrow> path_params \<Rightarrow> (gw_error + 'r) \<times> server_md" where
  "request_campclash_ProviderQuery_GetProviderLatestHeight_0 G C ctx req pp =
     remote_call C ctx ''GetProviderLatestHeight'' (fill_all
       []
       (zero_message (''campclash'', ''GetProviderLatestHeightRequest'')))"

definition local_request_campclash_ProviderQuery_GetProviderLatestHeight_0 ::
  "'c gw_runtime \<Rightarrow> ('c, 'r) gw_server \<Rightarrow> 'c \<Rightarrow> http_request \<Rightarrow> path_params \<Rightarrow> (gw_error + 'r) \<times> server_md \<times> server_md" where
  "local_request_campclash_ProviderQuery_GetProviderLatestHeight_0 G S ctx req pp =
     local_call S ctx ''GetProviderLatestHeight'' (fill_all
       []
       (zero_message (''campclash'', ''GetProviderLatestHeightRequest'')))"

definition pattern_campclash_ProviderQuery_CampEvents_0 :: url_pattern where
  "pattern_campclash_ProviderQuery_CampEvents_0 = \<lparr>up_version = 1, up_ops = [2, 0, 2, 1, 2, 2, 2, 3, 2, 4, 1, 0, 4, 1, 5, 5],
     up_pool = [''flux'', ''indexer'', ''campclash'', ''v1beta1'', ''events'', ''height''], up_verb = []\<rparr>"

definition pattern_campclash_ProviderQuery_GetProviderLatestHeight_0 :: url_pattern where
  "pattern_campclash_ProviderQuery_GetProviderLatestHeight_0 = \<lparr>up_version = 1, up_ops = [2, 0, 2, 1, 2, 2, 2, 3, 2, 4],
     up_pool = [''flux'', ''indexer'', ''campclash'', ''v1beta1'', ''latest-height''], up_verb = []\<rparr>"

definition server_route_campclash_ProviderQuery_CampEvents_0 :: "'c gw_runtime \<Rightarrow> ('c, 'r) gw_server \<Rightarrow> ('r, 's) route" where
  "server_route_campclash_ProviderQuery_CampEvents_0 G S =
     \<lparr>gr_method = ''GET'', gr_pattern = pattern_campclash_ProviderQuery_CampEvents_0, gr_handler = serve_local G (local_request_campclash_ProviderQuery_CampEvents_0 G S)\<rparr>"

definition server_route_campclash_ProviderQuery_GetProviderLatestHeight_0 :: "'c gw_runtime \<Rightarrow> ('c, 'r) gw_server \<Rightarrow> ('r, 's) route" where
  "server_route_campclash_ProviderQuery_GetProviderLatestHeight_0 G S =
     \<lparr>gr_method = ''GET'', gr_pattern = pattern_campclash_ProviderQuery_GetProviderLatestHeight_0, gr_handler = serve_local G (local_request_campclash_ProviderQuery_GetProviderLatestHeight_0 G S)\<rparr>"

definition register_campclash_ProviderQueryHandlerServer ::
  "'c gw_runtime \<Rightarrow> ('c, 'r) gw_server \<Rightarrow> ('r, 's) route list \<Rightarrow> gw_error + ('r, 's) route list" where
  "register_campclash_ProviderQueryHandlerServer G S mux = Inr (foldl handle_route mux
     [server_route_campclash_ProviderQuery_CampEvents_0 G S,
      server_route_campclash_ProviderQuery_GetProviderLatestHeight_0 G S])"

definition client_route_campclash_ProviderQuery_CampEvents_0 :: "'c gw_runtime \<Rightarrow> ('c, 'r, 's) gw_client \<Rightarrow> ('r, 's) route" where
  "client_route_campclash_ProviderQuery_CampEvents_0 G C =
     \<lparr>gr_method = ''GET'', gr_pattern = pattern_campclash_ProviderQuery_CampEvents_0, gr_handler = serve_client G (request_campclash_ProviderQuery_CampEvents_0 G C)\<rparr>"

definition client_route_campclash_ProviderQuery_GetProviderLatestHeight_0 :: "'c gw_runtime \<Rightarrow> ('c, 'r, 's) gw_client \<Rightarrow> ('r, 's) route" where
  "client_route_campclash_ProviderQuery_GetProviderLatestHeight_0 G C =
     \<lparr>gr_method = ''GET'', gr_pattern = pattern_campclash_ProviderQuery_GetProviderLatestHeight_0, gr_handler = serve_client G (request_campclash_ProviderQuery_GetProviderLatestHeight_0 G C)\<rparr>"

definition register_campclash_ProviderQueryHandlerClient ::
  "'c gw_runtime \<Rightarrow> ('c, 'r, 's) gw_client \<Rightarrow> ('r, 's) route list \<Rightarrow> gw_error + ('r, 's) route list" where
  "register_campclash_ProviderQueryHandlerClient G C mux = Inr (foldl handle_route mux
     [client_route_campclash_ProviderQuery_CampEvents_0 G C,
      client_route_campclash_ProviderQuery_GetProviderLatestHeight_0 G C])"

definition register_campclash_ProviderQueryHandler ::
  "'c gw_runtime \<Rightarrow> ('conn \<Rightarrow> ('c, 'r, 's) gw_client) \<Rightarrow> ('r, 's) route list \<Rightarrow> 'conn \<Rightarrow> gw_error + ('r, 's) route list" where
  "register_campclash_ProviderQueryHandler G new_client mux conn = register_campclash_ProviderQueryHandlerClient G (new_client conn) mux"

definition register_campclash_ProviderQueryHandlerFromEndpoint ::
  "'c gw_runtime \<Rightarrow> ('conn \<Rightarrow> ('c, 'r, 's) gw_client) \<Rightarrow> (string \<Rightarrow> gw_error + 'conn) \<Rightarrow> ('r, 's) route list \<Rightarrow> string \<Rightarrow>
     (gw_error + ('r, 's) route list) \<times> conn_fate option" where
  "register_campclash_ProviderQueryHandlerFromEndpoint G new_client dial mux endpoint =
     register_from_endpoint dial (register_campclash_ProviderQueryHandler G new_client) mux endpoint"

section \<open>CampclashQuery (\<open>chain/indexer/campclash/camp_query.pb.gw.go\<close>)\<close>

definition filter_campclash_CampclashQuery_ListProjects_0 :: double_array where
  "filter_campclash_CampclashQuery_ListProjects_0 = \<lparr>Encoding = [], Base = [], Check = []\<rparr>"

definition filter_campclash_CampclashQuery_StreamProject_0 :: double_array where
  "filter_campclash_CampclashQuery_StreamProject_0 = \<lparr>Encoding = [], Base = [], Check = []\<rparr>"

definition filter_campclash_CampclashQuery_ListBalances_0 :: double_array where
  "filter_campclash_CampclashQuery_ListBalances_0 = \<lparr>Encoding = [], Base = [], Check = []\<rparr>"

definition filter_campclash_CampclashQuery_StreamBalances_0 :: double_array where
  "filter_campclash_CampclashQuery_StreamBalances_0 = \<lparr>Encoding = [], Base = [], Check = []\<rparr>"

definition filter_campclash_CampclashQuery_ListTrades_0 :: double_array where
  "filter_campclash_CampclashQuery_ListTrades_0 = \<lparr>Encoding = [], Base = [], Check = []\<rparr>"

definition filter_campclash_CampclashQuery_StreamTrades_0 :: double_array where
  "filter_campclash_CampclashQuery_StreamTrades_0 = \<lparr>Encoding = [], Base = [], Check = []\<rparr>"

definition filter_campclash_CampclashQuery_PostComment_0 :: double_array where
  "filter_campclash_CampclashQuery_PostComment_0 = \<lparr>Encoding = [], Base = [], Check = []\<rparr>"

definition filter_campclash_CampclashQuery_ListComments_0 :: double_array where
  "filter_campclash_CampclashQuery_ListComments_0 = \<lparr>Encoding = [], Base = [], Check = []\<rparr>"

definition filter_campclash_CampclashQuery_StreamComments_0 :: double_array where
  "filter_campclash_CampclashQuery_StreamComments_0 = \<lparr>Encoding = [], Base = [], Check = []\<rparr>"

definition filter_campclash_CampclashQuery_GetLeaderboard_0 :: double_array where
  "filter_campclash_CampclashQuery_GetLeaderboard_0 = \<lparr>Encoding = [], Base = [], Check = []\<rparr>"

definition filter_campclash_CampclashQuery_ListChallenge_0 :: double_array where
  "filter_campclash_CampclashQuery_ListChallenge_0 = \<lparr>Encoding = [], Base = [], Check = []\<rparr>"

definition filter_campclash_CampclashQuery_StreamChallenge_0 :: double_array where
  "filter_campclash_CampclashQuery_StreamChallenge_0 = \<lparr>Encoding = [], Base = [], Check = []\<rparr>"

definition filter_campclash_CampclashQuery_ListChallengeClaimable_0 :: double_array where
  "filter_campclash_CampclashQuery_ListChallengeClaimable_0 = \<lparr>Encoding = [], Base = [], Check = []\<rparr>"

definition filter_campclash_CampclashQuery_StreamChallengeClaimable_0 :: double_array where
  "filter_campclash_CampclashQuery_StreamChallengeClaimable_0 = \<lparr>Encoding = [], Base = [], Check = []\<rparr>"

definition filter_campclash_CampclashQuery_StreamChallengeVote_0 :: double_array where
  "filter_campclash_CampclashQuery_StreamChallengeVote_0 = \<lparr>Encoding = [], Base = [], Check = []\<rparr>"

definition filter_campclash_CampclashQuery_GetUserChallenges_0 :: double_array where
  "filter_campclash_CampclashQuery_GetUserChallenges_0 = \<lparr>Encoding = [(''address'', 0)], Base = [1, 1, 0], Check = [0, 1, 2]\<rparr>"

definition filter_campclash_CampclashQuery_GetLogoPresignedURL_0 :: double_array where
  "filter_campclash_CampclashQuery_GetLogoPresignedURL_0 = \<lparr>Encoding = [], Base = [], Check = []\<rparr>"

definition filter_campclash_CampclashQuery_PushUserActivity_0 :: double_array where
  "filter_campclash_CampclashQuery_PushUserActivity_0 = \<lparr>Encoding = [], Base = [], Check = []\<rparr>"

definition request_campclash_CampclashQuery_ListProjects_0 ::
  "'c gw_runtime \<Rightarrow> ('c, 'r, 's) gw_client \<Rightarrow> 'c \<Rightarrow> http_request \<Rightarrow> path_params \<Rightarrow> (gw_error + 'r) \<times> server_md" where
  "request_campclash_CampclashQuery_ListProjects_0 G C ctx req pp =
     remote_call C ctx ''ListProjects'' (fill_all
       [query_params G req filter_campclash_CampclashQuery_ListProjects_0]
       (zero_message (''campclash'', ''ListProjectsRequest'')))"

definition local_request_campclash_CampclashQuery_ListProjects_0 ::
  "'c gw_runtime \<Rightarrow> ('c, 'r) gw_server \<Rightarrow> 'c \<Rightarrow> http_request \<Rightarrow> path_params \<Rightarrow> (gw_error + 'r) \<times> server_md \<times> server_md" where
  "local_request_campclash_CampclashQuery_ListProjects_0 G S ctx req pp =
     local_call S ctx ''ListProjects'' (fill_all
       [query_params G req filter_campclash_CampclashQuery_ListProjects_0]
       (zero_message (''campclash'', ''ListProjectsRequest'')))"

definition request_campclash_CampclashQuery_StreamProject_0 ::
  "'c gw_runtime \<Rightarrow> ('c, 'r, 's) gw_client \<Rightarrow> 'c \<Rightarrow> http_request \<Rightarrow> path_params \<Rightarrow> (gw_error + 's) \<times> server_md" where
  "request_campclash_CampclashQuery_StreamProject_0 G C ctx req pp =
     stream_call C ctx ''StreamProject'' (fill_all
       [query_params G req filter_campclash_CampclashQuery_StreamProject_0]
       (zero_message (''campclash'', ''StreamProjectRequest'')))"

definition request_campclash_CampclashQuery_ListBalances_0 ::
  "'c gw_runtime \<Rightarrow> ('c, 'r, 's) gw_client \<Rightarrow> 'c \<Rightarrow> http_request \<Rightarrow> path_params \<Rightarrow> (gw_error + 'r) \<times> server_md" where
  "request_campclash_CampclashQuery_ListBalances_0 G C ctx req pp =
     remote_call C ctx ''ListBalances'' (fill_all
       [query_params G req filter_campclash_CampclashQuery_ListBalances_0]
       (zero_message (''campclash'', ''ListBalancesRequest'')))"

definition local_request_campclash_CampclashQuery_ListBalances_0 ::
  "'c gw_runtime \<Rightarrow> ('c, 'r) gw_server \<Rightarrow> 'c \<Rightarrow> http_request \<Rightarrow> path_params \<Rightarrow> (gw_error + 'r) \<times> server_md \<times> server_md" where
  "local_request_campclash_CampclashQuery_ListBalances_0 G S ctx req pp =
     local_call S ctx ''ListBalances'' (fill_all
       [query_params G req filter_campclash_CampclashQuery_ListBalances_0]
       (zero_message (''campclash'', ''ListBalancesRequest'')))"

definition request_campclash_CampclashQuery_StreamBalances_0 ::
  "'c gw_runtime \<Rightarrow> ('c, 'r, 's) gw_client \<Rightarrow> 'c \<Rightarrow> http_request \<Rightarrow> path_params \<Rightarrow> (gw_error + 's) \<times> server_md" where
  "request_campclash_CampclashQuery_StreamBalances_0 G C ctx req pp =
     stream_call C ctx ''StreamBalances'' (fill_all
       [query_params G req filter_campclash_CampclashQuery_StreamBalances_0]
       (zero_message (''campclash'', ''StreamBalancesRequest'')))"

definition request_campclash_CampclashQuery_ListTrades_0 ::
  "'c gw_runtime \<Rightarrow> ('c, 'r, 's) gw_client \<Rightarrow> 'c \<Rightarrow> http_request \<Rightarrow> path_params \<Rightarrow> (gw_error + 'r) \<times> server_md" where
  "request_campclash_CampclashQuery_ListTrades_0 G C ctx req pp =
     remote_call C ctx ''ListTrades'' (fill_all
       [query_params G req filter_campclash_CampclashQuery_ListTrades_0]
       (zero_message (''campclash'', ''ListTradesRequest'')))"

definition local_request_campclash_CampclashQuery_ListTrades_0 ::
  "'c gw_runtime \<Rightarrow> ('c, 'r) gw_server \<Rightarrow> 'c \<Rightarrow> http_request \<Rightarrow> path_params \<Rightarrow> (gw_error + 'r) \<times> server_md \<times> server_md" where
  "local_request_campclash_CampclashQuery_ListTrades_0 G S ctx req pp =
     local_call S ctx ''ListTrades'' (fill_all
       [query_params G req filter_campclash_CampclashQuery_ListTrades_0]
       (zero_message (''campclash'', ''ListTradesRequest'')))"

definition request_campclash_CampclashQuery_StreamTrades_0 ::
  "'c gw_runtime \<Rightarrow> ('c, 'r, 's) gw_client \<Rightarrow> 'c \<Rightarrow> http_request \<Rightarrow> path_params \<Rightarrow> (gw_error + 's) \<times> server_md" where
  "request_campclash_CampclashQuery_StreamTrades_0 G C ctx req pp =
     stream_call C ctx ''StreamTrades'' (fill_all
       [query_params G req filter_campclash_CampclashQuery_StreamTrades_0]
       (zero_message (''campclash'', ''StreamTradesRequest'')))"

definition request_campclash_CampclashQuery_PostComment_0 ::
  "'c gw_runtime \<Rightarrow> ('c, 'r, 's) gw_client \<Rightarrow> 'c \<Rightarrow> http_request \<Rightarrow> path_params \<Rightarrow> (gw_error + 'r) \<times> server_md" where
  "request_campclash_CampclashQuery_PostComment_0 G C ctx req pp =
     remote_call C ctx ''PostComment'' (fill_all
       [query_params G req filter_campclash_CampclashQuery_PostComment_0]
       (zero_message (''campclash'', ''PostCommentRequest'')))"

definition local_request_campclash_CampclashQuery_PostComment_0 ::
  "'c gw_runtime \<Rightarrow> ('c, 'r) gw_server \<Rightarrow> 'c \<Rightarrow> http_request \<Rightarrow> path_params \<Rightarrow> (gw_error + 'r) \<times> server_md \<times> server_md" where
  "local_request_campclash_CampclashQuery_PostComment_0 G S ctx req pp =
     local_call S ctx ''PostComment'' (fill_all
       [query_params G req filter_campclash_CampclashQuery_PostComment_0]
       (zero_message (''campclash'', ''PostCommentRequest'')))"

definition request_campclash_CampclashQuery_ListComments_0 ::
  "'c gw_runtime \<Rightarrow> ('c, 'r, 's) gw_client \<Rightarrow> 'c \<Rightarrow> http_request \<Rightarrow> path_params \<Rightarrow> (gw_error + 'r) \<times> server_md" where
  "request_campclash_CampclashQuery_ListComments_0 G C ctx req pp =
     remote_call C ctx ''ListComments'' (fill_all
       [query_params G req filter_campclash_CampclashQuery_ListComments_0]
       (zero_message (''campclash'', ''ListCommentsRequest'')))"

definition local_request_campclash_CampclashQuery_ListComments_0 ::
  "'c gw_runtime \<Rightarrow> ('c, 'r) gw_server \<Rightarrow> 'c \<Rightarrow> http_request \<Rightarrow> path_params \<Rightarrow> (gw_error + 'r) \<times> server_md \<times> server_md" where
  "local_request_campclash_CampclashQuery_ListComments_0 G S ctx req pp =
     local_call S ctx ''ListComments'' (fill_all
       [query_params G req filter_campclash_CampclashQuery_ListComments_0]
       (zero_message (''campclash'', ''ListCommentsRequest'')))"

definition request_campclash_CampclashQuery_StreamComments_0 ::
  "'c gw_runtime \<Rightarrow> ('c, 'r, 's) gw_client \<Rightarrow> 'c \<Rightarrow> http_request \<Rightarrow> path_params \<Rightarrow> (gw_error + 's) \<times> server_md" where
  "request_campclash_CampclashQuery_StreamComments_0 G C ctx req pp =
     stream_call C ctx ''StreamComments'' (fill_all
       [query_params G req filter_campclash_CampclashQuery_StreamComments_0]
       (zero_message (''campclash'', ''StreamCommentsRequest'')))"

definition request_campclash_CampclashQuery_GetLeaderboard_0 ::
  "'c gw_runtime \<Rightarrow> ('c, 'r, 's) gw_client \<Rightarrow> 'c \<Rightarrow> http_request \<Rightarrow> path_params \<Rightarrow> (gw_error + 'r) \<times> server_md" where
  "request_campclash_CampclashQuery_GetLeaderboard_0 G C ctx req pp =
     remote_call C ctx ''GetLeaderboard'' (fill_all
       [query_params G req filter_campclash_CampclashQuery_GetLeaderboard_0]
       (zero_message (''campclash'', ''GetLeaderboardRequest'')))"

definition local_request_campclash_CampclashQuery_GetLeaderboard_0 ::
  "'c gw_runtime \<Rightarrow> ('c, 'r) gw_server \<Rightarrow> 'c \<Rightarrow> http_request \<Rightarrow> path_params \<Rightarrow> (gw_error + 'r) \<times> server_md \<times> server_md" where
  "local_request_campclash_CampclashQuery_GetLeaderboard_0 G S ctx req pp =
     local_call S ctx ''GetLeaderboard'' (fill_all
       [query_params G req filter_campclash_CampclashQuery_GetLeaderboard_0]
       (zero_message (''campclash'', ''GetLeaderboardRequest'')))"

definition request_campclash_CampclashQuery_ListChallenge_0 ::
  "'c gw_runtime \<Rightarrow> ('c, 'r, 's) gw_client \<Rightarrow> 'c \<Rightarrow> http_request \<Rightarrow> path_params \<Rightarrow> (gw_error + 'r) \<times> server_md" where
  "request_campclash_CampclashQuery_ListChallenge_0 G C ctx req pp =
     remote_call C ctx ''ListChallenge'' (fill_all
       [query_params G req filter_campclash_CampclashQuery_ListChallenge_0]
       (zero_message (''campclash'', ''ListChallengeRequest'')))"

definition local_request_campclash_CampclashQuery_ListChallenge_0 ::
  "'c gw_runtime \<Rightarrow> ('c, 'r) gw_server \<Rightarrow> 'c \<Rightarrow> http_request \<Rightarrow> path_params \<Rightarrow> (gw_error + 'r) \<times> server_md \<times> server_md" where
  "local_request_campclash_CampclashQuery_ListChallenge_0 G S ctx req pp =
     local_call S ctx ''ListChallenge'' (fill_all
       [query_params G req filter_campclash_CampclashQuery_ListChallenge_0]
       (zero_message (''campclash'', ''ListChallengeRequest'')))"

definition request_campclash_CampclashQuery_StreamChallenge_0 ::
  "'c gw_runtime \<Rightarrow> ('c, 'r, 's) gw_client \<Rightarrow> 'c \<Rightarrow> http_request \<Rightarrow> path_params \<Rightarrow> (gw_error + 's) \<times> server_md" where
  "request_campclash_CampclashQuery_StreamChallenge_0 G C ctx req pp =
     stream_call C ctx ''StreamChallenge'' (fill_all
       [query_params G req filter_campclash_CampclashQuery_StreamChallenge_0]
       (zero_message (''campclash'', ''StreamChallengeRequest'')))"

definition request_campclash_CampclashQuery_ListChallengeClaimable_0 ::
  "'c gw_runtime \<Rightarrow> ('c, 'r, 's) gw_client \<Rightarrow> 'c \<Rightarrow> http_request \<Rightarrow> path_params \<Rightarrow> (gw_error + 'r) \<times> server_md" where
  "request_campclash_CampclashQuery_ListChallengeClaimable_0 G C ctx req pp =
     remote_call C ctx ''ListChallengeClaimable'' (fill_all
       [query_params G req filter_campclash_CampclashQuery_ListChallengeClaimable_0]
       (zero_message (''campclash'', ''ListChallengeClaimableRequest'')))"

definition local_request_campclash_CampclashQuery_ListChallengeClaimable_0 ::
  "'c gw_runtime \<Rightarrow> ('c, 'r) gw_server \<Rightarrow> 'c \<Rightarrow> http_request \<Rightarrow> path_params \<Rightarrow> (gw_error + 'r) \<times> server_md \<times> server_md" where
  "local_request_campclash_CampclashQuery_ListChallengeClaimable_0 G S ctx req pp =
     local_call S ctx ''ListChallengeClaimable'' (fill_all
       [query_params G req filter_campclash_CampclashQuery_ListChallengeClaimable_0]
       (zero_message (''campclash'', ''ListChallengeClaimableRequest'')))"

definition request_campclash_CampclashQuery_StreamChallengeClaimable_0 ::
  "'c gw_runtime \<Rightarrow> ('c, 'r, 's) gw_client \<Rightarrow> 'c \<Rightarrow> http_request \<Rightarrow> path_params \<Rightarrow> (gw_error + 's) \<times> server_md" where
  "request_campclash_CampclashQuery_StreamChallengeClaimable_0 G C ctx req pp =
     stream_call C ctx ''StreamChallengeClaimable'' (fill_all
       [query_params G req filter_campclash_CampclashQuery_StreamChallengeClaimable_0]
       (zero_message (''campclash'', ''StreamChallengeClaimableRequest'')))"

definition request_campclash_CampclashQuery_StreamChallengeVote_0 ::
  "'c gw_runtime \<Rightarrow> ('c, 'r, 's) gw_client \<Rightarrow> 'c \<Rightarrow> http_request \<Rightarrow> path_params \<Rightarrow> (gw_error + 's) \<times> server_md" where
  "request_campclash_CampclashQuery_StreamChallengeVote_0 G C ctx req pp =
     stream_call C ctx ''StreamChallengeVote'' (fill_all
       [query_params G req filter_campclash_CampclashQuery_StreamChallengeVote_0]
       (zero_message (''campclash'', ''StreamChallengeVoteRequest'')))"

definition request_campclash_CampclashQuery_GetUserChallenges_0 ::
  "'c gw_runtime \<Rightarrow> ('c, 'r, 's) gw_client \<Rightarrow> 'c \<Rightarrow> http_request \<Rightarrow> path_params \<Rightarrow> (gw_error + 'r) \<times> server_md" where
  "request_campclash_CampclashQuery_GetUserChallenges_0 G C ctx req pp =
     remote_call C ctx ''GetUserChallenges'' (fill_all
       [path_param pp (as_string G) ''address'' ''Address'',
        query_params G req filter_campclash_CampclashQuery_GetUserChallenges_0]
       (zero_message (''campclash'', ''GetUserChallengesRequest'')))"

definition local_request_campclash_CampclashQuery_GetUserChallenges_0 ::
  "'c gw_runtime \<Rightarrow> ('c, 'r) gw_server \<Rightarrow> 'c \<Rightarrow> http_request \<Rightarrow> path_params \<Rightarrow> (gw_error + 'r) \<times> server_md \<times> server_md" where
  "local_request_campclash_CampclashQuery_GetUserChallenges_0 G S ctx req pp =
     local_call S ctx ''GetUserChallenges'' (fill_all
       [path_param pp (as_string G) ''address'' ''Address'',
        query_params G req filter_campclash_CampclashQuery_GetUserChallenges_0]
       (zero_message (''campclash'', ''GetUserChallengesRequest'')))"

definition request_campclash_CampclashQuery_GetLogoPresignedURL_0 ::
  "'c gw_runtime \<Rightarrow> ('c, 'r, 's) gw_client \<Rightarrow> 'c \<Rightarrow> http_request \<Rightarrow> path_params \<Rightarrow> (gw_error + 'r) \<times> server_md" where
  "request_campclash_CampclashQuery_GetLogoPresignedURL_0 G C ctx req pp =
     remote_call C ctx ''GetLogoPresignedURL'' (fill_all
       [query_params G req filter_campclash_CampclashQuery_GetLogoPresignedURL_0]
       (zero_message (''campclash'', ''GetLogoPresignedURLRequest'')))"

definition local_request_campclash_CampclashQuery_GetLogoPresignedURL_0 ::
  "'c gw_runtime \<Rightarrow> ('c, 'r) gw_server \<Rightarrow> 'c \<Rightarrow> http_request \<Rightarrow> path_params \<Rightarrow> (gw_error + 'r) \<times> server_md \<times> server_md" where
  "local_request_campclash_CampclashQuery_GetLogoPresignedURL_0 G S ctx req pp =
     local_call S ctx ''GetLogoPresignedURL'' (fill_all
       [query_params G req filter_campclash_CampclashQuery_GetLogoPresignedURL_0]
       (zero_message (''campclash'', ''GetLogoPresignedURLRequest'')))"

definition request_campclash_CampclashQuery_GetCampLatestHeight_0 ::
  "'c gw_runtime \<Rightarrow> ('c, 'r, 's) gw_client \<Rightarrow> 'c \<Rightarrow> http_request \<Rightarrow> path_params \<Rightarrow> (gw_error + 'r) \<times> server_md" where
  "request_campclash_CampclashQuery_GetCampLatestHeight_0 G C ctx req pp =
     remote_call C ctx ''GetCampLatestHeight'' (fill_all
       []
       (zero_message (''campclash'', ''GetCampLatestHeightRequest'')))"

definition local_request_campclash_CampclashQuery_GetCampLatestHeight_0 ::
  "'c gw_runtime \<Rightarrow> ('c, 'r) gw_server \<Rightarrow> 'c \<Rightarrow> http_request \<Rightarrow> path_params \<Rightarrow> (gw_error + 'r) \<times> server_md \<times> server_md" where
  "local_request_campclash_CampclashQuery_GetCampLatestHeight_0 G S ctx req pp =
     local_call S ctx ''GetCampLatestHeight'' (fill_all
       []
       (zero_message (''campclash'', ''GetCampLatestHeightRequest'')))"

definition request_campclash_CampclashQuery_PushUserActivity_0 ::
  "'c gw_runtime \<Rightarrow> ('c, 'r, 's) gw_client \<Rightarrow> 'c \<Rightarrow> http_request \<Rightarrow> path_params \<Rightarrow> (gw_error + 's) \<times> server_md" where
  "request_campclash_CampclashQuery_PushUserActivity_0 G C ctx req pp =
     stream_call C ctx ''PushUserActivity'' (fill_all
       [query_params G req filter_campclash_CampclashQuery_PushUserActivity_0]
       (zero_message (''campclash'', ''PushUserActivityRequest'')))"

definition request_campclash_CampclashQuery_SubscribeUserActivity_0 ::
  "'c gw_runtime \<Rightarrow> ('c, 'r, 's) gw_client \<Rightarrow> 'c \<Rightarrow> http_request \<Rightarrow> path_params \<Rightarrow> (gw_error + 's) \<times> server_md" where
  "request_campclash_CampclashQuery_SubscribeUserActivity_0 G C ctx req pp =
     stream_call C ctx ''SubscribeUserActivity'' (fill_all
       []
       (zero_message (''campclash'', ''SubscribeUserActivityRequest'')))"

definition pattern_campclash_CampclashQuery_ListProjects_0 :: url_pattern where
  "pattern_campclash_CampclashQuery_ListProjects_0 = \<lparr>up_version = 1, up_ops = [2, 0, 2, 1, 2, 2],
     up_pool = [''camp'', ''v1'', ''projects''], up_verb = []\<rparr>"

definition pattern_campclash_CampclashQuery_StreamProject_0 :: url_pattern where
  "pattern_campclash_CampclashQuery_StreamProject_0 = \<lparr>up_version = 1, up_ops = [2, 0, 2, 1, 2, 2, 2, 3],
     up_pool = [''camp'', ''v1'', ''stream'', ''projects''], up_verb = []\<rparr>"

definition pattern_campclash_CampclashQuery_ListBalances_0 :: url_pattern where
  "pattern_campclash_CampclashQuery_ListBalances_0 = \<lparr>up_version = 1, up_ops = [2, 0, 2, 1, 2, 2],
     up_pool = [''camp'', ''v1'', ''balances''], up_verb = []\<rparr>"

definition pattern_campclash_CampclashQuery_StreamBalances_0 :: url_pattern where
  "pattern_campclash_CampclashQuery_StreamBalances_0 = \<lparr>up_version = 1, up_ops = [2, 0, 2, 1, 2, 2, 2, 3],
     up_pool = [''camp'', ''v1'', ''stream'', ''balances''], up_verb = []\<rparr>"

definition pattern_campclash_CampclashQuery_ListTrades_0 :: url_pattern where
  "pattern_campclash_CampclashQuery_ListTrades_0 = \<lparr>up_version = 1, up_ops = [2, 0, 2, 1, 2, 2],
     up_pool = [''camp'', ''v1'', ''trades''], up_verb = []\<rparr>"

definition pattern_campclash_CampclashQuery_StreamTrades_0 :: url_pattern where
  "pattern_campclash_CampclashQuery_StreamTrades_0 = \<lparr>up_version = 1, up_ops = [2, 0, 2, 1, 2, 2, 2, 3],
     up_pool = [''camp'', ''v1'', ''stream'', ''trades''], up_verb = []\<rparr>"

definition pattern_campclash_CampclashQuery_PostComment_0 :: url_pattern where
  "pattern_campclash_CampclashQuery_PostComment_0 = \<lparr>up_version = 1, up_ops = [2, 0, 2, 1, 2, 2],
     up_pool = [''camp'', ''v1'', ''comments''], up_verb = []\<rparr>"

definition pattern_campclash_CampclashQuery_ListComments_0 :: url_pattern where
  "pattern_campclash_CampclashQuery_ListComments_0 = \<lparr>up_version = 1, up_ops = [2, 0, 2, 1, 2, 2],
     up_pool = [''camp'', ''v1'', ''comments''], up_verb = []\<rparr>"

definition pattern_campclash_CampclashQuery_StreamComments_0 :: url_pattern where
  "pattern_campclash_CampclashQuery_StreamComments_0 = \<lparr>up_version = 1, up_ops = [2, 0, 2, 1, 2, 2, 2, 3],
     up_pool = [''camp'', ''v1'', ''stream'', ''comments''], up_verb = []\<rparr>"

definition pattern_campclash_CampclashQuery_GetLeaderboard_0 :: url_pattern where
  "pattern_campclash_CampclashQuery_GetLeaderboard_0 = \<lparr>up_version = 1, up_ops = [2, 0, 2, 1, 2, 2],
     up_pool = [''camp'', ''v1'', ''leaderboard''], up_verb = []\<rparr>"

definition pattern_campclash_CampclashQuery_ListChallenge_0 :: url_pattern where
  "pattern_campclash_CampclashQuery_ListChallenge_0 = \<lparr>up_version = 1, up_ops = [2, 0, 2, 1, 2, 2],
     up_pool = [''camp'', ''v1'', ''challenges''], up_verb = []\<rparr>"

definition pattern_campclash_CampclashQuery_StreamChallenge_0 :: url_pattern where
  "pattern_campclash_CampclashQuery_StreamChallenge_0 = \<lparr>up_version = 1, up_ops = [2, 0, 2, 1, 2, 2, 2, 3],
     up_pool = [''camp'', ''v1'', ''stream'', ''challenges''], up_verb = []\<rparr>"

definition pattern_campclash_CampclashQuery_ListChallengeClaimable_0 :: url_pattern where
  "pattern_campclash_CampclashQuery_ListChallengeClaimable_0 = \<lparr>up_version = 1, up_ops = [2, 0, 2, 1, 2, 2, 2, 3],
     up_pool = [''camp'', ''v1'', ''challenges'', ''claimable''], up_verb = []\<rparr>"

definition pattern_campclash_CampclashQuery_StreamChallengeClaimable_0 :: url_pattern where
  "pattern_campclash_CampclashQuery_StreamChallengeClaimable_0 = \<lparr>up_version = 1, up_ops = [2, 0, 2, 1, 2, 2, 2, 3, 2, 4],
     up_pool = [''camp'', ''v1'', ''stream'', ''challenges'', ''claimable''], up_verb = []\<rparr>"

definition pattern_campclash_CampclashQuery_StreamChallengeVote_0 :: url_pattern where
  "pattern_campclash_CampclashQuery_StreamChallengeVote_0 = \<lparr>up_version = 1, up_ops = [2, 0, 2, 1, 2, 2, 2, 3, 2, 4],
     up_pool = [''camp'', ''v1'', ''stream'', ''challenges'', ''vote''], up_verb = []\<rparr>"

definition pattern_campclash_CampclashQuery_GetUserChallenges_0 :: url_pattern where
  "pattern_campclash_CampclashQuery_GetUserChallenges_0 = \<lparr>up_version = 1, up_ops = [2, 0, 2, 1, 2, 2, 1, 0, 4, 1, 5, 3, 2, 4],
     up_pool = [''camp'', ''v1'', ''user'', ''address'', ''challenges''], up_verb = []\<rparr>"

definition pattern_campclash_CampclashQuery_GetLogoPresignedURL_0 :: url_pattern where
  "pattern_campclash_CampclashQuery_GetLogoPresignedURL_0 = \<lparr>up_version = 1, up_ops = [2, 0, 2, 1, 2, 2],
     up_pool = [''camp'', ''v1'', ''logo-presigned-url''], up_verb = []\<rparr>"

definition pattern_campclash_CampclashQuery_GetCampLatestHeight_0 :: url_pattern where
  "pattern_campclash_CampclashQuery_GetCampLatestHeight_0 = \<lparr>up_version = 1, up_ops = [2, 0, 2, 1, 2, 2],
     up_pool = [''camp'', ''v1'', ''latest-height''], up_verb = []\<rparr>"

definition pattern_campclash_CampclashQuery_PushUserActivity_0 :: url_pattern where
  "pattern_campclash_CampclashQuery_PushUserActivity_0 = \<lparr>up_version = 1, up_ops = [2, 0, 2, 1, 2, 2],
     up_pool = [''camp'', ''v1'', ''push-user-activity''], up_verb = []\<rparr>"

definition pattern_campclash_CampclashQuery_SubscribeUserActivity_0 :: url_pattern where
  "pattern_campclash_CampclashQuery_SubscribeUserActivity_0 = \<lparr>up_version = 1, up_ops = [2, 0, 2, 1, 2, 2],
     up_pool = [''camp'', ''v1'', ''stream-user-activity''], up_verb = []\<rparr>"

definition server_route_campclash_CampclashQuery_ListProjects_0 :: "'c gw_runtime \<Rightarrow> ('c, 'r) gw_server \<Rightarrow> ('r, 's) route" where
  "server_route_campclash_CampclashQuery_ListProjects_0 G S =
     \<lparr>gr_method = ''GET'', gr_pattern = pattern_campclash_CampclashQuery_ListProjects_0, gr_handler = serve_local G (local_request_campclash_CampclashQuery_ListProjects_0 G S)\<rparr>"

definition server_route_campclash_CampclashQuery_StreamProject_0 :: "('r, 's) route" where
  "server_route_campclash_CampclashQuery_StreamProject_0 =
     \<lparr>gr_method = ''GET'', gr_pattern = pattern_campclash_CampclashQuery_StreamProject_0, gr_handler = not_streamed\<rparr>"

definition server_route_campclash_CampclashQuery_ListBalances_0 :: "'c gw_runtime \<Rightarrow> ('c, 'r) gw_server \<Rightarrow> ('r, 's) route" where
  "server_route_campclash_CampclashQuery_ListBalances_0 G S =
     \<lparr>gr_method = ''GET'', gr_pattern = pattern_campclash_CampclashQuery_ListBalances_0, gr_handler = serve_local G (local_request_campclash_CampclashQuery_ListBalances_0 G S)\<rparr>"

definition server_route_campclash_CampclashQuery_StreamBalances_0 :: "('r, 's) route" where
  "server_route_campclash_CampclashQuery_StreamBalances_0 =
     \<lparr>gr_method = ''GET'', gr_pattern = pattern_campclash_CampclashQuery_StreamBalances_0, gr_handler = not_streamed\<rparr>"

definition server_route_campclash_CampclashQuery_ListTrades_0 :: "'c gw_runtime \<Rightarrow> ('c, 'r) gw_server \<Rightarrow> ('r, 's) route" where
  "server_route_campclash_CampclashQuery_ListTrades_0 G S =
     \<lparr>gr_method = ''GET'', gr_pattern = pattern_campclash_CampclashQuery_ListTrades_0, gr_handler = serve_local G (local_request_campclash_CampclashQuery_ListTrades_0 G S)\<rparr>"

definition server_route_campclash_CampclashQuery_StreamTrades_0 :: "('r, 's) route" where
  "server_route_campclash_CampclashQuery_StreamTrades_0 =
     \<lparr>gr_method = ''GET'', gr_pattern = pattern_campclash_CampclashQuery_StreamTrades_0, gr_handler = not_streamed\<rparr>"

definition server_route_campclash_CampclashQuery_PostComment_0 :: "'c gw_runtime \<Rightarrow> ('c, 'r) gw_server \<Rightarrow> ('r, 's) route" where
  "server_route_campclash_CampclashQuery_PostComment_0 G S =
     \<lparr>gr_method = ''POST'', gr_pattern = pattern_campclash_CampclashQuery_PostComment_0, gr_handler = serve_local G (local_request_campclash_CampclashQuery_PostComment_0 G S)\<rparr>"

definition server_route_campclash_CampclashQuery_ListComments_0 :: "'c gw_runtime \<Rightarrow> ('c, 'r) gw_server \<Rightarrow> ('r, 's) route" where
  "server_route_campclash_CampclashQuery_ListComments_0 G S =
     \<lparr>gr_method = ''GET'', gr_pattern = pattern_campclash_CampclashQuery_ListComments_0, gr_handler = serve_local G (local_request_campclash_CampclashQuery_ListComments_0 G S)\<rparr>"

definition server_route_campclash_CampclashQuery_StreamComments_0 :: "('r, 's) route" where
  "server_route_campclash_CampclashQuery_StreamComments_0 =
     \<lparr>gr_method = ''GET'', gr_pattern = pattern_campclash_CampclashQuery_StreamComments_0, gr_handler = not_streamed\<rparr>"

definition server_route_campclash_CampclashQuery_GetLeaderboard_0 :: "'c gw_runtime \<Rightarrow> ('c, 'r) gw_server \<Rightarrow> ('r, 's) route" where
  "server_route_campclash_CampclashQuery_GetLeaderboard_0 G S =
     \<lparr>gr_method = ''GET'', gr_pattern = pattern_campclash_CampclashQuery_GetLeaderboard_0, gr_handler = serve_local G (local_request_campclash_CampclashQuery_GetLeaderboard_0 G S)\<rparr>"

definition server_route_campclash_CampclashQuery_ListChallenge_0 :: "'c gw_runtime \<Rightarrow> ('c, 'r) gw_server \<Rightarrow> ('r, 's) route" where
  "server_route_campclash_CampclashQuery_ListChallenge_0 G S =
     \<lparr>gr_method = ''GET'', gr_pattern = pattern_campclash_CampclashQuery_ListChallenge_0, gr_handler = serve_local G (local_request_campclash_CampclashQuery_ListChallenge_0 G S)\<rparr>"

definition server_route_campclash_CampclashQuery_StreamChallenge_0 :: "('r, 's) route" where
  "server_route_campclash_CampclashQuery_StreamChallenge_0 =
     \<lparr>gr_method = ''GET'', gr_pattern = pattern_campclash_CampclashQuery_StreamChallenge_0, gr_handler = not_streamed\<rparr>"

definition server_route_campclash_CampclashQuery_ListChallengeClaimable_0 :: "'c gw_runtime \<Rightarrow> ('c, 'r) gw_server \<Rightarrow> ('r, 's) route" where
  "server_route_campclash_CampclashQuery_ListChallengeClaimable_0 G S =
     \<lparr>gr_method = ''GET'', gr_pattern = pattern_campclash_CampclashQuery_ListChallengeClaimable_0, gr_handler = serve_local G (local_request_campclash_CampclashQuery_ListChallengeClaimable_0 G S)\<rparr>"

definition server_route_campclash_CampclashQuery_StreamChallengeClaimable_0 :: "('r, 's) route" where
  "server_route_campclash_CampclashQuery_StreamChallengeClaimable_0 =
     \<lparr>gr_method = ''GET'', gr_pattern = pattern_campclash_CampclashQuery_StreamChallengeClaimable_0, gr_handler = not_streamed\<rparr>"

definition server_route_campclash_CampclashQuery_StreamChallengeVote_0 :: "('r, 's) route" where
  "server_route_campclash_CampclashQuery_StreamChallengeVote_0 =
     \<lparr>gr_method = ''GET'', gr_pattern = pattern_campclash_CampclashQuery_StreamChallengeVote_0, gr_handler = not_streamed\<rparr>"

definition server_route_campclash_CampclashQuery_GetUserChallenges_0 :: "'c gw_runtime \<Rightarrow> ('c, 'r) gw_server \<Rightarrow> ('r, 's) route" where
  "server_route_campclash_CampclashQuery_GetUserChallenges_0 G S =
     \<lparr>gr_method = ''GET'', gr_pattern = pattern_campclash_CampclashQuery_GetUserChallenges_0, gr_handler = serve_local G (local_request_campclash_CampclashQuery_GetUserChallenges_0 G S)\<rparr>"

definition server_route_campclash_CampclashQuery_GetLogoPresignedURL_0 :: "'c gw_runtime \<Rightarrow> ('c, 'r) gw_server \<Rightarrow> ('r, 's) route" where
  "server_route_campclash_CampclashQuery_GetLogoPresignedURL_0 G S =
     \<lparr>gr_method = ''GET'', gr_pattern = pattern_campclash_CampclashQuery_GetLogoPresignedURL_0, gr_handler = serve_local G (local_request_campclash_CampclashQuery_GetLogoPresignedURL_0 G S)\<rparr>"

definition server_route_campclash_CampclashQuery_GetCampLatestHeight_0 :: "'c gw_runtime \<Rightarrow> ('c, 'r) gw_server \<Rightarrow> ('r, 's) route" where
  "server_route_campclash_CampclashQuery_GetCampLatestHeight_0 G S =
     \<lparr>gr_method = ''GET'', gr_pattern = pattern_campclash_CampclashQuery_GetCampLatestHeight_0, gr_handler = serve_local G (local_request_campclash_CampclashQuery_GetCampLatestHeight_0 G S)\<rparr>"

definition server_route_campclash_CampclashQuery_PushUserActivity_0 :: "('r, 's) route" where
  "server_route_campclash_CampclashQuery_PushUserActivity_0 =
     \<lparr>gr_method = ''POST'', gr_pattern = pattern_campclash_CampclashQuery_PushUserActivity_0, gr_handler = not_streamed\<rparr>"

definition server_route_campclash_CampclashQuery_SubscribeUserActivity_0 :: "('r, 's) route" where
  "server_route_campclash_CampclashQuery_SubscribeUserActivity_0 =
     \<lparr>gr_method = ''GET'', gr_pattern = pattern_campclash_CampclashQuery_SubscribeUserActivity_0, gr_handler = not_streamed\<rparr>"

definition register_campclash_CampclashQueryHandlerServer ::
  "'c gw_runtime \<Rightarrow> ('c, 'r) gw_server \<Rightarrow> ('r, 's) route list \<Rightarrow> gw_error + ('r, 's) route list" where
  "register_campclash_CampclashQueryHandlerServer G S mux = Inr (foldl handle_route mux
     [server_route_campclash_CampclashQuery_ListProjects_0 G S,
      server_route_campclash_CampclashQuery_StreamProject_0,
      server_route_campclash_CampclashQuery_ListBalances_0 G S,
      server_route_campclash_CampclashQuery_StreamBalances_0,
      server_route_campclash_CampclashQuery_ListTrades_0 G S,
      server_route_campclash_CampclashQuery_StreamTrades_0,
      server_route_campclash_CampclashQuery_PostComment_0 G S,
      server_route_campclash_CampclashQuery_ListComments_0 G S,
      server_route_campclash_CampclashQuery_StreamComments_0,
      server_route_campclash_CampclashQuery_GetLeaderboard_0 G S,
      server_route_campclash_CampclashQuery_ListChallenge_0 G S,
      server_route_campclash_CampclashQuery_StreamChallenge_0,
      server_route_campclash_CampclashQuery_ListChallengeClaimable_0 G S,
      server_route_campclash_CampclashQuery_StreamChallengeClaimable_0,
      server_route_campclash_CampclashQuery_StreamChallengeVote_0,
      server_route_campclash_CampclashQuery_GetUserChallenges_0 G S,
      server_route_campclash_CampclashQuery_GetLogoPresignedURL_0 G S,
      server_route_campclash_CampclashQuery_GetCampLatestHeight_0 G S,
      server_route_campclash_CampclashQuery_PushUserActivity_0,
      server_route_campclash_CampclashQuery_SubscribeUserActivity_0])"

definition client_route_campclash_CampclashQuery_ListProjects_0 :: "'c gw_runtime \<Rightarrow> ('c, 'r, 's) gw_client \<Rightarrow> ('r, 's) route" where
  "client_route_campclash_CampclashQuery_ListProjects_0 G C =
     \<lparr>gr_method = ''GET'', gr_pattern = pattern_campclash_CampclashQuery_ListProjects_0, gr_handler = serve_client G (request_campclash_CampclashQuery_ListProjects_0 G C)\<rparr>"

definition client_route_campclash_CampclashQuery_StreamProject_0 :: "'c gw_runtime \<Rightarrow> ('c, 'r, 's) gw_client \<Rightarrow> ('r, 's) route" where
  "client_route_campclash_CampclashQuery_StreamProject_0 G C =
     \<lparr>gr_method = ''GET'', gr_pattern = pattern_campclash_CampclashQuery_StreamProject_0, gr_handler = serve_client_stream G (request_campclash_CampclashQuery_StreamProject_0 G C)\<rparr>"

definition client_route_campclash_CampclashQuery_ListBalances_0 :: "'c gw_runtime \<Rightarrow> ('c, 'r, 's) gw_client \<Rightarrow> ('r, 's) route" where
  "client_route_campclash_CampclashQuery_ListBalances_0 G C =
     \<lparr>gr_method = ''GET'', gr_pattern = pattern_campclash_CampclashQuery_ListBalances_0, gr_handler = serve_client G (request_campclash_CampclashQuery_ListBalances_0 G C)\<rparr>"

definition client_route_campclash_CampclashQuery_StreamBalances_0 :: "'c gw_runtime \<Rightarrow> ('c, 'r, 's) gw_client \<Rightarrow> ('r, 's) route" where
  "client_route_campclash_CampclashQuery_StreamBalances_0 G C =
     \<lparr>gr_method = ''GET'', gr_pattern = pattern_campclash_CampclashQuery_StreamBalances_0, gr_handler = serve_client_stream G (request_campclash_CampclashQuery_StreamBalances_0 G C)\<rparr>"

definition client_route_campclash_CampclashQuery_ListTrades_0 :: "'c gw_runtime \<Rightarrow> ('c, 'r, 's) gw_client \<Rightarrow> ('r, 's) route" where
  "client_route_campclash_CampclashQuery_ListTrades_0 G C =
     \<lparr>gr_method = ''GET'', gr_pattern = pattern_campclash_CampclashQuery_ListTrades_0, gr_handler = serve_client G (request_campclash_CampclashQuery_ListTrades_0 G C)\<rparr>"

definition client_route_campclash_CampclashQuery_StreamTrades_0 :: "'c gw_runtime \<Rightarrow> ('c, 'r, 's) gw_client \<Rightarrow> ('r, 's) route" where
  "client_route_campclash_CampclashQuery_StreamTrades_0 G C =
     \<lparr>gr_method = ''GET'', gr_pattern = pattern_campclash_CampclashQuery_StreamTrades_0, gr_handler = serve_client_stream G (request_campclash_CampclashQuery_StreamTrades_0 G C)\<rparr>"

definition client_route_campclash_CampclashQuery_PostComment_0 :: "'c gw_runtime \<Rightarrow> ('c, 'r, 's) gw_client \<Rightarrow> ('r, 's) route" where
  "client_route_campclash_CampclashQuery_PostComment_0 G C =
     \<lparr>gr_method = ''POST'', gr_pattern = pattern_campclash_CampclashQuery_PostComment_0, gr_handler = serve_client G (request_campclash_CampclashQuery_PostComment_0 G C)\<rparr>"

definition client_route_campclash_CampclashQuery_ListComments_0 :: "'c gw_runtime \<Rightarrow> ('c, 'r, 's) gw_client \<Rightarrow> ('r, 's) route" where
  "client_route_campclash_CampclashQuery_ListComments_0 G C =
     \<lparr>gr_method = ''GET'', gr_pattern = pattern_campclash_CampclashQuery_ListComments_0, gr_handler = serve_client G (request_campclash_CampclashQuery_ListComments_0 G C)\<rparr>"

definition client_route_campclash_CampclashQuery_StreamComments_0 :: "'c gw_runtime \<Rightarrow> ('c, 'r, 's) gw_client \<Rightarrow> ('r, 's) route" where
  "client_route_campclash_CampclashQuery_StreamComments_0 G C =
     \<lparr>gr_method = ''GET'', gr_pattern = pattern_campclash_CampclashQuery_StreamComments_0, gr_handler = serve_client_stream G (request_campclash_CampclashQuery_StreamComments_0 G C)\<rparr>"

definition client_route_campclash_CampclashQuery_GetLeaderboard_0 :: "'c gw_runtime \<Rightarrow> ('c, 'r, 's) gw_client \<Rightarrow> ('r, 's) route" where
  "client_route_campclash_CampclashQuery_GetLeaderboard_0 G C =
     \<lparr>gr_method = ''GET'', gr_pattern = pattern_campclash_CampclashQuery_GetLeaderboard_0, gr_handler = serve_client G (request_campclash_CampclashQuery_GetLeaderboard_0 G C)\<rparr>"

definition client_route_campclash_CampclashQuery_ListChallenge_0 :: "'c gw_runtime \<Rightarrow> ('c, 'r, 's) gw_client \<Rightarrow> ('r, 's) route" where
  "client_route_campclash_CampclashQuery_ListChallenge_0 G C =
     \<lparr>gr_method = ''GET'', gr_pattern = pattern_campclash_CampclashQuery_ListChallenge_0, gr_handler = serve_client G (request_campclash_CampclashQuery_ListChallenge_0 G C)\<rparr>"

definition client_route_campclash_CampclashQuery_StreamChallenge_0 :: "'c gw_runtime \<Rightarrow> ('c, 'r, 's) gw_client \<Rightarrow> ('r, 's) route" where
  "client_route_campclash_CampclashQuery_StreamChallenge_0 G C =
     \<lparr>gr_method = ''GET'', gr_pattern = pattern_campclash_CampclashQuery_StreamChallenge_0, gr_handler = serve_client_stream G (request_campclash_CampclashQuery_StreamChallenge_0 G C)\<rparr>"

definition client_route_campclash_CampclashQuery_ListChallengeClaimable_0 :: "'c gw_runtime \<Rightarrow> ('c, 'r, 's) gw_client \<Rightarrow> ('r, 's) route" where
  "client_route_campclash_CampclashQuery_ListChallengeClaimable_0 G C =
     \<lparr>gr_method = ''GET'', gr_pattern = pattern_campclash_CampclashQuery_ListChallengeClaimable_0, gr_handler = serve_client G (request_campclash_CampclashQuery_ListChallengeClaimable_0 G C)\<rparr>"

definition client_route_campclash_CampclashQuery_StreamChallengeClaimable_0 :: "'c gw_runtime \<Rightarrow> ('c, 'r, 's) gw_client \<Rightarrow> ('r, 's) route" where
  "client_route_campclash_CampclashQuery_StreamChallengeClaimable_0 G C =
     \<lparr>gr_method = ''GET'', gr_pattern = pattern_campclash_CampclashQuery_StreamChallengeClaimable_0, gr_handler = serve_client_stream G (request_campclash_CampclashQuery_StreamChallengeClaimable_0 G C)\<rparr>"

definition client_route_campclash_CampclashQuery_StreamChallengeVote_0 :: "'c gw_runtime \<Rightarrow> ('c, 'r, 's) gw_client \<Rightarrow> ('r, 's) route" where
  "client_route_campclash_CampclashQuery_StreamChallengeVote_0 G C =
     \<lparr>gr_method = ''GET'', gr_pattern = pattern_campclash_CampclashQuery_StreamChallengeVote_0, gr_handler = serve_client_stream G (request_campclash_CampclashQuery_StreamChallengeVote_0 G C)\<rparr>"

definition client_route_campclash_CampclashQuery_GetUserChallenges_0 :: "'c gw_runtime \<Rightarrow> ('c, 'r, 's) gw_client \<Rightarrow> ('r, 's) route" where
  "client_route_campclash_CampclashQuery_GetUserChallenges_0 G C =
     \<lparr>gr_method = ''GET'', gr_pattern = pattern_campclash_CampclashQuery_GetUserChallenges_0, gr_handler = serve_client G (request_campclash_CampclashQuery_GetUserChallenges_0 G C)\<rparr>"

definition client_route_campclash_CampclashQuery_GetLogoPresignedURL_0 :: "'c gw_runtime \<Rightarrow> ('c, 'r, 's) gw_client \<Rightarrow> ('r, 's) route" where
  "client_route_campclash_CampclashQuery_GetLogoPresignedURL_0 G C =
     \<lparr>gr_method = ''GET'', gr_pattern = pattern_campclash_CampclashQuery_GetLogoPresignedURL_0, gr_handler = serve_client G (request_campclash_CampclashQuery_GetLogoPresignedURL_0 G C)\<rparr>"

definition client_route_campclash_CampclashQuery_GetCampLatestHeight_0 :: "'c gw_runtime \<Rightarrow> ('c, 'r, 's) gw_client \<Rightarrow> ('r, 's) route" where
  "client_route_campclash_CampclashQuery_GetCampLatestHeight_0 G C =
     \<lparr>gr_method = ''GET'', gr_pattern = pattern_campclash_CampclashQuery_GetCampLatestHeight_0, gr_handler = serve_client G (request_campclash_CampclashQuery_GetCampLatestHeight_0 G C)\<rparr>"

definition client_route_campclash_CampclashQuery_PushUserActivity_0 :: "'c gw_runtime \<Rightarrow> ('c, 'r, 's) gw_client \<Rightarrow> ('r, 's) route" where
  "client_route_campclash_CampclashQuery_PushUserActivity_0 G C =
     \<lparr>gr_method = ''POST'', gr_pattern = pattern_campclash_CampclashQuery_PushUserActivity_0, gr_handler = serve_client_stream G (request_campclash_CampclashQuery_PushUserActivity_0 G C)\<rparr>"

definition client_route_campclash_CampclashQuery_SubscribeUserActivity_0 :: "'c gw_runtime \<Rightarrow> ('c, 'r, 's) gw_client \<Rightarrow> ('r, 's) route" where
  "client_route_campclash_CampclashQuery_SubscribeUserActivity_0 G C =
     \<lparr>gr_method = ''GET'', gr_pattern = pattern_campclash_CampclashQuery_SubscribeUserActivity_0, gr_handler = serve_client_stream G (request_campclash_CampclashQuery_SubscribeUserActivity_0 G C)\<rparr>"

definition register_campclash_CampclashQueryHandlerClient ::
  "'c gw_runtime \<Rightarrow> ('c, 'r, 's) gw_client \<Rightarrow> ('r, 's) route list \<Rightarrow> gw_error + ('r, 's) route list" where
  "register_campclash_CampclashQueryHandlerClient G C mux = Inr (foldl handle_route mux
     [client_route_campclash_CampclashQuery_ListProjects_0 G C,
      client_route_campclash_CampclashQuery_StreamProject_0 G C,
      client_route_campclash_CampclashQuery_ListBalances_0 G C,
      client_route_campclash_CampclashQuery_StreamBalances_0 G C,
      client_route_campclash_CampclashQuery_ListTrades_0 G C,
      client_route_campclash_CampclashQuery_StreamTrades_0 G C,
      client_route_campclash_CampclashQuery_PostComment_0 G C,
      client_route_campclash_CampclashQuery_ListComments_0 G C,
      client_route_campclash_CampclashQuery_StreamComments_0 G C,
      client_route_campclash_CampclashQuery_GetLeaderboard_0 G C,
      client_route_campclash_CampclashQuery_ListChallenge_0 G C,
      client_route_campclash_CampclashQuery_StreamChallenge_0 G C,
      client_route_campclash_CampclashQuery_ListChallengeClaimable_0 G C,
      client_route_campclash_CampclashQuery_StreamChallengeClaimable_0 G C,
      client_route_campclash_CampclashQuery_StreamChallengeVote_0 G C,
      client_route_campclash_CampclashQuery_GetUserChallenges_0 G C,
      client_route_campclash_CampclashQuery_GetLogoPresignedURL_0 G C,
      client_route_campclash_CampclashQuery_GetCampLatestHeight_0 G C,
      client_route_campclash_CampclashQuery_PushUserActivity_0 G C,
      client_route_campclash_CampclashQuery_SubscribeUserActivity_0 G C])"

definition register_campclash_CampclashQueryHandler ::
  "'c gw_runtime \<Rightarrow> ('conn \<Rightarrow> ('c, 'r, 's) gw_client) \<Rightarrow> ('r, 's) route list \<Rightarrow> 'conn \<Rightarrow> gw_error + ('r, 's) route list" where
  "register_campclash_CampclashQueryHandler G new_client mux conn = register_campclash_CampclashQueryHandlerClient G (new_client conn) mux"

definition register_campclash_CampclashQueryHandlerFromEndpoint ::
  "'c gw_runtime \<Rightarrow> ('conn \<Rightarrow> ('c, 'r, 's) gw_client) \<Rightarrow> (string \<Rightarrow> gw_error + 'conn) \<Rightarrow> ('r, 's) route list \<Rightarrow> string \<Rightarrow>
     (gw_error + ('r, 's) route list) \<times> conn_fate option" where
  "register_campclash_CampclashQueryHandlerFromEndpoint G new_client dial mux endpoint =
     register_from_endpoint dial (register_campclash_CampclashQueryHandler G new_client) mux endpoint"

section \<open>API (\<open>chain/indexer/media/query.pb.gw.go\<close>)\<close>

definition filter_media_API_PresignedURL_0 :: double_array where
  "filter_media_API_PresignedURL_0 = \<lparr>Encoding = [], Base = [], Check = []\<rparr>"

definition request_media_API_PresignedURL_0 ::
  "'c gw_runtime \<Rightarrow> ('c, 'r, 's) gw_client \<Rightarrow> 'c \<Rightarrow> http_request \<Rightarrow> path_params \<Rightarrow> (gw_error + 'r) \<times> server_md" where
  "request_media_API_PresignedURL_0 G C ctx req pp =
     remote_call C ctx ''PresignedURL'' (fill_all
       [query_params G req filter_media_API_PresignedURL_0]
       (zero_message (''media'', ''PresignedURLRequest'')))"

definition local_request_media_API_PresignedURL_0 ::
  "'c gw_runtime \<Rightarrow> ('c, 'r) gw_server \<Rightarrow> 'c \<Rightarrow> http_request \<Rightarrow> path_params \<Rightarrow> (gw_error + 'r) \<times> server_md \<times> server_md" where
  "local_request_media_API_PresignedURL_0 G S ctx req pp =
     local_call S ctx ''PresignedURL'' (fill_all
       [query_params G req filter_media_API_PresignedURL_0]
       (zero_message (''media'', ''PresignedURLRequest'')))"

definition pattern_media_API_PresignedURL_0 :: url_pattern where
  "pattern_media_API_PresignedURL_0 = \<lparr>up_version = 1, up_ops = [2, 0, 2, 1, 2, 2, 2, 3],
     up_pool = [''flux'', ''indexer'', ''media'', ''presignurl''], up_verb = []\<rparr>"

definition server_route_media_API_PresignedURL_0 :: "'c gw_runtime \<Rightarrow> ('c, 'r) gw_server \<Rightarrow> ('r, 's) route" where
  "server_route_media_API_PresignedURL_0 G S =
     \<lparr>gr_method = ''POST'', gr_pattern = pattern_media_API_PresignedURL_0, gr_handler = serve_local G (local_request_media_API_PresignedURL_0 G S)\<rparr>"

definition register_media_APIHandlerServer ::
  "'c gw_runtime \<Rightarrow> ('c, 'r) gw_server \<Rightarrow> ('r, 's) route list \<Rightarrow> gw_error + ('r, 's) route list" where
  "register_media_APIHandlerServer G S mux = Inr (foldl handle_route mux
     [server_route_media_API_PresignedURL_0 G S])"

definition client_route_media_API_PresignedURL_0 :: "'c gw_runtime \<Rightarrow> ('c, 'r, 's) gw_client \<Rightarrow> ('r, 's) route" where
  "client_route_media_API_PresignedURL_0 G C =
     \<lparr>gr_method = ''POST'', gr_pattern = pattern_media_API_PresignedURL_0, gr_handler = serve_client G (request_media_API_PresignedURL_0 G C)\<rparr>"

definition register_media_APIHandlerClient ::
  "'c gw_runtime \<Rightarrow> ('c, 'r, 's) gw_client \<Rightarrow> ('r, 's) route list \<Rightarrow> gw_error + ('r, 's) route list" where
  "register_media_APIHandlerClient G C mux = Inr (foldl handle_route mux
     [client_route_media_API_PresignedURL_0 G C])"

definition register_media_APIHandler ::
  "'c gw_runtime \<Rightarrow> ('conn \<Rightarrow> ('c, 'r, 's) gw_client) \<Rightarrow> ('r, 's) route list \<Rightarrow> 'conn \<Rightarrow> gw_error + ('r, 's) route list" where
  "register_media_APIHandler G new_client mux conn = register_media_APIHandlerClient G (new_client conn) mux"

definition register_media_APIHandlerFromEndpoint ::
  "'c gw_runtime \<Rightarrow> ('conn \<Rightarrow> ('c, 'r, 's) gw_client) \<Rightarrow> (string \<Rightarrow> gw_error + 'conn) \<Rightarrow> ('r, 's) route list \<Rightarrow> string \<Rightarrow>
     (gw_error + ('r, 's) route list) \<times> conn_fate option" where
  "register_media_APIHandlerFromEndpoint G new_client dial mux endpoint =
     register_from_endpoint dial (register_media_APIHandler G new_client) mux endpoint"

section \<open>API (\<open>chain/indexer/ohlcv/ohlcv.pb.gw.go\<close>)\<close>

definition filter_ohlcv_API_Query_0 :: double_array where
  "filter_ohlcv_API_Query_0 = \<lparr>Encoding = [(''symbol'', 0), (''timeframe'', 1), (''limit'', 2)], Base = [1, 1, 2, 3, 0, 0, 0], Check = [0, 1, 1, 1, 2, 3, 4]\<rparr>"

definition request_ohlcv_API_Query_0 ::
  "'c gw_runtime \<Rightarrow> ('c, 'r, 's) gw_client \<Rightarrow> 'c \<Rightarrow> http_request \<Rightarrow> path_params \<Rightarrow> (gw_error + 'r) \<times> server_md" where
  "request_ohlcv_API_Query_0 G C ctx req pp =
     remote_call C ctx ''Query'' (fill_all
       [path_param pp (as_string G) ''symbol'' ''Symbol'',
        path_param pp (as_string G) ''timeframe'' ''Timeframe'',
        path_param pp (as_uint64 G) ''limit'' ''Limit'',
        query_params G req filter_ohlcv_API_Query_0]
       (zero_message (''ohlcv'', ''QueryRequest'')))"

definition local_request_ohlcv_API_Query_0 ::
  "'c gw_runtime \<Rightarrow> ('c, 'r) gw_server \<Rightarrow> 'c \<Rightarrow> http_request \<Rightarrow> path_params \<Rightarrow> (gw_error + 'r) \<times> server_md \<times> server_md" where
  "local_request_ohlcv_API_Query_0 G S ctx req pp =
     local_call S ctx ''Query'' (fill_all
       [path_param pp (as_string G) ''symbol'' ''Symbol'',
        path_param pp (as_string G) ''timeframe'' ''Timeframe'',
        path_param pp (as_uint64 G) ''limit'' ''Limit'',
        query_params G req filter_ohlcv_API_Query_0]
       (zero_message (''ohlcv'', ''QueryRequest'')))"

definition request_ohlcv_API_ListSymbols_0 ::
  "'c gw_runtime \<Rightarrow> ('c, 'r, 's) gw_client \<Rightarrow> 'c \<Rightarrow> http_request \<Rightarrow> path_params \<Rightarrow> (gw_error + 'r) \<times> server_md" where
  "request_ohlcv_API_ListSymbols_0 G C ctx req pp =
     remote_call C ctx ''ListSymbols'' (fill_all
       []
       (zero_message (''ohlcv'', ''ListSymbolsRequest'')))"

definition local_request_ohlcv_API_ListSymbols_0 ::
  "'c gw_runtime \<Rightarrow> ('c, 'r) gw_server \<Rightarrow> 'c \<Rightarrow> http_request \<Rightarrow> path_params \<Rightarrow> (gw_error + 'r) \<times> server_md \<times> server_md" where
  "local_request_ohlcv_API_ListSymbols_0 G S ctx req pp =
     local_call S ctx ''ListSymbols'' (fill_all
       []
       (zero_message (''ohlcv'', ''ListSymbolsRequest'')))"

definition request_ohlcv_API_GetLatestHeight_0 ::
  "'c gw_runtime \<Rightarrow> ('c, 'r, 's) gw_client \<Rightarrow> 'c \<Rightarrow> http_request \<Rightarrow> path_params \<Rightarrow> (gw_error + 'r) \<times> server_md" where
  "request_ohlcv_API_GetLatestHeight_0 G C ctx req pp =
     remote_call C ctx ''GetLatestHeight'' (fill_all
       []
       (zero_message (''ohlcv'', ''GetLatestHeightRequest'')))"

definition local_request_ohlcv_API_GetLatestHeight_0 ::
  "'c gw_runtime \<Rightarrow> ('c, 'r) gw_server \<Rightarrow> 'c \<Rightarrow> http_request \<Rightarrow> path_params \<Rightarrow> (gw_error + 'r) \<times> server_md \<times> server_md" where
  "local_request_ohlcv_API_GetLatestHeight_0 G S ctx req pp =
     local_call S ctx ''GetLatestHeight'' (fill_all
       []
       (zero_message (''ohlcv'', ''GetLatestHeightRequest'')))"

definition pattern_ohlcv_API_Query_0 :: url_pattern where
  "pattern_ohlcv_API_Query_0 = \<lparr>up_version = 1, up_ops = [2, 0, 2, 1, 2, 2, 2, 3, 1, 0, 4, 1, 5, 4, 1, 0, 4, 1, 5, 5, 1, 0, 4, 1, 5, 6],
     up_pool = [''flux'', ''indexer'', ''ohlcv'', ''query'', ''symbol'', ''timeframe'', ''limit''], up_verb = []\<rparr>"

definition pattern_ohlcv_API_ListSymbols_0 :: url_pattern where
  "pattern_ohlcv_API_ListSymbols_0 = \<lparr>up_version = 1, up_ops = [2, 0, 2, 1, 2, 2, 2, 3],
     up_pool = [''flux'', ''indexer'', ''ohlcv'', ''symbols''], up_verb = []\<rparr>"

definition pattern_ohlcv_API_GetLatestHeight_0 :: url_pattern where
  "pattern_ohlcv_API_GetLatestHeight_0 = \<lparr>up_version = 1, up_ops = [2, 0, 2, 1, 2, 2, 2, 3],
     up_pool = [''flux'', ''indexer'', ''ohlcv'', ''latest-height''], up_verb = []\<rparr>"

definition server_route_ohlcv_API_Query_0 :: "'c gw_runtime \<Rightarrow> ('c, 'r) gw_server \<Rightarrow> ('r, 's) route" where
  "server_route_ohlcv_API_Query_0 G S =
     \<lparr>gr_method = ''GET'', gr_pattern = pattern_ohlcv_API_Query_0, gr_handler = serve_local G (local_request_ohlcv_API_Query_0 G S)\<rparr>"

definition server_route_ohlcv_API_ListSymbols_0 :: "'c gw_runtime \<Rightarrow> ('c, 'r) gw_server \<Rightarrow> ('r, 's) route" where
  "server_route_ohlcv_API_ListSymbols_0 G S =
     \<lparr>gr_method = ''GET'', gr_pattern = pattern_ohlcv_API_ListSymbols_0, gr_handler = serve_local G (local_request_ohlcv_API_ListSymbols_0 G S)\<rparr>"

definition server_route_ohlcv_API_GetLatestHeight_0 :: "'c gw_runtime \<Rightarrow> ('c, 'r) gw_server \<Rightarrow> ('r, 's) route" where
  "server_route_ohlcv_API_GetLatestHeight_0 G S =
     \<lparr>gr_method = ''GET'', gr_pattern = pattern_ohlcv_API_GetLatestHeight_0, gr_handler = serve_local G (local_request_ohlcv_API_GetLatestHeight_0 G S)\<rparr>"

definition register_ohlcv_APIHandlerServer ::
  "'c gw_runtime \<Rightarrow> ('c, 'r) gw_server \<Rightarrow> ('r, 's) route list \<Rightarrow> gw_error + ('r, 's) route list" where
  "register_ohlcv_APIHandlerServer G S mux = Inr (foldl handle_route mux
     [server_route_ohlcv_API_Query_0 G S,
      server_route_ohlcv_API_ListSymbols_0 G S,
      server_route_ohlcv_API_GetLatestHeight_0 G S])"

definition client_route_ohlcv_API_Query_0 :: "'c gw_runtime \<Rightarrow> ('c, 'r, 's) gw_client \<Rightarrow> ('r, 's) route" where
  "client_route_ohlcv_API_Query_0 G C =
     \<lparr>gr_method = ''GET'', gr_pattern = pattern_ohlcv_API_Query_0, gr_handler = serve_client G (request_ohlcv_API_Query_0 G C)\<rparr>"

definition client_route_ohlcv_API_ListSymbols_0 :: "'c gw_runtime \<Rightarrow> ('c, 'r, 's) gw_client \<Rightarrow> ('r, 's) route" where
  "client_route_ohlcv_API_ListSymbols_0 G C =
     \<lparr>gr_method = ''GET'', gr_pattern = pattern_ohlcv_API_ListSymbols_0, gr_handler = serve_client G (request_ohlcv_API_ListSymbols_0 G C)\<rparr>"

definition client_route_ohlcv_API_GetLatestHeight_0 :: "'c gw_runtime \<Rightarrow> ('c, 'r, 's) gw_client \<Rightarrow> ('r, 's) route" where
  "client_route_ohlcv_API_GetLatestHeight_0 G C =
     \<lparr>gr_method = ''GET'', gr_pattern = pattern_ohlcv_API_GetLatestHeight_0, gr_handler = serve_client G (request_ohlcv_API_GetLatestHeight_0 G C)\<rparr>"

definition register_ohlcv_APIHandlerClient ::
  "'c gw_runtime \<Rightarrow> ('c, 'r, 's) gw_client \<Rightarrow> ('r, 's) route list \<Rightarrow> gw_error + ('r, 's) route list" where
  "register_ohlcv_APIHandlerClient G C mux = Inr (foldl handle_route mux
     [client_route_ohlcv_API_Query_0 G C,
      client_route_ohlcv_API_ListSymbols_0 G C,
      client_route_ohlcv_API_GetLatestHeight_0 G C])"

definition register_ohlcv_APIHandler ::
  "'c gw_runtime \<Rightarrow> ('conn \<Rightarrow> ('c, 'r, 's) gw_client) \<Rightarrow> ('r, 's) route list \<Rightarrow> 'conn \<Rightarrow> gw_error + ('r, 's) route list" where
  "register_ohlcv_APIHandler G new_client mux conn = register_ohlcv_APIHandlerClient G (new_client conn) mux"

definition register_ohlcv_APIHandlerFromEndpoint ::
  "'c gw_runtime \<Rightarrow> ('conn \<Rightarrow> ('c, 'r, 's) gw_client) \<Rightarrow> (string \<Rightarrow> gw_error + 'conn) \<Rightarrow> ('r, 's) route list \<Rightarrow> string \<Rightarrow>
     (gw_error + ('r, 's) route list) \<times> conn_fate option" where
  "register_ohlcv_APIHandlerFromEndpoint G new_client dial mux endpoint =
     register_from_endpoint dial (register_ohlcv_APIHandler G new_client) mux endpoint"

section \<open>Definitions by group\<close>

lemmas [gateway_patterns] =
  pattern_explorer_API_ListEvmContracts_0_def pattern_explorer_API_Balances_0_def
  pattern_explorer_API_ListStrategies_0_def pattern_explorer_API_ListStrategiesByOwner_0_def
  pattern_explorer_API_GetMetrics_0_def pattern_explorer_API_ListStrategyTriggersById_0_def
  pattern_explorer_API_ListTokenMetadata_0_def pattern_explorer_API_ListSvmAccountLinks_0_def
  pattern_explorer_API_StreamBalances_0_def pattern_explorer_API_StreamStrategyTriggers_0_def
  pattern_explorer_API_StreamStrategies_0_def pattern_explorer_API_StreamTokenMetadata_0_def
  pattern_explorer_API_StreamSvmAccountLink_0_def pattern_explorer_API_ListDriftOrders_0_def
  pattern_explorer_API_ListFillableDriftJITOrders_0_def pattern_explorer_API_StreamDriftOrders_0_def
  pattern_explorer_API_ListTxs_0_def pattern_explorer_API_GetTx_0_def
  pattern_explorer_API_ListAccountTxs_0_def pattern_explorer_API_ListBlocks_0_def
  pattern_explorer_API_GetBlock_0_def pattern_explorer_API_StreamTxs_0_def
  pattern_explorer_API_StreamBlocks_0_def pattern_explorer_API_ListContracts_0_def
  pattern_explorer_API_GetContract_0_def pattern_explorer_API_StreamContract_0_def
  pattern_explorer_API_ListDumpsadCoins_0_def pattern_explorer_API_StreamDumpsadCoins_0_def
  pattern_explorer_API_ListDumpsadTrades_0_def pattern_explorer_API_StreamDumpsadTrades_0_def
  pattern_provider_API_GetBlock_0_def pattern_provider_API_StreamBlock_0_def
  pattern_provider_API_GetEvents_0_def pattern_provider_API_StreamEvents_0_def
  pattern_campclash_ProviderQuery_CampEvents_0_def
  pattern_campclash_ProviderQuery_GetProviderLatestHeight_0_def
  pattern_campclash_CampclashQuery_ListProjects_0_def
  pattern_campclash_CampclashQuery_StreamProject_0_def
  pattern_campclash_CampclashQuery_ListBalances_0_def
  pattern_campclash_CampclashQuery_StreamBalances_0_def
  pattern_campclash_CampclashQuery_ListTrades_0_def
  pattern_campclash_CampclashQuery_StreamTrades_0_def
  pattern_campclash_CampclashQuery_PostComment_0_def
  pattern_campclash_CampclashQuery_ListComments_0_def
  pattern_campclash_CampclashQuery_StreamComments_0_def
  pattern_campclash_CampclashQuery_GetLeaderboard_0_def
  pattern_campclash_CampclashQuery_ListChallenge_0_def
  pattern_campclash_CampclashQuery_StreamChallenge_0_def
  pattern_campclash_CampclashQuery_ListChallengeClaimable_0_def
  pattern_campclash_CampclashQuery_StreamChallengeClaimable_0_def
  pattern_campclash_CampclashQuery_StreamChallengeVote_0_def
  pattern_campclash_CampclashQuery_GetUserChallenges_0_def
  pattern_campclash_CampclashQuery_GetLogoPresignedURL_0_def
  pattern_campclash_CampclashQuery_GetCampLatestHeight_0_def
  pattern_campclash_CampclashQuery_PushUserActivity_0_def
  pattern_campclash_CampclashQuery_SubscribeUserActivity_0_def pattern_media_API_PresignedURL_0_def
  pattern_ohlcv_API_Query_0_def pattern_ohlcv_API_ListSymbols_0_def
  pattern_ohlcv_API_GetLatestHeight_0_def

lemmas [gateway_filters] =
  filter_explorer_API_ListEvmContracts_0_def filter_explorer_API_Balances_0_def
  filter_explorer_API_ListStrategies_0_def filter_explorer_API_ListStrategiesByOwner_0_def
  filter_explorer_API_ListStrategyTriggersById_0_def filter_explorer_API_ListTokenMetadata_0_def
  filter_explorer_API_ListSvmAccountLinks_0_def filter_explorer_API_StreamBalances_0_def
  filter_explorer_API_StreamStrategies_0_def filter_explorer_API_StreamSvmAccountLink_0_def
  filter_explorer_API_ListDriftOrders_0_def filter_explorer_API_ListFillableDriftJITOrders_0_def
  filter_explorer_API_StreamDriftOrders_0_def filter_explorer_API_ListTxs_0_def
  filter_explorer_API_ListAccountTxs_0_def filter_explorer_API_ListBlocks_0_def
  filter_explorer_API_StreamTxs_0_def filter_explorer_API_ListContracts_0_def
  filter_explorer_API_GetContract_0_def filter_explorer_API_StreamContract_0_def
  filter_explorer_API_ListDumpsadCoins_0_def filter_explorer_API_StreamDumpsadCoins_0_def
  filter_explorer_API_ListDumpsadTrades_0_def filter_explorer_API_StreamDumpsadTrades_0_def
  filter_campclash_CampclashQuery_ListProjects_0_def
  filter_campclash_CampclashQuery_StreamProject_0_def
  filter_campclash_CampclashQuery_ListBalances_0_def
  filter_campclash_CampclashQuery_StreamBalances_0_def
  filter_campclash_CampclashQuery_ListTrades_0_def filter_campclash_CampclashQuery_StreamTrades_0_def
  filter_campclash_CampclashQuery_PostComment_0_def filter_campclash_CampclashQuery_ListComments_0_def
  filter_campclash_CampclashQuery_StreamComments_0_def
  filter_campclash_CampclashQuery_GetLeaderboard_0_def
  filter_campclash_CampclashQuery_ListChallenge_0_def
  filter_campclash_CampclashQuery_StreamChallenge_0_def
  filter_campclash_CampclashQuery_ListChallengeClaimable_0_def
  filter_campclash_CampclashQuery_StreamChallengeClaimable_0_def
  filter_campclash_CampclashQuery_StreamChallengeVote_0_def
  filter_campclash_CampclashQuery_GetUserChallenges_0_def
  filter_campclash_CampclashQuery_GetLogoPresignedURL_0_def
  filter_campclash_CampclashQuery_PushUserActivity_0_def filter_media_API_PresignedURL_0_def
  filter_ohlcv_API_Query_0_def

lemmas [gateway_requests] =
  request_explorer_API_ListEvmContracts_0_def local_request_explorer_API_ListEvmContracts_0_def
  request_explorer_API_Balances_0_def local_request_explorer_API_Balances_0_def
  request_explorer_API_ListStrategies_0_def local_request_explorer_API_ListStrategies_0_def
  request_explorer_API_ListStrategiesByOwner_0_def
  local_request_explorer_API_ListStrategiesByOwner_0_def request_explorer_API_GetMetrics_0_def
  local_request_explorer_API_GetMetrics_0_def request_explorer_API_ListStrategyTriggersById_0_def
  local_request_explorer_API_ListStrategyTriggersById_0_def
  request_explorer_API_ListTokenMetadata_0_def local_request_explorer_API_ListTokenMetadata_0_def
  request_explorer_API_ListSvmAccountLinks_0_def local_request_explorer_API_ListSvmAccountLinks_0_def
  request_explorer_API_StreamBalances_0_def request_explorer_API_StreamStrategyTriggers_0_def
  request_explorer_API_StreamStrategies_0_def request_explorer_API_StreamTokenMetadata_0_def
  request_explorer_API_StreamSvmAccountLink_0_def request_explorer_API_ListDriftOrders_0_def
  local_request_explorer_API_ListDriftOrders_0_def
  request_explorer_API_ListFillableDriftJITOrders_0_def
  local_request_explorer_API_ListFillableDriftJITOrders_0_def
  request_explorer_API_StreamDriftOrders_0_def request_explorer_API_ListTxs_0_def
  local_request_explorer_API_ListTxs_0_def request_explorer_API_GetTx_0_def
  local_request_explorer_API_GetTx_0_def request_explorer_API_ListAccountTxs_0_def
  local_request_explorer_API_ListAccountTxs_0_def request_explorer_API_ListBlocks_0_def
  local_request_explorer_API_ListBlocks_0_def request_explorer_API_GetBlock_0_def
  local_request_explorer_API_GetBlock_0_def request_explorer_API_StreamTxs_0_def
  request_explorer_API_StreamBlocks_0_def request_explorer_API_ListContracts_0_def
  local_request_explorer_API_ListContracts_0_def request_explorer_API_GetContract_0_def
  local_request_explorer_API_GetContract_0_def request_explorer_API_StreamContract_0_def
  request_explorer_API_ListDumpsadCoins_0_def local_request_explorer_API_ListDumpsadCoins_0_def
  request_explorer_API_StreamDumpsadCoins_0_def request_explorer_API_ListDumpsadTrades_0_def
  local_request_explorer_API_ListDumpsadTrades_0_def request_explorer_API_StreamDumpsadTrades_0_def
  request_provider_API_GetBlock_0_def local_request_provider_API_GetBlock_0_def
  request_provider_API_StreamBlock_0_def request_provider_API_GetEvents_0_def
  local_request_provider_API_GetEvents_0_def request_provider_API_StreamEvents_0_def
  request_campclash_ProviderQuery_CampEvents_0_def
  local_request_campclash_ProviderQuery_CampEvents_0_def
  request_campclash_ProviderQuery_GetProviderLatestHeight_0_def
  local_request_campclash_ProviderQuery_GetProviderLatestHeight_0_def
  request_campclash_CampclashQuery_ListProjects_0_def
  local_request_campclash_CampclashQuery_ListProjects_0_def
  request_campclash_CampclashQuery_StreamProject_0_def
  request_campclash_CampclashQuery_ListBalances_0_def
  local_request_campclash_CampclashQuery_ListBalances_0_def
  request_campclash_CampclashQuery_StreamBalances_0_def
  request_campclash_CampclashQuery_ListTrades_0_def
  local_request_campclash_CampclashQuery_ListTrades_0_def
  request_campclash_CampclashQuery_StreamTrades_0_def
  request_campclash_CampclashQuery_PostComment_0_def
  local_request_campclash_CampclashQuery_PostComment_0_def
  request_campclash_CampclashQuery_ListComments_0_def
  local_request_campclash_CampclashQuery_ListComments_0_def
  request_campclash_CampclashQuery_StreamComments_0_def
  request_campclash_CampclashQuery_GetLeaderboard_0_def
  local_request_campclash_CampclashQuery_GetLeaderboard_0_def
  request_campclash_CampclashQuery_ListChallenge_0_def
  local_request_campclash_CampclashQuery_ListChallenge_0_def
  request_campclash_CampclashQuery_StreamChallenge_0_def
  request_campclash_CampclashQuery_ListChallengeClaimable_0_def
  local_request_campclash_CampclashQuery_ListChallengeClaimable_0_def
  request_campclash_CampclashQuery_StreamChallengeClaimable_0_def
  request_campclash_CampclashQuery_StreamChallengeVote_0_def
  request_campclash_CampclashQuery_GetUserChallenges_0_def
  local_request_campclash_CampclashQuery_GetUserChallenges_0_def
  request_campclash_CampclashQuery_GetLogoPresignedURL_0_def
  local_request_campclash_CampclashQuery_GetLogoPresignedURL_0_def
  request_campclash_CampclashQuery_GetCampLatestHeight_0_def
  local_request_campclash_CampclashQuery_GetCampLatestHeight_0_def
  request_campclash_CampclashQuery_PushUserActivity_0_def
  request_campclash_CampclashQuery_SubscribeUserActivity_0_def request_media_API_PresignedURL_0_def
  local_request_media_API_PresignedURL_0_def request_ohlcv_API_Query_0_def
  local_request_ohlcv_API_Query_0_def request_ohlcv_API_ListSymbols_0_def
  local_request_ohlcv_API_ListSymbols_0_def request_ohlcv_API_GetLatestHeight_0_def
  local_request_ohlcv_API_GetLatestHeight_0_def

lemmas [gateway_routes] =
  server_route_explorer_API_ListEvmContracts_0_def server_route_explorer_API_Balances_0_def
  server_route_explorer_API_ListStrategies_0_def server_route_explorer_API_ListStrategiesByOwner_0_def
  server_route_explorer_API_GetMetrics_0_def server_route_explorer_API_ListStrategyTriggersById_0_def
  server_route_explorer_API_ListTokenMetadata_0_def
  server_route_explorer_API_ListSvmAccountLinks_0_def server_route_explorer_API_StreamBalances_0_def
  server_route_explorer_API_StreamStrategyTriggers_0_def
  server_route_explorer_API_StreamStrategies_0_def server_route_explorer_API_StreamTokenMetadata_0_def
  server_route_explorer_API_StreamSvmAccountLink_0_def server_route_explorer_API_ListDriftOrders_0_def
  server_route_explorer_API_ListFillableDriftJITOrders_0_def
  server_route_explorer_API_StreamDriftOrders_0_def server_route_explorer_API_ListTxs_0_def
  server_route_explorer_API_GetTx_0_def server_route_explorer_API_ListAccountTxs_0_def
  server_route_explorer_API_ListBlocks_0_def server_route_explorer_API_GetBlock_0_def
  server_route_explorer_API_StreamTxs_0_def server_route_explorer_API_StreamBlocks_0_def
  server_route_explorer_API_ListContracts_0_def server_route_explorer_API_GetContract_0_def
  server_route_explorer_API_StreamContract_0_def server_route_explorer_API_ListDumpsadCoins_0_def
  server_route_explorer_API_StreamDumpsadCoins_0_def server_route_explorer_API_ListDumpsadTrades_0_def
  server_route_explorer_API_StreamDumpsadTrades_0_def client_route_explorer_API_ListEvmContracts_0_def
  client_route_explorer_API_Balances_0_def client_route_explorer_API_ListStrategies_0_def
  client_route_explorer_API_ListStrategiesByOwner_0_def client_route_explorer_API_GetMetrics_0_def
  client_route_explorer_API_ListStrategyTriggersById_0_def
  client_route_explorer_API_ListTokenMetadata_0_def
  client_route_explorer_API_ListSvmAccountLinks_0_def client_route_explorer_API_StreamBalances_0_def
  client_route_explorer_API_StreamStrategyTriggers_0_def
  client_route_explorer_API_StreamStrategies_0_def client_route_explorer_API_StreamTokenMetadata_0_def
  client_route_explorer_API_StreamSvmAccountLink_0_def client_route_explorer_API_ListDriftOrders_0_def
  client_route_explorer_API_ListFillableDriftJITOrders_0_def
  client_route_explorer_API_StreamDriftOrders_0_def client_route_explorer_API_ListTxs_0_def
  client_route_explorer_API_GetTx_0_def client_route_explorer_API_ListAccountTxs_0_def
  client_route_explorer_API_ListBlocks_0_def client_route_explorer_API_GetBlock_0_def
  client_route_explorer_API_StreamTxs_0_def client_route_explorer_API_StreamBlocks_0_def
  client_route_explorer_API_ListContracts_0_def client_route_explorer_API_GetContract_0_def
  client_route_explorer_API_StreamContract_0_def client_route_explorer_API_ListDumpsadCoins_0_def
  client_route_explorer_API_StreamDumpsadCoins_0_def client_route_explorer_API_ListDumpsadTrades_0_def
  client_route_explorer_API_StreamDumpsadTrades_0_def server_route_provider_API_GetBlock_0_def
  server_route_provider_API_StreamBlock_0_def server_route_provider_API_GetEvents_0_def
  server_route_provider_API_StreamEvents_0_def client_route_provider_API_GetBlock_0_def
  client_route_provider_API_StreamBlock_0_def client_route_provider_API_GetEvents_0_def
  client_route_provider_API_StreamEvents_0_def server_route_campclash_ProviderQuery_CampEvents_0_def
  server_route_campclash_ProviderQuery_GetProviderLatestHeight_0_def
  client_route_campclash_ProviderQuery_CampEvents_0_def
  client_route_campclash_ProviderQuery_GetProviderLatestHeight_0_def
  server_route_campclash_CampclashQuery_ListProjects_0_def
  server_route_campclash_CampclashQuery_StreamProject_0_def
  server_route_campclash_CampclashQuery_ListBalances_0_def
  server_route_campclash_CampclashQuery_StreamBalances_0_def
  server_route_campclash_CampclashQuery_ListTrades_0_def
  server_route_campclash_CampclashQuery_StreamTrades_0_def
  server_route_campclash_CampclashQuery_PostComment_0_def
  server_route_campclash_CampclashQuery_ListComments_0_def
  server_route_campclash_CampclashQuery_StreamComments_0_def
  server_route_campclash_CampclashQuery_GetLeaderboard_0_def
  server_route_campclash_CampclashQuery_ListChallenge_0_def
  server_route_campclash_CampclashQuery_StreamChallenge_0_def
  server_route_campclash_CampclashQuery_ListChallengeClaimable_0_def
  server_route_campclash_CampclashQuery_StreamChallengeClaimable_0_def
  server_route_campclash_CampclashQuery_StreamChallengeVote_0_def
  server_route_campclash_CampclashQuery_GetUserChallenges_0_def
  server_route_campclash_CampclashQuery_GetLogoPresignedURL_0_def
  server_route_campclash_CampclashQuery_GetCampLatestHeight_0_def
  server_route_campclash_CampclashQuery_PushUserActivity_0_def
  server_route_campclash_CampclashQuery_SubscribeUserActivity_0_def
  client_route_campclash_CampclashQuery_ListProjects_0_def
  client_route_campclash_CampclashQuery_StreamProject_0_def
  client_route_campclash_CampclashQuery_ListBalances_0_def
  client_route_campclash_CampclashQuery_StreamBalances_0_def
  client_route_campclash_CampclashQuery_ListTrades_0_def
  client_route_campclash_CampclashQuery_StreamTrades_0_def
  client_route_campclash_CampclashQuery_PostComment_0_def
  client_route_campclash_CampclashQuery_ListComments_0_def
  client_route_campclash_CampclashQuery_StreamComments_0_def
  client_route_campclash_CampclashQuery_GetLeaderboard_0_def
  client_route_campclash_CampclashQuery_ListChallenge_0_def
  client_route_campclash_CampclashQuery_StreamChallenge_0_def
  client_route_campclash_CampclashQuery_ListChallengeClaimable_0_def
  client_route_campclash_CampclashQuery_StreamChallengeClaimable_0_def
  client_route_campclash_CampclashQuery_StreamChallengeVote_0_def
  client_route_campclash_CampclashQuery_GetUserChallenges_0_def
  client_route_campclash_CampclashQuery_GetLogoPresignedURL_0_def
  client_route_campclash_CampclashQuery_GetCampLatestHeight_0_def
  client_route_campclash_CampclashQuery_PushUserActivity_0_def
  client_route_campclash_CampclashQuery_SubscribeUserActivity_0_def
  server_route_media_API_PresignedURL_0_def client_route_media_API_PresignedURL_0_def
  server_route_ohlcv_API_Query_0_def server_route_ohlcv_API_ListSymbols_0_def
  server_route_ohlcv_API_GetLatestHeight_0_def client_route_ohlcv_API_Query_0_def
  client_route_ohlcv_API_ListSymbols_0_def client_route_ohlcv_API_GetLatestHeight_0_def

lemmas [gateway_registers] =
  register_explorer_APIHandlerServer_def register_explorer_APIHandlerClient_def
  register_provider_APIHandlerServer_def register_provider_APIHandlerClient_def
  register_campclash_ProviderQueryHandlerServer_def register_campclash_ProviderQueryHandlerClient_def
  register_campclash_CampclashQueryHandlerServer_def
  register_campclash_CampclashQueryHandlerClient_def register_media_APIHandlerServer_def
  register_media_APIHandlerClient_def register_ohlcv_APIHandlerServer_def
  register_ohlcv_APIHandlerClient_def

end
