(* ===== verification/Gateway_Services.thy ===== *)
theory Gateway_Services
  imports Gateway_Indexer
begin

text \<open>
  The services of all gateways together: the field of a message a path parameter names, that serving a service
  in process and over a connection answers alike, and that the path of a URL decides the fields it names.
\<close>

section \<open>Names of fields\<close>

text \<open>
  The fields of the messages that take path parameters, from the struct tags of the generated types:
  the protobuf name, the JSON name as the tag gives it (a tag leaves it out where it is the same as the protobuf name)
  and the Go name.
\<close>

type_synonym field_tag = "string \<times> string \<times> string"

definition astromesh_QueryDenomLinkRequest_tags :: "field_tag list" where
  "astromesh_QueryDenomLinkRequest_tags = [(''src_plane'', ''srcPlane'', ''SrcPlane''), (''dst_plane'', ''dstPlane'', ''DstPlane''), (''src_addr'', ''srcAddr'', ''SrcAddr'')]"

definition astromesh_BalanceRequest_tags :: "field_tag list" where
  "astromesh_BalanceRequest_tags = [(''plane'', [], ''Plane''), (''denom'', [], ''Denom''), (''address'', [], ''Address'')]"

definition fnft_QueryBalanceRequest_tags :: "field_tag list" where
  "fnft_QueryBalanceRequest_tags = [(''class_id'', ''classId'', ''ClassId''), (''owner'', [], ''Owner'')]"

definition fnft_QueryOwnerRequest_tags :: "field_tag list" where
  "fnft_QueryOwnerRequest_tags = [(''class_id'', ''classId'', ''ClassId''), (''id'', [], ''Id'')]"

definition fnft_QuerySupplyRequest_tags :: "field_tag list" where
  "fnft_QuerySupplyRequest_tags = [(''class_id'', ''classId'', ''ClassId'')]"

definition fnft_QueryHolderRequest_tags :: "field_tag list" where
  "fnft_QueryHolderRequest_tags = [(''class_id'', ''classId'', ''ClassId''), (''id'', [], ''Id''), (''address'', [], ''Address'')]"

definition fnft_QueryHoldersRequest_tags :: "field_tag list" where
  "fnft_QueryHoldersRequest_tags = [(''class_id'', ''classId'', ''ClassId''), (''id'', [], ''Id'')]"

definition fnft_QueryNFTRequest_tags :: "field_tag list" where
  "fnft_QueryNFTRequest_tags = [(''class_id'', ''classId'', ''ClassId''), (''id'', [], ''Id'')]"

definition fnft_QueryClassRequest_tags :: "field_tag list" where
  "fnft_QueryClassRequest_tags = [(''class_id'', ''classId'', ''ClassId'')]"

definition evm_BalanceRequest_tags :: "field_tag list" where
  "evm_BalanceRequest_tags = [(''address'', [], ''Address'')]"

definition evm_ContractQueryRequest_tags :: "field_tag list" where
  "evm_ContractQueryRequest_tags = [(''address'', [], ''Address''), (''calldata'', [], ''Calldata'')]"

definition oracle_QuerySimpleEntry_tags :: "field_tag list" where
  "oracle_QuerySimpleEntry_tags = [(''symbols'', [], ''Symbols'')]"

definition bazaar_QueryNFTProductsRequest_tags :: "field_tag list" where
  "bazaar_QueryNFTProductsRequest_tags = [(''class_id'', ''classId'', ''ClassId''), (''id'', [], ''Id'')]"

definition bazaar_QueryNFTProductRequest_tags :: "field_tag list" where
  "bazaar_QueryNFTProductRequest_tags = [(''class_id'', ''classId'', ''ClassId''), (''id'', [], ''Id''), (''product_id'', ''productId'', ''ProductId'')]"

definition svm_AccountRequest_tags :: "field_tag list" where
  "svm_AccountRequest_tags = [(''address'', [], ''Address'')]"

definition svm_AccountsByOwnerRequest_tags :: "field_tag list" where
  "svm_AccountsByOwnerRequest_tags = [(''address'', [], ''Address'')]"

definition svm_AccountLinkRequest_tags :: "field_tag list" where
  "svm_AccountLinkRequest_tags = [(''address'', [], ''Address'')]"

definition strategy_GetStrategyByIdRequest_tags :: "field_tag list" where
  "strategy_GetStrategyByIdRequest_tags = [(''id'', [], ''Id'')]"

definition strategy_ListStrategiesByOwnerRequest_tags :: "field_tag list" where
  "strategy_ListStrategiesByOwnerRequest_tags = [(''owner'', [], ''Owner'')]"

definition strategy_ListStrategiesByTypeRequest_tags :: "field_tag list" where
  "strategy_ListStrategiesByTypeRequest_tags = [(''type'', [], ''Type'')]"

definition strategy_GetStrategyVerifierRequest_tags :: "field_tag list" where
  "strategy_GetStrategyVerifierRequest_tags = [(''plane'', [], ''Plane''), (''contract_address'', ''contractAddress'', ''ContractAddress'')]"

definition interpool_QueryPoolRequest_tags :: "field_tag list" where
  "interpool_QueryPoolRequest_tags = [(''pool_id'', ''poolId'', ''PoolId'')]"

definition interpool_QueryPoolSharesRequest_tags :: "field_tag list" where
  "interpool_QueryPoolSharesRequest_tags = [(''pool_id'', ''poolId'', ''PoolId''), (''pagination'', [], ''Pagination'')]"

definition eventstream_EventsRequest_tags :: "field_tag list" where
  "eventstream_EventsRequest_tags = [(''height'', [], ''Height''), (''modules'', [], ''Modules''), (''tm_queries'', ''tmQueries'', ''TmQueries'')]"

definition explorer_BalancesRequest_tags :: "field_tag list" where
  "explorer_BalancesRequest_tags = [(''address'', [], ''Address''), (''pagination'', [], ''Pagination'')]"

definition explorer_ListStrategiesByOwnerRequest_tags :: "field_tag list" where
  "explorer_ListStrategiesByOwnerRequest_tags = [(''pagination'', [], ''Pagination''), (''owner'', [], ''Owner''), (''type'', [], ''Type''), (''enabled'', [], ''Enabled''), (''tags'', [], ''Tags''), (''supported_app'', ''supportedApp'', ''SupportedApp'')]"

definition explorer_ListStrategyTriggerByIdRequest_tags :: "field_tag list" where
  "explorer_ListStrategyTriggerByIdRequest_tags = [(''pagination'', [], ''Pagination''), (''id'', [], ''Id''), (''from_time'', ''fromTime'', ''FromTime''), (''to_time'', ''toTime'', ''ToTime''), (''success'', [], ''Success'')]"

definition explorer_StreamStrategyTriggerRequest_tags :: "field_tag list" where
  "explorer_StreamStrategyTriggerRequest_tags = [(''id'', [], ''Id'')]"

definition explorer_GetTxRequest_tags :: "field_tag list" where
  "explorer_GetTxRequest_tags = [(''tx_hash'', ''txHash'', ''TxHash'')]"

definition explorer_ListAccountTxsRequest_tags :: "field_tag list" where
  "explorer_ListAccountTxsRequest_tags = [(''account'', [], ''Account''), (''pagination'', [], ''Pagination'')]"

definition explorer_GetBlockRequest_tags :: "field_tag list" where
  "explorer_GetBlockRequest_tags = [(''block_height'', ''blockHeight'', ''BlockHeight'')]"

definition explorer_GetContractRequest_tags :: "field_tag list" where
  "explorer_GetContractRequest_tags = [(''address'', [], ''Address''), (''plane'', [], ''Plane'')]"

definition provider_ProviderBlockRequest_tags :: "field_tag list" where
  "provider_ProviderBlockRequest_tags = [(''height'', [], ''Height'')]"

definition provider_ProviderEventsRequest_tags :: "field_tag list" where
  "provider_ProviderEventsRequest_tags = [(''height'', [], ''Height''), (''modules'', [], ''Modules'')]"

definition campclash_QueryCampEventsRequest_tags :: "field_tag list" where
  "campclash_QueryCampEventsRequest_tags = [(''height'', [], ''Height'')]"

definition campclash_GetUserChallengesRequest_tags :: "field_tag list" where
  "campclash_GetUserChallengesRequest_tags = [(''pagination'', [], ''Pagination''), (''address'', [], ''Address''), (''unclaimed_challenge'', ''unclaimedChallenge'', ''UnclaimedChallenge'')]"

definition ohlcv_QueryRequest_tags :: "field_tag list" where
  "ohlcv_QueryRequest_tags = [(''symbol'', [], ''Symbol''), (''timeframe'', [], ''Timeframe''), (''limit'', [], ''Limit''), (''start_epoch'', ''startEpoch'', ''StartEpoch''), (''end_epoch'', ''endEpoch'', ''EndEpoch'')]"

definition proto_tags :: "(string \<times> (string \<times> field_tag list) list) list" where
  "proto_tags =
     [(''astromesh'',
        [(''QueryDenomLinkRequest'', astromesh_QueryDenomLinkRequest_tags),
         (''BalanceRequest'', astromesh_BalanceRequest_tags)]),
      (''fnft'',
        [(''QueryBalanceRequest'', fnft_QueryBalanceRequest_tags),
         (''QueryOwnerRequest'', fnft_QueryOwnerRequest_tags),
         (''QuerySupplyRequest'', fnft_QuerySupplyRequest_tags),
         (''QueryHolderRequest'', fnft_QueryHolderRequest_tags),
         (''QueryHoldersRequest'', fnft_QueryHoldersRequest_tags),
         (''QueryNFTRequest'', fnft_QueryNFTRequest_tags),
         (''QueryClassRequest'', fnft_QueryClassRequest_tags)]),
      (''evm'',
        [(''BalanceRequest'', evm_BalanceRequest_tags),
         (''ContractQueryRequest'', evm_ContractQueryRequest_tags)]),
      (''oracle'',
        [(''QuerySimpleEntry'', oracle_QuerySimpleEntry_tags)]),
      (''bazaar'',
        [(''QueryNFTProductsRequest'', bazaar_QueryNFTProductsRequest_tags),
         (''QueryNFTProductRequest'', bazaar_QueryNFTProductRequest_tags)]),
      (''svm'',
        [(''AccountRequest'', svm_AccountRequest_tags),
         (''AccountsByOwnerRequest'', svm_AccountsByOwnerRequest_tags),
         (''AccountLinkRequest'', svm_AccountLinkRequest_tags)]),
      (''strategy'',
        [(''GetStrategyByIdRequest'', strategy_GetStrategyByIdRequest_tags),
         (''ListStrategiesByOwnerRequest'', strategy_ListStrategiesByOwnerRequest_tags),
         (''ListStrategiesByTypeRequest'', strategy_ListStrategiesByTypeRequest_tags),
         (''GetStrategyVerifierRequest'', strategy_GetStrategyVerifierRequest_tags)]),
      (''interpool'',
        [(''QueryPoolRequest'', interpool_QueryPoolRequest_tags),
         (''QueryPoolSharesRequest'', interpool_QueryPoolSharesRequest_tags)]),
      (''eventstream'',
        [(''EventsRequest'', eventstream_EventsRequest_tags)]),
      (''explorer'',
        [(''BalancesRequest'', explorer_BalancesRequest_tags),
         (''ListStrategiesByOwnerRequest'', explorer_ListStrategiesByOwnerRequest_tags),
         (''ListStrategyTriggerByIdRequest'', explorer_ListStrategyTriggerByIdRequest_tags),
         (''StreamStrategyTriggerRequest'', explorer_StreamStrategyTriggerRequest_tags),
         (''GetTxRequest'', explorer_GetTxRequest_tags),
         (''ListAccountTxsRequest'', explorer_ListAccountTxsRequest_tags),
         (''GetBlockRequest'', explorer_GetBlockRequest_tags),
         (''GetContractRequest'', explorer_GetContractRequest_tags)]),
      (''provider'',
        [(''ProviderBlockRequest'', provider_ProviderBlockRequest_tags),
         (''ProviderEventsRequest'', provider_ProviderEventsRequest_tags)]),
      (''campclash'',
        [(''QueryCampEventsRequest'', campclash_QueryCampEventsRequest_tags),
         (''GetUserChallengesRequest'', campclash_GetUserChallengesRequest_tags)]),
      (''ohlcv'',
        [(''QueryRequest'', ohlcv_QueryRequest_tags)])]"

lemmas tag_defs =
  astromesh_QueryDenomLinkRequest_tags_def
  astromesh_BalanceRequest_tags_def
  fnft_QueryBalanceRequest_tags_def
  fnft_QueryOwnerRequest_tags_def
  fnft_QuerySupplyRequest_tags_def
  fnft_QueryHolderRequest_tags_def
  fnft_QueryHoldersRequest_tags_def
  fnft_QueryNFTRequest_tags_def
  fnft_QueryClassRequest_tags_def
  evm_BalanceRequest_tags_def
  evm_ContractQueryRequest_tags_def
  oracle_QuerySimpleEntry_tags_def
  bazaar_QueryNFTProductsRequest_tags_def
  bazaar_QueryNFTProductRequest_tags_def
  svm_AccountRequest_tags_def
  svm_AccountsByOwnerRequest_tags_def
  svm_AccountLinkRequest_tags_def
  strategy_GetStrategyByIdRequest_tags_def
  strategy_ListStrategiesByOwnerRequest_tags_def
  strategy_ListStrategiesByTypeRequest_tags_def
  strategy_GetStrategyVerifierRequest_tags_def
  interpool_QueryPoolRequest_tags_def
  interpool_QueryPoolSharesRequest_tags_def
  eventstream_EventsRequest_tags_def
  explorer_BalancesRequest_tags_def
  explorer_ListStrategiesByOwnerRequest_tags_def
  explorer_ListStrategyTriggerByIdRequest_tags_def
  explorer_StreamStrategyTriggerRequest_tags_def
  explorer_GetTxRequest_tags_def
  explorer_ListAccountTxsRequest_tags_def
  explorer_GetBlockRequest_tags_def
  explorer_GetContractRequest_tags_def
  provider_ProviderBlockRequest_tags_def
  provider_ProviderEventsRequest_tags_def
  campclash_QueryCampEventsRequest_tags_def
  campclash_GetUserChallengesRequest_tags_def
  ohlcv_QueryRequest_tags_def

definition field_tags :: "message_type \<Rightarrow> field_tag list" where
  "field_tags T =
     (case map_of proto_tags (fst T) of
        None \<Rightarrow> []
      | Some types \<Rightarrow> (case map_of types (snd T) of None \<Rightarrow> [] | Some tags \<Rightarrow> tags))"

text \<open>The JSON name and the Go name of the field with a protobuf name.\<close>

definition field_tag_of :: "message_type \<Rightarrow> string \<Rightarrow> (string \<times> string) option" where
  "field_tag_of T n = map_of (field_tags T) n"

lemma field_tag_facts:
  "field_tag_of (''astromesh'', ''QueryDenomLinkRequest'') ''src_plane'' = Some (''srcPlane'', ''SrcPlane'')"
  "field_tag_of (''astromesh'', ''QueryDenomLinkRequest'') ''dst_plane'' = Some (''dstPlane'', ''DstPlane'')"
  "field_tag_of (''astromesh'', ''BalanceRequest'') ''plane'' = Some ([], ''Plane'')"
  "field_tag_of (''astromesh'', ''BalanceRequest'') ''address'' = Some ([], ''Address'')"
  "field_tag_of (''fnft'', ''QueryBalanceRequest'') ''owner'' = Some ([], ''Owner'')"
  "field_tag_of (''fnft'', ''QueryBalanceRequest'') ''class_id'' = Some (''classId'', ''ClassId'')"
  "field_tag_of (''fnft'', ''QueryOwnerRequest'') ''class_id'' = Some (''classId'', ''ClassId'')"
  "field_tag_of (''fnft'', ''QueryOwnerRequest'') ''id'' = Some ([], ''Id'')"
  "field_tag_of (''fnft'', ''QuerySupplyRequest'') ''class_id'' = Some (''classId'', ''ClassId'')"
  "field_tag_of (''fnft'', ''QueryHolderRequest'') ''class_id'' = Some (''classId'', ''ClassId'')"
  "field_tag_of (''fnft'', ''QueryHolderRequest'') ''id'' = Some ([], ''Id'')"
  "field_tag_of (''fnft'', ''QueryHolderRequest'') ''address'' = Some ([], ''Address'')"
  "field_tag_of (''fnft'', ''QueryHoldersRequest'') ''class_id'' = Some (''classId'', ''ClassId'')"
  "field_tag_of (''fnft'', ''QueryHoldersRequest'') ''id'' = Some ([], ''Id'')"
  "field_tag_of (''fnft'', ''QueryNFTRequest'') ''class_id'' = Some (''classId'', ''ClassId'')"
  "field_tag_of (''fnft'', ''QueryNFTRequest'') ''id'' = Some ([], ''Id'')"
  "field_tag_of (''fnft'', ''QueryClassRequest'') ''class_id'' = Some (''classId'', ''ClassId'')"
  "field_tag_of (''evm'', ''BalanceRequest'') ''address'' = Some ([], ''Address'')"
  "field_tag_of (''evm'', ''ContractQueryRequest'') ''address'' = Some ([], ''Address'')"
  "field_tag_of (''evm'', ''ContractQueryRequest'') ''calldata'' = Some ([], ''Calldata'')"
  "field_tag_of (''oracle'', ''QuerySimpleEntry'') ''symbols'' = Some ([], ''Symbols'')"
  "field_tag_of (''bazaar'', ''QueryNFTProductsRequest'') ''class_id'' = Some (''classId'', ''ClassId'')"
  "field_tag_of (''bazaar'', ''QueryNFTProductsRequest'') ''id'' = Some ([], ''Id'')"
  "field_tag_of (''bazaar'', ''QueryNFTProductRequest'') ''class_id'' = Some (''classId'', ''ClassId'')"
  "field_tag_of (''bazaar'', ''QueryNFTProductRequest'') ''id'' = Some ([], ''Id'')"
  "field_tag_of (''bazaar'', ''QueryNFTProductRequest'') ''product_id'' = Some (''productId'', ''ProductId'')"
  "field_tag_of (''svm'', ''AccountRequest'') ''address'' = Some ([], ''Address'')"
  "field_tag_of (''svm'', ''AccountsByOwnerRequest'') ''address'' = Some ([], ''Address'')"
  "field_tag_of (''svm'', ''AccountLinkRequest'') ''address'' = Some ([], ''Address'')"
  "field_tag_of (''strategy'', ''GetStrategyByIdRequest'') ''id'' = Some ([], ''Id'')"
  "field_tag_of (''strategy'', ''ListStrategiesByOwnerRequest'') ''owner'' = Some ([], ''Owner'')"
  "field_tag_of (''strategy'', ''ListStrategiesByTypeRequest'') ''type'' = Some ([], ''Type'')"
  "field_tag_of (''strategy'', ''GetStrategyVerifierRequest'') ''plane'' = Some ([], ''Plane'')"
  "field_tag_of (''strategy'', ''GetStrategyVerifierRequest'') ''contract_address'' = Some (''contractAddress'', ''ContractAddress'')"
  "field_tag_of (''interpool'', ''QueryPoolRequest'') ''pool_id'' = Some (''poolId'', ''PoolId'')"
  "field_tag_of (''interpool'', ''QueryPoolSharesRequest'') ''pool_id'' = Some (''poolId'', ''PoolId'')"
  "field_tag_of (''eventstream'', ''EventsRequest'') ''height'' = Some ([], ''Height'')"
  "field_tag_of (''eventstream'', ''EventsRequest'') ''modules'' = Some ([], ''Modules'')"
  "field_tag_of (''eventstream'', ''EventsRequest'') ''tm_queries'' = Some (''tmQueries'', ''TmQueries'')"
  "field_tag_of (''explorer'', ''BalancesRequest'') ''address'' = Some ([], ''Address'')"
  "field_tag_of (''explorer'', ''ListStrategiesByOwnerRequest'') ''owner'' = Some ([], ''Owner'')"
  "field_tag_of (''explorer'', ''ListStrategyTriggerByIdRequest'') ''id'' = Some ([], ''Id'')"
  "field_tag_of (''explorer'', ''StreamStrategyTriggerRequest'') ''id'' = Some ([], ''Id'')"
  "field_tag_of (''explorer'', ''GetTxRequest'') ''tx_hash'' = Some (''txHash'', ''TxHash'')"
  "field_tag_of (''explorer'', ''ListAccountTxsRequest'') ''account'' = Some ([], ''Account'')"
  "field_tag_of (''explorer'', ''GetBlockRequest'') ''block_height'' = Some (''blockHeight'', ''BlockHeight'')"
  "field_tag_of (''explorer'', ''GetContractRequest'') ''address'' = Some ([], ''Address'')"
  "field_tag_of (''provider'', ''ProviderBlockRequest'') ''height'' = Some ([], ''Height'')"
  "field_tag_of (''provider'', ''ProviderEventsRequest'') ''height'' = Some ([], ''Height'')"
  "field_tag_of (''provider'', ''ProviderEventsRequest'') ''modules'' = Some ([], ''Modules'')"
  "field_tag_of (''campclash'', ''QueryCampEventsRequest'') ''height'' = Some ([], ''Height'')"
  "field_tag_of (''campclash'', ''GetUserChallengesRequest'') ''address'' = Some ([], ''Address'')"
  "field_tag_of (''ohlcv'', ''QueryRequest'') ''symbol'' = Some ([], ''Symbol'')"
  "field_tag_of (''ohlcv'', ''QueryRequest'') ''timeframe'' = Some ([], ''Timeframe'')"
  "field_tag_of (''ohlcv'', ''QueryRequest'') ''limit'' = Some ([], ''Limit'')"
  by (simp_all add: field_tag_of_def field_tags_def proto_tags_def tag_defs)

section \<open>All services\<close>

text \<open>For every service, what registering it in process and over a connection gives on an empty mux.\<close>

definition gateway_services ::
  "'c gw_runtime \<Rightarrow> ('c, 'r) gw_server \<Rightarrow> ('c, 'r, 's) gw_client \<Rightarrow>
     ((gw_error + ('r, 's) route list) \<times> (gw_error + ('r, 's) route list)) list" where
  "gateway_services G S C =
     [(register_astromesh_QueryHandlerServer G S [], register_astromesh_QueryHandlerClient G C []),
      (register_fnft_QueryHandlerServer G S [], register_fnft_QueryHandlerClient G C []),
      (register_evm_QueryHandlerServer G S [], register_evm_QueryHandlerClient G C []),
      (register_oracle_QueryHandlerServer G S [], register_oracle_QueryHandlerClient G C []),
      (register_bazaar_QueryHandlerServer G S [], register_bazaar_QueryHandlerClient G C []),
      (register_svm_QueryHandlerServer G S [], register_svm_QueryHandlerClient G C []),
      (register_strategy_QueryHandlerServer G S [], register_strategy_QueryHandlerClient G C []),
      (register_interpool_QueryHandlerServer G S [], register_interpool_QueryHandlerClient G C []),
      (register_eventstream_QueryHandlerServer G S [], register_eventstream_QueryHandlerClient G C []),
      (register_explorer_APIHandlerServer G S [], register_explorer_APIHandlerClient G C []),
      (register_provider_APIHandlerServer G S [], register_provider_APIHandlerClient G C []),
      (register_campclash_ProviderQueryHandlerServer G S [], register_campclash_ProviderQueryHandlerClient G C []),
      (register_campclash_CampclashQueryHandlerServer G S [], register_campclash_CampclashQueryHandlerClient G C []),
      (register_media_APIHandlerServer G S [], register_media_APIHandlerClient G C []),
      (register_ohlcv_APIHandlerServer G S [], register_ohlcv_APIHandlerClient G C [])]"

section \<open>In process and over a connection\<close>

definition routes_agree :: "http_request \<Rightarrow> ('r, 's) route \<Rightarrow> ('r, 's) route \<Rightarrow> bool" where
  "routes_agree req s c \<longleftrightarrow>
     gr_method s = gr_method c \<and> gr_pattern s = gr_pattern c \<and>
     (\<forall>pp. gr_handler s req pp = gr_handler c req pp \<or>
           gr_handler s req pp = not_streamed req pp \<and> (\<forall>r md. gr_handler c req pp \<noteq> Forward_message r md))"

text \<open>The two transports see one service: the annotated contexts, and what the service does in them, correspond.\<close>

definition one_service ::
  "'c gw_runtime \<Rightarrow> ('c, 'r) gw_server \<Rightarrow> ('c, 'r, 's) gw_client \<Rightarrow> http_request \<Rightarrow> bool" where
  "one_service G S C req \<longleftrightarrow>
     (\<forall>h. rt_join G [] h = h) \<and>
     (\<exists>lctx rctx. rt_annotate_incoming G req = Inr lctx \<and> rt_annotate G req = Inr rctx \<and>
        (\<forall>M m. cl_call C rctx M m = sv_call S lctx M m))"

lemma unary_routes_agree:
  fixes request :: "'c \<Rightarrow> http_request \<Rightarrow> path_params \<Rightarrow> (gw_error + 'r) \<times> server_md"
    and C :: "('c, 'r, 's) gw_client"
  assumes "one_service G S C req"
    and "\<And>ctx pp. request ctx req pp = remote_call C ctx M (fill pp)"
    and "\<And>ctx pp. local ctx req pp = local_call S ctx M (fill pp)"
  shows "routes_agree req (\<lparr>gr_method = h, gr_pattern = p, gr_handler = serve_local G local\<rparr> :: ('r, 's) route)
           \<lparr>gr_method = h, gr_pattern = p, gr_handler = serve_client G request\<rparr>"
proof -
  obtain lctx rctx where ctx: "rt_annotate_incoming G req = Inr lctx" "rt_annotate G req = Inr rctx"
    and same: "\<And>M m. cl_call C rctx M m = sv_call S lctx M m" and join: "\<And>h. rt_join G [] h = h"
    using assms(1) by (auto simp: one_service_def)
  have "serve_local G local req pp = (serve_client G request req pp :: ('r, 's) http_out)" for pp
    by (cases "fill pp"; cases "sv_call S lctx M (projr (fill pp))")
      (auto simp: serve_local_def serve_client_def ctx assms(2,3) remote_call_def local_call_def same no_md_def join
        split: sum.splits)
  then show ?thesis by (simp add: routes_agree_def)
qed

lemma stream_routes_agree:
  "routes_agree req \<lparr>gr_method = h, gr_pattern = p, gr_handler = not_streamed\<rparr>
     \<lparr>gr_method = h, gr_pattern = p, gr_handler = serve_client_stream G request\<rparr>"
  by (auto simp: routes_agree_def serve_client_stream_def split: sum.splits prod.splits)

lemma list_all_Nil: "list_all P []"
  by simp

lemma registered_alike:
  "list_all2 P xs ys \<Longrightarrow> \<exists>rs qs. Inr xs = Inr rs \<and> Inr ys = Inr qs \<and> list_all2 P rs qs"
  by blast

lemma services_agree:
  assumes "one_service G S C req"
  shows "list_all (\<lambda>(ss, cs). \<exists>rs qs. ss = Inr rs \<and> cs = Inr qs \<and> list_all2 (routes_agree req) rs qs) (gateway_services G S C)"
  unfolding gateway_services_def gateway_registers foldl.simps handle_route_def append.simps
    list.pred_inject(2) prod.case
  by (intro conjI registered_alike list.rel_intros list_all_Nil; unfold gateway_routes;
      (rule stream_routes_agree | rule unary_routes_agree [OF assms]; rule gateway_requests))

lemma every_service_registers:
  "(s, c) \<in> set (gateway_services G S C) \<Longrightarrow> \<exists>ss cs. s = Inr ss \<and> c = Inr cs"
  by (auto simp: gateway_services_def gateway_registers)

text \<open>
  C38. A service answers alike over both transports.  Where the in-process service and the service behind the
  connection are one, every service of every gateway registers the same methods and patterns in the same
  order with both registration functions, and each pair of handlers gives the same HTTP outcome to
  every request and all path parameters, errors and metadata included; the exceptions are the methods that answer
  with a stream, which are refused as unimplemented in process.
\<close>

theorem gateway_transports_agree:
  assumes "one_service G S C req" and "(s, c) \<in> set (gateway_services G S C)"
  shows "\<exists>ss cs. s = Inr ss \<and> c = Inr cs \<and> list_all2 (routes_agree req) ss cs"
  using services_agree [OF assms(1)] assms(2) by (auto simp: list_all_iff)

section \<open>What the path decides\<close>

text \<open>The names a pattern captures: those its operations \<open>OpCapture\<close> (5) name in the pool.\<close>

fun captured_ops :: "nat list \<Rightarrow> string list \<Rightarrow> string list" where
  "captured_ops (op # i # ops) pool = (if op = 5 then pool ! i # captured_ops ops pool else captured_ops ops pool)"
| "captured_ops _ pool = []"

definition captured :: "url_pattern \<Rightarrow> string list" where
  "captured p = captured_ops (up_ops p) (up_pool p)"

text \<open>
  A filter made of names, each a sequence of its own: what \<open>utilities.NewDoubleArray\<close> builds for
  \<open>[[n1], \<dots>, [nk]]\<close>, and so the filter that holds back the keys that start with one of them.
\<close>

definition filter_of_names :: "double_array \<Rightarrow> bool" where
  "filter_of_names flt \<longleftrightarrow>
     (let k = length (Encoding flt) in
      map snd (Encoding flt) = [0..<k] \<and> Base flt = 1 # map int [1..<k + 1] @ replicate k 0 \<and>
      Check flt = 0 # replicate k 1 @ map int [2..<k + 2])"

text \<open>
  \<open>PopulateQueryParameters\<close> (version 1.16.0) finds the field a key of the query names by the
  protobuf name or by the JSON name of its tag, but its filter compares the key with protobuf names only.
  So it keeps a field when every key that names it, in either way, is one the filter holds back; and it keeps the type of the message.
\<close>

definition respects_filter :: "'c gw_runtime \<Rightarrow> bool" where
  "respects_filter G \<longleftrightarrow>
     (\<forall>m form flt m'. filter_of_names flt \<longrightarrow> rt_populate G m form flt = Inr m' \<longrightarrow>
        m_type m' = m_type m \<and>
        (\<forall>n j f. field_tag_of (m_type m) n = Some (j, f) \<longrightarrow>
           (\<forall>k \<in> dom form. rt_key_head G k \<in> {n, j} \<longrightarrow> rt_key_head G k \<in> fst ` set (Encoding flt)) \<longrightarrow>
           m_fields m' f = m_fields m f))"

text \<open>No key of the query uses the name \<open>j\<close>.\<close>

definition query_avoids :: "'c gw_runtime \<Rightarrow> string \<Rightarrow> http_request \<Rightarrow> bool" where
  "query_avoids G j req \<longleftrightarrow> (\<forall>form. rq_form req = Inr form \<longrightarrow> j \<notin> rt_key_head G ` dom form)"

text \<open>A service that answers with the request it was given, so that the request can be seen.\<close>

definition echo_client :: "('c, gw_message, gw_message) gw_client" where
  "echo_client = \<lparr>cl_call = (\<lambda>ctx M m. (Inr m, no_md)), cl_stream = (\<lambda>ctx M m. Inr m), cl_header = (\<lambda>s. Inr [])\<rparr>"

fun request_sent :: "(gw_message, gw_message) http_out \<Rightarrow> gw_message option" where
  "request_sent (Forward_message m md) = Some m"
| "request_sent (Forward_stream m md) = Some m"
| "request_sent (Http_error e md) = None"

text \<open>
  A request that is sent has the converted path parameter \<open>n\<close> in its field, unless its query uses the JSON name of that field.
\<close>

definition path_decides :: "'c gw_runtime \<Rightarrow> string \<Rightarrow> (gw_message, gw_message) route \<Rightarrow> bool" where
  "path_decides G n r \<longleftrightarrow>
     (\<exists>T j f (conv :: string \<Rightarrow> string + pval). field_tag_of T n = Some (j, f) \<and>
        (\<forall>req pp m. request_sent (gr_handler r req pp) = Some m \<longrightarrow>
           m_type m = T \<and>
           (\<exists>v x. pp n = Some v \<and> conv v = Inr x \<and> (query_avoids G j req \<longrightarrow> m_fields m f = Some x))))"

definition leaves :: "bool \<Rightarrow> message_type \<Rightarrow> string \<Rightarrow> fill list \<Rightarrow> bool" where
  "leaves U T f fs \<longleftrightarrow>
     (\<forall>m m'. m_type m = T \<longrightarrow> fill_all fs m = Inr m' \<longrightarrow> m_type m' = T \<and> (U \<longrightarrow> m_fields m' f = m_fields m f))"

definition fixes_field ::
  "bool \<Rightarrow> path_params \<Rightarrow> (string \<Rightarrow> string + pval) \<Rightarrow> string \<Rightarrow> message_type \<Rightarrow> string \<Rightarrow> fill list \<Rightarrow> bool" where
  "fixes_field U pp conv n T f fs \<longleftrightarrow>
     (\<forall>m m'. m_type m = T \<longrightarrow> fill_all fs m = Inr m' \<longrightarrow>
        m_type m' = T \<and> (\<exists>v x. pp n = Some v \<and> conv v = Inr x \<and> (U \<longrightarrow> m_fields m' f = Some x)))"

lemma set_field_simps [simp]:
  "m_type (set_field f x m) = m_type m"
  "m_fields (set_field f x m) g = (if g = f then Some x else m_fields m g)"
  by (simp_all add: set_field_def)

lemma fill_all_Cons_InrE:
  assumes "fill_all (s # fs) m = Inr m'"
  obtains m1 where "s m = Inr m1" "fill_all fs m1 = Inr m'"
  using assms by (auto split: sum.splits)

lemma path_param_InrE:
  assumes "path_param pp conv n f m = Inr m'"
  obtains v x where "pp n = Some v" "conv v = Inr x" "m' = set_field f x m"
  using assms by (auto simp: path_param_def split: option.splits sum.splits)

lemma leavesD: "leaves U T f fs \<Longrightarrow> m_type m = T \<Longrightarrow> fill_all fs m = Inr m' \<Longrightarrow>
    m_type m' = T \<and> (U \<longrightarrow> m_fields m' f = m_fields m f)"
  unfolding leaves_def by blast

lemma fixes_fieldD: "fixes_field U pp conv n T f fs \<Longrightarrow> m_type m = T \<Longrightarrow> fill_all fs m = Inr m' \<Longrightarrow>
    m_type m' = T \<and> (\<exists>v x. pp n = Some v \<and> conv v = Inr x \<and> (U \<longrightarrow> m_fields m' f = Some x))"
  unfolding fixes_field_def by blast

lemma leaves_end: "leaves U T f []"
  by (simp add: leaves_def)

lemma leaves_path:
  assumes "f' \<noteq> f" and "leaves U T f fs"
  shows "leaves U T f (path_param pp conv n f' # fs)"
  unfolding leaves_def
  by (intro allI impI; elim fill_all_Cons_InrE path_param_InrE; drule leavesD [OF assms(2), rotated]) (use assms(1) in simp_all)

lemma leaves_query:
  assumes "respects_filter G" and "field_tag_of T n = Some (j, f)" and "filter_of_names flt"
    and "n \<in> fst ` set (Encoding flt)"
  shows "leaves (query_avoids G j req) T f [query_params G req flt]"
  unfolding leaves_def
proof (intro allI impI)
  fix m m'
  assume T: "m_type m = T" and fill: "fill_all [query_params G req flt] m = Inr m'"
  from fill obtain form where form: "rq_form req = Inr form" "rt_populate G m form flt = Inr m'"
    by (auto simp: query_params_def split: sum.splits)
  have held: "\<forall>k \<in> dom form. rt_key_head G k \<in> {n, j} \<longrightarrow> rt_key_head G k \<in> fst ` set (Encoding flt)"
    if "query_avoids G j req"
    using that form(1) assms(4) unfolding query_avoids_def by auto
  from assms(1,3) form(2) have "m_type m' = m_type m \<and>
      (\<forall>n j f. field_tag_of (m_type m) n = Some (j, f) \<longrightarrow>
         (\<forall>k \<in> dom form. rt_key_head G k \<in> {n, j} \<longrightarrow> rt_key_head G k \<in> fst ` set (Encoding flt)) \<longrightarrow>
         m_fields m' f = m_fields m f)"
    unfolding respects_filter_def by blast
  then show "m_type m' = T \<and> (query_avoids G j req \<longrightarrow> m_fields m' f = m_fields m f)"
    using held assms(2) T by blast
qed

lemma fixes_here:
  assumes "leaves U T f fs"
  shows "fixes_field U pp conv n T f (path_param pp conv n f # fs)"
  unfolding fixes_field_def
  by (intro allI impI; elim fill_all_Cons_InrE path_param_InrE; drule leavesD [OF assms, rotated]) simp_all

lemma fixes_later:
  assumes "fixes_field U pp conv n T f fs"
  shows "fixes_field U pp conv n T f (path_param pp conv' n' f' # fs)"
  unfolding fixes_field_def
  by (intro allI impI; elim fill_all_Cons_InrE path_param_InrE; drule fixes_fieldD [OF assms, rotated]) simp_all

lemma path_decidesI:
  assumes "field_tag_of T n = Some (j, f)"
    and "\<And>req pp. fixes_field (query_avoids G j req) pp conv n T f (fs req pp)"
    and "\<And>req pp m. request_sent (h req pp) = Some m \<Longrightarrow> fill_all (fs req pp) (zero_message T) = Inr m"
  shows "path_decides G n \<lparr>gr_method = meth, gr_pattern = p, gr_handler = h\<rparr>"
  unfolding path_decides_def
proof (rule exI [of _ T], rule exI [of _ j], rule exI [of _ f], rule exI [of _ conv], rule conjI [OF assms(1)], intro allI impI)
  fix req pp m
  assume "request_sent (gr_handler \<lparr>gr_method = meth, gr_pattern = p, gr_handler = h\<rparr> req pp) = Some m"
  then have fill: "fill_all (fs req pp) (zero_message T) = Inr m" using assms(3) by simp
  have T: "m_type (zero_message T) = T" by (simp add: zero_message_def)
  from fixes_fieldD [OF assms(2) T fill]
  show "m_type m = T \<and>
      (\<exists>v x. pp n = Some v \<and> conv v = Inr x \<and> (query_avoids G j req \<longrightarrow> m_fields m f = Some x))" .
qed

lemma path_decides_call:
  assumes "\<And>ctx req pp. request ctx req pp = remote_call echo_client ctx M (fill_all (fs req pp) (zero_message T))"
    and "field_tag_of T n = Some (j, f)"
    and "\<And>req pp. fixes_field (query_avoids G j req) pp conv n T f (fs req pp)"
  shows "path_decides G n \<lparr>gr_method = h, gr_pattern = p, gr_handler = serve_client G request\<rparr>"
  using assms(2,3)
  by (rule path_decidesI)
    (auto simp: serve_client_def assms(1) remote_call_def echo_client_def split: sum.splits)

lemma path_decides_stream:
  assumes "\<And>ctx req pp. request ctx req pp = stream_call echo_client ctx M (fill_all (fs req pp) (zero_message T))"
    and "field_tag_of T n = Some (j, f)"
    and "\<And>req pp. fixes_field (query_avoids G j req) pp conv n T f (fs req pp)"
  shows "path_decides G n \<lparr>gr_method = h, gr_pattern = p, gr_handler = serve_client_stream G request\<rparr>"
  using assms(2,3)
  by (rule path_decidesI)
    (auto simp: serve_client_stream_def assms(1) stream_call_def echo_client_def split: sum.splits)

definition path_decides_all :: "'c gw_runtime \<Rightarrow> (gw_message, gw_message) route \<Rightarrow> bool" where
  "path_decides_all G r \<longleftrightarrow> list_all (\<lambda>n. path_decides G n r) (captured (gr_pattern r))"

lemma names_filter:
  "filter_of_names \<lparr>Encoding = [(n1, 0)], Base = [1, 1, 0], Check = [0, 1, 2]\<rparr>"
  "filter_of_names \<lparr>Encoding = [(n1, 0), (n2, 1)], Base = [1, 1, 2, 0, 0], Check = [0, 1, 1, 2, 3]\<rparr>"
  "filter_of_names \<lparr>Encoding = [(n1, 0), (n2, 1), (n3, 2)], Base = [1, 1, 2, 3, 0, 0, 0],
     Check = [0, 1, 1, 1, 2, 3, 4]\<rparr>"
  by code_simp+

lemma captured_patterns:
  "captured \<lparr>up_version = v, up_ops = ops, up_pool = pool, up_verb = w\<rparr> = captured_ops ops pool"
  by (simp add: captured_def)

lemma registered_paths:
  "list_all P xs \<Longrightarrow> \<exists>qs. Inr xs = Inr qs \<and> list_all P qs"
  by blast

lemma paths_decide:
  assumes "respects_filter G"
  shows "list_all (\<lambda>(ss, cs). \<exists>qs. cs = Inr qs \<and> list_all (path_decides_all G) qs) (gateway_services G S echo_client)"
  unfolding gateway_services_def gateway_registers foldl.simps handle_route_def append.simps
    list.pred_inject(2) prod.case
  by (intro conjI registered_paths list_all_Nil;
      (unfold list.pred_inject(2))?; (intro conjI list_all_Nil)?;
      unfold path_decides_all_def gateway_routes; simp add: captured_patterns gateway_patterns;
      (intro conjI)?;
      (rule path_decides_call | rule path_decides_stream), rule gateway_requests, rule field_tag_facts;
      (rule fixes_here | rule fixes_later | rule leaves_end | (rule leaves_path, simp)
        | (rule leaves_query [OF assms], rule field_tag_facts, simp only: gateway_filters names_filter, simp add: gateway_filters))+)

text \<open>
  C39. The path of a URL decides the fields it names, up to their JSON names.  A request that any route of any
  gateway sends to its service has, for every name the pattern of the route captures, the converted path
  parameter in the field of that name, whatever the query string and the form say, as long as no key
  of theirs uses the JSON name of the field's tag (empty where the tag has none).  The filters stop a
  query that uses the protobuf name; the hypothesis is the rule by which \<open>PopulateQueryParameters\<close>
  matches keys to fields and applies its filter.  The exception is needed: see \<open>json_name_overrides_the_path\<close>.
\<close>

theorem path_decides_its_parameters:
  assumes "respects_filter G" and "(s, Inr cs) \<in> set (gateway_services G S echo_client)"
    and "r \<in> set cs" and "n \<in> set (captured (gr_pattern r))"
  shows "\<exists>T j f (conv :: string \<Rightarrow> string + pval). field_tag_of T n = Some (j, f) \<and>
    (\<forall>req pp m. request_sent (gr_handler r req pp) = Some m \<longrightarrow>
       m_type m = T \<and>
       (\<exists>v x. pp n = Some v \<and> conv v = Inr x \<and> (query_avoids G j req \<longrightarrow> m_fields m f = Some x)))"
proof -
  from paths_decide [OF assms(1), of S] assms(2) have "list_all (path_decides_all G) cs"
    unfolding list_all_iff by fastforce
  with assms(3,4) have "path_decides G n r" by (auto simp: list_all_iff path_decides_all_def)
  then show ?thesis unfolding path_decides_def .
qed

section \<open>Serving from an endpoint\<close>

text \<open>Registering never fails, so a connection that was dialled lives as long as the context.\<close>

lemma from_endpoint_keeps_the_connection:
  assumes "\<And>mux conn. \<exists>mux'. register mux conn = Inr mux'"
  shows "snd (register_from_endpoint dial register mux endpoint) \<noteq> Some Closed_at_once"
  using assms by (auto simp: register_from_endpoint_def Let_def split: sum.splits) (metis Inl_Inr_False)

lemma explorer_keeps_the_connection:
  "snd (register_explorer_APIHandlerFromEndpoint G new_client dial mux endpoint) \<noteq> Some Closed_at_once"
  unfolding register_explorer_APIHandlerFromEndpoint_def
  by (rule from_endpoint_keeps_the_connection) (simp add: register_explorer_APIHandler_def gateway_registers)

section \<open>A concrete gateway\<close>

text \<open>
  A runtime whose query string sets the fields its keys name by their protobuf or JSON names, unless the
  filter holds the key back.
\<close>

definition query_value :: "gw_form \<Rightarrow> double_array \<Rightarrow> string \<Rightarrow> pval option" where
  "query_value form flt k =
     (case form k of Some (v # vs) \<Rightarrow> if k \<in> fst ` set (Encoding flt) then None else Some (PString v) | _ \<Rightarrow> None)"

fun set_by_query :: "gw_form \<Rightarrow> double_array \<Rightarrow> string \<Rightarrow> field_tag \<Rightarrow> pval option \<Rightarrow> pval option" where
  "set_by_query form flt f (n, j, g) old =
     (if g \<noteq> f then old
      else case query_value form flt n of
             Some x \<Rightarrow> Some x
           | None \<Rightarrow> (case query_value form flt j of Some x \<Rightarrow> Some x | None \<Rightarrow> old))"

definition populated :: "gw_message \<Rightarrow> gw_form \<Rightarrow> double_array \<Rightarrow> string \<Rightarrow> pval option" where
  "populated m form flt f = fold (set_by_query form flt f) (field_tags (m_type m)) (m_fields m f)"

definition demo_runtime :: "unit gw_runtime" where
  "demo_runtime =
     \<lparr>rt_string = Inr, rt_bytes = (\<lambda>v. Inr []), rt_uint64 = (\<lambda>v. Inr (of_nat (length v))),
      rt_int64 = (\<lambda>v. Inl ''not a number''), rt_string_slice = (\<lambda>v sep. Inr [v]),
      rt_enum = (\<lambda>v table. case map_of table v of None \<Rightarrow> Inl ''not a value'' | Some e \<Rightarrow> Inr e),
      rt_key_head = (\<lambda>k. k),
      rt_populate = (\<lambda>m form flt. Inr (m\<lparr>m_fields := populated m form flt\<rparr>)),
      rt_join = (@), rt_annotate = (\<lambda>req. Inr ()), rt_annotate_incoming = (\<lambda>req. Inr ())\<rparr>"

definition echo_server :: "('c, gw_message) gw_server" where
  "echo_server = \<lparr>sv_call = (\<lambda>ctx M m. (Inr m, no_md))\<rparr>"

lemma field_tags_apart: "distinct (map (snd \<circ> snd) (field_tags T))"
  by (auto simp: field_tags_def proto_tags_def tag_defs map_of_Cons_code split: option.splits if_splits)

lemma other_tags_keep: "f \<notin> (snd \<circ> snd) ` set tags \<Longrightarrow> fold (set_by_query form flt f) tags old = old"
  by (induction tags arbitrary: old) auto

lemma populated_kept:
  assumes "query_value form flt n = None" and "query_value form flt j = None"
  shows "(n, j, f) \<in> set tags \<Longrightarrow> distinct (map (snd \<circ> snd) tags) \<Longrightarrow>
    fold (set_by_query form flt f) tags old = old"
proof (induction tags arbitrary: old)
  case (Cons t tags)
  show ?case
  proof (cases "t = (n, j, f)")
    case True
    then have "f \<notin> (snd \<circ> snd) ` set tags" using Cons.prems(2) by auto
    with True assms other_tags_keep show ?thesis by simp
  next
    case False
    then have rest: "(n, j, f) \<in> set tags" using Cons.prems(1) by simp
    then have "f \<in> (snd \<circ> snd) ` set tags" by force
    then have "snd (snd t) \<noteq> f" using Cons.prems(2) by auto
    then have "set_by_query form flt f t old = old" by (cases t) simp
    then show ?thesis using Cons.IH [OF rest] Cons.prems(2) by simp
  qed
qed simp

lemma demo_respects_filter: "respects_filter demo_runtime"
  unfolding respects_filter_def
proof (intro allI impI conjI)
  fix m form flt m' n j f
  assume m': "rt_populate demo_runtime m form flt = Inr m'"
  have eq: "m' = m\<lparr>m_fields := populated m form flt\<rparr>" using m' by (simp add: demo_runtime_def)
  then show "m_type m' = m_type m" by simp
  assume tag: "field_tag_of (m_type m) n = Some (j, f)"
    and held: "\<forall>k \<in> dom form. rt_key_head demo_runtime k \<in> {n, j} \<longrightarrow>
        rt_key_head demo_runtime k \<in> fst ` set (Encoding flt)"
  have head: "rt_key_head demo_runtime k = k" for k by (simp add: demo_runtime_def)
  have "query_value form flt k = None" if "k = n \<or> k = j" for k
    using held that unfolding head
    by (cases "form k") (auto simp: query_value_def dom_def split: list.splits)
  moreover have "(n, j, f) \<in> set (field_tags (m_type m))"
    using tag unfolding field_tag_of_def by (rule map_of_SomeD)
  ultimately have "populated m form flt f = m_fields m f"
    unfolding populated_def by (intro populated_kept [OF _ _ _ field_tags_apart]) simp_all
  then show "m_fields m' f = m_fields m f" by (simp add: eq)
qed

lemma demo_one_service: "one_service demo_runtime echo_server echo_client req"
  by (simp add: one_service_def demo_runtime_def echo_server_def echo_client_def)

theorem gateway_transports_agree_witness:
  "list_all2 (routes_agree \<lparr>rq_form = Inr Map.empty\<rparr>)
     [server_route_evm_Query_Balance_0 demo_runtime echo_server, server_route_evm_Query_ContractQuery_0 demo_runtime echo_server]
     [client_route_evm_Query_Balance_0 demo_runtime echo_client, client_route_evm_Query_ContractQuery_0 demo_runtime echo_client]"
  using gateway_transports_agree [OF demo_one_service, of
      "register_evm_QueryHandlerServer demo_runtime echo_server []" "register_evm_QueryHandlerClient demo_runtime echo_client []"]
  by (simp add: gateway_services_def register_evm_QueryHandlerServer_def register_evm_QueryHandlerClient_def handle_route_def)

theorem path_decides_its_parameters_witness:
  "path_decides demo_runtime ''account'' (client_route_explorer_API_ListAccountTxs_0 demo_runtime echo_client)"
  unfolding path_decides_def
proof (rule path_decides_its_parameters [OF demo_respects_filter])
  let ?cs = "projr (register_explorer_APIHandlerClient demo_runtime echo_client [])"
  have cs: "register_explorer_APIHandlerClient demo_runtime echo_client [] = Inr ?cs"
    by (simp add: register_explorer_APIHandlerClient_def)
  then show "(register_explorer_APIHandlerServer demo_runtime echo_server [], Inr ?cs)
      \<in> set (gateway_services demo_runtime echo_server echo_client)"
    by (metis (no_types) gateway_services_def list.set_intros)
  show "client_route_explorer_API_ListAccountTxs_0 demo_runtime echo_client \<in> set ?cs"
    by (simp add: register_explorer_APIHandlerClient_def handle_route_def)
  show "''account'' \<in> set (captured (gr_pattern (client_route_explorer_API_ListAccountTxs_0 demo_runtime echo_client)))"
    by (simp add: client_route_explorer_API_ListAccountTxs_0_def pattern_explorer_API_ListAccountTxs_0_def captured_patterns)
qed

text \<open>On a request whose query tries to replace the account:\<close>

lemma demo_account_request:
  "map_option (\<lambda>m. m_fields m ''Account'') (request_sent (gr_handler (client_route_explorer_API_ListAccountTxs_0 demo_runtime echo_client)
     \<lparr>rq_form = Inr [''account'' \<mapsto> [''mallory'']]\<rparr> [''account'' \<mapsto> ''alice''])) = Some (Some (PString ''alice''))"
  by (simp add: client_route_explorer_API_ListAccountTxs_0_def request_explorer_API_ListAccountTxs_0_def serve_client_def
      demo_runtime_def remote_call_def path_param_def query_params_def as_string_def filter_explorer_API_ListAccountTxs_0_def
      echo_client_def zero_message_def populated_def query_value_def field_tags_def proto_tags_def tag_defs set_field_def)

text \<open>
  The filter of \<open>PoolShares\<close> names \<open>pool_id\<close>, and the tag of the field also has the JSON name \<open>poolId\<close>: a query
  with that name replaces the pool of the path.
\<close>

lemma json_name_overrides_the_path:
  "map_option (\<lambda>m. m_fields m ''PoolId'') (request_sent (gr_handler (client_route_interpool_Query_PoolShares_0 demo_runtime echo_client)
     \<lparr>rq_form = Inr [''poolId'' \<mapsto> [''mallory'']]\<rparr> [''pool_id'' \<mapsto> ''alice''])) = Some (Some (PString ''mallory''))"
  by (simp add: client_route_interpool_Query_PoolShares_0_def request_interpool_Query_PoolShares_0_def serve_client_def
      demo_runtime_def remote_call_def path_param_def query_params_def as_string_def filter_interpool_Query_PoolShares_0_def
      echo_client_def zero_message_def populated_def query_value_def field_tags_def proto_tags_def tag_defs set_field_def)

end
