(* ===== verification/Registration.thy ===== *)
theory Registration
  imports Prelude
begin

text \<open>
  What the modules register when a process starts: the messages with the interface registry and the legacy Amino
  codec (\<open>codec.go\<close> of every module and of \<open>chain/types\<close>, \<open>RegisterTypes\<close> of \<open>chain/types/client.go\<close>) and their
  error codes (\<open>errors.go\<close>).  The registries are the SDK's; what they do with a fresh name is a hypothesis.
\<close>

section \<open>Error codes\<close>

text \<open>\<open>errors.Register\<close> panics for a code that its code space has already.\<close>

definition register_error :: "(string \<times> nat) list \<Rightarrow> string \<times> nat \<Rightarrow> (string \<times> nat) list res" where
  "register_error used e = (if e \<in> set used then Inl (Panic ''error already registered'') else Inr (used @ [e]))"

fun register_errors :: "(string \<times> nat) list \<Rightarrow> (string \<times> nat) list \<Rightarrow> (string \<times> nat) list res" where
  "register_errors used [] = Inr used"
| "register_errors used (e # es) = bind_res (register_error used e) (\<lambda>used'. register_errors used' es)"

definition fnft_errors :: "(string \<times> nat) list" where
  "fnft_errors = [(''fnft'', 1), (''fnft'', 2), (''fnft'', 3), (''fnft'', 4), (''fnft'', 5), (''fnft'', 6), (''fnft'', 7), (''fnft'', 8),
     (''fnft'', 9), (''fnft'', 10), (''fnft'', 11), (''fnft'', 12), (''fnft'', 13)]"

definition evm_errors :: "(string \<times> nat) list" where
  "evm_errors = [(''evm'', 1), (''evm'', 2), (''evm'', 3), (''evm'', 4), (''evm'', 5)]"

definition bazaar_errors :: "(string \<times> nat) list" where
  "bazaar_errors = [(''bazaar'', 1), (''bazaar'', 2), (''bazaar'', 3), (''bazaar'', 4), (''bazaar'', 5), (''bazaar'', 6), (''bazaar'', 7), (''bazaar'', 8),
     (''bazaar'', 9), (''bazaar'', 10), (''bazaar'', 11), (''bazaar'', 12)]"

definition svm_errors :: "(string \<times> nat) list" where
  "svm_errors = [(''svm'', 1), (''svm'', 2)]"

definition flux_errors :: "(string \<times> nat) list" where
  "flux_errors = [(''flux'', 3)]"

definition all_errors :: "(string \<times> nat) list" where
  "all_errors = fnft_errors @ evm_errors @ bazaar_errors @ svm_errors @ flux_errors"

lemma register_errors_distinct:
  "distinct es \<Longrightarrow> set es \<inter> set used = {} \<Longrightarrow> register_errors used es = Inr (used @ es)"
  by (induction es arbitrary: used) (auto simp: register_error_def)

lemma all_errors_distinct: "distinct all_errors"
  by (simp add: all_errors_def fnft_errors_def evm_errors_def bazaar_errors_def svm_errors_def flux_errors_def)

text \<open>The packages are initialised in some order; whichever it is, no registration of a code panics.\<close>

lemma error_registration_never_panics:
  "set es = set all_errors \<Longrightarrow> length es = length all_errors \<Longrightarrow> register_errors [] es = Inr es"
  using all_errors_distinct register_errors_distinct [of es "[]"]
  by (metis append_Nil card_distinct distinct_card inf_bot_right list.set(1))

section \<open>Registries\<close>

text \<open>
  An interface registry by the names of its interfaces and the implementations of each; a Go type is the name of
  its package and its own.  \<open>S\<close> stands for \<open>msgservice.RegisterMsgServiceDesc\<close>, on the methods of a service with the types of
  their requests.
\<close>

type_synonym go_type = "string \<times> string"

type_synonym service = "(string \<times> go_type) list"

record iregistry =
  ir_names :: "(string \<times> string) list"
  ir_impls :: "(string \<times> go_type) list"

definition empty_registry :: iregistry where
  "empty_registry = \<lparr>ir_names = [], ir_impls = []\<rparr>"

definition register_interface :: "string \<Rightarrow> string \<Rightarrow> iregistry \<Rightarrow> iregistry" where
  "register_interface n iface R = R\<lparr>ir_names := ir_names R @ [(n, iface)]\<rparr>"

definition register_implementations :: "string \<Rightarrow> go_type list \<Rightarrow> iregistry \<Rightarrow> iregistry" where
  "register_implementations iface ts R = R\<lparr>ir_impls := ir_impls R @ map (Pair iface) ts\<rparr>"

text \<open>The Amino codec, by the types and the names they are registered under; its two operations.\<close>

type_synonym amino = "(go_type \<times> string) list"

record amino_lib =
  amino_concrete :: "go_type \<Rightarrow> string \<Rightarrow> amino \<Rightarrow> amino res"
  amino_msg :: "go_type \<Rightarrow> string \<Rightarrow> amino \<Rightarrow> amino res"

fun run_all :: "('a \<Rightarrow> 'a res) list \<Rightarrow> 'a \<Rightarrow> 'a res" where
  "run_all [] x = Inr x"
| "run_all (f # fs) x = bind_res (f x) (run_all fs)"

text \<open>A type and a name that are both new are accepted, by \<open>RegisterAminoMsg\<close> if the name has at most 39 characters.\<close>

definition amino_accepts_new :: "amino_lib \<Rightarrow> bool" where
  "amino_accepts_new A \<longleftrightarrow>
     (\<forall>t n cdc. t \<notin> fst ` set cdc \<longrightarrow> n \<notin> snd ` set cdc \<longrightarrow>
        amino_concrete A t n cdc = Inr (cdc @ [(t, n)]) \<and>
        (length n < 40 \<longrightarrow> amino_msg A t n cdc = Inr (cdc @ [(t, n)])))"

section \<open>The modules\<close>

definition astromesh_msg_service :: service where
  "astromesh_msg_service =
     [(''ChargeVmAccount'', (''astromesh'', ''MsgChargeVmAccount'')), (''DrainVmAccount'', (''astromesh'', ''MsgDrainVmAccount'')),
      (''AstroTransfer'', (''astromesh'', ''MsgAstroTransfer'')), (''FISTransaction'', (''astromesh'', ''MsgFISTransaction'')),
      (''CreateBankDenom'', (''astromesh'', ''MsgCreateBankDenom''))]"

definition astromesh_register_interfaces :: "(service \<Rightarrow> iregistry \<Rightarrow> iregistry) \<Rightarrow> iregistry \<Rightarrow> iregistry" where
  "astromesh_register_interfaces S R =
     S astromesh_msg_service (register_implementations ''sdk.Msg''
       [(''astromesh'', ''MsgChargeVmAccount''), (''astromesh'', ''MsgDrainVmAccount''), (''astromesh'', ''MsgAstroTransfer''), (''astromesh'', ''MsgFISTransaction'')] R)"

definition astromesh_register_amino :: "amino_lib \<Rightarrow> amino \<Rightarrow> amino res" where
  "astromesh_register_amino A =
     run_all
     [amino_concrete A (''astromesh'', ''MsgChargeVmAccount'') ''astromesh/MsgChargeVmAccount'',
      amino_concrete A (''astromesh'', ''MsgDrainVmAccountResponse'') ''astromesh/MsgDrainVmAccount'',
      amino_concrete A (''astromesh'', ''MsgAstroTransfer'') ''astromesh/MsgAstroTransfer'',
      amino_concrete A (''astromesh'', ''MsgFISTransaction'') ''astromesh/MsgFISTransaction'']"

definition bazaar_msg_service :: service where
  "bazaar_msg_service =
     [(''CreateProduct'', (''bazaar'', ''MsgCreateProduct'')), (''PurchaseOffering'', (''bazaar'', ''MsgPurchaseOffering'')),
      (''VerifyProduct'', (''bazaar'', ''MsgVerifyProduct''))]"

definition bazaar_register_interfaces :: "(service \<Rightarrow> iregistry \<Rightarrow> iregistry) \<Rightarrow> iregistry \<Rightarrow> iregistry" where
  "bazaar_register_interfaces S R =
     S bazaar_msg_service (register_implementations ''govtypes.Content''
       [(''bazaar'', ''ClassCommissionsProposal''), (''bazaar'', ''VerifiersProposal'')] (register_implementations ''sdk.Msg''
       [(''bazaar'', ''MsgCreateProduct''), (''bazaar'', ''MsgPurchaseOffering'')] R))"

definition bazaar_register_amino :: "amino_lib \<Rightarrow> amino \<Rightarrow> amino res" where
  "bazaar_register_amino A =
     run_all
     [amino_concrete A (''bazaar'', ''MsgCreateProduct'') ''bazaar/MsgCreateProduct'',
      amino_concrete A (''bazaar'', ''MsgVerifyProduct'') ''bazaar/MsgVerifyProduct'',
      amino_concrete A (''bazaar'', ''MsgPurchaseOffering'') ''bazaar/MsgPurchaseOffering'']"

definition evm_msg_service :: service where
  "evm_msg_service =
     [(''DeployContract'', (''evm'', ''MsgDeployContract'')), (''ExecuteContract'', (''evm'', ''MsgExecuteContract''))]"

definition evm_register_interfaces :: "(service \<Rightarrow> iregistry \<Rightarrow> iregistry) \<Rightarrow> iregistry \<Rightarrow> iregistry" where
  "evm_register_interfaces S R =
     S evm_msg_service (register_implementations ''sdk.Msg''
       [(''evm'', ''MsgDeployContract''), (''evm'', ''MsgExecuteContract'')] R)"

definition evm_register_amino :: "amino_lib \<Rightarrow> amino \<Rightarrow> amino res" where
  "evm_register_amino A =
     run_all
     [amino_concrete A (''evm'', ''MsgDeployContract'') ''evm/MsgDeployContract'',
      amino_concrete A (''evm'', ''MsgExecuteContract'') ''evm/MsgExecuteContract'']"

definition fnft_msg_service :: service where
  "fnft_msg_service =
     [(''Create'', (''fnft'', ''MsgCreate'')), (''PurchaseShares'', (''fnft'', ''MsgPurchaseShares'')),
      (''TransferShares'', (''fnft'', ''MsgTransferShares'')), (''DepositShares'', (''fnft'', ''MsgDepositShares'')),
      (''WithdrawShares'', (''fnft'', ''MsgWithdrawShares'')), (''Sponsor'', (''fnft'', ''MsgSponsor''))]"

definition fnft_register_interfaces :: "(service \<Rightarrow> iregistry \<Rightarrow> iregistry) \<Rightarrow> iregistry \<Rightarrow> iregistry" where
  "fnft_register_interfaces S R =
     S fnft_msg_service (register_implementations ''sdk.Msg''
       [(''fnft'', ''MsgCreate''), (''fnft'', ''MsgPurchaseShares''), (''fnft'', ''MsgTransferShares''), (''fnft'', ''MsgSponsor'')] R)"

definition fnft_register_amino :: "amino_lib \<Rightarrow> amino \<Rightarrow> amino res" where
  "fnft_register_amino A =
     run_all
     [amino_msg A (''fnft'', ''MsgCreate'') ''fnft/MsgCreate'',
      amino_msg A (''fnft'', ''MsgSponsor'') ''fnft/MsgSponsor'',
      amino_msg A (''fnft'', ''MsgPurchaseShares'') ''fnft/MsgPurchaseShares'',
      amino_msg A (''fnft'', ''MsgTransferShares'') ''fnft/MsgTransferShares'',
      amino_msg A (''fnft'', ''MsgWithdrawShares'') ''fnft/MsgWithdrawShares'',
      amino_msg A (''fnft'', ''MsgDepositShares'') ''fnft/MsgDepositShares'']"

definition interpool_msg_service :: service where
  "interpool_msg_service =
     [(''CreatePool'', (''interpool'', ''MsgCreatePool'')), (''UpdatePool'', (''interpool'', ''MsgUpdatePool'')),
      (''Deposit'', (''interpool'', ''MsgDeposit'')), (''Withdraw'', (''interpool'', ''MsgWithdraw'')),
      (''WithdrawCommissionFees'', (''interpool'', ''MsgWithdrawCommissionFee''))]"

definition interpool_register_interfaces :: "(service \<Rightarrow> iregistry \<Rightarrow> iregistry) \<Rightarrow> iregistry \<Rightarrow> iregistry" where
  "interpool_register_interfaces S R =
     S interpool_msg_service (register_implementations ''sdk.Msg''
       [(''interpool'', ''MsgCreatePool''), (''interpool'', ''MsgUpdatePool''), (''interpool'', ''MsgDeposit''), (''interpool'', ''MsgWithdraw'')] R)"

definition interpool_register_amino :: "amino_lib \<Rightarrow> amino \<Rightarrow> amino res" where
  "interpool_register_amino A =
     run_all
     [amino_concrete A (''interpool'', ''MsgCreatePool'') ''interpool/MsgCreatePool'',
      amino_concrete A (''interpool'', ''MsgUpdatePool'') ''interpool/MsgUpdatePool'',
      amino_concrete A (''interpool'', ''MsgDeposit'') ''interpool/MsgDeposit'',
      amino_concrete A (''interpool'', ''MsgWithdraw'') ''interpool/MsgWithdraw'']"

definition oracle_msg_service :: service where
  "oracle_msg_service =
     [(''PushSimpleEntry'', (''oracle'', ''MsgPushSimpleEntry''))]"

definition oracle_register_interfaces :: "(service \<Rightarrow> iregistry \<Rightarrow> iregistry) \<Rightarrow> iregistry \<Rightarrow> iregistry" where
  "oracle_register_interfaces S R =
     S oracle_msg_service (register_implementations ''sdk.Msg''
       [(''oracle'', ''MsgPushSimpleEntry'')] R)"

definition oracle_register_amino :: "amino_lib \<Rightarrow> amino \<Rightarrow> amino res" where
  "oracle_register_amino A =
     run_all
     [amino_concrete A (''oracle'', ''MsgPushSimpleEntry'') ''oracle/MsgPushSimpleEntry'']"

definition strategy_msg_service :: service where
  "strategy_msg_service =
     [(''ConfigStrategy'', (''strategy'', ''MsgConfigStrategy'')), (''TriggerStrategies'', (''strategy'', ''MsgTriggerStrategies'')),
      (''VerifyStrategy'', (''strategy'', ''MsgVerifyStrategy'')), (''SetVerifier'', (''strategy'', ''MsgSetVerifier''))]"

definition strategy_register_interfaces :: "(service \<Rightarrow> iregistry \<Rightarrow> iregistry) \<Rightarrow> iregistry \<Rightarrow> iregistry" where
  "strategy_register_interfaces S R =
     S strategy_msg_service (register_implementations ''sdk.Msg''
       [(''strategy'', ''MsgConfigStrategy''), (''strategy'', ''MsgTriggerStrategies'')] R)"

definition strategy_register_amino :: "amino_lib \<Rightarrow> amino \<Rightarrow> amino res" where
  "strategy_register_amino A =
     run_all
     [amino_concrete A (''strategy'', ''MsgConfigStrategy'') ''oracle/MsgConfigStrategy'',
      amino_concrete A (''strategy'', ''MsgTriggerStrategies'') ''oracle/MsgTriggerStrategies'']"

definition svm_msg_service :: service where
  "svm_msg_service =
     [(''LinkSVMAccount'', (''svm'', ''MsgLinkSVMAccount'')), (''Transact'', (''svm'', ''MsgTransaction''))]"

definition svm_register_interfaces :: "(service \<Rightarrow> iregistry \<Rightarrow> iregistry) \<Rightarrow> iregistry \<Rightarrow> iregistry" where
  "svm_register_interfaces S R =
     S svm_msg_service (register_implementations ''sdk.Msg''
       [(''svm'', ''MsgLinkSVMAccount''), (''svm'', ''MsgTransaction'')] R)"

definition svm_register_amino :: "amino_lib \<Rightarrow> amino \<Rightarrow> amino res" where
  "svm_register_amino A =
     run_all
     [amino_concrete A (''svm'', ''MsgLinkSVMAccount'') ''svm/MsgLinkSVMAccount'',
      amino_concrete A (''svm'', ''MsgTransaction'') ''svm/MsgTransaction'']"

section \<open>The registry of the client\<close>

definition flux_register_interfaces :: "iregistry \<Rightarrow> iregistry" where
  "flux_register_interfaces R =
     register_implementations ''tx.TxExtensionOptionI'' [(''flux'', ''ExtensionOptionsWeb3Tx'')]
     (register_interface ''flux.types.v1beta1.ExtensionOptionsWeb3Tx'' ''tx.TxExtensionOptionI''
     (register_implementations ''authtypes.GenesisAccount'' [(''flux'', ''EthAccount'')]
     (register_implementations ''sdk.AccountI'' [(''flux'', ''EthAccount'')]
     (register_interface ''flux.types.v1beta1.EthAccount'' ''sdk.AccountI'' R))))"

text \<open>\<open>RegisterTypes\<close>: the SDK's standard interfaces, those of the chain, fnft and evm, then the SDK's modules.\<close>

definition register_types ::
  "(service \<Rightarrow> iregistry \<Rightarrow> iregistry) \<Rightarrow> (iregistry \<Rightarrow> iregistry) \<Rightarrow> (iregistry \<Rightarrow> iregistry) \<Rightarrow> iregistry" where
  "register_types S std sdk_modules =
     sdk_modules (evm_register_interfaces S (fnft_register_interfaces S (flux_register_interfaces (std empty_registry))))"

section \<open>What is registered\<close>

definition all_services :: service where
  "all_services =
     astromesh_msg_service @ bazaar_msg_service @ evm_msg_service @ fnft_msg_service @ interpool_msg_service @
     oracle_msg_service @ strategy_msg_service @ svm_msg_service"

definition register_all_amino :: "amino_lib \<Rightarrow> amino \<Rightarrow> amino res" where
  "register_all_amino A =
     run_all
      [astromesh_register_amino A, bazaar_register_amino A, evm_register_amino A, fnft_register_amino A,
       interpool_register_amino A, oracle_register_amino A, strategy_register_amino A, svm_register_amino A]"

lemmas service_defs =
  astromesh_msg_service_def bazaar_msg_service_def evm_msg_service_def fnft_msg_service_def
  interpool_msg_service_def oracle_msg_service_def strategy_msg_service_def svm_msg_service_def

lemmas amino_defs =
  astromesh_register_amino_def bazaar_register_amino_def evm_register_amino_def fnft_register_amino_def
  interpool_register_amino_def oracle_register_amino_def strategy_register_amino_def svm_register_amino_def

text \<open>Registrations of types and names that are all different succeed, one after the other.\<close>

definition registers :: "(amino \<Rightarrow> amino res) \<Rightarrow> go_type \<times> string \<Rightarrow> bool" where
  "registers f x \<longleftrightarrow> (\<forall>cdc. fst x \<notin> fst ` set cdc \<longrightarrow> snd x \<notin> snd ` set cdc \<longrightarrow> f cdc = Inr (cdc @ [x]))"

lemma concrete_registers: "amino_accepts_new A \<Longrightarrow> registers (amino_concrete A t n) (t, n)"
  unfolding amino_accepts_new_def registers_def fst_conv snd_conv by blast

lemma msg_registers: "amino_accepts_new A \<Longrightarrow> length n < 40 \<Longrightarrow> registers (amino_msg A t n) (t, n)"
  unfolding amino_accepts_new_def registers_def fst_conv snd_conv by blast

lemma run_all_append: "run_all (fs @ gs) x = bind_res (run_all fs x) (run_all gs)"
proof (induction fs arbitrary: x)
  case (Cons f fs)
  then have "run_all (fs @ gs) = (\<lambda>y. bind_res (run_all fs y) (run_all gs))" by blast
  then show ?case by (simp add: bind_res_assoc)
qed simp

lemma bind_res_Inr_right: "bind_res m Inr = m"
  by (cases m) simp_all

lemma run_all_fun:
  "run_all [] = Inr"
  "run_all (k # ks) = (\<lambda>x. bind_res (k x) (run_all ks))"
  "run_all (ks @ ls) = (\<lambda>x. bind_res (run_all ks x) (run_all ls))"
  by (simp_all add: fun_eq_iff run_all_append)

lemma run_all_nested:
  "run_all [run_all a, run_all b, run_all c, run_all d, run_all e, run_all f, run_all g, run_all h] x =
     run_all (a @ b @ c @ d @ e @ f @ g @ h) x"
  by (simp add: run_all_fun bind_res_Inr_right)

lemma run_all_registers:
  "list_all2 registers fs xs \<Longrightarrow> distinct (map fst (cdc @ xs)) \<Longrightarrow> distinct (map snd (cdc @ xs)) \<Longrightarrow>
     run_all fs cdc = Inr (cdc @ xs)"
proof (induction fs xs arbitrary: cdc rule: list_all2_induct)
  case (Cons f fs x xs)
  then have "f cdc = Inr (cdc @ [x])" by (simp add: registers_def)
  then show ?case using Cons.IH [of "cdc @ [x]"] Cons.prems by simp
qed simp

definition registered_amino :: amino where
  "registered_amino =
     [((''astromesh'', ''MsgChargeVmAccount''), ''astromesh/MsgChargeVmAccount''),
      ((''astromesh'', ''MsgDrainVmAccountResponse''), ''astromesh/MsgDrainVmAccount''),
      ((''astromesh'', ''MsgAstroTransfer''), ''astromesh/MsgAstroTransfer''),
      ((''astromesh'', ''MsgFISTransaction''), ''astromesh/MsgFISTransaction''),
      ((''bazaar'', ''MsgCreateProduct''), ''bazaar/MsgCreateProduct''),
      ((''bazaar'', ''MsgVerifyProduct''), ''bazaar/MsgVerifyProduct''),
      ((''bazaar'', ''MsgPurchaseOffering''), ''bazaar/MsgPurchaseOffering''),
      ((''evm'', ''MsgDeployContract''), ''evm/MsgDeployContract''),
      ((''evm'', ''MsgExecuteContract''), ''evm/MsgExecuteContract''),
      ((''fnft'', ''MsgCreate''), ''fnft/MsgCreate''),
      ((''fnft'', ''MsgSponsor''), ''fnft/MsgSponsor''),
      ((''fnft'', ''MsgPurchaseShares''), ''fnft/MsgPurchaseShares''),
      ((''fnft'', ''MsgTransferShares''), ''fnft/MsgTransferShares''),
      ((''fnft'', ''MsgWithdrawShares''), ''fnft/MsgWithdrawShares''),
      ((''fnft'', ''MsgDepositShares''), ''fnft/MsgDepositShares''),
      ((''interpool'', ''MsgCreatePool''), ''interpool/MsgCreatePool''),
      ((''interpool'', ''MsgUpdatePool''), ''interpool/MsgUpdatePool''),
      ((''interpool'', ''MsgDeposit''), ''interpool/MsgDeposit''),
      ((''interpool'', ''MsgWithdraw''), ''interpool/MsgWithdraw''),
      ((''oracle'', ''MsgPushSimpleEntry''), ''oracle/MsgPushSimpleEntry''),
      ((''strategy'', ''MsgConfigStrategy''), ''oracle/MsgConfigStrategy''),
      ((''strategy'', ''MsgTriggerStrategies''), ''oracle/MsgTriggerStrategies''),
      ((''svm'', ''MsgLinkSVMAccount''), ''svm/MsgLinkSVMAccount''),
      ((''svm'', ''MsgTransaction''), ''svm/MsgTransaction'')]"

lemma registered_amino_distinct: "distinct (map fst registered_amino) \<and> distinct (map snd registered_amino)"
  by code_simp

lemma register_all_amino_result:
  assumes "amino_accepts_new A"
  shows "register_all_amino A [] = Inr registered_amino"
proof -
  have "\<exists>fs. register_all_amino A [] = run_all fs [] \<and> list_all2 registers fs registered_amino"
    unfolding register_all_amino_def amino_defs registered_amino_def
    by (intro exI conjI, rule run_all_nested) (simp add: concrete_registers msg_registers assms)
  then show ?thesis
    using run_all_registers [of _ registered_amino "[]"] registered_amino_distinct by auto
qed

lemma amino_misses:
  "filter (\<lambda>t. t \<notin> set (map fst registered_amino)) (map snd all_services) =
     [(''astromesh'', ''MsgDrainVmAccount''), (''astromesh'', ''MsgCreateBankDenom''), (''interpool'', ''MsgWithdrawCommissionFee''),
      (''strategy'', ''MsgVerifyStrategy''), (''strategy'', ''MsgSetVerifier'')]"
  by code_simp

text \<open>
  C40. Not every message can be written as Amino JSON.  Registering all modules with a new codec succeeds (no type and
  no name is registered twice), but exactly five of the messages the modules serve have no Amino name
  afterwards; for one of them, \<open>MsgDrainVmAccount\<close>, the name was given to its response.
\<close>

theorem amino_registration_misses_messages:
  assumes "amino_accepts_new A"
  shows "\<exists>cdc. register_all_amino A [] = Inr cdc \<and>
    filter (\<lambda>t. t \<notin> fst ` set cdc) (map snd all_services) =
      [(''astromesh'', ''MsgDrainVmAccount''), (''astromesh'', ''MsgCreateBankDenom''), (''interpool'', ''MsgWithdrawCommissionFee''),
       (''strategy'', ''MsgVerifyStrategy''), (''strategy'', ''MsgSetVerifier'')] \<and>
    ((''astromesh'', ''MsgDrainVmAccountResponse''), ''astromesh/MsgDrainVmAccount'') \<in> set cdc"
proof (intro exI conjI)
  show "register_all_amino A [] = Inr registered_amino" by (rule register_all_amino_result [OF assms])
  show "filter (\<lambda>t. t \<notin> fst ` set registered_amino) (map snd all_services) =
      [(''astromesh'', ''MsgDrainVmAccount''), (''astromesh'', ''MsgCreateBankDenom''), (''interpool'', ''MsgWithdrawCommissionFee''),
       (''strategy'', ''MsgVerifyStrategy''), (''strategy'', ''MsgSetVerifier'')]"
    using amino_misses by (simp only: set_map)
qed (simp add: registered_amino_def)

text \<open>A codec that refuses what it has.\<close>

definition strict_amino :: amino_lib where
  "strict_amino =
     (let put = (\<lambda>t n cdc. if t \<in> set (map fst cdc) \<or> n \<in> set (map snd cdc) then Inl (Panic ''already registered'') else Inr (cdc @ [(t, n)]))
      in \<lparr>amino_concrete = put, amino_msg = (\<lambda>t n cdc. if length n \<ge> 40 then Inl (Panic ''name too long'') else put t n cdc)\<rparr>)"

lemma strict_amino_accepts_new: "amino_accepts_new strict_amino"
  by (auto simp: amino_accepts_new_def strict_amino_def Let_def)

theorem amino_registration_misses_messages_witness:
  "\<exists>cdc. register_all_amino strict_amino [] = Inr cdc \<and> (''strategy'', ''MsgSetVerifier'') \<notin> fst ` set cdc"
proof -
  have "(''strategy'', ''MsgSetVerifier'') \<in> set (map snd all_services)" by code_simp
  moreover have "(''strategy'', ''MsgSetVerifier'') \<in>
      set [(''astromesh'', ''MsgDrainVmAccount''), (''astromesh'', ''MsgCreateBankDenom''), (''interpool'', ''MsgWithdrawCommissionFee''),
       (''strategy'', ''MsgVerifyStrategy''), (''strategy'', ''MsgSetVerifier'')]" by simp
  ultimately show ?thesis
    using amino_registration_misses_messages [OF strict_amino_accepts_new] by (metis (no_types, lifting) mem_Collect_eq set_filter)
qed

text \<open>
  The interface registry has every message the modules serve, whether or not \<open>RegisterImplementations\<close> lists it,
  because \<open>RegisterMsgServiceDesc\<close> adds the requests of a service and removes nothing.
\<close>

definition registers_requests :: "(service \<Rightarrow> iregistry \<Rightarrow> iregistry) \<Rightarrow> bool" where
  "registers_requests S \<longleftrightarrow>
     (\<forall>svc R. set (ir_impls (S svc R)) = set (ir_impls R) \<union> (\<lambda>(m, t). (''sdk.Msg'', t)) ` set svc)"

lemma register_implementations_impls [simp]:
  "set (ir_impls (register_implementations i ts R)) = set (ir_impls R) \<union> Pair i ` set ts"
  by (simp add: register_implementations_def)

lemma unlisted_message_is_registered:
  assumes "registers_requests S"
  shows "(''sdk.Msg'', ''bazaar'', ''MsgVerifyProduct'') \<in> set (ir_impls (bazaar_register_interfaces S R))"
  using assms by (simp add: registers_requests_def bazaar_register_interfaces_def bazaar_msg_service_def)

text \<open>
  The client's registry has the messages of fnft and evm only, provided the SDK's own registrations add no type of these
  modules.
\<close>

definition leaves_modules :: "(iregistry \<Rightarrow> iregistry) \<Rightarrow> bool" where
  "leaves_modules f \<longleftrightarrow>
     (\<forall>R i m. m \<in> snd ` set all_services \<longrightarrow> ((i, m) \<in> set (ir_impls (f R))) = ((i, m) \<in> set (ir_impls R)))"

lemma listed_or_served:
  "set ts \<subseteq> snd ` set svc \<Longrightarrow>
     (i, t) \<in> A \<union> Pair i ` set ts \<union> (\<lambda>(m, t). (i, t)) ` set svc \<longleftrightarrow> (i, t) \<in> A \<or> t \<in> snd ` set svc"
  by force

lemma service_registered:
  assumes "registers_requests S" and "set ts \<subseteq> snd ` set svc"
  shows "(''sdk.Msg'', t) \<in> set (ir_impls (S svc (register_implementations ''sdk.Msg'' ts R))) \<longleftrightarrow>
    (''sdk.Msg'', t) \<in> set (ir_impls R) \<or> t \<in> snd ` set svc"
  using assms(1) listed_or_served [OF assms(2)]
  unfolding registers_requests_def by (simp only: register_implementations_impls)

lemma fnft_evm_modules:
  "list_all (\<lambda>t. (t \<in> set (map snd fnft_msg_service) \<or> t \<in> set (map snd evm_msg_service)) = (fst t \<in> {''fnft'', ''evm''}))
     (map snd all_services)"
  by code_simp

lemma client_registry_messages:
  assumes "registers_requests S" and "leaves_modules std" and "leaves_modules sdk_modules"
    and "t \<in> snd ` set all_services"
  shows "(''sdk.Msg'', t) \<in> set (ir_impls (register_types S std sdk_modules)) \<longleftrightarrow> fst t \<in> {''fnft'', ''evm''}"
proof -
  have start: "\<And>R. ((''sdk.Msg'', t) \<in> set (ir_impls (std R))) = ((''sdk.Msg'', t) \<in> set (ir_impls R))"
    and finish: "\<And>R. ((''sdk.Msg'', t) \<in> set (ir_impls (sdk_modules R))) = ((''sdk.Msg'', t) \<in> set (ir_impls R))"
    using assms(2-4) unfolding leaves_modules_def by blast+
  have flux: "((''sdk.Msg'', t) \<in> set (ir_impls (flux_register_interfaces R))) = ((''sdk.Msg'', t) \<in> set (ir_impls R))" for R
    by (simp add: flux_register_interfaces_def register_interface_def register_implementations_def)
  have "(''sdk.Msg'', t) \<in> set (ir_impls (register_types S std sdk_modules)) \<longleftrightarrow>
      t \<in> snd ` set fnft_msg_service \<or> t \<in> snd ` set evm_msg_service"
    unfolding register_types_def finish evm_register_interfaces_def fnft_register_interfaces_def
    by (subst service_registered [OF assms(1)], simp add: evm_msg_service_def,
        subst service_registered [OF assms(1)], simp add: fnft_msg_service_def) (simp add: flux start empty_registry_def)
  also have "\<dots> \<longleftrightarrow> fst t \<in> {''fnft'', ''evm''}"
    using bspec [OF fnft_evm_modules [unfolded list_all_iff set_map] assms(4)] .
  finally show ?thesis .
qed

end
