(* ===== verification/Spec2Isabelle.thy ===== *)
theory Spec2Isabelle
  imports Typed_Format Ante_Handler Svm_Signing Client_Session Chain_Types Strategy_Msgs
    Drift_Accounts Drift_Instructions Raydium_Swap Gateway_Services Registration
begin

text \<open>
  A model of the Flux SDK for Go: the part of the chain that admits transactions, the validation of
  the modules' messages, and the client that builds, signs and broadcasts them.

  The parts of the program and how they interact.  A user signs a Cosmos transaction with an
  Ethereum key (a web3 transaction) or with Cosmos keys.  On the chain, the ante handler
  (\<open>chain/app/ante/ante.go\<close>) chooses a chain of decorators by the transaction's extension option;
  the web3 chain deducts the fee from the declared payer (\<open>fee.go\<close>), rebuilds the EIP-712 typed data
  of the transaction's messages (\<open>eip712_cosmos.go\<close>), hashes it
  (\<open>typeddata/typed_data.go\<close>) and verifies each signature against it (\<open>eip712.go\<close>); both chains then
  check SVM messages (\<open>modules/svm/ante/svm.go\<close>).  Each module validates its messages
  (\<open>ValidateBasic\<close> under \<open>chain/modules\<close>).  The client (\<open>client/chain/chain.go\<close>) keeps an account
  nonce, signs and broadcasts single calls and batches; the SVM helpers (\<open>client/svm\<close>) turn Solana
  programs and instructions into Cosmos messages and sign for several accounts.

  Conventions.  A Go function with an error result is a function to \<open>'a res\<close>: a value, a returned error (with the
  constant part of its text) or a panic (theory Prelude).  Bytes and machine integers are words of their
  width; strings are byte strings; maps are association lists in one of their iteration orders,
  and what is proved holds for each of them.  Functions of packages outside the repository (the
  Cosmos SDK, go-ethereum, solana-go, the binary and JSON libraries, the node) are fields of
  records given to the definitions, and what is used of their behaviour is a named hypothesis with a concrete
  instance.  Logging, metrics and contexts are left out.

  The theories.
  \<^item> Prelude, Go_Strings: results, checks and loops over them, strings, decimal and hexadecimal
    conversions.
  \<^item> Typed_Types, Typed_Data, Typed_Format (\<open>typed_data.go\<close>): the type tables, the dependency closure and
    type strings; values, encoding and hashing; the display of typed data.  The lemmas show that
    the type string is that of EIP-712, that encodings have the declared layout, that hashing never
    panics, and which values and displays go wrong.
  \<^item> Eip712_Wrap (\<open>eip712_cosmos.go\<close>): the reflective walk from a message to its types; it never
    redefines the transaction's types.
  \<^item> Cosmos_Base, Eip712_Verify, Ante_Fee, Svm_Types, Svm_Ante, Ante_Handler: transactions and
    decorators under the contract \<open>ante_decorator\<close>, signature verification, fees and gas, SVM messages
    and their conversion from Solana transactions, the SVM decorator, and the composed handler.  The
    properties say who has signed and who pays for an accepted transaction.
  \<^item> Module_Msgs, Strategy_Msgs: validation, signers and genesis of the modules fnft, bazaar, evm,
    oracle, astromesh, interpool and strategy (a \<open>math.Int\<close> may be nil, and comparing it panics), the contract \<open>signed_message\<close>, and the declarative
    description of the accepted strategies.
  \<^item> Chain_Types (\<open>chain/types\<close>): chain identifiers, account JSON, base58 bytes, prefixes.
  \<^item> Byte_Codec, Svm_Upload, Pyth_Instructions (\<open>client/svm\<close>): codecs under the contracts
    \<open>byte_codec\<close> and \<open>bin_library\<close>; the upload of a program in chunks, whose replay rebuilds the program;
    the oracle's instructions, whose data reads back.
  \<^item> Anchor_Codec: what the bindings of Solana programs share: structs written and read field by field, accounts
    behind a discriminator (\<open>account_codec\<close>), account slots, and instruction data behind a type id
    (\<open>anchor_program\<close>).  Drift_Enums, Drift_Types, Drift_Accounts, Drift_Instructions
    (\<open>client/svm/drift\<close>) and Raydium_Swap (\<open>client/svm/raydium_cp_swap\<close>) instantiate it: a
    record for each struct, account and instruction with its codec in the order of the code, the slots with their
    flags, validation and constructors.  The lemmas show that every struct, account and instruction reads
    back, that no account is read as another kind, which signatures a
    constructed instruction needs, and what is refused or goes wrong.
  \<^item> Chain_Client, Batch_Queue, Client_Setup (\<open>client/chain\<close>, \<open>client/common\<close>, \<open>client/tm\<close>,
    \<open>chain/eventstream\<close>): nonce, retry and waiting; the message queue as a step relation over all interleavings of
    callers, timers and closing, with the invariant that accounts for every message, and
    a trace refinement of an abstract pipe; options, construction, block queries and the write-ahead log under the contract \<open>wal\<close>.
  \<^item> Client_Session (\<open>client/chain\<close>, \<open>chain/types/client.go\<close>): the session cookie, which is never
    renewed, the queries, the gas fee and the signing context.
  \<^item> Svm_Signing (\<open>helper.go\<close>): multi-signer transactions, account links and the initialisation of an
    oracle.
  \<^item> Gateway (the shape of a gateway and its laws), Gateway_Chain and Gateway_Indexer (\<open>*.pb.gw.go\<close>: every
    method's requests, patterns and routes, the registrations of every service), Gateway_Services: serving in
    process and over a connection answers alike, and the query string overrides the path only through the JSON
    names of fields, which the filters do not list.
  \<^item> Registration (\<open>codec.go\<close> and \<open>errors.go\<close> of every module): which messages have an Amino name, what the
    interface registries know, and that no error code is registered twice.

  Bounds and recursion.  The traversals of types and values, the encoders, the chunk loop of the upload
  and the template reader terminate by measures on their data; \<open>Base58Bytes.Bytes\<close> is a partial
  function because it does not.  The only fuel is in the removal of white space, where the length of
  the string is enough because each step removes a character.  The queue's bounds (1024 messages,
  100000000 signals) are the program's.  The wait for inclusion is a list of the polls before the
  deadline.

  Not modelled.  Protobuf messages, which are generated code without logic of the program; the
  display of Solana instructions as trees; the containers of the data-carrying enumerations of Drift,
  which no code uses.  Keeper interfaces, which are only declarations, and \<open>init\<close> functions that
  only call the SDK.  Dialling and certificates.  The examples.  JSON and YAML texts are represented
  by the structs they are read into, and floating-point arithmetic is left to parameters.
\<close>

end
